(* ===== verification/Prelude.thy ===== *)
theory Prelude
  imports Main "HOL-Library.Char_ord"
begin

text \<open>
  Shared ground of the development: the hint collections, generic lemmas on lists and tables, and
  the model of Rust text.

  A Rust \<open>str\<close> is modelled by the list of its Unicode scalar values (\<open>ustr\<close>); \<open>chars\<close> walks that
  list, and \<open>len\<close>, which counts bytes, is \<open>byte_len\<close>, the sum of the UTF-8 lengths. Static ASCII
  literals of the source are written \<open>lit ''...''\<close>. A database table is the list of its rows in
  insertion order; \<open>UPDATE ... WHERE\<close>, \<open>DELETE ... WHERE\<close> and \<open>SELECT\<close> of one row are
  \<open>update_where\<close>, \<open>delete_where\<close> and \<open>find_row\<close>.
\<close>

named_theorems text_defs \<open>definitions of the text operations, for evaluation on closed input\<close>
named_theorems table_simps \<open>rewrite rules for the table operations\<close>
named_theorems op_defs \<open>definitions of the database operations\<close>

section \<open>Text\<close>

type_synonym uchar = nat
type_synonym ustr = "uchar list"

definition lit :: "string \<Rightarrow> ustr" where
  "lit s = map of_char s"

definition is_control :: "uchar \<Rightarrow> bool" where
  "is_control c \<longleftrightarrow> c < 32 \<or> (127 \<le> c \<and> c < 160)"

definition is_white :: "uchar \<Rightarrow> bool" where
  "is_white c \<longleftrightarrow> (9 \<le> c \<and> c \<le> 13) \<or> c = 32 \<or> c = 133 \<or> c = 160 \<or> c = 5760
     \<or> (8192 \<le> c \<and> c \<le> 8202) \<or> c = 8232 \<or> c = 8233 \<or> c = 8239 \<or> c = 8287 \<or> c = 12288"

definition is_ascii_digit :: "uchar \<Rightarrow> bool" where
  "is_ascii_digit c \<longleftrightarrow> 48 \<le> c \<and> c \<le> 57"

definition is_ascii_upper :: "uchar \<Rightarrow> bool" where
  "is_ascii_upper c \<longleftrightarrow> 65 \<le> c \<and> c \<le> 90"

definition is_ascii_lower :: "uchar \<Rightarrow> bool" where
  "is_ascii_lower c \<longleftrightarrow> 97 \<le> c \<and> c \<le> 122"

definition is_ascii_alpha :: "uchar \<Rightarrow> bool" where
  "is_ascii_alpha c \<longleftrightarrow> is_ascii_upper c \<or> is_ascii_lower c"

definition is_ascii_alnum :: "uchar \<Rightarrow> bool" where
  "is_ascii_alnum c \<longleftrightarrow> is_ascii_alpha c \<or> is_ascii_digit c"

definition ascii_lower :: "uchar \<Rightarrow> uchar" where
  "ascii_lower c = (if is_ascii_upper c then c + 32 else c)"

definition ascii_upper :: "uchar \<Rightarrow> uchar" where
  "ascii_upper c = (if is_ascii_lower c then c - 32 else c)"

definition utf8_len :: "uchar \<Rightarrow> nat" where
  "utf8_len c = (if c < 128 then 1 else if c < 2048 then 2 else if c < 65536 then 3 else 4)"

definition byte_len :: "ustr \<Rightarrow> nat" where
  "byte_len s = sum_list (map utf8_len s)"

text \<open>\<open>str::split\<close> on a predicate: always at least one segment.\<close>

fun split_on :: "(uchar \<Rightarrow> bool) \<Rightarrow> ustr \<Rightarrow> ustr list" where
  "split_on P [] = [[]]"
| "split_on P (c # cs) =
     (if P c then [] # split_on P cs
      else case split_on P cs of [] \<Rightarrow> [[c]] | seg # segs \<Rightarrow> (c # seg) # segs)"

fun join_with :: "ustr \<Rightarrow> ustr list \<Rightarrow> ustr" where
  "join_with sep [] = []"
| "join_with sep [x] = x"
| "join_with sep (x # y # xs) = x @ sep @ join_with sep (y # xs)"

definition trim_by :: "(uchar \<Rightarrow> bool) \<Rightarrow> ustr \<Rightarrow> ustr" where
  "trim_by P s = rev (dropWhile P (rev (dropWhile P s)))"

definition trim :: "ustr \<Rightarrow> ustr" where
  "trim s = trim_by is_white s"

definition starts_with :: "ustr \<Rightarrow> ustr \<Rightarrow> bool" where
  "starts_with pre s \<longleftrightarrow> take (length pre) s = pre"

definition strip_prefix :: "ustr \<Rightarrow> ustr \<Rightarrow> ustr option" where
  "strip_prefix pre s = (if starts_with pre s then Some (drop (length pre) s) else None)"

text \<open>\<open>str::rsplit_once\<close>: the parts before and after the last separator.\<close>

definition rsplit_once :: "uchar \<Rightarrow> ustr \<Rightarrow> (ustr \<times> ustr) option" where
  "rsplit_once c s =
     (if c \<in> set s
      then Some (rev (tl (dropWhile (\<lambda>x. x \<noteq> c) (rev s))), rev (takeWhile (\<lambda>x. x \<noteq> c) (rev s)))
      else None)"

declare lit_def [text_defs] is_control_def [text_defs] is_white_def [text_defs]
  is_ascii_digit_def [text_defs] is_ascii_upper_def [text_defs] is_ascii_lower_def [text_defs]
  is_ascii_alpha_def [text_defs] is_ascii_alnum_def [text_defs] ascii_lower_def [text_defs]
  ascii_upper_def [text_defs] utf8_len_def [text_defs] byte_len_def [text_defs]
  trim_by_def [text_defs] trim_def [text_defs] starts_with_def [text_defs]
  strip_prefix_def [text_defs] rsplit_once_def [text_defs]

lemma byte_len_simps [simp]:
  "byte_len [] = 0"
  "byte_len (c # s) = utf8_len c + byte_len s"
  "byte_len (s @ t) = byte_len s + byte_len t"
  by (simp_all add: byte_len_def)

lemma utf8_len_pos [simp]: "0 < utf8_len c"
  by (simp add: utf8_len_def)

lemma length_le_byte_len: "length s \<le> byte_len s"
proof (induction s)
  case (Cons c s)
  have "Suc 0 \<le> utf8_len c" using utf8_len_pos [of c] by (simp only: Suc_le_eq)
  with Cons show ?case by simp
qed simp

lemma split_on_not_Nil [simp]: "split_on P s \<noteq> []"
  by (induction s) (auto split: list.splits)

lemma split_on_segments: "seg \<in> set (split_on P s) \<Longrightarrow> \<forall>c\<in>set seg. \<not> P c"
proof (induction s arbitrary: seg)
  case (Cons c s)
  obtain x xs where "split_on P s = x # xs" by (cases "split_on P s") auto
  with Cons show ?case by (fastforce split: if_splits)
qed simp

lemma split_on_chars: "seg \<in> set (split_on P s) \<Longrightarrow> set seg \<subseteq> set s"
proof (induction s arbitrary: seg)
  case (Cons c s)
  obtain x xs where "split_on P s = x # xs" by (cases "split_on P s") auto
  with Cons show ?case by (fastforce split: if_splits)
qed simp

lemma split_on_single: "\<forall>c\<in>set s. \<not> P c \<Longrightarrow> split_on P s = [s]"
  by (induction s) auto

lemma split_on_append:
  "\<forall>c\<in>set s. \<not> P c \<Longrightarrow> P d \<Longrightarrow> split_on P (s @ d # t) = s # split_on P t"
  by (induction s) auto

text \<open>Splitting undoes joining when no part holds the separator.\<close>

lemma split_on_join:
  assumes "xs \<noteq> []" and "\<forall>x\<in>set xs. c \<notin> set x"
  shows "split_on (\<lambda>d. d = c) (join_with [c] xs) = xs"
  using assms
proof (induction "[c]" xs rule: join_with.induct)
  case (2 x)
  then show ?case by (auto intro!: split_on_single)
next
  case (3 x y xs)
  then have "split_on (\<lambda>d. d = c) (x @ c # join_with [c] (y # xs)) = x # (y # xs)"
    by (subst split_on_append) auto
  then show ?case by simp
qed simp

lemma join_split_on: "join_with [c] (split_on (\<lambda>d. d = c) s) = s"
proof (induction s)
  case (Cons d s)
  then show ?case
    by (cases "split_on (\<lambda>d. d = c) s" rule: list.exhaust; cases "tl (split_on (\<lambda>d. d = c) s)")
       auto
qed simp

lemma join_with_chars: "set (join_with sep xs) \<subseteq> set sep \<union> \<Union> (set ` set xs)"
  by (induction sep xs rule: join_with.induct) auto

lemma join_with_eq_Nil:
  "\<forall>x\<in>set xs. x \<noteq> [] \<Longrightarrow> join_with sep xs = [] \<longleftrightarrow> xs = []"
  by (induction sep xs rule: join_with.induct) auto

lemma join_with_append:
  "xs \<noteq> [] \<Longrightarrow> ys \<noteq> [] \<Longrightarrow> join_with sep (xs @ ys) = join_with sep xs @ sep @ join_with sep ys"
proof (induction sep xs rule: join_with.induct)
  case (2 sep x)
  then show ?case by (cases ys) auto
qed auto

lemma set_trim_by: "set (trim_by P s) \<subseteq> set s"
  by (auto simp: trim_by_def dest!: set_dropWhileD)

lemma byte_len_dropWhile: "byte_len (dropWhile P s) \<le> byte_len s"
  by (induction s) auto

lemma byte_len_rev [simp]: "byte_len (rev s) = byte_len s"
  by (induction s) auto

lemma byte_len_trim_by: "byte_len (trim_by P s) \<le> byte_len s"
  by (metis byte_len_dropWhile byte_len_rev order_trans trim_by_def)

lemma lit_eq_iff [simp]: "lit s = lit t \<longleftrightarrow> s = t"
proof
  assume "lit s = lit t"
  moreover have "inj (of_char :: char \<Rightarrow> nat)" by (simp add: inj_def)
  ultimately show "s = t" by (auto simp: lit_def inj_map_eq_map)
qed simp

lemma lit_eq_Nil_iff [simp]: "lit s = [] \<longleftrightarrow> s = []" "[] = lit s \<longleftrightarrow> s = []"
  by (auto simp: lit_def)

text \<open>Decimal rendering of a number, as \<open>format!\<close> writes it.\<close>

fun nat_str :: "nat \<Rightarrow> ustr" where
  "nat_str n = (if n < 10 then [48 + n] else nat_str (n div 10) @ [48 + n mod 10])"

declare nat_str.simps [simp del]

lemma nat_str_digits: "c \<in> set (nat_str n) \<Longrightarrow> is_ascii_digit c"
proof (induction n rule: nat_str.induct)
  case (1 n)
  then show ?case
    by (subst (asm) (2) nat_str.simps) (auto simp: is_ascii_digit_def split: if_splits)
qed

lemma nat_str_not_Nil [simp]: "nat_str n \<noteq> []" "[] \<noteq> nat_str n"
  using nat_str.simps [of n] by (auto split: if_splits)

lemma nat_str_inj: "nat_str m = nat_str n \<Longrightarrow> m = n"
proof (induction m arbitrary: n rule: nat_str.induct)
  case (1 m)
  note eq = 1(2)
  show ?case
  proof (cases "m < 10")
    case True
    then show ?thesis using eq nat_str.simps [of m] nat_str.simps [of n]
      by (auto split: if_splits)
  next
    case False
    then have "n \<ge> 10" using eq nat_str.simps [of m] nat_str.simps [of n] by (auto split: if_splits)
    with False eq have "nat_str (m div 10) = nat_str (n div 10)" and "m mod 10 = n mod 10"
      using nat_str.simps [of m] nat_str.simps [of n] by simp_all
    with 1(1) [OF False] have "m div 10 = n div 10" by blast
    with \<open>m mod 10 = n mod 10\<close> show ?thesis by (metis div_mult_mod_eq)
  qed
qed

section \<open>Tables\<close>

definition find_row :: "('r \<Rightarrow> bool) \<Rightarrow> 'r list \<Rightarrow> 'r option" where
  "find_row P rows = List.find P rows"

definition update_where :: "('r \<Rightarrow> bool) \<Rightarrow> ('r \<Rightarrow> 'r) \<Rightarrow> 'r list \<Rightarrow> 'r list" where
  "update_where P f rows = map (\<lambda>r. if P r then f r else r) rows"

definition delete_where :: "('r \<Rightarrow> bool) \<Rightarrow> 'r list \<Rightarrow> 'r list" where
  "delete_where P rows = filter (\<lambda>r. \<not> P r) rows"

definition count_where :: "('r \<Rightarrow> bool) \<Rightarrow> 'r list \<Rightarrow> nat" where
  "count_where P rows = length (filter P rows)"

definition any_row :: "('r \<Rightarrow> bool) \<Rightarrow> 'r list \<Rightarrow> bool" where
  "any_row P rows \<longleftrightarrow> list_ex P rows"

lemma find_row_Some [table_simps]:
  "find_row P rows = Some r \<Longrightarrow> r \<in> set rows \<and> P r"
  by (auto simp: find_row_def find_Some_iff)

lemma find_row_None [table_simps]: "find_row P rows = None \<longleftrightarrow> (\<forall>r\<in>set rows. \<not> P r)"
  by (auto simp: find_row_def find_None_iff)

lemma update_where_simps [simp]:
  "update_where P f [] = []"
  "update_where P f (r # rs) = (if P r then f r else r) # update_where P f rs"
  "length (update_where P f rows) = length rows"
  by (simp_all add: update_where_def)

lemma set_update_where [table_simps]:
  "set (update_where P f rows) = {r \<in> set rows. \<not> P r} \<union> f ` {r \<in> set rows. P r}"
  by (auto simp: update_where_def)

lemma map_update_where:
  "(\<And>r. P r \<Longrightarrow> g (f r) = g r) \<Longrightarrow> map g (update_where P f rows) = map g rows"
  by (simp add: update_where_def)

lemma update_where_none: "\<forall>r\<in>set rows. \<not> P r \<Longrightarrow> update_where P f rows = rows"
  by (simp add: update_where_def map_idI)

lemma set_delete_where [table_simps]: "set (delete_where P rows) = {r \<in> set rows. \<not> P r}"
  by (auto simp: delete_where_def)

lemma count_where_pos: "0 < count_where P rows \<longleftrightarrow> (\<exists>r\<in>set rows. P r)"
  by (auto simp: count_where_def filter_empty_conv)

lemma count_where_zero: "count_where P rows = 0 \<longleftrightarrow> (\<forall>r\<in>set rows. \<not> P r)"
  by (auto simp: count_where_def filter_empty_conv)

lemma any_row_iff [table_simps]: "any_row P rows \<longleftrightarrow> (\<exists>r\<in>set rows. P r)"
  by (simp add: any_row_def list_ex_iff)

text \<open>Rows with a key: reading by key, and keys under updates.\<close>

definition keyed :: "('r \<Rightarrow> 'k) \<Rightarrow> 'r list \<Rightarrow> bool" where
  "keyed key rows \<longleftrightarrow> distinct (map key rows)"

lemma keyed_unique:
  "keyed key rows \<Longrightarrow> r \<in> set rows \<Longrightarrow> s \<in> set rows \<Longrightarrow> key r = key s \<Longrightarrow> r = s"
  unfolding keyed_def by (metis distinct_map inj_onD)

lemma find_row_key:
  assumes "keyed key rows" and "r \<in> set rows"
  shows "find_row (\<lambda>x. key x = key r) rows = Some r"
proof (cases "find_row (\<lambda>x. key x = key r) rows")
  case None
  with assms(2) show ?thesis by (auto simp: table_simps)
next
  case (Some s)
  then have "s \<in> set rows" and "key s = key r" by (auto dest: find_row_Some)
  with assms have "s = r" by (intro keyed_unique [OF assms(1)])
  with Some show ?thesis by simp
qed

lemma keyed_update_where:
  "keyed key rows \<Longrightarrow> (\<And>r. P r \<Longrightarrow> key (f r) = key r) \<Longrightarrow> keyed key (update_where P f rows)"
  by (simp add: keyed_def map_update_where)

lemma keyed_snoc:
  "keyed key (rows @ [r]) \<longleftrightarrow> keyed key rows \<and> key r \<notin> key ` set rows"
  by (auto simp: keyed_def)

lemma keyed_delete_where: "keyed key rows \<Longrightarrow> keyed key (delete_where P rows)"
  by (simp add: keyed_def delete_where_def distinct_map_filter)

end
