(* ===== verification/Wire_Enums.thy ===== *)
theory Wire_Enums
  imports Prelude
begin

text \<open>
  The closed string enumerations of the domain crate (\<open>crates/core\<close>) and of the platform
  invitations: each is a datatype with the source's constructors, its \<open>as_str\<close> and its \<open>parse\<close>.
  What their users rely on is the interface \<open>wire_codec\<close>: the parser accepts exactly the rendered
  strings. The two enumerations whose parser never fails (\<open>from_str_lossy\<close>) follow
  \<open>lossy_codec\<close>: every unknown string reads as the column default.
\<close>

section \<open>The contracts\<close>

locale wire_codec =
  fixes enc :: "'a \<Rightarrow> ustr" and dec :: "ustr \<Rightarrow> 'a option"
  assumes dec_enc [simp]: "dec (enc x) = Some x"
    and enc_dec: "dec s = Some x \<Longrightarrow> enc x = s"
begin

lemma dec_iff: "dec s = Some x \<longleftrightarrow> s = enc x"
  using enc_dec by auto

lemma enc_inj: "enc x = enc y \<longleftrightarrow> x = y"
  by (metis dec_enc option.inject)

lemma dec_None: "dec s = None \<longleftrightarrow> s \<notin> range enc"
  by (metis dec_enc enc_dec not_None_eq option.distinct(1) rangeE rangeI)

text \<open>Reading back a stored column with a fallback returns what was stored.\<close>

lemma read_back: "(case dec (enc x) of None \<Rightarrow> d | Some y \<Rightarrow> y) = x"
  by simp

end

locale lossy_codec =
  fixes enc :: "'a \<Rightarrow> ustr" and dec :: "ustr \<Rightarrow> 'a" and dflt :: 'a
  assumes dec_enc [simp]: "dec (enc x) = x"
    and dec_other: "s \<notin> range enc \<Longrightarrow> dec s = dflt"
begin

lemma dec_cases: "enc (dec s) = s \<or> dec s = dflt"
  by (metis dec_enc dec_other rangeE)

lemma enc_inj: "enc x = enc y \<longleftrightarrow> x = y"
  by (metis dec_enc)

end

section \<open>The enumerations\<close>

datatype EntityKind = Epic | Issue

fun EntityKind_as_str :: "EntityKind \<Rightarrow> ustr" where
  "EntityKind_as_str EntityKind.Epic = lit ''epic''"
| "EntityKind_as_str EntityKind.Issue = lit ''issue''"

definition EntityKind_parse :: "ustr \<Rightarrow> EntityKind option" where
  "EntityKind_parse s =
     (if s = lit ''epic'' then Some EntityKind.Epic
      else if s = lit ''issue'' then Some EntityKind.Issue
      else None)"

interpretation entityKind: wire_codec EntityKind_as_str EntityKind_parse
proof
  show "EntityKind_parse (EntityKind_as_str x) = Some x" for x
    by (cases x) (simp_all add: EntityKind_parse_def)
  show "EntityKind_parse s = Some x \<Longrightarrow> EntityKind_as_str x = s" for s x
    by (auto simp: EntityKind_parse_def split: if_splits)
qed

datatype IssueCategory = CustomerRequest | Compliance | Security | Roadmap | TechnicalDebt | Operational | ResearchDiscovery | Other

fun IssueCategory_as_str :: "IssueCategory \<Rightarrow> ustr" where
  "IssueCategory_as_str IssueCategory.CustomerRequest = lit ''customer_request''"
| "IssueCategory_as_str IssueCategory.Compliance = lit ''compliance''"
| "IssueCategory_as_str IssueCategory.Security = lit ''security''"
| "IssueCategory_as_str IssueCategory.Roadmap = lit ''roadmap''"
| "IssueCategory_as_str IssueCategory.TechnicalDebt = lit ''technical_debt''"
| "IssueCategory_as_str IssueCategory.Operational = lit ''operational''"
| "IssueCategory_as_str IssueCategory.ResearchDiscovery = lit ''research_discovery''"
| "IssueCategory_as_str IssueCategory.Other = lit ''other''"

definition IssueCategory_parse :: "ustr \<Rightarrow> IssueCategory option" where
  "IssueCategory_parse s =
     (if s = lit ''customer_request'' then Some IssueCategory.CustomerRequest
      else if s = lit ''compliance'' then Some IssueCategory.Compliance
      else if s = lit ''security'' then Some IssueCategory.Security
      else if s = lit ''roadmap'' then Some IssueCategory.Roadmap
      else if s = lit ''technical_debt'' then Some IssueCategory.TechnicalDebt
      else if s = lit ''operational'' then Some IssueCategory.Operational
      else if s = lit ''research_discovery'' then Some IssueCategory.ResearchDiscovery
      else if s = lit ''other'' then Some IssueCategory.Other
      else None)"

interpretation issueCategory: wire_codec IssueCategory_as_str IssueCategory_parse
proof
  show "IssueCategory_parse (IssueCategory_as_str x) = Some x" for x
    by (cases x) (simp_all add: IssueCategory_parse_def)
  show "IssueCategory_parse s = Some x \<Longrightarrow> IssueCategory_as_str x = s" for s x
    by (auto simp: IssueCategory_parse_def split: if_splits)
qed

datatype Resolution = Fixed | WontDo | Duplicate | CannotReproduce

fun Resolution_as_str :: "Resolution \<Rightarrow> ustr" where
  "Resolution_as_str Resolution.Fixed = lit ''fixed''"
| "Resolution_as_str Resolution.WontDo = lit ''wont_do''"
| "Resolution_as_str Resolution.Duplicate = lit ''duplicate''"
| "Resolution_as_str Resolution.CannotReproduce = lit ''cannot_reproduce''"

definition Resolution_parse :: "ustr \<Rightarrow> Resolution option" where
  "Resolution_parse s =
     (if s = lit ''fixed'' then Some Resolution.Fixed
      else if s = lit ''wont_do'' then Some Resolution.WontDo
      else if s = lit ''duplicate'' then Some Resolution.Duplicate
      else if s = lit ''cannot_reproduce'' then Some Resolution.CannotReproduce
      else None)"

interpretation resolution: wire_codec Resolution_as_str Resolution_parse
proof
  show "Resolution_parse (Resolution_as_str x) = Some x" for x
    by (cases x) (simp_all add: Resolution_parse_def)
  show "Resolution_parse s = Some x \<Longrightarrow> Resolution_as_str x = s" for s x
    by (auto simp: Resolution_parse_def split: if_splits)
qed

datatype LinkType = Blocks | Relates | Duplicates

fun LinkType_as_str :: "LinkType \<Rightarrow> ustr" where
  "LinkType_as_str LinkType.Blocks = lit ''blocks''"
| "LinkType_as_str LinkType.Relates = lit ''relates''"
| "LinkType_as_str LinkType.Duplicates = lit ''duplicates''"

definition LinkType_parse :: "ustr \<Rightarrow> LinkType option" where
  "LinkType_parse s =
     (if s = lit ''blocks'' then Some LinkType.Blocks
      else if s = lit ''relates'' then Some LinkType.Relates
      else if s = lit ''duplicates'' then Some LinkType.Duplicates
      else None)"

interpretation linkType: wire_codec LinkType_as_str LinkType_parse
proof
  show "LinkType_parse (LinkType_as_str x) = Some x" for x
    by (cases x) (simp_all add: LinkType_parse_def)
  show "LinkType_parse s = Some x \<Longrightarrow> LinkType_as_str x = s" for s x
    by (auto simp: LinkType_parse_def split: if_splits)
qed

datatype TaxonomyKind = IssueStatus | IssueType | Priority | Size

fun TaxonomyKind_as_str :: "TaxonomyKind \<Rightarrow> ustr" where
  "TaxonomyKind_as_str TaxonomyKind.IssueStatus = lit ''issue_status''"
| "TaxonomyKind_as_str TaxonomyKind.IssueType = lit ''issue_type''"
| "TaxonomyKind_as_str TaxonomyKind.Priority = lit ''priority''"
| "TaxonomyKind_as_str TaxonomyKind.Size = lit ''size''"

definition TaxonomyKind_parse :: "ustr \<Rightarrow> TaxonomyKind option" where
  "TaxonomyKind_parse s =
     (if s = lit ''issue_status'' then Some TaxonomyKind.IssueStatus
      else if s = lit ''issue_type'' then Some TaxonomyKind.IssueType
      else if s = lit ''priority'' then Some TaxonomyKind.Priority
      else if s = lit ''size'' then Some TaxonomyKind.Size
      else None)"

interpretation taxonomyKind: wire_codec TaxonomyKind_as_str TaxonomyKind_parse
proof
  show "TaxonomyKind_parse (TaxonomyKind_as_str x) = Some x" for x
    by (cases x) (simp_all add: TaxonomyKind_parse_def)
  show "TaxonomyKind_parse s = Some x \<Longrightarrow> TaxonomyKind_as_str x = s" for s x
    by (auto simp: TaxonomyKind_parse_def split: if_splits)
qed

datatype EntryKind = Work | Meeting | Vacation | Illness | DayOff | Holiday

fun EntryKind_as_str :: "EntryKind \<Rightarrow> ustr" where
  "EntryKind_as_str EntryKind.Work = lit ''work''"
| "EntryKind_as_str EntryKind.Meeting = lit ''meeting''"
| "EntryKind_as_str EntryKind.Vacation = lit ''vacation''"
| "EntryKind_as_str EntryKind.Illness = lit ''illness''"
| "EntryKind_as_str EntryKind.DayOff = lit ''day_off''"
| "EntryKind_as_str EntryKind.Holiday = lit ''holiday''"

definition EntryKind_parse :: "ustr \<Rightarrow> EntryKind option" where
  "EntryKind_parse s =
     (if s = lit ''work'' then Some EntryKind.Work
      else if s = lit ''meeting'' then Some EntryKind.Meeting
      else if s = lit ''vacation'' then Some EntryKind.Vacation
      else if s = lit ''illness'' then Some EntryKind.Illness
      else if s = lit ''day_off'' then Some EntryKind.DayOff
      else if s = lit ''holiday'' then Some EntryKind.Holiday
      else None)"

interpretation entryKind: wire_codec EntryKind_as_str EntryKind_parse
proof
  show "EntryKind_parse (EntryKind_as_str x) = Some x" for x
    by (cases x) (simp_all add: EntryKind_parse_def)
  show "EntryKind_parse s = Some x \<Longrightarrow> EntryKind_as_str x = s" for s x
    by (auto simp: EntryKind_parse_def split: if_splits)
qed

datatype MeetingType = Daily | Planning | Troubleshooting | Retro | Refinement | Other

fun MeetingType_as_str :: "MeetingType \<Rightarrow> ustr" where
  "MeetingType_as_str MeetingType.Daily = lit ''daily''"
| "MeetingType_as_str MeetingType.Planning = lit ''planning''"
| "MeetingType_as_str MeetingType.Troubleshooting = lit ''troubleshooting''"
| "MeetingType_as_str MeetingType.Retro = lit ''retro''"
| "MeetingType_as_str MeetingType.Refinement = lit ''refinement''"
| "MeetingType_as_str MeetingType.Other = lit ''other''"

definition MeetingType_parse :: "ustr \<Rightarrow> MeetingType option" where
  "MeetingType_parse s =
     (if s = lit ''daily'' then Some MeetingType.Daily
      else if s = lit ''planning'' then Some MeetingType.Planning
      else if s = lit ''troubleshooting'' then Some MeetingType.Troubleshooting
      else if s = lit ''retro'' then Some MeetingType.Retro
      else if s = lit ''refinement'' then Some MeetingType.Refinement
      else if s = lit ''other'' then Some MeetingType.Other
      else None)"

interpretation meetingType: wire_codec MeetingType_as_str MeetingType_parse
proof
  show "MeetingType_parse (MeetingType_as_str x) = Some x" for x
    by (cases x) (simp_all add: MeetingType_parse_def)
  show "MeetingType_parse s = Some x \<Longrightarrow> MeetingType_as_str x = s" for s x
    by (auto simp: MeetingType_parse_def split: if_splits)
qed

datatype ReleaseStatus = Planned | InProgress | Released

fun ReleaseStatus_as_str :: "ReleaseStatus \<Rightarrow> ustr" where
  "ReleaseStatus_as_str ReleaseStatus.Planned = lit ''planned''"
| "ReleaseStatus_as_str ReleaseStatus.InProgress = lit ''in_progress''"
| "ReleaseStatus_as_str ReleaseStatus.Released = lit ''released''"

definition ReleaseStatus_parse :: "ustr \<Rightarrow> ReleaseStatus option" where
  "ReleaseStatus_parse s =
     (if s = lit ''planned'' then Some ReleaseStatus.Planned
      else if s = lit ''in_progress'' then Some ReleaseStatus.InProgress
      else if s = lit ''released'' then Some ReleaseStatus.Released
      else None)"

interpretation releaseStatus: wire_codec ReleaseStatus_as_str ReleaseStatus_parse
proof
  show "ReleaseStatus_parse (ReleaseStatus_as_str x) = Some x" for x
    by (cases x) (simp_all add: ReleaseStatus_parse_def)
  show "ReleaseStatus_parse s = Some x \<Longrightarrow> ReleaseStatus_as_str x = s" for s x
    by (auto simp: ReleaseStatus_parse_def split: if_splits)
qed

datatype Visibility = Private | Internal | PublicReadonly

fun Visibility_as_str :: "Visibility \<Rightarrow> ustr" where
  "Visibility_as_str Visibility.Private = lit ''private''"
| "Visibility_as_str Visibility.Internal = lit ''internal''"
| "Visibility_as_str Visibility.PublicReadonly = lit ''public_readonly''"

definition Visibility_parse :: "ustr \<Rightarrow> Visibility option" where
  "Visibility_parse s =
     (if s = lit ''private'' then Some Visibility.Private
      else if s = lit ''internal'' then Some Visibility.Internal
      else if s = lit ''public_readonly'' then Some Visibility.PublicReadonly
      else None)"

interpretation visibility: wire_codec Visibility_as_str Visibility_parse
proof
  show "Visibility_parse (Visibility_as_str x) = Some x" for x
    by (cases x) (simp_all add: Visibility_parse_def)
  show "Visibility_parse s = Some x \<Longrightarrow> Visibility_as_str x = s" for s x
    by (auto simp: Visibility_parse_def split: if_splits)
qed

datatype BoardVisibility = Personal | Shared

fun BoardVisibility_as_str :: "BoardVisibility \<Rightarrow> ustr" where
  "BoardVisibility_as_str BoardVisibility.Personal = lit ''personal''"
| "BoardVisibility_as_str BoardVisibility.Shared = lit ''shared''"

definition BoardVisibility_parse :: "ustr \<Rightarrow> BoardVisibility option" where
  "BoardVisibility_parse s =
     (if s = lit ''personal'' then Some BoardVisibility.Personal
      else if s = lit ''shared'' then Some BoardVisibility.Shared
      else None)"

interpretation boardVisibility: wire_codec BoardVisibility_as_str BoardVisibility_parse
proof
  show "BoardVisibility_parse (BoardVisibility_as_str x) = Some x" for x
    by (cases x) (simp_all add: BoardVisibility_parse_def)
  show "BoardVisibility_parse s = Some x \<Longrightarrow> BoardVisibility_as_str x = s" for s x
    by (auto simp: BoardVisibility_parse_def split: if_splits)
qed

datatype ArtifactKind = Recording | Transcript | Summary | Other

fun ArtifactKind_as_str :: "ArtifactKind \<Rightarrow> ustr" where
  "ArtifactKind_as_str ArtifactKind.Recording = lit ''recording''"
| "ArtifactKind_as_str ArtifactKind.Transcript = lit ''transcript''"
| "ArtifactKind_as_str ArtifactKind.Summary = lit ''summary''"
| "ArtifactKind_as_str ArtifactKind.Other = lit ''other''"

definition ArtifactKind_parse :: "ustr \<Rightarrow> ArtifactKind option" where
  "ArtifactKind_parse s =
     (if s = lit ''recording'' then Some ArtifactKind.Recording
      else if s = lit ''transcript'' then Some ArtifactKind.Transcript
      else if s = lit ''summary'' then Some ArtifactKind.Summary
      else if s = lit ''other'' then Some ArtifactKind.Other
      else None)"

interpretation artifactKind: wire_codec ArtifactKind_as_str ArtifactKind_parse
proof
  show "ArtifactKind_parse (ArtifactKind_as_str x) = Some x" for x
    by (cases x) (simp_all add: ArtifactKind_parse_def)
  show "ArtifactKind_parse s = Some x \<Longrightarrow> ArtifactKind_as_str x = s" for s x
    by (auto simp: ArtifactKind_parse_def split: if_splits)
qed

datatype PlatformInviteRole = User | Superadmin

fun PlatformInviteRole_as_str :: "PlatformInviteRole \<Rightarrow> ustr" where
  "PlatformInviteRole_as_str PlatformInviteRole.User = lit ''user''"
| "PlatformInviteRole_as_str PlatformInviteRole.Superadmin = lit ''superadmin''"

definition PlatformInviteRole_parse :: "ustr \<Rightarrow> PlatformInviteRole option" where
  "PlatformInviteRole_parse s =
     (if s = lit ''user'' then Some PlatformInviteRole.User
      else if s = lit ''superadmin'' then Some PlatformInviteRole.Superadmin
      else None)"

interpretation platformInviteRole: wire_codec PlatformInviteRole_as_str PlatformInviteRole_parse
proof
  show "PlatformInviteRole_parse (PlatformInviteRole_as_str x) = Some x" for x
    by (cases x) (simp_all add: PlatformInviteRole_parse_def)
  show "PlatformInviteRole_parse s = Some x \<Longrightarrow> PlatformInviteRole_as_str x = s" for s x
    by (auto simp: PlatformInviteRole_parse_def split: if_splits)
qed

datatype DocSourceKind = Git | Web

fun DocSourceKind_as_str :: "DocSourceKind \<Rightarrow> ustr" where
  "DocSourceKind_as_str DocSourceKind.Git = lit ''git''"
| "DocSourceKind_as_str DocSourceKind.Web = lit ''web''"

definition DocSourceKind_from_str_lossy :: "ustr \<Rightarrow> DocSourceKind" where
  "DocSourceKind_from_str_lossy s =
     (if s = lit ''web'' then DocSourceKind.Web
      else DocSourceKind.Git)"

interpretation docSourceKind: lossy_codec DocSourceKind_as_str DocSourceKind_from_str_lossy DocSourceKind.Git
proof
  show "DocSourceKind_from_str_lossy (DocSourceKind_as_str x) = x" for x
    by (cases x) (simp_all add: DocSourceKind_from_str_lossy_def)
  show "s \<notin> range DocSourceKind_as_str \<Longrightarrow> DocSourceKind_from_str_lossy s = DocSourceKind.Git" for s
    by (auto simp: DocSourceKind_from_str_lossy_def image_iff) (metis DocSourceKind_as_str.simps)+
qed

datatype CacheStatus = Pending | Syncing | Ready | Error

fun CacheStatus_as_str :: "CacheStatus \<Rightarrow> ustr" where
  "CacheStatus_as_str CacheStatus.Pending = lit ''pending''"
| "CacheStatus_as_str CacheStatus.Syncing = lit ''syncing''"
| "CacheStatus_as_str CacheStatus.Ready = lit ''ready''"
| "CacheStatus_as_str CacheStatus.Error = lit ''error''"

definition CacheStatus_from_str_lossy :: "ustr \<Rightarrow> CacheStatus" where
  "CacheStatus_from_str_lossy s =
     (if s = lit ''syncing'' then CacheStatus.Syncing
      else if s = lit ''ready'' then CacheStatus.Ready
      else if s = lit ''error'' then CacheStatus.Error
      else CacheStatus.Pending)"

interpretation cacheStatus: lossy_codec CacheStatus_as_str CacheStatus_from_str_lossy CacheStatus.Pending
proof
  show "CacheStatus_from_str_lossy (CacheStatus_as_str x) = x" for x
    by (cases x) (simp_all add: CacheStatus_from_str_lossy_def)
  show "s \<notin> range CacheStatus_as_str \<Longrightarrow> CacheStatus_from_str_lossy s = CacheStatus.Pending" for s
    by (auto simp: CacheStatus_from_str_lossy_def image_iff) (metis CacheStatus_as_str.simps)+
qed

text \<open>Which kinds carry which optional columns, and which entries are absences.\<close>

definition TaxonomyKind_has_closed :: "TaxonomyKind \<Rightarrow> bool" where
  "TaxonomyKind_has_closed k \<longleftrightarrow> k = IssueStatus"

definition TaxonomyKind_has_counts_as_done :: "TaxonomyKind \<Rightarrow> bool" where
  "TaxonomyKind_has_counts_as_done k \<longleftrightarrow> k = IssueStatus"

definition TaxonomyKind_has_new :: "TaxonomyKind \<Rightarrow> bool" where
  "TaxonomyKind_has_new k \<longleftrightarrow> k = IssueStatus"

definition TaxonomyKind_has_value :: "TaxonomyKind \<Rightarrow> bool" where
  "TaxonomyKind_has_value k \<longleftrightarrow> k = Size"

definition EntryKind_is_absence :: "EntryKind \<Rightarrow> bool" where
  "EntryKind_is_absence k \<longleftrightarrow> \<not> (k = EntryKind.Work \<or> k = EntryKind.Meeting)"

definition BoardVisibility_is_shared :: "BoardVisibility \<Rightarrow> bool" where
  "BoardVisibility_is_shared v \<longleftrightarrow> v = BoardVisibility.Shared"

definition DocSourceKind_is_git :: "DocSourceKind \<Rightarrow> bool" where
  "DocSourceKind_is_git k \<longleftrightarrow> k = DocSourceKind.Git"

text \<open>
  Every stored or wire string of the domain enumerations is read exactly: for entity kinds,
  issue categories, resolutions, link types, taxonomy kinds, time-entry kinds, meeting types,
  release statuses, project and board visibilities, meeting artifact kinds and platform invitation
  roles, the parser yields a constructor if and only if the input is that constructor's own string.
  So no two constructors share a string, nothing else (no other case, no surrounding blanks)
  parses, and what is written is read back.
\<close>
theorem enum_strings_exact:
  "(EntityKind_parse s = Some ek \<longleftrightarrow> s = EntityKind_as_str ek) \<and>
   (IssueCategory_parse s = Some ic \<longleftrightarrow> s = IssueCategory_as_str ic) \<and>
   (Resolution_parse s = Some rs \<longleftrightarrow> s = Resolution_as_str rs) \<and>
   (LinkType_parse s = Some lt \<longleftrightarrow> s = LinkType_as_str lt) \<and>
   (TaxonomyKind_parse s = Some tk \<longleftrightarrow> s = TaxonomyKind_as_str tk) \<and>
   (EntryKind_parse s = Some nk \<longleftrightarrow> s = EntryKind_as_str nk) \<and>
   (MeetingType_parse s = Some mt \<longleftrightarrow> s = MeetingType_as_str mt) \<and>
   (ReleaseStatus_parse s = Some st \<longleftrightarrow> s = ReleaseStatus_as_str st) \<and>
   (Visibility_parse s = Some vi \<longleftrightarrow> s = Visibility_as_str vi) \<and>
   (BoardVisibility_parse s = Some bv \<longleftrightarrow> s = BoardVisibility_as_str bv) \<and>
   (ArtifactKind_parse s = Some ak \<longleftrightarrow> s = ArtifactKind_as_str ak) \<and>
   (PlatformInviteRole_parse s = Some pr \<longleftrightarrow> s = PlatformInviteRole_as_str pr)"
  by (intro conjI entityKind.dec_iff issueCategory.dec_iff resolution.dec_iff linkType.dec_iff
      taxonomyKind.dec_iff entryKind.dec_iff meetingType.dec_iff releaseStatus.dec_iff
      visibility.dec_iff boardVisibility.dec_iff artifactKind.dec_iff platformInviteRole.dec_iff)

end
