(* ===== verification/Perms.thy ===== *)
theory Perms
  imports Wire_Enums
begin

text \<open>
  The permission catalogue and the default role matrix (\<open>crates/core/src/perms.rs\<close>).
  \<open>Permission_serde_name\<close> holds the strings of the \<open>serde(rename)\<close> attributes, which the JSON
  column \<open>roles.permissions\<close> is written and read with; \<open>Permission_as_str\<close> is the explicit table
  used by the checks. \<open>permissions_to_json\<close> and \<open>permissions_from_json\<close> are the list codec; an
  unknown string makes the whole list unreadable, as \<open>serde_json::from_value\<close> does.
\<close>

section \<open>The catalogue\<close>

datatype Permission =
    ProjectView | ProjectModify | ProjectDelete | ProjectAdmin | MemberView | MemberAdd | MemberRemove |
    MemberModifyRole | RoleView | RoleCreate | RoleModify | RoleDelete | EpicView | EpicCreate |
    EpicModify | EpicDelete | IssueView | IssueCreate | IssueModify | IssueDelete | MilestoneView |
    MilestoneCreate | MilestoneModify | MilestoneDelete | MilestoneBusinessReleaseView |
    MilestoneBusinessReleaseModify | WikiView | WikiCreate | WikiModify | WikiDelete | DocSourceView |
    DocSourceCreate | DocSourceModify | DocSourceDelete | CommentCreate | CommentModerate |
    AttachmentCreate | AttachmentDelete | TimeLog | TimeViewAll | TimeManage | TaxonomyCreate |
    TaxonomyModify | TaxonomyDelete | LabelCreate | LabelModify | LabelDelete | ComponentCreate |
    ComponentModify | ComponentDelete | RepositoryCreate | RepositoryModify | RepositoryDelete |
    CustomerCreate | CustomerModify | CustomerDelete | ReleaseCreate | ReleaseModify | ReleaseDelete |
    BoardSharedCreate | BoardSharedModify | BoardSharedDelete | MeetingView | MeetingCreate |
    MeetingModify | MeetingDelete

primrec Permission_serde_name :: "Permission \<Rightarrow> ustr" where
  "Permission_serde_name ProjectView = lit ''project.view''"
| "Permission_serde_name ProjectModify = lit ''project.modify''"
| "Permission_serde_name ProjectDelete = lit ''project.delete''"
| "Permission_serde_name ProjectAdmin = lit ''project.admin''"
| "Permission_serde_name MemberView = lit ''member.view''"
| "Permission_serde_name MemberAdd = lit ''member.add''"
| "Permission_serde_name MemberRemove = lit ''member.remove''"
| "Permission_serde_name MemberModifyRole = lit ''member.modify_role''"
| "Permission_serde_name RoleView = lit ''role.view''"
| "Permission_serde_name RoleCreate = lit ''role.create''"
| "Permission_serde_name RoleModify = lit ''role.modify''"
| "Permission_serde_name RoleDelete = lit ''role.delete''"
| "Permission_serde_name EpicView = lit ''epic.view''"
| "Permission_serde_name EpicCreate = lit ''epic.create''"
| "Permission_serde_name EpicModify = lit ''epic.modify''"
| "Permission_serde_name EpicDelete = lit ''epic.delete''"
| "Permission_serde_name IssueView = lit ''issue.view''"
| "Permission_serde_name IssueCreate = lit ''issue.create''"
| "Permission_serde_name IssueModify = lit ''issue.modify''"
| "Permission_serde_name IssueDelete = lit ''issue.delete''"
| "Permission_serde_name MilestoneView = lit ''milestone.view''"
| "Permission_serde_name MilestoneCreate = lit ''milestone.create''"
| "Permission_serde_name MilestoneModify = lit ''milestone.modify''"
| "Permission_serde_name MilestoneDelete = lit ''milestone.delete''"
| "Permission_serde_name MilestoneBusinessReleaseView = lit ''milestone.business_release.view''"
| "Permission_serde_name MilestoneBusinessReleaseModify = lit ''milestone.business_release.modify''"
| "Permission_serde_name WikiView = lit ''wiki.view''"
| "Permission_serde_name WikiCreate = lit ''wiki.create''"
| "Permission_serde_name WikiModify = lit ''wiki.modify''"
| "Permission_serde_name WikiDelete = lit ''wiki.delete''"
| "Permission_serde_name DocSourceView = lit ''doc_source.view''"
| "Permission_serde_name DocSourceCreate = lit ''doc_source.create''"
| "Permission_serde_name DocSourceModify = lit ''doc_source.modify''"
| "Permission_serde_name DocSourceDelete = lit ''doc_source.delete''"
| "Permission_serde_name CommentCreate = lit ''comment.create''"
| "Permission_serde_name CommentModerate = lit ''comment.moderate''"
| "Permission_serde_name AttachmentCreate = lit ''attachment.create''"
| "Permission_serde_name AttachmentDelete = lit ''attachment.delete''"
| "Permission_serde_name TimeLog = lit ''time.log''"
| "Permission_serde_name TimeViewAll = lit ''time.view_all''"
| "Permission_serde_name TimeManage = lit ''time.manage''"
| "Permission_serde_name TaxonomyCreate = lit ''taxonomy.create''"
| "Permission_serde_name TaxonomyModify = lit ''taxonomy.modify''"
| "Permission_serde_name TaxonomyDelete = lit ''taxonomy.delete''"
| "Permission_serde_name LabelCreate = lit ''label.create''"
| "Permission_serde_name LabelModify = lit ''label.modify''"
| "Permission_serde_name LabelDelete = lit ''label.delete''"
| "Permission_serde_name ComponentCreate = lit ''component.create''"
| "Permission_serde_name ComponentModify = lit ''component.modify''"
| "Permission_serde_name ComponentDelete = lit ''component.delete''"
| "Permission_serde_name RepositoryCreate = lit ''repository.create''"
| "Permission_serde_name RepositoryModify = lit ''repository.modify''"
| "Permission_serde_name RepositoryDelete = lit ''repository.delete''"
| "Permission_serde_name CustomerCreate = lit ''customer.create''"
| "Permission_serde_name CustomerModify = lit ''customer.modify''"
| "Permission_serde_name CustomerDelete = lit ''customer.delete''"
| "Permission_serde_name ReleaseCreate = lit ''release.create''"
| "Permission_serde_name ReleaseModify = lit ''release.modify''"
| "Permission_serde_name ReleaseDelete = lit ''release.delete''"
| "Permission_serde_name BoardSharedCreate = lit ''board.shared.create''"
| "Permission_serde_name BoardSharedModify = lit ''board.shared.modify''"
| "Permission_serde_name BoardSharedDelete = lit ''board.shared.delete''"
| "Permission_serde_name MeetingView = lit ''meeting.view''"
| "Permission_serde_name MeetingCreate = lit ''meeting.create''"
| "Permission_serde_name MeetingModify = lit ''meeting.modify''"
| "Permission_serde_name MeetingDelete = lit ''meeting.delete''"

primrec Permission_as_str :: "Permission \<Rightarrow> ustr" where
  "Permission_as_str ProjectView = lit ''project.view''"
| "Permission_as_str ProjectModify = lit ''project.modify''"
| "Permission_as_str ProjectDelete = lit ''project.delete''"
| "Permission_as_str ProjectAdmin = lit ''project.admin''"
| "Permission_as_str MemberView = lit ''member.view''"
| "Permission_as_str MemberAdd = lit ''member.add''"
| "Permission_as_str MemberRemove = lit ''member.remove''"
| "Permission_as_str MemberModifyRole = lit ''member.modify_role''"
| "Permission_as_str RoleView = lit ''role.view''"
| "Permission_as_str RoleCreate = lit ''role.create''"
| "Permission_as_str RoleModify = lit ''role.modify''"
| "Permission_as_str RoleDelete = lit ''role.delete''"
| "Permission_as_str EpicView = lit ''epic.view''"
| "Permission_as_str EpicCreate = lit ''epic.create''"
| "Permission_as_str EpicModify = lit ''epic.modify''"
| "Permission_as_str EpicDelete = lit ''epic.delete''"
| "Permission_as_str IssueView = lit ''issue.view''"
| "Permission_as_str IssueCreate = lit ''issue.create''"
| "Permission_as_str IssueModify = lit ''issue.modify''"
| "Permission_as_str IssueDelete = lit ''issue.delete''"
| "Permission_as_str MilestoneView = lit ''milestone.view''"
| "Permission_as_str MilestoneCreate = lit ''milestone.create''"
| "Permission_as_str MilestoneModify = lit ''milestone.modify''"
| "Permission_as_str MilestoneDelete = lit ''milestone.delete''"
| "Permission_as_str MilestoneBusinessReleaseView = lit ''milestone.business_release.view''"
| "Permission_as_str MilestoneBusinessReleaseModify = lit ''milestone.business_release.modify''"
| "Permission_as_str WikiView = lit ''wiki.view''"
| "Permission_as_str WikiCreate = lit ''wiki.create''"
| "Permission_as_str WikiModify = lit ''wiki.modify''"
| "Permission_as_str WikiDelete = lit ''wiki.delete''"
| "Permission_as_str DocSourceView = lit ''doc_source.view''"
| "Permission_as_str DocSourceCreate = lit ''doc_source.create''"
| "Permission_as_str DocSourceModify = lit ''doc_source.modify''"
| "Permission_as_str DocSourceDelete = lit ''doc_source.delete''"
| "Permission_as_str CommentCreate = lit ''comment.create''"
| "Permission_as_str CommentModerate = lit ''comment.moderate''"
| "Permission_as_str AttachmentCreate = lit ''attachment.create''"
| "Permission_as_str AttachmentDelete = lit ''attachment.delete''"
| "Permission_as_str TimeLog = lit ''time.log''"
| "Permission_as_str TimeViewAll = lit ''time.view_all''"
| "Permission_as_str TimeManage = lit ''time.manage''"
| "Permission_as_str TaxonomyCreate = lit ''taxonomy.create''"
| "Permission_as_str TaxonomyModify = lit ''taxonomy.modify''"
| "Permission_as_str TaxonomyDelete = lit ''taxonomy.delete''"
| "Permission_as_str LabelCreate = lit ''label.create''"
| "Permission_as_str LabelModify = lit ''label.modify''"
| "Permission_as_str LabelDelete = lit ''label.delete''"
| "Permission_as_str ComponentCreate = lit ''component.create''"
| "Permission_as_str ComponentModify = lit ''component.modify''"
| "Permission_as_str ComponentDelete = lit ''component.delete''"
| "Permission_as_str RepositoryCreate = lit ''repository.create''"
| "Permission_as_str RepositoryModify = lit ''repository.modify''"
| "Permission_as_str RepositoryDelete = lit ''repository.delete''"
| "Permission_as_str CustomerCreate = lit ''customer.create''"
| "Permission_as_str CustomerModify = lit ''customer.modify''"
| "Permission_as_str CustomerDelete = lit ''customer.delete''"
| "Permission_as_str ReleaseCreate = lit ''release.create''"
| "Permission_as_str ReleaseModify = lit ''release.modify''"
| "Permission_as_str ReleaseDelete = lit ''release.delete''"
| "Permission_as_str BoardSharedCreate = lit ''board.shared.create''"
| "Permission_as_str BoardSharedModify = lit ''board.shared.modify''"
| "Permission_as_str BoardSharedDelete = lit ''board.shared.delete''"
| "Permission_as_str MeetingView = lit ''meeting.view''"
| "Permission_as_str MeetingCreate = lit ''meeting.create''"
| "Permission_as_str MeetingModify = lit ''meeting.modify''"
| "Permission_as_str MeetingDelete = lit ''meeting.delete''"

definition Permission_ALL :: "Permission list" where
  "Permission_ALL =
   [
    ProjectView, ProjectModify, ProjectDelete, ProjectAdmin, MemberView, MemberAdd, MemberRemove,
    MemberModifyRole, RoleView, RoleCreate, RoleModify, RoleDelete, EpicView, EpicCreate,
    EpicModify, EpicDelete, IssueView, IssueCreate, IssueModify, IssueDelete, MilestoneView,
    MilestoneCreate, MilestoneModify, MilestoneDelete, MilestoneBusinessReleaseView,
    MilestoneBusinessReleaseModify, WikiView, WikiCreate, WikiModify, WikiDelete, DocSourceView,
    DocSourceCreate, DocSourceModify, DocSourceDelete, CommentCreate, CommentModerate,
    AttachmentCreate, AttachmentDelete, TimeLog, TimeViewAll, TimeManage, TaxonomyCreate,
    TaxonomyModify, TaxonomyDelete, LabelCreate, LabelModify, LabelDelete, ComponentCreate,
    ComponentModify, ComponentDelete, RepositoryCreate, RepositoryModify, RepositoryDelete,
    CustomerCreate, CustomerModify, CustomerDelete, ReleaseCreate, ReleaseModify, ReleaseDelete,
    BoardSharedCreate, BoardSharedModify, BoardSharedDelete, MeetingView, MeetingCreate,
    MeetingModify, MeetingDelete]"

text \<open>The derived order compares the declaration positions.\<close>

primrec Permission_index :: "Permission \<Rightarrow> nat" where
  "Permission_index ProjectView = 0"
| "Permission_index ProjectModify = 1"
| "Permission_index ProjectDelete = 2"
| "Permission_index ProjectAdmin = 3"
| "Permission_index MemberView = 4"
| "Permission_index MemberAdd = 5"
| "Permission_index MemberRemove = 6"
| "Permission_index MemberModifyRole = 7"
| "Permission_index RoleView = 8"
| "Permission_index RoleCreate = 9"
| "Permission_index RoleModify = 10"
| "Permission_index RoleDelete = 11"
| "Permission_index EpicView = 12"
| "Permission_index EpicCreate = 13"
| "Permission_index EpicModify = 14"
| "Permission_index EpicDelete = 15"
| "Permission_index IssueView = 16"
| "Permission_index IssueCreate = 17"
| "Permission_index IssueModify = 18"
| "Permission_index IssueDelete = 19"
| "Permission_index MilestoneView = 20"
| "Permission_index MilestoneCreate = 21"
| "Permission_index MilestoneModify = 22"
| "Permission_index MilestoneDelete = 23"
| "Permission_index MilestoneBusinessReleaseView = 24"
| "Permission_index MilestoneBusinessReleaseModify = 25"
| "Permission_index WikiView = 26"
| "Permission_index WikiCreate = 27"
| "Permission_index WikiModify = 28"
| "Permission_index WikiDelete = 29"
| "Permission_index DocSourceView = 30"
| "Permission_index DocSourceCreate = 31"
| "Permission_index DocSourceModify = 32"
| "Permission_index DocSourceDelete = 33"
| "Permission_index CommentCreate = 34"
| "Permission_index CommentModerate = 35"
| "Permission_index AttachmentCreate = 36"
| "Permission_index AttachmentDelete = 37"
| "Permission_index TimeLog = 38"
| "Permission_index TimeViewAll = 39"
| "Permission_index TimeManage = 40"
| "Permission_index TaxonomyCreate = 41"
| "Permission_index TaxonomyModify = 42"
| "Permission_index TaxonomyDelete = 43"
| "Permission_index LabelCreate = 44"
| "Permission_index LabelModify = 45"
| "Permission_index LabelDelete = 46"
| "Permission_index ComponentCreate = 47"
| "Permission_index ComponentModify = 48"
| "Permission_index ComponentDelete = 49"
| "Permission_index RepositoryCreate = 50"
| "Permission_index RepositoryModify = 51"
| "Permission_index RepositoryDelete = 52"
| "Permission_index CustomerCreate = 53"
| "Permission_index CustomerModify = 54"
| "Permission_index CustomerDelete = 55"
| "Permission_index ReleaseCreate = 56"
| "Permission_index ReleaseModify = 57"
| "Permission_index ReleaseDelete = 58"
| "Permission_index BoardSharedCreate = 59"
| "Permission_index BoardSharedModify = 60"
| "Permission_index BoardSharedDelete = 61"
| "Permission_index MeetingView = 62"
| "Permission_index MeetingCreate = 63"
| "Permission_index MeetingModify = 64"
| "Permission_index MeetingDelete = 65"

instantiation Permission :: linorder
begin

definition less_eq_Permission :: "Permission \<Rightarrow> Permission \<Rightarrow> bool" where
  "p \<le> q \<longleftrightarrow> Permission_index p \<le> Permission_index q"

definition less_Permission :: "Permission \<Rightarrow> Permission \<Rightarrow> bool" where
  "p < q \<longleftrightarrow> Permission_index p < Permission_index q"

lemma Permission_ALL_nth: "Permission_ALL ! Permission_index p = p"
  by (cases p) (simp_all add: Permission_ALL_def)

lemma Permission_index_inj: "Permission_index p = Permission_index q \<longleftrightarrow> p = q"
  by (metis Permission_ALL_nth)

instance
proof
  show "p < q \<longleftrightarrow> p \<le> q \<and> \<not> q \<le> p" for p q :: Permission
    by (auto simp: less_eq_Permission_def less_Permission_def)
  show "p \<le> p" for p :: Permission
    by (simp add: less_eq_Permission_def)
  show "p \<le> q \<Longrightarrow> q \<le> r \<Longrightarrow> p \<le> r" for p q r :: Permission
    by (simp add: less_eq_Permission_def)
  show "p \<le> q \<Longrightarrow> q \<le> p \<Longrightarrow> p = q" for p q :: Permission
    by (simp add: less_eq_Permission_def Permission_index_inj flip: eq_iff)
  show "p \<le> q \<or> q \<le> p" for p q :: Permission
    by (auto simp: less_eq_Permission_def)
qed

end

text \<open>\<open>rsplit('.').next()\<close>: the last dot-separated segment.\<close>

definition last_segment :: "ustr \<Rightarrow> ustr" where
  "last_segment s = last (split_on (\<lambda>c. c = 46) s)"

definition is_read :: "Permission \<Rightarrow> bool" where
  "is_read p \<longleftrightarrow> p = TimeViewAll \<or> last_segment (Permission_as_str p) = lit ''view''"

definition is_superadmin_grant :: "Permission \<Rightarrow> bool" where
  "is_superadmin_grant p \<longleftrightarrow>
     is_read p \<or> p = MemberAdd \<or> p = MemberModifyRole \<or> p = MemberRemove"

definition Permission_from_serde :: "ustr \<Rightarrow> Permission option" where
  "Permission_from_serde s = List.find (\<lambda>p. Permission_serde_name p = s) Permission_ALL"

definition permissions_to_json :: "Permission list \<Rightarrow> ustr list" where
  "permissions_to_json ps = map Permission_serde_name ps"

fun permissions_from_json :: "ustr list \<Rightarrow> Permission list option" where
  "permissions_from_json [] = Some []"
| "permissions_from_json (s # ss) =
     (case Permission_from_serde s of
        None \<Rightarrow> None
      | Some p \<Rightarrow> map_option ((#) p) (permissions_from_json ss))"

section \<open>The default roles\<close>

record DefaultRole =
  dr_slug :: ustr
  dr_name :: ustr
  dr_order :: int
  dr_is_admin :: bool
  dr_permissions :: "Permission list"

definition all_view :: "Permission list" where
  "all_view =
     filter (\<lambda>p. \<not> (p = MilestoneBusinessReleaseView \<or> p = MeetingView))
       (filter (\<lambda>p. last_segment (Permission_as_str p) = lit ''view'') Permission_ALL)"

definition developer_perms :: "Permission list" where
  "developer_perms = remdups_adj (sort (all_view @
   [
    EpicCreate, EpicModify, IssueCreate, IssueModify, MilestoneCreate, MilestoneModify,
    WikiCreate, WikiModify, DocSourceModify, CommentCreate, AttachmentCreate, AttachmentDelete,
    TimeLog, MeetingView, MeetingCreate, MeetingModify]))"

definition product_owner_perms :: "Permission list" where
  "product_owner_perms = remdups_adj (sort (developer_perms @
   [
    ProjectModify, BoardSharedCreate, BoardSharedModify, BoardSharedDelete, MemberView,
    MemberAdd, MemberRemove, MemberModifyRole, RoleView, RoleCreate, RoleModify, RoleDelete,
    EpicDelete, IssueDelete, MilestoneDelete, MilestoneBusinessReleaseView,
    MilestoneBusinessReleaseModify, WikiDelete, DocSourceCreate, DocSourceDelete,
    CommentModerate, TimeViewAll, TaxonomyCreate, TaxonomyModify, TaxonomyDelete, LabelCreate,
    LabelModify, LabelDelete, ComponentCreate, ComponentModify, ComponentDelete,
    RepositoryCreate, RepositoryModify, RepositoryDelete, CustomerCreate, CustomerModify,
    CustomerDelete, ReleaseCreate, ReleaseModify, ReleaseDelete, MeetingDelete]))"

definition default_roles :: "DefaultRole list" where
  "default_roles =
     [\<lparr>dr_slug = lit ''admin'', dr_name = lit ''Administrator'', dr_order = 1,
       dr_is_admin = True, dr_permissions = Permission_ALL\<rparr>,
      \<lparr>dr_slug = lit ''product_owner'', dr_name = lit ''Product Owner'', dr_order = 2,
       dr_is_admin = False, dr_permissions = product_owner_perms\<rparr>,
      \<lparr>dr_slug = lit ''dev'', dr_name = lit ''Developer'', dr_order = 3,
       dr_is_admin = False, dr_permissions = developer_perms\<rparr>,
      \<lparr>dr_slug = lit ''stakeholder'', dr_name = lit ''Stakeholder'', dr_order = 4,
       dr_is_admin = False, dr_permissions = all_view\<rparr>]"

section \<open>Facts about the catalogue\<close>

lemma Permission_ALL_length: "length Permission_ALL = 66"
  by (simp add: Permission_ALL_def)

lemma Permission_ALL_complete [simp]: "p \<in> set Permission_ALL"
  by (cases p) (simp_all add: Permission_ALL_def)

lemma Permission_ALL_index: "map Permission_index Permission_ALL = [0..<66]"
  by (simp add: Permission_ALL_def upt_rec)

lemma Permission_ALL_distinct: "distinct Permission_ALL"
  by (metis Permission_ALL_index distinct_map distinct_upt)

lemma serde_name_as_str: "Permission_serde_name p = Permission_as_str p"
  by (cases p) simp_all

text \<open>
  The strings are compared through their source literals; injectivity comes from the distinct list
  of all of them.
\<close>

lemma as_str_ALL_distinct: "distinct (map Permission_as_str Permission_ALL)"
  by (simp add: Permission_ALL_def)

lemma as_str_inj: "Permission_as_str p = Permission_as_str q \<longleftrightarrow> p = q"
  using as_str_ALL_distinct by (metis Permission_ALL_complete distinct_map inj_onD)

lemma from_serde_name: "Permission_from_serde (Permission_serde_name p) = Some p"
proof (cases "Permission_from_serde (Permission_serde_name p)")
  case None
  then show ?thesis
    using Permission_ALL_complete [of p]
    unfolding Permission_from_serde_def find_None_iff by blast
next
  case (Some q)
  then show ?thesis
    by (auto simp: Permission_from_serde_def find_Some_iff serde_name_as_str as_str_inj)
qed

lemma from_serde_sound: "Permission_from_serde s = Some p \<Longrightarrow> Permission_serde_name p = s"
  by (auto simp: Permission_from_serde_def find_Some_iff)

interpretation permission: wire_codec Permission_serde_name Permission_from_serde
  by unfold_locales (rule from_serde_name, rule from_serde_sound)

lemma permissions_roundtrip [simp]: "permissions_from_json (permissions_to_json ps) = Some ps"
  by (induction ps) (simp_all add: permissions_to_json_def)

lemma permissions_from_json_sound:
  "permissions_from_json ss = Some ps \<Longrightarrow> permissions_to_json ps = ss"
  by (induction ss arbitrary: ps)
     (auto simp: permissions_to_json_def permission.enc_dec split: option.splits)

lemma all_view_eval:
  "all_view =
     [ProjectView, MemberView, RoleView, EpicView, IssueView, MilestoneView, WikiView,
      DocSourceView]"
  by (simp add: all_view_def Permission_ALL_def last_segment_def lit_def)

lemma set_developer_perms:
  "set developer_perms = set all_view \<union>
     {EpicCreate, EpicModify, IssueCreate, IssueModify, MilestoneCreate, MilestoneModify,
      WikiCreate, WikiModify, DocSourceModify, CommentCreate, AttachmentCreate, AttachmentDelete,
      TimeLog, MeetingView, MeetingCreate, MeetingModify}"
  by (auto simp: developer_perms_def)

lemma set_product_owner_perms:
  "set product_owner_perms = set developer_perms \<union>
     {ProjectModify, BoardSharedCreate, BoardSharedModify, BoardSharedDelete, MemberView,
      MemberAdd, MemberRemove, MemberModifyRole, RoleView, RoleCreate, RoleModify, RoleDelete,
      EpicDelete, IssueDelete, MilestoneDelete, MilestoneBusinessReleaseView,
      MilestoneBusinessReleaseModify, WikiDelete, DocSourceCreate, DocSourceDelete,
      CommentModerate, TimeViewAll, TaxonomyCreate, TaxonomyModify, TaxonomyDelete, LabelCreate,
      LabelModify, LabelDelete, ComponentCreate, ComponentModify, ComponentDelete,
      RepositoryCreate, RepositoryModify, RepositoryDelete, CustomerCreate, CustomerModify,
      CustomerDelete, ReleaseCreate, ReleaseModify, ReleaseDelete, MeetingDelete}"
  by (auto simp: product_owner_perms_def)

lemma sorted_dedup: "sorted xs \<Longrightarrow> distinct (remdups_adj xs) \<and> sorted (remdups_adj xs)"
  by (induction xs rule: remdups_adj.induct) (auto simp: less_le)

lemmas role_sets = set_developer_perms set_product_owner_perms all_view_eval

lemma is_read_list:
  "filter is_read Permission_ALL =
     [ProjectView, MemberView, RoleView, EpicView, IssueView, MilestoneView,
      MilestoneBusinessReleaseView, WikiView, DocSourceView, TimeViewAll, MeetingView]"
  by (simp add: Permission_ALL_def is_read_def last_segment_def lit_def)

lemma is_read_iff:
  "is_read p \<longleftrightarrow> p \<in> {ProjectView, MemberView, RoleView, EpicView, IssueView, MilestoneView,
      MilestoneBusinessReleaseView, WikiView, DocSourceView, TimeViewAll, MeetingView}"
proof -
  have "is_read p \<longleftrightarrow> p \<in> set (filter is_read Permission_ALL)" by simp
  then show ?thesis by (simp only: is_read_list) simp
qed

section \<open>Properties\<close>

text \<open>
  The permission catalogue is consistent: the constant \<open>ALL\<close> lists each of the 66 permissions
  exactly once in declaration order, the string each permission is checked by is the string it is
  stored by, no two permissions share a string, and a stored permission list is read back as it was
  written; conversely whatever list of strings reads successfully is the written form of what it
  reads as, so an unknown string never turns into a permission.
\<close>
theorem permission_catalogue:
  "length Permission_ALL = 66 \<and> distinct Permission_ALL \<and> set Permission_ALL = UNIV \<and>
   sorted Permission_ALL \<and>
   Permission_serde_name p = Permission_as_str p \<and>
   (Permission_as_str p = Permission_as_str q \<longleftrightarrow> p = q) \<and>
   (permissions_from_json ss = Some ps \<longleftrightarrow> permissions_to_json ps = ss)"
proof -
  have "sorted (map Permission_index Permission_ALL)" by (simp add: Permission_ALL_index)
  then have "sorted Permission_ALL" by (simp add: sorted_map less_eq_Permission_def [abs_def])
  moreover have "set Permission_ALL = UNIV" by auto
  ultimately show ?thesis
    using Permission_ALL_length Permission_ALL_distinct serde_name_as_str as_str_inj
      permissions_from_json_sound by auto
qed

text \<open>
  What a platform superadmin holds in every project without a role: exactly the ten \<open>.view\<close>
  permissions, the team-wide timesheet read, and the three member-management permissions; nothing
  that creates, modifies or deletes project content.
\<close>
theorem superadmin_grant_exact:
  "is_superadmin_grant p \<longleftrightarrow>
     p \<in> {ProjectView, MemberView, RoleView, EpicView, IssueView, MilestoneView,
          MilestoneBusinessReleaseView, WikiView, DocSourceView, TimeViewAll, MeetingView,
          MemberAdd, MemberModifyRole, MemberRemove}"
  by (auto simp: is_superadmin_grant_def is_read_iff)

text \<open>
  The seeded role matrix is a strict chain: the administrator holds every permission, the
  product owner strictly fewer, the developer strictly fewer again and the stakeholder only reads.
  No role below the administrator may delete the project or administer it, lock periods, or manage
  others' time; the developer deletes nothing but attachments; the business release date is the
  product owner's; and stakeholders see nothing of meetings.
\<close>
theorem default_roles_chain:
  "map dr_slug default_roles =
     [lit ''admin'', lit ''product_owner'', lit ''dev'', lit ''stakeholder''] \<and>
   map dr_is_admin default_roles = [True, False, False, False] \<and>
   map dr_permissions default_roles =
     [Permission_ALL, product_owner_perms, developer_perms, all_view] \<and>
   set all_view \<subset> set developer_perms \<and>
   set developer_perms \<subset> set product_owner_perms \<and>
   set product_owner_perms = UNIV - {ProjectDelete, ProjectAdmin, TimeManage} \<and>
   distinct product_owner_perms \<and> distinct developer_perms \<and>
   (\<forall>p. p \<in> set all_view \<longleftrightarrow>
      is_read p \<and> p \<notin> {MilestoneBusinessReleaseView, MeetingView, TimeViewAll}) \<and>
   (\<forall>p\<in>set developer_perms.
      last_segment (Permission_as_str p) = lit ''delete'' \<longrightarrow> p = AttachmentDelete) \<and>
   MilestoneBusinessReleaseView \<notin> set developer_perms \<and>
   MilestoneBusinessReleaseModify \<notin> set developer_perms"
proof -
  have po: "p \<in> set product_owner_perms \<longleftrightarrow> p \<notin> {ProjectDelete, ProjectAdmin, TimeManage}"
    for p
    by (cases p) (simp_all add: role_sets)
  have chain: "set all_view \<subset> set developer_perms"
    "set developer_perms \<subset> set product_owner_perms"
    by (auto simp: role_sets)
  have del: "\<forall>p\<in>set developer_perms.
      last_segment (Permission_as_str p) = lit ''delete'' \<longrightarrow> p = AttachmentDelete"
    by (simp add: role_sets last_segment_def lit_def)
  have view: "p \<in> set all_view \<longleftrightarrow>
      is_read p \<and> p \<notin> {MilestoneBusinessReleaseView, MeetingView, TimeViewAll}" for p
    by (auto simp: all_view_eval is_read_iff)
  have dist: "distinct product_owner_perms" "distinct developer_perms"
    unfolding product_owner_perms_def developer_perms_def
    using sorted_dedup [OF sorted_sort] by blast+
  have biz: "MilestoneBusinessReleaseView \<notin> set developer_perms"
    "MilestoneBusinessReleaseModify \<notin> set developer_perms"
    by (simp_all add: role_sets)
  show ?thesis
    using po chain del view dist biz by (simp add: default_roles_def) blast
qed

lemma default_roles_chain_witness:
  "DocSourceModify \<in> set developer_perms \<and>
   last_segment (Permission_as_str AttachmentDelete) = lit ''delete'' \<and>
   IssueDelete \<notin> set developer_perms"
proof -
  have "IssueDelete \<in> set developer_perms \<longrightarrow>
      last_segment (Permission_as_str IssueDelete) = lit ''delete'' \<longrightarrow>
      IssueDelete = AttachmentDelete"
    using default_roles_chain by blast
  then show ?thesis by (simp add: role_sets last_segment_def lit_def)
qed

end
