(* ===== verification/Path_Jail.thy ===== *)
theory Path_Jail
  imports Prelude
begin

text \<open>
  The interface every path-producing routine promises: its output is a list of plain components,
  so following it from any directory never leaves that directory. \<open>walk\<close> is the lexical meaning of
  a component list (\<open>..\<close> climbs, \<open>.\<close> and the empty component stay), as a file system or a git tree
  lookup would follow it. The documentation jail, the object-store keys and the sanitized file
  names all provide it.
\<close>

section \<open>Components and their meaning\<close>

definition plain_component :: "ustr \<Rightarrow> bool" where
  "plain_component c \<longleftrightarrow>
     c \<noteq> [] \<and> c \<noteq> lit ''.'' \<and> c \<noteq> lit ''..'' \<and> 47 \<notin> set c \<and> 92 \<notin> set c \<and> 0 \<notin> set c"

fun walk :: "ustr list \<Rightarrow> ustr list \<Rightarrow> ustr list" where
  "walk dir [] = dir"
| "walk dir (c # cs) =
     (if c = [] \<or> c = lit ''.'' then walk dir cs
      else if c = lit ''..'' then walk (butlast dir) cs
      else walk (dir @ [c]) cs)"

lemma walk_plain: "\<forall>c\<in>set cs. plain_component c \<Longrightarrow> walk dir cs = dir @ cs"
  by (induction cs arbitrary: dir) (auto simp: plain_component_def)

lemma walk_append: "walk dir (cs @ ds) = walk (walk dir cs) ds"
  by (induction cs arbitrary: dir) auto

section \<open>The contract\<close>

locale plain_path =
  fixes comps :: "'i \<Rightarrow> ustr list option"
  assumes plain: "comps i = Some cs \<Longrightarrow> c \<in> set cs \<Longrightarrow> plain_component c"
begin

lemma walk_stays: "comps i = Some cs \<Longrightarrow> walk dir cs = dir @ cs"
  using plain by (intro walk_plain) blast

text \<open>Every directory visited on the way lies under the starting one.\<close>

lemma walk_prefix_stays:
  "comps i = Some cs \<Longrightarrow> take (length dir) (walk dir (take n cs)) = dir"
proof -
  assume "comps i = Some cs"
  then have "\<forall>c\<in>set (take n cs). plain_component c"
    using plain by (meson in_set_takeD)
  then show ?thesis by (simp add: walk_plain)
qed

end

end
