(* ===== verification/Doc_Path.thy ===== *)
theory Doc_Path
  imports Path_Jail
begin

text \<open>
  Path normalization and jail resolution for documentation sources
  (\<open>crates/core/src/docs/path.rs\<close>). The loops over \<open>split('/')\<close> carry the vector \<open>out\<close> of kept
  segments; errors are \<open>Inl\<close>. The abstract specification is the depth of the segment list: how far
  below the jail root the path stands after each segment.
\<close>

section \<open>Definitions\<close>

definition MAX_PATH_LEN :: nat where "MAX_PATH_LEN = 1024"

definition MAX_SEGMENT_LEN :: nat where "MAX_SEGMENT_LEN = 255"

datatype PathError = Illegal | TooLong | Escapes

fun PathError_code :: "PathError \<Rightarrow> ustr" where
  "PathError_code Illegal = lit ''doc_path_illegal''"
| "PathError_code TooLong = lit ''doc_path_too_long''"
| "PathError_code Escapes = lit ''doc_path_escapes''"

definition has_illegal_chars :: "ustr \<Rightarrow> bool" where
  "has_illegal_chars s \<longleftrightarrow> list_ex (\<lambda>c. is_control c \<or> c = 92) s"

definition slashes :: "ustr \<Rightarrow> ustr list" where
  "slashes s = split_on (\<lambda>c. c = 47) s"

fun normalize_loop :: "ustr list \<Rightarrow> ustr list \<Rightarrow> PathError + ustr list" where
  "normalize_loop out [] = Inr out"
| "normalize_loop out (seg # segs) =
     (if seg = [] \<or> seg = lit ''.'' then normalize_loop out segs
      else if seg = lit ''..'' then Inl Illegal
      else if byte_len seg > MAX_SEGMENT_LEN then Inl TooLong
      else normalize_loop (out @ [seg]) segs)"

definition normalize :: "ustr \<Rightarrow> PathError + ustr" where
  "normalize input =
     (if has_illegal_chars input then Inl Illegal
      else if byte_len input > MAX_PATH_LEN then Inl TooLong
      else case normalize_loop [] (slashes input) of
          Inl e \<Rightarrow> Inl e
        | Inr out \<Rightarrow>
            (let joined = join_with [47] out
             in if byte_len joined > MAX_PATH_LEN then Inl TooLong else Inr joined))"

fun resolve_loop :: "ustr list \<Rightarrow> ustr list \<Rightarrow> PathError + ustr list" where
  "resolve_loop out [] = Inr out"
| "resolve_loop out (seg # segs) =
     (if seg = [] \<or> seg = lit ''.'' then resolve_loop out segs
      else if seg = lit ''..''
        then (if out = [] then Inl Escapes else resolve_loop (butlast out) segs)
      else if byte_len seg > MAX_SEGMENT_LEN then Inl TooLong
      else resolve_loop (out @ [seg]) segs)"

definition resolve :: "ustr \<Rightarrow> PathError + ustr" where
  "resolve rel =
     (if has_illegal_chars rel then Inl Illegal
      else if byte_len rel > MAX_PATH_LEN then Inl TooLong
      else case resolve_loop [] (slashes rel) of
          Inl e \<Rightarrow> Inl e
        | Inr out \<Rightarrow> Inr (join_with [47] out))"

definition in_repo :: "ustr \<Rightarrow> ustr \<Rightarrow> ustr" where
  "in_repo jail resolved_rel =
     (if jail = [] then resolved_rel
      else if resolved_rel = [] then jail
      else jail @ [47] @ resolved_rel)"

definition resolve_link :: "ustr \<Rightarrow> ustr \<Rightarrow> PathError + ustr" where
  "resolve_link from href =
     (if starts_with (lit ''/'') href then resolve href
      else
        (let dir = (case rsplit_once 47 from of None \<Rightarrow> [] | Some (d, _) \<Rightarrow> d)
         in if dir = [] then resolve href else resolve (dir @ [47] @ href)))"

definition DOC_EXTENSIONS :: "ustr list" where
  "DOC_EXTENSIONS = [lit ''md'', lit ''markdown'', lit ''txt'']"

definition extension :: "ustr \<Rightarrow> ustr option" where
  "extension name =
     (case rsplit_once 46 (last (slashes name)) of
        None \<Rightarrow> None
      | Some (stem, ext) \<Rightarrow> if stem = [] then None else Some (map ascii_lower ext))"

definition is_doc :: "ustr \<Rightarrow> bool" where
  "is_doc name \<longleftrightarrow> (case extension name of None \<Rightarrow> False | Some e \<Rightarrow> e \<in> set DOC_EXTENSIONS)"

definition IMAGE_TYPES :: "(ustr \<times> ustr) list" where
  "IMAGE_TYPES =
     [(lit ''png'', lit ''image/png''), (lit ''jpg'', lit ''image/jpeg''),
      (lit ''jpeg'', lit ''image/jpeg''), (lit ''gif'', lit ''image/gif''),
      (lit ''webp'', lit ''image/webp''), (lit ''svg'', lit ''image/svg+xml'')]"

definition image_mime :: "ustr \<Rightarrow> ustr option" where
  "image_mime name =
     (case extension name of None \<Rightarrow> None | Some ext \<Rightarrow> map_of IMAGE_TYPES ext)"

definition is_svg :: "ustr \<Rightarrow> bool" where
  "is_svg name \<longleftrightarrow> extension name = Some (lit ''svg'')"

definition ENTRY_CANDIDATES :: "ustr list" where
  "ENTRY_CANDIDATES =
     [lit ''readme.md'', lit ''readme.markdown'', lit ''readme.txt'', lit ''index.md'',
      lit ''index.markdown'', lit ''home.md'']"

section \<open>Clean segments\<close>

text \<open>A kept segment: a plain component, within the length cap and free of illegal characters.\<close>

definition clean_seg :: "ustr \<Rightarrow> bool" where
  "clean_seg s \<longleftrightarrow> s \<noteq> [] \<and> s \<noteq> lit ''.'' \<and> s \<noteq> lit ''..'' \<and> 47 \<notin> set s \<and>
     byte_len s \<le> MAX_SEGMENT_LEN \<and> \<not> has_illegal_chars s"

text \<open>The segments of a stored path; the empty path has none.\<close>

definition segs :: "ustr \<Rightarrow> ustr list" where
  "segs p = (if p = [] then [] else slashes p)"

definition clean_path :: "ustr \<Rightarrow> bool" where
  "clean_path p \<longleftrightarrow> byte_len p \<le> MAX_PATH_LEN \<and> (\<forall>s\<in>set (segs p). clean_seg s)"

lemma clean_seg_plain: "clean_seg s \<Longrightarrow> plain_component s"
  by (auto simp: clean_seg_def plain_component_def has_illegal_chars_def list_ex_iff is_control_def)

lemma slashes_no_slash: "s \<in> set (slashes p) \<Longrightarrow> 47 \<notin> set s"
  using split_on_segments [of s "\<lambda>c. c = 47" p] by (auto simp: slashes_def)

lemma legal_slashes:
  "\<not> has_illegal_chars p \<Longrightarrow> s \<in> set (slashes p) \<Longrightarrow> \<not> has_illegal_chars s"
  using split_on_chars [of s _ p] by (fastforce simp: slashes_def has_illegal_chars_def list_ex_iff)

lemma join_slashes [simp]: "join_with [47] (slashes p) = p"
  by (simp add: slashes_def join_split_on)

lemma slashes_nil: "slashes [] = [[]]"
  by (simp add: slashes_def)

lemma segs_join:
  assumes "\<forall>s\<in>set ss. clean_seg s"
  shows "segs (join_with [47] ss) = ss"
proof (cases "ss = []")
  case False
  with assms have "slashes (join_with [47] ss) = ss"
    unfolding slashes_def by (intro split_on_join) (auto simp: clean_seg_def)
  moreover from assms False have "join_with [47] ss \<noteq> []"
    by (subst join_with_eq_Nil) (auto simp: clean_seg_def)
  ultimately show ?thesis by (simp add: segs_def)
qed (simp add: segs_def)

lemma join_segs [simp]: "join_with [47] (segs p) = p"
  by (simp add: segs_def)

text \<open>Joining is injective on clean segments, so a stored path and its segments determine each other.\<close>

lemma legal_join:
  "\<forall>s\<in>set ss. clean_seg s \<Longrightarrow> \<not> has_illegal_chars (join_with [47] ss)"
  using join_with_chars [of "[47]" ss]
  by (fastforce simp: has_illegal_chars_def list_ex_iff clean_seg_def is_control_def)

section \<open>The loops keep clean segments\<close>

definition legal_segs :: "ustr list \<Rightarrow> bool" where
  "legal_segs ss \<longleftrightarrow> (\<forall>s\<in>set ss. 47 \<notin> set s \<and> \<not> has_illegal_chars s)"

lemma legal_segs_slashes: "\<not> has_illegal_chars p \<Longrightarrow> legal_segs (slashes p)"
  by (simp add: legal_segs_def legal_slashes slashes_no_slash)

lemma resolve_loop_clean:
  "resolve_loop out ss = Inr res \<Longrightarrow> \<forall>s\<in>set out. clean_seg s \<Longrightarrow> legal_segs ss \<Longrightarrow>
     \<forall>s\<in>set res. clean_seg s"
proof (induction out ss rule: resolve_loop.induct)
  case (2 out seg segs)
  have rest: "legal_segs segs" and seg: "47 \<notin> set seg" "\<not> has_illegal_chars seg"
    using 2(6) by (simp_all add: legal_segs_def)
  consider (skip) "seg = [] \<or> seg = lit ''.''" | (climb) "seg = lit ''..''"
    | (plain) "seg \<noteq> []" "seg \<noteq> lit ''.''" "seg \<noteq> lit ''..''" by blast
  then show ?case
  proof cases
    case skip
    then have "resolve_loop out segs = Inr res" using 2(4) by auto
    from 2(1) [OF skip this 2(5) rest] show ?thesis .
  next
    case climb
    then have "out \<noteq> []" and step: "resolve_loop (butlast out) segs = Inr res"
      using 2(4) by (auto split: if_splits)
    moreover have "\<forall>s\<in>set (butlast out). clean_seg s"
      using 2(5) by (meson in_set_butlastD)
    ultimately show ?thesis using 2(2) [OF _ climb] climb rest by simp
  next
    case plain
    then have "\<not> byte_len seg > MAX_SEGMENT_LEN" and "resolve_loop (out @ [seg]) segs = Inr res"
      using 2(4) by (auto split: if_splits)
    moreover have "\<forall>s\<in>set (out @ [seg]). clean_seg s"
      using plain seg calculation(1) 2(5) by (simp add: clean_seg_def)
    ultimately show ?thesis using 2(3) [OF _ plain(3)] plain(1,2) rest by blast
  qed
qed simp

lemma normalize_loop_filter:
  "normalize_loop out ss = Inr res \<Longrightarrow>
     res = out @ filter (\<lambda>s. s \<noteq> [] \<and> s \<noteq> lit ''.'') ss \<and> lit ''..'' \<notin> set ss"
proof (induction out ss rule: normalize_loop.induct)
  case (2 out seg segs)
  then show ?case by (simp split: if_splits)
qed simp

lemma normalize_resolve_loop:
  "normalize_loop out ss = Inr res \<Longrightarrow> resolve_loop out ss = Inr res"
  by (induction out ss rule: normalize_loop.induct) (auto split: if_splits)

lemma resolve_loop_clean_id:
  "\<forall>s\<in>set ss. clean_seg s \<Longrightarrow> resolve_loop out ss = Inr (out @ ss)"
  by (induction out ss rule: resolve_loop.induct) (auto simp: clean_seg_def)

lemma normalize_loop_clean_id:
  "\<forall>s\<in>set ss. clean_seg s \<Longrightarrow> normalize_loop out ss = Inr (out @ ss)"
  by (induction out ss rule: normalize_loop.induct) (auto simp: clean_seg_def)

lemma resolve_loop_drop_empty: "resolve_loop out [[]] = Inr out"
  by simp

text \<open>The result never grows: what is kept came from the input, with one separator each.\<close>

definition cost :: "ustr list \<Rightarrow> nat" where
  "cost ss = sum_list (map byte_len ss) + length ss"

lemma cost_simps [simp]:
  "cost [] = 0" "cost (s # ss) = byte_len s + 1 + cost ss" "cost (xs @ ys) = cost xs + cost ys"
  by (simp_all add: cost_def)

lemma byte_len_join: "ss \<noteq> [] \<Longrightarrow> byte_len (join_with [47] ss) + 1 = cost ss"
  by (induction "[47::nat]" ss rule: join_with.induct) (auto simp: utf8_len_def)

lemma cost_butlast: "cost (butlast ss) \<le> cost ss"
  by (induction ss) auto

lemma resolve_loop_cost: "resolve_loop out ss = Inr res \<Longrightarrow> cost res \<le> cost out + cost ss"
proof (induction out ss rule: resolve_loop.induct)
  case (2 out seg segs)
  then show ?case
    using cost_butlast [of out] by (auto split: if_splits)
qed simp

lemma resolve_bytes:
  assumes "resolve rel = Inr p"
  shows "byte_len p \<le> byte_len rel"
proof -
  from assms obtain out where out: "resolve_loop [] (slashes rel) = Inr out"
    and p: "p = join_with [47] out"
    by (auto simp: resolve_def split: if_splits sum.splits)
  have "cost out \<le> cost (slashes rel)" using resolve_loop_cost [OF out] by simp
  moreover have "byte_len rel + 1 = cost (slashes rel)"
    using byte_len_join [of "slashes rel"] by (simp add: slashes_def join_split_on)
  ultimately show ?thesis using byte_len_join [of out] p by (cases "out = []") auto
qed

lemma resolve_segs:
  assumes "resolve rel = Inr p"
  shows "resolve_loop [] (slashes rel) = Inr (segs p)" and "clean_path p"
proof -
  from assms obtain out where out: "resolve_loop [] (slashes rel) = Inr out"
    and p: "p = join_with [47] out" and ok: "\<not> has_illegal_chars rel"
    and len: "byte_len rel \<le> MAX_PATH_LEN"
    by (auto simp: resolve_def split: if_splits sum.splits)
  have clean: "\<forall>s\<in>set out. clean_seg s"
    using resolve_loop_clean [OF out] legal_segs_slashes [OF ok] by simp
  then have segs: "segs p = out" by (simp add: p segs_join)
  with out show "resolve_loop [] (slashes rel) = Inr (segs p)" by simp
  from segs clean resolve_bytes [OF assms] len show "clean_path p" by (simp add: clean_path_def)
qed

lemma clean_path_legal: "clean_path p \<Longrightarrow> \<not> has_illegal_chars p"
  using legal_join [of "segs p"] by (simp add: clean_path_def)

lemma resolve_clean_id: "clean_path p \<Longrightarrow> resolve p = Inr p"
  using clean_path_legal [of p] resolve_loop_clean_id [of "segs p" "[]"]
  by (cases "p = []")
     (auto simp: resolve_def clean_path_def segs_def slashes_nil has_illegal_chars_def)

lemma normalize_clean_id: "clean_path p \<Longrightarrow> normalize p = Inr p"
  using clean_path_legal [of p] normalize_loop_clean_id [of "segs p" "[]"]
  by (cases "p = []")
     (auto simp: normalize_def clean_path_def segs_def slashes_nil has_illegal_chars_def Let_def)

lemma normalize_resolve: "normalize s = Inr p \<Longrightarrow> resolve s = Inr p"
  by (auto simp: normalize_def resolve_def Let_def normalize_resolve_loop
      split: if_splits sum.splits)

lemma segs_in_repo: "segs (in_repo jail p) = segs jail @ segs p"
  if "clean_path jail" "clean_path p"
proof (cases "jail = [] \<or> p = []")
  case True
  then show ?thesis by (auto simp: in_repo_def segs_def)
next
  case False
  then have ne: "segs jail \<noteq> []" "segs p \<noteq> []" by (auto simp: segs_def slashes_def)
  have "in_repo jail p = join_with [47] (segs jail @ segs p)"
    using False join_with_append [OF ne, of "[47]"] by (simp add: in_repo_def)
  moreover have "\<forall>s\<in>set (segs jail @ segs p). clean_seg s"
    using that by (auto simp: clean_path_def)
  ultimately show ?thesis by (simp add: segs_join)
qed

text \<open>The documentation resolver provides the plain-path contract.\<close>

definition resolve_comps :: "ustr \<Rightarrow> ustr list option" where
  "resolve_comps rel = (case resolve rel of Inl _ \<Rightarrow> None | Inr p \<Rightarrow> Some (segs p))"

interpretation doc_jail: plain_path resolve_comps
proof
  fix i cs c
  assume "resolve_comps i = Some cs" "c \<in> set cs"
  then show "plain_component c"
    by (auto simp: resolve_comps_def clean_path_def dest!: resolve_segs(2)
        intro: clean_seg_plain split: sum.splits)
qed

section \<open>The depth specification\<close>

text \<open>
  \<open>depth\<close> counts ordinary segments minus climbs. A path escapes exactly when some prefix of its
  segments stands above the jail root.
\<close>

fun seg_depth :: "ustr \<Rightarrow> int" where
  "seg_depth s = (if s = [] \<or> s = lit ''.'' then 0 else if s = lit ''..'' then -1 else 1)"

definition depth :: "ustr list \<Rightarrow> int" where
  "depth ss = sum_list (map seg_depth ss)"

lemma depth_simps [simp]: "depth [] = 0" "depth (s # ss) = seg_depth s + depth ss"
  by (simp_all add: depth_def)

lemma int_length_butlast: "out \<noteq> [] \<Longrightarrow> int (length (butlast out)) = int (length out) - 1"
  by (cases out rule: rev_cases) auto

text \<open>One step of the loop shifts the starting depth by the segment's own.\<close>

lemma depth_shift:
  "(\<exists>n. int (length out) + depth (take n (seg # rest)) < 0) \<longleftrightarrow>
     (\<exists>n. int (length out) + seg_depth seg + depth (take n rest) < 0)" (is "?L \<longleftrightarrow> ?R")
proof
  assume ?L
  then obtain n where n: "int (length out) + depth (take n (seg # rest)) < 0" by blast
  then show ?R
  proof (cases n)
    case (Suc m)
    with n have "int (length out) + seg_depth seg + depth (take m rest) < 0"
      by (simp only: take_Suc_Cons depth_simps add.assoc)
    then show ?thesis by blast
  qed simp
next
  assume ?R
  then obtain n where "int (length out) + seg_depth seg + depth (take n rest) < 0" by blast
  then have "int (length out) + depth (take (Suc n) (seg # rest)) < 0"
    by (simp only: take_Suc_Cons depth_simps add.assoc)
  then show ?L by blast
qed

lemma resolve_loop_escapes:
  "\<forall>s\<in>set ss. byte_len s \<le> MAX_SEGMENT_LEN \<Longrightarrow>
     resolve_loop out ss = Inl Escapes \<longleftrightarrow> (\<exists>n. int (length out) + depth (take n ss) < 0)"
proof (induction out ss rule: resolve_loop.induct)
  case (2 out seg segs)
  consider (skip) "seg = [] \<or> seg = lit ''.''" | (climb) "seg = lit ''..''"
    | (plain) "seg \<noteq> []" "seg \<noteq> lit ''.''" "seg \<noteq> lit ''..''" by blast
  then show ?case
  proof cases
    case skip
    then have "seg_depth seg = 0" by auto
    moreover have "resolve_loop out (seg # segs) = resolve_loop out segs" using skip by auto
    ultimately show ?thesis using 2(1) [OF skip] 2(4) by (simp only: depth_shift) simp
  next
    case climb
    then have d: "seg_depth seg = -1" by simp
    show ?thesis
    proof (cases "out = []")
      case True
      then have "int (length out) + seg_depth seg + depth (take 0 segs) < 0" using d by simp
      then have "\<exists>n. int (length out) + seg_depth seg + depth (take n segs) < 0" by blast
      with climb True show ?thesis by (simp only: depth_shift) simp
    next
      case False
      then have "resolve_loop out (seg # segs) = resolve_loop (butlast out) segs"
        using climb by simp
      moreover have "resolve_loop (butlast out) segs = Inl Escapes \<longleftrightarrow>
          (\<exists>n. int (length out) - 1 + depth (take n segs) < 0)"
        using 2(2) [OF _ climb False] 2(4) climb unfolding int_length_butlast [OF False] by simp
      ultimately show ?thesis unfolding depth_shift d by simp
    qed
  next
    case plain
    then have d: "seg_depth seg = 1" by simp
    have len: "\<not> byte_len seg > MAX_SEGMENT_LEN" using 2(4) by simp
    then have "resolve_loop out (seg # segs) = resolve_loop (out @ [seg]) segs"
      using plain by simp
    with 2(3) [OF _ plain(3) len] plain 2(4) d show ?thesis
      by (simp only: depth_shift) (simp add: add.commute)
  qed
qed (auto simp: not_less)

section \<open>Links\<close>

lemma resolve_loop_walk: "resolve_loop out ss = Inr res \<Longrightarrow> walk out ss = res"
  by (induction out ss rule: resolve_loop.induct) (auto split: if_splits)

lemma split_on_append_gen:
  "P d \<Longrightarrow> split_on P (s @ d # t) = split_on P s @ split_on P t"
proof (induction s)
  case (Cons c s)
  then show ?case by (cases "split_on P s") auto
qed simp

lemma slashes_append: "slashes (a @ 47 # b) = slashes a @ slashes b"
  by (simp add: slashes_def split_on_append_gen)

lemma rsplit_once_None: "rsplit_once c s = None \<longleftrightarrow> c \<notin> set s"
  by (simp add: rsplit_once_def)

lemma rsplit_once_Some:
  assumes "rsplit_once c s = Some (a, b)"
  shows "s = a @ c # b" and "c \<notin> set b"
proof -
  let ?d = "dropWhile (\<lambda>x. x \<noteq> c) (rev s)" and ?t = "takeWhile (\<lambda>x. x \<noteq> c) (rev s)"
  from assms have c: "c \<in> set s" and a: "a = rev (tl ?d)" and b: "b = rev ?t"
    by (auto simp: rsplit_once_def split: if_splits)
  from c have "?d \<noteq> []" and "hd ?d = c"
    using hd_dropWhile [of "\<lambda>x. x \<noteq> c" "rev s"] by auto
  then have "?d = c # tl ?d" by (metis list.collapse)
  then have "rev s = ?t @ c # tl ?d" by (metis takeWhile_dropWhile_id)
  then show "s = a @ c # b" unfolding a b by (metis append_Cons append_assoc append_Nil rev_append rev_rev_ident rev.simps(2))
  show "c \<notin> set b" unfolding b by (auto dest: set_takeWhileD)
qed

text \<open>The directory of a document: all but the last of its segments.\<close>

definition dir_of :: "ustr \<Rightarrow> ustr" where
  "dir_of from = (case rsplit_once 47 from of None \<Rightarrow> [] | Some (d, _) \<Rightarrow> d)"

lemma slashes_dir_of: "slashes (dir_of from) = (if 47 \<in> set from then butlast (slashes from) else [[]])"
proof (cases "rsplit_once 47 from")
  case None
  then have "47 \<notin> set from" by (simp add: rsplit_once_None)
  with None show ?thesis by (simp add: dir_of_def slashes_nil)
next
  case (Some x)
  then obtain a b where x: "rsplit_once 47 from = Some (a, b)" by (cases x) auto
  note parts = rsplit_once_Some [OF x]
  have "slashes b = [b]" using parts(2) by (auto simp: slashes_def intro: split_on_single)
  then have "slashes from = slashes a @ [b]" using parts(1) by (simp add: slashes_append)
  then show ?thesis using x parts(1) by (simp add: dir_of_def)
qed

lemma walk_skip: "walk dir ([] # ss) = walk dir ss"
  by simp

lemma walk_dir_of:
  assumes "clean_path from"
  shows "walk [] (slashes (dir_of from)) = butlast (segs from)"
proof (cases "47 \<in> set from")
  case True
  then have "segs from = slashes from" by (auto simp: segs_def)
  with True show ?thesis using assms walk_plain [of "butlast (segs from)" "[]"]
    by (auto simp: slashes_dir_of clean_path_def dest!: in_set_butlastD intro!: clean_seg_plain)
next
  case False
  then have "slashes from = [from]" by (auto simp: slashes_def intro: split_on_single)
  with False show ?thesis by (simp add: slashes_dir_of segs_def)
qed

lemma resolve_walk: "resolve rel = Inr p \<Longrightarrow> segs p = walk [] (slashes rel)"
  using resolve_segs(1) resolve_loop_walk by metis

lemma resolve_loop_below:
  "resolve_loop out ss = Inr res \<Longrightarrow> walk (dir @ out) ss = dir @ res \<and> take (length dir) (walk (dir @ out) (take n ss)) = dir"
proof (induction out ss arbitrary: n rule: resolve_loop.induct)
  case (2 out seg segs)
  have start: "take (length dir) (walk (dir @ out) (take 0 (seg # segs))) = dir" by simp
  consider (skip) "seg = [] \<or> seg = lit ''.''" | (climb) "seg \<noteq> []" "seg \<noteq> lit ''.''" "seg = lit ''..''"
    | (plain) "seg \<noteq> []" "seg \<noteq> lit ''.''" "seg \<noteq> lit ''..''" by blast
  then show ?case
  proof cases
    case skip
    then have "resolve_loop out segs = Inr res" using 2(4) by auto
    with 2(1) [OF skip this] skip start show ?thesis by (cases n) auto
  next
    case climb
    then have out: "out \<noteq> []" and step: "resolve_loop (butlast out) segs = Inr res"
      using 2(4) by (auto split: if_splits)
    then have "butlast (dir @ out) = dir @ butlast out" by (simp add: butlast_append)
    with 2(2) [OF _ climb(3) out step] climb start show ?thesis by (cases n) auto
  next
    case plain
    then have "\<not> byte_len seg > MAX_SEGMENT_LEN" and step: "resolve_loop (out @ [seg]) segs = Inr res"
      using 2(4) by (auto split: if_splits)
    with 2(3) [OF _ plain(3) this(1) step] plain start show ?thesis by (cases n) auto
  qed
qed simp

section \<open>Properties\<close>

lemma byte_len_slash: "byte_len [47] = 1"
  by (simp add: utf8_len_def)

text \<open>
  C38: \<open>resolve\<close> is the jail. From whatever directory one follows the segments of an accepted input, no step of
  the way leaves that directory, and they lead to the returned path below it; so does the returned path. It is
  stored in canonical form (resolving it again changes nothing) and is never longer than the input.
\<close>

theorem resolve_jailed:
  assumes "resolve rel = Inr p"
  shows "take (length dir) (walk dir (take n (slashes rel))) = dir \<and> walk dir (slashes rel) = dir @ segs p \<and>
    take (length dir) (walk dir (take n (segs p))) = dir \<and> walk dir (segs p) = dir @ segs p \<and>
    clean_path p \<and> resolve p = Inr p \<and> byte_len p \<le> byte_len rel"
proof -
  have "resolve_comps rel = Some (segs p)" using assms by (simp add: resolve_comps_def)
  note inside = doc_jail.walk_prefix_stays [OF this, of dir n] doc_jail.walk_stays [OF this, of dir]
  show ?thesis
    using resolve_loop_below [OF resolve_segs(1) [OF assms], of dir n] inside resolve_segs(2) [OF assms] resolve_bytes [OF assms]
    by (simp add: resolve_clean_id)
qed

lemma resolve_jailed_witness:
  "walk [lit ''repo''] (slashes (lit ''a/../c//./d/../e'')) = [lit ''repo'', lit ''c'', lit ''e''] \<and> clean_path (lit ''c/e'') \<and>
   resolve (lit ''c/e'') = Inr (lit ''c/e'')"
proof -
  note eval = resolve_def slashes_def has_illegal_chars_def text_defs MAX_PATH_LEN_def MAX_SEGMENT_LEN_def segs_def
  have "resolve (lit ''a/../c//./d/../e'') = Inr (lit ''c/e'')" "segs (lit ''c/e'') = [lit ''c'', lit ''e'']" by (simp_all add: eval)
  then show ?thesis using resolve_jailed [of "lit ''a/../c//./d/../e''" "lit ''c/e''" "[lit ''repo'']" 0] by simp
qed

text \<open>
  C39: A path is refused as escaping exactly when some prefix of it stands above the jail root; the
  number of ordinary segments a climb may consume is never exceeded and never under-counted. (The
  input is legal and within the length caps, else another error is reported.)
\<close>

theorem resolve_escapes_iff:
  assumes "\<not> has_illegal_chars rel" and "byte_len rel \<le> MAX_PATH_LEN"
    and "\<forall>s\<in>set (slashes rel). byte_len s \<le> MAX_SEGMENT_LEN"
  shows "resolve rel = Inl Escapes \<longleftrightarrow> (\<exists>n. depth (take n (slashes rel)) < 0)"
proof -
  have "resolve rel = Inl Escapes \<longleftrightarrow> resolve_loop [] (slashes rel) = Inl Escapes"
    using assms(1,2) by (auto simp: resolve_def split: sum.splits)
  then show ?thesis using resolve_loop_escapes [OF assms(3), of "[]"] by simp
qed

lemma resolve_escapes_iff_witness:
  "resolve (lit ''a/../../b'') = Inl Escapes \<longleftrightarrow> (\<exists>n. depth (take n (slashes (lit ''a/../../b''))) < 0)"
  by (rule resolve_escapes_iff)
     (simp_all add: slashes_def has_illegal_chars_def text_defs MAX_PATH_LEN_def MAX_SEGMENT_LEN_def)

text \<open>
  \<open>normalize\<close> gives the canonical form of a repository path: it drops empty and \<open>.\<close> segments and
  nothing else, never accepts a \<open>..\<close>, is idempotent, and agrees with \<open>resolve\<close> on what it accepts.
\<close>

theorem normalize_canonical:
  assumes "normalize s = Inr p"
  shows "segs p = filter (\<lambda>x. x \<noteq> [] \<and> x \<noteq> lit ''.'') (slashes s) \<and> lit ''..'' \<notin> set (slashes s) \<and>
    clean_path p \<and> normalize p = Inr p \<and> resolve s = Inr p"
proof -
  have res: "resolve s = Inr p" using normalize_resolve [OF assms] .
  obtain out where out: "normalize_loop [] (slashes s) = Inr out"
    using assms by (auto simp: normalize_def split: if_splits sum.splits)
  have "out = segs p" using normalize_resolve_loop [OF out] resolve_segs(1) [OF res] by simp
  with normalize_loop_filter [OF out] res resolve_segs(2) [OF res] show ?thesis
    by (simp add: normalize_clean_id)
qed

lemma normalize_canonical_witness:
  "normalize (lit ''docs/api'') = Inr (lit ''docs/api'') \<and>
   resolve (lit ''/docs/./api/'') = Inr (lit ''docs/api'')"
  using normalize_canonical [of "lit ''/docs/./api/''" "lit ''docs/api''"]
  by (simp add: normalize_def slashes_def has_illegal_chars_def text_defs MAX_PATH_LEN_def
      MAX_SEGMENT_LEN_def)

text \<open>
  A link followed from a document leads where a reader expects: a root-relative target starts at
  the jail root, any other at the document's own directory. Mapped into the repository under a
  jail, the result always lies below that jail.
\<close>

theorem resolve_link_target:
  assumes "clean_path from" and "clean_path jail" and "resolve_link from href = Inr p"
  shows "segs p = walk (if starts_with (lit ''/'') href then [] else butlast (segs from)) (slashes href) \<and>
    segs (in_repo jail p) = segs jail @ segs p"
proof -
  have link: "resolve_link from href =
      (if starts_with (lit ''/'') href then resolve href
       else if dir_of from = [] then resolve href else resolve (dir_of from @ [47] @ href))"
    by (simp add: resolve_link_def dir_of_def Let_def)
  have dir: "walk [] (slashes (dir_of from @ 47 # href)) = walk (butlast (segs from)) (slashes href)"
    using walk_dir_of [OF assms(1)] by (simp add: slashes_append walk_append)
  have "dir_of from = [] \<Longrightarrow> butlast (segs from) = []"
    using walk_dir_of [OF assms(1)] by (simp add: slashes_nil)
  then have "segs p = walk (if starts_with (lit ''/'') href then [] else butlast (segs from)) (slashes href)"
    using assms(3) dir unfolding link by (auto dest!: resolve_walk split: if_splits)
  moreover have "clean_path p"
    using assms(3) unfolding link by (auto dest!: resolve_segs(2) split: if_splits)
  ultimately show ?thesis using segs_in_repo [OF assms(2)] by simp
qed

lemma resolve_link_target_witness:
  "segs (lit ''guide/img/a.png'') =
     walk (butlast (segs (lit ''guide/intro/x.md''))) (slashes (lit ''../img/a.png''))"
proof -
  note eval = resolve_link_def resolve_def slashes_def has_illegal_chars_def text_defs MAX_PATH_LEN_def
    MAX_SEGMENT_LEN_def clean_path_def clean_seg_def segs_def Let_def
  have "resolve_link (lit ''guide/intro/x.md'') (lit ''../img/a.png'') = Inr (lit ''guide/img/a.png'')"
    by (simp add: eval)
  moreover have "clean_path (lit ''guide/intro/x.md'')" "clean_path []" by (simp_all add: eval)
  moreover have "\<not> starts_with (lit ''/'') (lit ''../img/a.png'')" by (simp add: eval)
  ultimately show ?thesis
    using resolve_link_target [of "lit ''guide/intro/x.md''" "[]" "lit ''../img/a.png''"
        "lit ''guide/img/a.png''"] by simp
qed

end
