(* ===== verification/Encoding.thy ===== *)
theory Encoding
  imports Prelude "HOL-Library.Word"
begin

text \<open>
  Opaque credentials (\<open>crates/auth/src\<close>): the byte encoders and refresh tokens of \<open>refresh.rs\<close>, the app
  tokens of \<open>app_token.rs\<close>, the recovery codes of \<open>recovery.rs\<close>, the password policy of
  \<open>password.rs\<close>, the secret encryption of \<open>secret.rs\<close> and the typed access tokens of \<open>token.rs\<close>, with the
  request helpers of \<open>crates/api/src/auth/mod.rs\<close>.

  SHA-256, Argon2id, zxcvbn, HKDF with ChaCha20-Poly1305, Paseto v4 and the random generator are other
  crates: they are arguments of the definitions, and what the code relies on is a named hypothesis.
  A draw of random bytes is the argument \<open>bytes\<close>, or the list of the values drawn.
\<close>

type_synonym byte = "8 word"

section \<open>Byte encoders\<close>

unbundle bit_operations_syntax

text \<open>\<open>char::from_digit(d, 16)\<close>\<close>

definition from_digit16 :: "nat \<Rightarrow> uchar option" where
  "from_digit16 d = (if d < 10 then Some (48 + d) else if d < 16 then Some (87 + d) else None)"

definition unwrap_or :: "'a option \<Rightarrow> 'a \<Rightarrow> 'a" where
  "unwrap_or x d = (case x of None \<Rightarrow> d | Some y \<Rightarrow> y)"

definition hex_encode :: "byte list \<Rightarrow> ustr" where
  "hex_encode bytes =
     concat (map (\<lambda>b. [unwrap_or (from_digit16 (unat (drop_bit 4 b))) 48,
                       unwrap_or (from_digit16 (unat (b AND 15))) 48]) bytes)"

definition B64_ALPHABET :: ustr where
  "B64_ALPHABET = lit ''ABCDEFGHIJKLMNOPQRSTUVWXYZabcdefghijklmnopqrstuvwxyz0123456789-_''"

definition b64_char :: "32 word \<Rightarrow> uchar" where
  "b64_char n = B64_ALPHABET ! unat (n AND 63)"

definition b64_group :: "byte \<Rightarrow> byte \<Rightarrow> byte \<Rightarrow> 32 word" where
  "b64_group b0 b1 b2 = (push_bit 16 (ucast b0) OR push_bit 8 (ucast b1)) OR ucast b2"

text \<open>The loop over \<open>bytes.chunks(3)\<close>.\<close>

fun base64url :: "byte list \<Rightarrow> ustr" where
  "base64url [] = []"
| "base64url [b0] =
     (let n = b64_group b0 0 0 in [b64_char (drop_bit 18 n), b64_char (drop_bit 12 n)])"
| "base64url [b0, b1] =
     (let n = b64_group b0 b1 0
      in [b64_char (drop_bit 18 n), b64_char (drop_bit 12 n), b64_char (drop_bit 6 n)])"
| "base64url (b0 # b1 # b2 # bytes) =
     (let n = b64_group b0 b1 b2
      in [b64_char (drop_bit 18 n), b64_char (drop_bit 12 n), b64_char (drop_bit 6 n), b64_char n]
         @ base64url bytes)"

text \<open>\<open>str::as_bytes\<close>: the UTF-8 encoding.\<close>

definition utf8_char :: "uchar \<Rightarrow> byte list" where
  "utf8_char c =
     (if c < 128 then [of_nat c]
      else if c < 2048 then [of_nat (192 + c div 64), of_nat (128 + c mod 64)]
      else if c < 65536
        then [of_nat (224 + c div 4096), of_nat (128 + c div 64 mod 64), of_nat (128 + c mod 64)]
      else [of_nat (240 + c div 262144), of_nat (128 + c div 4096 mod 64),
            of_nat (128 + c div 64 mod 64), of_nat (128 + c mod 64)])"

definition as_bytes :: "ustr \<Rightarrow> byte list" where
  "as_bytes s = concat (map utf8_char s)"

lemma length_as_bytes: "length (as_bytes s) = byte_len s"
  by (induction s) (auto simp: as_bytes_def utf8_char_def utf8_len_def)

lemma hex_digit_inj:
  "a < 16 \<Longrightarrow> b < 16 \<Longrightarrow>
     unwrap_or (from_digit16 a) 48 = unwrap_or (from_digit16 b) 48 \<longleftrightarrow> a = b"
  by (auto simp: from_digit16_def unwrap_or_def split: if_splits)

lemma nibbles:
  fixes b :: byte
  shows "unat (drop_bit 4 b) < 16" and "unat (b AND 15) < 16"
    and "b = push_bit 4 (drop_bit 4 b) OR (b AND 15)"
proof -
  show "unat (drop_bit 4 b) < 16"
    using unsigned_less [of b, where 'a = nat] unfolding unat_drop_bit_eq by (simp add: drop_bit_eq_div)
  have "b AND 15 = take_bit 4 b" by (simp add: take_bit_eq_mask mask_eq_exp_minus_1)
  then show "unat (b AND 15) < 16"
    by (simp only: unsigned_take_bit_eq) (simp add: take_bit_eq_mod)
  show "b = push_bit 4 (drop_bit 4 b) OR (b AND 15)"
    unfolding \<open>b AND 15 = take_bit 4 b\<close> by (rule bit_eqI) (auto simp: bit_simps)
qed

lemma hex_encode_simps [simp]:
  "hex_encode [] = []"
  "hex_encode (b # bs) = [unwrap_or (from_digit16 (unat (drop_bit 4 b))) 48,
     unwrap_or (from_digit16 (unat (b AND 15))) 48] @ hex_encode bs"
  by (simp_all add: hex_encode_def)

lemma hex_encode_inj: "hex_encode xs = hex_encode ys \<Longrightarrow> xs = ys"
proof (induction xs arbitrary: ys)
  case Nil
  then show ?case by (cases ys) auto
next
  case (Cons x xs)
  then obtain y zs where ys: "ys = y # zs" by (cases ys) auto
  with Cons.prems have "unat (drop_bit 4 x) = unat (drop_bit 4 y)" "unat (x AND 15) = unat (y AND 15)"
    and rest: "hex_encode xs = hex_encode zs"
    by (simp_all add: hex_digit_inj nibbles)
  then have "drop_bit 4 x = drop_bit 4 y" "x AND 15 = y AND 15" by (simp_all only: word_unat_eq_iff)
  then have "x = y" using nibbles(3) [of x] nibbles(3) [of y] by simp
  with rest Cons.IH ys show ?case by simp
qed

lemma length_hex_encode: "length (hex_encode bs) = 2 * length bs"
  by (induction bs) auto

lemma hex_encode_chars: "c \<in> set (hex_encode bs) \<Longrightarrow> is_ascii_digit c \<or> (97 \<le> c \<and> c \<le> 102)"
  by (induction bs)
     (auto simp: from_digit16_def unwrap_or_def is_ascii_digit_def split: if_splits)

text \<open>base64url loses nothing: the characters determine the bytes.\<close>

lemma b64_alphabet: "length B64_ALPHABET = 64" "distinct B64_ALPHABET"
  by (simp_all add: B64_ALPHABET_def lit_def)

lemma unat_and_63: "unat (n AND 63 :: 32 word) < 64"
proof -
  have "n AND 63 = take_bit 6 n" by (simp add: take_bit_eq_mask mask_eq_exp_minus_1)
  then show ?thesis by (simp only: unsigned_take_bit_eq) (simp add: take_bit_eq_mod)
qed

lemma b64_char_eq: "b64_char a = b64_char b \<longleftrightarrow> take_bit 6 a = take_bit 6 b"
proof -
  have eq: "n AND 63 = take_bit 6 n" for n :: "32 word"
    by (simp add: take_bit_eq_mask mask_eq_exp_minus_1)
  show ?thesis
    using unat_and_63 [of a] unat_and_63 [of b] b64_alphabet
    by (simp add: b64_char_def nth_eq_iff_index_eq eq [symmetric] word_unat_eq_iff)
qed

lemma sextets_bits:
  fixes n m :: "32 word"
  assumes "take_bit 6 (drop_bit j n) = take_bit 6 (drop_bit j m)" and "j \<le> k" and "k < j + 6"
  shows "bit n k = bit m k"
proof -
  have "bit (take_bit 6 (drop_bit j n)) (k - j) = bit (take_bit 6 (drop_bit j m)) (k - j)"
    using assms(1) by simp
  moreover have "k - j < 6" using assms(2,3) by arith
  ultimately show ?thesis using assms(2) by (simp add: bit_simps)
qed

lemma group_bits:
  "k < 8 \<Longrightarrow> bit (b64_group b0 b1 b2) (k + 16) = bit b0 k"
  "k < 8 \<Longrightarrow> bit (b64_group b0 b1 b2) (k + 8) = bit b1 k"
  "k < 8 \<Longrightarrow> bit (b64_group b0 b1 b2) k = bit b2 k"
proof -
  have beyond: "8 \<le> i \<Longrightarrow> \<not> bit (b :: byte) i" for b i
    using bit_imp_le_length [of b i] by fastforce
  show "k < 8 \<Longrightarrow> bit (b64_group b0 b1 b2) (k + 16) = bit b0 k"
    "k < 8 \<Longrightarrow> bit (b64_group b0 b1 b2) (k + 8) = bit b1 k"
    "k < 8 \<Longrightarrow> bit (b64_group b0 b1 b2) k = bit b2 k"
    by (auto simp: b64_group_def bit_simps beyond)
qed

lemma byte_eqI: "(\<And>k. k < 8 \<Longrightarrow> bit a k = bit b k) \<Longrightarrow> a = b" for a b :: byte
  by (rule bit_eqI) (simp add: bit_simps)

lemma group_inj1:
  assumes "b64_char (drop_bit 18 (b64_group a0 a1 a2)) = b64_char (drop_bit 18 (b64_group b0 b1 b2))"
    and "b64_char (drop_bit 12 (b64_group a0 a1 a2)) = b64_char (drop_bit 12 (b64_group b0 b1 b2))"
  shows "a0 = b0"
proof (rule byte_eqI)
  fix k :: nat
  assume "k < 8"
  then have "bit (b64_group a0 a1 a2) (k + 16) = bit (b64_group b0 b1 b2) (k + 16)"
    using sextets_bits [OF assms(1) [unfolded b64_char_eq], of "k + 16"]
      sextets_bits [OF assms(2) [unfolded b64_char_eq], of "k + 16"]
    by (cases "k < 2") auto
  with \<open>k < 8\<close> show "bit a0 k = bit b0 k" by (simp add: group_bits)
qed

lemma group_inj2:
  assumes "b64_char (drop_bit 12 (b64_group a0 a1 a2)) = b64_char (drop_bit 12 (b64_group b0 b1 b2))"
    and "b64_char (drop_bit 6 (b64_group a0 a1 a2)) = b64_char (drop_bit 6 (b64_group b0 b1 b2))"
  shows "a1 = b1"
proof (rule byte_eqI)
  fix k :: nat
  assume "k < 8"
  then have "bit (b64_group a0 a1 a2) (k + 8) = bit (b64_group b0 b1 b2) (k + 8)"
    using sextets_bits [OF assms(1) [unfolded b64_char_eq], of "k + 8"]
      sextets_bits [OF assms(2) [unfolded b64_char_eq], of "k + 8"]
    by (cases "k < 4") auto
  with \<open>k < 8\<close> show "bit a1 k = bit b1 k" by (simp add: group_bits)
qed

lemma group_inj3:
  assumes "b64_char (drop_bit 6 (b64_group a0 a1 a2)) = b64_char (drop_bit 6 (b64_group b0 b1 b2))"
    and "b64_char (b64_group a0 a1 a2) = b64_char (b64_group b0 b1 b2)"
  shows "a2 = b2"
proof (rule byte_eqI)
  fix k :: nat
  assume "k < 8"
  have zero: "take_bit 6 (drop_bit 0 (b64_group a0 a1 a2)) = take_bit 6 (drop_bit 0 (b64_group b0 b1 b2))"
    using assms(2) by (simp add: b64_char_eq)
  from \<open>k < 8\<close> have "bit (b64_group a0 a1 a2) k = bit (b64_group b0 b1 b2) k"
    using sextets_bits [OF zero, of k] sextets_bits [OF assms(1) [unfolded b64_char_eq], of k]
    by (cases "k < 6") auto
  with \<open>k < 8\<close> show "bit a2 k = bit b2 k" by (simp add: group_bits)
qed

lemma length_base64url: "length (base64url bs) = (4 * length bs + 2) div 3"
  by (induction bs rule: base64url.induct) (auto simp: Let_def)

lemma base64url_inj: "length xs = length ys \<Longrightarrow> base64url xs = base64url ys \<Longrightarrow> xs = ys"
proof (induction xs arbitrary: ys rule: base64url.induct)
  case (2 a0)
  then obtain b0 where "ys = [b0]" by (cases ys) auto
  with 2 show ?case by (auto simp: Let_def dest: group_inj1)
next
  case (3 a0 a1)
  then obtain b0 b1 where "ys = [b0, b1]" by (cases ys; cases "tl ys") auto
  with 3 show ?case by (auto simp: Let_def dest: group_inj1 group_inj2)
next
  case (4 a0 a1 a2 as)
  then obtain b0 b1 b2 bs where ys: "ys = b0 # b1 # b2 # bs"
    by (cases ys; cases "tl ys"; cases "tl (tl ys)") auto
  with 4(3) have "a0 = b0" "a1 = b1" "a2 = b2" "base64url as = base64url bs"
    by (auto simp: Let_def dest: group_inj1 group_inj2 group_inj3)
  moreover have "as = bs" using 4(1) [OF refl, of bs] 4(2) ys calculation(4) by simp
  ultimately show ?case using ys by simp
qed simp

lemma b64_char_in: "b64_char n \<in> set B64_ALPHABET"
  unfolding b64_char_def using unat_and_63 b64_alphabet(1) by (intro nth_mem) simp

lemma base64url_chars: "set (base64url bs) \<subseteq> set B64_ALPHABET"
  by (induction bs rule: base64url.induct) (auto simp: Let_def b64_char_in)

section \<open>Refresh tokens and app tokens\<close>

definition REFRESH_TTL_SECS :: int where "REFRESH_TTL_SECS = 30 * 24 * 60 * 60"

record NewRefreshToken =
  rt_raw :: ustr
  rt_hash :: ustr

definition hash_token :: "(byte list \<Rightarrow> byte list) \<Rightarrow> ustr \<Rightarrow> ustr" where
  "hash_token sha256 raw = hex_encode (sha256 (as_bytes raw))"

definition generate :: "(byte list \<Rightarrow> byte list) \<Rightarrow> byte list \<Rightarrow> NewRefreshToken" where
  "generate sha256 bytes =
     (let raw = base64url bytes in \<lparr>rt_raw = raw, rt_hash = hash_token sha256 raw\<rparr>)"

definition PREFIX :: ustr where "PREFIX = lit ''ipat_''"
definition PERSONAL_PREFIX :: ustr where "PERSONAL_PREFIX = lit ''ippt_''"

record NewAppToken =
  at_raw :: ustr
  at_hash :: ustr
  at_prefix :: ustr
  at_last4 :: ustr

text \<open>
  \<open>raw.get(len - 4..)\<close> slices bytes; every character of the token is one byte, so it is the last four
  characters.
\<close>

definition generate_with_prefix ::
    "(byte list \<Rightarrow> byte list) \<Rightarrow> byte list \<Rightarrow> ustr \<Rightarrow> NewAppToken" where
  "generate_with_prefix sha256 bytes secret_prefix =
     (let raw = secret_prefix @ base64url bytes
      in \<lparr>at_raw = raw, at_hash = hash_token sha256 raw, at_prefix = take 11 raw,
          at_last4 = drop (length raw - 4) raw\<rparr>)"

definition generate_app :: "(byte list \<Rightarrow> byte list) \<Rightarrow> byte list \<Rightarrow> NewAppToken" where
  "generate_app sha256 bytes = generate_with_prefix sha256 bytes PREFIX"

definition generate_personal :: "(byte list \<Rightarrow> byte list) \<Rightarrow> byte list \<Rightarrow> NewAppToken" where
  "generate_personal sha256 bytes = generate_with_prefix sha256 bytes PERSONAL_PREFIX"

text \<open>\<open>sha256_hex\<close> of the API crate formats each byte with \<open>{:02x}\<close>.\<close>

definition fmt_02x :: "byte \<Rightarrow> ustr" where
  "fmt_02x b =
     (let n = unat b; d = (\<lambda>k. if k < 10 then 48 + k else 87 + k) in [d (n div 16), d (n mod 16)])"

definition sha256_hex :: "(byte list \<Rightarrow> byte list) \<Rightarrow> ustr \<Rightarrow> ustr" where
  "sha256_hex sha256 input = concat (map fmt_02x (sha256 (as_bytes input)))"

section \<open>Recovery codes\<close>

definition RECOVERY_CODE_COUNT :: nat where "RECOVERY_CODE_COUNT = 10"
definition GROUPS :: nat where "GROUPS = 3"
definition GROUP_LEN :: nat where "GROUP_LEN = 4"

definition RC_ALPHABET :: ustr where
  "RC_ALPHABET = lit ''ABCDEFGHJKMNPQRSTVWXYZ23456789''"

text \<open>\<open>draws i\<close> is the i-th value of \<open>rng.next_u32()\<close>.\<close>

definition random_code :: "(nat \<Rightarrow> 32 word) \<Rightarrow> ustr" where
  "random_code draws =
     join_with (lit ''-'')
       (map (\<lambda>g. map (\<lambda>i. RC_ALPHABET ! (unat (draws (g * GROUP_LEN + i)) mod length RC_ALPHABET))
                     [0..<GROUP_LEN]) [0..<GROUPS])"

text \<open>
  \<open>to_uppercase\<close> maps ASCII letters as usual; what it does beyond ASCII is the argument \<open>upper_tbl\<close>
  (one character may become several).
\<close>

definition to_uppercase :: "(uchar \<Rightarrow> ustr) \<Rightarrow> ustr \<Rightarrow> ustr" where
  "to_uppercase upper_tbl s =
     concat (map (\<lambda>c. if c < 128 then [ascii_upper c] else upper_tbl c) s)"

definition rc_normalize :: "(uchar \<Rightarrow> ustr) \<Rightarrow> ustr \<Rightarrow> ustr" where
  "rc_normalize upper_tbl code = filter (\<lambda>c. c \<noteq> 32) (to_uppercase upper_tbl (trim code))"

record RecoveryCode =
  rc_plaintext :: ustr
  rc_hash :: ustr

datatype PasswordError = Hash | InvalidHash

text \<open>
  \<open>generate_set\<close>: \<open>draws\<close> and \<open>salts\<close> are the random values of each code; hashing stops at the first
  error, as the \<open>?\<close> does.
\<close>

fun generate_codes ::
    "(uchar \<Rightarrow> ustr) \<Rightarrow> ('salt \<Rightarrow> ustr \<Rightarrow> PasswordError + ustr) \<Rightarrow> (nat \<Rightarrow> nat \<Rightarrow> 32 word) \<Rightarrow>
     (nat \<Rightarrow> 'salt) \<Rightarrow> nat list \<Rightarrow> PasswordError + RecoveryCode list" where
  "generate_codes upper_tbl hash_password draws salts [] = Inr []"
| "generate_codes upper_tbl hash_password draws salts (i # is) =
     (let plaintext = random_code (draws i)
      in case hash_password (salts i) (rc_normalize upper_tbl plaintext) of
           Inl e \<Rightarrow> Inl e
         | Inr h \<Rightarrow>
             (case generate_codes upper_tbl hash_password draws salts is of
                Inl e \<Rightarrow> Inl e
              | Inr out \<Rightarrow> Inr (\<lparr>rc_plaintext = plaintext, rc_hash = h\<rparr> # out)))"

definition generate_set ::
    "(uchar \<Rightarrow> ustr) \<Rightarrow> ('salt \<Rightarrow> ustr \<Rightarrow> PasswordError + ustr) \<Rightarrow> (nat \<Rightarrow> nat \<Rightarrow> 32 word) \<Rightarrow>
     (nat \<Rightarrow> 'salt) \<Rightarrow> PasswordError + RecoveryCode list" where
  "generate_set upper_tbl hash_password draws salts =
     generate_codes upper_tbl hash_password draws salts [0..<RECOVERY_CODE_COUNT]"

definition rc_verify ::
    "(uchar \<Rightarrow> ustr) \<Rightarrow> (ustr \<Rightarrow> ustr \<Rightarrow> PasswordError + bool) \<Rightarrow> ustr \<Rightarrow> ustr \<Rightarrow> bool" where
  "rc_verify upper_tbl verify_password candidate stored_hash =
     (case verify_password (rc_normalize upper_tbl candidate) stored_hash of
        Inl _ \<Rightarrow> False | Inr ok \<Rightarrow> ok)"

section \<open>Password policy\<close>

definition MIN_PASSWORD_LEN :: nat where "MIN_PASSWORD_LEN = 12"
definition MIN_ZXCVBN_SCORE :: nat where "MIN_ZXCVBN_SCORE = 3"

datatype WeakPassword = TooShort | TooGuessable

definition check_strength ::
    "(ustr \<Rightarrow> ustr list \<Rightarrow> nat) \<Rightarrow> ustr \<Rightarrow> ustr list \<Rightarrow> WeakPassword + unit" where
  "check_strength zxcvbn_score password user_inputs =
     (if byte_len password < MIN_PASSWORD_LEN then Inl TooShort
      else if zxcvbn_score password user_inputs < MIN_ZXCVBN_SCORE then Inl TooGuessable
      else Inr ())"

section \<open>Secrets at rest\<close>

definition NONCE_LEN :: nat where "NONCE_LEN = 12"

datatype SecretError = NoKey | Encrypt | Decrypt

text \<open>\<open>derive\<close> is HKDF expansion of the pepper to the AEAD key; \<open>None\<close> is its error.\<close>

definition cipher ::
    "(byte list \<Rightarrow> byte list option) \<Rightarrow> byte list option \<Rightarrow> SecretError + byte list" where
  "cipher derive pepper =
     (case pepper of
        None \<Rightarrow> Inl NoKey
      | Some p \<Rightarrow> (case derive p of None \<Rightarrow> Inl Encrypt | Some key \<Rightarrow> Inr key))"

definition secret_encrypt ::
    "(byte list \<Rightarrow> byte list option) \<Rightarrow> (byte list \<Rightarrow> byte list \<Rightarrow> byte list \<Rightarrow> byte list option) \<Rightarrow>
     byte list \<Rightarrow> byte list option \<Rightarrow> byte list \<Rightarrow> SecretError + byte list" where
  "secret_encrypt derive aead_encrypt nonce_bytes pepper plaintext =
     (case cipher derive pepper of
        Inl e \<Rightarrow> Inl e
      | Inr key \<Rightarrow>
          (case aead_encrypt key nonce_bytes plaintext of
             None \<Rightarrow> Inl Encrypt
           | Some ciphertext \<Rightarrow> Inr (nonce_bytes @ ciphertext)))"

definition secret_decrypt ::
    "(byte list \<Rightarrow> byte list option) \<Rightarrow> (byte list \<Rightarrow> byte list \<Rightarrow> byte list \<Rightarrow> byte list option) \<Rightarrow>
     byte list option \<Rightarrow> byte list \<Rightarrow> SecretError + byte list" where
  "secret_decrypt derive aead_decrypt pepper data =
     (if length data < NONCE_LEN then Inl Decrypt
      else case cipher derive pepper of
          Inl e \<Rightarrow> Inl e
        | Inr key \<Rightarrow>
            (case aead_decrypt key (take NONCE_LEN data) (drop NONCE_LEN data) of
               None \<Rightarrow> Inl Decrypt | Some pt \<Rightarrow> Inr pt))"

section \<open>Typed access tokens\<close>

definition ACCESS_TTL_SECS :: int where "ACCESS_TTL_SECS = 15 * 60"
definition MFA_TTL_SECS :: int where "MFA_TTL_SECS = 60"
definition TOKEN_TYPE_CLAIM :: ustr where "TOKEN_TYPE_CLAIM = lit ''type''"
definition TOKEN_TYPE_ACCESS :: ustr where "TOKEN_TYPE_ACCESS = lit ''access''"
definition TOKEN_TYPE_MFA :: ustr where "TOKEN_TYPE_MFA = lit ''mfa''"

datatype TokenError = InvalidKey | Build | Invalid

text \<open>
  The claims of a token: the standard times in seconds, the subject and the additional string claims.
  \<open>Claims::new\<close> sets issued-at and not-before to the present and an expiry that \<open>set_expiry\<close> replaces.
\<close>

record Claims =
  c_iat :: int
  c_nbf :: int
  c_exp :: int
  c_sub :: "ustr option"
  c_extra :: "(ustr \<times> ustr) list"

definition RFC3339_MIN :: int where "RFC3339_MIN = -62167219200"
definition RFC3339_MAX :: int where "RFC3339_MAX = 253402300799"

definition set_expiry :: "int \<Rightarrow> Claims \<Rightarrow> int \<Rightarrow> TokenError + Claims" where
  "set_expiry now claims ttl_secs =
     (let exp = now + ttl_secs
      in if exp < RFC3339_MIN \<or> exp > RFC3339_MAX then Inl Build else Inr (claims\<lparr>c_exp := exp\<rparr>))"

text \<open>
  \<open>seal\<close> is Paseto's \<open>local::encrypt\<close>; \<open>uuid_str\<close> is \<open>Uuid::to_string\<close>. The clock is an argument.
\<close>

definition issue_typed ::
    "('k \<Rightarrow> Claims \<Rightarrow> ustr option) \<Rightarrow> ('u \<Rightarrow> ustr) \<Rightarrow> int \<Rightarrow> 'k \<Rightarrow> 'u \<Rightarrow> int \<Rightarrow> ustr \<Rightarrow>
     TokenError + ustr" where
  "issue_typed seal uuid_str now key user_id ttl_secs token_type =
     (let claims = \<lparr>c_iat = now, c_nbf = now, c_exp = now + 3600, c_sub = Some (uuid_str user_id),
                    c_extra = [(TOKEN_TYPE_CLAIM, token_type)]\<rparr>
      in case set_expiry now claims ttl_secs of
           Inl e \<Rightarrow> Inl e
         | Inr claims \<Rightarrow> (case seal key claims of None \<Rightarrow> Inl Build | Some t \<Rightarrow> Inr t))"

text \<open>
  \<open>unseal\<close> is \<open>UntrustedToken::try_from\<close> and \<open>local::decrypt\<close> with the default rules at the given time;
  \<open>None\<close> is their error.
\<close>

definition verify_typed ::
    "('k \<Rightarrow> int \<Rightarrow> ustr \<Rightarrow> Claims option) \<Rightarrow> (ustr \<Rightarrow> 'u option) \<Rightarrow> int \<Rightarrow> 'k \<Rightarrow> ustr \<Rightarrow> ustr \<Rightarrow>
     TokenError + 'u" where
  "verify_typed unseal uuid_parse now key token expected_type =
     (case unseal key now token of
        None \<Rightarrow> Inl Invalid
      | Some claims \<Rightarrow>
          if map_of (c_extra claims) TOKEN_TYPE_CLAIM \<noteq> Some expected_type then Inl Invalid
          else case c_sub claims of
              None \<Rightarrow> Inl Invalid
            | Some sub \<Rightarrow> (case uuid_parse sub of None \<Rightarrow> Inl Invalid | Some u \<Rightarrow> Inr u))"

definition issue_access_token where
  "issue_access_token seal uuid_str now key user_id ttl_secs =
     issue_typed seal uuid_str now key user_id ttl_secs TOKEN_TYPE_ACCESS"

definition issue_mfa_token where
  "issue_mfa_token seal uuid_str now key user_id ttl_secs =
     issue_typed seal uuid_str now key user_id ttl_secs TOKEN_TYPE_MFA"

definition verify_access_token where
  "verify_access_token unseal uuid_parse now key token =
     verify_typed unseal uuid_parse now key token TOKEN_TYPE_ACCESS"

definition verify_mfa_token where
  "verify_mfa_token unseal uuid_parse now key token =
     verify_typed unseal uuid_parse now key token TOKEN_TYPE_MFA"

text \<open>What the code relies on of Paseto and of the uuid crate.\<close>

definition paseto_laws :: "('k \<Rightarrow> Claims \<Rightarrow> ustr option) \<Rightarrow> ('k \<Rightarrow> int \<Rightarrow> ustr \<Rightarrow> Claims option) \<Rightarrow> bool" where
  "paseto_laws seal unseal \<longleftrightarrow>
     (\<forall>key claims t now. seal key claims = Some t \<longrightarrow>
        unseal key now t =
          (if c_iat claims \<le> now \<and> c_nbf claims \<le> now \<and> now < c_exp claims
           then Some claims else None))"

section \<open>Request helpers\<close>

text \<open>Header values are byte strings; \<open>to_str\<close> accepts visible ASCII and tabs.\<close>

type_synonym HeaderMap = "(ustr \<times> ustr) list"

definition hv_to_str :: "ustr \<Rightarrow> ustr option" where
  "hv_to_str v = (if list_all (\<lambda>b. b = 9 \<or> (32 \<le> b \<and> b < 127)) v then Some v else None)"

definition header_str :: "HeaderMap \<Rightarrow> ustr \<Rightarrow> ustr option" where
  "header_str headers name = Option.bind (map_of headers name) hv_to_str"

definition request_id :: "HeaderMap \<Rightarrow> ustr" where
  "request_id headers = unwrap_or (header_str headers (lit ''x-request-id'')) (lit ''unknown'')"

definition user_agent :: "HeaderMap \<Rightarrow> ustr" where
  "user_agent headers = unwrap_or (header_str headers (lit ''user-agent'')) []"

definition client_ip :: "(ustr \<Rightarrow> 'ip option) \<Rightarrow> 'ip \<Rightarrow> HeaderMap \<Rightarrow> 'ip" where
  "client_ip parse_ip unknown_ip headers =
     (let forwarded = map_option (\<lambda>s. trim (hd (split_on (\<lambda>c. c = 44) s)))
                        (header_str headers (lit ''x-forwarded-for''));
          raw = (case forwarded of
                   None \<Rightarrow> header_str headers (lit ''x-real-ip'') | Some s \<Rightarrow> Some s)
      in unwrap_or (Option.bind raw parse_ip) unknown_ip)"

text \<open>The delay in seconds; \<open>failures\<close> is an \<open>i64\<close>, and \<open>saturating_sub\<close> cannot saturate here.\<close>

definition lockout_delay :: "int \<Rightarrow> nat" where
  "lockout_delay failures =
     (if failures < 4 then 0
      else let exponent = min (min (nat (failures - 3)) (2 ^ 32 - 1)) 5
           in min (min (2 ^ exponent) (2 ^ 64 - 1)) 30)"

section \<open>Lemmas\<close>

lemma base64url_byte: "c \<in> set (base64url bs) \<Longrightarrow> c < 128"
  using base64url_chars [of bs] by (auto simp: B64_ALPHABET_def lit_def)

lemma fmt_02x_hex: "fmt_02x b = hex_encode [b]"
proof -
  have and15: "unat (b AND 15) = unat b mod 16"
  proof -
    have "b AND 15 = take_bit 4 b" by (simp add: take_bit_eq_mask mask_eq_exp_minus_1)
    then show ?thesis by (simp only: unsigned_take_bit_eq) (simp add: take_bit_eq_mod)
  qed
  have shift4: "unat (drop_bit 4 b) = unat b div 16"
    unfolding unat_drop_bit_eq by (simp add: drop_bit_eq_div)
  have "unat b div 16 < 16" "unat b mod 16 < 16" using nibbles(1,2) [of b] and15 shift4 by simp_all
  then show ?thesis
    by (simp add: fmt_02x_def Let_def and15 shift4 from_digit16_def unwrap_or_def)
qed

text \<open>The two SHA-256 hex routines of the program agree.\<close>

lemma sha256_hex_hash_token: "sha256_hex sha256 raw = hash_token sha256 raw"
proof -
  have "concat (map fmt_02x bs) = hex_encode bs" for bs
    by (induction bs) (simp_all add: fmt_02x_hex)
  then show ?thesis by (simp add: sha256_hex_def hash_token_def)
qed

definition code_char :: "uchar \<Rightarrow> bool" where
  "code_char c \<longleftrightarrow> c \<in> set RC_ALPHABET \<or> c = 45"

lemma code_char_list: "code_char c \<longleftrightarrow> c \<in> set (RC_ALPHABET @ [45])"
  by (auto simp: code_char_def)

lemma RC_codes: "RC_ALPHABET =
    [65, 66, 67, 68, 69, 70, 71, 72, 74, 75, 77, 78, 80, 81, 82, 83,
     84, 86, 87, 88, 89, 90, 50, 51, 52, 53, 54, 55, 56, 57]"
  by (simp add: RC_ALPHABET_def lit_def)

lemma code_char_facts:
  assumes "code_char c"
  shows "c < 128" and "ascii_upper c = c" and "ascii_upper (ascii_lower c) = c"
    and "ascii_lower c < 128" and "c \<noteq> 32" and "\<not> is_white (ascii_lower c)"
    and "\<not> is_white c"
proof -
  have "list_all (\<lambda>c. c < 128 \<and> ascii_upper c = c \<and> ascii_upper (ascii_lower c) = c \<and>
      ascii_lower c < 128 \<and> c \<noteq> 32 \<and> \<not> is_white (ascii_lower c) \<and> \<not> is_white c) (RC_ALPHABET @ [45])"
    by (simp add: RC_codes ascii_upper_def ascii_lower_def is_ascii_upper_def is_ascii_lower_def
        is_white_def)
  then have "c < 128 \<and> ascii_upper c = c \<and> ascii_upper (ascii_lower c) = c \<and>
      ascii_lower c < 128 \<and> c \<noteq> 32 \<and> \<not> is_white (ascii_lower c) \<and> \<not> is_white c"
    using assms unfolding code_char_list list_all_iff by blast
  then show "c < 128" and "ascii_upper c = c" and "ascii_upper (ascii_lower c) = c"
    and "ascii_lower c < 128" and "c \<noteq> 32" and "\<not> is_white (ascii_lower c)"
    and "\<not> is_white c" by blast+
qed

lemma RC_ALPHABET_length: "length RC_ALPHABET = 30"
  by (simp add: RC_ALPHABET_def lit_def)

lemma random_code_chars: "c \<in> set (random_code draws) \<Longrightarrow> code_char c"
proof -
  assume c: "c \<in> set (random_code draws)"
  let ?grp = "\<lambda>g. map (\<lambda>i. RC_ALPHABET ! (unat (draws (g * GROUP_LEN + i)) mod length RC_ALPHABET)) [0..<GROUP_LEN]"
  have "set (random_code draws) \<subseteq> set (lit ''-'') \<union> \<Union> (set ` set (map ?grp [0..<GROUPS]))"
    unfolding random_code_def by (rule join_with_chars)
  moreover have "RC_ALPHABET ! (k mod length RC_ALPHABET) \<in> set RC_ALPHABET" for k
    by (intro nth_mem mod_less_divisor) (simp add: RC_ALPHABET_length)
  moreover have "set (lit ''-'') = {45}" by (simp add: lit_def)
  ultimately show ?thesis using c by (auto simp: code_char_def)
qed

lemma random_code_length: "length (random_code draws) = 14"
  by (simp add: random_code_def GROUPS_def GROUP_LEN_def upt_rec lit_def)

lemma trim_by_id: "\<forall>c\<in>set s. \<not> P c \<Longrightarrow> trim_by P s = s"
  by (simp add: trim_by_def dropWhile_eq_self_iff list.set_sel(1))
     (metis dropWhile_eq_self_iff hd_in_set rev_rev_ident set_rev)

lemma trim_by_padded:
  assumes "\<forall>c\<in>set s. \<not> P c" and "\<forall>c\<in>set a. P c" and "\<forall>c\<in>set b. P c"
  shows "trim_by P (a @ s @ b) = s"
proof -
  have pre: "dropWhile P (a @ t) = dropWhile P t" if "\<forall>c\<in>set a. P c" for a t
    using that by (simp add: dropWhile_append2)
  show ?thesis
  proof (cases s)
    case Nil
    have "dropWhile P (a @ b) = []"
      using assms(2,3) by (simp only: dropWhile_eq_Nil_conv set_append ball_Un)
    then show ?thesis by (simp only: Nil trim_by_def append_Nil rev.simps dropWhile.simps)
  next
    case (Cons c cs)
    with assms(1) have "dropWhile P (a @ s @ b) = s @ b" by (simp add: pre [OF assms(2)])
    moreover have "dropWhile P (rev b @ rev s) = dropWhile P (rev s)"
      using assms(3) by (intro pre) simp
    moreover have "dropWhile P (rev s) = rev s"
      using assms(1) trim_by_id [of "rev s" P] Cons
      by (metis dropWhile_eq_self_iff hd_in_set set_rev)
    ultimately show ?thesis by (simp add: trim_by_def)
  qed
qed

lemma to_uppercase_ascii: "\<forall>c\<in>set s. c < 128 \<Longrightarrow> to_uppercase tbl s = map ascii_upper s"
  by (induction s) (auto simp: to_uppercase_def)

lemma rc_normalize_code:
  assumes "\<forall>c\<in>set s. code_char c"
  shows "rc_normalize tbl s = s"
    and "rc_normalize tbl (lit '' '' @ map ascii_lower s @ lit '' '') = s"
proof -
  have "trim s = s" using assms by (simp add: trim_def trim_by_id code_char_facts)
  moreover have "to_uppercase tbl s = s"
    using assms by (simp add: to_uppercase_ascii code_char_facts map_idI)
  ultimately show "rc_normalize tbl s = s"
    using assms by (simp add: rc_normalize_def filter_id_conv code_char_facts)
  have "trim (lit '' '' @ map ascii_lower s @ lit '' '') = map ascii_lower s"
    unfolding trim_def
    by (rule trim_by_padded) (use assms in \<open>auto simp: code_char_facts lit_def is_white_def [of 32]\<close>)
  moreover have "to_uppercase tbl (map ascii_lower s) = s"
    using assms by (subst to_uppercase_ascii) (auto simp: code_char_facts intro!: map_idI)
  ultimately show "rc_normalize tbl (lit '' '' @ map ascii_lower s @ lit '' '') = s"
    using assms by (simp add: rc_normalize_def filter_id_conv code_char_facts)
qed

lemma generate_codes_spec:
  "generate_codes tbl hash draws salts is = Inr codes \<Longrightarrow>
     length codes = length is \<and>
     (\<forall>c\<in>set codes. \<exists>i. rc_plaintext c = random_code (draws i) \<and>
        hash (salts i) (rc_normalize tbl (rc_plaintext c)) = Inr (rc_hash c))"
proof (induction "is" arbitrary: codes)
  case (Cons i "is")
  then show ?case by (fastforce simp: Let_def split: sum.splits)
qed simp

section \<open>Properties\<close>

lemma app_token_raw:
  assumes "length bytes = 32"
  shows "length (at_raw (generate_with_prefix sha256 bytes p)) = length p + 43"
    and "at_raw (generate_with_prefix sha256 bytes p) = p @ base64url bytes"
  using assms by (simp_all add: generate_with_prefix_def Let_def length_base64url)

text \<open>
  An app token carries its whole 256-bit draw: the secret is the prefix and 43 characters of the
  URL-safe alphabet, two different draws never give the same secret, a personal token is never a
  project token, the stored digest is the digest that a lookup computes from the secret, and the two
  display hints are 11 and 4 characters of it.
\<close>

theorem app_token_secret:
  assumes "length bytes = 32" and "length bytes' = 32"
  shows "let t = generate_app sha256 bytes; p = generate_personal sha256 bytes' in
    length (at_raw t) = 48 \<and> set (drop 5 (at_raw t)) \<subseteq> set B64_ALPHABET \<and>
    at_hash t = sha256_hex sha256 (at_raw t) \<and>
    length (at_prefix t) = 11 \<and> length (at_last4 t) = 4 \<and>
    at_raw t \<noteq> at_raw p \<and>
    (at_raw t = at_raw (generate_app sha256 bytes') \<longleftrightarrow> bytes = bytes')"
proof -
  have len: "length (base64url bytes) = 43" using assms by (simp add: length_base64url)
  moreover have "base64url bytes = base64url bytes' \<longleftrightarrow> bytes = bytes'"
    using assms base64url_inj by metis
  moreover have pre: "PREFIX = [105, 112, 97, 116, 95]" "PERSONAL_PREFIX = [105, 112, 112, 116, 95]"
    by (simp_all add: PREFIX_def PERSONAL_PREFIX_def lit_def)
  ultimately show ?thesis
    using base64url_chars [of bytes]
    by (simp add: generate_app_def generate_personal_def generate_with_prefix_def Let_def
        sha256_hex_hash_token pre)
qed

lemma app_token_secret_witness:
  "at_raw (generate_app id (replicate 32 0)) \<noteq> at_raw (generate_app id (1 # replicate 31 0)) \<and>
   length (at_raw (generate_app id (replicate 32 0))) = 48"
proof -
  have "replicate 32 (0 :: byte) \<noteq> 1 # replicate 31 0"
    by (simp add: numeral_eq_Suc)
  then show ?thesis
    using app_token_secret [of "replicate 32 0" "1 # replicate 31 0" id] by (simp add: Let_def)
qed

text \<open>
  Enrollment issues ten recovery codes, each of three dash-separated groups of four, and each code
  verifies against its stored hash however it is typed: any input that normalizes to the code does,
  and the code in lower case with spaces around it is such an input.
\<close>

theorem recovery_codes_verify:
  assumes argon2: "\<And>salt p h. hash salt p = Inr h \<Longrightarrow> verify p h = Inr True"
    and "generate_set tbl hash draws salts = Inr codes" and "c \<in> set codes"
  shows "length codes = 10 \<and> length (rc_plaintext c) = 14 \<and>
    (\<forall>typed. rc_normalize tbl typed = rc_plaintext c \<longrightarrow> rc_verify tbl verify typed (rc_hash c)) \<and>
    rc_normalize tbl (rc_plaintext c) = rc_plaintext c \<and>
    rc_normalize tbl (lit '' '' @ map ascii_lower (rc_plaintext c) @ lit '' '') = rc_plaintext c"
proof -
  note spec = generate_codes_spec [OF assms(2) [unfolded generate_set_def]]
  then obtain i where code: "rc_plaintext c = random_code (draws i)"
    and hash: "hash (salts i) (rc_normalize tbl (rc_plaintext c)) = Inr (rc_hash c)"
    using assms(3) by blast
  have norm: "rc_normalize tbl (rc_plaintext c) = rc_plaintext c"
    "rc_normalize tbl (lit '' '' @ map ascii_lower (rc_plaintext c) @ lit '' '') = rc_plaintext c"
    unfolding code by (rule rc_normalize_code, simp add: random_code_chars)+
  moreover have "verify (rc_plaintext c) (rc_hash c) = Inr True"
    using argon2 [OF hash] norm(1) by simp
  ultimately show ?thesis
    using spec by (simp add: code random_code_length rc_verify_def RECOVERY_CODE_COUNT_def)
qed

lemma recovery_codes_verify_witness:
  "rc_verify (\<lambda>c. [c]) (\<lambda>p h. Inr (p = h)) (lit '' aaaa-aaaa-aaaa '') (lit ''AAAA-AAAA-AAAA'')"
proof -
  define hash where "hash = (\<lambda>(salt :: unit) p. Inr p :: PasswordError + ustr)"
  have code: "random_code (\<lambda>_. 0) = lit ''AAAA-AAAA-AAAA''"
    by (simp add: random_code_def GROUPS_def GROUP_LEN_def upt_rec RC_codes lit_def)
  have norm: "rc_normalize (\<lambda>c. [c]) (lit ''AAAA-AAAA-AAAA'') = lit ''AAAA-AAAA-AAAA''"
    by (rule rc_normalize_code) (auto simp: code_char_def RC_codes lit_def)
  let ?c = "\<lparr>rc_plaintext = lit ''AAAA-AAAA-AAAA'', rc_hash = lit ''AAAA-AAAA-AAAA''\<rparr>"
  have "generate_set (\<lambda>c. [c]) hash (\<lambda>_ _. 0) (\<lambda>_. ()) = Inr (replicate 10 ?c)"
    by (simp add: generate_set_def RECOVERY_CODE_COUNT_def upt_rec hash_def code norm Let_def
        numeral_eq_Suc)
  moreover have "?c \<in> set (replicate 10 ?c)" by simp
  ultimately show ?thesis
    using recovery_codes_verify [of hash "\<lambda>p h. Inr (p = h)" "\<lambda>c. [c]" "\<lambda>_ _. 0" "\<lambda>_. ()"
        "replicate 10 ?c" ?c]
    by (simp add: hash_def text_defs)
qed

text \<open>
  A secret encrypted at rest is read back unchanged, whatever the nonce drawn; without a pepper
  neither direction works, and data shorter than a nonce is refused.
\<close>

theorem secret_roundtrip:
  assumes aead: "\<And>key n pt ct. aead_encrypt key n pt = Some ct \<Longrightarrow> aead_decrypt key n ct = Some pt"
    and "length nonce = NONCE_LEN"
    and "secret_encrypt derive aead_encrypt nonce pepper plaintext = Inr data"
  shows "secret_decrypt derive aead_decrypt pepper data = Inr plaintext \<and> pepper \<noteq> None \<and>
    secret_decrypt derive aead_decrypt pepper (take (NONCE_LEN - 1) data) = Inl Decrypt"
proof -
  obtain key ct where "cipher derive pepper = Inr key" and "aead_encrypt key nonce plaintext = Some ct"
    and "data = nonce @ ct"
    using assms(3) by (auto simp: secret_encrypt_def split: sum.splits option.splits)
  moreover from this(1) have "pepper \<noteq> None" by (cases pepper) (auto simp: cipher_def)
  ultimately show ?thesis
    using assms(2) aead by (auto simp: secret_decrypt_def NONCE_LEN_def)
qed

lemma secret_roundtrip_witness:
  "secret_decrypt Some (\<lambda>key n ct. Some (rev ct)) (Some [7]) (replicate 12 0 @ [3, 2, 1]) = Inr [1, 2, 3]"
  using secret_roundtrip [of "\<lambda>key n pt. Some (rev pt)" "\<lambda>key n ct. Some (rev ct)" "replicate 12 0"
      Some "Some [7]" "[1, 2, 3]" "replicate 12 0 @ [3, 2, 1]"]
  by (simp add: secret_encrypt_def cipher_def NONCE_LEN_def)

text \<open>
  A token proves what it was issued for and nothing else: it verifies exactly from its issue until
  its lifetime has passed and exactly under its own type, so a second-factor challenge is never an
  access token, nor the reverse.
\<close>

theorem typed_token_exact:
  assumes paseto: "paseto_laws seal unseal" and uuid: "uuid_parse (uuid_str user_id) = Some user_id"
    and "issue_typed seal uuid_str now key user_id ttl ty = Inr token" and "0 \<le> ttl"
  shows "verify_typed unseal uuid_parse now' key token ty' =
    (if now \<le> now' \<and> now' < now + ttl \<and> ty' = ty then Inr user_id else Inl Invalid)"
proof -
  obtain claims where "seal key claims = Some token"
    and "claims = \<lparr>c_iat = now, c_nbf = now, c_exp = now + ttl, c_sub = Some (uuid_str user_id),
                   c_extra = [(TOKEN_TYPE_CLAIM, ty)]\<rparr>"
    using assms(3)
    by (auto simp: issue_typed_def set_expiry_def Let_def split: sum.splits option.splits if_splits)
  with paseto have "unseal key now' token =
      (if now \<le> now' \<and> now' < now + ttl
       then Some \<lparr>c_iat = now, c_nbf = now, c_exp = now + ttl, c_sub = Some (uuid_str user_id),
                  c_extra = [(TOKEN_TYPE_CLAIM, ty)]\<rparr> else None)"
    by (auto simp: paseto_laws_def)
  with uuid show ?thesis by (simp add: verify_typed_def)
qed

text \<open>A concrete Paseto: one key, the token spells out the claims in unary times.\<close>

definition demo_seal :: "unit \<Rightarrow> Claims \<Rightarrow> ustr option" where
  "demo_seal k c =
     (if c = \<lparr>c_iat = 100, c_nbf = 100, c_exp = 160, c_sub = Some [1],
              c_extra = [(TOKEN_TYPE_CLAIM, TOKEN_TYPE_MFA)]\<rparr> then Some [9] else None)"

definition demo_unseal :: "unit \<Rightarrow> int \<Rightarrow> ustr \<Rightarrow> Claims option" where
  "demo_unseal k now t =
     (if t = [9] \<and> 100 \<le> now \<and> now < 160
      then Some \<lparr>c_iat = 100, c_nbf = 100, c_exp = 160, c_sub = Some [1],
                 c_extra = [(TOKEN_TYPE_CLAIM, TOKEN_TYPE_MFA)]\<rparr> else None)"

lemma typed_token_exact_witness:
  "verify_mfa_token demo_unseal (\<lambda>s. Some (hd s)) 159 () [9] = Inr 1 \<and>
   verify_access_token demo_unseal (\<lambda>s. Some (hd s)) 159 () [9] = Inl Invalid \<and>
   verify_mfa_token demo_unseal (\<lambda>s. Some (hd s)) 160 () [9] = Inl Invalid"
proof -
  have laws: "paseto_laws demo_seal demo_unseal"
    by (simp add: paseto_laws_def demo_seal_def demo_unseal_def)
  have issue: "issue_typed demo_seal (\<lambda>u. [u]) 100 () 1 60 TOKEN_TYPE_MFA = Inr [9]"
    by (simp add: issue_typed_def set_expiry_def Let_def demo_seal_def RFC3339_MIN_def RFC3339_MAX_def)
  note exact = typed_token_exact [OF laws _ issue, of "\<lambda>s. Some (hd s)"]
  have "TOKEN_TYPE_MFA \<noteq> TOKEN_TYPE_ACCESS" by (simp add: TOKEN_TYPE_MFA_def TOKEN_TYPE_ACCESS_def)
  with exact [of 159 TOKEN_TYPE_MFA] exact [of 159 TOKEN_TYPE_ACCESS] exact [of 160 TOKEN_TYPE_MFA]
  show ?thesis by (simp add: verify_mfa_token_def verify_access_token_def)
qed

text \<open>
  The lockout curve: no delay below four failures, doubling from two seconds, thirty seconds from
  the eighth failure on, and never a shorter delay for more failures.
\<close>

theorem lockout_curve:
  "lockout_delay f = (if f < 4 then 0 else if f < 8 then 2 ^ nat (f - 3) else 30) \<and>
   mono lockout_delay \<and> lockout_delay f \<le> 30"
proof -
  have curve: "lockout_delay f = (if f < 4 then 0 else if f < 8 then 2 ^ nat (f - 3) else 30)" for f
  proof (cases "f < 8")
    case True
    then consider "f < 4" | "f = 4" | "f = 5" | "f = 6" | "f = 7" by linarith
    then show ?thesis by cases (simp_all add: lockout_delay_def Let_def)
  next
    case False
    then have "5 \<le> nat (f - 3)" by simp
    then have "min (min (nat (f - 3)) (2 ^ 32 - 1)) 5 = 5" by (simp add: min_def)
    with False show ?thesis by (simp add: lockout_delay_def Let_def)
  qed
  moreover have "lockout_delay f \<le> 30" for f by (simp add: lockout_delay_def Let_def)
  moreover have "mono lockout_delay"
  proof (rule monoI)
    fix x y :: int
    assume "x \<le> y"
    show "lockout_delay x \<le> lockout_delay y"
    proof (cases "x < 4")
      case False
      with \<open>x \<le> y\<close> have y: "\<not> y < 4" and "nat (x - 3) \<le> nat (y - 3)" by simp_all
      then show ?thesis
        unfolding lockout_delay_def Let_def if_not_P [OF False] if_not_P [OF y]
        by (intro min.mono power_increasing order_refl) simp_all
    qed (simp add: lockout_delay_def)
  qed
  ultimately show ?thesis by blast
qed

end
