(* ===== verification/Db_Monad.thy ===== *)
theory Db_Monad
  imports Encoding "HOL-Library.State_Monad"
begin

text \<open>
  Statements against the database as a state monad. A handler is a sequence of statements, each of
  which either takes effect as a whole or fails (the pool has no connection, the server is gone)
  and changes nothing: \<open>faults k\<close> says whether the k-th statement fails. Fresh row ids come from
  \<open>next_id\<close>, random draws from \<open>draws\<close>; the clocks of the server process (\<open>app_now\<close>) and of the
  database (\<open>db_now\<close>) are separate.

  Reasoning is by weakest preconditions (\<open>wp\<close>) for what one handler does, and by the locale
  \<open>evolution\<close> for what no handler ever undoes: a reflexive and transitive relation that every
  statement keeps is kept by every handler built from them.
\<close>

named_theorems wp_rules \<open>weakest preconditions of the statements and combinators\<close>

section \<open>Statements\<close>

datatype DbError = UniqueViolation | ForeignKeyViolation | Unavailable

record base =
  calls :: nat
  faults :: "nat \<Rightarrow> bool"
  next_id :: nat
  app_now :: int
  db_now :: int
  draws :: "nat \<Rightarrow> byte list"
  drawn :: nat

type_synonym ('s, 'a) db = "('s, DbError + 'a) state"

definition stmt :: "('w base_scheme \<Rightarrow> (DbError + 'a) \<times> 'w base_scheme) \<Rightarrow> ('w base_scheme, 'a) db" where
  "stmt f = State (\<lambda>s. let s' = s\<lparr>calls := Suc (calls s)\<rparr>
     in if faults s (calls s) then (Inl Unavailable, s') else f s')"

definition get_now :: "('w base_scheme, int) state" where
  "get_now = State (\<lambda>s. (app_now s, s))"

definition draw_bytes :: "('w base_scheme, byte list) state" where
  "draw_bytes = State (\<lambda>s. (draws s (drawn s), s\<lparr>drawn := Suc (drawn s)\<rparr>))"

definition sleep :: "nat \<Rightarrow> ('w base_scheme, unit) state" where
  "sleep secs = State (\<lambda>s. ((), s\<lparr>app_now := app_now s + int secs, db_now := db_now s + int secs\<rparr>))"

text \<open>\<open>pool.get()\<close>: whether a connection was obtained.\<close>

definition pool_get :: "('w base_scheme, bool) state" where
  "pool_get = do { r \<leftarrow> stmt (\<lambda>s. (Inr (), s)); State_Monad.return (case r of Inl _ \<Rightarrow> False | Inr _ \<Rightarrow> True) }"

text \<open>A read-only query, and a statement that changes the database without a result.\<close>

definition query :: "('w base_scheme \<Rightarrow> 'a) \<Rightarrow> ('w base_scheme, 'a) db" where
  "query g = stmt (\<lambda>s. (Inr (g s), s))"

definition execute :: "('w base_scheme \<Rightarrow> 'a) \<Rightarrow> ('w base_scheme \<Rightarrow> 'w base_scheme) \<Rightarrow> ('w base_scheme, 'a) db" where
  "execute g f = stmt (\<lambda>s. (Inr (g s), f s))"

text \<open>\<open>Result::unwrap_or\<close>, \<open>Result::is_ok_and\<close>, and dropping a result.\<close>

definition ok_or :: "'e + 'a \<Rightarrow> 'a \<Rightarrow> 'a" where
  "ok_or r d = (case r of Inl _ \<Rightarrow> d | Inr x \<Rightarrow> x)"

definition ignore :: "('s, 'a) state \<Rightarrow> ('s, unit) state" where
  "ignore m = do { _ \<leftarrow> m; State_Monad.return () }"

lemma ok_or_simps [simp]: "ok_or (Inl e) d = d" "ok_or (Inr x) d = x"
  by (simp_all add: ok_or_def)

lemma run_simps [simp]:
  "run_state (State_Monad.return x) s = (x, s)"
  "run_state (State_Monad.bind m f) s = (case run_state m s of (a, s') \<Rightarrow> run_state (f a) s')"
  by (simp_all add: State_Monad.return_def State_Monad.bind_def)

section \<open>Weakest preconditions\<close>

definition wp :: "('s, 'a) state \<Rightarrow> ('a \<Rightarrow> 's \<Rightarrow> bool) \<Rightarrow> 's \<Rightarrow> bool" where
  "wp m Q s = (case run_state m s of (a, s') \<Rightarrow> Q a s')"

lemma wp_return [wp_rules]: "wp (State_Monad.return x) Q s = Q x s"
  by (simp add: wp_def)

lemma wp_return_fun: "wp (State_Monad.return x) Q = Q x"
  by (simp add: fun_eq_iff wp_return)

lemma wp_bind [wp_rules]: "wp (State_Monad.bind m f) Q s = wp m (\<lambda>a. wp (f a) Q) s"
  by (auto simp: wp_def split: prod.splits)

lemma wp_stmt:
  "wp (stmt f) Q s =
     (let s' = s\<lparr>calls := Suc (calls s)\<rparr>
      in if faults s (calls s) then Q (Inl Unavailable) s' else (case f s' of (r, s'') \<Rightarrow> Q r s''))"
  by (simp add: wp_def stmt_def Let_def)

lemma wp_query [wp_rules]:
  "wp (query g) Q s =
     (if faults s (calls s) then Q (Inl Unavailable) (s\<lparr>calls := Suc (calls s)\<rparr>)
      else Q (Inr (g (s\<lparr>calls := Suc (calls s)\<rparr>))) (s\<lparr>calls := Suc (calls s)\<rparr>))"
  by (simp add: query_def wp_stmt Let_def)

lemma wp_execute [wp_rules]:
  "wp (execute g f) Q s =
     (if faults s (calls s) then Q (Inl Unavailable) (s\<lparr>calls := Suc (calls s)\<rparr>)
      else Q (Inr (g (s\<lparr>calls := Suc (calls s)\<rparr>))) (f (s\<lparr>calls := Suc (calls s)\<rparr>)))"
  by (simp add: execute_def wp_stmt Let_def)

lemma wp_pool_get [wp_rules]:
  "wp pool_get Q s = Q (\<not> faults s (calls s)) (s\<lparr>calls := Suc (calls s)\<rparr>)"
  by (simp add: pool_get_def wp_bind wp_stmt wp_return Let_def)

lemma wp_get_now [wp_rules]: "wp get_now Q s = Q (app_now s) s"
  by (simp add: wp_def get_now_def)

lemma wp_draw_bytes [wp_rules]:
  "wp draw_bytes Q s = Q (draws s (drawn s)) (s\<lparr>drawn := Suc (drawn s)\<rparr>)"
  by (simp add: wp_def draw_bytes_def)

lemma wp_sleep [wp_rules]:
  "wp (sleep k) Q s = Q () (s\<lparr>app_now := app_now s + int k, db_now := db_now s + int k\<rparr>)"
  by (simp add: wp_def sleep_def)

lemma wp_ignore [wp_rules]: "wp (ignore m) Q s = wp m (\<lambda>_. Q ()) s"
  by (auto simp: wp_def ignore_def split: prod.splits)

lemma wpI: "run_state m s = (a, s') \<Longrightarrow> wp m Q s \<Longrightarrow> Q a s'"
  by (simp add: wp_def)

lemma wp_mono: "wp m Q s \<Longrightarrow> (\<And>a s'. Q a s' \<Longrightarrow> Q' a s') \<Longrightarrow> wp m Q' s"
  by (auto simp: wp_def split: prod.splits)

text \<open>Branches of the handlers.\<close>

lemma wp_if [wp_rules]: "wp (if b then m else n) Q s = (if b then wp m Q s else wp n Q s)"
  by simp

lemma wp_option [wp_rules]:
  "wp (case x of None \<Rightarrow> m | Some y \<Rightarrow> f y) Q s = (case x of None \<Rightarrow> wp m Q s | Some y \<Rightarrow> wp (f y) Q s)"
  by (simp split: option.splits)

lemma wp_sum [wp_rules]:
  "wp (case x of Inl e \<Rightarrow> f e | Inr y \<Rightarrow> g y) Q s = (case x of Inl e \<Rightarrow> wp (f e) Q s | Inr y \<Rightarrow> wp (g y) Q s)"
  by (simp split: sum.splits)

lemma wp_prod [wp_rules]: "wp (case x of (a, b) \<Rightarrow> f a b) Q s = (case x of (a, b) \<Rightarrow> wp (f a b) Q s)"
  by (simp split: prod.splits)

section \<open>What no handler undoes\<close>

definition keeps :: "('s \<Rightarrow> 's \<Rightarrow> bool) \<Rightarrow> ('s, 'a) state \<Rightarrow> bool" where
  "keeps R m \<longleftrightarrow> (\<forall>s. R s (snd (run_state m s)))"

lemma keeps_wp: "keeps R m \<longleftrightarrow> (\<forall>s. wp m (\<lambda>_. R s) s)"
  by (simp add: keeps_def wp_def case_prod_beta)

locale evolution =
  fixes R :: "'s \<Rightarrow> 's \<Rightarrow> bool"
  assumes R_refl: "R s s"
    and R_trans: "R s t \<Longrightarrow> R t u \<Longrightarrow> R s u"
begin

lemma keeps_return: "keeps R (State_Monad.return x)"
  by (simp add: keeps_def R_refl)

lemma keeps_bind:
  assumes "keeps R m" and "\<And>a. keeps R (f a)"
  shows "keeps R (State_Monad.bind m f)"
proof -
  have "R s (snd (run_state (State_Monad.bind m f) s))" for s
  proof -
    obtain a t where "run_state m s = (a, t)" by fastforce
    moreover from this have "R s t" using assms(1) by (metis keeps_def snd_conv)
    moreover have "R t (snd (run_state (f a) t))" using assms(2) by (simp add: keeps_def)
    ultimately show ?thesis using R_trans by simp
  qed
  then show ?thesis by (simp add: keeps_def)
qed

lemma keeps_ignore: "keeps R m \<Longrightarrow> keeps R (ignore m)"
  by (simp add: ignore_def keeps_bind keeps_return)

lemma keeps_if: "keeps R m \<Longrightarrow> keeps R n \<Longrightarrow> keeps R (if b then m else n)"
  by simp

lemma keeps_option:
  "keeps R m \<Longrightarrow> (\<And>y. keeps R (f y)) \<Longrightarrow> keeps R (case x of None \<Rightarrow> m | Some y \<Rightarrow> f y)"
  by (simp split: option.splits)

lemma keeps_sum:
  "(\<And>e. keeps R (f e)) \<Longrightarrow> (\<And>y. keeps R (g y)) \<Longrightarrow>
     keeps R (case x of Inl e \<Rightarrow> f e | Inr y \<Rightarrow> g y)"
  by (simp split: sum.splits)

lemma keeps_prod: "(\<And>a b. keeps R (f a b)) \<Longrightarrow> keeps R (case x of (a, b) \<Rightarrow> f a b)"
  by (simp split: prod.splits)

lemma keeps_let: "(\<And>x. keeps R (f x)) \<Longrightarrow> keeps R (let x = e in f x)"
  by simp

lemmas keeps_rules = keeps_return keeps_bind keeps_ignore keeps_if keeps_option
  keeps_sum keeps_prod keeps_let

text \<open>Any number of handlers, run one after the other.\<close>

lemma keeps_run: "\<forall>m\<in>set ms. keeps R m \<Longrightarrow> R s (fold (\<lambda>m t. snd (run_state m t)) ms s)"
proof (induction ms arbitrary: s)
  case (Cons m ms)
  then have "R s (snd (run_state m s))" by (simp add: keeps_def)
  with Cons show ?case by (auto intro: R_trans)
qed (simp add: R_refl)

end

end
