(* ===== verification/Storage.thy ===== *)
theory Storage
  imports Path_Jail Db_Monad "HOL-Library.AList"
begin

text \<open>
  The object store (\<open>crates/storage/src\<close>): file-name sanitizing, storage keys, the contract of the
  \<open>Storage\<close> trait with its default methods, and the store on the local file system.

  A file system is a list of nodes by absolute path (a list of components; \<open>[]\<close> is \<open>/\<close>), in the order
  its directories list them. Every call may fail, as \<open>io_faults\<close> says; a call that writes may fail
  after part of its work. Unix paths are assumed, symbolic links and open handles are not modelled:
  a reader stands for the bytes it yields.
\<close>

section \<open>File names\<close>

definition MAX_LEN :: nat where "MAX_LEN = 200"

definition is_sep :: "uchar \<Rightarrow> bool" where
  "is_sep c \<longleftrightarrow> c = 47 \<or> c = 92"

definition dot :: "uchar \<Rightarrow> bool" where
  "dot c \<longleftrightarrow> c = 46"

text \<open>Byte offsets of a string that lie between two characters.\<close>

fun is_char_boundary :: "ustr \<Rightarrow> nat \<Rightarrow> bool" where
  "is_char_boundary s 0 = True"
| "is_char_boundary [] (Suc n) = False"
| "is_char_boundary (c # s) (Suc n) = (utf8_len c \<le> Suc n \<and> is_char_boundary s (Suc n - utf8_len c))"

text \<open>\<open>while !result.is_char_boundary(end) { end -= 1 }\<close>\<close>

function boundary_below :: "ustr \<Rightarrow> nat \<Rightarrow> nat" where
  "boundary_below s n = (if is_char_boundary s n then n else boundary_below s (n - 1))"
  by pat_completeness auto
termination
proof (relation "measure snd")
  fix s n
  assume "\<not> is_char_boundary s n"
  then have "n \<noteq> 0" by (cases n) auto
  then show "((s, n - 1), (s, n)) \<in> measure snd" by simp
qed simp

declare boundary_below.simps [simp del]

text \<open>\<open>String::truncate\<close> at a byte offset.\<close>

fun truncate_bytes :: "nat \<Rightarrow> ustr \<Rightarrow> ustr" where
  "truncate_bytes n [] = []"
| "truncate_bytes n (c # s) = (if utf8_len c \<le> n then c # truncate_bytes (n - utf8_len c) s else [])"

definition sanitize_filename :: "ustr \<Rightarrow> ustr" where
  "sanitize_filename raw =
     (let base = last (split_on is_sep raw);
          out = filter (\<lambda>ch. \<not> (is_control ch \<or> ch = 47 \<or> ch = 92 \<or> ch = 0)) base;
          trimmed = trim (trim_by dot (trim out));
          result = (if byte_len trimmed > MAX_LEN
                    then trim_by dot (truncate_bytes (boundary_below trimmed MAX_LEN) trimmed)
                    else trimmed)
      in if result = [] \<or> result = lit ''.'' \<or> result = lit ''..'' then lit ''file'' else result)"

section \<open>Storage keys\<close>

definition str_get :: "nat \<Rightarrow> nat \<Rightarrow> ustr \<Rightarrow> ustr option" where
  "str_get a b s = (if b \<le> length s then Some (drop a (take b s)) else None)"

text \<open>The filtered id is ASCII, so byte offsets are positions.\<close>

definition shard_key :: "ustr \<Rightarrow> ustr" where
  "shard_key i =
     (let safe = filter (\<lambda>c. is_ascii_alnum c \<or> c = 45) i;
          a = unwrap_or (str_get 0 2 safe) (lit ''00'');
          b = unwrap_or (str_get 2 4 safe) (lit ''00'')
      in a @ lit ''/'' @ b @ lit ''/'' @ safe)"

section \<open>The contract\<close>

type_synonym path = "ustr list"
type_synonym key = ustr

datatype IoError = IoNotFound | IoOther

datatype StorageError =
    NotFound
  | Io IoError
  | TooLarge "64 word" "64 word"
  | UnsupportedMime ustr

record StoredObject =
  so_key :: key
  so_size :: nat
  so_mime :: ustr
  so_sha256_hex :: ustr

text \<open>A reader yields its bytes, or fails (\<open>None\<close>).\<close>

type_synonym reader = "byte list option"

type_synonym ('s, 'a) sto = "('s, StorageError + 'a) state"

definition sat_add :: "64 word \<Rightarrow> 64 word \<Rightarrow> 64 word" where
  "sat_add a b = (if unat a + unat b < 2 ^ 64 then a + b else - 1)"

text \<open>The default methods of the trait, over the store's \<open>get\<close>.\<close>

definition default_size :: "(key \<Rightarrow> ('s, byte list) sto) \<Rightarrow> key \<Rightarrow> ('s, nat) sto" where
  "default_size get key = do {
     r \<leftarrow> get key;
     State_Monad.return (map_sum (\<lambda>e. e) length r)
   }"

definition default_open_range :: "(key \<Rightarrow> ('s, byte list) sto) \<Rightarrow> key \<Rightarrow> 64 word \<Rightarrow> 64 word \<Rightarrow> ('s, reader) sto" where
  "default_open_range get key start len = do {
     r \<leftarrow> get key;
     State_Monad.return (case r of
         Inl e \<Rightarrow> Inl e
       | Inr bytes \<Rightarrow>
           (let from = min (unat start) (length bytes);
                upto = min (unat (sat_add start len)) (length bytes)
            in Inr (Some (drop from (take upto bytes)))))
   }"

datatype op = Put key "byte list" ustr | Delete key

definition touches :: "key \<Rightarrow> op \<Rightarrow> bool" where
  "touches k x = (case x of Put j _ _ \<Rightarrow> j = k | Delete j \<Rightarrow> j = k)"

text \<open>
  What the store promises: it is a map from keys to bytes, and an operation that reports success has
  done exactly that to the map; one that fails has touched at most its own key.
\<close>

locale object_store =
  fixes put :: "key \<Rightarrow> byte list \<Rightarrow> ustr \<Rightarrow> ('s, StoredObject) sto"
    and get :: "key \<Rightarrow> ('s, byte list) sto"
    and delete :: "key \<Rightarrow> ('s, unit) sto"
    and contents :: "'s \<Rightarrow> key \<Rightarrow> byte list option"
  assumes put_other: "j \<noteq> k \<Longrightarrow> contents (snd (run_state (put k b m) s)) j = contents s j"
    and put_ok: "fst (run_state (put k b m) s) = Inr obj \<Longrightarrow>
      contents (snd (run_state (put k b m) s)) k = Some b \<and> so_key obj = k \<and> so_size obj = length b"
    and get_frame: "contents (snd (run_state (get k) s)) = contents s"
    and get_ok: "fst (run_state (get k) s) = Inr b \<Longrightarrow> contents s k = Some b"
    and get_missing: "fst (run_state (get k) s) = Inl NotFound \<Longrightarrow> contents s k = None"
    and delete_other: "j \<noteq> k \<Longrightarrow> contents (snd (run_state (delete k) s)) j = contents s j"
    and delete_ok: "fst (run_state (delete k) s) = Inr () \<Longrightarrow> contents (snd (run_state (delete k) s)) k = None"
    and delete_failed: "fst (run_state (delete k) s) = Inl e \<Longrightarrow> contents (snd (run_state (delete k) s)) k = contents s k"
begin

definition step :: "op \<Rightarrow> 's \<Rightarrow> 's" where
  "step x s = (case x of Put k b m \<Rightarrow> snd (run_state (put k b m) s) | Delete k \<Rightarrow> snd (run_state (delete k) s))"

lemma step_other: "\<not> touches k x \<Longrightarrow> contents (step x s) k = contents s k"
  by (auto simp: step_def touches_def put_other delete_other split: op.splits)

lemma steps_other: "\<forall>x\<in>set xs. \<not> touches k x \<Longrightarrow> contents (fold step xs s) k = contents s k"
  by (induction xs arbitrary: s) (auto simp: step_other)

text \<open>What was stored is what is read, until it is overwritten or deleted.\<close>

lemma put_then_get:
  assumes "fst (run_state (put k b m) s) = Inr obj" and "\<forall>x\<in>set xs. \<not> touches k x"
    and "fst (run_state (get k) (fold step xs (snd (run_state (put k b m) s)))) = r"
  shows "r = Inr b \<or> (\<exists>e. r = Inl e \<and> e \<noteq> NotFound)"
  using put_ok [OF assms(1)] steps_other [OF assms(2)] assms(3) get_ok get_missing
  by (cases r) (metis option.inject option.distinct(1))+

lemma delete_then_get:
  assumes "fst (run_state (delete k) s) = Inr ()" and "\<forall>x\<in>set xs. \<not> touches k x"
  shows "\<exists>e. fst (run_state (get k) (fold step xs (snd (run_state (delete k) s)))) = Inl e"
  using delete_ok [OF assms(1)] steps_other [OF assms(2)] get_ok
  by (metis option.distinct(1) sum.exhaust)

end

section \<open>The file system\<close>

datatype fnode = Dir | File "byte list" nat

text \<open>\<open>io_faults k = Some n\<close>: the k-th call fails; a writing call has by then done \<open>n\<close> parts of its work.\<close>

record fsys =
  nodes :: "(path \<times> fnode) list"
  clock :: nat
  io_calls :: nat
  io_faults :: "nat \<Rightarrow> nat option"
  device :: "path \<Rightarrow> nat"
  dir_len :: nat

type_synonym 'a io = "(fsys, IoError + 'a) state"

definition node_at :: "fsys \<Rightarrow> path \<Rightarrow> fnode option" where
  "node_at s p = (if p = [] then Some Dir else map_of (nodes s) p)"

definition put_node :: "path \<Rightarrow> fnode \<Rightarrow> fsys \<Rightarrow> fsys" where
  "put_node p n s = s\<lparr>nodes := AList.update p n (nodes s)\<rparr>"

definition drop_node :: "path \<Rightarrow> fsys \<Rightarrow> fsys" where
  "drop_node p s = s\<lparr>nodes := AList.delete p (nodes s)\<rparr>"

text \<open>Why a path that names nothing names nothing: a missing entry, or a file on the way.\<close>

definition absent :: "fsys \<Rightarrow> path \<Rightarrow> IoError" where
  "absent s p =
     (if list_ex (\<lambda>n. case node_at s (take n p) of Some (File _ _) \<Rightarrow> True | _ \<Rightarrow> False) [0..<length p]
      then IoOther else IoNotFound)"

definition io_step :: "(nat \<Rightarrow> fsys \<Rightarrow> fsys) \<Rightarrow> (fsys \<Rightarrow> (IoError + 'a) \<times> fsys) \<Rightarrow> 'a io" where
  "io_step partial f = State (\<lambda>s. let s' = s\<lparr>io_calls := Suc (io_calls s)\<rparr>
     in case io_faults s (io_calls s) of Some n \<Rightarrow> (Inl IoOther, partial n s') | None \<Rightarrow> f s')"

definition fs_read :: "path \<Rightarrow> (byte list) io" where
  "fs_read p = io_step (\<lambda>_ s. s) (\<lambda>s.
     case node_at s p of
       Some (File b _) \<Rightarrow> (Inr b, s) | Some Dir \<Rightarrow> (Inl IoOther, s) | None \<Rightarrow> (Inl (absent s p), s))"

definition fs_len :: "path \<Rightarrow> nat io" where
  "fs_len p = io_step (\<lambda>_ s. s) (\<lambda>s.
     case node_at s p of
       Some (File b _) \<Rightarrow> (Inr (length b), s) | Some Dir \<Rightarrow> (Inr (dir_len s), s) | None \<Rightarrow> (Inl (absent s p), s))"

definition fs_try_exists :: "path \<Rightarrow> bool io" where
  "fs_try_exists p = io_step (\<lambda>_ s. s) (\<lambda>s.
     case node_at s p of
       Some _ \<Rightarrow> (Inr True, s)
     | None \<Rightarrow> (if absent s p = IoNotFound then Inr False else Inl IoOther, s))"

definition can_write :: "fsys \<Rightarrow> path \<Rightarrow> bool" where
  "can_write s p \<longleftrightarrow> node_at s (butlast p) = Some Dir \<and> node_at s p \<noteq> Some Dir"

definition written :: "path \<Rightarrow> byte list \<Rightarrow> fsys \<Rightarrow> fsys" where
  "written p b s = put_node p (File b (clock s)) s"

text \<open>A write that fails has not opened the file, or leaves a beginning of the bytes.\<close>

definition fs_write :: "path \<Rightarrow> byte list \<Rightarrow> unit io" where
  "fs_write p b = io_step
     (\<lambda>n s. if 0 < n \<and> can_write s p then written p (take (n - 1) b) s else s)
     (\<lambda>s. if can_write s p then (Inr (), written p b s) else (Inl (if node_at s p = None then absent s p else IoOther), s))"

fun make_dirs :: "path list \<Rightarrow> fsys \<Rightarrow> (IoError + unit) \<times> fsys" where
  "make_dirs [] s = (Inr (), s)"
| "make_dirs (p # ps) s =
     (case node_at s p of
        Some Dir \<Rightarrow> make_dirs ps s
      | Some (File _ _) \<Rightarrow> (Inl IoOther, s)
      | None \<Rightarrow> make_dirs ps (put_node p Dir s))"

definition prefixes_of :: "path \<Rightarrow> path list" where
  "prefixes_of p = map (\<lambda>n. take (Suc n) p) [0..<length p]"

definition fs_create_dir_all :: "path \<Rightarrow> unit io" where
  "fs_create_dir_all p = io_step (\<lambda>n s. snd (make_dirs (take n (prefixes_of p)) s)) (make_dirs (prefixes_of p))"

definition fs_remove_file :: "path \<Rightarrow> unit io" where
  "fs_remove_file p = io_step (\<lambda>_ s. s) (\<lambda>s.
     case node_at s p of
       Some (File _ _) \<Rightarrow> (Inr (), drop_node p s) | Some Dir \<Rightarrow> (Inl IoOther, s) | None \<Rightarrow> (Inl (absent s p), s))"

definition fs_rename :: "path \<Rightarrow> path \<Rightarrow> unit io" where
  "fs_rename src dst = io_step (\<lambda>_ s. s) (\<lambda>s.
     case node_at s src of
       Some (File b m) \<Rightarrow>
         if device s src = device s dst \<and> can_write s dst
         then (Inr (), put_node dst (File b m) (drop_node src s)) else (Inl IoOther, s)
     | Some Dir \<Rightarrow> (Inl IoOther, s)
     | None \<Rightarrow> (Inl (absent s src), s))"

definition fs_copy :: "path \<Rightarrow> path \<Rightarrow> unit io" where
  "fs_copy src dst = io_step
     (\<lambda>n s. case node_at s src of
        Some (File b _) \<Rightarrow> if 0 < n \<and> can_write s dst then written dst (take (n - 1) b) s else s | _ \<Rightarrow> s)
     (\<lambda>s. case node_at s src of
        Some (File b _) \<Rightarrow> if can_write s dst then (Inr (), written dst b s) else (Inl IoOther, s)
      | Some Dir \<Rightarrow> (Inl IoOther, s)
      | None \<Rightarrow> (Inl (absent s src), s))"

text \<open>The entries of a directory.\<close>

definition fs_read_dir :: "path \<Rightarrow> path list io" where
  "fs_read_dir p = io_step (\<lambda>_ s. s) (\<lambda>s.
     case node_at s p of
       Some Dir \<Rightarrow> (Inr (filter (\<lambda>q. q \<noteq> [] \<and> butlast q = p) (map fst (nodes s))), s)
     | Some (File _ _) \<Rightarrow> (Inl IoOther, s)
     | None \<Rightarrow> (Inl (absent s p), s))"

section \<open>The store on the local file system\<close>

definition bad_component :: "ustr \<Rightarrow> bool" where
  "bad_component c \<longleftrightarrow> c = [] \<or> c = lit ''.'' \<or> c = lit ''..'' \<or> 92 \<in> set c \<or> 0 \<in> set c"

fun push_all :: "ustr list \<Rightarrow> path \<Rightarrow> path option" where
  "push_all [] p = Some p"
| "push_all (c # cs) p = (if bad_component c then None else push_all cs (p @ [c]))"

definition path_starts_with :: "path \<Rightarrow> path \<Rightarrow> bool" where
  "path_starts_with root p \<longleftrightarrow> take (length root) p = root"

definition store_resolve :: "path \<Rightarrow> key \<Rightarrow> StorageError + path" where
  "store_resolve root k =
     (if k = [] then Inl NotFound
      else case push_all (split_on (\<lambda>c. c = 47) k) root of
        None \<Rightarrow> Inl NotFound
      | Some p \<Rightarrow> if path_starts_with root p then Inr p else Inl NotFound)"

text \<open>\<open>?\<close> on an I/O result, and the mapping of \<open>NotFound\<close> in the reading operations.\<close>

definition try_io :: "'a io \<Rightarrow> ('a \<Rightarrow> (fsys, 'b) sto) \<Rightarrow> (fsys, 'b) sto" where
  "try_io m f = do { r \<leftarrow> m; case r of Inl e \<Rightarrow> State_Monad.return (Inl (Io e)) | Inr x \<Rightarrow> f x }"

definition not_found_of :: "IoError + 'a \<Rightarrow> StorageError + 'a" where
  "not_found_of r = (case r of Inl IoNotFound \<Rightarrow> Inl NotFound | Inl e \<Rightarrow> Inl (Io e) | Inr x \<Rightarrow> Inr x)"

definition local_put :: "(byte list \<Rightarrow> byte list) \<Rightarrow> path \<Rightarrow> key \<Rightarrow> byte list \<Rightarrow> ustr \<Rightarrow> (fsys, StoredObject) sto" where
  "local_put sha256 root k body mime =
     (case store_resolve root k of
        Inl e \<Rightarrow> State_Monad.return (Inl e)
      | Inr p \<Rightarrow>
          try_io (fs_create_dir_all (butlast p)) (\<lambda>_.
          try_io (fs_write p body) (\<lambda>_.
          State_Monad.return (Inr \<lparr>so_key = k, so_size = length body, so_mime = mime,
            so_sha256_hex = hex_encode (sha256 body)\<rparr>))))"

definition local_get :: "path \<Rightarrow> key \<Rightarrow> (fsys, byte list) sto" where
  "local_get root k =
     (case store_resolve root k of
        Inl e \<Rightarrow> State_Monad.return (Inl e)
      | Inr p \<Rightarrow> do { r \<leftarrow> fs_read p; State_Monad.return (not_found_of r) })"

definition local_delete :: "path \<Rightarrow> key \<Rightarrow> (fsys, unit) sto" where
  "local_delete root k =
     (case store_resolve root k of
        Inl e \<Rightarrow> State_Monad.return (Inl e)
      | Inr p \<Rightarrow> do {
          r \<leftarrow> fs_remove_file p;
          State_Monad.return (case r of Inr _ \<Rightarrow> Inr () | Inl IoNotFound \<Rightarrow> Inr () | Inl e \<Rightarrow> Inl (Io e))
        })"

definition STAGING_DIR :: ustr where "STAGING_DIR = lit ''.staging''"

definition staging_dir :: "path \<Rightarrow> path" where
  "staging_dir root = root @ [STAGING_DIR]"

definition last_segment :: "key \<Rightarrow> ustr" where
  "last_segment k = last (split_on (\<lambda>c. c = 47) k)"

definition local_put_file :: "path \<Rightarrow> key \<Rightarrow> path \<Rightarrow> ustr \<Rightarrow> (fsys, StoredObject) sto" where
  "local_put_file root k src mime =
     (case store_resolve root k of
        Inl e \<Rightarrow> State_Monad.return (Inl e)
      | Inr p \<Rightarrow>
          try_io (fs_len src) (\<lambda>size.
          try_io (fs_try_exists p) (\<lambda>exists.
          let stored = State_Monad.return (Inr \<lparr>so_key = k, so_size = size, so_mime = mime,
                so_sha256_hex = last_segment k\<rparr>)
          in if exists then try_io (fs_remove_file src) (\<lambda>_. stored)
             else try_io (fs_create_dir_all (butlast p)) (\<lambda>_. do {
               moved \<leftarrow> fs_rename src p;
               case moved of
                 Inr _ \<Rightarrow> stored
               | Inl _ \<Rightarrow> try_io (fs_copy src p) (\<lambda>_. try_io (fs_remove_file src) (\<lambda>_. stored))
             }))))"

definition local_size :: "path \<Rightarrow> key \<Rightarrow> (fsys, nat) sto" where
  "local_size root k =
     (case store_resolve root k of
        Inl e \<Rightarrow> State_Monad.return (Inl e)
      | Inr p \<Rightarrow> do { r \<leftarrow> fs_len p; State_Monad.return (not_found_of r) })"

text \<open>Opening a directory succeeds; reading from it fails.\<close>

definition fs_open :: "path \<Rightarrow> reader io" where
  "fs_open p = io_step (\<lambda>_ s. s) (\<lambda>s.
     case node_at s p of
       Some (File b _) \<Rightarrow> (Inr (Some b), s) | Some Dir \<Rightarrow> (Inr None, s) | None \<Rightarrow> (Inl (absent s p), s))"

text \<open>File offsets are signed: a position of \<open>2 ^ 63\<close> or more is refused.\<close>

definition fs_seek :: "64 word \<Rightarrow> reader \<Rightarrow> reader io" where
  "fs_seek start r = io_step (\<lambda>_ s. s) (\<lambda>s.
     if unat start < 2 ^ 63 then (Inr (map_option (drop (unat start)) r), s) else (Inl IoOther, s))"

definition local_open_range :: "path \<Rightarrow> key \<Rightarrow> 64 word \<Rightarrow> 64 word \<Rightarrow> (fsys, reader) sto" where
  "local_open_range root k start len =
     (case store_resolve root k of
        Inl e \<Rightarrow> State_Monad.return (Inl e)
      | Inr p \<Rightarrow> do {
          r \<leftarrow> fs_open p;
          case not_found_of r of
            Inl e \<Rightarrow> State_Monad.return (Inl e)
          | Inr file \<Rightarrow>
              if start > 0
              then try_io (fs_seek start file) (\<lambda>f. State_Monad.return (Inr (map_option (take (unat len)) f)))
              else State_Monad.return (Inr (map_option (take (unat len)) file))
        })"

text \<open>
  The modification time of a directory is not kept; an entry that is a directory is never removed. The
  directory stream is read without failing once it is open.
\<close>

definition fs_stat :: "path \<Rightarrow> fnode io" where
  "fs_stat p = io_step (\<lambda>_ s. s) (\<lambda>s.
     case node_at s p of Some n \<Rightarrow> (Inr n, s) | None \<Rightarrow> (Inl (absent s p), s))"

definition older_than :: "nat \<Rightarrow> nat \<Rightarrow> IoError + fnode \<Rightarrow> bool" where
  "older_than now max_age r =
     (case r of Inr (File _ m) \<Rightarrow> m \<le> now \<and> now - m > max_age | _ \<Rightarrow> False)"

fun sweep_entries :: "nat \<Rightarrow> path list \<Rightarrow> nat \<Rightarrow> (fsys, nat) state" where
  "sweep_entries max_age [] removed = State_Monad.return removed"
| "sweep_entries max_age (p # ps) removed = do {
     meta \<leftarrow> fs_stat p;
     now \<leftarrow> State (\<lambda>s. (clock s, s));
     if older_than now max_age meta
     then do {
       r \<leftarrow> fs_remove_file p;
       sweep_entries max_age ps (case r of Inr _ \<Rightarrow> Suc removed | Inl _ \<Rightarrow> removed)
     }
     else sweep_entries max_age ps removed
   }"

definition sweep_staging :: "path \<Rightarrow> nat \<Rightarrow> (fsys, nat) state" where
  "sweep_staging root max_age = do {
     r \<leftarrow> fs_read_dir (staging_dir root);
     case r of
       Inl _ \<Rightarrow> State_Monad.return 0
     | Inr entries \<Rightarrow> sweep_entries max_age entries 0
   }"

section \<open>The store is a map\<close>

lemma wp_io_step:
  "wp (io_step partial f) Q s =
     (let s' = s\<lparr>io_calls := Suc (io_calls s)\<rparr>
      in case io_faults s (io_calls s) of Some n \<Rightarrow> Q (Inl IoOther) (partial n s')
         | None \<Rightarrow> (case f s' of (r, t) \<Rightarrow> Q r t))"
  by (simp add: wp_def io_step_def Let_def split: option.split)

definition file_at :: "fsys \<Rightarrow> path \<Rightarrow> byte list option" where
  "file_at s p = (case node_at s p of Some (File b _) \<Rightarrow> Some b | _ \<Rightarrow> None)"

lemma node_at_frame [simp]: "node_at (s\<lparr>io_calls := c\<rparr>) = node_at s" "file_at (s\<lparr>io_calls := c\<rparr>) = file_at s"
  by (simp_all add: fun_eq_iff node_at_def file_at_def)

lemma absent_frame [simp]: "absent (s\<lparr>io_calls := c\<rparr>) = absent s" "can_write (s\<lparr>io_calls := c\<rparr>) = can_write s"
  by (simp_all add: fun_eq_iff absent_def can_write_def)

lemma node_at_put: "node_at (put_node p n s) q = (if q = p \<and> p \<noteq> [] then Some n else node_at s q)"
  by (simp add: node_at_def put_node_def update_conv')

lemma node_at_drop: "p \<noteq> [] \<Longrightarrow> node_at (drop_node p s) q = (if q = p then None else node_at s q)"
  by (simp add: node_at_def drop_node_def delete_conv')

lemma file_at_written: "p \<noteq> [] \<Longrightarrow> file_at (written p b s) = (file_at s)(p \<mapsto> b)"
  by (simp add: fun_eq_iff file_at_def written_def node_at_put)

lemma file_at_drop: "p \<noteq> [] \<Longrightarrow> file_at (drop_node p s) = (file_at s)(p := None)"
  by (simp add: fun_eq_iff file_at_def node_at_drop)

lemma file_at_put_dir: "node_at s p = None \<Longrightarrow> file_at (put_node p Dir s) = file_at s"
  by (simp add: fun_eq_iff file_at_def node_at_put)

lemma file_at_make_dirs: "file_at (snd (make_dirs ps s)) = file_at s"
  by (induction ps s rule: make_dirs.induct)
     (simp_all add: file_at_put_dir split: option.split fnode.split)

lemma push_all_spec: "push_all cs p = (if list_ex bad_component cs then None else Some (p @ cs))"
  by (induction cs arbitrary: p) auto

lemma store_resolve_Inr:
  "store_resolve root k = Inr p \<longleftrightarrow>
     k \<noteq> [] \<and> \<not> list_ex bad_component (split_on (\<lambda>c. c = 47) k) \<and> p = root @ split_on (\<lambda>c. c = 47) k"
  by (auto simp: store_resolve_def push_all_spec path_starts_with_def)

lemma store_resolve_inj: "store_resolve root j = Inr p \<Longrightarrow> store_resolve root k = Inr p \<Longrightarrow> j = k"
proof -
  assume "store_resolve root j = Inr p" and "store_resolve root k = Inr p"
  then have "root @ split_on (\<lambda>c. c = 47) j = root @ split_on (\<lambda>c. c = 47) k"
    unfolding store_resolve_Inr by blast
  then have "join_with [47] (split_on (\<lambda>c. c = 47) j) = join_with [47] (split_on (\<lambda>c. c = 47) k)"
    unfolding same_append_eq by (rule arg_cong)
  then show "j = k" unfolding join_split_on .
qed

lemma store_resolve_not_Nil: "store_resolve root k = Inr p \<Longrightarrow> p \<noteq> []"
  by (simp add: store_resolve_Inr)

definition contents :: "path \<Rightarrow> fsys \<Rightarrow> key \<Rightarrow> byte list option" where
  "contents root s k = (case store_resolve root k of Inl _ \<Rightarrow> None | Inr p \<Rightarrow> file_at s p)"

definition writes_at :: "path \<Rightarrow> fsys \<Rightarrow> fsys \<Rightarrow> bool" where
  "writes_at p s t \<longleftrightarrow> (\<forall>q. q \<noteq> p \<longrightarrow> file_at t q = file_at s q)"

lemma writes_at_same: "file_at t = file_at s \<Longrightarrow> writes_at p s t"
  by (simp add: writes_at_def)

lemma writes_at_file: "writes_at p s t \<Longrightarrow> q \<noteq> p \<Longrightarrow> file_at t q = file_at s q"
  by (simp add: writes_at_def)

lemma contents_other: "store_resolve root k = Inr p \<Longrightarrow> writes_at p s t \<Longrightarrow> j \<noteq> k \<Longrightarrow> contents root t j = contents root s j"
proof (cases "store_resolve root j")
  case (Inr q)
  moreover assume "store_resolve root k = Inr p" and "writes_at p s t" and "j \<noteq> k"
  moreover from calculation have "q \<noteq> p" using store_resolve_inj by blast
  ultimately show ?thesis by (simp add: contents_def writes_at_file)
qed (simp add: contents_def)

lemma fs_write_wp:
  assumes "p \<noteq> []"
  shows "wp (fs_write p b) (\<lambda>r t. writes_at p s t \<and> (r = Inr () \<longrightarrow> file_at t p = Some b)) s"
  using assms by (auto simp: fs_write_def wp_io_step Let_def writes_at_def file_at_written split: option.split)

lemma create_dirs_wp: "wp (fs_create_dir_all p) (\<lambda>r t. file_at t = file_at s) s"
  using file_at_make_dirs
  by (auto simp: fs_create_dir_all_def wp_io_step Let_def split: option.split prod.split) (metis node_at_frame(2) snd_conv)

lemma wp_try_io: "wp (try_io m f) Q s = wp m (\<lambda>r. case r of Inl e \<Rightarrow> Q (Inl (Io e)) | Inr x \<Rightarrow> wp (f x) Q) s"
  by (auto simp: try_io_def wp_bind wp_def split: sum.splits prod.splits)

lemma local_put_wp:
  "wp (local_put sha256 root k b m) (\<lambda>r t.
     (store_resolve root k = Inr p \<longrightarrow> writes_at p s t) \<and>
     (\<forall>obj. r = Inr obj \<longrightarrow> contents root t k = Some b \<and>
        obj = \<lparr>so_key = k, so_size = length b, so_mime = m, so_sha256_hex = hex_encode (sha256 b)\<rparr>) \<and>
     (\<forall>e. store_resolve root k = Inl e \<longrightarrow> t = s)) s"
proof (cases "store_resolve root k")
  case (Inr q)
  have "wp (fs_write q b) (\<lambda>r t. writes_at q s t \<and> (r = Inr () \<longrightarrow> contents root t k = Some b)) t"
    if "file_at t = file_at s" for t
    by (rule wp_mono [OF fs_write_wp [OF store_resolve_not_Nil [OF Inr]]]) (use that Inr in \<open>auto simp: writes_at_def contents_def\<close>)
  then have "wp (fs_write q b) (\<lambda>r. case r of Inl e \<Rightarrow> (\<lambda>t. writes_at q s t)
      | Inr _ \<Rightarrow> (\<lambda>t. writes_at q s t \<and> contents root t k = Some b)) t"
    if "file_at t = file_at s" for t
    using that by (fastforce elim: wp_mono split: sum.splits)
  note written = wp_mono [OF this]
  from Inr show ?thesis
    by (auto simp: local_put_def wp_try_io wp_return_fun intro!: wp_mono [OF create_dirs_wp] written writes_at_same
        split: sum.splits)
qed (simp add: local_put_def wp_return contents_def)

lemma local_get_wp:
  "wp (local_get root k) (\<lambda>r t. file_at t = file_at s \<and>
     (\<forall>b. r = Inr b \<longrightarrow> contents root s k = Some b) \<and> (r = Inl NotFound \<longrightarrow> contents root s k = None) \<and>
     (\<forall>b. io_faults s (io_calls s) = None \<and> contents root s k = Some b \<longrightarrow> r = Inr b)) s"
  by (auto simp: local_get_def fs_read_def wp_bind wp_return_fun wp_io_step Let_def contents_def file_at_def
      not_found_of_def split: sum.splits option.splits fnode.splits IoError.splits)

lemma fs_remove_wp:
  assumes "p \<noteq> []"
  shows "wp (fs_remove_file p) (\<lambda>r t. writes_at p s t \<and> (r = Inr () \<longrightarrow> file_at t p = None) \<and>
     (\<forall>e. r = Inl e \<longrightarrow> file_at t = file_at s \<and> (e = IoNotFound \<longrightarrow> file_at s p = None))) s"
proof (cases "node_at s p")
  case None
  then show ?thesis
    by (auto simp: fs_remove_file_def wp_io_step Let_def file_at_def intro!: writes_at_same split: option.split)
next
  case (Some n)
  then show ?thesis
    using assms
    by (cases n) (auto simp: fs_remove_file_def wp_io_step Let_def file_at_drop writes_at_def split: option.split)
qed

lemma local_delete_wp:
  "wp (local_delete root k) (\<lambda>r t. (store_resolve root k = Inr p \<longrightarrow> writes_at p s t) \<and>
     (r = Inr () \<longrightarrow> contents root t k = None) \<and>
     ((\<exists>e. r = Inl e) \<longrightarrow> file_at t = file_at s)) s"
proof (cases "store_resolve root k")
  case (Inr q)
  then show ?thesis
    by (auto simp: local_delete_def wp_bind wp_return_fun contents_def
        intro!: wp_mono [OF fs_remove_wp [OF store_resolve_not_Nil [OF Inr]]] split: sum.splits IoError.splits)
qed (simp add: local_delete_def wp_return contents_def)

lemma contents_file_at: "file_at t = file_at s \<Longrightarrow> contents root t = contents root s"
  by (simp add: contents_def fun_eq_iff split: sum.split)

lemma wp_run: "wp m Q s = Q (fst (run_state m s)) (snd (run_state m s))"
  by (simp add: wp_def case_prod_beta)

lemma unresolved_contents: "store_resolve root k = Inl e \<Longrightarrow> contents root s k = None"
  by (simp add: contents_def)

interpretation disk: object_store "local_put sha256 root" "local_get root" "local_delete root" "contents root"
  for sha256 root
proof
  fix j k b m s and obj :: StoredObject and e
  note put = local_put_wp [of sha256 root k b m _ s, unfolded wp_run]
  note del = local_delete_wp [of root k _ s, unfolded wp_run]
  note got = local_get_wp [of root k s, unfolded wp_run]
  show "contents root (snd (run_state (local_put sha256 root k b m) s)) j = contents root s j" if "j \<noteq> k"
    using put that by (cases "store_resolve root k") (auto intro: contents_other)
  show "contents root (snd (run_state (local_put sha256 root k b m) s)) k = Some b \<and> so_key obj = k \<and> so_size obj = length b"
    if "fst (run_state (local_put sha256 root k b m) s) = Inr obj"
    using put that by simp
  show "contents root (snd (run_state (local_get root k) s)) = contents root s"
    using got by (intro contents_file_at) blast
  show "contents root s k = Some b" if "fst (run_state (local_get root k) s) = Inr b"
    using got that by blast
  show "contents root s k = None" if "fst (run_state (local_get root k) s) = Inl NotFound"
    using got that by blast
  show "contents root (snd (run_state (local_delete root k) s)) j = contents root s j" if "j \<noteq> k"
  proof (cases "store_resolve root k")
    case (Inl err)
    then show ?thesis by (simp add: local_delete_def)
  next
    case (Inr p)
    then show ?thesis using del that by (auto intro: contents_other)
  qed
  show "contents root (snd (run_state (local_delete root k) s)) k = None"
    if "fst (run_state (local_delete root k) s) = Inr ()"
    using del that by blast
  show "contents root (snd (run_state (local_delete root k) s)) k = contents root s k"
    if "fst (run_state (local_delete root k) s) = Inl e"
    using del that by (metis contents_file_at)
qed

definition run_op :: "(byte list \<Rightarrow> byte list) \<Rightarrow> path \<Rightarrow> op \<Rightarrow> fsys \<Rightarrow> fsys" where
  "run_op sha256 root x s =
     (case x of Put k b m \<Rightarrow> snd (run_state (local_put sha256 root k b m) s)
      | Delete k \<Rightarrow> snd (run_state (local_delete root k) s))"

lemma run_op_step: "run_op sha256 root = disk.step sha256 root"
  by (simp add: fun_eq_iff run_op_def disk.step_def)

lemma under_root: "store_resolve root k = Inr p \<Longrightarrow> path_starts_with root p"
  by (auto simp: store_resolve_Inr path_starts_with_def)

lemma run_op_jailed: "\<not> path_starts_with root q \<Longrightarrow> file_at (run_op sha256 root x s) q = file_at s q"
proof (cases x)
  case (Put k b m)
  assume out: "\<not> path_starts_with root q"
  note w = local_put_wp [of sha256 root k b m _ s, unfolded wp_run]
  show ?thesis
  proof (cases "store_resolve root k")
    case (Inr p)
    then show ?thesis using w out under_root [OF Inr] by (auto simp: run_op_def Put intro: writes_at_file)
  qed (use w in \<open>simp add: run_op_def Put\<close>)
next
  case (Delete k)
  assume out: "\<not> path_starts_with root q"
  note w = local_delete_wp [of root k _ s, unfolded wp_run]
  show ?thesis
  proof (cases "store_resolve root k")
    case (Inr p)
    then show ?thesis using w out under_root [OF Inr] by (auto simp: run_op_def Delete intro: writes_at_file)
  qed (simp add: run_op_def Delete local_delete_def)
qed

text \<open>
  C30: The store on disk refines a map from keys to bytes. An object whose \<open>put\<close> reported success, with
  its length and digest, is what every later \<open>get\<close> returns until that key is written or deleted, whatever other
  keys see and whichever calls fail in between: a failing \<open>get\<close> reports an I/O error and never
  \<open>NotFound\<close>, and one that can read succeeds. No operation changes a file outside the root.
\<close>

theorem stored_until_overwritten:
  assumes "run_state (local_put sha256 root k b m) s = (Inr obj, t)" and "\<forall>x\<in>set xs. \<not> touches k x"
    and "u = fold (run_op sha256 root) xs t" and "r = fst (run_state (local_get root k) u)"
  shows "obj = \<lparr>so_key = k, so_size = length b, so_mime = m, so_sha256_hex = hex_encode (sha256 b)\<rparr> \<and>
    (r = Inr b \<or> (\<exists>e. r = Inl e \<and> e \<noteq> NotFound)) \<and>
    (io_faults u (io_calls u) = None \<longrightarrow> r = Inr b) \<and>
    (\<forall>q. \<not> path_starts_with root q \<longrightarrow> file_at u q = file_at s q)"
proof -
  have put: "fst (run_state (local_put sha256 root k b m) s) = Inr obj" "t = snd (run_state (local_put sha256 root k b m) s)"
    using assms(1) by simp_all
  have u: "u = fold (disk.step sha256 root) xs (snd (run_state (local_put sha256 root k b m) s))"
    using assms(3) put(2) by (simp add: run_op_step)
  have obj: "obj = \<lparr>so_key = k, so_size = length b, so_mime = m, so_sha256_hex = hex_encode (sha256 b)\<rparr>"
    using local_put_wp [of sha256 root k b m undefined s, unfolded wp_run] put(1) by blast
  have "contents root u k = Some b"
    using disk.put_ok [OF put(1)] disk.steps_other [OF assms(2)] by (simp add: u)
  then have clean: "io_faults u (io_calls u) = None \<longrightarrow> r = Inr b"
    using local_get_wp [of root k u, unfolded wp_run] assms(4) by blast
  have jail: "file_at (fold (run_op sha256 root) ys v) q = file_at v q" if "\<not> path_starts_with root q" for ys v q
    using that by (induction ys arbitrary: v) (auto simp: run_op_jailed)
  moreover have "file_at t q = file_at s q" if "\<not> path_starts_with root q" for q
    using run_op_jailed [OF that, of sha256 "Put k b m" s] put(2) by (simp add: run_op_def)
  ultimately have outside: "\<forall>q. \<not> path_starts_with root q \<longrightarrow> file_at u q = file_at s q"
    by (simp add: assms(3))
  have "r = Inr b \<or> (\<exists>e. r = Inl e \<and> e \<noteq> NotFound)"
    using disk.put_then_get [OF put(1) assms(2) refl] unfolding assms(4) u .
  with obj clean outside show ?thesis by blast
qed

definition demo_fs :: fsys where
  "demo_fs = \<lparr>nodes = [([lit ''srv''], Dir)], clock = 50, io_calls = 0, io_faults = (\<lambda>_. None),
     device = (\<lambda>_. 0), dir_len = 4096\<rparr>"

lemma stored_until_overwritten_witness:
  "fst (run_state (local_get [lit ''srv''] (lit ''a/b''))
     (run_op (\<lambda>b. b) [lit ''srv''] (Delete (lit ''a/c''))
       (snd (run_state (local_put (\<lambda>b. b) [lit ''srv''] (lit ''a/b'') [1, 2] []) demo_fs)))) = Inr [1, 2]"
proof -
  let ?put = "run_state (local_put (\<lambda>b. b) [lit ''srv''] (lit ''a/b'') [1, 2] []) demo_fs"
  let ?u = "fold (run_op (\<lambda>b. b) [lit ''srv'']) [Delete (lit ''a/c'')] (snd ?put)"
  have keys: "store_resolve [lit ''srv''] (lit ''a/b'') = Inr [lit ''srv'', lit ''a'', lit ''b'']"
    "store_resolve [lit ''srv''] (lit ''a/c'') = Inr [lit ''srv'', lit ''a'', lit ''c'']"
    by (simp_all add: store_resolve_Inr bad_component_def lit_def)
  have ok: "\<exists>obj. fst ?put = Inr obj" and clean: "io_faults ?u (io_calls ?u) = None"
    by (simp_all add: local_put_def keys try_io_def fs_create_dir_all_def prefixes_of_def io_step_def demo_fs_def
        upt_rec node_at_def put_node_def fs_write_def can_write_def written_def run_op_def local_delete_def
        fs_remove_file_def absent_def Let_def)
  then obtain obj where put: "?put = (Inr obj, snd ?put)" by (metis prod.collapse)
  have "\<forall>x\<in>set [Delete (lit ''a/c'')]. \<not> touches (lit ''a/b'') x" by (simp add: touches_def)
  from stored_until_overwritten [OF put this refl refl] clean show ?thesis by simp
qed

section \<open>The overridden methods\<close>

lemma slice_clamped:
  assumes "e = a + l \<or> length b \<le> e \<and> length b \<le> a + l"
  shows "take l (drop a b) = drop (min a (length b)) (take (min e (length b)) b)"
proof -
  have "drop (min a (length b)) (take (min e (length b)) b) = drop a (take e b)"
    by (cases "a \<le> length b"; cases "e \<le> length b") (simp_all add: min_def)
  moreover have "take l (drop a b) = drop a (take e b)"
    using assms by (auto simp: take_drop add.commute)
  ultimately show ?thesis by simp
qed

text \<open>
  The local store's own \<open>size\<close> and \<open>open_range\<close> are equivalent to the default methods of the trait,
  which read the whole object: same length, same bytes of any range, same refusal of an unknown key,
  for objects whose length fits 64 bits and positions below \<open>2 ^ 63\<close>, on a file system that answers.
\<close>

theorem overrides_equal_defaults:
  assumes "\<And>c. io_faults s c = None" and "unat start < 2 ^ 63"
    and "\<And>p. store_resolve root k = Inr p \<Longrightarrow> node_at s p \<noteq> Some Dir"
    and "\<And>b. contents root s k = Some b \<Longrightarrow> length b < 2 ^ 64"
  shows "fst (run_state (local_size root k) s) = fst (run_state (default_size (local_get root) k) s) \<and>
    fst (run_state (local_open_range root k start len) s) =
      fst (run_state (default_open_range (local_get root) k start len) s)"
proof (rule conjI)
  have size: "map_sum (\<lambda>e. e) length (not_found_of (Inl x)) = not_found_of (Inl x)" for x
    by (simp add: not_found_of_def split: IoError.split)
  show "fst (run_state (local_size root k) s) = fst (run_state (default_size (local_get root) k) s)"
    using assms(1,3)
    by (auto simp: local_size_def default_size_def local_get_def fs_len_def fs_read_def io_step_def Let_def
        not_found_of_def size split: sum.split option.split fnode.split IoError.split)
  have range: "take (unat len) (drop (unat start) b) =
      drop (min (unat start) (length b)) (take (min (unat (sat_add start len)) (length b)) b)"
    if "length b < 2 ^ 64" for b :: "byte list"
  proof (cases "unat start + unat len < 2 ^ 64")
    case True
    then have "unat (sat_add start len) = unat start + unat len"
      unfolding sat_add_def by (simp only: if_True) (simp add: unat_word_ariths)
    then show ?thesis by (intro slice_clamped disjI1)
  next
    case False
    then have "unat (sat_add start len) = 2 ^ 64 - 1" by (simp add: sat_add_def unsigned_minus_1_eq_mask mask_eq_exp_minus_1)
    with that False show ?thesis by (intro slice_clamped disjI2) simp
  qed
  show "fst (run_state (local_open_range root k start len) s) =
      fst (run_state (default_open_range (local_get root) k start len) s)"
  proof (cases "store_resolve root k")
    case (Inr p)
    show ?thesis
    proof (cases "node_at s p")
      case None
      then show ?thesis
        using assms(1) Inr
        by (simp add: local_open_range_def default_open_range_def local_get_def fs_open_def fs_read_def
            io_step_def Let_def not_found_of_def split: IoError.split)
    next
      case (Some n)
      then obtain b m where n: "n = File b m" using assms(3) [OF Inr] by (cases n) auto
      have "length b < 2 ^ 64" using assms(4) [of b] Inr Some n by (simp add: contents_def file_at_def)
      note slice = range [OF this]
      have "unat start = 0" if "\<not> 0 < start" using that by (simp add: word_less_nat_alt)
      then show ?thesis
        using assms(1,2) Inr Some n slice
        by (auto simp: local_open_range_def default_open_range_def local_get_def fs_open_def fs_read_def
            fs_seek_def try_io_def io_step_def Let_def not_found_of_def)
    qed
  qed (simp add: local_open_range_def default_open_range_def local_get_def)
qed

lemma overrides_equal_defaults_witness:
  "fst (run_state (local_size [] (lit ''a'')) (demo_fs\<lparr>nodes := [([lit ''a''], File [1, 2, 3] 0)]\<rparr>)) = Inr 3 \<and>
   fst (run_state (local_open_range [] (lit ''a'') 1 9) (demo_fs\<lparr>nodes := [([lit ''a''], File [1, 2, 3] 0)]\<rparr>)) =
     Inr (Some [2, 3])"
proof -
  let ?s = "demo_fs\<lparr>nodes := [([lit ''a''], File [1, 2, 3] 0)]\<rparr>"
  have p: "store_resolve [] (lit ''a'') = Inr [lit ''a'']"
    by (simp add: store_resolve_Inr bad_component_def lit_def)
  have node: "node_at ?s [lit ''a''] = Some (File [1, 2, 3] 0)" by (simp add: node_at_def)
  have clean: "io_faults ?s c = None" for c by (simp add: demo_fs_def)
  have start: "unat (1 :: 64 word) < 2 ^ 63" by simp
  have plain: "node_at ?s q \<noteq> Some Dir" if "store_resolve [] (lit ''a'') = Inr q" for q using that p node by auto
  have short: "length b < 2 ^ 64" if "contents [] ?s (lit ''a'') = Some b" for b
    using that p node by (auto simp: contents_def file_at_def)
  have "fst (run_state (local_get [] (lit ''a'')) ?s) = Inr [1, 2, 3]"
    by (simp add: local_get_def p fs_read_def io_step_def Let_def node_at_def not_found_of_def demo_fs_def)
  then obtain t where get: "run_state (local_get [] (lit ''a'')) ?s = (Inr [1, 2, 3], t)"
    by (cases "run_state (local_get [] (lit ''a'')) ?s") simp
  have "sat_add 1 9 = 10" by (simp add: sat_add_def)
  then show ?thesis
    using overrides_equal_defaults [OF clean start plain short, where len = 9]
    by (simp add: default_size_def default_open_range_def get Let_def)
qed

section \<open>Safe names and keys\<close>

lemma byte_len_truncate: "byte_len (truncate_bytes n s) \<le> n"
  by (induction n s rule: truncate_bytes.induct) auto

lemma truncate_none [simp]: "truncate_bytes 0 s = []"
  using utf8_len_pos by (cases s) (simp_all add: not_le)

lemma truncate_prefix: "\<exists>r. s = truncate_bytes n s @ r"
  by (induction n s rule: truncate_bytes.induct) auto

lemma boundary_below_le: "boundary_below s n \<le> n"
proof (induction s n rule: boundary_below.induct)
  case (1 s n)
  then show ?case using boundary_below.simps [of s n] by (cases "is_char_boundary s n") auto
qed

lemma boundary_below_boundary: "is_char_boundary s (boundary_below s n)"
proof (induction s n rule: boundary_below.induct)
  case (1 s n)
  then show ?case using boundary_below.simps [of s n] by (cases "is_char_boundary s n") auto
qed

lemma truncate_at_boundary: "is_char_boundary s n \<Longrightarrow> byte_len (truncate_bytes n s) = n"
  by (induction s n rule: is_char_boundary.induct) auto

text \<open>At most three bytes are given up for the boundary.\<close>

lemma boundary_near: "n \<le> byte_len s \<Longrightarrow> \<exists>m. is_char_boundary s m \<and> m \<le> n \<and> n < m + 4"
proof (induction s arbitrary: n)
  case Nil
  then show ?case by auto
next
  case (Cons c s)
  show ?case
  proof (cases "utf8_len c \<le> n")
    case True
    then have "n - utf8_len c \<le> byte_len s" using Cons.prems by simp
    from Cons.IH [OF this] obtain m where m: "is_char_boundary s m" "m \<le> n - utf8_len c" "n - utf8_len c < m + 4" by blast
    have "0 < utf8_len c + m" by simp
    then obtain j where j: "utf8_len c + m = Suc j" unfolding gr0_conv_Suc by blast
    then have "is_char_boundary (c # s) (utf8_len c + m)"
      using m(1) by (simp only: is_char_boundary.simps) (simp flip: j)
    then show ?thesis using m True by (intro exI [of _ "utf8_len c + m"]) auto
  next
    case False
    then show ?thesis by (intro exI [of _ 0]) (auto simp: utf8_len_def split: if_splits)
  qed
qed

lemma boundary_below_greatest: "is_char_boundary s m \<Longrightarrow> m \<le> n \<Longrightarrow> m \<le> boundary_below s n"
proof (induction s n rule: boundary_below.induct)
  case (1 s n)
  show ?case
  proof (cases "is_char_boundary s n")
    case True
    then show ?thesis using 1 boundary_below.simps [of s n] by simp
  next
    case False
    with 1 have "m \<le> n - 1" by (cases "m = n") auto
    with 1 False show ?thesis using boundary_below.simps [of s n] by simp
  qed
qed

lemma trim_by_ends: "trim_by P s = c # r \<Longrightarrow> \<not> P c"
proof -
  assume *: "trim_by P s = c # r"
  have "\<exists>xs. dropWhile P s = trim_by P s @ xs"
    unfolding trim_by_def by (metis rev_append rev_rev_ident takeWhile_dropWhile_id)
  then have "dropWhile P s \<noteq> []" "hd (dropWhile P s) = c" using * by fastforce+
  then show "\<not> P c" using hd_dropWhile [of P s] by simp
qed

lemma trim_by_bare:
  assumes "s = [] \<or> \<not> P (hd s) \<and> \<not> P (last s)"
  shows "trim_by P s = s"
proof -
  have "dropWhile P s = s" and "dropWhile P (rev s) = rev s"
    using assms by (auto simp: dropWhile_eq_self_iff hd_rev)
  then show ?thesis by (simp add: trim_by_def)
qed

lemma set_trim: "set (trim s) \<subseteq> set s"
  unfolding trim_def by (rule set_trim_by)

definition clean_char :: "uchar \<Rightarrow> bool" where
  "clean_char c \<longleftrightarrow> \<not> is_control c \<and> c \<noteq> 47 \<and> c \<noteq> 92"

lemma sanitize_chars: "c \<in> set (sanitize_filename raw) \<Longrightarrow> clean_char c"
proof -
  let ?out = "filter (\<lambda>ch. \<not> (is_control ch \<or> ch = 47 \<or> ch = 92 \<or> ch = 0)) (last (split_on is_sep raw))"
  let ?trimmed = "trim (trim_by dot (trim ?out))"
  have sub: "set ?trimmed \<subseteq> set ?out"
    by (rule order_trans [OF set_trim order_trans [OF set_trim_by set_trim]])
  have trunc: "set (truncate_bytes n s) \<subseteq> set s" for n s
    using truncate_prefix [of s n] by (metis Un_upper1 set_append)
  have "set (trim_by dot (truncate_bytes n ?trimmed)) \<subseteq> set ?out" for n
    by (rule order_trans [OF set_trim_by order_trans [OF trunc sub]])
  moreover have "x \<in> set ?out \<Longrightarrow> clean_char x" for x by (auto simp: clean_char_def)
  moreover have "x \<in> set (lit ''file'') \<Longrightarrow> clean_char x" for x by (auto simp: clean_char_def lit_def is_control_def)
  ultimately show "c \<in> set (sanitize_filename raw) \<Longrightarrow> clean_char c"
    using sub unfolding sanitize_filename_def Let_def by (simp split: if_splits) blast+
qed

lemma sanitize_len: "byte_len (sanitize_filename raw) \<le> MAX_LEN"
proof -
  have "byte_len (trim_by dot (truncate_bytes (boundary_below s MAX_LEN) s)) \<le> MAX_LEN" for s
    using byte_len_trim_by byte_len_truncate boundary_below_le by (meson order_trans)
  then show ?thesis
    by (auto simp: sanitize_filename_def Let_def not_less MAX_LEN_def lit_def utf8_len_def)
qed

lemma sanitize_plain: "plain_component (sanitize_filename raw)"
proof -
  have "47 \<notin> set (sanitize_filename raw)" "92 \<notin> set (sanitize_filename raw)" "0 \<notin> set (sanitize_filename raw)"
    using sanitize_chars [of _ raw] by (fastforce simp: clean_char_def is_control_def)+
  moreover have "sanitize_filename raw \<noteq> [] \<and> sanitize_filename raw \<noteq> lit ''.'' \<and> sanitize_filename raw \<noteq> lit ''..''"
    by (simp add: sanitize_filename_def Let_def)
  ultimately show ?thesis by (simp add: plain_component_def)
qed

text \<open>A name that needs nothing is kept.\<close>

definition tidy :: "ustr \<Rightarrow> bool" where
  "tidy s \<longleftrightarrow> s \<noteq> [] \<and> (\<forall>c\<in>set s. clean_char c \<and> c \<noteq> 0) \<and> byte_len s \<le> MAX_LEN \<and>
     \<not> is_white (hd s) \<and> \<not> is_white (last s) \<and> \<not> dot (hd s) \<and> \<not> dot (last s)"

lemma sanitize_tidy: "tidy s \<Longrightarrow> sanitize_filename s = s"
proof -
  assume t: "tidy s"
  then have "split_on is_sep s = [s]"
    by (intro split_on_single) (auto simp: tidy_def clean_char_def is_sep_def)
  moreover have "filter (\<lambda>ch. \<not> (is_control ch \<or> ch = 47 \<or> ch = 92 \<or> ch = 0)) s = s"
    using t by (auto simp: tidy_def clean_char_def filter_id_conv)
  moreover have "trim s = s" and "trim_by dot s = s"
    using t by (auto simp: tidy_def trim_def intro!: trim_by_bare)
  moreover have "s \<noteq> lit ''.''" "s \<noteq> lit ''..''" using t by (auto simp: tidy_def dot_def lit_def)
  ultimately show ?thesis using t by (simp add: sanitize_filename_def tidy_def)
qed

definition safe_id :: "ustr \<Rightarrow> ustr" where
  "safe_id i = filter (\<lambda>c. is_ascii_alnum c \<or> c = 45) i"

lemma safe_id_plain: "set c \<subseteq> set (safe_id i) \<union> {48} \<Longrightarrow> c \<noteq> [] \<Longrightarrow> plain_component c \<and> \<not> bad_component c"
proof -
  assume sub: "set c \<subseteq> set (safe_id i) \<union> {48}" and ne: "c \<noteq> []"
  have "x \<noteq> 46 \<and> x \<noteq> 47 \<and> x \<noteq> 92 \<and> x \<noteq> 0" if "x \<in> set c" for x
    using that sub by (auto simp: safe_id_def is_ascii_alnum_def is_ascii_alpha_def is_ascii_digit_def
        is_ascii_upper_def is_ascii_lower_def)
  then have "46 \<notin> set c" "47 \<notin> set c" "92 \<notin> set c" "0 \<notin> set c" by blast+
  moreover from this have "c \<noteq> lit ''.''" "c \<noteq> lit ''..''" by (auto simp: lit_def)
  ultimately show ?thesis using ne by (simp add: plain_component_def bad_component_def)
qed

lemma shard_parts:
  obtains a b where "shard_key i = a @ lit ''/'' @ b @ lit ''/'' @ safe_id i"
    and "length a = 2" and "length b = 2" and "set a \<union> set b \<subseteq> set (safe_id i) \<union> {48}"
proof -
  have get: "length (unwrap_or (str_get m (m + 2) s) (lit ''00'')) = 2 \<and>
      set (unwrap_or (str_get m (m + 2) s) (lit ''00'')) \<subseteq> set s \<union> {48}" for m s
    by (auto simp: str_get_def unwrap_or_def lit_def dest!: in_set_dropD in_set_takeD)
  show ?thesis
  proof (rule that)
    show "shard_key i = unwrap_or (str_get 0 2 (safe_id i)) (lit ''00'') @ lit ''/'' @
        unwrap_or (str_get 2 4 (safe_id i)) (lit ''00'') @ lit ''/'' @ safe_id i"
      by (simp add: shard_key_def safe_id_def Let_def)
  qed (use get [of 0 "safe_id i", simplified add_0] get [of 2 "safe_id i"] in simp_all)
qed

lemma shard_resolves:
  assumes "safe_id i \<noteq> []"
  shows "\<exists>a b. store_resolve root (shard_key i) = Inr (root @ [a, b, safe_id i]) \<and> plain_component a \<and> plain_component b"
proof -
  obtain a b where key: "shard_key i = a @ lit ''/'' @ b @ lit ''/'' @ safe_id i"
    and len: "length a = 2" "length b = 2" and sub: "set a \<union> set b \<subseteq> set (safe_id i) \<union> {48}"
    by (rule shard_parts)
  have ab: "plain_component a \<and> \<not> bad_component a" "plain_component b \<and> \<not> bad_component b"
    "plain_component (safe_id i) \<and> \<not> bad_component (safe_id i)"
    using sub len assms by (auto intro!: safe_id_plain)
  then have "\<forall>c\<in>set a. c \<noteq> 47" "\<forall>c\<in>set b. c \<noteq> 47" "\<forall>c\<in>set (safe_id i). c \<noteq> 47"
    by (auto simp: plain_component_def)
  then have "split_on (\<lambda>c. c = 47) (shard_key i) = [a, b, safe_id i]"
    by (simp add: key lit_def split_on_append split_on_single)
  moreover have "shard_key i \<noteq> []" using len by (simp add: key lit_def)
  ultimately show ?thesis using ab by (auto simp: store_resolve_Inr)
qed

text \<open>
  Whatever a client calls its file, the name it is stored under is one plain path component of at
  most 200 bytes without control characters, and a tidy name is kept as it is. The storage key of
  an id with at least one letter, digit or hyphen names a file two directories below the root, and different ids (as
  far as those characters go) never share a key.
\<close>

theorem names_and_keys_safe:
  assumes "safe_id i \<noteq> []"
  shows "plain_component (sanitize_filename raw) \<and> byte_len (sanitize_filename raw) \<le> 200 \<and>
      (\<forall>c\<in>set (sanitize_filename raw). \<not> is_control c) \<and> (tidy raw \<longrightarrow> sanitize_filename raw = raw) \<and>
    (\<exists>a b. store_resolve root (shard_key i) = Inr (root @ [a, b, safe_id i]) \<and> plain_component a \<and> plain_component b) \<and>
    (shard_key i = shard_key j \<longrightarrow> safe_id i = safe_id j)"
proof -
  have safe: "plain_component (sanitize_filename raw) \<and> byte_len (sanitize_filename raw) \<le> 200 \<and>
      (\<forall>c\<in>set (sanitize_filename raw). \<not> is_control c) \<and> (tidy raw \<longrightarrow> sanitize_filename raw = raw)"
    using sanitize_plain sanitize_len [of raw] sanitize_chars sanitize_tidy by (auto simp: MAX_LEN_def clean_char_def)
  have key: "\<exists>a b. store_resolve root (shard_key i) = Inr (root @ [a, b, safe_id i]) \<and> plain_component a \<and> plain_component b"
    using assms by (rule shard_resolves)
  obtain a b where i: "shard_key i = a @ lit ''/'' @ b @ lit ''/'' @ safe_id i" "length a = 2" "length b = 2"
    by (rule shard_parts)
  obtain c d where j: "shard_key j = c @ lit ''/'' @ d @ lit ''/'' @ safe_id j" "length c = 2" "length d = 2"
    by (rule shard_parts)
  have "safe_id x = drop 6 (shard_key x)" if "shard_key x = a @ lit ''/'' @ b @ lit ''/'' @ safe_id x"
    "length a = 2" "length b = 2" for x a b
    using that by (simp add: lit_def)
  then have "shard_key i = shard_key j \<longrightarrow> safe_id i = safe_id j" using i j by metis
  with safe key show ?thesis by blast
qed

lemma names_and_keys_safe_witness:
  "sanitize_filename (lit ''a.txt'') = lit ''a.txt'' \<and> plain_component (sanitize_filename (lit ''../..'')) \<and>
   (\<exists>a b. store_resolve [] (shard_key (lit ''ab-c'')) = Inr [a, b, lit ''ab-c'']) \<and>
   shard_key (lit ''ab-c'') \<noteq> shard_key (lit ''ab-d'')"
proof -
  have tidy: "tidy (lit ''a.txt'')"
    by (simp add: tidy_def clean_char_def MAX_LEN_def dot_def text_defs)
  have ids: "safe_id (lit ''ab-c'') = lit ''ab-c''" "safe_id (lit ''ab-d'') = lit ''ab-d''"
    by (simp_all add: safe_id_def text_defs)
  then have ne: "safe_id (lit ''ab-c'') \<noteq> []" by simp
  have "shard_key (lit ''ab-c'') \<noteq> shard_key (lit ''ab-d'')"
    using names_and_keys_safe [OF ne, of _ "[]" "lit ''ab-d''"] ids by auto
  then show ?thesis
    using names_and_keys_safe [OF ne, of "lit ''a.txt''" "[]"] names_and_keys_safe [OF ne, of "lit ''../..''" "[]"]
      tidy ids by simp blast
qed

text \<open>
  Sanitizing is not idempotent: the dots are trimmed once, before the second trimming of white space,
  so a name can still begin with a dot.
\<close>

lemma sanitized_hidden_name:
  "sanitize_filename (lit ''. .ssh'') = lit ''.ssh''" "sanitize_filename (lit ''.ssh'') = lit ''ssh''"
  by (simp_all add: sanitize_filename_def is_sep_def dot_def MAX_LEN_def text_defs)

text \<open>An id without any kept character gets a key the store refuses.\<close>

lemma empty_shard_refused: "store_resolve root (shard_key (lit ''@'')) = Inl NotFound"
  by (simp add: shard_key_def str_get_def unwrap_or_def store_resolve_def push_all_spec bad_component_def text_defs)

section \<open>Adopting an upload, and sweeping\<close>

text \<open>Sweeping removes nothing but old files directly in the staging directory.\<close>

lemma sweep_entries_keeps:
  "q \<notin> set ps \<or> \<not> older_than (clock s) age (Inr n) \<Longrightarrow> [] \<notin> set ps \<Longrightarrow> node_at s q = Some n \<Longrightarrow>
     node_at (snd (run_state (sweep_entries age ps k) s)) q = Some n"
proof (induction ps arbitrary: s k)
  case (Cons p ps)
  obtain meta s1 where meta: "run_state (fs_stat p) s = (meta, s1)" by fastforce
  then have s1: "s1 = s\<lparr>io_calls := Suc (io_calls s)\<rparr>" and same: "\<And>x. meta = Inr x \<Longrightarrow> node_at s p = Some x"
    by (auto simp: fs_stat_def io_step_def Let_def split: option.splits)
  show ?case
  proof (cases "older_than (clock s) age meta")
    case False
    then show ?thesis using Cons.IH [of s1] Cons.prems by (auto simp: meta s1)
  next
    case True
    obtain r s2 where rm: "run_state (fs_remove_file p) s1 = (r, s2)" by fastforce
    have "p \<noteq> q"
    proof
      assume "p = q"
      moreover from True obtain x where "meta = Inr x" by (cases meta) (auto simp: older_than_def)
      ultimately show False using same [of x] Cons.prems True by auto
    qed
    moreover have "node_at s2 q = Some n \<and> clock s2 = clock s" if "p \<noteq> q"
      using rm that Cons.prems
      by (auto simp: fs_remove_file_def io_step_def Let_def s1 node_at_drop drop_node_def node_at_def
          delete_conv' split: option.splits fnode.splits if_splits)
    ultimately show ?thesis
      using Cons.IH [of s2] Cons.prems True rm [unfolded s1] by (auto simp: meta [unfolded s1] s1)
  qed
qed simp

lemma sweep_keeps:
  assumes "node_at s q = Some n" and "butlast q \<noteq> staging_dir root \<or> \<not> older_than (clock s) age (Inr n)"
  shows "node_at (snd (run_state (sweep_staging root age) s)) q = Some n"
proof -
  have "node_at (snd (run_state (sweep_entries age ps 0) (s\<lparr>io_calls := c\<rparr>))) q = Some n"
    if "ps = filter (\<lambda>p. p \<noteq> [] \<and> butlast p = staging_dir root) (map fst (nodes s))" for ps c
    using assms that by (intro sweep_entries_keeps) auto
  then show ?thesis using assms(1)
    by (auto simp: sweep_staging_def fs_read_dir_def io_step_def Let_def split: option.splits fnode.splits)
qed

text \<open>
  Adoption treats any file at the key as the complete object. After a copy that failed half way, the
  retry finds the fragment, removes the upload and reports success with the full size and digest.
\<close>

lemma put_file_adopts_fragment:
  "let s = demo_fs\<lparr>nodes := [([lit ''srv''], Dir), ([lit ''up''], File [1, 2, 3] 0)],
             device := (\<lambda>p. if p = [lit ''up''] then 1 else 0),
             io_faults := (\<lambda>k. if k = 4 then Some 2 else None)\<rparr>;
       first = run_state (local_put_file [lit ''srv''] (lit ''ab'') [lit ''up''] []) s;
       again = run_state (local_put_file [lit ''srv''] (lit ''ab'') [lit ''up''] []) (snd first)
   in fst first = Inl (Io IoOther) \<and> map_sum (\<lambda>_. ()) so_size (fst again) = Inr 3 \<and>
      contents [lit ''srv''] (snd again) (lit ''ab'') = Some [1] \<and> file_at (snd again) [lit ''up''] = None"
proof -
  have p: "store_resolve [lit ''srv''] (lit ''ab'') = Inr [lit ''srv'', lit ''ab'']"
    by (simp add: store_resolve_Inr bad_component_def lit_def)
  show ?thesis
    by (simp add: local_put_file_def p try_io_def fs_len_def fs_try_exists_def fs_create_dir_all_def prefixes_of_def
        fs_rename_def fs_copy_def fs_remove_file_def io_step_def demo_fs_def node_at_def put_node_def drop_node_def
        can_write_def written_def absent_def contents_def file_at_def Let_def)
qed

end
