(* ===== verification/Sticky.thy ===== *)
theory Sticky
  imports Db_Monad
begin

text \<open>
  Two contracts the stores of the program promise. Aging tables: a row's key never comes back under
  another meaning, and a mark set once (used, revoked, accepted) is never cleared. Single use: a
  compare-and-set that marks a key succeeds at most once for it, whatever runs in between.
  And the roster contract: an operation takes power from its target only, and never from the last
  holder.
\<close>

section \<open>Aging tables\<close>

definition ages :: "('r \<Rightarrow> 'k) \<Rightarrow> ('r \<Rightarrow> bool) \<Rightarrow> 'k set \<Rightarrow> 'r list \<Rightarrow> 'k set \<Rightarrow> 'r list \<Rightarrow> bool" where
  "ages key used K rows K' rows' \<longleftrightarrow>
     K \<subseteq> K' \<and>
     (\<forall>r'\<in>set rows'. key r' \<in> K \<longrightarrow> (\<exists>r\<in>set rows. key r = key r' \<and> (used r \<longrightarrow> used r')))"

definition spent_key :: "('r \<Rightarrow> 'k) \<Rightarrow> ('r \<Rightarrow> bool) \<Rightarrow> 'k set \<Rightarrow> 'r list \<Rightarrow> 'k \<Rightarrow> bool" where
  "spent_key key used K rows k \<longleftrightarrow> k \<in> K \<and> (\<forall>r\<in>set rows. key r = k \<longrightarrow> used r)"

lemma ages_refl [simp]: "K \<subseteq> K' \<Longrightarrow> ages key used K rows K' rows"
  by (auto simp: ages_def)

lemma ages_trans:
  assumes "ages key used K1 r1 K2 r2" and "ages key used K2 r2 K3 r3"
  shows "ages key used K1 r1 K3 r3"
  unfolding ages_def
proof (intro conjI ballI impI)
  show "K1 \<subseteq> K3" using assms by (auto simp: ages_def)
  fix c
  assume "c \<in> set r3" and "key c \<in> K1"
  with assms obtain b where b: "b \<in> set r2" "key b = key c" "used b \<longrightarrow> used c"
    unfolding ages_def by blast
  with \<open>key c \<in> K1\<close> assms(1) obtain a where "a \<in> set r1" "key a = key b" "used a \<longrightarrow> used b"
    unfolding ages_def by (metis (no_types, lifting))
  with b show "\<exists>r\<in>set r1. key r = key c \<and> (used r \<longrightarrow> used c)" by auto
qed

lemma ages_update:
  assumes "K \<subseteq> K'" and "\<And>r. P r \<Longrightarrow> key (f r) = key r" and "\<And>r. P r \<Longrightarrow> used r \<Longrightarrow> used (f r)"
  shows "ages key used K rows K' (update_where P f rows)"
  using assms by (fastforce simp: ages_def set_update_where)

lemma ages_snoc:
  assumes "K \<subseteq> K'" and "key r \<notin> K"
  shows "ages key used K rows K' (rows @ [r])"
  using assms by (auto simp: ages_def)

lemma ages_delete: "K \<subseteq> K' \<Longrightarrow> ages key used K rows K' (delete_where P rows)"
  by (auto simp: ages_def set_delete_where)

lemma ages_spent: "ages key used K rows K' rows' \<Longrightarrow> spent_key key used K rows k \<Longrightarrow> spent_key key used K' rows' k"
  unfolding ages_def spent_key_def by (metis subset_iff)

section \<open>Single use\<close>

text \<open>
  A history of successful takes from one state to another: between them anything that only evolves
  the state may run, failing takes included. The keys taken are listed in order.
\<close>

inductive history :: "('k \<Rightarrow> 's \<Rightarrow> bool \<times> 's) \<Rightarrow> ('s \<Rightarrow> 's \<Rightarrow> bool) \<Rightarrow> 's \<Rightarrow> 'k list \<Rightarrow> 's \<Rightarrow> bool"
  for take_key :: "'k \<Rightarrow> 's \<Rightarrow> bool \<times> 's" and evolves :: "'s \<Rightarrow> 's \<Rightarrow> bool" where
  history_start: "history take_key evolves s [] s"
| history_other: "history take_key evolves s ks t \<Longrightarrow> evolves t u \<Longrightarrow> history take_key evolves s ks u"
| history_take: "history take_key evolves s ks t \<Longrightarrow> take_key k t = (True, u) \<Longrightarrow>
    history take_key evolves s (ks @ [k]) u"

locale single_use =
  fixes valid :: "'s \<Rightarrow> bool" and take_key :: "'k \<Rightarrow> 's \<Rightarrow> bool \<times> 's"
    and spent :: "'k \<Rightarrow> 's \<Rightarrow> bool" and evolves :: "'s \<Rightarrow> 's \<Rightarrow> bool"
  assumes take_fresh: "take_key k s = (True, t) \<Longrightarrow> \<not> spent k s"
    and take_spends: "valid s \<Longrightarrow> take_key k s = (True, t) \<Longrightarrow> spent k t"
    and take_evolves: "evolves s (snd (take_key k s))"
    and spent_stays: "evolves s t \<Longrightarrow> valid s \<Longrightarrow> spent k s \<Longrightarrow> spent k t"
    and valid_stays: "evolves s t \<Longrightarrow> valid s \<Longrightarrow> valid t"
begin

lemma take_step: "take_key k s = (True, t) \<Longrightarrow> evolves s t"
  using take_evolves [of s k] by simp

lemma history_valid: "history take_key evolves s ks t \<Longrightarrow> valid s \<Longrightarrow> valid t"
  by (induction rule: history.induct) (auto intro: valid_stays take_step)

lemma history_spent: "history take_key evolves s ks t \<Longrightarrow> valid s \<Longrightarrow> k \<in> set ks \<Longrightarrow> spent k t"
proof (induction rule: history.induct)
  case (history_take s ks t j u)
  then have "valid t" using history_valid by blast
  with history_take show ?case by (auto intro: spent_stays take_step take_spends)
qed (auto intro: spent_stays history_valid)

lemma at_most_once: "history take_key evolves s ks t \<Longrightarrow> valid s \<Longrightarrow> distinct ks"
proof (induction rule: history.induct)
  case (history_take s ks t j u)
  then have "j \<notin> set ks" using history_spent take_fresh by blast
  with history_take show ?case by simp
qed auto

lemma spent_never_taken:
  "history take_key evolves s ks t \<Longrightarrow> valid s \<Longrightarrow> spent k s \<Longrightarrow> k \<notin> set ks \<and> spent k t"
proof (induction rule: history.induct)
  case (history_take s ks t j u)
  then have "valid t" using history_valid by blast
  with history_take show ?case by (auto intro: spent_stays take_step dest: take_fresh)
qed (auto intro: spent_stays history_valid)

end

section \<open>Rosters\<close>

locale roster_guard =
  fixes valid :: "'s \<Rightarrow> bool" and holders :: "'s \<Rightarrow> nat set"
    and apply_op :: "'op \<Rightarrow> 's \<Rightarrow> 's" and target :: "'op \<Rightarrow> nat"
  assumes valid_kept: "valid s \<Longrightarrow> valid (apply_op op s)"
    and others_kept: "valid s \<Longrightarrow> h \<in> holders s \<Longrightarrow> h \<noteq> target op \<Longrightarrow> h \<in> holders (apply_op op s)"
    and last_kept: "valid s \<Longrightarrow> holders s = {target op} \<Longrightarrow> holders (apply_op op s) \<noteq> {}"
begin

lemma never_empty:
  assumes "valid s" and "holders s \<noteq> {}"
  shows "holders (apply_op op s) \<noteq> {}"
proof (cases "holders s = {target op}")
  case False
  with assms(2) obtain h where "h \<in> holders s" "h \<noteq> target op" by blast
  then show ?thesis using others_kept [OF assms(1)] by blast
qed (rule last_kept [OF assms(1)])

lemma run_never_empty: "valid s \<Longrightarrow> holders s \<noteq> {} \<Longrightarrow> holders (fold apply_op ops s) \<noteq> {}"
  by (induction ops arbitrary: s) (simp_all add: never_empty valid_kept)

lemma untargeted_stays:
  "valid s \<Longrightarrow> h \<in> holders s \<Longrightarrow> \<forall>op\<in>set ops. h \<noteq> target op \<Longrightarrow> h \<in> holders (fold apply_op ops s)"
  by (induction ops arbitrary: s) (simp_all add: others_kept valid_kept)

end

end
