(* ===== verification/Accounts.thy ===== *)
theory Accounts
  imports Sticky Wire_Enums
begin

text \<open>
  The account side of the database: the tables of the identity schema as lists of rows, the
  environment of the server process, and the operations of \<open>crates/db/src/users.rs\<close>. The profile
  card (avatar, motto, mood), the language and the time zone are left out of the user row: no
  operation modelled here reads them.

  A transaction that locks its row, checks and writes is one statement; a transaction that fails on
  the way is rolled back, so a failing one changes nothing.
\<close>

section \<open>Environment\<close>

type_synonym uid = nat
type_synonym ip = nat

record LdapUser =
  lu_email :: ustr
  lu_username :: ustr
  lu_display_name :: ustr
  lu_dn :: "ustr option"
  lu_is_superadmin :: bool

datatype LdapError = InvalidCredentials | LdapUnavailable ustr | Config ustr

text \<open>Its \<open>Display\<close>.\<close>

fun ldap_error_str :: "LdapError \<Rightarrow> ustr" where
  "ldap_error_str InvalidCredentials = lit ''invalid credentials''"
| "ldap_error_str (LdapUnavailable m) = lit ''directory unavailable: '' @ m"
| "ldap_error_str (Config m) = lit ''misconfigured: '' @ m"

text \<open>
  What the server process is configured with, and the crates it calls: the password hash with its
  salt, the strength estimate, the e-mail syntax check, the token sealing, the second-factor check, the directory and the
  geolocation lookup.
\<close>

record env =
  e_sha256 :: "byte list \<Rightarrow> byte list"
  e_pepper :: "byte list option"
  e_hash_password :: "byte list \<Rightarrow> ustr \<Rightarrow> byte list option \<Rightarrow> PasswordError + ustr"
  e_verify_password :: "ustr \<Rightarrow> ustr \<Rightarrow> byte list option \<Rightarrow> PasswordError + bool"
  e_zxcvbn :: "ustr \<Rightarrow> ustr list \<Rightarrow> nat"
  e_key :: nat
  e_seal :: "nat \<Rightarrow> Claims \<Rightarrow> ustr option"
  e_unseal :: "nat \<Rightarrow> int \<Rightarrow> ustr \<Rightarrow> Claims option"
  e_uuid_str :: "uid \<Rightarrow> ustr"
  e_uuid_parse :: "ustr \<Rightarrow> uid option"
  e_derive :: "byte list \<Rightarrow> byte list option"
  e_aead_encrypt :: "byte list \<Rightarrow> byte list \<Rightarrow> byte list \<Rightarrow> byte list option"
  e_aead_decrypt :: "byte list \<Rightarrow> byte list \<Rightarrow> byte list \<Rightarrow> byte list option"
  e_totp_verify :: "int \<Rightarrow> byte list \<Rightarrow> ustr \<Rightarrow> bool"
  e_upper_tbl :: "uchar \<Rightarrow> ustr"
  e_lower :: "ustr \<Rightarrow> ustr"
  e_parse_ip :: "ustr \<Rightarrow> ip option"
  e_unknown_ip :: ip
  e_ldap :: "ustr \<Rightarrow> ustr \<Rightarrow> LdapError + LdapUser"
  e_geoip :: "ip \<Rightarrow> (ustr option \<times> ustr option) option"
  e_email_ok :: "ustr \<Rightarrow> bool"
  e_is_dev :: bool
  e_mailer_configured :: bool

text \<open>
  \<open>to_lowercase\<close>: on ASCII text the letters are mapped one by one; beyond it the argument \<open>e_lower\<close>
  stands for the Unicode tables.
\<close>

definition to_lowercase :: "env \<Rightarrow> ustr \<Rightarrow> ustr" where
  "to_lowercase env s = (if list_all (\<lambda>c. c < 128) s then map ascii_lower s else e_lower env s)"

definition normalize_email :: "env \<Rightarrow> ustr \<Rightarrow> ustr" where
  "normalize_email env email = to_lowercase env (trim email)"

section \<open>Tables\<close>

record user_row =
  u_id :: uid
  u_email :: ustr
  u_username :: ustr
  u_full_name :: ustr
  u_password_hash :: "ustr option"
  u_is_active :: bool
  u_is_superadmin :: bool
  u_must_change_password :: bool
  u_auth_source :: ustr
  u_ldap_dn :: "ustr option"
  u_exclude_from_time_reports :: bool
  u_deleted_at :: "int option"
  u_deleted_grace_until :: "int option"
  u_banned_at :: "int option"
  u_banned_by :: "uid option"
  u_ban_reason :: "ustr option"
  u_totp_secret_enc :: "byte list option"
  u_totp_confirmed_at :: "int option"
  u_last_login_at :: "int option"
  u_last_seen_at :: "int option"
  u_created_at :: int

record family_row =
  f_id :: nat
  f_user_id :: uid
  f_user_agent :: ustr
  f_ip :: "ip option"
  f_created_at :: int
  f_last_seen_at :: int
  f_last_ip :: "ip option"
  f_country_code :: "ustr option"
  f_city :: "ustr option"
  f_revoked_at :: "int option"
  f_revoked_reason :: "ustr option"

record token_row =
  t_id :: nat
  t_family_id :: nat
  t_token_hash :: ustr
  t_parent_id :: "nat option"
  t_expires_at :: int
  t_used_at :: "int option"

record recovery_row =
  r_id :: nat
  r_user_id :: uid
  r_code_hash :: ustr
  r_used_at :: "int option"

record reset_row =
  p_id :: nat
  p_user_id :: uid
  p_token_hash :: ustr
  p_expires_at :: int
  p_used_at :: "int option"

record attempt_row =
  a_identifier_hash :: ustr
  a_ip :: ip
  a_succeeded :: bool
  a_created_at :: int

text \<open>The JSON metadata of an audit entry is the list of its string fields.\<close>

record audit_row =
  l_actor_id :: "uid option"
  l_action :: ustr
  l_ip :: "ip option"
  l_user_agent :: "ustr option"
  l_metadata :: "(ustr \<times> ustr) list"
  l_created_at :: int

record pinvite_row =
  i_id :: nat
  i_email :: ustr
  i_role :: ustr
  i_token_hash :: ustr
  i_invited_by :: "uid option"
  i_expires_at :: int
  i_accepted_at :: "int option"
  i_created_at :: int

record ptoken_row =
  pt_id :: nat
  pt_user_id :: uid
  pt_token_hash :: ustr
  pt_prefix :: ustr
  pt_last4 :: ustr
  pt_disabled_at :: "int option"
  pt_last_used_at :: "int option"
  pt_created_at :: int

record world = base +
  users :: "user_row list"
  families :: "family_row list"
  tokens :: "token_row list"
  recovery :: "recovery_row list"
  resets :: "reset_row list"
  attempts :: "attempt_row list"
  audit_log :: "audit_row list"
  pinvites :: "pinvite_row list"
  ptokens :: "ptoken_row list"
  passkey_owners :: "uid list"
  open_registration :: bool
  local_password_login_disabled :: bool
  ldap_enabled :: bool

definition has_id :: "uid \<Rightarrow> user_row \<Rightarrow> bool" where
  "has_id i u \<longleftrightarrow> u_id u = i"

definition live :: "user_row \<Rightarrow> bool" where
  "live u \<longleftrightarrow> u_deleted_at u = None"

definition find_user :: "uid \<Rightarrow> 'w world_scheme \<Rightarrow> user_row option" where
  "find_user i s = find_row (has_id i) (users s)"

definition upd_user :: "uid \<Rightarrow> (user_row \<Rightarrow> user_row) \<Rightarrow> 'w world_scheme \<Rightarrow> 'w world_scheme" where
  "upd_user i f s = s\<lparr>users := update_where (has_id i) f (users s)\<rparr>"

definition upd_live :: "uid \<Rightarrow> (user_row \<Rightarrow> user_row) \<Rightarrow> 'w world_scheme \<Rightarrow> 'w world_scheme" where
  "upd_live i f s = s\<lparr>users := update_where (\<lambda>u. has_id i u \<and> live u) f (users s)\<rparr>"

definition affected :: "('r \<Rightarrow> bool) \<Rightarrow> 'r list \<Rightarrow> nat" where
  "affected P rows = count_where P rows"

section \<open>Lookups\<close>

definition find_by_email_with_secret :: "env \<Rightarrow> ustr \<Rightarrow> ('w world_scheme, user_row option) db" where
  "find_by_email_with_secret env email =
     query (\<lambda>s. find_row (\<lambda>u. u_email u = normalize_email env email \<and> live u) (users s))"

definition find_by_id :: "uid \<Rightarrow> ('w world_scheme, user_row option) db" where
  "find_by_id i = query (\<lambda>s. find_row (\<lambda>u. has_id i u \<and> live u) (users s))"

definition find_by_id_with_secret :: "uid \<Rightarrow> ('w world_scheme, user_row option) db" where
  "find_by_id_with_secret i = query (\<lambda>s. find_row (\<lambda>u. has_id i u \<and> live u) (users s))"

definition is_active_superadmin :: "uid \<Rightarrow> ('w world_scheme, bool) db" where
  "is_active_superadmin i =
     query (\<lambda>s. any_row (\<lambda>u. has_id i u \<and> u_is_superadmin u \<and> u_is_active u \<and> live u) (users s))"

text \<open>\<open>LIMIT 1\<close> without an order takes any matching row; the model takes the first.\<close>

definition identifier_matches :: "env \<Rightarrow> ustr \<Rightarrow> user_row \<Rightarrow> bool" where
  "identifier_matches env identifier u \<longleftrightarrow>
     (u_email u = normalize_email env identifier \<or> u_username u = trim identifier) \<and> live u"

definition find_active_by_identifier :: "env \<Rightarrow> ustr \<Rightarrow> ('w world_scheme, user_row option) db" where
  "find_active_by_identifier env identifier =
     query (\<lambda>s. find_row (identifier_matches env identifier) (users s))"

definition find_by_identifier_with_secret :: "env \<Rightarrow> ustr \<Rightarrow> ('w world_scheme, user_row option) db" where
  "find_by_identifier_with_secret env identifier =
     query (\<lambda>s. find_row (identifier_matches env identifier) (users s))"

definition is_banned :: "uid \<Rightarrow> ('w world_scheme, bool) db" where
  "is_banned i =
     query (\<lambda>s. case find_user i s of None \<Rightarrow> False | Some u \<Rightarrow> u_banned_at u \<noteq> None)"

record AccountStatus =
  is_active :: bool
  banned :: bool

definition may_authenticate :: "AccountStatus \<Rightarrow> bool" where
  "may_authenticate st \<longleftrightarrow> is_active st \<and> \<not> banned st"

definition touch_last_seen :: "uid \<Rightarrow> ('w world_scheme, AccountStatus option) db" where
  "touch_last_seen i =
     execute (\<lambda>s. map_option (\<lambda>u. \<lparr>is_active = u_is_active u, banned = u_banned_at u \<noteq> None\<rparr>)
                    (find_row (\<lambda>u. has_id i u \<and> live u) (users s)))
             (\<lambda>s. upd_live i (\<lambda>u. u\<lparr>u_last_seen_at := Some (db_now s)\<rparr>) s)"

definition stamp_login :: "uid \<Rightarrow> ('w world_scheme, unit) db" where
  "stamp_login i =
     execute (\<lambda>s. ()) (\<lambda>s. upd_user i (\<lambda>u. u\<lparr>u_last_login_at := Some (db_now s),
                                               u_last_seen_at := Some (db_now s)\<rparr>) s)"

section \<open>Second factor columns\<close>

definition set_totp_secret :: "uid \<Rightarrow> byte list \<Rightarrow> ('w world_scheme, unit) db" where
  "set_totp_secret i secret_enc =
     execute (\<lambda>s. ()) (upd_live i (\<lambda>u. u\<lparr>u_totp_secret_enc := Some secret_enc, u_totp_confirmed_at := None\<rparr>))"

definition get_totp :: "uid \<Rightarrow> ('w world_scheme, (byte list \<times> bool) option) db" where
  "get_totp i =
     query (\<lambda>s. case find_row (\<lambda>u. has_id i u \<and> live u) (users s) of
        None \<Rightarrow> None
      | Some u \<Rightarrow> map_option (\<lambda>e. (e, u_totp_confirmed_at u \<noteq> None)) (u_totp_secret_enc u))"

definition confirm_totp :: "uid \<Rightarrow> ('w world_scheme, unit) db" where
  "confirm_totp i =
     execute (\<lambda>s. ()) (\<lambda>s. upd_live i (\<lambda>u. u\<lparr>u_totp_confirmed_at := Some (db_now s)\<rparr>) s)"

definition disable_totp :: "uid \<Rightarrow> ('w world_scheme, unit) db" where
  "disable_totp i =
     execute (\<lambda>s. ()) (upd_live i (\<lambda>u. u\<lparr>u_totp_secret_enc := None, u_totp_confirmed_at := None\<rparr>))"

definition second_factor :: "uid \<Rightarrow> 'w world_scheme \<Rightarrow> bool" where
  "second_factor i s \<longleftrightarrow>
     (case find_user i s of None \<Rightarrow> False | Some u \<Rightarrow> u_totp_confirmed_at u \<noteq> None) \<or>
     i \<in> set (passkey_owners s)"

definition has_active_2fa :: "uid \<Rightarrow> ('w world_scheme, bool) db" where
  "has_active_2fa i = query (second_factor i)"

section \<open>Administration of accounts\<close>

definition active_superadmin :: "user_row \<Rightarrow> bool" where
  "active_superadmin u \<longleftrightarrow>
     u_is_superadmin u \<and> u_is_active u \<and> u_banned_at u = None \<and> u_deleted_at u = None"

datatype AdminUpdateOutcome = Updated | NotFound | LastSuperadmin

definition count_active_superadmins :: "('w world_scheme, nat) db" where
  "count_active_superadmins = query (\<lambda>s. count_where active_superadmin (users s))"

definition is_last_admin_risk :: "user_row \<Rightarrow> bool" where
  "is_last_admin_risk u \<longleftrightarrow> u_is_superadmin u \<and> u_is_active u \<and> u_banned_at u = None"

definition other_superadmins :: "uid \<Rightarrow> 'w world_scheme \<Rightarrow> nat" where
  "other_superadmins i s = count_where (\<lambda>u. active_superadmin u \<and> \<not> has_id i u) (users s)"

definition promote_to_superadmin :: "uid \<Rightarrow> ('w world_scheme, bool) db" where
  "promote_to_superadmin i =
     execute (\<lambda>s. affected (\<lambda>u. has_id i u \<and> live u) (users s) > 0)
             (upd_live i (\<lambda>u. u\<lparr>u_is_superadmin := True\<rparr>))"

definition set_superadmin :: "uid \<Rightarrow> bool \<Rightarrow> ('w world_scheme, AdminUpdateOutcome) db" where
  "set_superadmin i value = stmt (\<lambda>s.
     case find_user i s of
       None \<Rightarrow> (Inr NotFound, s)
     | Some target \<Rightarrow>
         if u_deleted_at target \<noteq> None then (Inr NotFound, s)
         else if \<not> value \<and> is_last_admin_risk target \<and> other_superadmins i s = 0
           then (Inr LastSuperadmin, s)
         else (Inr Updated, upd_user i (\<lambda>u. u\<lparr>u_is_superadmin := value\<rparr>) s))"

definition set_active :: "uid \<Rightarrow> bool \<Rightarrow> ('w world_scheme, AdminUpdateOutcome) db" where
  "set_active i value = stmt (\<lambda>s.
     case find_user i s of
       None \<Rightarrow> (Inr NotFound, s)
     | Some target \<Rightarrow>
         if u_deleted_at target \<noteq> None then (Inr NotFound, s)
         else if \<not> value \<and> is_last_admin_risk target \<and> other_superadmins i s = 0
           then (Inr LastSuperadmin, s)
         else (Inr Updated, upd_user i (\<lambda>u. u\<lparr>u_is_active := value\<rparr>) s))"

definition set_exclude_from_time_reports :: "uid \<Rightarrow> bool \<Rightarrow> ('w world_scheme, AdminUpdateOutcome) db" where
  "set_exclude_from_time_reports i value = stmt (\<lambda>s.
     case find_user i s of
       None \<Rightarrow> (Inr NotFound, s)
     | Some target \<Rightarrow>
         if u_deleted_at target \<noteq> None then (Inr NotFound, s)
         else (Inr Updated, upd_user i (\<lambda>u. u\<lparr>u_exclude_from_time_reports := value\<rparr>) s))"

definition set_banned :: "uid \<Rightarrow> bool \<Rightarrow> uid \<Rightarrow> ustr option \<Rightarrow> ('w world_scheme, AdminUpdateOutcome) db" where
  "set_banned i ban by reason = stmt (\<lambda>s.
     case find_user i s of
       None \<Rightarrow> (Inr NotFound, s)
     | Some target \<Rightarrow>
         if u_deleted_at target \<noteq> None then (Inr NotFound, s)
         else if ban \<and> is_last_admin_risk target \<and> other_superadmins i s = 0
           then (Inr LastSuperadmin, s)
         else if ban
           then (Inr Updated, upd_user i (\<lambda>u. u\<lparr>u_banned_at := Some (db_now s), u_banned_by := Some by,
                                               u_ban_reason := reason\<rparr>) s)
         else (Inr Updated, upd_user i (\<lambda>u. u\<lparr>u_banned_at := None, u_banned_by := None,
                                               u_ban_reason := None\<rparr>) s))"

definition set_must_change_password :: "uid \<Rightarrow> bool \<Rightarrow> ('w world_scheme, bool) db" where
  "set_must_change_password i value =
     execute (\<lambda>s. affected (\<lambda>u. has_id i u \<and> live u) (users s) > 0)
             (upd_live i (\<lambda>u. u\<lparr>u_must_change_password := value\<rparr>))"

definition delete_marks :: "int \<Rightarrow> int \<Rightarrow> user_row \<Rightarrow> user_row" where
  "delete_marks now grace_until u =
     u\<lparr>u_deleted_at := Some now, u_deleted_grace_until := Some grace_until, u_is_active := False\<rparr>"

definition soft_delete :: "uid \<Rightarrow> int \<Rightarrow> ('w world_scheme, bool) db" where
  "soft_delete i grace_until =
     execute (\<lambda>s. affected (\<lambda>u. has_id i u \<and> live u) (users s) > 0)
             (\<lambda>s. upd_live i (delete_marks (db_now s) grace_until) s)"

definition soft_delete_guarded :: "uid \<Rightarrow> int \<Rightarrow> ('w world_scheme, AdminUpdateOutcome) db" where
  "soft_delete_guarded i grace_until = stmt (\<lambda>s.
     case find_user i s of
       None \<Rightarrow> (Inr NotFound, s)
     | Some target \<Rightarrow>
         if u_deleted_at target \<noteq> None then (Inr NotFound, s)
         else if is_last_admin_risk target \<and> other_superadmins i s = 0
           then (Inr LastSuperadmin, s)
         else (Inr Updated, upd_user i (delete_marks (db_now s) grace_until) s))"

section \<open>Creating accounts\<close>

record NewUser =
  nu_email :: ustr
  nu_username :: ustr
  nu_full_name :: ustr
  nu_password_hash :: ustr

text \<open>The columns an \<open>INSERT\<close> leaves to their defaults.\<close>

definition default_user :: user_row where
  "default_user =
     \<lparr>u_id = 0, u_email = [], u_username = [], u_full_name = [], u_password_hash = None,
      u_is_active = True, u_is_superadmin = False, u_must_change_password = False,
      u_auth_source = lit ''local'', u_ldap_dn = None, u_exclude_from_time_reports = False,
      u_deleted_at = None, u_deleted_grace_until = None, u_banned_at = None, u_banned_by = None,
      u_ban_reason = None, u_totp_secret_enc = None, u_totp_confirmed_at = None,
      u_last_login_at = None, u_last_seen_at = None, u_created_at = 0\<rparr>"

text \<open>\<open>INSERT INTO users\<close> under the two uniqueness constraints, which deleted rows still hold.\<close>

definition insert_user :: "user_row \<Rightarrow> ('w world_scheme, user_row) db" where
  "insert_user new = stmt (\<lambda>s.
     if any_row (\<lambda>u. u_email u = u_email new \<or> u_username u = u_username new) (users s)
     then (Inl UniqueViolation, s)
     else let row = new\<lparr>u_id := next_id s, u_created_at := db_now s\<rparr>
          in (Inr row, s\<lparr>users := users s @ [row], next_id := Suc (next_id s)\<rparr>))"

definition create_user :: "env \<Rightarrow> NewUser \<Rightarrow> ('w world_scheme, user_row) db" where
  "create_user env new =
     insert_user (default_user\<lparr>u_email := normalize_email env (nu_email new),
       u_username := nu_username new, u_full_name := nu_full_name new,
       u_password_hash := Some (nu_password_hash new)\<rparr>)"

definition create_with_flags :: "env \<Rightarrow> NewUser \<Rightarrow> bool \<Rightarrow> bool \<Rightarrow> ('w world_scheme, user_row) db" where
  "create_with_flags env new is_superadmin must_change_password =
     insert_user (default_user\<lparr>u_email := normalize_email env (nu_email new),
       u_username := nu_username new, u_full_name := nu_full_name new,
       u_password_hash := Some (nu_password_hash new), u_is_superadmin := is_superadmin,
       u_must_change_password := must_change_password\<rparr>)"

definition username_base :: "ustr \<Rightarrow> ustr" where
  "username_base hint =
     (let cleaned = take 60 (filter (\<lambda>c. is_ascii_alnum c \<or> c = 46 \<or> c = 95 \<or> c = 45) hint)
      in if cleaned = [] then lit ''user'' else cleaned)"

definition username_candidate :: "ustr \<Rightarrow> nat \<Rightarrow> ustr" where
  "username_candidate base n = (if n = 0 then base else base @ nat_str (n + 1))"

fun free_username_loop :: "ustr \<Rightarrow> nat list \<Rightarrow> ('w world_scheme, ustr) db" where
  "free_username_loop base [] = State_Monad.return (Inr base)"
| "free_username_loop base (n # ns) = do {
     taken \<leftarrow> query (\<lambda>s. any_row (\<lambda>u. u_username u = username_candidate base n) (users s));
     case taken of
       Inl e \<Rightarrow> State_Monad.return (Inl e)
     | Inr t \<Rightarrow>
         if t then free_username_loop base ns
         else State_Monad.return (Inr (username_candidate base n))
   }"

definition free_username :: "ustr \<Rightarrow> ('w world_scheme, ustr) db" where
  "free_username hint = free_username_loop (username_base hint) [0..<10000]"

definition ldap_sync :: "ustr option \<Rightarrow> bool \<Rightarrow> ustr \<Rightarrow> user_row \<Rightarrow> user_row" where
  "ldap_sync dn is_superadmin full_name u =
     u\<lparr>u_auth_source := lit ''ldap'', u_ldap_dn := dn, u_is_superadmin := is_superadmin,
       u_full_name := full_name, u_must_change_password := False, u_is_active := True\<rparr>"

definition find_or_link_ldap_user ::
    "env \<Rightarrow> ustr \<Rightarrow> ustr \<Rightarrow> ustr \<Rightarrow> ustr option \<Rightarrow> bool \<Rightarrow> ('w world_scheme, user_row) db" where
  "find_or_link_ldap_user env email username_hint full_name dn is_superadmin = do {
     existing \<leftarrow> query (\<lambda>s. find_row (\<lambda>u. u_email u = normalize_email env email \<and> live u) (users s));
     case existing of
       Inl e \<Rightarrow> State_Monad.return (Inl e)
     | Inr (Some u) \<Rightarrow>
         execute (\<lambda>s. ldap_sync dn is_superadmin full_name u)
                 (upd_user (u_id u) (ldap_sync dn is_superadmin full_name))
     | Inr None \<Rightarrow> do {
         name \<leftarrow> free_username username_hint;
         case name of
           Inl e \<Rightarrow> State_Monad.return (Inl e)
         | Inr username \<Rightarrow>
             insert_user (default_user\<lparr>u_email := normalize_email env email, u_username := username,
               u_full_name := full_name, u_auth_source := lit ''ldap'', u_ldap_dn := dn,
               u_is_superadmin := is_superadmin\<rparr>)
       }
   }"

section \<open>The last superadmin\<close>

text \<open>
  What a superadmin can do to an account through the administration pages. The actor of a ban is the
  last argument; \<open>apply_admin\<close> runs the operation and keeps the state, whatever the outcome.
\<close>

datatype admin_op =
    SetSuperadmin uid bool
  | SetActive uid bool
  | SetBanned uid bool uid "ustr option"
  | SetExclude uid bool
  | SetMustChange uid bool
  | SoftDeleteGuarded uid int
  | Promote uid

fun admin_target :: "admin_op \<Rightarrow> uid" where
  "admin_target (SetSuperadmin i v) = i"
| "admin_target (SetActive i v) = i"
| "admin_target (SetBanned i v by r) = i"
| "admin_target (SetExclude i v) = i"
| "admin_target (SetMustChange i v) = i"
| "admin_target (SoftDeleteGuarded i g) = i"
| "admin_target (Promote i) = i"

fun apply_admin :: "admin_op \<Rightarrow> 'w world_scheme \<Rightarrow> 'w world_scheme" where
  "apply_admin (SetSuperadmin i v) s = snd (run_state (set_superadmin i v) s)"
| "apply_admin (SetActive i v) s = snd (run_state (set_active i v) s)"
| "apply_admin (SetBanned i v by r) s = snd (run_state (set_banned i v by r) s)"
| "apply_admin (SetExclude i v) s = snd (run_state (set_exclude_from_time_reports i v) s)"
| "apply_admin (SetMustChange i v) s = snd (run_state (set_must_change_password i v) s)"
| "apply_admin (SoftDeleteGuarded i g) s = snd (run_state (soft_delete_guarded i g) s)"
| "apply_admin (Promote i) s = snd (run_state (promote_to_superadmin i) s)"

definition superadmin_ids :: "'w world_scheme \<Rightarrow> nat set" where
  "superadmin_ids s = u_id ` {u \<in> set (users s). active_superadmin u}"

definition user_ids_ok :: "'w world_scheme \<Rightarrow> bool" where
  "user_ids_ok s \<longleftrightarrow> keyed u_id (users s)"

lemma users_upd_user [simp]: "users (upd_user i f s) = update_where (has_id i) f (users s)"
  by (simp add: upd_user_def)

lemma users_upd_live [simp]:
  "users (upd_live i f s) = update_where (\<lambda>u. has_id i u \<and> live u) f (users s)"
  by (simp add: upd_live_def)

lemma user_ids_ok_update:
  "user_ids_ok s \<Longrightarrow> (\<And>u. u_id (f u) = u_id u) \<Longrightarrow> users t = update_where P f (users s) \<Longrightarrow> user_ids_ok t"
  by (simp add: user_ids_ok_def keyed_update_where)

text \<open>Updating one row touches only that account's standing.\<close>

lemma superadmin_ids_other:
  assumes "users t = update_where P f (users s)" and "\<And>u. P u \<Longrightarrow> has_id i u"
    and "h \<in> superadmin_ids s" and "h \<noteq> i"
  shows "h \<in> superadmin_ids t"
proof -
  obtain u where "u \<in> set (users s)" "active_superadmin u" "u_id u = h"
    using assms(3) by (auto simp: superadmin_ids_def)
  moreover have "\<not> P u" using assms(2,4) calculation(3) by (auto simp: has_id_def)
  ultimately show ?thesis using assms(1) by (auto simp: superadmin_ids_def set_update_where)
qed

lemma superadmin_ids_kept:
  assumes "users t = update_where P f (users s)"
    and "\<And>u. u_id (f u) = u_id u" and "\<And>u. active_superadmin u \<Longrightarrow> active_superadmin (f u)"
  shows "superadmin_ids s \<subseteq> superadmin_ids t"
proof
  fix h
  assume "h \<in> superadmin_ids s"
  then obtain u where u: "u \<in> set (users s)" "active_superadmin u" "u_id u = h"
    by (auto simp: superadmin_ids_def)
  then have "(if P u then f u else u) \<in> set (users t)"
    using assms(1) by (auto simp: set_update_where)
  moreover have "active_superadmin (if P u then f u else u)" "u_id (if P u then f u else u) = h"
    using u assms(2,3) by auto
  ultimately have "(if P u then f u else u) \<in> {u \<in> set (users t). active_superadmin u}"
    "h = u_id (if P u then f u else u)" by simp_all
  then show "h \<in> superadmin_ids t" unfolding superadmin_ids_def by (rule rev_image_eqI)
qed

text \<open>
  The guard: the target, when it is the only holder, is the row the guard reads; it counts as a risk
  and no other row counts, so the guarded write does not happen.
\<close>

lemma guard_fires:
  assumes "user_ids_ok s" and "superadmin_ids s = {i}"
  shows "\<exists>u. find_user i s = Some u \<and> u_deleted_at u = None \<and> is_last_admin_risk u \<and> other_superadmins i s = 0"
proof -
  obtain u where u: "u \<in> set (users s)" "active_superadmin u" "u_id u = i"
    using assms(2) unfolding superadmin_ids_def by blast
  have "find_user i s = Some u"
    using find_row_key [of u_id "users s" u] u assms(1)
    by (simp add: find_user_def user_ids_ok_def has_id_def [abs_def])
  moreover have "other_superadmins i s = 0"
    using assms(2) unfolding other_superadmins_def count_where_zero superadmin_ids_def has_id_def
    by blast
  ultimately show ?thesis using u(2) by (simp add: active_superadmin_def is_last_admin_risk_def)
qed

lemma run_stmt:
  "run_state (stmt f) s =
     (let s' = s\<lparr>calls := Suc (calls s)\<rparr> in if faults s (calls s) then (Inl Unavailable, s') else f s')"
  by (simp add: stmt_def)

lemma world_calls [simp]:
  "users (s\<lparr>calls := n\<rparr>) = users s" "find_user i (s\<lparr>calls := n\<rparr>) = find_user i s"
  "other_superadmins i (s\<lparr>calls := n\<rparr>) = other_superadmins i s"
  "superadmin_ids (s\<lparr>calls := n\<rparr>) = superadmin_ids s"
  "user_ids_ok (s\<lparr>calls := n\<rparr>) = user_ids_ok s"
  for s :: "'w world_scheme"
  by (simp_all add: find_user_def other_superadmins_def superadmin_ids_def user_ids_ok_def)

lemmas admin_defs = set_superadmin_def set_active_def set_banned_def set_exclude_from_time_reports_def
  set_must_change_password_def soft_delete_guarded_def promote_to_superadmin_def execute_def run_stmt Let_def

text \<open>Every administrative operation is one row update of the target, or leaves the users alone.\<close>

definition one_row :: "uid \<Rightarrow> 'w world_scheme \<Rightarrow> 'w world_scheme \<Rightarrow> bool" where
  "one_row i s t \<longleftrightarrow>
     (\<exists>P f. users t = update_where P f (users s) \<and> (\<forall>u. P u \<longrightarrow> has_id i u) \<and> (\<forall>u. u_id (f u) = u_id u))"

lemma one_row_same: "users t = users s \<Longrightarrow> one_row i s t"
  unfolding one_row_def
  by (rule exI [of _ "\<lambda>_. False"], rule exI [of _ "\<lambda>u. u"]) (simp add: update_where_def)

lemma one_row_upd:
  "users t = update_where P f (users s) \<Longrightarrow> (\<And>u. P u \<Longrightarrow> has_id i u) \<Longrightarrow>
     (\<And>u. u_id (f u) = u_id u) \<Longrightarrow> one_row i s t"
  unfolding one_row_def by blast

lemma one_row_user:
  "(\<And>u. u_id (f u) = u_id u) \<Longrightarrow> one_row i s (upd_user i f (s\<lparr>calls := n\<rparr>))"
  "(\<And>u. u_id (f u) = u_id u) \<Longrightarrow> one_row i s (upd_live i f (s\<lparr>calls := n\<rparr>))"
  by (rule one_row_upd [where f = f and P = "has_id i"]; simp)
     (rule one_row_upd [where f = f and P = "\<lambda>u. has_id i u \<and> live u"]; simp)

lemma apply_admin_one_row: "one_row (admin_target op) s (apply_admin op s)"
proof (cases op)
  case (SetSuperadmin i v)
  then show ?thesis by (simp add: admin_defs one_row_same one_row_user split: option.split)
next
  case (SetActive i v)
  then show ?thesis by (simp add: admin_defs one_row_same one_row_user split: option.split)
next
  case (SetBanned i v actor r)
  then show ?thesis by (simp add: admin_defs one_row_same one_row_user split: option.split)
next
  case (SetExclude i v)
  then show ?thesis by (simp add: admin_defs one_row_same one_row_user split: option.split)
next
  case (SoftDeleteGuarded i g)
  then show ?thesis
    by (simp add: admin_defs one_row_same one_row_user delete_marks_def split: option.split)
qed (simp_all add: admin_defs one_row_same one_row_user)

interpretation superadmins: roster_guard user_ids_ok superadmin_ids apply_admin admin_target
proof
  fix s :: "'w world_scheme" and op :: admin_op and h :: nat
  obtain P f where step: "users (apply_admin op s) = update_where P f (users s)"
    "\<And>u. P u \<Longrightarrow> has_id (admin_target op) u" "\<And>u. u_id (f u) = u_id u"
    using apply_admin_one_row [of op s] unfolding one_row_def by blast
  show "user_ids_ok s \<Longrightarrow> user_ids_ok (apply_admin op s)"
    by (rule user_ids_ok_update [OF _ step(3) step(1)])
  show "h \<in> superadmin_ids s \<Longrightarrow> h \<noteq> admin_target op \<Longrightarrow> h \<in> superadmin_ids (apply_admin op s)"
    by (rule superadmin_ids_other [OF step(1,2)])
  assume ok: "user_ids_ok s" and only: "superadmin_ids s = {admin_target op}"
  obtain u where u: "find_user (admin_target op) s = Some u" "u_deleted_at u = None"
    "is_last_admin_risk u" "other_superadmins (admin_target op) s = 0"
    using guard_fires [OF ok only] by blast
  have up: "superadmin_ids s \<subseteq> superadmin_ids (upd_user i f (s\<lparr>calls := n\<rparr>))"
    if "\<And>u. u_id (f u) = u_id u" "\<And>u. active_superadmin u \<Longrightarrow> active_superadmin (f u)" for i f n
    by (rule superadmin_ids_kept [where f = f and P = "has_id i"]) (simp_all add: that)
  have up_live: "superadmin_ids s \<subseteq> superadmin_ids (upd_live i f (s\<lparr>calls := n\<rparr>))"
    if "\<And>u. u_id (f u) = u_id u" "\<And>u. active_superadmin u \<Longrightarrow> active_superadmin (f u)" for i f n
    by (rule superadmin_ids_kept [where f = f and P = "\<lambda>u. has_id i u \<and> live u"]) (simp_all add: that)
  have "superadmin_ids s \<subseteq> superadmin_ids (apply_admin op s)"
    using u by (cases op)
      (simp_all add: admin_defs, (intro impI up up_live; simp add: active_superadmin_def)+)
  with only show "superadmin_ids (apply_admin op s) \<noteq> {}" by blast
qed

section \<open>Properties\<close>

text \<open>
  The account operations never lock everyone out: from any state with a usable superadmin
  (promoted, enabled, not banned, not deleted), no sequence of demotions, deactivations, bans,
  guarded deletions and the other account operations, whatever fails on the way, leaves none; and a
  usable superadmin nobody targets stays one.
\<close>

theorem superadmin_never_locked_out:
  assumes "user_ids_ok s" and "superadmin_ids s \<noteq> {}"
  shows "superadmin_ids (fold apply_admin ops s) \<noteq> {} \<and>
    (\<forall>h\<in>superadmin_ids s. (\<forall>op\<in>set ops. h \<noteq> admin_target op) \<longrightarrow>
       h \<in> superadmin_ids (fold apply_admin ops s))"
  using superadmins.run_never_empty [OF assms] superadmins.untargeted_stays [OF assms(1)] by blast

text \<open>A concrete database to run operations on.\<close>

definition empty_world :: world where
  "empty_world =
     \<lparr>calls = 0, faults = (\<lambda>_. False), next_id = 100, app_now = 1000, db_now = 1000,
      draws = (\<lambda>k. replicate 32 (of_nat k)), drawn = 0,
      users = [], families = [], tokens = [], recovery = [], resets = [], attempts = [],
      audit_log = [], pinvites = [], ptokens = [], passkey_owners = [],
      open_registration = False, local_password_login_disabled = False, ldap_enabled = False\<rparr>"

lemma superadmin_ids_code: "superadmin_ids s = set (map u_id (filter active_superadmin (users s)))"
  by (auto simp: superadmin_ids_def)

definition demo_admin :: "uid \<Rightarrow> user_row" where
  "demo_admin i = default_user\<lparr>u_id := i, u_email := [i], u_username := [i], u_is_superadmin := True\<rparr>"

lemma superadmin_never_locked_out_witness:
  "superadmin_ids (fold apply_admin [SetSuperadmin 1 False, SetBanned 2 True 1 None, SoftDeleteGuarded 2 5000]
     (empty_world\<lparr>users := [demo_admin 1, demo_admin 2]\<rparr>)) \<noteq> {}"
proof -
  have "user_ids_ok (empty_world\<lparr>users := [demo_admin 1, demo_admin 2]\<rparr>)"
    by (simp add: user_ids_ok_def keyed_def demo_admin_def)
  moreover have "superadmin_ids (empty_world\<lparr>users := [demo_admin 1, demo_admin 2]\<rparr>) \<noteq> {}"
    by (simp add: superadmin_ids_code active_superadmin_def demo_admin_def default_user_def)
  ultimately show ?thesis using superadmin_never_locked_out by blast
qed

text \<open>
  Two paths are not guarded. A user's own account deletion says so in its comment; the directory
  sync overwrites the flag with the group membership, so a single login can remove the last usable
  superadmin.
\<close>

lemma unguarded_paths:
  "superadmin_ids (snd (run_state (soft_delete 1 5000) (empty_world\<lparr>users := [demo_admin 1]\<rparr>))) = {}"
  by (simp add: soft_delete_def execute_def run_stmt Let_def superadmin_ids_code upd_live_def has_id_def
      live_def demo_admin_def default_user_def empty_world_def delete_marks_def active_superadmin_def)

text \<open>
  The row lock covers only the target's row: two demotions that both check before either writes see
  each other as the survivor.
\<close>

lemma demotions_race:
  "let s = empty_world\<lparr>users := [demo_admin 1, demo_admin 2]\<rparr> in
     fst (run_state (set_superadmin 1 False) s) = Inr Updated \<and>
     fst (run_state (set_superadmin 2 False) s) = Inr Updated \<and>
     superadmin_ids (upd_user 2 (\<lambda>u. u\<lparr>u_is_superadmin := False\<rparr>)
       (upd_user 1 (\<lambda>u. u\<lparr>u_is_superadmin := False\<rparr>) s)) = {}"
  by (auto simp: set_superadmin_def run_stmt Let_def superadmin_ids_code upd_user_def has_id_def
      find_user_def find_row_def other_superadmins_def count_where_def is_last_admin_risk_def
      demo_admin_def default_user_def empty_world_def active_superadmin_def)

end
