(* ===== verification/Sessions.thy ===== *)
theory Sessions
  imports Accounts
begin

text \<open>
  The credential stores: refresh-token families and tokens (\<open>crates/db/src/sessions.rs\<close>), recovery
  codes (\<open>recovery.rs\<close>), password-reset tokens (\<open>password_reset.rs\<close>), login attempts
  (\<open>login_attempts.rs\<close>), platform invitations (\<open>platform_invitations.rs\<close>), personal app tokens
  (\<open>personal_tokens.rs\<close>) and the audit log (\<open>audit.rs\<close>).

  \<open>auth_ages\<close> is what none of their statements ever undoes: a used token, code, reset or invitation
  stays used, a revoked family stays revoked, and a token stays in its family.
\<close>

section \<open>Audit log\<close>

definition audit_record ::
    "uid option \<Rightarrow> ustr \<Rightarrow> ip option \<Rightarrow> ustr option \<Rightarrow> (ustr \<times> ustr) list \<Rightarrow> ('w world_scheme, unit) state" where
  "audit_record actor action ip ua metadata = ignore (stmt (\<lambda>s.
     if actor \<noteq> None \<and> find_user (the actor) s = None then (Inl ForeignKeyViolation, s)
     else (Inr (), s\<lparr>audit_log := audit_log s @
       [\<lparr>l_actor_id = actor, l_action = action, l_ip = ip, l_user_agent = ua,
         l_metadata = metadata, l_created_at = db_now s\<rparr>]\<rparr>)))"

definition count_for_action :: "ustr \<Rightarrow> ('w world_scheme, nat) db" where
  "count_for_action action = query (\<lambda>s. count_where (\<lambda>l. l_action l = action) (audit_log s))"

definition count_for_actor_actions :: "uid \<Rightarrow> ustr list \<Rightarrow> ('w world_scheme, nat) db" where
  "count_for_actor_actions actor actions =
     query (\<lambda>s. count_where (\<lambda>l. l_actor_id l = Some actor \<and> l_action l \<in> set actions) (audit_log s))"

section \<open>Refresh families and tokens\<close>

record RefreshLookup =
  lk_token_id :: nat
  lk_family_id :: nat
  lk_user_id :: uid
  lk_used_at :: "int option"
  lk_expires_at :: int
  lk_family_revoked :: bool

definition create_family :: "uid \<Rightarrow> ustr \<Rightarrow> ip option \<Rightarrow> ('w world_scheme, nat) db" where
  "create_family user_id ua ip = stmt (\<lambda>s.
     if find_user user_id s = None then (Inl ForeignKeyViolation, s)
     else (Inr (next_id s), s\<lparr>families := families s @
       [\<lparr>f_id = next_id s, f_user_id = user_id, f_user_agent = ua, f_ip = ip,
         f_created_at = db_now s, f_last_seen_at = db_now s, f_last_ip = None, f_country_code = None,
         f_city = None, f_revoked_at = None, f_revoked_reason = None\<rparr>],
       next_id := Suc (next_id s)\<rparr>))"

definition has_family :: "nat \<Rightarrow> 'w world_scheme \<Rightarrow> bool" where
  "has_family fid s \<longleftrightarrow> any_row (\<lambda>f. f_id f = fid) (families s)"

definition insert_token :: "nat \<Rightarrow> ustr \<Rightarrow> nat option \<Rightarrow> int \<Rightarrow> ('w world_scheme, nat) db" where
  "insert_token family_id token_hash parent_id expires_at = stmt (\<lambda>s.
     if any_row (\<lambda>t. t_token_hash t = token_hash) (tokens s) then (Inl UniqueViolation, s)
     else if \<not> has_family family_id s then (Inl ForeignKeyViolation, s)
     else (Inr (next_id s), s\<lparr>tokens := tokens s @
       [\<lparr>t_id = next_id s, t_family_id = family_id, t_token_hash = token_hash,
         t_parent_id = parent_id, t_expires_at = expires_at, t_used_at = None\<rparr>],
       next_id := Suc (next_id s)\<rparr>))"

definition lookup_token :: "ustr \<Rightarrow> 'w world_scheme \<Rightarrow> RefreshLookup option" where
  "lookup_token token_hash s =
     (case find_row (\<lambda>t. t_token_hash t = token_hash) (tokens s) of
        None \<Rightarrow> None
      | Some t \<Rightarrow>
          map_option (\<lambda>f. \<lparr>lk_token_id = t_id t, lk_family_id = t_family_id t, lk_user_id = f_user_id f,
              lk_used_at = t_used_at t, lk_expires_at = t_expires_at t,
              lk_family_revoked = f_revoked_at f \<noteq> None\<rparr>)
            (find_row (\<lambda>f. f_id f = t_family_id t) (families s)))"

definition find_by_hash :: "ustr \<Rightarrow> ('w world_scheme, RefreshLookup option) db" where
  "find_by_hash token_hash = query (lookup_token token_hash)"

definition unused_token :: "nat \<Rightarrow> token_row \<Rightarrow> bool" where
  "unused_token token_id t \<longleftrightarrow> t_id t = token_id \<and> t_used_at t = None"

definition mark_used :: "nat \<Rightarrow> ('w world_scheme, bool) db" where
  "mark_used token_id =
     execute (\<lambda>s. affected (unused_token token_id) (tokens s) > 0)
       (\<lambda>s. s\<lparr>tokens := update_where (unused_token token_id) (\<lambda>t. t\<lparr>t_used_at := Some (db_now s)\<rparr>) (tokens s)\<rparr>)"

definition revoke_where :: "(family_row \<Rightarrow> bool) \<Rightarrow> ustr \<Rightarrow> 'w world_scheme \<Rightarrow> 'w world_scheme" where
  "revoke_where P reason s = s\<lparr>families :=
     update_where (\<lambda>f. P f \<and> f_revoked_at f = None)
       (\<lambda>f. f\<lparr>f_revoked_at := Some (db_now s), f_revoked_reason := Some reason\<rparr>) (families s)\<rparr>"

definition revoke_family :: "nat \<Rightarrow> ustr \<Rightarrow> ('w world_scheme, unit) state" where
  "revoke_family family_id reason =
     ignore (execute (\<lambda>s. ()) (revoke_where (\<lambda>f. f_id f = family_id) reason))"

definition revoke_all_for_user_counted :: "uid \<Rightarrow> ustr \<Rightarrow> ('w world_scheme, nat) db" where
  "revoke_all_for_user_counted user_id reason =
     execute (\<lambda>s. affected (\<lambda>f. f_user_id f = user_id \<and> f_revoked_at f = None) (families s))
       (revoke_where (\<lambda>f. f_user_id f = user_id) reason)"

definition revoke_all_for_user :: "uid \<Rightarrow> ustr \<Rightarrow> ('w world_scheme, unit) state" where
  "revoke_all_for_user user_id reason = ignore (revoke_all_for_user_counted user_id reason)"

text \<open>\<open>COALESCE\<close>\<close>

definition coalesce :: "'a option \<Rightarrow> 'a option \<Rightarrow> 'a option" where
  "coalesce x y = (case x of None \<Rightarrow> y | Some v \<Rightarrow> Some v)"

definition touch_family ::
    "nat \<Rightarrow> ip option \<Rightarrow> ustr option \<Rightarrow> ustr option \<Rightarrow> ('w world_scheme, unit) state" where
  "touch_family family_id ip country city = ignore (execute (\<lambda>s. ()) (\<lambda>s. s\<lparr>families :=
     update_where (\<lambda>f. f_id f = family_id)
       (\<lambda>f. f\<lparr>f_last_seen_at := db_now s, f_last_ip := coalesce ip (f_last_ip f),
              f_country_code := coalesce country (f_country_code f),
              f_city := coalesce city (f_city f)\<rparr>) (families s)\<rparr>))"

definition set_family_location ::
    "nat \<Rightarrow> ustr option \<Rightarrow> ustr option \<Rightarrow> ('w world_scheme, unit) state" where
  "set_family_location family_id country city =
     (if country = None \<and> city = None then State_Monad.return ()
      else ignore (execute (\<lambda>s. ()) (\<lambda>s. s\<lparr>families :=
        update_where (\<lambda>f. f_id f = family_id)
          (\<lambda>f. f\<lparr>f_country_code := country, f_city := city\<rparr>) (families s)\<rparr>)))"

definition purge_locations :: "('w world_scheme, nat) db" where
  "purge_locations =
     execute (\<lambda>s. affected (\<lambda>f. f_country_code f \<noteq> None \<or> f_city f \<noteq> None) (families s))
       (\<lambda>s. s\<lparr>families := update_where (\<lambda>f. f_country_code f \<noteq> None \<or> f_city f \<noteq> None)
                (\<lambda>f. f\<lparr>f_country_code := None, f_city := None\<rparr>) (families s)\<rparr>)"

text \<open>A live session: not revoked, with a token that has not expired (\<open>users::ACTIVE_FAMILY\<close>).\<close>

definition active_family :: "'w world_scheme \<Rightarrow> family_row \<Rightarrow> bool" where
  "active_family s f \<longleftrightarrow>
     f_revoked_at f = None \<and> any_row (\<lambda>t. t_family_id t = f_id f \<and> t_expires_at t > db_now s) (tokens s)"

definition list_active_for_user :: "uid \<Rightarrow> ('w world_scheme, family_row list) db" where
  "list_active_for_user user_id =
     query (\<lambda>s. rev (sort_key f_last_seen_at
                  (rev (filter (\<lambda>f. f_user_id f = user_id \<and> active_family s f) (families s)))))"

section \<open>Recovery codes\<close>

definition replace_all :: "uid \<Rightarrow> ustr list \<Rightarrow> ('w world_scheme, unit) db" where
  "replace_all user_id hashes = execute (\<lambda>s. ()) (\<lambda>s. s\<lparr>
     recovery := delete_where (\<lambda>r. r_user_id r = user_id) (recovery s) @
       map (\<lambda>(k, h). \<lparr>r_id = next_id s + k, r_user_id = user_id, r_code_hash = h, r_used_at = None\<rparr>)
         (enumerate 0 hashes),
     next_id := next_id s + length hashes\<rparr>)"

definition list_unused :: "uid \<Rightarrow> ('w world_scheme, (nat \<times> ustr) list) db" where
  "list_unused user_id =
     query (\<lambda>s. map (\<lambda>r. (r_id r, r_code_hash r))
                  (filter (\<lambda>r. r_user_id r = user_id \<and> r_used_at r = None) (recovery s)))"

definition unused_code :: "nat \<Rightarrow> recovery_row \<Rightarrow> bool" where
  "unused_code i r \<longleftrightarrow> r_id r = i \<and> r_used_at r = None"

definition recovery_mark_used :: "nat \<Rightarrow> ('w world_scheme, bool) db" where
  "recovery_mark_used i =
     execute (\<lambda>s. affected (unused_code i) (recovery s) > 0)
       (\<lambda>s. s\<lparr>recovery := update_where (unused_code i) (\<lambda>r. r\<lparr>r_used_at := Some (db_now s)\<rparr>) (recovery s)\<rparr>)"

definition delete_all_for_user :: "uid \<Rightarrow> ('w world_scheme, nat) db" where
  "delete_all_for_user user_id =
     execute (\<lambda>s. affected (\<lambda>r. r_user_id r = user_id) (recovery s))
       (\<lambda>s. s\<lparr>recovery := delete_where (\<lambda>r. r_user_id r = user_id) (recovery s)\<rparr>)"

definition count_unused :: "uid \<Rightarrow> ('w world_scheme, nat) db" where
  "count_unused user_id =
     query (\<lambda>s. count_where (\<lambda>r. r_user_id r = user_id \<and> r_used_at r = None) (recovery s))"

section \<open>Password-reset tokens\<close>

definition reset_create :: "uid \<Rightarrow> ustr \<Rightarrow> int \<Rightarrow> ('w world_scheme, unit) db" where
  "reset_create user_id token_hash expires_at = stmt (\<lambda>s.
     if any_row (\<lambda>p. p_token_hash p = token_hash) (resets s) then (Inl UniqueViolation, s)
     else if find_user user_id s = None then (Inl ForeignKeyViolation, s)
     else (Inr (), s\<lparr>resets := resets s @
       [\<lparr>p_id = next_id s, p_user_id = user_id, p_token_hash = token_hash,
         p_expires_at = expires_at, p_used_at = None\<rparr>], next_id := Suc (next_id s)\<rparr>))"

definition open_reset :: "ustr \<Rightarrow> int \<Rightarrow> reset_row \<Rightarrow> bool" where
  "open_reset token_hash now p \<longleftrightarrow>
     p_token_hash p = token_hash \<and> p_used_at p = None \<and> p_expires_at p > now"

definition consume :: "ustr \<Rightarrow> ('w world_scheme, uid option) db" where
  "consume token_hash =
     execute (\<lambda>s. map_option p_user_id (find_row (open_reset token_hash (db_now s)) (resets s)))
       (\<lambda>s. s\<lparr>resets := update_where (open_reset token_hash (db_now s))
                (\<lambda>p. p\<lparr>p_used_at := Some (db_now s)\<rparr>) (resets s)\<rparr>)"

section \<open>Login attempts\<close>

definition attempt_record :: "ustr \<Rightarrow> ip \<Rightarrow> bool \<Rightarrow> ('w world_scheme, unit) state" where
  "attempt_record identifier_hash ip succeeded = ignore (execute (\<lambda>s. ()) (\<lambda>s. s\<lparr>attempts :=
     attempts s @ [\<lparr>a_identifier_hash = identifier_hash, a_ip = ip, a_succeeded = succeeded,
                    a_created_at = db_now s\<rparr>]\<rparr>))"

definition recent_failures :: "ustr \<Rightarrow> ip \<Rightarrow> int \<Rightarrow> ('w world_scheme, nat) db" where
  "recent_failures identifier_hash ip since =
     query (\<lambda>s. count_where (\<lambda>a. \<not> a_succeeded a \<and> a_created_at a \<ge> since \<and>
                  (a_identifier_hash a = identifier_hash \<or> a_ip a = ip)) (attempts s))"

definition prune :: "int \<Rightarrow> ('w world_scheme, nat) db" where
  "prune before =
     execute (\<lambda>s. affected (\<lambda>a. a_created_at a < before) (attempts s))
       (\<lambda>s. s\<lparr>attempts := delete_where (\<lambda>a. a_created_at a < before) (attempts s)\<rparr>)"

section \<open>Platform invitations\<close>

record PendingForConsume =
  pc_id :: nat
  pc_email :: ustr
  pc_role :: PlatformInviteRole

text \<open>\<open>lower($1)\<close> is the database's lower-casing; it is taken to agree with \<open>to_lowercase\<close>.\<close>

definition pinvite_create ::
    "env \<Rightarrow> ustr \<Rightarrow> PlatformInviteRole \<Rightarrow> ustr \<Rightarrow> uid option \<Rightarrow> int \<Rightarrow> ('w world_scheme, nat) db" where
  "pinvite_create env email role token_hash invited_by expires_at = stmt (\<lambda>s.
     if any_row (\<lambda>i. i_token_hash i = token_hash) (pinvites s) then (Inl UniqueViolation, s)
     else if invited_by \<noteq> None \<and> find_user (the invited_by) s = None then (Inl ForeignKeyViolation, s)
     else (Inr (next_id s), s\<lparr>pinvites := pinvites s @
       [\<lparr>i_id = next_id s, i_email = to_lowercase env email, i_role = PlatformInviteRole_as_str role,
         i_token_hash = token_hash, i_invited_by = invited_by, i_expires_at = expires_at,
         i_accepted_at = None, i_created_at = db_now s\<rparr>], next_id := Suc (next_id s)\<rparr>))"

definition open_pinvite :: "ustr \<Rightarrow> int \<Rightarrow> pinvite_row \<Rightarrow> bool" where
  "open_pinvite token_hash now i \<longleftrightarrow>
     i_token_hash i = token_hash \<and> i_accepted_at i = None \<and> i_expires_at i > now"

definition find_pending :: "ustr \<Rightarrow> ('w world_scheme, PendingForConsume option) db" where
  "find_pending token_hash =
     query (\<lambda>s. case find_row (open_pinvite token_hash (db_now s)) (pinvites s) of
        None \<Rightarrow> None
      | Some r \<Rightarrow> map_option (\<lambda>role. \<lparr>pc_id = i_id r, pc_email = i_email r, pc_role = role\<rparr>)
                    (PlatformInviteRole_parse (i_role r)))"

definition pinvite_exists :: "ustr \<Rightarrow> ('w world_scheme, bool) db" where
  "pinvite_exists token_hash = query (\<lambda>s. any_row (\<lambda>i. i_token_hash i = token_hash) (pinvites s))"

definition accept_row :: "int \<Rightarrow> pinvite_row \<Rightarrow> pinvite_row" where
  "accept_row now i = i\<lparr>i_accepted_at := Some now\<rparr>"

definition mark_accepted :: "ustr \<Rightarrow> ('w world_scheme, bool) db" where
  "mark_accepted token_hash =
     execute (\<lambda>s. affected (open_pinvite token_hash (db_now s)) (pinvites s) > 0)
       (\<lambda>s. s\<lparr>pinvites := update_where (open_pinvite token_hash (db_now s)) (accept_row (db_now s)) (pinvites s)\<rparr>)"

definition list_pending :: "('w world_scheme, pinvite_row list) db" where
  "list_pending =
     query (\<lambda>s. rev (sort_key i_created_at (rev
        (filter (\<lambda>i. i_accepted_at i = None \<and> i_expires_at i > db_now s \<and>
                     PlatformInviteRole_parse (i_role i) \<noteq> None) (pinvites s)))))"

definition pinvite_revoke :: "nat \<Rightarrow> ('w world_scheme, bool) db" where
  "pinvite_revoke iid =
     execute (\<lambda>s. affected (\<lambda>i. i_id i = iid \<and> i_accepted_at i = None) (pinvites s) > 0)
       (\<lambda>s. s\<lparr>pinvites := update_where (\<lambda>i. i_id i = iid \<and> i_accepted_at i = None)
                (accept_row (db_now s)) (pinvites s)\<rparr>)"

section \<open>Personal app tokens\<close>

definition fresh_ptoken :: "nat \<Rightarrow> uid \<Rightarrow> ustr \<Rightarrow> ustr \<Rightarrow> ustr \<Rightarrow> int \<Rightarrow> ptoken_row" where
  "fresh_ptoken i user_id token_hash prefix last4 now =
     \<lparr>pt_id = i, pt_user_id = user_id, pt_token_hash = token_hash, pt_prefix = prefix,
      pt_last4 = last4, pt_disabled_at = None, pt_last_used_at = None, pt_created_at = now\<rparr>"

definition ptoken_create :: "uid \<Rightarrow> ustr \<Rightarrow> ustr \<Rightarrow> ustr \<Rightarrow> ('w world_scheme, ptoken_row option) db" where
  "ptoken_create user_id token_hash prefix last4 = stmt (\<lambda>s.
     if any_row (\<lambda>p. pt_user_id p = user_id) (ptokens s) then (Inr None, s)
     else if any_row (\<lambda>p. pt_token_hash p = token_hash) (ptokens s) then (Inl UniqueViolation, s)
     else if find_user user_id s = None then (Inl ForeignKeyViolation, s)
     else let row = fresh_ptoken (next_id s) user_id token_hash prefix last4 (db_now s)
          in (Inr (Some row), s\<lparr>ptokens := ptokens s @ [row], next_id := Suc (next_id s)\<rparr>))"

definition ptoken_rotate :: "uid \<Rightarrow> ustr \<Rightarrow> ustr \<Rightarrow> ustr \<Rightarrow> ('w world_scheme, ptoken_row option) db" where
  "ptoken_rotate user_id token_hash prefix last4 = stmt (\<lambda>s.
     if any_row (\<lambda>p. pt_token_hash p = token_hash \<and> pt_user_id p \<noteq> user_id) (ptokens s)
     then (Inl UniqueViolation, s)
     else let f = (\<lambda>p. fresh_ptoken (pt_id p) (pt_user_id p) token_hash prefix last4 (db_now s))
          in (Inr (map_option f (find_row (\<lambda>p. pt_user_id p = user_id) (ptokens s))),
              s\<lparr>ptokens := update_where (\<lambda>p. pt_user_id p = user_id) f (ptokens s)\<rparr>))"

definition ptoken_set_disabled :: "uid \<Rightarrow> bool \<Rightarrow> ('w world_scheme, bool) db" where
  "ptoken_set_disabled user_id disabled =
     execute (\<lambda>s. affected (\<lambda>p. pt_user_id p = user_id) (ptokens s) > 0)
       (\<lambda>s. s\<lparr>ptokens := update_where (\<lambda>p. pt_user_id p = user_id)
          (\<lambda>p. p\<lparr>pt_disabled_at := (if disabled then coalesce (pt_disabled_at p) (Some (db_now s)) else None)\<rparr>)
          (ptokens s)\<rparr>)"

definition ptoken_delete :: "uid \<Rightarrow> ('w world_scheme, bool) db" where
  "ptoken_delete user_id =
     execute (\<lambda>s. affected (\<lambda>p. pt_user_id p = user_id) (ptokens s) > 0)
       (\<lambda>s. s\<lparr>ptokens := delete_where (\<lambda>p. pt_user_id p = user_id) (ptokens s)\<rparr>)"

definition ptoken_owner :: "ustr \<Rightarrow> 'w world_scheme \<Rightarrow> (nat \<times> uid) option" where
  "ptoken_owner token_hash s =
     map_option (\<lambda>p. (pt_id p, pt_user_id p))
       (find_row (\<lambda>p. pt_token_hash p = token_hash \<and> pt_disabled_at p = None \<and>
          any_row (\<lambda>u. has_id (pt_user_id p) u \<and> u_is_active u \<and> u_banned_at u = None \<and> live u) (users s))
         (ptokens s))"

definition ptoken_find_active_by_hash :: "ustr \<Rightarrow> ('w world_scheme, (nat \<times> uid) option) db" where
  "ptoken_find_active_by_hash token_hash = query (ptoken_owner token_hash)"

definition ptoken_touch :: "nat \<Rightarrow> ('w world_scheme, unit) db" where
  "ptoken_touch i =
     execute (\<lambda>s. ()) (\<lambda>s. s\<lparr>ptokens := update_where (\<lambda>p. pt_id p = i)
        (\<lambda>p. p\<lparr>pt_last_used_at := Some (db_now s)\<rparr>) (ptokens s)\<rparr>)"

section \<open>What the stores never undo\<close>

definition token_key :: "token_row \<Rightarrow> nat \<times> nat \<times> ustr \<times> int" where
  "token_key t = (t_id t, t_family_id t, t_token_hash t, t_expires_at t)"

definition family_key :: "family_row \<Rightarrow> nat \<times> uid" where
  "family_key f = (f_id f, f_user_id f)"

definition ids_below :: "nat \<Rightarrow> (nat \<times> 'a) set" where
  "ids_below n = {k. fst k < n}"

definition store_ids_ok :: "'w world_scheme \<Rightarrow> bool" where
  "store_ids_ok s \<longleftrightarrow>
     (\<forall>t\<in>set (tokens s). t_id t < next_id s) \<and> (\<forall>f\<in>set (families s). f_id f < next_id s) \<and>
     (\<forall>r\<in>set (recovery s). r_id r < next_id s)"

definition auth_ages :: "'w world_scheme \<Rightarrow> 'w world_scheme \<Rightarrow> bool" where
  "auth_ages s t \<longleftrightarrow>
     (store_ids_ok s \<longrightarrow> store_ids_ok t) \<and>
     ages token_key (\<lambda>r. t_used_at r \<noteq> None) (ids_below (next_id s)) (tokens s)
       (ids_below (next_id t)) (tokens t) \<and>
     ages family_key (\<lambda>r. f_revoked_at r \<noteq> None) (ids_below (next_id s)) (families s)
       (ids_below (next_id t)) (families t) \<and>
     ages r_id (\<lambda>r. r_used_at r \<noteq> None) {..<next_id s} (recovery s) {..<next_id t} (recovery t) \<and>
     ages p_token_hash (\<lambda>r. p_used_at r \<noteq> None) (p_token_hash ` set (resets s)) (resets s)
       (p_token_hash ` set (resets t)) (resets t) \<and>
     ages i_token_hash (\<lambda>r. i_accepted_at r \<noteq> None) (i_token_hash ` set (pinvites s)) (pinvites s)
       (i_token_hash ` set (pinvites t)) (pinvites t)"

lemma ids_below_mono [simp]: "ids_below m \<subseteq> ids_below n" if "m \<le> n"
  using that by (auto simp: ids_below_def)

interpretation auth: evolution auth_ages
proof
  show "auth_ages s s" for s :: "'w world_scheme" by (simp add: auth_ages_def)
  show "auth_ages s t \<Longrightarrow> auth_ages t u \<Longrightarrow> auth_ages s u" for s t u :: "'w world_scheme"
    unfolding auth_ages_def by (elim conjE, intro conjI, blast) (erule (1) ages_trans)+
qed

named_theorems auth_keeps \<open>statements that respect the aging of the credential stores\<close>

lemmas auth_rules = auth.keeps_rules

lemma auth_keeps_stmt:
  fixes f :: "'w world_scheme \<Rightarrow> (DbError + 'a) \<times> 'w world_scheme"
  assumes f: "\<And>s. auth_ages s (snd (f s))"
  shows "keeps auth_ages (stmt f)"
  unfolding keeps_def
proof
  fix s :: "'w world_scheme"
  have tick: "auth_ages s (s\<lparr>calls := n\<rparr>)" for n by (simp add: auth_ages_def store_ids_ok_def)
  moreover have "auth_ages s (snd (f (s\<lparr>calls := n\<rparr>)))" for n
    using auth.R_trans [OF tick f] .
  ultimately show "auth_ages s (snd (run_state (stmt f) s))" by (simp add: run_stmt Let_def)
qed

lemma auth_keeps_execute: "(\<And>s. auth_ages s (f s)) \<Longrightarrow> keeps auth_ages (execute g f)"
  by (simp add: execute_def auth_keeps_stmt)

lemma auth_keeps_plain [auth_keeps]:
  "keeps auth_ages (query g)" "keeps auth_ages pool_get" "keeps auth_ages get_now"
  "keeps auth_ages draw_bytes" "keeps auth_ages (sleep k)"
proof -
  have base: "keeps auth_ages (stmt (\<lambda>s. (Inr (h s), s)))" for h
    by (rule auth_keeps_stmt) (simp add: auth.R_refl)
  then show "keeps auth_ages (query g)" by (simp add: query_def)
  show "keeps auth_ages pool_get"
    unfolding pool_get_def by (intro auth_rules base)
  show "keeps auth_ages get_now" "keeps auth_ages draw_bytes" "keeps auth_ages (sleep k)"
    by (auto simp: keeps_def get_now_def draw_bytes_def sleep_def auth_ages_def store_ids_ok_def)
qed

text \<open>Statements on the tables outside the credential stores.\<close>

lemma auth_ages_other:
  "tokens t = tokens s \<Longrightarrow> families t = families s \<Longrightarrow> recovery t = recovery s \<Longrightarrow>
   resets t = resets s \<Longrightarrow> pinvites t = pinvites s \<Longrightarrow> next_id s \<le> next_id t \<Longrightarrow> auth_ages s t"
  by (auto simp: auth_ages_def store_ids_ok_def intro: less_le_trans)

lemma auth_keeps_users [auth_keeps]:
  "keeps auth_ages (touch_last_seen i)" "keeps auth_ages (stamp_login i)"
  "keeps auth_ages (set_totp_secret i e)" "keeps auth_ages (confirm_totp i)"
  "keeps auth_ages (disable_totp i)" "keeps auth_ages (promote_to_superadmin i)"
  "keeps auth_ages (set_must_change_password i v)" "keeps auth_ages (soft_delete i g)"
  unfolding touch_last_seen_def stamp_login_def set_totp_secret_def confirm_totp_def disable_totp_def
    promote_to_superadmin_def set_must_change_password_def soft_delete_def
  by (rule auth_keeps_execute, rule auth_ages_other; simp add: upd_user_def upd_live_def)+

lemma auth_keeps_lookups [auth_keeps]:
  "keeps auth_ages (find_by_email_with_secret env e)" "keeps auth_ages (find_by_id i)"
  "keeps auth_ages (find_by_id_with_secret i)" "keeps auth_ages (is_active_superadmin i)"
  "keeps auth_ages (find_active_by_identifier env e)" "keeps auth_ages (find_by_identifier_with_secret env e)"
  "keeps auth_ages (is_banned i)" "keeps auth_ages (get_totp i)" "keeps auth_ages (has_active_2fa i)"
  "keeps auth_ages count_active_superadmins"
  unfolding find_by_email_with_secret_def find_by_id_def find_by_id_with_secret_def
    is_active_superadmin_def find_active_by_identifier_def find_by_identifier_with_secret_def
    is_banned_def get_totp_def has_active_2fa_def count_active_superadmins_def
  by (rule auth_keeps_plain)+

lemma auth_keeps_admin [auth_keeps]:
  "keeps auth_ages (set_superadmin i v)" "keeps auth_ages (set_active i v)"
  "keeps auth_ages (set_exclude_from_time_reports i v)" "keeps auth_ages (set_banned i v actor r)"
  "keeps auth_ages (soft_delete_guarded i g)" "keeps auth_ages (insert_user u)"
  unfolding set_superadmin_def set_active_def set_exclude_from_time_reports_def set_banned_def
    soft_delete_guarded_def insert_user_def
  by (rule auth_keeps_stmt, rule auth_ages_other; simp add: upd_user_def Let_def split: option.split)+

lemma auth_keeps_create [auth_keeps]:
  "keeps auth_ages (create_user env new)" "keeps auth_ages (create_with_flags env new sa mc)"
  unfolding create_user_def create_with_flags_def by (rule auth_keeps_admin)+

lemma auth_keeps_ldap [auth_keeps]:
  "keeps auth_ages (free_username h)" "keeps auth_ages (find_or_link_ldap_user env e h n dn sa)"
proof -
  have loop: "keeps auth_ages (free_username_loop b ns)" for b ns
    by (induction ns) (simp_all only: free_username_loop.simps, (intro auth_rules auth_keeps | assumption)+)
  show free: "keeps auth_ages (free_username h)" for h unfolding free_username_def by (rule loop)
  have upd: "keeps auth_ages (execute g (upd_user i f))" for g i f
    by (rule auth_keeps_execute, rule auth_ages_other; simp add: upd_user_def)
  show "keeps auth_ages (find_or_link_ldap_user env e h n dn sa)"
    unfolding find_or_link_ldap_user_def by (intro auth_rules auth_keeps free upd)
qed

text \<open>Statements on the credential stores themselves.\<close>

lemmas age_simps = auth_ages_def store_ids_ok_def set_update_where less_SucI

lemma auth_ages_next: "next_id s \<le> next_id t \<Longrightarrow> tokens t = tokens s \<Longrightarrow> families t = families s \<Longrightarrow>
    ages r_id (\<lambda>r. r_used_at r \<noteq> None) {..<next_id s} (recovery s) {..<next_id t} (recovery t) \<Longrightarrow>
    (store_ids_ok s \<Longrightarrow> \<forall>r\<in>set (recovery t). r_id r < next_id t) \<Longrightarrow>
    resets t = resets s \<Longrightarrow> pinvites t = pinvites s \<Longrightarrow> auth_ages s t"
  by (auto simp: auth_ages_def store_ids_ok_def intro: less_le_trans)

lemma update_same_keys:
  "(\<And>r. key (f r) = key r) \<Longrightarrow> key ` set (update_where P f rows) = key ` set rows"
  using map_update_where [of P key f rows] by (metis (no_types) list.set_map)

lemma auth_keeps_families [auth_keeps]:
  "keeps auth_ages (create_family i a ip)" "keeps auth_ages (revoke_family fid r)"
  "keeps auth_ages (revoke_all_for_user_counted i r)" "keeps auth_ages (touch_family fid ip c y)"
  "keeps auth_ages purge_locations"
proof -
  have upd: "auth_ages s (s\<lparr>families := update_where P f (families s)\<rparr>)"
    if "\<And>r. family_key (f r) = family_key r" "\<And>r. P r \<Longrightarrow> f_revoked_at r \<noteq> None \<Longrightarrow> f_revoked_at (f r) \<noteq> None"
    for s :: "'w world_scheme" and P f
    using that by (auto simp: age_simps family_key_def intro!: ages_update)
  have rev: "auth_ages s (revoke_where P reason s)" for s :: "'w world_scheme" and P reason
    unfolding revoke_where_def by (rule upd) (simp_all add: family_key_def)
  show "keeps auth_ages (create_family i a ip)"
    unfolding create_family_def
    by (rule auth_keeps_stmt) (auto simp: age_simps ids_below_def family_key_def intro!: ages_snoc ages_refl)
  show "keeps auth_ages (revoke_family fid r)" "keeps auth_ages (revoke_all_for_user_counted i r)"
    unfolding revoke_family_def revoke_all_for_user_counted_def
    by (intro auth_rules auth_keeps_execute rev)+
  show "keeps auth_ages (touch_family fid ip c y)" "keeps auth_ages purge_locations"
    unfolding touch_family_def purge_locations_def
    by (intro auth_rules auth_keeps_execute upd; simp add: family_key_def)+
qed

lemma auth_keeps_location [auth_keeps]: "keeps auth_ages (set_family_location fid c y)"
proof -
  have "auth_ages s (s\<lparr>families := update_where P (\<lambda>f. f\<lparr>f_country_code := c, f_city := y\<rparr>) (families s)\<rparr>)"
    for s :: "'w world_scheme" and P
    by (auto simp: age_simps family_key_def intro!: ages_update)
  then show ?thesis unfolding set_family_location_def by (intro auth_rules auth_keeps_execute)
qed

lemma auth_keeps_revoke_all [auth_keeps]: "keeps auth_ages (revoke_all_for_user i r)"
  unfolding revoke_all_for_user_def by (intro auth_rules auth_keeps)

lemma auth_keeps_tokens [auth_keeps]:
  "keeps auth_ages (insert_token fid h p e)" "keeps auth_ages (mark_used tid)" "keeps auth_ages (find_by_hash h)"
proof -
  show "keeps auth_ages (insert_token fid h p e)"
    unfolding insert_token_def
    by (rule auth_keeps_stmt) (auto simp: age_simps ids_below_def token_key_def intro!: ages_snoc ages_refl)
  show "keeps auth_ages (mark_used tid)"
    unfolding mark_used_def
    by (rule auth_keeps_execute) (auto simp: age_simps token_key_def intro!: ages_update)
  show "keeps auth_ages (find_by_hash h)" unfolding find_by_hash_def by (rule auth_keeps_plain)
qed

lemma auth_keeps_recovery [auth_keeps]:
  "keeps auth_ages (replace_all i hs)" "keeps auth_ages (recovery_mark_used k)"
  "keeps auth_ages (delete_all_for_user i)" "keeps auth_ages (list_unused i)" "keeps auth_ages (count_unused i)"
proof -
  show "keeps auth_ages (replace_all i hs)"
    unfolding replace_all_def
    by (rule auth_keeps_execute, rule auth_ages_next)
       (auto simp: ages_def delete_where_def in_set_enumerate_eq store_ids_ok_def less_SucI trans_less_add1)
  show "keeps auth_ages (recovery_mark_used k)"
    unfolding recovery_mark_used_def
    by (rule auth_keeps_execute, rule auth_ages_next)
       (auto simp: store_ids_ok_def set_update_where intro!: ages_update)
  show "keeps auth_ages (delete_all_for_user i)"
    unfolding delete_all_for_user_def
    by (rule auth_keeps_execute, rule auth_ages_next)
       (auto simp: store_ids_ok_def set_delete_where intro!: ages_delete)
  show "keeps auth_ages (list_unused i)" "keeps auth_ages (count_unused i)"
    unfolding list_unused_def count_unused_def by (rule auth_keeps_plain)+
qed

lemma auth_keeps_resets [auth_keeps]:
  "keeps auth_ages (reset_create i h e)" "keeps auth_ages (consume h)"
proof -
  show "keeps auth_ages (reset_create i h e)"
    unfolding reset_create_def
    by (rule auth_keeps_stmt)
       (auto simp: age_simps any_row_iff intro!: ages_snoc ages_refl)
  show "keeps auth_ages (consume h)"
    unfolding consume_def
    by (rule auth_keeps_execute) (auto simp: auth_ages_def store_ids_ok_def update_same_keys intro!: ages_update)
qed

lemma auth_keeps_pinvites [auth_keeps]:
  "keeps auth_ages (pinvite_create env e r h b x)" "keeps auth_ages (mark_accepted h)"
  "keeps auth_ages (pinvite_revoke iid)" "keeps auth_ages (find_pending h)"
  "keeps auth_ages (pinvite_exists h)" "keeps auth_ages list_pending"
proof -
  show "keeps auth_ages (pinvite_create env e r h b x)"
    unfolding pinvite_create_def
    by (rule auth_keeps_stmt)
       (auto simp: age_simps any_row_iff intro!: ages_snoc ages_refl)
  show "keeps auth_ages (mark_accepted h)" "keeps auth_ages (pinvite_revoke iid)"
    unfolding mark_accepted_def pinvite_revoke_def
    by (rule auth_keeps_execute, simp add: auth_ages_def store_ids_ok_def update_same_keys ages_update accept_row_def)+
  show "keeps auth_ages (find_pending h)" "keeps auth_ages (pinvite_exists h)" "keeps auth_ages list_pending"
    unfolding find_pending_def pinvite_exists_def list_pending_def by (rule auth_keeps_plain)+
qed

lemma auth_keeps_misc [auth_keeps]:
  "keeps auth_ages (audit_record a act oip ua m)" "keeps auth_ages (count_for_actor_actions i acts)"
  "keeps auth_ages (attempt_record h ip ok)" "keeps auth_ages (recent_failures h ip since)"
  "keeps auth_ages (ptoken_find_active_by_hash h)" "keeps auth_ages (ptoken_touch k)"
proof -
  show "keeps auth_ages (audit_record a act oip ua m)"
    unfolding audit_record_def
    by (intro auth_rules auth_keeps_stmt) (simp add: auth_ages_other)
  show "keeps auth_ages (attempt_record h ip ok)" "keeps auth_ages (ptoken_touch k)"
    unfolding attempt_record_def ptoken_touch_def
    by (intro auth_rules auth_keeps_execute auth_ages_other; simp)+
  show "keeps auth_ages (count_for_actor_actions i acts)" "keeps auth_ages (recent_failures h ip since)"
    "keeps auth_ages (ptoken_find_active_by_hash h)"
    unfolding count_for_actor_actions_def recent_failures_def ptoken_find_active_by_hash_def
    by (rule auth_keeps_plain)+
qed

section \<open>Single use of every credential\<close>

definition take_of :: "('k \<Rightarrow> ('s, bool) db) \<Rightarrow> 'k \<Rightarrow> 's \<Rightarrow> bool \<times> 's" where
  "take_of operation k s = (case run_state (operation k) s of (r, t) \<Rightarrow> (r = Inr True, t))"

definition consume_ok :: "ustr \<Rightarrow> ('w world_scheme, bool) db" where
  "consume_ok h = do { r \<leftarrow> consume h;
     State_Monad.return (case r of Inl e \<Rightarrow> Inl e | Inr u \<Rightarrow> Inr (u \<noteq> None)) }"

definition token_spent :: "nat \<Rightarrow> 'w world_scheme \<Rightarrow> bool" where
  "token_spent k s \<longleftrightarrow> k < next_id s \<and> (\<forall>t\<in>set (tokens s). t_id t = k \<longrightarrow> t_used_at t \<noteq> None)"

definition code_spent :: "nat \<Rightarrow> 'w world_scheme \<Rightarrow> bool" where
  "code_spent k s \<longleftrightarrow> k < next_id s \<and> (\<forall>r\<in>set (recovery s). r_id r = k \<longrightarrow> r_used_at r \<noteq> None)"

definition reset_spent :: "ustr \<Rightarrow> 'w world_scheme \<Rightarrow> bool" where
  "reset_spent h s \<longleftrightarrow>
     spent_key p_token_hash (\<lambda>p. p_used_at p \<noteq> None) (p_token_hash ` set (resets s)) (resets s) h"

definition invite_spent :: "ustr \<Rightarrow> 'w world_scheme \<Rightarrow> bool" where
  "invite_spent h s \<longleftrightarrow>
     spent_key i_token_hash (\<lambda>i. i_accepted_at i \<noteq> None) (i_token_hash ` set (pinvites s)) (pinvites s) h"

lemma take_evolves_keeps: "keeps R (operation k) \<Longrightarrow> R s (snd (take_of operation k s))"
  by (simp add: keeps_def take_of_def case_prod_beta)

lemma take_of_execute:
  "take_of (\<lambda>k. execute (g k) (f k)) k s = (True, t) \<longleftrightarrow>
     \<not> faults s (calls s) \<and> g k (s\<lparr>calls := Suc (calls s)\<rparr>) \<and> f k (s\<lparr>calls := Suc (calls s)\<rparr>) = t"
  by (auto simp: take_of_def execute_def run_stmt Let_def split: if_splits)

lemma affected_pos: "affected P rows > 0 \<longleftrightarrow> (\<exists>r\<in>set rows. P r)"
  by (simp add: affected_def count_where_pos)

lemma spent_after_update:
  assumes "\<And>r. r \<in> set rows \<Longrightarrow> \<not> P r \<Longrightarrow> key r = k \<Longrightarrow> used r" and "\<And>r. P r \<Longrightarrow> used (f r)"
  shows "\<forall>r\<in>set (update_where P f rows). key r = k \<longrightarrow> used r"
  using assms by (auto simp: update_where_def)

lemma token_spent_stays:
  assumes "auth_ages s t" and "token_spent k s"
  shows "token_spent k t"
  unfolding token_spent_def
proof (intro conjI ballI impI)
  have ages: "ages token_key (\<lambda>r. t_used_at r \<noteq> None) (ids_below (next_id s)) (tokens s)
      (ids_below (next_id t)) (tokens t)"
    and r_ages: "ages r_id (\<lambda>r. r_used_at r \<noteq> None) {..<next_id s} (recovery s) {..<next_id t} (recovery t)"
    using assms(1) by (simp_all add: auth_ages_def)
  have "next_id s \<le> next_id t" using r_ages by (simp add: ages_def)
  then show "k < next_id t" using assms(2) by (auto simp: token_spent_def)
  fix r
  assume "r \<in> set (tokens t)" and "t_id r = k"
  moreover have "token_key r \<in> ids_below (next_id s)"
    using calculation assms(2) by (simp add: token_key_def ids_below_def token_spent_def)
  ultimately obtain q where "q \<in> set (tokens s)" "token_key q = token_key r"
      "t_used_at q \<noteq> None \<longrightarrow> t_used_at r \<noteq> None"
    using ages unfolding ages_def by blast
  then show "t_used_at r \<noteq> None"
    using assms(2) \<open>t_id r = k\<close> by (simp add: token_spent_def token_key_def)
qed

lemma code_spent_stays:
  assumes "auth_ages s t" and "code_spent k s"
  shows "code_spent k t"
proof -
  have r_ages: "ages r_id (\<lambda>r. r_used_at r \<noteq> None) {..<next_id s} (recovery s) {..<next_id t} (recovery t)"
    using assms(1) by (simp add: auth_ages_def)
  moreover have "spent_key r_id (\<lambda>r. r_used_at r \<noteq> None) {..<next_id s} (recovery s) k"
    using assms(2) by (simp add: code_spent_def spent_key_def)
  ultimately show ?thesis using ages_spent by (fastforce simp: code_spent_def spent_key_def)
qed

lemma valid_ages: "auth_ages s t \<Longrightarrow> store_ids_ok s \<Longrightarrow> store_ids_ok t"
  by (simp add: auth_ages_def)

interpretation refresh_once: single_use store_ids_ok "take_of mark_used" token_spent auth_ages
proof
  fix k and s t :: "'w world_scheme"
  assume "take_of mark_used k s = (True, t)"
  then have some: "\<exists>r\<in>set (tokens s). unused_token k r"
    and t: "t = s\<lparr>calls := Suc (calls s), tokens := update_where (unused_token k)
      (\<lambda>t. t\<lparr>t_used_at := Some (db_now s)\<rparr>) (tokens s)\<rparr>"
    unfolding mark_used_def take_of_execute by (auto simp: affected_pos)
  from some show "\<not> token_spent k s" by (auto simp: token_spent_def unused_token_def)
  assume "store_ids_ok s"
  with some have "k < next_id s" by (auto simp: store_ids_ok_def unused_token_def)
  moreover have "tokens t = update_where (unused_token k) (\<lambda>t. t\<lparr>t_used_at := Some (db_now s)\<rparr>) (tokens s)"
    "next_id t = next_id s" unfolding t by simp_all
  moreover have "\<forall>t\<in>set (update_where (unused_token k) (\<lambda>t. t\<lparr>t_used_at := Some (db_now s)\<rparr>) (tokens s)).
      t_id t = k \<longrightarrow> t_used_at t \<noteq> None"
    by (rule spent_after_update) (simp_all add: unused_token_def)
  ultimately show "token_spent k t" unfolding token_spent_def by simp
next
  show "auth_ages s (snd (take_of mark_used k s))" for k and s :: "'w world_scheme"
    by (rule take_evolves_keeps) (rule auth_keeps_tokens)
  show "auth_ages s t \<Longrightarrow> token_spent k s \<Longrightarrow> token_spent k t" for k and s t :: "'w world_scheme"
    by (rule token_spent_stays)
  show "auth_ages s t \<Longrightarrow> store_ids_ok s \<Longrightarrow> store_ids_ok t" for s t :: "'w world_scheme"
    by (rule valid_ages)
qed

interpretation recovery_once: single_use store_ids_ok "take_of recovery_mark_used" code_spent auth_ages
proof
  fix k and s t :: "'w world_scheme"
  assume "take_of recovery_mark_used k s = (True, t)"
  then have some: "\<exists>r\<in>set (recovery s). unused_code k r"
    and t: "t = s\<lparr>calls := Suc (calls s), recovery := update_where (unused_code k)
      (\<lambda>r. r\<lparr>r_used_at := Some (db_now s)\<rparr>) (recovery s)\<rparr>"
    unfolding recovery_mark_used_def take_of_execute by (auto simp: affected_pos)
  from some show "\<not> code_spent k s" by (auto simp: code_spent_def unused_code_def)
  assume "store_ids_ok s"
  with some have "k < next_id s" by (auto simp: store_ids_ok_def unused_code_def)
  moreover have "recovery t = update_where (unused_code k) (\<lambda>r. r\<lparr>r_used_at := Some (db_now s)\<rparr>) (recovery s)"
    "next_id t = next_id s" unfolding t by simp_all
  moreover have "\<forall>r\<in>set (update_where (unused_code k) (\<lambda>r. r\<lparr>r_used_at := Some (db_now s)\<rparr>) (recovery s)).
      r_id r = k \<longrightarrow> r_used_at r \<noteq> None"
    by (rule spent_after_update) (simp_all add: unused_code_def)
  ultimately show "code_spent k t" unfolding code_spent_def by simp
next
  show "auth_ages s (snd (take_of recovery_mark_used k s))" for k and s :: "'w world_scheme"
    by (rule take_evolves_keeps) (rule auth_keeps_recovery)
  show "auth_ages s t \<Longrightarrow> code_spent k s \<Longrightarrow> code_spent k t" for k and s t :: "'w world_scheme"
    by (rule code_spent_stays)
  show "auth_ages s t \<Longrightarrow> store_ids_ok s \<Longrightarrow> store_ids_ok t" for s t :: "'w world_scheme"
    by (rule valid_ages)
qed

lemma auth_keeps_consume_ok [auth_keeps]: "keeps auth_ages (consume_ok h)"
  unfolding consume_ok_def by (intro auth_rules auth_keeps)

text \<open>The hash columns are unique, so a spent hash has no open row.\<close>

interpretation reset_once: single_use "\<lambda>s. keyed p_token_hash (resets s)" "take_of consume_ok" reset_spent
  "\<lambda>s t. auth_ages s t \<and> (keyed p_token_hash (resets s) \<longrightarrow> keyed p_token_hash (resets t))"
proof
  fix h and s t :: "'w world_scheme"
  assume "take_of consume_ok h s = (True, t)"
  then have some: "\<exists>r\<in>set (resets s). open_reset h (db_now s) r"
    and t: "t = s\<lparr>calls := Suc (calls s), resets := update_where (open_reset h (db_now s))
      (\<lambda>p. p\<lparr>p_used_at := Some (db_now s)\<rparr>) (resets s)\<rparr>"
    by (auto simp: consume_ok_def take_of_def consume_def execute_def run_stmt Let_def
        split: if_splits dest: find_row_Some)
  from some show "\<not> reset_spent h s" by (auto simp: reset_spent_def spent_key_def open_reset_def)
  assume keyed: "keyed p_token_hash (resets s)"
  obtain r where r: "r \<in> set (resets s)" "open_reset h (db_now s) r" using some by blast
  have only: "q = r" if "q \<in> set (resets s)" "p_token_hash q = h" for q
    using keyed_unique [OF keyed that(1) r(1)] r(2) that(2) by (simp add: open_reset_def)
  have upd: "resets t = update_where (open_reset h (db_now s)) (\<lambda>p. p\<lparr>p_used_at := Some (db_now s)\<rparr>) (resets s)"
    unfolding t by simp
  have "h \<in> p_token_hash ` set (resets t)"
    unfolding upd using r by (subst update_same_keys) (auto simp: open_reset_def)
  moreover have "\<forall>p\<in>set (resets t). p_token_hash p = h \<longrightarrow> p_used_at p \<noteq> None"
    unfolding upd by (rule spent_after_update) (use only r(2) in auto)
  ultimately show "reset_spent h t" by (simp add: reset_spent_def spent_key_def)
next
  fix h and s :: "'w world_scheme"
  show "auth_ages s (snd (take_of consume_ok h s)) \<and> (keyed p_token_hash (resets s) \<longrightarrow>
      keyed p_token_hash (resets (snd (take_of consume_ok h s))))"
  proof
    show "auth_ages s (snd (take_of consume_ok h s))"
      by (rule take_evolves_keeps) (rule auth_keeps_consume_ok)
    show "keyed p_token_hash (resets s) \<longrightarrow> keyed p_token_hash (resets (snd (take_of consume_ok h s)))"
      by (simp add: take_of_def consume_ok_def consume_def execute_def run_stmt Let_def keyed_update_where)
  qed
next
  fix h and s t :: "'w world_scheme"
  assume "auth_ages s t \<and> (keyed p_token_hash (resets s) \<longrightarrow> keyed p_token_hash (resets t))"
    and "reset_spent h s"
  then show "reset_spent h t" by (auto simp: auth_ages_def reset_spent_def intro: ages_spent)
qed auto

interpretation invite_once: single_use "\<lambda>s. keyed i_token_hash (pinvites s)" "take_of mark_accepted"
  invite_spent "\<lambda>s t. auth_ages s t \<and> (keyed i_token_hash (pinvites s) \<longrightarrow> keyed i_token_hash (pinvites t))"
proof
  fix h and s t :: "'w world_scheme"
  assume "take_of mark_accepted h s = (True, t)"
  then have some: "\<exists>r\<in>set (pinvites s). open_pinvite h (db_now s) r"
    and t: "t = s\<lparr>calls := Suc (calls s), pinvites := update_where (open_pinvite h (db_now s))
      (accept_row (db_now s)) (pinvites s)\<rparr>"
    unfolding mark_accepted_def take_of_execute by (auto simp: affected_pos)
  from some show "\<not> invite_spent h s" by (auto simp: invite_spent_def spent_key_def open_pinvite_def)
  assume keyed: "keyed i_token_hash (pinvites s)"
  obtain r where r: "r \<in> set (pinvites s)" "open_pinvite h (db_now s) r" using some by blast
  have only: "q = r" if "q \<in> set (pinvites s)" "i_token_hash q = h" for q
    using keyed_unique [OF keyed that(1) r(1)] r(2) that(2) by (simp add: open_pinvite_def)
  have upd: "pinvites t = update_where (open_pinvite h (db_now s)) (accept_row (db_now s)) (pinvites s)"
    unfolding t by simp
  have "h \<in> i_token_hash ` set (pinvites t)"
    unfolding upd using r by (subst update_same_keys) (auto simp: open_pinvite_def accept_row_def)
  moreover have "\<forall>i\<in>set (pinvites t). i_token_hash i = h \<longrightarrow> i_accepted_at i \<noteq> None"
    unfolding upd by (rule spent_after_update) (use only r(2) in \<open>auto simp: accept_row_def\<close>)
  ultimately show "invite_spent h t" by (simp add: invite_spent_def spent_key_def)
next
  fix h and s :: "'w world_scheme"
  show "auth_ages s (snd (take_of mark_accepted h s)) \<and> (keyed i_token_hash (pinvites s) \<longrightarrow>
      keyed i_token_hash (pinvites (snd (take_of mark_accepted h s))))"
  proof
    show "auth_ages s (snd (take_of mark_accepted h s))"
      by (rule take_evolves_keeps) (rule auth_keeps_pinvites)
    show "keyed i_token_hash (pinvites s) \<longrightarrow> keyed i_token_hash (pinvites (snd (take_of mark_accepted h s)))"
      by (simp add: take_of_def mark_accepted_def execute_def run_stmt Let_def keyed_update_where accept_row_def)
  qed
next
  fix h and s t :: "'w world_scheme"
  assume "auth_ages s t \<and> (keyed i_token_hash (pinvites s) \<longrightarrow> keyed i_token_hash (pinvites t))"
    and "invite_spent h s"
  then show "invite_spent h t" by (auto simp: auth_ages_def invite_spent_def intro: ages_spent)
qed auto

section \<open>Properties\<close>

text \<open>
  C34: A refresh token is rotated at most once and a recovery code accepted at most once, however the
  statements of concurrent requests interleave: in any history in which claims of tokens alternate
  with arbitrary other statements of the program, no token is claimed twice, and one that was
  already spent at the start is never claimed.
\<close>

theorem tokens_and_codes_single_use:
  assumes "store_ids_ok s"
  shows "(history (take_of mark_used) auth_ages s ks t \<longrightarrow>
            distinct ks \<and> (\<forall>k. token_spent k s \<longrightarrow> k \<notin> set ks)) \<and>
         (history (take_of recovery_mark_used) auth_ages s cs u \<longrightarrow>
            distinct cs \<and> (\<forall>k. code_spent k s \<longrightarrow> k \<notin> set cs))"
  using refresh_once.at_most_once [OF _ assms] refresh_once.spent_never_taken [OF _ assms]
    recovery_once.at_most_once [OF _ assms] recovery_once.spent_never_taken [OF _ assms] by blast

definition demo_token :: "nat \<Rightarrow> nat \<Rightarrow> ustr \<Rightarrow> token_row" where
  "demo_token i fid h =
     \<lparr>t_id = i, t_family_id = fid, t_token_hash = h, t_parent_id = None, t_expires_at = 5000,
      t_used_at = None\<rparr>"

lemma tokens_and_codes_single_use_witness:
  "\<exists>t. history (take_of mark_used) auth_ages (empty_world\<lparr>tokens := [demo_token 1 9 [7]]\<rparr>) [1] t \<and>
       fst (take_of mark_used 1 t) = False"
proof -
  let ?s = "empty_world\<lparr>tokens := [demo_token 1 9 [7]]\<rparr>"
  have ok: "store_ids_ok ?s" by (simp add: store_ids_ok_def empty_world_def demo_token_def)
  let ?t = "snd (take_of mark_used 1 ?s)"
  have "take_of mark_used 1 ?s = (True, ?t)"
    by (simp add: take_of_def mark_used_def execute_def run_stmt Let_def empty_world_def demo_token_def
        affected_pos unused_token_def)
  then have hist: "history (take_of mark_used) auth_ages ?s ([] @ [1]) ?t"
    by (rule history_take [OF history_start])
  have "fst (take_of mark_used 1 ?t) = False"
  proof (rule ccontr)
    assume "fst (take_of mark_used 1 ?t) \<noteq> False"
    then have "take_of mark_used 1 ?t = (True, snd (take_of mark_used 1 ?t))" by (simp add: prod_eq_iff)
    with hist have "history (take_of mark_used) auth_ages ?s (([] @ [1]) @ [1]) (snd (take_of mark_used 1 ?t))"
      by (rule history_take)
    with tokens_and_codes_single_use [OF ok] have "distinct (([] @ [1]) @ [1 :: nat])" by blast
    then show False by simp
  qed
  with hist show ?thesis by auto
qed

text \<open>
  C35: Reset tokens and platform invitations are consumed at most once as well, under the uniqueness of
  their stored digests, and a used or expired reset token is refused.
\<close>

theorem resets_and_invites_single_use:
  assumes "keyed p_token_hash (resets s)" and "keyed i_token_hash (pinvites s)"
  shows "(history (take_of consume_ok)
            (\<lambda>s t. auth_ages s t \<and> (keyed p_token_hash (resets s) \<longrightarrow> keyed p_token_hash (resets t))) s ks t \<longrightarrow>
            distinct ks) \<and>
         (history (take_of mark_accepted)
            (\<lambda>s t. auth_ages s t \<and> (keyed i_token_hash (pinvites s) \<longrightarrow> keyed i_token_hash (pinvites t))) s hs u \<longrightarrow>
            distinct hs) \<and>
         (\<forall>p\<in>set (resets s). p_used_at p \<noteq> None \<or> p_expires_at p \<le> db_now s \<longrightarrow>
            fst (take_of consume_ok (p_token_hash p) s) = False)"
proof -
  have "fst (take_of consume_ok (p_token_hash p) s) = False"
    if p: "p \<in> set (resets s)" and closed: "p_used_at p \<noteq> None \<or> p_expires_at p \<le> db_now s" for p
  proof -
    have "\<not> open_reset (p_token_hash p) (db_now s) q" if "q \<in> set (resets s)" for q
      using keyed_unique [OF assms(1) that p] closed by (auto simp: open_reset_def)
    then have "find_row (open_reset (p_token_hash p) (db_now s)) (resets s) = None"
      by (simp add: find_row_None)
    then show ?thesis
      by (simp add: take_of_def consume_ok_def consume_def execute_def run_stmt Let_def)
  qed
  then show ?thesis
    using reset_once.at_most_once [OF _ assms(1)] invite_once.at_most_once [OF _ assms(2)] by blast
qed

lemma resets_and_invites_single_use_witness:
  "fst (take_of consume_ok [7] (empty_world\<lparr>resets := [\<lparr>p_id = 1, p_user_id = 2, p_token_hash = [7],
     p_expires_at = 1000, p_used_at = None\<rparr>]\<rparr>)) = False"
  using resets_and_invites_single_use [of "empty_world\<lparr>resets := [\<lparr>p_id = 1, p_user_id = 2,
     p_token_hash = [7], p_expires_at = 1000, p_used_at = None\<rparr>]\<rparr>"]
  by (simp add: keyed_def empty_world_def)

end
