(* ===== verification/Login.thy ===== *)
theory Login
  imports Sessions
begin

text \<open>
  Signing in (\<open>crates/api/src/auth/handlers.rs\<close>): the response helpers, registration, the login
  handler with its directory and password branches, and the creation of a session that every way of
  signing in shares. A handler maps the request and the database to a response and a database; an
  early return is a branch.

  A response keeps its status, its payload and what it does to the refresh cookie. Problem titles,
  the request id and log lines are left out. The lockout delay moves both clocks on.
\<close>

section \<open>Requests and responses\<close>

datatype body =
    NoBody
  | ProblemBody ustr "ustr option"
  | TokenBody ustr "ustr option"
  | MfaBody ustr
  | UserBody user_row
  | ResetBody "ustr option"
  | CodesBody "ustr list"
  | SecretBody "byte list"
  | ErasureBody int

datatype cookie = KeepCookie | SetCookie ustr | ClearCookie

record response =
  rs_status :: nat
  rs_body :: body
  rs_cookie :: cookie

definition problem :: "nat \<Rightarrow> ustr \<Rightarrow> ustr option \<Rightarrow> response" where
  "problem status code detail =
     \<lparr>rs_status = status, rs_body = ProblemBody code detail, rs_cookie = KeepCookie\<rparr>"

definition internal :: response where
  "internal = problem 500 (lit ''internal_error'') None"

definition validation_problem :: response where
  "validation_problem = problem 422 (lit ''validation_failed'') None"

definition ok_body :: "nat \<Rightarrow> body \<Rightarrow> response" where
  "ok_body status b = \<lparr>rs_status = status, rs_body = b, rs_cookie = KeepCookie\<rparr>"

datatype 'a json_body = Json 'a | MissingJsonContentType | MalformedJson

definition parse_json :: "'a json_body \<Rightarrow> response + 'a" where
  "parse_json b =
     (case b of
        Json v \<Rightarrow> Inr v
      | MissingJsonContentType \<Rightarrow>
          Inl (problem 415 (lit ''unsupported_media_type'') (Some (lit ''expected application/json'')))
      | MalformedJson \<Rightarrow> Inl (problem 400 (lit ''invalid_body'') (Some (lit ''could not parse JSON''))))"

record RegisterRequest =
  rr_email :: ustr
  rr_username :: ustr
  rr_password :: ustr
  rr_full_name :: ustr
  rr_invitation_token :: "ustr option"

record LoginRequest =
  lr_email :: ustr
  lr_password :: ustr

text \<open>The declared field checks; a length counts bytes.\<close>

definition valid_register :: "env \<Rightarrow> RegisterRequest \<Rightarrow> bool" where
  "valid_register env r \<longleftrightarrow>
     e_email_ok env (rr_email r) \<and> byte_len (rr_email r) \<le> 254 \<and>
     3 \<le> byte_len (rr_username r) \<and> byte_len (rr_username r) \<le> 64 \<and>
     list_all (\<lambda>c. is_ascii_alnum c \<or> c = 95 \<or> c = 46 \<or> c = 45) (rr_username r) \<and>
     1 \<le> byte_len (rr_password r) \<and> byte_len (rr_password r) \<le> 1024 \<and>
     byte_len (rr_full_name r) \<le> 256"

definition valid_login :: "LoginRequest \<Rightarrow> bool" where
  "valid_login r \<longleftrightarrow>
     1 \<le> byte_len (lr_email r) \<and> byte_len (lr_email r) \<le> 254 \<and>
     1 \<le> byte_len (lr_password r) \<and> byte_len (lr_password r) \<le> 1024"

definition REFRESH_IN_BODY_HEADER :: ustr where
  "REFRESH_IN_BODY_HEADER = lit ''x-intellipilot-refresh-in-body''"

text \<open>
  The refresh token of a request: the cookie, else a non-blank body field (a body that does not
  parse is no body). The flag says that it came from the body.
\<close>

definition refresh_token_from :: "ustr option \<Rightarrow> ustr option \<Rightarrow> (ustr \<times> bool) option" where
  "refresh_token_from cookie_value body_token =
     (case cookie_value of
        Some c \<Rightarrow> Some (c, False)
      | None \<Rightarrow>
          (case map_option trim body_token of
             None \<Rightarrow> None
           | Some t \<Rightarrow> if t = [] then None else Some (t, True)))"

definition should_echo_refresh :: "env \<Rightarrow> bool \<Rightarrow> HeaderMap \<Rightarrow> bool" where
  "should_echo_refresh env by_body headers \<longleftrightarrow>
     by_body \<or> e_is_dev env \<or>
     (case header_str headers REFRESH_IN_BODY_HEADER of
        None \<Rightarrow> False
      | Some v \<Rightarrow> v = lit ''1'' \<or> map ascii_lower v = lit ''true'')"

definition req_ip :: "env \<Rightarrow> HeaderMap \<Rightarrow> ip" where
  "req_ip env headers = client_ip (e_parse_ip env) (e_unknown_ip env) headers"

text \<open>An audit entry with the request's address and agent.\<close>

definition audit :: "env \<Rightarrow> HeaderMap \<Rightarrow> uid option \<Rightarrow> ustr \<Rightarrow> (ustr \<times> ustr) list \<Rightarrow> ('w world_scheme, unit) state" where
  "audit env headers actor action metadata =
     audit_record actor action (Some (req_ip env headers)) (Some (user_agent headers)) metadata"

section \<open>Creating a session\<close>

definition str_contains :: "ustr \<Rightarrow> ustr \<Rightarrow> bool" where
  "str_contains pat s \<longleftrightarrow> list_ex (\<lambda>k. starts_with pat (drop k s)) [0..<Suc (length s)]"

definition FIRST_LOGIN_ACTIONS :: "ustr list" where
  "FIRST_LOGIN_ACTIONS = [lit ''login_success'', lit ''login_success_ldap'', lit ''login_success_oidc'']"

definition via_of :: "ustr \<Rightarrow> ustr" where
  "via_of action =
     (if str_contains (lit ''ldap'') action then lit ''ldap''
      else if str_contains (lit ''oidc'') action then lit ''oidc''
      else lit ''password'')"

definition new_access_token :: "env \<Rightarrow> uid \<Rightarrow> int \<Rightarrow> TokenError + ustr" where
  "new_access_token env user_id now =
     issue_access_token (e_seal env) (e_uuid_str env) now (e_key env) user_id ACCESS_TTL_SECS"

definition establish_session ::
    "env \<Rightarrow> HeaderMap \<Rightarrow> uid \<Rightarrow> ustr \<Rightarrow> ('w world_scheme, response + (cookie \<times> body)) state" where
  "establish_session env headers user_id action = do {
     family \<leftarrow> create_family user_id (user_agent headers) (Some (req_ip env headers));
     case family of
       Inl _ \<Rightarrow> State_Monad.return (Inl internal)
     | Inr family_id \<Rightarrow> do {
         _ \<leftarrow> (case e_geoip env (req_ip env headers) of
                None \<Rightarrow> State_Monad.return ()
              | Some (country, city) \<Rightarrow> set_family_location family_id country city);
         bytes \<leftarrow> draw_bytes;
         now \<leftarrow> get_now;
         inserted \<leftarrow> insert_token family_id (rt_hash (generate (e_sha256 env) bytes)) None
                       (now + REFRESH_TTL_SECS);
         case inserted of
           Inl _ \<Rightarrow> State_Monad.return (Inl internal)
         | Inr _ \<Rightarrow>
             (case new_access_token env user_id now of
                Inl _ \<Rightarrow> State_Monad.return (Inl internal)
              | Inr access \<Rightarrow> do {
                  logins \<leftarrow> count_for_actor_actions user_id FIRST_LOGIN_ACTIONS;
                  _ \<leftarrow> audit env headers (Some user_id) action [(lit ''via'', via_of action)];
                  _ \<leftarrow> (if ok_or logins 1 = 0
                        then audit env headers (Some user_id) (lit ''login_first'')
                               [(lit ''via'', via_of action)]
                        else State_Monad.return ());
                  _ \<leftarrow> ignore (stamp_login user_id);
                  let raw = rt_raw (generate (e_sha256 env) bytes);
                  State_Monad.return (Inr (SetCookie raw,
                    TokenBody access (if should_echo_refresh env False headers then Some raw else None)))
                })
       }
   }"

definition issue_session :: "env \<Rightarrow> HeaderMap \<Rightarrow> uid \<Rightarrow> ustr \<Rightarrow> ('w world_scheme, response) state" where
  "issue_session env headers user_id action = do {
     r \<leftarrow> establish_session env headers user_id action;
     State_Monad.return (case r of
         Inr (ck, b) \<Rightarrow> \<lparr>rs_status = 200, rs_body = b, rs_cookie = ck\<rparr>
       | Inl resp \<Rightarrow> resp)
   }"

section \<open>Login\<close>

definition FAILURE_WINDOW_SECS :: int where "FAILURE_WINDOW_SECS = 60 * 60"

definition bad_credentials :: response where
  "bad_credentials = problem 401 (lit ''invalid_credentials'') (Some (lit ''invalid email or password''))"

definition account_banned :: response where
  "account_banned = problem 403 (lit ''account_banned'') (Some (lit ''this account has been banned''))"

definition new_mfa_token :: "env \<Rightarrow> uid \<Rightarrow> int \<Rightarrow> TokenError + ustr" where
  "new_mfa_token env user_id now =
     issue_mfa_token (e_seal env) (e_uuid_str env) now (e_key env) user_id MFA_TTL_SECS"

text \<open>
  Once the first factor has passed: a second-factor challenge when the account has one, else a
  session. A failing second-factor query counts as \<open>no second factor\<close>.
\<close>

definition challenge_or_session ::
    "env \<Rightarrow> HeaderMap \<Rightarrow> uid \<Rightarrow> (ustr \<times> ustr) list \<Rightarrow> ustr \<Rightarrow> ('w world_scheme, response) state" where
  "challenge_or_session env headers user_id metadata action = do {
     factor \<leftarrow> has_active_2fa user_id;
     if ok_or factor False
     then do {
       now \<leftarrow> get_now;
       case new_mfa_token env user_id now of
         Inl _ \<Rightarrow> State_Monad.return internal
       | Inr token \<Rightarrow> do {
           _ \<leftarrow> audit env headers (Some user_id) (lit ''login_mfa_challenge'') metadata;
           State_Monad.return (ok_body 200 (MfaBody token))
         }
     }
     else issue_session env headers user_id action
   }"

definition login_failed ::
    "env \<Rightarrow> HeaderMap \<Rightarrow> ustr \<Rightarrow> uid option \<Rightarrow> (ustr \<times> ustr) list \<Rightarrow> response \<Rightarrow> ('w world_scheme, response) state" where
  "login_failed env headers id_hash actor metadata resp = do {
     _ \<leftarrow> attempt_record id_hash (req_ip env headers) False;
     _ \<leftarrow> audit env headers actor (lit ''login_failure'') metadata;
     State_Monad.return resp
   }"

definition failure_meta :: "ustr \<Rightarrow> ustr \<Rightarrow> ustr \<Rightarrow> (ustr \<times> ustr) list" where
  "failure_meta reason identifier via =
     [(lit ''reason'', reason), (lit ''identifier'', identifier), (lit ''via'', via)]"

definition login_ldap ::
    "env \<Rightarrow> HeaderMap \<Rightarrow> LoginRequest \<Rightarrow> ustr \<Rightarrow> user_row option \<Rightarrow> ('w world_scheme, response) state" where
  "login_ldap env headers req id_hash found =
     (case e_ldap env (lr_email req) (lr_password req) of
        Inr u \<Rightarrow> do {
          linked \<leftarrow> find_or_link_ldap_user env (lu_email u) (lu_username u) (lu_display_name u)
                      (lu_dn u) (lu_is_superadmin u);
          case linked of
            Inl _ \<Rightarrow> State_Monad.return internal
          | Inr user \<Rightarrow> do {
              ban \<leftarrow> is_banned (u_id user);
              if ok_or ban False
              then login_failed env headers id_hash (Some (u_id user))
                     (failure_meta (lit ''account_banned'') (lr_email req) (lit ''ldap'')) account_banned
              else if \<not> u_is_active user
              then login_failed env headers id_hash (Some (u_id user))
                     (failure_meta (lit ''account_inactive'') (lr_email req) (lit ''ldap''))
                     (problem 401 (lit ''invalid_credentials'') (Some (lit ''account is inactive'')))
              else do {
                _ \<leftarrow> attempt_record id_hash (req_ip env headers) True;
                challenge_or_session env headers (u_id user) [(lit ''via'', lit ''ldap'')]
                  (lit ''login_success_ldap'')
              }
            }
        }
      | Inl InvalidCredentials \<Rightarrow>
          login_failed env headers id_hash (map_option u_id found)
            (failure_meta (lit ''invalid_credentials'') (lr_email req) (lit ''ldap'')) bad_credentials
      | Inl e \<Rightarrow> do {
          _ \<leftarrow> audit env headers None (lit ''login_ldap_error'') [(lit ''error'', ldap_error_str e)];
          State_Monad.return (problem 503 (lit ''ldap_unavailable'')
            (Some (lit ''directory authentication is unavailable'')))
        })"

definition password_verified :: "env \<Rightarrow> ustr \<Rightarrow> user_row option \<Rightarrow> bool" where
  "password_verified env password found =
     (case Option.bind found u_password_hash of
        None \<Rightarrow> False
      | Some h \<Rightarrow> ok_or (e_verify_password env password h (e_pepper env)) False)"

definition login_password ::
    "env \<Rightarrow> HeaderMap \<Rightarrow> LoginRequest \<Rightarrow> ustr \<Rightarrow> user_row option \<Rightarrow> ('w world_scheme, response) state" where
  "login_password env headers req id_hash found =
     (let verified = password_verified env (lr_password req) found;
          active = (case found of None \<Rightarrow> False | Some u \<Rightarrow> u_is_active u)
      in if \<not> verified \<or> \<not> active
         then login_failed env headers id_hash (map_option u_id found)
                (failure_meta (if found = None then lit ''unknown_user''
                               else if \<not> verified then lit ''bad_password''
                               else lit ''account_inactive'') (lr_email req) (lit ''password''))
                bad_credentials
         else case found of
             None \<Rightarrow> State_Monad.return internal
           | Some user \<Rightarrow> do {
               ban \<leftarrow> is_banned (u_id user);
               if ok_or ban False
               then login_failed env headers id_hash (Some (u_id user))
                      (failure_meta (lit ''account_banned'') (lr_email req) (lit ''password'')) account_banned
               else do {
                 _ \<leftarrow> attempt_record id_hash (req_ip env headers) True;
                 challenge_or_session env headers (u_id user) [] (lit ''login_success'')
               }
             })"

definition local_superadmin :: "user_row option \<Rightarrow> bool" where
  "local_superadmin found \<longleftrightarrow>
     (case found of None \<Rightarrow> False | Some u \<Rightarrow> u_is_superadmin u \<and> u_password_hash u \<noteq> None)"

definition local_login_disabled_problem :: response where
  "local_login_disabled_problem = problem 403 (lit ''local_login_disabled'')
     (Some (lit ''password sign-in is disabled on this server; use single sign-on''))"

definition login ::
    "env \<Rightarrow> HeaderMap \<Rightarrow> LoginRequest json_body \<Rightarrow> ('w world_scheme, response) state" where
  "login env headers jbody =
     (case parse_json jbody of
        Inl r \<Rightarrow> State_Monad.return r
      | Inr req \<Rightarrow>
          if \<not> valid_login req then State_Monad.return validation_problem
          else do {
            let id_hash = sha256_hex (e_sha256 env) (normalize_email env (lr_email req));
            connected \<leftarrow> pool_get;
            if \<not> connected then State_Monad.return internal
            else do {
              now \<leftarrow> get_now;
              failures \<leftarrow> recent_failures id_hash (req_ip env headers) (now - FAILURE_WINDOW_SECS);
              _ \<leftarrow> sleep (lockout_delay (int (ok_or failures 0)));
              lookup \<leftarrow> find_by_identifier_with_secret env (lr_email req);
              let found = ok_or lookup None;
              disabled \<leftarrow> (if local_superadmin found then State_Monad.return (Inr False)
                           else query local_password_login_disabled);
              if ok_or disabled False
              then do {
                _ \<leftarrow> audit env headers (map_option u_id found) (lit ''login_failure'')
                      [(lit ''reason'', lit ''local_login_disabled''), (lit ''identifier'', lr_email req)];
                State_Monad.return local_login_disabled_problem
              }
              else do {
                ldap \<leftarrow> query ldap_enabled;
                if ok_or ldap False \<and> \<not> local_superadmin found
                then login_ldap env headers req id_hash found
                else login_password env headers req id_hash found
              }
            }
          })"

section \<open>Registration\<close>

definition weak_password :: response where
  "weak_password = problem 422 (lit ''weak_password'') (Some (lit ''password is too short or too guessable''))"

definition invitation_consumed :: response where
  "invitation_consumed = problem 410 (lit ''invitation_consumed'')
     (Some (lit ''the invitation has already been used or has expired''))"

text \<open>The invitation gate of a closed registration: the role granted, or the refusal.\<close>

definition claim_invitation ::
    "env \<Rightarrow> RegisterRequest \<Rightarrow> ('w world_scheme, response + PlatformInviteRole) state" where
  "claim_invitation env req =
     (case (case rr_invitation_token req of None \<Rightarrow> None | Some t \<Rightarrow> if t = [] then None else Some t) of
        None \<Rightarrow> State_Monad.return (Inl (problem 403 (lit ''registration_closed'')
          (Some (lit ''an invitation token is required''))))
      | Some raw \<Rightarrow> do {
          let token_hash = sha256_hex (e_sha256 env) raw;
          pending \<leftarrow> find_pending token_hash;
          case pending of
            Inl _ \<Rightarrow> State_Monad.return (Inl internal)
          | Inr None \<Rightarrow> do {
              known \<leftarrow> pinvite_exists token_hash;
              State_Monad.return (Inl (if ok_or known False then invitation_consumed
                else problem 403 (lit ''invitation_invalid'')
                       (Some (lit ''the invitation token was not recognised''))))
            }
          | Inr (Some invite) \<Rightarrow>
              if to_lowercase env (trim (pc_email invite)) \<noteq> to_lowercase env (trim (rr_email req))
              then State_Monad.return (Inl (problem 403 (lit ''invitation_email_mismatch'')
                     (Some (lit ''the email does not match the invitation''))))
              else do {
                consumed \<leftarrow> mark_accepted token_hash;
                State_Monad.return (if ok_or consumed False then Inr (pc_role invite) else Inl invitation_consumed)
              }
        })"

definition create_account ::
    "env \<Rightarrow> HeaderMap \<Rightarrow> RegisterRequest \<Rightarrow> PlatformInviteRole \<Rightarrow> ('w world_scheme, response) state" where
  "create_account env headers req role = do {
     salt \<leftarrow> draw_bytes;
     case e_hash_password env salt (rr_password req) (e_pepper env) of
       Inl _ \<Rightarrow> State_Monad.return internal
     | Inr h \<Rightarrow> do {
         created \<leftarrow> create_with_flags env
           \<lparr>nu_email = rr_email req, nu_username = rr_username req, nu_full_name = rr_full_name req,
            nu_password_hash = h\<rparr> (role = PlatformInviteRole.Superadmin) False;
         case created of
           Inr user \<Rightarrow> do {
             _ \<leftarrow> audit env headers (Some (u_id user)) (lit ''register'')
                   [(lit ''is_superadmin'', if u_is_superadmin user then lit ''true'' else lit ''false'')];
             State_Monad.return (ok_body 201 (UserBody user))
           }
         | Inl UniqueViolation \<Rightarrow> State_Monad.return (problem 409 (lit ''already_exists'')
             (Some (lit ''email or username is already taken'')))
         | Inl _ \<Rightarrow> State_Monad.return internal
       }
   }"

definition register ::
    "env \<Rightarrow> HeaderMap \<Rightarrow> RegisterRequest json_body \<Rightarrow> ('w world_scheme, response) state" where
  "register env headers jbody =
     (case parse_json jbody of
        Inl r \<Rightarrow> State_Monad.return r
      | Inr req \<Rightarrow>
          if \<not> valid_register env req then State_Monad.return validation_problem
          else if check_strength (e_zxcvbn env) (rr_password req) [rr_email req, rr_username req] \<noteq> Inr ()
          then State_Monad.return weak_password
          else do {
            connected \<leftarrow> pool_get;
            if \<not> connected then State_Monad.return internal
            else do {
              settings \<leftarrow> query open_registration;
              case settings of
                Inl _ \<Rightarrow> State_Monad.return internal
              | Inr is_open \<Rightarrow> do {
                  gate \<leftarrow> (if is_open then State_Monad.return (Inr PlatformInviteRole.User)
                           else claim_invitation env req);
                  case gate of
                    Inl refusal \<Rightarrow> State_Monad.return refusal
                  | Inr role \<Rightarrow> create_account env headers req role
                }
            }
          })"

end
