(* ===== verification/Login_Correct.thy ===== *)
theory Login_Correct
  imports Login
begin

text \<open>
  What signing in and registering guarantee. \<open>healthy\<close> states have no failing statement; properties
  that need none of it hold under every pattern of database failures.
\<close>

definition healthy :: "'w base_scheme \<Rightarrow> bool" where
  "healthy s \<longleftrightarrow> (\<forall>k. \<not> faults s k)"

lemma healthyD: "healthy s \<Longrightarrow> faults s k = False"
  by (simp add: healthy_def)

section \<open>The handlers only age the credential stores\<close>

context evolution
begin

lemma keeps_dberror:
  "keeps R a \<Longrightarrow> keeps R b \<Longrightarrow> keeps R c \<Longrightarrow>
     keeps R (case e of UniqueViolation \<Rightarrow> a | ForeignKeyViolation \<Rightarrow> b | Unavailable \<Rightarrow> c)"
  by (cases e) simp_all

lemma keeps_ldaperror:
  "keeps R a \<Longrightarrow> (\<And>m. keeps R (b m)) \<Longrightarrow> (\<And>m. keeps R (c m)) \<Longrightarrow>
     keeps R (case e of InvalidCredentials \<Rightarrow> a | LdapUnavailable m \<Rightarrow> b m | Config m \<Rightarrow> c m)"
  by (cases e) simp_all

end

lemma auth_keeps_session [auth_keeps]:
  "keeps auth_ages (audit env h a act m)" "keeps auth_ages (establish_session env h i act)"
  "keeps auth_ages (issue_session env h i act)"
proof -
  show au: "keeps auth_ages (audit env h a act m)" for a act m
    unfolding audit_def by (intro auth_keeps)
  show es: "keeps auth_ages (establish_session env h i act)"
    unfolding establish_session_def by (intro auth_rules auth_keeps au)
  show "keeps auth_ages (issue_session env h i act)"
    unfolding issue_session_def by (intro auth_rules es)
qed

lemma auth_keeps_login [auth_keeps]: "keeps auth_ages (login env h b)"
proof -
  have fail: "keeps auth_ages (login_failed env h ih a m r)" for ih a m r
    unfolding login_failed_def by (intro auth_rules auth_keeps)
  have chal: "keeps auth_ages (challenge_or_session env h i m act)" for i m act
    unfolding challenge_or_session_def by (intro auth_rules auth_keeps)
  have "keeps auth_ages (login_ldap env h req ih f)" for req ih f
    unfolding login_ldap_def
    by (intro auth_rules auth.keeps_ldaperror auth_keeps fail chal)
  moreover have "keeps auth_ages (login_password env h req ih f)" for req ih f
    unfolding login_password_def by (intro auth_rules auth_keeps fail chal)
  ultimately show ?thesis unfolding login_def by (intro auth_rules auth_keeps)
qed

lemma auth_keeps_register [auth_keeps]: "keeps auth_ages (register env h b)"
proof -
  have "keeps auth_ages (claim_invitation env req)" for req
    unfolding claim_invitation_def by (intro auth_rules auth_keeps)
  moreover have "keeps auth_ages (create_account env h req role)" for req role
    unfolding create_account_def by (intro auth_rules auth.keeps_dberror auth_keeps)
  ultimately show ?thesis unfolding register_def by (intro auth_rules auth_keeps)
qed

section \<open>When a login ends in a session\<close>

definition is_session :: "response \<Rightarrow> bool" where
  "is_session r \<longleftrightarrow> (case rs_body r of TokenBody a e \<Rightarrow> True | _ \<Rightarrow> False)"

lemma not_session [simp]:
  "\<not> is_session (problem st c d)" "\<not> is_session internal" "\<not> is_session validation_problem"
  "\<not> is_session bad_credentials" "\<not> is_session account_banned" "\<not> is_session (ok_body st (MfaBody m))"
  "\<not> is_session local_login_disabled_problem" "\<not> is_session (ok_body st (UserBody u))"
  by (simp_all add: is_session_def problem_def internal_def validation_problem_def bad_credentials_def
      account_banned_def ok_body_def local_login_disabled_problem_def)

definition banned_in :: "'w world_scheme \<Rightarrow> uid \<Rightarrow> bool" where
  "banned_in s i \<longleftrightarrow> (case find_user i s of None \<Rightarrow> False | Some u \<Rightarrow> u_banned_at u \<noteq> None)"

lemma wp_trivial: "(\<And>a t. Q a t) \<Longrightarrow> wp m Q s"
  by (simp add: wp_def split: prod.split)

lemma wp_audit [wp_rules]:
  "wp (audit env h actor act m) Q s =
     (let s' = s\<lparr>calls := Suc (calls s)\<rparr>
      in if faults s (calls s) \<or> actor \<noteq> None \<and> find_user (the actor) s = None then Q () s'
         else Q () (s'\<lparr>audit_log := audit_log s @
           [\<lparr>l_actor_id = actor, l_action = act, l_ip = Some (req_ip env h),
             l_user_agent = Some (user_agent h), l_metadata = m, l_created_at = db_now s\<rparr>]\<rparr>))"
  by (auto simp: audit_def audit_record_def wp_ignore wp_stmt Let_def)

lemma wp_attempt [wp_rules]:
  "wp (attempt_record ih addr ok) Q s =
     (let s' = s\<lparr>calls := Suc (calls s)\<rparr>
      in if faults s (calls s) then Q () s'
         else Q () (s'\<lparr>attempts := attempts s @
           [\<lparr>a_identifier_hash = ih, a_ip = addr, a_succeeded = ok, a_created_at = db_now s\<rparr>]\<rparr>))"
  by (simp add: attempt_record_def wp_rules Let_def)

lemma find_user_frame [simp]:
  "find_user i (s\<lparr>calls := v0\<rparr>) = find_user i s"
  "find_user i (s\<lparr>next_id := v1\<rparr>) = find_user i s"
  "find_user i (s\<lparr>app_now := v2\<rparr>) = find_user i s"
  "find_user i (s\<lparr>db_now := v3\<rparr>) = find_user i s"
  "find_user i (s\<lparr>drawn := v4\<rparr>) = find_user i s"
  "find_user i (s\<lparr>families := v5\<rparr>) = find_user i s"
  "find_user i (s\<lparr>tokens := v6\<rparr>) = find_user i s"
  "find_user i (s\<lparr>recovery := v7\<rparr>) = find_user i s"
  "find_user i (s\<lparr>resets := v8\<rparr>) = find_user i s"
  "find_user i (s\<lparr>attempts := v9\<rparr>) = find_user i s"
  "find_user i (s\<lparr>audit_log := v10\<rparr>) = find_user i s"
  "find_user i (s\<lparr>pinvites := v11\<rparr>) = find_user i s"
  "find_user i (s\<lparr>ptokens := v12\<rparr>) = find_user i s"
  for s :: "'w world_scheme"
  by (simp_all add: find_user_def)

lemma second_factor_frame [simp]:
  "second_factor i (s\<lparr>calls := v0\<rparr>) = second_factor i s"
  "second_factor i (s\<lparr>next_id := v1\<rparr>) = second_factor i s"
  "second_factor i (s\<lparr>app_now := v2\<rparr>) = second_factor i s"
  "second_factor i (s\<lparr>db_now := v3\<rparr>) = second_factor i s"
  "second_factor i (s\<lparr>drawn := v4\<rparr>) = second_factor i s"
  "second_factor i (s\<lparr>families := v5\<rparr>) = second_factor i s"
  "second_factor i (s\<lparr>tokens := v6\<rparr>) = second_factor i s"
  "second_factor i (s\<lparr>recovery := v7\<rparr>) = second_factor i s"
  "second_factor i (s\<lparr>resets := v8\<rparr>) = second_factor i s"
  "second_factor i (s\<lparr>attempts := v9\<rparr>) = second_factor i s"
  "second_factor i (s\<lparr>audit_log := v10\<rparr>) = second_factor i s"
  "second_factor i (s\<lparr>pinvites := v11\<rparr>) = second_factor i s"
  "second_factor i (s\<lparr>ptokens := v12\<rparr>) = second_factor i s"
  for s :: "'w world_scheme"
  by (simp_all add: second_factor_def)

lemma login_failed_resp: "wp (login_failed env h ih a m resp) (\<lambda>r t. r = resp) s"
  by (simp add: login_failed_def wp_rules Let_def)

lemma login_failed_no_session:
  assumes "\<not> is_session resp"
  shows "wp (login_failed env h ih a m resp) (\<lambda>r t. is_session r \<longrightarrow> Q) u"
    and "wp (login_failed env h ih a m resp) (\<lambda>r t. \<not> is_session r) u"
  by (rule wp_mono [OF login_failed_resp], simp add: assms)+

lemma challenge_session:
  "wp (challenge_or_session env h i m act)
     (\<lambda>r t. is_session r \<longrightarrow> faults s (calls s) \<or> \<not> second_factor i s) s"
proof (cases "faults s (calls s) \<or> \<not> second_factor i s")
  case True
  then show ?thesis by (intro wp_trivial) simp
next
  case False
  then show ?thesis
    by (simp add: challenge_or_session_def has_active_2fa_def wp_rules Let_def split: sum.split)
qed

lemma find_user_upd:
  assumes "\<And>u. u_id (f u) = u_id u"
  shows "find_user i (upd_user j f s) =
    (if i = j then map_option f (find_user i s) else find_user i s)"
proof -
  have "find_row (has_id i) (update_where (has_id j) f rows) =
      (if i = j then map_option f (find_row (has_id i) rows) else find_row (has_id i) rows)" for rows
    using assms by (induction rows) (auto simp: find_row_def has_id_def)
  then show ?thesis by (simp add: find_user_def)
qed

lemma banned_frame [simp]:
  "banned_in (s\<lparr>calls := v0\<rparr>) i = banned_in s i"
  "banned_in (s\<lparr>next_id := v1\<rparr>) i = banned_in s i"
  "banned_in (s\<lparr>app_now := v2\<rparr>) i = banned_in s i"
  "banned_in (s\<lparr>db_now := v3\<rparr>) i = banned_in s i"
  "banned_in (s\<lparr>drawn := v4\<rparr>) i = banned_in s i"
  "banned_in (s\<lparr>families := v5\<rparr>) i = banned_in s i"
  "banned_in (s\<lparr>tokens := v6\<rparr>) i = banned_in s i"
  "banned_in (s\<lparr>recovery := v7\<rparr>) i = banned_in s i"
  "banned_in (s\<lparr>resets := v8\<rparr>) i = banned_in s i"
  "banned_in (s\<lparr>attempts := v9\<rparr>) i = banned_in s i"
  "banned_in (s\<lparr>audit_log := v10\<rparr>) i = banned_in s i"
  "banned_in (s\<lparr>pinvites := v11\<rparr>) i = banned_in s i"
  "banned_in (s\<lparr>ptokens := v12\<rparr>) i = banned_in s i"
  for s :: "'w world_scheme"
  by (simp_all add: banned_in_def)

lemma is_banned_query: "is_banned i = query (\<lambda>s. banned_in s i)"
  by (simp add: is_banned_def banned_in_def)

lemma login_password_session:
  assumes "healthy s"
  shows "wp (login_password env h req ih found)
    (\<lambda>r t. is_session r \<longrightarrow> (\<exists>u. found = Some u \<and> password_verified env (lr_password req) found \<and>
       u_is_active u \<and> \<not> banned_in s (u_id u) \<and> \<not> second_factor (u_id u) s)) s"
proof -
  note fail = login_failed_no_session
  show ?thesis
  proof (cases found)
    case None
    then show ?thesis
      by (simp add: login_password_def Let_def fail)
  next
    case (Some u)
    show ?thesis
    proof (cases "password_verified env (lr_password req) found \<and> u_is_active u \<and> \<not> banned_in s (u_id u)")
      case True
      from True Some assms show ?thesis
        by (simp add: login_password_def is_banned_query wp_rules Let_def healthyD)
           (rule wp_mono [OF challenge_session], use assms in \<open>simp add: healthyD\<close>)
    next
      case False
      with Some assms show ?thesis
        by (auto simp: login_password_def is_banned_query wp_rules Let_def healthyD fail)
    qed
  qed
qed

lemma upd_user_frame [simp]:
  "calls (upd_user i f s) = calls s" "faults (upd_user i f s) = faults s"
  "healthy (upd_user i f s) = healthy s" "passkey_owners (upd_user i f s) = passkey_owners s"
  by (simp_all add: upd_user_def healthy_def)

text \<open>The account a directory login is linked to.\<close>

definition ldap_account :: "env \<Rightarrow> LdapUser \<Rightarrow> 'w world_scheme \<Rightarrow> user_row option" where
  "ldap_account env lu s =
     find_row (\<lambda>u. u_email u = normalize_email env (lu_email lu) \<and> live u) (users s)"

lemma ldap_sync_fields [simp]:
  "u_id (ldap_sync dn sa n u) = u_id u" "u_banned_at (ldap_sync dn sa n u) = u_banned_at u"
  "u_totp_confirmed_at (ldap_sync dn sa n u) = u_totp_confirmed_at u"
  by (simp_all add: ldap_sync_def)

lemma ldap_sync_keeps_ban:
  "banned_in (upd_user j (ldap_sync dn sa n) s) i = banned_in s i"
  "second_factor i (upd_user j (ldap_sync dn sa n) s) = second_factor i s"
  by (simp_all add: banned_in_def second_factor_def find_user_upd option.case_eq_if option.map_sel)
     (auto simp: upd_user_def)

lemma login_ldap_session:
  assumes "healthy s"
  shows "wp (login_ldap env h req ih found)
    (\<lambda>r t. is_session r \<longrightarrow> (\<exists>lu. e_ldap env (lr_email req) (lr_password req) = Inr lu \<and>
       (\<forall>u. ldap_account env lu s = Some u \<longrightarrow> \<not> banned_in s (u_id u) \<and> \<not> second_factor (u_id u) s))) s"
proof (cases "e_ldap env (lr_email req) (lr_password req)")
  case (Inl e)
  then show ?thesis
    by (cases e) (simp_all add: login_ldap_def login_failed_no_session wp_rules Let_def)
next
  case (Inr lu)
  show ?thesis
  proof (cases "ldap_account env lu s")
    case None
    with Inr show ?thesis by (intro wp_trivial) simp
  next
    case (Some u)
    then have found: "find_row (\<lambda>u. u_email u = normalize_email env (lu_email lu) \<and> live u) (users s) = Some u"
      by (simp add: ldap_account_def)
    have sync: "u_is_active (ldap_sync dn sa n u)" for dn sa n by (simp add: ldap_sync_def)
    show ?thesis
    proof (cases "banned_in s (u_id u)")
      case True
      with Inr Some found assms show ?thesis
        by (simp add: login_ldap_def find_or_link_ldap_user_def is_banned_query wp_rules Let_def healthyD
            ldap_sync_keeps_ban login_failed_no_session sync)
    next
      case False
      with Inr Some found assms show ?thesis
        by (simp add: login_ldap_def find_or_link_ldap_user_def is_banned_query wp_rules Let_def healthyD
            ldap_sync_keeps_ban sync)
           (rule wp_mono [OF challenge_session], use assms in \<open>simp add: healthyD ldap_sync_keeps_ban\<close>)
    qed
  qed
qed

text \<open>What justifies a session: the facts the handler must have established.\<close>

definition session_justified :: "env \<Rightarrow> LoginRequest \<Rightarrow> 'w world_scheme \<Rightarrow> bool" where
  "session_justified env req s \<longleftrightarrow>
     (let found = find_row (identifier_matches env (lr_email req)) (users s) in
      (local_superadmin found \<or> \<not> local_password_login_disabled s) \<and>
      (if ldap_enabled s \<and> \<not> local_superadmin found
       then \<exists>lu. e_ldap env (lr_email req) (lr_password req) = Inr lu \<and>
              (\<forall>u. ldap_account env lu s = Some u \<longrightarrow>
                 \<not> banned_in s (u_id u) \<and> \<not> second_factor (u_id u) s)
       else \<exists>u. found = Some u \<and> password_verified env (lr_password req) found \<and>
              u_is_active u \<and> \<not> banned_in s (u_id u) \<and> \<not> second_factor (u_id u) s))"

lemma ldap_account_frame [simp]:
  "ldap_account env lu (s\<lparr>calls := n\<rparr>) = ldap_account env lu s"
  "ldap_account env lu (s\<lparr>app_now := a\<rparr>) = ldap_account env lu s"
  "ldap_account env lu (s\<lparr>db_now := a\<rparr>) = ldap_account env lu s"
  for s :: "'w world_scheme"
  by (simp_all add: ldap_account_def)

lemma healthy_frame [simp]:
  "healthy (s\<lparr>calls := v0\<rparr>) = healthy s"
  "healthy (s\<lparr>next_id := v1\<rparr>) = healthy s"
  "healthy (s\<lparr>app_now := v2\<rparr>) = healthy s"
  "healthy (s\<lparr>db_now := v3\<rparr>) = healthy s"
  "healthy (s\<lparr>drawn := v4\<rparr>) = healthy s"
  "healthy (s\<lparr>users := v5\<rparr>) = healthy s"
  "healthy (s\<lparr>families := v6\<rparr>) = healthy s"
  "healthy (s\<lparr>tokens := v7\<rparr>) = healthy s"
  "healthy (s\<lparr>recovery := v8\<rparr>) = healthy s"
  "healthy (s\<lparr>resets := v9\<rparr>) = healthy s"
  "healthy (s\<lparr>attempts := v10\<rparr>) = healthy s"
  "healthy (s\<lparr>audit_log := v11\<rparr>) = healthy s"
  "healthy (s\<lparr>pinvites := v12\<rparr>) = healthy s"
  "healthy (s\<lparr>ptokens := v13\<rparr>) = healthy s"
  for s :: "'w world_scheme"
  by (simp_all add: healthy_def)

lemma login_session:
  assumes "healthy s"
  shows "wp (login env h (Json req)) (\<lambda>r t. is_session r \<longrightarrow> session_justified env req s) s"
proof -
  have ldap: "wp (login_ldap env h req ih f) (\<lambda>r t. is_session r \<longrightarrow> session_justified env req s) v"
    if "healthy v" "users v = users s" "passkey_owners v = passkey_owners s"
      "f = find_row (identifier_matches env (lr_email req)) (users s)" "ldap_enabled s" "\<not> local_superadmin f"
      "\<not> local_password_login_disabled s" for ih f v
  proof -
    have "ldap_account env lu v = ldap_account env lu s" "banned_in v i = banned_in s i"
      "second_factor i v = second_factor i s" for lu i
      using that by (simp_all add: ldap_account_def banned_in_def second_factor_def find_user_def)
    with that show ?thesis
      by (intro wp_mono [OF login_ldap_session [OF that(1)]]) (simp add: session_justified_def Let_def)
  qed
  have local: "wp (login_password env h req ih f) (\<lambda>r t. is_session r \<longrightarrow> session_justified env req s) v"
    if "healthy v" "users v = users s" "passkey_owners v = passkey_owners s"
      "f = find_row (identifier_matches env (lr_email req)) (users s)" "\<not> ldap_enabled s \<or> local_superadmin f"
      "local_superadmin f \<or> \<not> local_password_login_disabled s" for ih f v
  proof -
    have "banned_in v i = banned_in s i" "second_factor i v = second_factor i s" for i
      using that by (simp_all add: banned_in_def second_factor_def find_user_def)
    with that show ?thesis
      by (intro wp_mono [OF login_password_session [OF that(1)]]) (auto simp: session_justified_def Let_def)
  qed
  let ?f = "find_row (identifier_matches env (lr_email req)) (users s)"
  show ?thesis
    using assms
    by (cases "local_superadmin ?f"; cases "local_password_login_disabled s"; cases "ldap_enabled s")
       (simp_all add: login_def parse_json_def wp_rules Let_def healthyD find_by_identifier_with_secret_def
         recent_failures_def ldap local)
qed

section \<open>Failed logins\<close>

definition failures_seen :: "env \<Rightarrow> HeaderMap \<Rightarrow> ustr \<Rightarrow> int \<Rightarrow> attempt_row list \<Rightarrow> nat" where
  "failures_seen env h email since rows =
     count_where (\<lambda>a. \<not> a_succeeded a \<and> a_created_at a \<ge> since \<and>
       (a_identifier_hash a = sha256_hex (e_sha256 env) (normalize_email env email) \<or> a_ip a = req_ip env h)) rows"

lemma failed_login_wp:
  assumes "healthy s" and "valid_login req" and "\<not> ldap_enabled s" and "\<not> local_password_login_disabled s"
    and "found = find_row (identifier_matches env (lr_email req)) (users s)"
    and "\<not> (password_verified env (lr_password req) found \<and> (\<exists>u. found = Some u \<and> u_is_active u))"
    and "delay = lockout_delay (int (failures_seen env h (lr_email req) (app_now s - FAILURE_WINDOW_SECS) (attempts s)))"
  shows "wp (login env h (Json req)) (\<lambda>r t. r = bad_credentials \<and>
      app_now t = app_now s + int delay \<and>
      (\<exists>a. attempts t = attempts s @ [a] \<and> \<not> a_succeeded a \<and> a_created_at a = db_now s + int delay \<and>
         a_ip a = req_ip env h \<and>
         a_identifier_hash a = sha256_hex (e_sha256 env) (normalize_email env (lr_email req))) \<and>
      users t = users s \<and> families t = families s \<and> tokens t = tokens s) s"
proof -
  have fail: "wp (login_password env h req ih found) (\<lambda>r t. r = bad_credentials \<and> app_now t = app_now v \<and>
      (\<exists>a. attempts t = attempts v @ [a] \<and> \<not> a_succeeded a \<and> a_created_at a = db_now v \<and>
         a_ip a = req_ip env h \<and> a_identifier_hash a = ih) \<and>
      users t = users v \<and> families t = families v \<and> tokens t = tokens v) v"
    if "healthy v" for v :: "'a world_scheme" and ih
    using assms(6) that
    by (cases found) (auto simp: login_password_def login_failed_def wp_rules Let_def healthyD)
  show ?thesis
    using assms(1-4)
    by (cases "local_superadmin found")
       (simp_all add: login_def parse_json_def wp_rules Let_def healthyD find_by_identifier_with_secret_def
          recent_failures_def assms(5) [symmetric] assms(7) failures_seen_def,
        (rule wp_mono [OF fail], simp, simp)+)
qed

section \<open>The session a login creates\<close>

definition fresh_raw :: "env \<Rightarrow> 'w world_scheme \<Rightarrow> ustr" where
  "fresh_raw env s = rt_raw (generate (e_sha256 env) (draws s (drawn s)))"

definition fresh_hash :: "env \<Rightarrow> 'w world_scheme \<Rightarrow> ustr" where
  "fresh_hash env s = hash_token (e_sha256 env) (fresh_raw env s)"

lemma generate_hash: "rt_hash (generate sha bytes) = hash_token sha (rt_raw (generate sha bytes))"
  by (simp add: generate_def Let_def)

definition first_logins :: "uid \<Rightarrow> audit_row list \<Rightarrow> nat" where
  "first_logins i rows = count_where (\<lambda>l. l_actor_id l = Some i \<and> l_action l \<in> set FIRST_LOGIN_ACTIONS) rows"

definition login_first_events :: "uid \<Rightarrow> audit_row list \<Rightarrow> nat" where
  "login_first_events i rows = count_where (\<lambda>l. l_actor_id l = Some i \<and> l_action l = lit ''login_first'') rows"

lemma find_row_append:
  "find_row P (xs @ ys) = (case find_row P xs of None \<Rightarrow> find_row P ys | Some r \<Rightarrow> Some r)"
  by (induction xs) (auto simp: find_row_def)

lemma find_row_single [simp]: "find_row P [r] = (if P r then Some r else None)"
  by (simp add: find_row_def)

lemma wp_location:
  assumes "healthy s"
  shows "wp (set_family_location fid c y) Q s \<longleftrightarrow>
    (if c = None \<and> y = None then Q () s
     else Q () (s\<lparr>calls := Suc (calls s), families := update_where (\<lambda>f. f_id f = fid)
        (\<lambda>f. f\<lparr>f_country_code := c, f_city := y\<rparr>) (families s)\<rparr>))"
  using assms by (simp add: set_family_location_def wp_rules healthyD)

text \<open>The families after the session has been created: one more, live and owned by the user.\<close>

lemma new_family:
  assumes "\<forall>f\<in>set fs. f_id f < n"
  shows "find_row (\<lambda>f. f_id f = n) fs = None"
    and "f_id g = n \<Longrightarrow> update_where (\<lambda>f. f_id f = n) u (fs @ [g]) = fs @ [u g]"
proof -
  show "find_row (\<lambda>f. f_id f = n) fs = None" using assms by (auto simp: find_row_None)
  have "update_where (\<lambda>f. f_id f = n) u fs = fs" using assms by (auto intro!: update_where_none)
  then show "f_id g = n \<Longrightarrow> update_where (\<lambda>f. f_id f = n) u (fs @ [g]) = fs @ [u g]"
    by (simp add: update_where_def)
qed

definition session_ready :: "env \<Rightarrow> uid \<Rightarrow> 'w world_scheme \<Rightarrow> bool" where
  "session_ready env i s \<longleftrightarrow>
     healthy s \<and> store_ids_ok s \<and> find_user i s \<noteq> None \<and>
     (\<forall>t\<in>set (tokens s). t_token_hash t \<noteq> fresh_hash env s) \<and>
     (\<exists>access. new_access_token env i (app_now s) = Inr access)"

lemma issue_session_wp:
  assumes "session_ready env i s" and "new_access_token env i (app_now s) = Inr access"
  shows "wp (issue_session env h i act) (\<lambda>r t.
     r = \<lparr>rs_status = 200,
          rs_body = TokenBody access (if should_echo_refresh env False h then Some (fresh_raw env s) else None),
          rs_cookie = SetCookie (fresh_raw env s)\<rparr> \<and>
     lookup_token (fresh_hash env s) t =
       Some \<lparr>lk_token_id = Suc (next_id s), lk_family_id = next_id s, lk_user_id = i, lk_used_at = None,
             lk_expires_at = app_now s + REFRESH_TTL_SECS, lk_family_revoked = False\<rparr> \<and>
     healthy t \<and>
     (\<exists>rows. audit_log t = audit_log s @ rows \<and>
        first_logins i rows = (if act \<in> set FIRST_LOGIN_ACTIONS then 1 else 0) \<and>
        (act \<noteq> lit ''login_first'' \<longrightarrow>
           login_first_events i rows = (if first_logins i (audit_log s) = 0 then 1 else 0)))) s"
proof -
  obtain u where u: "find_user i s = Some u" using assms(1) by (auto simp: session_ready_def)
  have ids: "\<forall>f\<in>set (families s). f_id f < next_id s" and hl: "healthy s"
    and fresh: "\<forall>t\<in>set (tokens s). t_token_hash t \<noteq> fresh_hash env s"
      "find_row (\<lambda>t. t_token_hash t = fresh_hash env s) (tokens s) = None"
    using assms(1) by (auto simp: session_ready_def store_ids_ok_def any_row_iff find_row_None)
  have hash: "rt_hash (generate (e_sha256 env) (draws s (drawn s))) = fresh_hash env s"
    "rt_raw (generate (e_sha256 env) (draws s (drawn s))) = fresh_raw env s"
    by (simp_all add: fresh_hash_def fresh_raw_def generate_hash)
  have acts: "lit ''login_first'' \<notin> set FIRST_LOGIN_ACTIONS" by (simp add: FIRST_LOGIN_ACTIONS_def)
  note eval = issue_session_def establish_session_def create_family_def insert_token_def wp_rules wp_stmt
    Let_def u healthyD [OF hl] hl wp_location fresh hash assms(2) count_for_actor_actions_def
    lookup_token_def find_row_append new_family [OF ids] has_family_def any_row_iff acts
    first_logins_def login_first_events_def count_where_def stamp_login_def upd_user_def
  show ?thesis
  proof (cases "e_geoip env (req_ip env h)")
    case None
    then show ?thesis by (cases "first_logins i (audit_log s) = 0") (simp_all add: eval)
  next
    case (Some loc)
    obtain c y where "loc = (c, y)" by (cases loc)
    with Some show ?thesis
      by (cases "first_logins i (audit_log s) = 0"; cases "c = None \<and> y = None") (simp_all add: eval)
  qed
qed

section \<open>Registration\<close>

text \<open>The invitation a registration with this token may use.\<close>

definition usable_invite :: "env \<Rightarrow> RegisterRequest \<Rightarrow> 'w world_scheme \<Rightarrow> pinvite_row \<Rightarrow> bool" where
  "usable_invite env req s iv \<longleftrightarrow>
     (\<exists>raw. rr_invitation_token req = Some raw \<and> raw \<noteq> [] \<and>
        open_pinvite (sha256_hex (e_sha256 env) raw) (db_now s) iv) \<and>
     to_lowercase env (trim (i_email iv)) = to_lowercase env (trim (rr_email req))"

definition invites_claimed :: "env \<Rightarrow> RegisterRequest \<Rightarrow> 'w world_scheme \<Rightarrow> pinvite_row list" where
  "invites_claimed env req s =
     (case rr_invitation_token req of None \<Rightarrow> pinvites s
      | Some raw \<Rightarrow> update_where (open_pinvite (sha256_hex (e_sha256 env) raw) (db_now s))
          (accept_row (db_now s)) (pinvites s))"

lemma claim_invitation_wp:
  "wp (claim_invitation env req)
     (\<lambda>r t. users t = users s \<and> db_now t = db_now s \<and>
        (pinvites t \<noteq> pinvites s \<longrightarrow> (\<exists>iv\<in>set (pinvites s). usable_invite env req s iv)) \<and>
        (\<forall>role. r = Inr role \<longrightarrow> (\<exists>iv\<in>set (pinvites s). usable_invite env req s iv \<and>
            PlatformInviteRole_parse (i_role iv) = Some role) \<and>
            pinvites t = invites_claimed env req s)) s"
proof (cases "rr_invitation_token req")
  case None
  then show ?thesis by (simp add: claim_invitation_def wp_rules)
next
  case (Some raw)
  let ?h = "sha256_hex (e_sha256 env) raw"
  show ?thesis
  proof (cases "raw = [] \<or> find_row (open_pinvite ?h (db_now s)) (pinvites s) = None")
    case True
    with Some show ?thesis
      by (auto simp: claim_invitation_def wp_rules Let_def find_pending_def pinvite_exists_def)
  next
    case False
    then obtain iv where iv: "find_row (open_pinvite ?h (db_now s)) (pinvites s) = Some iv" and "raw \<noteq> []"
      by auto
    have row: "iv \<in> set (pinvites s)" "open_pinvite ?h (db_now s) iv" using find_row_Some [OF iv] by auto
    show ?thesis
    proof (cases "PlatformInviteRole_parse (i_role iv)")
      case None
      with Some iv \<open>raw \<noteq> []\<close> show ?thesis
        by (simp add: claim_invitation_def wp_rules Let_def find_pending_def pinvite_exists_def)
    next
      case (Some role)
      show ?thesis
      proof (cases "to_lowercase env (trim (i_email iv)) = to_lowercase env (trim (rr_email req))")
        case True
        then have use: "usable_invite env req s iv"
          using row \<open>rr_invitation_token req = Some raw\<close> \<open>raw \<noteq> []\<close> by (simp add: usable_invite_def)
        with row have some: "\<exists>i\<in>set (pinvites s). usable_invite env req s i"
          "\<exists>i\<in>set (pinvites s). usable_invite env req s i \<and> PlatformInviteRole_parse (i_role i) = Some role"
          using Some by blast+
        from True Some iv \<open>raw \<noteq> []\<close> \<open>rr_invitation_token req = Some raw\<close> some show ?thesis
          by (simp add: claim_invitation_def wp_rules Let_def find_pending_def mark_accepted_def
              invites_claimed_def)
      next
        case False
        with Some iv \<open>raw \<noteq> []\<close> \<open>rr_invitation_token req = Some raw\<close> show ?thesis
          by (simp add: claim_invitation_def wp_rules Let_def find_pending_def)
      qed
    qed
  qed
qed

lemma create_account_wp:
  "wp (create_account env h req role)
     (\<lambda>r t. pinvites t = pinvites s \<and>
        (users t \<noteq> users s \<longrightarrow> (\<exists>u. users t = users s @ [u] \<and>
           (u_is_superadmin u \<longleftrightarrow> role = PlatformInviteRole.Superadmin) \<and>
           u_email u = normalize_email env (rr_email req) \<and> u_username u = rr_username req))) s"
  by (auto simp: create_account_def create_with_flags_def insert_user_def wp_rules wp_stmt Let_def
      split: sum.split DbError.split)

lemma register_wp:
  fixes s :: "'w world_scheme"
  shows
  "wp (register env h (Json req))
     (\<lambda>r t. users t \<noteq> users s \<longrightarrow>
        (\<exists>u. users t = users s @ [u] \<and> u_email u = normalize_email env (rr_email req) \<and>
           u_username u = rr_username req \<and>
           (if open_registration s then \<not> u_is_superadmin u
            else (\<exists>iv\<in>set (pinvites s). usable_invite env req s iv \<and>
                    (u_is_superadmin u \<longleftrightarrow> i_role iv = lit ''superadmin'')) \<and>
                 pinvites t = invites_claimed env req s))) s"
proof -
  let ?s = "s\<lparr>calls := Suc (Suc (calls s))\<rparr>"
  have role: "PlatformInviteRole_parse x = Some PlatformInviteRole.Superadmin \<longleftrightarrow> x = lit ''superadmin''" for x
    by (simp add: platformInviteRole.dec_iff)
  have roleU: "PlatformInviteRole_parse x = Some PlatformInviteRole.User \<Longrightarrow> x \<noteq> lit ''superadmin''" for x
    by (simp add: platformInviteRole.dec_iff)
  have claim: "wp (claim_invitation env req) (\<lambda>g. wp (case g of Inl refusal \<Rightarrow> State_Monad.return refusal
        | Inr role \<Rightarrow> create_account env h req role)
      (\<lambda>r t. users t \<noteq> users s \<longrightarrow>
        (\<exists>u. users t = users s @ [u] \<and> u_email u = normalize_email env (rr_email req) \<and>
           u_username u = rr_username req \<and>
           (\<exists>iv\<in>set (pinvites s). usable_invite env req s iv \<and>
              (u_is_superadmin u \<longleftrightarrow> i_role iv = lit ''superadmin'')) \<and>
           pinvites t = invites_claimed env req s))) ?s"
  proof (rule wp_mono [OF claim_invitation_wp])
    fix g :: "response + PlatformInviteRole" and t :: "'w world_scheme"
    assume g: "users t = users ?s \<and> db_now t = db_now ?s \<and>
      (pinvites t \<noteq> pinvites ?s \<longrightarrow> (\<exists>iv\<in>set (pinvites ?s). usable_invite env req ?s iv)) \<and>
      (\<forall>role. g = Inr role \<longrightarrow> (\<exists>iv\<in>set (pinvites ?s). usable_invite env req ?s iv \<and>
            PlatformInviteRole_parse (i_role iv) = Some role) \<and>
            pinvites t = invites_claimed env req ?s)"
    have same: "usable_invite env req ?s iv = usable_invite env req s iv"
      "invites_claimed env req ?s = invites_claimed env req s" for iv
      by (simp_all add: usable_invite_def invites_claimed_def split: option.split)
    show "wp (case g of Inl refusal \<Rightarrow> State_Monad.return refusal
        | Inr role \<Rightarrow> create_account env h req role)
      (\<lambda>r t. users t \<noteq> users s \<longrightarrow>
        (\<exists>u. users t = users s @ [u] \<and> u_email u = normalize_email env (rr_email req) \<and>
           u_username u = rr_username req \<and>
           (\<exists>iv\<in>set (pinvites s). usable_invite env req s iv \<and>
              (u_is_superadmin u \<longleftrightarrow> i_role iv = lit ''superadmin'')) \<and>
           pinvites t = invites_claimed env req s)) t"
    proof (cases g)
      case (Inl refusal)
      with g show ?thesis by (simp add: wp_return)
    next
      case (Inr rl)
      with g same obtain iv where iv: "iv \<in> set (pinvites s)" "usable_invite env req s iv"
        "PlatformInviteRole_parse (i_role iv) = Some rl" "pinvites t = invites_claimed env req s"
        "users t = users s" by auto
      have "rl = PlatformInviteRole.Superadmin \<longleftrightarrow> i_role iv = lit ''superadmin''"
        using iv(3) role roleU by (cases rl) auto
      with iv show ?thesis
        unfolding Inr sum.case
        by (intro wp_mono [OF create_account_wp]) auto
    qed
  qed
  show ?thesis
  proof (cases "open_registration s")
    case True
    then show ?thesis
      by (auto simp: register_def parse_json_def wp_rules Let_def
          intro: wp_mono [OF create_account_wp])
  next
    case False
    with claim show ?thesis
      by (simp add: register_def parse_json_def wp_rules Let_def)
  qed
qed

section \<open>Properties\<close>

text \<open>A concrete server: digests and hashes are the identity, tokens spell out their claims.\<close>

definition demo_env :: env where
  "demo_env =
     \<lparr>e_sha256 = (\<lambda>b. b), e_pepper = Some [1], e_hash_password = (\<lambda>salt p pep. Inr p),
      e_verify_password = (\<lambda>p h pep. Inr (p = h)), e_zxcvbn = (\<lambda>p ctx. 4), e_key = 0,
      e_seal = (\<lambda>k c. Some (nat (c_exp c) # (case c_sub c of None \<Rightarrow> [] | Some u \<Rightarrow> u))),
      e_unseal = (\<lambda>k now t. None), e_uuid_str = (\<lambda>u. [u]), e_uuid_parse = (\<lambda>t. Some (hd t)),
      e_derive = Some, e_aead_encrypt = (\<lambda>k n p. Some p), e_aead_decrypt = (\<lambda>k n c. Some c),
      e_totp_verify = (\<lambda>now secret code. code = lit ''123456''), e_upper_tbl = (\<lambda>c. [c]), e_lower = (\<lambda>t. t),
      e_parse_ip = (\<lambda>t. None), e_unknown_ip = 0, e_ldap = (\<lambda>u p. Inl InvalidCredentials),
      e_geoip = (\<lambda>a. None), e_email_ok = (\<lambda>t. True), e_is_dev = False, e_mailer_configured = False\<rparr>"

definition demo_user :: "uid \<Rightarrow> user_row" where
  "demo_user i = default_user\<lparr>u_id := i, u_email := [97], u_username := [98], u_password_hash := Some [112]\<rparr>"

definition demo_world :: world where
  "demo_world = empty_world\<lparr>users := [demo_user 7]\<rparr>"

lemma demo_healthy [simp]: "healthy demo_world" "healthy empty_world"
  by (simp_all add: demo_world_def empty_world_def healthy_def)

lemmas demo_lookup_simps = demo_env_def demo_world_def empty_world_def demo_user_def default_user_def
  identifier_matches_def normalize_email_def to_lowercase_def trim_def trim_by_def is_white_def
  ascii_lower_def is_ascii_upper_def find_row_def find_user_def has_id_def live_def password_verified_def

lemmas login_run_simps = demo_lookup_simps wp_rules wp_stmt Let_def login_def parse_json_def valid_login_def
  utf8_len_def recent_failures_def count_where_def lockout_delay_def find_by_identifier_with_secret_def
  local_superadmin_def login_password_def is_banned_def

text \<open>
  C3: On a healthy database, a login ends in a session only when it should: the identifier and
  the password (or the directory) check out, password sign-in is not switched off for this account,
  the account is enabled and not banned, and it has no second factor left to pass. When the lookup of the
  second factor fails, the login goes through without it (\<open>second_factor_fails_open\<close>).
\<close>

theorem login_session_justified:
  assumes "healthy s" and "run_state (login env h (Json req)) s = (r, t)" and "is_session r"
  shows "session_justified env req s"
  using wpI [OF assms(2) login_session [OF assms(1)]] assms(3) by blast

lemma demo_lower: "to_lowercase demo_env s = (if list_all (\<lambda>c. c < 128) s then map ascii_lower s else s)"
  by (simp add: to_lowercase_def demo_env_def)

lemma login_session_justified_witness:
  "session_justified demo_env \<lparr>lr_email = [97], lr_password = [112]\<rparr> demo_world"
proof -
  let ?run = "run_state (login demo_env [] (Json \<lparr>lr_email = [97], lr_password = [112]\<rparr>)) demo_world"
  have "wp (login demo_env [] (Json \<lparr>lr_email = [97], lr_password = [112]\<rparr>)) (\<lambda>r t. is_session r) demo_world"
    by (simp add: login_run_simps challenge_or_session_def has_active_2fa_def second_factor_def
        issue_session_def establish_session_def create_family_def insert_token_def stamp_login_def
        has_family_def any_row_def count_for_actor_actions_def count_where_def new_access_token_def
        issue_access_token_def issue_typed_def set_expiry_def RFC3339_MIN_def RFC3339_MAX_def
        ACCESS_TTL_SECS_def is_session_def)
  then have "is_session (fst ?run)" by (simp add: wp_def case_prod_beta)
  then show ?thesis
    using login_session_justified [of demo_world demo_env "[]" "\<lparr>lr_email = [97], lr_password = [112]\<rparr>"
        "fst ?run" "snd ?run"] by simp
qed

text \<open>
  A failed password login says nothing about why: an unknown name, a wrong password and a disabled
  account get the same answer, after the delay that the failures of this identifier or address in
  the last hour ask for, and each is recorded as one more failure; nothing else about the account or
  its sessions changes.
\<close>

theorem failed_login_uniform:
  assumes "healthy s" and "valid_login req" and "\<not> ldap_enabled s" and "\<not> local_password_login_disabled s"
    and "found = find_row (identifier_matches env (lr_email req)) (users s)"
    and "\<not> (password_verified env (lr_password req) found \<and> (\<exists>u. found = Some u \<and> u_is_active u))"
    and "delay = lockout_delay (int (failures_seen env h (lr_email req) (app_now s - FAILURE_WINDOW_SECS) (attempts s)))"
    and "run_state (login env h (Json req)) s = (r, t)"
  shows "r = bad_credentials \<and> app_now t = app_now s + int delay \<and>
    (\<exists>a. attempts t = attempts s @ [a] \<and> \<not> a_succeeded a \<and> a_created_at a = db_now s + int delay \<and>
       a_ip a = req_ip env h \<and>
       a_identifier_hash a = sha256_hex (e_sha256 env) (normalize_email env (lr_email req))) \<and>
    users t = users s \<and> families t = families s \<and> tokens t = tokens s"
  using wpI [OF assms(8) failed_login_wp [OF assms(1-7)]] by blast

lemma failed_login_uniform_witness:
  "fst (run_state (login demo_env [] (Json \<lparr>lr_email = [97], lr_password = [113]\<rparr>)) demo_world) = bad_credentials \<and>
   fst (run_state (login demo_env [] (Json \<lparr>lr_email = [99], lr_password = [112]\<rparr>)) demo_world) = bad_credentials"
proof -
  have "fst (run_state (login demo_env [] (Json \<lparr>lr_email = m, lr_password = p\<rparr>)) demo_world) = bad_credentials"
    if "m = [97] \<and> p = [113] \<or> m = [99] \<and> p = [112]" for m p
  proof -
    let ?req = "\<lparr>lr_email = m, lr_password = p\<rparr>"
    let ?found = "find_row (identifier_matches demo_env m) (users demo_world)"
    have fit: "valid_login ?req" using that by (auto simp: valid_login_def utf8_len_def)
    have bad: "\<not> (password_verified demo_env p ?found \<and> (\<exists>u. ?found = Some u \<and> u_is_active u))"
      using that by (auto simp: demo_lookup_simps)
    have off: "\<not> ldap_enabled demo_world" "\<not> local_password_login_disabled demo_world"
      by (simp_all add: demo_world_def empty_world_def)
    show ?thesis
      using failed_login_uniform [OF demo_healthy(1) fit off refl _ refl
          prod.collapse [symmetric], of demo_env] bad by simp
  qed
  then show ?thesis by blast
qed

text \<open>
  Every way of signing in ends in the same session: the answer carries the access token in the
  body and the refresh token in the cookie (in the body as well only when the client may have it
  there), and the digest of that refresh token is stored as an unused, unexpired, unrevoked token of
  the signed-in user that lives thirty days.
\<close>

theorem session_established:
  assumes "session_ready env i s" and "new_access_token env i (app_now s) = Inr access"
    and "run_state (issue_session env h i act) s = (r, t)"
  shows "rs_status r = 200 \<and> rs_cookie r = SetCookie (fresh_raw env s) \<and>
    rs_body r = TokenBody access (if should_echo_refresh env False h then Some (fresh_raw env s) else None) \<and>
    (\<exists>lk. lookup_token (fresh_hash env s) t = Some lk \<and> lk_user_id lk = i \<and> lk_used_at lk = None \<and>
       \<not> lk_family_revoked lk \<and> lk_expires_at lk = app_now s + 30 * 24 * 60 * 60)"
  using wpI [OF assms(3) issue_session_wp [OF assms(1,2)]] by (simp add: REFRESH_TTL_SECS_def)

lemma demo_session_ready: "session_ready demo_env 7 demo_world"
  by (simp add: session_ready_def store_ids_ok_def demo_lookup_simps healthy_def new_access_token_def
      issue_access_token_def issue_typed_def set_expiry_def Let_def RFC3339_MIN_def RFC3339_MAX_def
      ACCESS_TTL_SECS_def)

lemma demo_access: "new_access_token demo_env 7 (app_now demo_world) = Inr [1900, 7]"
  by (simp add: demo_lookup_simps new_access_token_def issue_access_token_def issue_typed_def
      set_expiry_def Let_def RFC3339_MIN_def RFC3339_MAX_def ACCESS_TTL_SECS_def)

lemma session_established_witness:
  "\<exists>lk. lookup_token (fresh_hash demo_env demo_world)
     (snd (run_state (issue_session demo_env [] 7 (lit ''login_success'')) demo_world)) = Some lk \<and>
     lk_user_id lk = 7 \<and> lk_expires_at lk = 2593000"
  using session_established [OF demo_session_ready demo_access prod.collapse [symmetric],
      of "[]" "lit ''login_success''"]
  by (auto simp: demo_world_def empty_world_def)

text \<open>
  The audit log marks a user's first sign-in once: of the three actions the code counts, the first
  one in a user's history adds the mark and no later one does; whatever the action, the sign-in adds
  the mark exactly when none of the three has been recorded before.
\<close>

theorem first_login_once:
  assumes "session_ready env i s" and "act \<noteq> lit ''login_first''"
    and "run_state (issue_session env h i act) s = (r, t)"
  shows "login_first_events i (audit_log t) =
      login_first_events i (audit_log s) + (if first_logins i (audit_log s) = 0 then 1 else 0) \<and>
    (act \<in> set FIRST_LOGIN_ACTIONS \<longrightarrow> first_logins i (audit_log t) > 0) \<and>
    (act \<notin> set FIRST_LOGIN_ACTIONS \<longrightarrow> first_logins i (audit_log t) = first_logins i (audit_log s))"
proof -
  obtain access where "new_access_token env i (app_now s) = Inr access"
    using assms(1) by (auto simp: session_ready_def)
  from wpI [OF assms(3) issue_session_wp [OF assms(1) this]] assms(2) show ?thesis
    by (auto simp: first_logins_def login_first_events_def count_where_def)
qed

text \<open>
  The actions of the second-factor routes are not among the three, so a user who always signs in with
  a second factor is marked as a first sign-in every time.
\<close>

lemma second_factor_actions_not_counted:
  "lit ''login_2fa_success'' \<notin> set FIRST_LOGIN_ACTIONS" "lit ''login_passkey_success'' \<notin> set FIRST_LOGIN_ACTIONS"
  by (simp_all add: FIRST_LOGIN_ACTIONS_def)

lemma first_login_once_witness:
  "login_first_events 7 (audit_log (snd (run_state
     (issue_session demo_env [] 7 (lit ''login_2fa_success'')) demo_world))) = 1 \<and>
   first_logins 7 (audit_log (snd (run_state
     (issue_session demo_env [] 7 (lit ''login_2fa_success'')) demo_world))) = 0"
  using first_login_once [OF demo_session_ready _ prod.collapse [symmetric],
      of "lit ''login_2fa_success''" "[]"]
  by (simp add: FIRST_LOGIN_ACTIONS_def demo_world_def empty_world_def first_logins_def
      login_first_events_def count_where_def)

text \<open>
  C36: Registration creates at most the one account asked for, under the normalized e-mail address;
  with open registration it is never a superadmin, and with closed registration there was an
  unused, unexpired invitation with the presented secret for this e-mail address, the account is a
  superadmin exactly when the invitation says so, and the invitation is spent with it.
\<close>

theorem registration_gated:
  assumes "run_state (register env h (Json req)) s = (r, t)" and "users t \<noteq> users s"
  shows "\<exists>u. users t = users s @ [u] \<and> u_email u = normalize_email env (rr_email req) \<and>
    u_username u = rr_username req \<and>
    (if open_registration s then \<not> u_is_superadmin u
     else (\<exists>iv\<in>set (pinvites s). usable_invite env req s iv \<and>
             (u_is_superadmin u \<longleftrightarrow> i_role iv = lit ''superadmin'')) \<and>
          pinvites t = invites_claimed env req s)"
  using wpI [OF assms(1) register_wp] assms(2) by blast

definition demo_invite :: pinvite_row where
  "demo_invite = \<lparr>i_id = 1, i_email = [97], i_role = lit ''superadmin'', i_token_hash = [48, 53],
     i_invited_by = None, i_expires_at = 2000, i_accepted_at = None, i_created_at = 0\<rparr>"

definition demo_register :: "ustr option \<Rightarrow> RegisterRequest" where
  "demo_register token = \<lparr>rr_email = [97], rr_username = [98, 98, 98], rr_password = replicate 12 113,
     rr_full_name = [], rr_invitation_token = token\<rparr>"

lemma registration_gated_witness:
  "\<exists>u. users (snd (run_state (register demo_env [] (Json (demo_register (Some [5]))))
         (empty_world\<lparr>pinvites := [demo_invite]\<rparr>))) = [u] \<and> u_is_superadmin u"
proof -
  let ?s = "empty_world\<lparr>pinvites := [demo_invite]\<rparr>"
  let ?run = "run_state (register demo_env [] (Json (demo_register (Some [5])))) ?s"
  have ok: "valid_register demo_env (demo_register (Some [5]))"
    "check_strength (e_zxcvbn demo_env) (rr_password (demo_register (Some [5])))
       [rr_email (demo_register (Some [5])), rr_username (demo_register (Some [5]))] = Inr ()"
    by (simp_all add: valid_register_def demo_register_def demo_env_def byte_len_def utf8_len_def sum_list_replicate
        is_ascii_alnum_def is_ascii_alpha_def is_ascii_lower_def check_strength_def MIN_PASSWORD_LEN_def
        MIN_ZXCVBN_SCORE_def)
  have invite: "sha256_hex (e_sha256 demo_env) [5] = [48, 53]"
    by (simp add: demo_env_def sha256_hex_def fmt_02x_def as_bytes_def utf8_char_def from_digit16_def unwrap_or_def)
  have role: "PlatformInviteRole_parse (lit ''superadmin'') = Some PlatformInviteRole.Superadmin"
    by (simp add: platformInviteRole.dec_iff)
  have hash: "e_hash_password demo_env salt p pep = Inr p" for salt p pep by (simp add: demo_env_def)
  have lower: "to_lowercase demo_env (trim [97]) = [97]" "normalize_email demo_env [97] = [97]"
    by (simp_all add: demo_lookup_simps)
  have "wp (register demo_env [] (Json (demo_register (Some [5])))) (\<lambda>r t. users t \<noteq> []) ?s"
    using ok
    by (simp add: register_def wp_rules wp_stmt Let_def parse_json_def claim_invitation_def
        find_pending_def open_pinvite_def invite role lower create_account_def create_with_flags_def
        insert_user_def any_row_def mark_accepted_def affected_def count_where_def find_row_def
        demo_register_def demo_invite_def empty_world_def hash)
  then have "users (snd ?run) \<noteq> users ?s" by (simp add: wp_def case_prod_beta empty_world_def)
  from registration_gated [OF prod.collapse [symmetric] this]
  show ?thesis by (auto simp: empty_world_def demo_invite_def)
qed

text \<open>
  When the second-factor query fails, the code goes on as if there were none: a database error at that
  statement turns a challenge into a session.
\<close>

lemma second_factor_fails_open:
  assumes "faults s (calls s)"
  shows "run_state (challenge_or_session env h i m act) s =
    run_state (issue_session env h i act) (s\<lparr>calls := Suc (calls s)\<rparr>)"
  using assms by (simp add: challenge_or_session_def has_active_2fa_def query_def run_stmt Let_def)

end
