(* ===== verification/Refresh.thy ===== *)
theory Refresh
  imports Login_Correct
begin

text \<open>
  Keeping a session alive and ending it (\<open>crates/api/src/auth/handlers.rs\<close>): the rotation of the
  refresh token with its replay detection, and signing out.

  A token may be exchanged once. A token that comes back within the grace window lost a race and
  changes nothing; one that comes back later is taken for stolen and ends the whole family.
\<close>

section \<open>Handlers\<close>

definition REFRESH_REUSE_GRACE_SECS :: int where "REFRESH_REUSE_GRACE_SECS = 30"

definition unauthorized_problem :: response where
  "unauthorized_problem = problem 401 (lit ''unauthorized'') None"

definition unauthorized_clear :: response where
  "unauthorized_clear = problem 401 (lit ''unauthorized'') None\<lparr>rs_cookie := ClearCookie\<rparr>"

definition superseded_problem :: response where
  "superseded_problem = problem 401 (lit ''refresh_superseded'')
     (Some (lit ''this refresh token was just rotated by a concurrent request; retry''))"

definition refresh_superseded ::
    "env \<Rightarrow> HeaderMap \<Rightarrow> RefreshLookup \<Rightarrow> ('w world_scheme, response) state" where
  "refresh_superseded env headers lk = do {
     _ \<leftarrow> audit env headers (Some (lk_user_id lk)) (lit ''refresh_superseded'')
           [(lit ''family_id'', e_uuid_str env (lk_family_id lk))];
     State_Monad.return superseded_problem
   }"

definition stamp_session_activity :: "env \<Rightarrow> nat \<Rightarrow> HeaderMap \<Rightarrow> ('w world_scheme, unit) state" where
  "stamp_session_activity env family_id headers =
     (let addr = req_ip env headers; loc = e_geoip env addr
      in touch_family family_id (Some addr) (Option.bind loc fst) (Option.bind loc snd))"

text \<open>The second half of a refresh: spend the token and hand out its successor.\<close>

definition hand_over ::
    "env \<Rightarrow> HeaderMap \<Rightarrow> RefreshLookup \<Rightarrow> bool \<Rightarrow> ('w world_scheme, response) state" where
  "hand_over env headers lk by_body = do {
     bytes \<leftarrow> draw_bytes;
     let new_refresh = generate (e_sha256 env) bytes;
     now \<leftarrow> get_now;
     inserted \<leftarrow> insert_token (lk_family_id lk) (rt_hash new_refresh) (Some (lk_token_id lk))
                   (now + REFRESH_TTL_SECS);
     case inserted of
       Inl _ \<Rightarrow> State_Monad.return internal
     | Inr _ \<Rightarrow>
         (case new_access_token env (lk_user_id lk) now of
            Inl _ \<Rightarrow> State_Monad.return internal
          | Inr access \<Rightarrow> do {
              _ \<leftarrow> audit env headers (Some (lk_user_id lk)) (lit ''refresh'') [];
              _ \<leftarrow> stamp_session_activity env (lk_family_id lk) headers;
              State_Monad.return \<lparr>rs_status = 200,
                rs_body = TokenBody access
                  (if should_echo_refresh env by_body headers then Some (rt_raw new_refresh) else None),
                rs_cookie = SetCookie (rt_raw new_refresh)\<rparr>
            })
   }"

definition rotate ::
    "env \<Rightarrow> HeaderMap \<Rightarrow> RefreshLookup \<Rightarrow> bool \<Rightarrow> ('w world_scheme, response) state" where
  "rotate env headers lk by_body = do {
     marked \<leftarrow> mark_used (lk_token_id lk);
     case marked of
       Inl _ \<Rightarrow> State_Monad.return internal
     | Inr won \<Rightarrow>
         if \<not> won then refresh_superseded env headers lk
         else hand_over env headers lk by_body
   }"

definition in_grace :: "int \<Rightarrow> RefreshLookup \<Rightarrow> bool" where
  "in_grace now lk \<longleftrightarrow>
     (case lk_used_at lk of None \<Rightarrow> False | Some used \<Rightarrow> now - used \<le> REFRESH_REUSE_GRACE_SECS)"

definition refresh ::
    "env \<Rightarrow> HeaderMap \<Rightarrow> ustr option \<Rightarrow> ustr option \<Rightarrow> ('w world_scheme, response) state" where
  "refresh env headers cookie_value body_token =
     (case refresh_token_from cookie_value body_token of
        None \<Rightarrow> State_Monad.return unauthorized_problem
      | Some (raw, by_body) \<Rightarrow> do {
          let token_hash = hash_token (e_sha256 env) raw;
          connected \<leftarrow> pool_get;
          if \<not> connected then State_Monad.return internal
          else do {
            lookup \<leftarrow> find_by_hash token_hash;
            case lookup of
              Inl _ \<Rightarrow> State_Monad.return internal
            | Inr None \<Rightarrow> State_Monad.return unauthorized_problem
            | Inr (Some lk) \<Rightarrow> do {
                now \<leftarrow> get_now;
                if lk_family_revoked lk then State_Monad.return unauthorized_clear
                else if in_grace now lk then refresh_superseded env headers lk
                else if lk_used_at lk \<noteq> None
                then do {
                  _ \<leftarrow> revoke_family (lk_family_id lk) (lit ''reuse_detected'');
                  _ \<leftarrow> audit env headers (Some (lk_user_id lk)) (lit ''refresh_reuse_detected'')
                        [(lit ''family_id'', e_uuid_str env (lk_family_id lk))];
                  State_Monad.return unauthorized_clear
                }
                else if lk_expires_at lk \<le> now then State_Monad.return unauthorized_clear
                else do {
                  seen \<leftarrow> touch_last_seen (lk_user_id lk);
                  case seen of
                    Inl _ \<Rightarrow> State_Monad.return internal
                  | Inr account \<Rightarrow>
                      if (case account of None \<Rightarrow> False | Some st \<Rightarrow> may_authenticate st)
                      then rotate env headers lk by_body
                      else do {
                        _ \<leftarrow> revoke_family (lk_family_id lk) (lit ''account_blocked'');
                        State_Monad.return unauthorized_clear
                      }
                }
              }
          }
        })"

definition logout ::
    "env \<Rightarrow> HeaderMap \<Rightarrow> ustr option \<Rightarrow> ustr option \<Rightarrow> ('w world_scheme, response) state" where
  "logout env headers cookie_value body_token = (
     let done = \<lparr>rs_status = 204, rs_body = NoBody, rs_cookie = ClearCookie\<rparr> in
     case map_option fst (refresh_token_from cookie_value body_token) of
        None \<Rightarrow> State_Monad.return done
      | Some raw \<Rightarrow> do {
          connected \<leftarrow> pool_get;
          if \<not> connected then State_Monad.return internal
          else do {
            lookup \<leftarrow> find_by_hash (hash_token (e_sha256 env) raw);
            _ \<leftarrow> (case ok_or lookup None of
                   None \<Rightarrow> State_Monad.return ()
                 | Some lk \<Rightarrow> do {
                     _ \<leftarrow> revoke_family (lk_family_id lk) (lit ''logout'');
                     audit env headers (Some (lk_user_id lk)) (lit ''logout'') []
                   });
            State_Monad.return done
          }
        })"

section \<open>Aging\<close>

lemma auth_keeps_refresh [auth_keeps]:
  "keeps auth_ages (hand_over env h lk b)" "keeps auth_ages (rotate env h lk b)"
  "keeps auth_ages (refresh env h ck bd)"
  "keeps auth_ages (logout env h ck bd)"
proof -
  have sup: "keeps auth_ages (refresh_superseded env h lk)" for lk
    unfolding refresh_superseded_def by (intro auth_rules auth_keeps)
  have stamp: "keeps auth_ages (stamp_session_activity env i h)" for i
    unfolding stamp_session_activity_def by (intro auth_rules auth_keeps)
  show hand: "keeps auth_ages (hand_over env h lk b)" for lk b
    unfolding hand_over_def by (intro auth_rules auth_keeps stamp)
  show rot: "keeps auth_ages (rotate env h lk b)" for lk b
    unfolding rotate_def by (intro auth_rules auth_keeps sup hand)
  show "keeps auth_ages (refresh env h ck bd)"
    unfolding refresh_def by (intro auth_rules auth_keeps sup rot)
  show "keeps auth_ages (logout env h ck bd)"
    unfolding logout_def by (intro auth_rules auth_keeps)
qed

lemma wp_keeps: "keeps R m \<Longrightarrow> wp m (\<lambda>_. R s) s"
  by (simp add: keeps_wp)

lemma no_session [simp]:
  "\<not> is_session unauthorized_problem" "\<not> is_session unauthorized_clear" "\<not> is_session superseded_problem"
  by (simp_all add: is_session_def unauthorized_problem_def unauthorized_clear_def superseded_problem_def
      problem_def)

section \<open>A revoked family, a spent token\<close>

definition family_dead :: "nat \<Rightarrow> 'w world_scheme \<Rightarrow> bool" where
  "family_dead fid s \<longleftrightarrow> fid < next_id s \<and> (\<forall>f\<in>set (families s). f_id f = fid \<longrightarrow> f_revoked_at f \<noteq> None)"

lemma auth_ages_next_id: "auth_ages s t \<Longrightarrow> next_id s \<le> next_id t"
  by (simp add: auth_ages_def ages_def lessThan_subset_iff)

lemma family_dead_stays:
  assumes "auth_ages s t" and "family_dead fid s"
  shows "family_dead fid t"
  unfolding family_dead_def
proof (intro conjI ballI impI)
  show "fid < next_id t" using assms(2) auth_ages_next_id [OF assms(1)] by (simp add: family_dead_def)
  fix f
  assume f: "f \<in> set (families t)" "f_id f = fid"
  have "ages family_key (\<lambda>r. f_revoked_at r \<noteq> None) (ids_below (next_id s)) (families s)
      (ids_below (next_id t)) (families t)"
    using assms(1) by (simp add: auth_ages_def)
  moreover have "family_key f \<in> ids_below (next_id s)"
    using f(2) assms(2) by (simp add: family_key_def ids_below_def family_dead_def)
  ultimately obtain g where "g \<in> set (families s)" "family_key g = family_key f"
      "f_revoked_at g \<noteq> None \<longrightarrow> f_revoked_at f \<noteq> None"
    using f(1) unfolding ages_def by blast
  then show "f_revoked_at f \<noteq> None"
    using assms(2) f(2) by (simp add: family_dead_def family_key_def)
qed

lemma family_dead_revoke:
  "fid < next_id s \<Longrightarrow> (\<And>f. f_id f = fid \<Longrightarrow> P f) \<Longrightarrow> family_dead fid (revoke_where P reason s)"
  by (auto simp: family_dead_def revoke_where_def update_where_def)

lemma lookup_token_facts:
  assumes "lookup_token h s = Some lk"
  shows "\<exists>tok f. tok \<in> set (tokens s) \<and> f \<in> set (families s) \<and> t_token_hash tok = h \<and>
     lk = \<lparr>lk_token_id = t_id tok, lk_family_id = t_family_id tok, lk_user_id = f_user_id f,
           lk_used_at = t_used_at tok, lk_expires_at = t_expires_at tok,
           lk_family_revoked = (f_revoked_at f \<noteq> None)\<rparr> \<and>
     f_id f = t_family_id tok"
  using assms unfolding lookup_token_def
  by (force split: option.splits dest: find_row_Some)

lemma lookup_dead: "lookup_token h s = Some lk \<Longrightarrow> family_dead (lk_family_id lk) s \<Longrightarrow> lk_family_revoked lk"
  using lookup_token_facts [of h s lk] by (auto simp: family_dead_def)

lemma lookup_id: "lookup_token h s = Some lk \<Longrightarrow> store_ids_ok s \<Longrightarrow>
    lk_token_id lk < next_id s \<and> lk_family_id lk < next_id s"
  using lookup_token_facts [of h s lk] by (auto simp: store_ids_ok_def)

lemma lookup_frame [simp]:
  "lookup_token h (s\<lparr>calls := v0\<rparr>) = lookup_token h s"
  "lookup_token h (s\<lparr>faults := v1\<rparr>) = lookup_token h s"
  "lookup_token h (s\<lparr>app_now := v2\<rparr>) = lookup_token h s"
  "lookup_token h (s\<lparr>db_now := v3\<rparr>) = lookup_token h s"
  "lookup_token h (s\<lparr>drawn := v4\<rparr>) = lookup_token h s"
  "lookup_token h (s\<lparr>users := v5\<rparr>) = lookup_token h s"
  "lookup_token h (s\<lparr>audit_log := v6\<rparr>) = lookup_token h s"
  "lookup_token h (upd_live i g s) = lookup_token h s"
  for s :: "'w world_scheme"
  by (simp_all add: lookup_token_def upd_live_def split: option.split)

section \<open>What a refresh may do, whatever fails\<close>

lemma superseded_resp: "wp (refresh_superseded env h lk) (\<lambda>r t. r = superseded_problem) s"
  by (simp add: refresh_superseded_def wp_rules Let_def)

lemma wp_conj: "wp m P s \<Longrightarrow> wp m Q s \<Longrightarrow> wp m (\<lambda>a t. P a t \<and> Q a t) s"
  by (auto simp: wp_def split: prod.splits)

text \<open>A rotation hands out a session only if it spent the token itself.\<close>

lemma rotate_spends:
  assumes "store_ids_ok s" and "lk_token_id lk < next_id s"
  shows "wp (rotate env h lk b) (\<lambda>r t. is_session r \<longrightarrow>
     token_spent (lk_token_id lk) t \<and> (\<exists>tok\<in>set (tokens s). unused_token (lk_token_id lk) tok)) s"
proof (cases "faults s (calls s) \<or> \<not> (\<exists>tok\<in>set (tokens s). unused_token (lk_token_id lk) tok)")
  case True
  then show ?thesis
    by (cases "faults s (calls s)")
       (simp_all add: rotate_def mark_used_def affected_pos wp_rules wp_mono [OF superseded_resp])
next
  case False
  let ?k = "lk_token_id lk"
  let ?t = "s\<lparr>calls := Suc (calls s), tokens := update_where (unused_token ?k)
      (\<lambda>t. t\<lparr>t_used_at := Some (db_now s)\<rparr>) (tokens s)\<rparr>"
  have spent: "token_spent ?k ?t"
    using assms(2) by (auto simp: token_spent_def update_where_def unused_token_def)
  have "wp (hand_over env h lk b) (\<lambda>_. auth_ages ?t) ?t" by (rule wp_keeps) (rule auth_keeps)
  then have "wp (hand_over env h lk b) (\<lambda>_ t. token_spent ?k t) ?t"
    by (rule wp_mono) (rule token_spent_stays [OF _ spent])
  then have "wp (hand_over env h lk b) (\<lambda>r t. is_session r \<longrightarrow> token_spent ?k t \<and>
      (\<exists>tok\<in>set (tokens s). unused_token ?k tok)) ?t"
    by (rule wp_mono) (use False in blast)
  with False show ?thesis
    by (simp add: rotate_def mark_used_def affected_pos wp_bind wp_execute)
qed

definition account_ok :: "uid \<Rightarrow> 'w world_scheme \<Rightarrow> bool" where
  "account_ok i s \<longleftrightarrow> (case find_row (\<lambda>u. has_id i u \<and> live u) (users s) of None \<Rightarrow> False
     | Some u \<Rightarrow> u_is_active u \<and> u_banned_at u = None)"

lemma refresh_session:
  assumes "store_ids_ok s"
  shows "wp (refresh env h ck bd) (\<lambda>r t. is_session r \<longrightarrow>
     (\<exists>raw b lk. refresh_token_from ck bd = Some (raw, b) \<and>
        lookup_token (hash_token (e_sha256 env) raw) s = Some lk \<and> \<not> lk_family_revoked lk \<and>
        lk_used_at lk = None \<and> app_now s < lk_expires_at lk \<and> account_ok (lk_user_id lk) s \<and>
        token_spent (lk_token_id lk) t)) s"
proof (cases "refresh_token_from ck bd")
  case None
  then show ?thesis by (simp add: refresh_def wp_rules)
next
  case (Some p)
  obtain raw b where p: "p = (raw, b)" by (cases p)
  note tok = Some [unfolded p]
  show ?thesis
  proof (cases "lookup_token (hash_token (e_sha256 env) raw) s")
    case None
    with tok show ?thesis by (simp add: refresh_def find_by_hash_def wp_rules Let_def)
  next
    case (Some lk)
    note lk = Some
    show ?thesis
    proof (cases "lk_family_revoked lk \<or> lk_used_at lk \<noteq> None \<or> lk_expires_at lk \<le> app_now s \<or>
        \<not> account_ok (lk_user_id lk) s")
      case True
      with tok lk show ?thesis
        by (auto simp: refresh_def find_by_hash_def wp_rules Let_def in_grace_def refresh_superseded_def
            revoke_family_def touch_last_seen_def account_ok_def may_authenticate_def split: option.split)
    next
      case False
      let ?s = "upd_live (lk_user_id lk) (\<lambda>u. u\<lparr>u_last_seen_at := Some (db_now s)\<rparr>) (s\<lparr>calls := Suc (Suc (Suc (calls s)))\<rparr>)"
      have ok: "store_ids_ok ?s" "lk_token_id lk < next_id ?s"
        using assms lookup_id [OF lk] by (simp_all add: store_ids_ok_def upd_live_def)
      from False obtain u where "find_row (\<lambda>u. has_id (lk_user_id lk) u \<and> live u) (users s) = Some u"
        "u_is_active u" "u_banned_at u = None" by (auto simp: account_ok_def split: option.splits)
      with False tok lk assms show ?thesis
        by (simp add: refresh_def find_by_hash_def wp_rules Let_def in_grace_def touch_last_seen_def
            may_authenticate_def) (intro impI wp_mono [OF rotate_spends [OF ok]]; auto)
    qed
  qed
qed

lemma token_spent_lookup: "token_spent k s \<Longrightarrow> lookup_token h s = Some lk \<Longrightarrow> lk_token_id lk = k \<Longrightarrow> lk_used_at lk \<noteq> None"
  using lookup_token_facts [of h s lk] by (auto simp: token_spent_def)

lemma no_session_run:
  assumes "wp m (\<lambda>r t. \<not> is_session r) s"
  shows "\<not> is_session (fst (run_state m s))"
  using assms by (simp add: wp_def case_prod_beta)

lemma spent_refused:
  assumes "store_ids_ok u" and "token_spent k u" and "refresh_token_from ck bd = Some (raw, b)"
    and "\<And>lk. lookup_token (hash_token (e_sha256 env) raw) u = Some lk \<Longrightarrow> lk_token_id lk = k"
  shows "\<not> is_session (fst (run_state (refresh env h ck bd) u))"
proof (rule no_session_run, rule wp_mono [OF refresh_session [OF assms(1)]], rule notI)
  fix r t
  assume "is_session r \<longrightarrow> (\<exists>raw b lk. refresh_token_from ck bd = Some (raw, b) \<and>
      lookup_token (hash_token (e_sha256 env) raw) u = Some lk \<and> \<not> lk_family_revoked lk \<and>
      lk_used_at lk = None \<and> app_now u < lk_expires_at lk \<and> account_ok (lk_user_id lk) u \<and>
      token_spent (lk_token_id lk) t)" and "is_session r"
  then obtain lk where "lookup_token (hash_token (e_sha256 env) raw) u = Some lk" "lk_used_at lk = None"
    using assms(3) by auto
  with assms(4) token_spent_lookup [OF assms(2)] show False by blast
qed

lemma dead_refused:
  assumes "store_ids_ok u" and "family_dead fid u" and "refresh_token_from ck bd = Some (raw, b)"
    and "\<And>lk. lookup_token (hash_token (e_sha256 env) raw) u = Some lk \<Longrightarrow> lk_family_id lk = fid"
  shows "\<not> is_session (fst (run_state (refresh env h ck bd) u))"
proof (rule no_session_run, rule wp_mono [OF refresh_session [OF assms(1)]], rule notI)
  fix r t
  assume "is_session r \<longrightarrow> (\<exists>raw b lk. refresh_token_from ck bd = Some (raw, b) \<and>
      lookup_token (hash_token (e_sha256 env) raw) u = Some lk \<and> \<not> lk_family_revoked lk \<and>
      lk_used_at lk = None \<and> app_now u < lk_expires_at lk \<and> account_ok (lk_user_id lk) u \<and>
      token_spent (lk_token_id lk) t)" and "is_session r"
  then obtain lk where "lookup_token (hash_token (e_sha256 env) raw) u = Some lk" "\<not> lk_family_revoked lk"
    using assms(3) by auto
  with assms(4) lookup_dead assms(2) show False by blast
qed

section \<open>What a refresh does while the database answers\<close>

lemma find_row_update:
  "(\<And>r. P r \<Longrightarrow> Q (f r) = Q r) \<Longrightarrow>
     find_row Q (update_where P f rows) = map_option (\<lambda>r. if P r then f r else r) (find_row Q rows)"
  by (induction rows) (auto simp: find_row_def)

definition rotation_ready :: "env \<Rightarrow> ustr \<Rightarrow> RefreshLookup \<Rightarrow> 'w world_scheme \<Rightarrow> bool" where
  "rotation_ready env raw lk s \<longleftrightarrow>
     healthy s \<and> lookup_token (hash_token (e_sha256 env) raw) s = Some lk \<and> \<not> lk_family_revoked lk \<and>
     lk_used_at lk = None \<and> app_now s < lk_expires_at lk \<and> account_ok (lk_user_id lk) s \<and>
     (\<forall>t\<in>set (tokens s). t_token_hash t \<noteq> fresh_hash env s)"

lemma refresh_rotates_wp:
  assumes "rotation_ready env raw lk s" and "refresh_token_from ck bd = Some (raw, b)"
    and "new_access_token env (lk_user_id lk) (app_now s) = Inr access"
  shows "wp (refresh env h ck bd) (\<lambda>r t.
     r = \<lparr>rs_status = 200,
          rs_body = TokenBody access (if should_echo_refresh env b h then Some (fresh_raw env s) else None),
          rs_cookie = SetCookie (fresh_raw env s)\<rparr> \<and>
     lookup_token (fresh_hash env s) t =
       Some \<lparr>lk_token_id = next_id s, lk_family_id = lk_family_id lk, lk_user_id = lk_user_id lk,
             lk_used_at = None, lk_expires_at = app_now s + REFRESH_TTL_SECS, lk_family_revoked = False\<rparr> \<and>
     lookup_token (hash_token (e_sha256 env) raw) t = Some (lk\<lparr>lk_used_at := Some (db_now s)\<rparr>)) s"
proof -
  let ?h = "hash_token (e_sha256 env) raw"
  have hl: "healthy s" and lookup: "lookup_token ?h s = Some lk" and new: "\<forall>t\<in>set (tokens s). t_token_hash t \<noteq> fresh_hash env s"
    using assms(1) by (auto simp: rotation_ready_def)
  obtain tok f where row: "find_row (\<lambda>t. t_token_hash t = ?h) (tokens s) = Some tok"
    "find_row (\<lambda>f. f_id f = t_family_id tok) (families s) = Some f"
    and lk: "lk = \<lparr>lk_token_id = t_id tok, lk_family_id = t_family_id tok, lk_user_id = f_user_id f,
           lk_used_at = t_used_at tok, lk_expires_at = t_expires_at tok,
           lk_family_revoked = (f_revoked_at f \<noteq> None)\<rparr>"
    using lookup by (auto simp: lookup_token_def split: option.splits)
  have mem: "tok \<in> set (tokens s)" "t_token_hash tok = ?h" "f \<in> set (families s)" "f_id f = t_family_id tok"
    using find_row_Some [OF row(1)] find_row_Some [OF row(2)] by auto
  have live_tok: "t_used_at tok = None" "f_revoked_at f = None" "app_now s < t_expires_at tok"
    using assms(1) by (simp_all add: rotation_ready_def lk)
  obtain u where u: "find_row (\<lambda>u. has_id (f_user_id f) u \<and> live u) (users s) = Some u"
    "u_is_active u" "u_banned_at u = None"
    using assms(1) by (auto simp: rotation_ready_def account_ok_def lk split: option.splits)
  have hash: "rt_hash (generate (e_sha256 env) (draws s (drawn s))) = fresh_hash env s"
    "rt_raw (generate (e_sha256 env) (draws s (drawn s))) = fresh_raw env s"
    by (simp_all add: fresh_hash_def fresh_raw_def generate_hash)
  have none: "find_row (\<lambda>t. t_token_hash t = fresh_hash env s) (tokens s) = None"
    using new by (simp add: find_row_None)
  have marked: "\<exists>t\<in>set (tokens s). unused_token (t_id tok) t"
    using mem(1) live_tok(1) by (auto simp: unused_token_def)
  have differ: "fresh_hash env s \<noteq> ?h" using new mem(1,2) by auto
  have unique: "\<not> any_row (\<lambda>t. t_token_hash t = fresh_hash env s)
      (update_where (unused_token (t_id tok)) (\<lambda>t. t\<lparr>t_used_at := Some (db_now s)\<rparr>) (tokens s))"
    using new by (auto simp: any_row_iff set_update_where)
  have fam: "any_row (\<lambda>f. f_id f = t_family_id tok) (families s)"
    using mem(3,4) by (auto simp: any_row_iff)
  have spend: "find_row (\<lambda>t. t_token_hash t = x)
      (update_where (unused_token (t_id tok)) (\<lambda>t. t\<lparr>t_used_at := Some (db_now s)\<rparr>) (tokens s)) =
    map_option (\<lambda>r. if unused_token (t_id tok) r then r\<lparr>t_used_at := Some (db_now s)\<rparr> else r)
      (find_row (\<lambda>t. t_token_hash t = x) (tokens s))" for x
    by (rule find_row_update) simp
  have mine: "unused_token (t_id tok) tok" using live_tok(1) by (simp add: unused_token_def)
  show ?thesis
    using assms(2,3) live_tok
    by (simp add: refresh_def find_by_hash_def lookup wp_rules wp_stmt Let_def healthyD [OF hl] lk in_grace_def
        touch_last_seen_def u may_authenticate_def rotate_def hand_over_def mark_used_def affected_pos marked
        hash insert_token_def unique has_family_def fam new_access_token_def stamp_session_activity_def
        touch_family_def lookup_token_def find_row_append none row upd_live_def spend mine
        find_row_update)
qed

text \<open>The stores apart from clocks, counters, the audit log and the last-seen columns.\<close>

definition same_sessions :: "'w world_scheme \<Rightarrow> 'w world_scheme \<Rightarrow> bool" where
  "same_sessions s t \<longleftrightarrow> tokens t = tokens s \<and> families t = families s \<and> recovery t = recovery s \<and> users t = users s"

lemma superseded_wp:
  "wp (refresh_superseded env h lk) (\<lambda>r t. r = superseded_problem \<and> same_sessions s t) s"
  by (simp add: refresh_superseded_def same_sessions_def wp_rules Let_def)

lemma refresh_late_replay_wp:
  assumes "healthy s" and "store_ids_ok s" and "refresh_token_from ck bd = Some (raw, b)"
    and "lookup_token (hash_token (e_sha256 env) raw) s = Some lk" and "\<not> lk_family_revoked lk"
    and "lk_used_at lk = Some used" and "app_now s - used > REFRESH_REUSE_GRACE_SECS"
  shows "wp (refresh env h ck bd) (\<lambda>r t. r = unauthorized_clear \<and> family_dead (lk_family_id lk) t) s"
proof -
  have "family_dead (lk_family_id lk) (revoke_where (\<lambda>f. f_id f = lk_family_id lk) (lit ''reuse_detected'')
      (s\<lparr>calls := n\<rparr>))" for n
    using lookup_id [OF assms(4,2)] by (intro family_dead_revoke) auto
  then have dead: "family_dead (lk_family_id lk) (revoke_where (\<lambda>f. f_id f = lk_family_id lk) (lit ''reuse_detected'')
      (s\<lparr>calls := n\<rparr>)\<lparr>calls := m\<rparr>)"
    "family_dead (lk_family_id lk) (revoke_where (\<lambda>f. f_id f = lk_family_id lk) (lit ''reuse_detected'')
      (s\<lparr>calls := n\<rparr>)\<lparr>calls := m, audit_log := l\<rparr>)" for n m l
    by (simp_all add: family_dead_def)
  show ?thesis
    using assms dead
    by (simp add: refresh_def find_by_hash_def wp_rules Let_def healthyD in_grace_def revoke_family_def)
qed

lemma refresh_blocked_wp:
  assumes "healthy s" and "store_ids_ok s" and "refresh_token_from ck bd = Some (raw, b)"
    and "lookup_token (hash_token (e_sha256 env) raw) s = Some lk" and "\<not> lk_family_revoked lk"
    and "lk_used_at lk = None" and "app_now s < lk_expires_at lk" and "\<not> account_ok (lk_user_id lk) s"
  shows "wp (refresh env h ck bd) (\<lambda>r t. r = unauthorized_clear \<and> family_dead (lk_family_id lk) t) s"
proof -
  have "family_dead (lk_family_id lk) (revoke_where (\<lambda>f. f_id f = lk_family_id lk) (lit ''account_blocked'')
      (upd_live i g (s\<lparr>calls := n\<rparr>)\<lparr>calls := m\<rparr>))" for n m i g
    using lookup_id [OF assms(4,2)] by (intro family_dead_revoke) (auto simp: upd_live_def)
  with assms show ?thesis
    by (auto simp: refresh_def find_by_hash_def wp_rules Let_def healthyD in_grace_def revoke_family_def
        touch_last_seen_def account_ok_def may_authenticate_def upd_live_def split: option.split)
qed

lemma logout_wp:
  assumes "healthy s" and "store_ids_ok s" and "refresh_token_from ck bd = Some (raw, b)"
    and "lookup_token (hash_token (e_sha256 env) raw) s = Some lk"
  shows "wp (logout env h ck bd) (\<lambda>r t. rs_status r = 204 \<and> rs_cookie r = ClearCookie \<and>
     family_dead (lk_family_id lk) t) s"
proof -
  have dead: "family_dead (lk_family_id lk) (revoke_where (\<lambda>f. f_id f = lk_family_id lk) (lit ''logout'')
      (s\<lparr>calls := n\<rparr>)\<lparr>calls := m\<rparr>)"
    "family_dead (lk_family_id lk) (revoke_where (\<lambda>f. f_id f = lk_family_id lk) (lit ''logout'')
      (s\<lparr>calls := n\<rparr>)\<lparr>calls := m, audit_log := l\<rparr>)" for n m l
    using lookup_id [OF assms(4,2)]
    by (auto simp: family_dead_def revoke_where_def update_where_def)
  show ?thesis
    using assms dead
    by (simp add: logout_def find_by_hash_def wp_rules Let_def healthyD revoke_family_def)
qed

section \<open>Properties\<close>

definition demo_family :: "nat \<Rightarrow> uid \<Rightarrow> family_row" where
  "demo_family fid i =
     \<lparr>f_id = fid, f_user_id = i, f_user_agent = [], f_ip = None, f_created_at = 0, f_last_seen_at = 0,
      f_last_ip = None, f_country_code = None, f_city = None, f_revoked_at = None, f_revoked_reason = None\<rparr>"

text \<open>A signed-in user: family 9, token 1 for the secret \<open>[5]\<close>; with identity digests its hash is \<open>05\<close>.\<close>

definition demo_session :: "int option \<Rightarrow> world" where
  "demo_session used = demo_world\<lparr>families := [demo_family 9 7],
     tokens := [demo_token 1 9 (hash_token (e_sha256 demo_env) [5])\<lparr>t_used_at := used\<rparr>]\<rparr>"

definition demo_lookup :: "int option \<Rightarrow> RefreshLookup" where
  "demo_lookup used = \<lparr>lk_token_id = 1, lk_family_id = 9, lk_user_id = 7, lk_used_at = used,
     lk_expires_at = 5000, lk_family_revoked = False\<rparr>"

lemma demo_session_facts:
  "healthy (demo_session used)" "store_ids_ok (demo_session used)"
  "lookup_token (hash_token (e_sha256 demo_env) [5]) (demo_session used) = Some (demo_lookup used)"
  "refresh_token_from (Some [5]) None = Some ([5], False)" "app_now (demo_session used) = 1000"
  by (simp_all add: demo_session_def healthy_def store_ids_ok_def demo_token_def demo_family_def demo_lookup_def
      lookup_token_def demo_lookup_simps refresh_token_from_def)

text \<open>
  Rotation: presenting the live refresh token of an account in good standing answers with a new
  access token and a new refresh token, stores the new token's digest in the same family for the
  same user with a fresh thirty days, and leaves the presented one spent.
\<close>

theorem refresh_rotates:
  assumes "rotation_ready env raw lk s" and "refresh_token_from ck bd = Some (raw, b)"
    and "new_access_token env (lk_user_id lk) (app_now s) = Inr access"
    and "run_state (refresh env h ck bd) s = (r, t)"
  shows "r = \<lparr>rs_status = 200,
       rs_body = TokenBody access (if should_echo_refresh env b h then Some (fresh_raw env s) else None),
       rs_cookie = SetCookie (fresh_raw env s)\<rparr> \<and>
    lookup_token (fresh_hash env s) t =
      Some \<lparr>lk_token_id = next_id s, lk_family_id = lk_family_id lk, lk_user_id = lk_user_id lk,
            lk_used_at = None, lk_expires_at = app_now s + REFRESH_TTL_SECS, lk_family_revoked = False\<rparr> \<and>
    lookup_token (hash_token (e_sha256 env) raw) t = Some (lk\<lparr>lk_used_at := Some (db_now s)\<rparr>)"
  using wpI [OF assms(4) refresh_rotates_wp [OF assms(1-3)]] .

lemma demo_rotation_ready: "rotation_ready demo_env [5] (demo_lookup None) (demo_session None)"
proof -
  let ?fresh = "base64url (replicate 32 0)"
  have "length (hash_token (e_sha256 demo_env) [5]) = 2"
    by (simp add: hash_token_def demo_env_def length_hex_encode length_as_bytes utf8_len_def)
  moreover have "length (fresh_hash demo_env (demo_session None)) = 2 * byte_len ?fresh"
    by (simp add: fresh_hash_def fresh_raw_def generate_def Let_def hash_token_def demo_env_def length_hex_encode
        length_as_bytes demo_session_def demo_world_def empty_world_def)
  moreover have "43 \<le> byte_len ?fresh"
    using length_le_byte_len [of ?fresh] by (simp add: length_base64url)
  ultimately have "fresh_hash demo_env (demo_session None) \<noteq> hash_token (e_sha256 demo_env) [5]" by auto
  then have "\<forall>t\<in>set (tokens (demo_session None)). t_token_hash t \<noteq> fresh_hash demo_env (demo_session None)"
    by (simp add: demo_session_def demo_token_def)
  moreover have "account_ok 7 (demo_session None)"
    by (simp add: account_ok_def demo_session_def demo_world_def demo_user_def default_user_def find_row_def
        has_id_def live_def empty_world_def)
  ultimately show ?thesis
    by (simp add: rotation_ready_def demo_session_facts) (simp add: demo_lookup_def)
qed

lemma refresh_rotates_witness:
  "let t = snd (run_state (refresh demo_env [] (Some [5]) None) (demo_session None)) in
     \<exists>lk. lookup_token (fresh_hash demo_env (demo_session None)) t = Some lk \<and> lk_family_id lk = 9 \<and> lk_user_id lk = 7 \<and>
       lookup_token (hash_token (e_sha256 demo_env) [5]) t = Some (demo_lookup (Some 1000))"
proof -
  have "new_access_token demo_env (lk_user_id (demo_lookup None)) (app_now (demo_session None)) = Inr [1900, 7]"
    using demo_access by (simp add: demo_session_facts demo_lookup_def demo_world_def empty_world_def)
  from refresh_rotates [OF demo_rotation_ready demo_session_facts(4) this prod.collapse [symmetric]]
  show ?thesis
    by (simp add: Let_def demo_lookup_def demo_session_def demo_world_def empty_world_def)
qed

text \<open>
  C4: A refresh token is exchanged at most once, whatever fails: a refresh answers with a session only
  for a stored, unspent, unexpired token of an unrevoked family whose account may sign in, and
  whatever the program does next, presenting that token again never yields a session.
\<close>

theorem refresh_exchanged_once:
  assumes "store_ids_ok s" and "run_state (refresh env h ck bd) s = (r, t)" and "is_session r"
  shows "\<exists>raw b lk. refresh_token_from ck bd = Some (raw, b) \<and>
    lookup_token (hash_token (e_sha256 env) raw) s = Some lk \<and> \<not> lk_family_revoked lk \<and>
    lk_used_at lk = None \<and> app_now s < lk_expires_at lk \<and> account_ok (lk_user_id lk) s \<and>
    (\<forall>u h'. auth_ages t u \<and>
       (\<forall>lk'. lookup_token (hash_token (e_sha256 env) raw) u = Some lk' \<longrightarrow> lk_token_id lk' = lk_token_id lk) \<longrightarrow>
       \<not> is_session (fst (run_state (refresh env h' ck bd) u)))"
proof -
  obtain raw b lk where tok: "refresh_token_from ck bd = Some (raw, b)"
      "lookup_token (hash_token (e_sha256 env) raw) s = Some lk" "\<not> lk_family_revoked lk" "lk_used_at lk = None"
      "app_now s < lk_expires_at lk" "account_ok (lk_user_id lk) s" and spent: "token_spent (lk_token_id lk) t"
    using wpI [OF assms(2) refresh_session [OF assms(1)]] assms(3) by blast
  have "store_ids_ok t"
    using auth_keeps_refresh(3) [of env h ck bd] assms(1,2) by (metis keeps_def snd_conv valid_ages)
  then have "\<not> is_session (fst (run_state (refresh env h' ck bd) u))"
    if "auth_ages t u" and "\<forall>lk'. lookup_token (hash_token (e_sha256 env) raw) u = Some lk' \<longrightarrow> lk_token_id lk' = lk_token_id lk"
    for u h'
    using spent_refused [OF valid_ages [OF that(1) \<open>store_ids_ok t\<close>] token_spent_stays [OF that(1) spent] tok(1)]
      that(2) by blast
  with tok show ?thesis by blast
qed

lemma refresh_exchanged_once_witness:
  "let t = snd (run_state (refresh demo_env [] (Some [5]) None) (demo_session None)) in
     \<not> is_session (fst (run_state (refresh demo_env [] (Some [5]) None) t))"
proof -
  let ?run = "run_state (refresh demo_env [] (Some [5]) None) (demo_session None)"
  have access: "new_access_token demo_env (lk_user_id (demo_lookup None)) (app_now (demo_session None)) = Inr [1900, 7]"
    using demo_access by (simp add: demo_session_facts demo_lookup_def demo_world_def empty_world_def)
  note step = wpI [OF prod.collapse [symmetric]
      refresh_rotates_wp [OF demo_rotation_ready demo_session_facts(4) access, of "[]"]]
  have "is_session (fst ?run)" unfolding conjunct1 [OF step] by (simp add: is_session_def)
  from refresh_exchanged_once [OF demo_session_facts(2) prod.collapse [symmetric] this]
  obtain raw b lk where raw: "refresh_token_from (Some [5]) None = Some (raw, b)"
    and lk': "lookup_token (hash_token (e_sha256 demo_env) raw) (demo_session None) = Some lk"
    and later': "\<forall>u h'. auth_ages (snd ?run) u \<and>
      (\<forall>lk'. lookup_token (hash_token (e_sha256 demo_env) raw) u = Some lk' \<longrightarrow> lk_token_id lk' = lk_token_id lk) \<longrightarrow>
      \<not> is_session (fst (run_state (refresh demo_env h' (Some [5]) None) u))"
    by (elim exE conjE)
  have five: "raw = [5]" using raw unfolding demo_session_facts(4) by simp
  have lk: "demo_lookup None = lk" using lk' unfolding five demo_session_facts(3) by simp
  note later = later' [unfolded five, rule_format, OF conjI]
  have "\<forall>lk'. lookup_token (hash_token (e_sha256 demo_env) [5]) (snd ?run) = Some lk' \<longrightarrow> lk_token_id lk' = lk_token_id lk"
    unfolding conjunct2 [OF conjunct2 [OF step]] lk [symmetric] by simp
  with later [OF auth.R_refl] show ?thesis by (simp only: Let_def) blast
qed

text \<open>
  C32: A token that comes back more than thirty seconds after it was spent ends its family: the answer
  clears the cookie, the family is revoked, and no token of it is ever exchanged again.
\<close>

theorem late_replay_ends_family:
  assumes "healthy s" and "store_ids_ok s" and "refresh_token_from ck bd = Some (raw, b)"
    and "lookup_token (hash_token (e_sha256 env) raw) s = Some lk" and "\<not> lk_family_revoked lk"
    and "lk_used_at lk = Some used" and "app_now s - used > 30"
    and "run_state (refresh env h ck bd) s = (r, t)"
  shows "r = unauthorized_clear \<and>
    (\<forall>u h' ck' bd' raw' b'. auth_ages t u \<and> refresh_token_from ck' bd' = Some (raw', b') \<and>
       (\<forall>lk'. lookup_token (hash_token (e_sha256 env) raw') u = Some lk' \<longrightarrow> lk_family_id lk' = lk_family_id lk) \<longrightarrow>
       \<not> is_session (fst (run_state (refresh env h' ck' bd') u)))"
proof -
  have "app_now s - used > REFRESH_REUSE_GRACE_SECS" using assms(7) by (simp add: REFRESH_REUSE_GRACE_SECS_def)
  then have "r = unauthorized_clear" and dead: "family_dead (lk_family_id lk) t"
    using wpI [OF assms(8) refresh_late_replay_wp [OF assms(1-6)]] by blast+
  moreover have "store_ids_ok t"
    using auth_keeps_refresh(3) [of env h ck bd] assms(2,8) by (metis keeps_def snd_conv valid_ages)
  ultimately show ?thesis
    using dead_refused [OF valid_ages [OF _ \<open>store_ids_ok t\<close>] family_dead_stays [OF _ dead]] by blast
qed

lemma late_replay_ends_family_witness:
  "fst (run_state (refresh demo_env [] (Some [5]) None) (demo_session (Some 900))) = unauthorized_clear"
  by (rule late_replay_ends_family [OF demo_session_facts(1,2) demo_session_facts(4,3) _ _ _
        prod.collapse [symmetric], THEN conjunct1, where used1 = 900])
     (simp_all add: demo_lookup_def demo_session_facts)

text \<open>
  Losing a race is harmless: a token that comes back within thirty seconds of being spent, and a
  token spent by another request between the lookup and the claim, get the distinct answer that asks
  for a retry; the cookie, the tokens, the families and the accounts stay as they are.
\<close>

theorem lost_race_harmless:
  assumes "healthy s" and "refresh_token_from ck bd = Some (raw, b)"
    and "lookup_token (hash_token (e_sha256 env) raw) s = Some lk" and "\<not> lk_family_revoked lk"
    and "lk_used_at lk = Some used" and "app_now s - used \<le> 30"
  shows "(\<forall>r t. run_state (refresh env h ck bd) s = (r, t) \<longrightarrow>
      r = superseded_problem \<and> rs_cookie r = KeepCookie \<and> same_sessions s t) \<and>
    (\<forall>r t lk'. lk_token_id lk' = lk_token_id lk \<and> (\<forall>tok\<in>set (tokens s). \<not> unused_token (lk_token_id lk) tok) \<and>
      run_state (rotate env h lk' b) s = (r, t) \<longrightarrow> r = superseded_problem \<and> same_sessions s t)"
proof -
  have grace: "wp (refresh env h ck bd) (\<lambda>r t. r = superseded_problem \<and> same_sessions s t) s"
    using assms
    by (simp add: refresh_def find_by_hash_def wp_rules Let_def healthyD in_grace_def
        REFRESH_REUSE_GRACE_SECS_def)
       (rule wp_mono [OF superseded_wp], simp add: same_sessions_def)
  have lost: "wp (rotate env h lk' b) (\<lambda>r t. r = superseded_problem \<and> same_sessions s t) s"
    if "lk_token_id lk' = lk_token_id lk" and "\<forall>tok\<in>set (tokens s). \<not> unused_token (lk_token_id lk) tok" for lk'
    using that assms(1) update_where_none [of "tokens s" "unused_token (lk_token_id lk)"]
    by (simp add: rotate_def mark_used_def wp_rules healthyD affected_pos)
       (rule wp_mono [OF superseded_wp], simp add: same_sessions_def)
  show ?thesis
    using wpI [OF _ grace] wpI [OF _ lost] by (auto simp: superseded_problem_def problem_def)
qed

lemma lost_race_harmless_witness:
  "fst (run_state (refresh demo_env [] (Some [5]) None) (demo_session (Some 980))) = superseded_problem"
proof -
  have "\<not> lk_family_revoked (demo_lookup (Some 980))" "lk_used_at (demo_lookup (Some 980)) = Some 980"
    "app_now (demo_session (Some 980)) - 980 \<le> 30"
    by (simp_all add: demo_lookup_def demo_session_facts)
  from lost_race_harmless [OF demo_session_facts(1) demo_session_facts(4,3) this]
  show ?thesis by (metis prod.collapse)
qed

text \<open>
  C33: Signing out, and a refresh for an account that was banned, disabled or deleted, end the session
  for good: the cookie is cleared, the family is revoked, and no token of it is ever exchanged again.
\<close>

theorem session_end_final:
  assumes "healthy s" and "store_ids_ok s" and "refresh_token_from ck bd = Some (raw, b)"
    and "lookup_token (hash_token (e_sha256 env) raw) s = Some lk"
    and "op = logout env h ck bd \<or> op = refresh env h ck bd \<and> \<not> lk_family_revoked lk \<and> lk_used_at lk = None \<and>
      app_now s < lk_expires_at lk \<and> \<not> account_ok (lk_user_id lk) s"
    and "run_state op s = (r, t)"
  shows "rs_cookie r = ClearCookie \<and>
    (\<forall>u h' ck' bd' raw' b'. auth_ages t u \<and> refresh_token_from ck' bd' = Some (raw', b') \<and>
       (\<forall>lk'. lookup_token (hash_token (e_sha256 env) raw') u = Some lk' \<longrightarrow> lk_family_id lk' = lk_family_id lk) \<longrightarrow>
       \<not> is_session (fst (run_state (refresh env h' ck' bd') u)))"
proof -
  have "wp op (\<lambda>r t. rs_cookie r = ClearCookie \<and> family_dead (lk_family_id lk) t) s"
    using assms(5)
    by (auto intro: wp_mono [OF logout_wp [OF assms(1-4)]] wp_mono [OF refresh_blocked_wp [OF assms(1-4)]]
        simp: unauthorized_clear_def)
  then have "rs_cookie r = ClearCookie" and dead: "family_dead (lk_family_id lk) t"
    using wpI [OF assms(6)] by blast+
  moreover have "keeps auth_ages op" using assms(5) auth_keeps_refresh by blast
  then have "store_ids_ok t" using assms(2,6) by (metis keeps_def snd_conv valid_ages)
  ultimately show ?thesis
    using dead_refused [OF valid_ages [OF _ \<open>store_ids_ok t\<close>] family_dead_stays [OF _ dead]] by blast
qed

lemma session_end_final_witness:
  "rs_cookie (fst (run_state (logout demo_env [] (Some [5]) None) (demo_session None))) = ClearCookie \<and>
   \<not> is_session (fst (run_state (refresh demo_env [] (Some [5]) None)
        (snd (run_state (logout demo_env [] (Some [5]) None) (demo_session None)))))"
proof -
  let ?t = "snd (run_state (logout demo_env [] (Some [5]) None) (demo_session None))"
  have same: "lk_family_id lk' = 9" if "lookup_token (hash_token (e_sha256 demo_env) [5]) ?t = Some lk'" for lk'
  proof -
    have "wp (logout demo_env [] (Some [5]) None) (\<lambda>r t. tokens t = tokens (demo_session None)) (demo_session None)"
      by (simp add: logout_def find_by_hash_def demo_session_facts wp_rules Let_def revoke_family_def revoke_where_def)
    then have "tokens ?t = tokens (demo_session None)" by (simp add: wp_def case_prod_beta)
    with lookup_token_facts [OF that] show ?thesis by (auto simp: demo_session_def demo_token_def)
  qed
  have "lk_family_id (demo_lookup None) = 9" by (simp add: demo_lookup_def)
  with session_end_final [OF demo_session_facts(1,2) demo_session_facts(4,3) _ prod.collapse [symmetric],
      of "logout demo_env [] (Some [5]) None" "[]"] same demo_session_facts(4) auth.R_refl
  show ?thesis by (metis (no_types, lifting))
qed

text \<open>
  The claim and the insertion of the successor are two statements. When the second fails, the client
  keeps a spent token, and once the grace window has passed its honest retry ends the family.
\<close>

lemma failed_insert_strands_client:
  "let (r, t) = run_state (refresh demo_env [] (Some [5]) None) ((demo_session None)\<lparr>faults := (\<lambda>k. k = 4)\<rparr>);
       later = t\<lparr>app_now := app_now t + 31, faults := (\<lambda>_. False)\<rparr>
   in r = internal \<and> fst (run_state (refresh demo_env [] (Some [5]) None) later) = unauthorized_clear"
proof -
  let ?s = "(demo_session None)\<lparr>faults := (\<lambda>k. k = 4)\<rparr>"
  let ?h = "hash_token (e_sha256 demo_env) [5]"
  let ?run = "run_state (refresh demo_env [] (Some [5]) None) ?s"
  let ?later = "(snd ?run)\<lparr>app_now := app_now (snd ?run) + 31, faults := (\<lambda>_. False)\<rparr>"
  have "wp (refresh demo_env [] (Some [5]) None) (\<lambda>r t. r = internal \<and> store_ids_ok t \<and> app_now t = 1000 \<and>
      lookup_token ?h t = Some (demo_lookup (Some 1000))) ?s"
    by (simp add: refresh_def find_by_hash_def wp_rules wp_stmt Let_def refresh_token_from_def lookup_token_def
        demo_session_def demo_family_def demo_token_def demo_world_def empty_world_def demo_user_def
        default_user_def find_row_def in_grace_def touch_last_seen_def has_id_def live_def may_authenticate_def
        rotate_def mark_used_def affected_def count_where_def unused_token_def hand_over_def insert_token_def
        upd_live_def store_ids_ok_def demo_lookup_def)
  then have run: "fst ?run = internal" "store_ids_ok ?later" "app_now ?later - 1000 > REFRESH_REUSE_GRACE_SECS"
    "lookup_token ?h ?later = Some (demo_lookup (Some 1000))" "healthy ?later"
    by (simp_all add: wp_def case_prod_beta store_ids_ok_def healthy_def
        REFRESH_REUSE_GRACE_SECS_def)
  have "wp (refresh demo_env [] (Some [5]) None) (\<lambda>r t. r = unauthorized_clear \<and>
      family_dead (lk_family_id (demo_lookup (Some 1000))) t) ?later"
    by (rule refresh_late_replay_wp [OF run(5,2) demo_session_facts(4) run(4) _ _ run(3)])
       (simp_all add: demo_lookup_def)
  with run(1) show ?thesis by (simp add: wp_def case_prod_beta Let_def)
qed

end
