(* ===== verification/Second_Factor.thy ===== *)
theory Second_Factor
  imports Refresh
begin

text \<open>
  Proving and changing credentials: the second factor (\<open>crates/api/src/mfa.rs\<close>), the password reset
  (\<open>crates/api/src/auth/handlers.rs\<close>), the password change and the account deletion
  (\<open>crates/api/src/me.rs\<close>). The signed-in user of a handler is its argument \<open>user_id\<close>.

  Random bytes come from the state: a draw is one byte string, of which a caller uses as many bytes
  as it needs. The provisioning URI and the QR picture are the argument \<open>provision\<close>.
\<close>

section \<open>Requests\<close>

record TotpConfirmRequest =
  tc_code :: ustr

record TwoFactorVerifyRequest =
  tv_mfa_token :: ustr
  tv_method :: ustr
  tv_code :: ustr

record PasswordResetRequestBody =
  prr_email :: ustr

record PasswordResetConfirmBody =
  prc_token :: ustr
  prc_new_password :: ustr

record ChangePasswordRequest =
  cp_current_password :: ustr
  cp_new_password :: ustr

definition len_between :: "nat \<Rightarrow> nat \<Rightarrow> ustr \<Rightarrow> bool" where
  "len_between lo hi s \<longleftrightarrow> lo \<le> byte_len s \<and> byte_len s \<le> hi"

definition valid_totp_confirm :: "TotpConfirmRequest \<Rightarrow> bool" where
  "valid_totp_confirm r \<longleftrightarrow> len_between 6 10 (tc_code r) \<and> list_all is_ascii_digit (tc_code r)"

definition valid_two_factor :: "TwoFactorVerifyRequest \<Rightarrow> bool" where
  "valid_two_factor r \<longleftrightarrow>
     len_between 1 1024 (tv_mfa_token r) \<and> len_between 1 16 (tv_method r) \<and> len_between 1 64 (tv_code r)"

definition valid_reset_request :: "env \<Rightarrow> PasswordResetRequestBody \<Rightarrow> bool" where
  "valid_reset_request env r \<longleftrightarrow> e_email_ok env (prr_email r) \<and> byte_len (prr_email r) \<le> 254"

definition valid_reset_confirm :: "PasswordResetConfirmBody \<Rightarrow> bool" where
  "valid_reset_confirm r \<longleftrightarrow> len_between 1 512 (prc_token r) \<and> len_between 1 1024 (prc_new_password r)"

definition valid_change_password :: "ChangePasswordRequest \<Rightarrow> bool" where
  "valid_change_password r \<longleftrightarrow>
     len_between 1 1024 (cp_current_password r) \<and> len_between 1 1024 (cp_new_password r)"

text \<open>Handlers that answer every unreadable body with 400.\<close>

definition json_or_400 :: "'a json_body \<Rightarrow> response + 'a" where
  "json_or_400 b = (case b of Json v \<Rightarrow> Inr v | _ \<Rightarrow> Inl (problem 400 (lit ''invalid_body'') None))"

section \<open>Randomness\<close>

definition draw_n :: "nat \<Rightarrow> ('w base_scheme, byte list) state" where
  "draw_n n = do { b \<leftarrow> draw_bytes; State_Monad.return (take n b) }"

definition byte_at :: "byte list \<Rightarrow> nat \<Rightarrow> nat" where
  "byte_at b k = (if k < length b then unat (b ! k) else 0)"

text \<open>The k-th 32-bit draw of a byte string, and the k-th salt.\<close>

definition u32_at :: "byte list \<Rightarrow> nat \<Rightarrow> 32 word" where
  "u32_at b k = of_nat (byte_at b (4 * k) + 256 * byte_at b (4 * k + 1) +
     65536 * byte_at b (4 * k + 2) + 16777216 * byte_at b (4 * k + 3))"

definition salt_at :: "byte list \<Rightarrow> nat \<Rightarrow> byte list" where
  "salt_at b k = take 16 (drop (16 * k) b)"

section \<open>Enrolling a second factor\<close>

definition require_pepper :: "env \<Rightarrow> response + byte list" where
  "require_pepper env =
     (case e_pepper env of
        None \<Rightarrow> Inl (problem 503 (lit ''totp_unavailable'')
                 (Some (lit ''server is not configured with a pepper for secret encryption'')))
      | Some p \<Rightarrow> Inr p)"

definition enc_secret :: "env \<Rightarrow> byte list \<Rightarrow> byte list \<Rightarrow> SecretError + byte list" where
  "enc_secret env nonce plaintext =
     secret_encrypt (e_derive env) (e_aead_encrypt env) nonce (e_pepper env) plaintext"

definition dec_secret :: "env \<Rightarrow> byte list \<Rightarrow> SecretError + byte list" where
  "dec_secret env data = secret_decrypt (e_derive env) (e_aead_decrypt env) (e_pepper env) data"

definition SECRET_LEN :: nat where "SECRET_LEN = 20"

definition totp_start ::
    "env \<Rightarrow> (byte list \<Rightarrow> ustr \<Rightarrow> bool) \<Rightarrow> uid \<Rightarrow> ('w world_scheme, response) state" where
  "totp_start env provision user_id =
     (case require_pepper env of
        Inl r \<Rightarrow> State_Monad.return r
      | Inr _ \<Rightarrow> do {
          connected \<leftarrow> pool_get;
          if \<not> connected then State_Monad.return internal
          else do {
            found \<leftarrow> find_by_id user_id;
            case ok_or found None of
              None \<Rightarrow> State_Monad.return internal
            | Some u \<Rightarrow> do {
                secret_bytes \<leftarrow> draw_n SECRET_LEN;
                nonce \<leftarrow> draw_n NONCE_LEN;
                case enc_secret env nonce secret_bytes of
                  Inl _ \<Rightarrow> State_Monad.return internal
                | Inr enc \<Rightarrow> do {
                    stored \<leftarrow> set_totp_secret user_id enc;
                    State_Monad.return (case stored of
                        Inl _ \<Rightarrow> internal
                      | Inr _ \<Rightarrow>
                          if provision secret_bytes (u_email u) then ok_body 200 (SecretBody secret_bytes)
                          else internal)
                  }
              }
          }
        })"

definition generate_and_store_recovery_codes ::
    "env \<Rightarrow> uid \<Rightarrow> ('w world_scheme, response + ustr list) state" where
  "generate_and_store_recovery_codes env user_id = do {
     chars \<leftarrow> draw_bytes;
     salts \<leftarrow> draw_bytes;
     case generate_set (e_upper_tbl env) (\<lambda>salt p. e_hash_password env salt p (e_pepper env))
            (\<lambda>i j. u32_at chars (GROUPS * GROUP_LEN * i + j)) (salt_at salts) of
       Inl _ \<Rightarrow> State_Monad.return (Inl internal)
     | Inr codes \<Rightarrow> do {
         stored \<leftarrow> replace_all user_id (map rc_hash codes);
         State_Monad.return (case stored of Inl _ \<Rightarrow> Inl internal | Inr _ \<Rightarrow> Inr (map rc_plaintext codes))
       }
   }"

definition totp_confirm ::
    "env \<Rightarrow> HeaderMap \<Rightarrow> uid \<Rightarrow> TotpConfirmRequest json_body \<Rightarrow> ('w world_scheme, response) state" where
  "totp_confirm env headers user_id jbody =
     (case json_or_400 jbody of
        Inl r \<Rightarrow> State_Monad.return r
      | Inr req \<Rightarrow>
          if \<not> valid_totp_confirm req then State_Monad.return validation_problem
          else case require_pepper env of
              Inl r \<Rightarrow> State_Monad.return r
            | Inr _ \<Rightarrow> do {
                connected \<leftarrow> pool_get;
                if \<not> connected then State_Monad.return internal
                else do {
                  row \<leftarrow> get_totp user_id;
                  now \<leftarrow> get_now;
                  case ok_or row None of
                    None \<Rightarrow> State_Monad.return (problem 409 (lit ''totp_not_started'') None)
                  | Some (enc, confirmed) \<Rightarrow>
                      (case dec_secret env enc of
                         Inl _ \<Rightarrow> State_Monad.return internal
                       | Inr secret_bytes \<Rightarrow>
                           if \<not> e_totp_verify env now secret_bytes (tc_code req)
                           then State_Monad.return (problem 422 (lit ''invalid_code'') None)
                           else do {
                             set \<leftarrow> confirm_totp user_id;
                             case set of
                               Inl _ \<Rightarrow> State_Monad.return internal
                             | Inr _ \<Rightarrow> do {
                                 made \<leftarrow> generate_and_store_recovery_codes env user_id;
                                 case made of
                                   Inl r \<Rightarrow> State_Monad.return r
                                 | Inr codes \<Rightarrow> do {
                                     _ \<leftarrow> audit env headers (Some user_id) (lit ''totp_enabled'') [];
                                     State_Monad.return (ok_body 200 (CodesBody codes))
                                   }
                               }
                           })
                }
              })"

definition totp_disable :: "env \<Rightarrow> HeaderMap \<Rightarrow> uid \<Rightarrow> ('w world_scheme, response) state" where
  "totp_disable env headers user_id = do {
     connected \<leftarrow> pool_get;
     if \<not> connected then State_Monad.return internal
     else do {
       gone \<leftarrow> disable_totp user_id;
       case gone of
         Inl _ \<Rightarrow> State_Monad.return internal
       | Inr _ \<Rightarrow> do {
           _ \<leftarrow> audit env headers (Some user_id) (lit ''totp_disabled'') [];
           State_Monad.return (ok_body 204 NoBody)
         }
     }
   }"

definition recovery_regenerate :: "env \<Rightarrow> HeaderMap \<Rightarrow> uid \<Rightarrow> ('w world_scheme, response) state" where
  "recovery_regenerate env headers user_id = do {
     connected \<leftarrow> pool_get;
     if \<not> connected then State_Monad.return internal
     else do {
       factor \<leftarrow> has_active_2fa user_id;
       if \<not> ok_or factor False then State_Monad.return (problem 409 (lit ''no_2fa'') None)
       else do {
         made \<leftarrow> generate_and_store_recovery_codes env user_id;
         case made of
           Inl r \<Rightarrow> State_Monad.return r
         | Inr codes \<Rightarrow> do {
             _ \<leftarrow> audit env headers (Some user_id) (lit ''recovery_codes_regenerated'') [];
             State_Monad.return (ok_body 200 (CodesBody codes))
           }
       }
     }
   }"

section \<open>Passing the second factor\<close>

definition verify_totp_factor :: "env \<Rightarrow> uid \<Rightarrow> ustr \<Rightarrow> ('w world_scheme, bool) state" where
  "verify_totp_factor env user_id code =
     (case e_pepper env of
        None \<Rightarrow> State_Monad.return False
      | Some _ \<Rightarrow> do {
          row \<leftarrow> get_totp user_id;
          now \<leftarrow> get_now;
          State_Monad.return (case ok_or row None of
              None \<Rightarrow> False
            | Some (enc, confirmed) \<Rightarrow>
                confirmed \<and> (case dec_secret env enc of Inl _ \<Rightarrow> False | Inr secret \<Rightarrow> e_totp_verify env now secret code))
        })"

definition code_matches :: "env \<Rightarrow> ustr \<Rightarrow> nat \<times> ustr \<Rightarrow> bool" where
  "code_matches env code uc =
     rc_verify (e_upper_tbl env) (\<lambda>p h. e_verify_password env p h (e_pepper env)) code (snd uc)"

definition verify_recovery_factor :: "env \<Rightarrow> uid \<Rightarrow> ustr \<Rightarrow> ('w world_scheme, bool) state" where
  "verify_recovery_factor env user_id code = do {
     unused \<leftarrow> list_unused user_id;
     case List.find (code_matches env code) (ok_or unused []) of
       None \<Rightarrow> State_Monad.return False
     | Some uc \<Rightarrow> do {
         claimed \<leftarrow> recovery_mark_used (fst uc);
         State_Monad.return (ok_or claimed False)
       }
   }"

definition verify_factor :: "env \<Rightarrow> uid \<Rightarrow> TwoFactorVerifyRequest \<Rightarrow> ('w world_scheme, bool) state" where
  "verify_factor env user_id req =
     (if tv_method req = lit ''totp'' then verify_totp_factor env user_id (tv_code req)
      else if tv_method req = lit ''recovery'' then verify_recovery_factor env user_id (tv_code req)
      else State_Monad.return False)"

definition two_factor_verify ::
    "env \<Rightarrow> HeaderMap \<Rightarrow> TwoFactorVerifyRequest json_body \<Rightarrow> ('w world_scheme, response) state" where
  "two_factor_verify env headers jbody =
     (case json_or_400 jbody of
        Inl r \<Rightarrow> State_Monad.return r
      | Inr req \<Rightarrow>
          if \<not> valid_two_factor req then State_Monad.return validation_problem
          else do {
            now \<leftarrow> get_now;
            case verify_mfa_token (e_unseal env) (e_uuid_parse env) now (e_key env) (tv_mfa_token req) of
              Inl _ \<Rightarrow> State_Monad.return unauthorized_problem
            | Inr user_id \<Rightarrow> do {
                connected \<leftarrow> pool_get;
                if \<not> connected then State_Monad.return internal
                else do {
                  passed \<leftarrow> verify_factor env user_id req;
                  if \<not> passed then do {
                    _ \<leftarrow> audit env headers (Some user_id) (lit ''login_2fa_failure'') [(lit ''method'', tv_method req)];
                    State_Monad.return unauthorized_problem
                  }
                  else issue_session env headers user_id (lit ''login_2fa_success'')
                }
              }
          })"

section \<open>Passwords and the account\<close>

definition RESET_TTL_SECS :: int where "RESET_TTL_SECS = 60 * 60"

definition password_reset_request ::
    "env \<Rightarrow> HeaderMap \<Rightarrow> PasswordResetRequestBody json_body \<Rightarrow> ('w world_scheme, response) state" where
  "password_reset_request env headers jbody =
     (case parse_json jbody of
        Inl r \<Rightarrow> State_Monad.return r
      | Inr req \<Rightarrow>
          if \<not> valid_reset_request env req then State_Monad.return validation_problem
          else do {
            connected \<leftarrow> pool_get;
            if \<not> connected then State_Monad.return internal
            else do {
              found \<leftarrow> find_by_email_with_secret env (prr_email req);
              case ok_or found None of
                None \<Rightarrow> State_Monad.return (ok_body 200 (ResetBody None))
              | Some user \<Rightarrow> do {
                  bytes \<leftarrow> draw_bytes;
                  let token = generate (e_sha256 env) bytes;
                  now \<leftarrow> get_now;
                  _ \<leftarrow> ignore (reset_create (u_id user) (rt_hash token) (now + RESET_TTL_SECS));
                  _ \<leftarrow> audit env headers (Some (u_id user)) (lit ''password_reset_requested'') [];
                  State_Monad.return (ok_body 200 (ResetBody
                    (if \<not> e_mailer_configured env \<and> e_is_dev env then Some (rt_raw token) else None)))
                }
            }
          })"

text \<open>\<open>UPDATE users SET password_hash = $2 WHERE id = $1\<close>\<close>

definition set_password_hash :: "uid \<Rightarrow> ustr \<Rightarrow> ('w world_scheme, unit) db" where
  "set_password_hash i h = execute (\<lambda>s. ()) (upd_user i (\<lambda>u. u\<lparr>u_password_hash := Some h\<rparr>))"

definition invalid_reset_token :: response where
  "invalid_reset_token = problem 400 (lit ''invalid_token'') None"

definition password_reset_confirm ::
    "env \<Rightarrow> HeaderMap \<Rightarrow> PasswordResetConfirmBody json_body \<Rightarrow> ('w world_scheme, response) state" where
  "password_reset_confirm env headers jbody =
     (case parse_json jbody of
        Inl r \<Rightarrow> State_Monad.return r
      | Inr req \<Rightarrow>
          if \<not> valid_reset_confirm req then State_Monad.return validation_problem
          else if check_strength (e_zxcvbn env) (prc_new_password req) [] \<noteq> Inr ()
          then State_Monad.return weak_password
          else do {
            connected \<leftarrow> pool_get;
            if \<not> connected then State_Monad.return internal
            else do {
              consumed \<leftarrow> consume (hash_token (e_sha256 env) (prc_token req));
              case consumed of
                Inl _ \<Rightarrow> State_Monad.return internal
              | Inr None \<Rightarrow> State_Monad.return invalid_reset_token
              | Inr (Some user_id) \<Rightarrow> do {
                  salt \<leftarrow> draw_n 16;
                  case e_hash_password env salt (prc_new_password req) (e_pepper env) of
                    Inl _ \<Rightarrow> State_Monad.return internal
                  | Inr h \<Rightarrow> do {
                      stored \<leftarrow> set_password_hash user_id h;
                      case stored of
                        Inl _ \<Rightarrow> State_Monad.return internal
                      | Inr _ \<Rightarrow> do {
                          _ \<leftarrow> revoke_all_for_user user_id (lit ''password_reset'');
                          _ \<leftarrow> audit env headers (Some user_id) (lit ''password_changed'') [];
                          State_Monad.return (ok_body 204 NoBody)
                        }
                    }
                }
            }
          })"

definition not_found_problem :: response where
  "not_found_problem = problem 404 (lit ''not_found'') None"

definition change_password ::
    "env \<Rightarrow> HeaderMap \<Rightarrow> uid \<Rightarrow> ChangePasswordRequest json_body \<Rightarrow> ('w world_scheme, response) state" where
  "change_password env headers user_id jbody =
     (case json_or_400 jbody of
        Inl r \<Rightarrow> State_Monad.return r
      | Inr req \<Rightarrow>
          if \<not> valid_change_password req then State_Monad.return validation_problem
          else do {
            connected \<leftarrow> pool_get;
            if \<not> connected then State_Monad.return internal
            else do {
              found \<leftarrow> find_by_id_with_secret user_id;
              case found of
                Inl _ \<Rightarrow> State_Monad.return internal
              | Inr None \<Rightarrow> State_Monad.return not_found_problem
              | Inr (Some u) \<Rightarrow>
                  if u_auth_source u \<noteq> lit ''local''
                  then State_Monad.return (problem 409 (lit ''password_managed_externally'')
                         (Some (lit ''password is managed by your directory and cannot be changed here'')))
                  else if \<not> password_verified env (cp_current_password req) (Some u)
                  then State_Monad.return validation_problem
                  else if check_strength (e_zxcvbn env) (cp_new_password req) [u_email u, u_username u] \<noteq> Inr ()
                  then State_Monad.return validation_problem
                  else do {
                    salt \<leftarrow> draw_n 16;
                    case e_hash_password env salt (cp_new_password req) (e_pepper env) of
                      Inl _ \<Rightarrow> State_Monad.return internal
                    | Inr h \<Rightarrow> do {
                        stored \<leftarrow> execute (\<lambda>s. ()) (upd_user user_id (\<lambda>u. u\<lparr>u_password_hash := Some h,
                                    u_must_change_password := False\<rparr>));
                        case stored of
                          Inl _ \<Rightarrow> State_Monad.return internal
                        | Inr _ \<Rightarrow> do {
                            _ \<leftarrow> revoke_all_for_user user_id (lit ''password_changed'');
                            _ \<leftarrow> audit env headers (Some user_id) (lit ''password_changed'')
                                  [(lit ''self_service'', lit ''true'')];
                            State_Monad.return (ok_body 204 NoBody)
                          }
                      }
                  }
            }
          })"

definition ERASE_GRACE_DAYS :: int where "ERASE_GRACE_DAYS = 30"

definition delete_me :: "env \<Rightarrow> (int \<Rightarrow> ustr) \<Rightarrow> HeaderMap \<Rightarrow> uid \<Rightarrow> ('w world_scheme, response) state" where
  "delete_me env time_str headers user_id = do {
     connected \<leftarrow> pool_get;
     if \<not> connected then State_Monad.return internal
     else do {
       now \<leftarrow> get_now;
       let grace = now + ERASE_GRACE_DAYS * 86400;
       gone \<leftarrow> soft_delete user_id grace;
       case gone of
         Inl _ \<Rightarrow> State_Monad.return internal
       | Inr found \<Rightarrow>
           if found then do {
             _ \<leftarrow> revoke_all_for_user user_id (lit ''account_erased'');
             _ \<leftarrow> audit env headers (Some user_id) (lit ''account_erase_requested'')
                   [(lit ''grace_until'', time_str grace)];
             State_Monad.return (ok_body 202 (ErasureBody grace))
           }
           else State_Monad.return not_found_problem
     }
   }"

section \<open>Aging\<close>

lemma auth_keeps_draw [auth_keeps]: "keeps auth_ages (draw_n n)"
  unfolding draw_n_def by (intro auth_rules auth_keeps)

lemma auth_keeps_factor [auth_keeps]:
  "keeps auth_ages (generate_and_store_recovery_codes env i)" "keeps auth_ages (totp_start env prov i)"
  "keeps auth_ages (totp_confirm env h i b)" "keeps auth_ages (totp_disable env h i)"
  "keeps auth_ages (recovery_regenerate env h i)" "keeps auth_ages (verify_factor env i req)"
  "keeps auth_ages (two_factor_verify env h tb)"
proof -
  show gen: "keeps auth_ages (generate_and_store_recovery_codes env i)" for i
    unfolding generate_and_store_recovery_codes_def by (intro auth_rules auth_keeps)
  show "keeps auth_ages (totp_start env prov i)" "keeps auth_ages (totp_confirm env h i b)"
    "keeps auth_ages (totp_disable env h i)" "keeps auth_ages (recovery_regenerate env h i)"
    unfolding totp_start_def totp_confirm_def totp_disable_def recovery_regenerate_def
    by (intro auth_rules auth_keeps gen)+
  show fac: "keeps auth_ages (verify_factor env i req)" for i req
    unfolding verify_factor_def verify_totp_factor_def verify_recovery_factor_def
    by (intro auth_rules auth_keeps)
  show "keeps auth_ages (two_factor_verify env h tb)"
    unfolding two_factor_verify_def by (intro auth_rules auth_keeps fac)
qed

lemma auth_keeps_passwords [auth_keeps]:
  "keeps auth_ages (password_reset_request env h rb)" "keeps auth_ages (password_reset_confirm env h cb)"
  "keeps auth_ages (change_password env h i pb)" "keeps auth_ages (delete_me env ts h i)"
proof -
  have upd: "keeps auth_ages (execute g (upd_user i f))" for g i f
    by (rule auth_keeps_execute, rule auth_ages_other; simp add: upd_user_def)
  then have set: "keeps auth_ages (set_password_hash i x)" for i x by (simp add: set_password_hash_def)
  show "keeps auth_ages (password_reset_request env h rb)" "keeps auth_ages (password_reset_confirm env h cb)"
    "keeps auth_ages (change_password env h i pb)" "keeps auth_ages (delete_me env ts h i)"
    unfolding password_reset_request_def password_reset_confirm_def change_password_def delete_me_def
    by (intro auth_rules auth_keeps upd set)+
qed

section \<open>What a passed factor means, whatever fails\<close>

lemma wp_draw_n [wp_rules]:
  "wp (draw_n n) Q s = Q (take n (draws s (drawn s))) (s\<lparr>drawn := Suc (drawn s)\<rparr>)"
  by (simp add: draw_n_def wp_rules)

definition live_user :: "uid \<Rightarrow> 'w world_scheme \<Rightarrow> user_row option" where
  "live_user i s = find_row (\<lambda>u. has_id i u \<and> live u) (users s)"

definition totp_proved :: "env \<Rightarrow> uid \<Rightarrow> ustr \<Rightarrow> 'w world_scheme \<Rightarrow> bool" where
  "totp_proved env i code s \<longleftrightarrow>
     (\<exists>u enc secret. live_user i s = Some u \<and> u_totp_secret_enc u = Some enc \<and> u_totp_confirmed_at u \<noteq> None \<and>
        dec_secret env enc = Inr secret \<and> e_totp_verify env (app_now s) secret code)"

definition code_proved :: "env \<Rightarrow> uid \<Rightarrow> ustr \<Rightarrow> 'w world_scheme \<Rightarrow> 'w world_scheme \<Rightarrow> bool" where
  "code_proved env i code s t \<longleftrightarrow>
     (\<exists>r\<in>set (recovery s). r_user_id r = i \<and> r_used_at r = None \<and>
        code_matches env code (r_id r, r_code_hash r) \<and> code_spent (r_id r) t)"

definition factor_proved :: "env \<Rightarrow> uid \<Rightarrow> TwoFactorVerifyRequest \<Rightarrow> 'w world_scheme \<Rightarrow> 'w world_scheme \<Rightarrow> bool" where
  "factor_proved env i req s t \<longleftrightarrow>
     tv_method req = lit ''totp'' \<and> totp_proved env i (tv_code req) s \<or>
     tv_method req = lit ''recovery'' \<and> code_proved env i (tv_code req) s t"

lemma code_proved_stays: "auth_ages t u \<Longrightarrow> code_proved env i code s t \<Longrightarrow> code_proved env i code s u"
  using code_spent_stays by (fastforce simp: code_proved_def)

lemma totp_factor_wp: "wp (verify_totp_factor env i code) (\<lambda>ok t. ok \<longrightarrow> totp_proved env i code s) s"
  by (auto simp: verify_totp_factor_def get_totp_def totp_proved_def live_user_def wp_rules
      split: option.splits sum.splits)

lemma recovery_factor_wp:
  assumes "store_ids_ok s"
  shows "wp (verify_recovery_factor env i code) (\<lambda>ok t. ok \<longrightarrow> code_proved env i code s t) s"
proof -
  have "code_proved env i code s (s\<lparr>calls := n, recovery := update_where (unused_code (fst uc))
      (\<lambda>r. r\<lparr>r_used_at := Some (db_now s)\<rparr>) (recovery s)\<rparr>)"
    if found: "List.find (code_matches env code) (map (\<lambda>r. (r_id r, r_code_hash r))
        (filter (\<lambda>r. r_user_id r = i \<and> r_used_at r = None) (recovery s))) = Some uc" for uc n
  proof -
    obtain r where r: "r \<in> set (recovery s)" "r_user_id r = i" "r_used_at r = None" "uc = (r_id r, r_code_hash r)"
      "code_matches env code uc"
      using find_row_Some [OF found [folded find_row_def]] by auto
    then have "r_id r < next_id s" using assms by (auto simp: store_ids_ok_def)
    with r show ?thesis
      by (auto simp: code_proved_def code_spent_def update_where_def unused_code_def intro!: bexI [of _ r])
  qed
  then show ?thesis
    by (auto simp: verify_recovery_factor_def list_unused_def recovery_mark_used_def wp_rules split: option.split)
qed

lemma factor_wp:
  assumes "store_ids_ok s"
  shows "wp (verify_factor env i req) (\<lambda>ok t. ok \<longrightarrow> factor_proved env i req s t) s"
  using wp_mono [OF totp_factor_wp [of env i "tv_code req" s]]
    wp_mono [OF recovery_factor_wp [OF assms, of env i "tv_code req"]]
  by (auto simp: verify_factor_def factor_proved_def wp_return)

lemma factor_proved_stays: "auth_ages t u \<Longrightarrow> factor_proved env i req s t \<Longrightarrow> factor_proved env i req s u"
  by (auto simp: factor_proved_def intro: code_proved_stays)

lemma two_factor_session:
  assumes "store_ids_ok s"
  shows "wp (two_factor_verify env h (Json req)) (\<lambda>r t. is_session r \<longrightarrow>
     (\<exists>i. verify_mfa_token (e_unseal env) (e_uuid_parse env) (app_now s) (e_key env) (tv_mfa_token req) = Inr i \<and>
        factor_proved env i req s t)) s"
proof (cases "verify_mfa_token (e_unseal env) (e_uuid_parse env) (app_now s) (e_key env) (tv_mfa_token req)")
  case (Inl e)
  then show ?thesis by (simp add: two_factor_verify_def json_or_400_def wp_rules Let_def)
next
  case (Inr i)
  let ?s = "s\<lparr>calls := Suc (calls s)\<rparr>"
  have rest: "wp (issue_session env h i act) (\<lambda>r u. is_session r \<longrightarrow> factor_proved env i req s u) t"
    if "factor_proved env i req ?s t" for t act
  proof -
    have "factor_proved env i req s t"
      using that by (simp add: factor_proved_def totp_proved_def code_proved_def live_user_def)
    then have "auth_ages t u \<Longrightarrow> factor_proved env i req s u" for u by (rule factor_proved_stays [rotated])
    then show ?thesis by (simp add: wp_mono [OF wp_keeps [OF auth_keeps_session(3)]])
  qed
  have ok: "store_ids_ok ?s" using assms by (simp add: store_ids_ok_def)
  from Inr show ?thesis
    by (simp add: two_factor_verify_def json_or_400_def wp_bind wp_if wp_return wp_get_now wp_pool_get)
       (intro impI wp_mono [OF factor_wp [OF ok, of env i req]], simp add: rest wp_audit wp_bind wp_return Let_def)
qed

section \<open>Recovery codes end to end\<close>

definition argon2_law :: "env \<Rightarrow> bool" where
  "argon2_law env \<longleftrightarrow> (\<forall>salt p h. e_hash_password env salt p (e_pepper env) = Inr h \<longrightarrow>
     e_verify_password env p h (e_pepper env) = Inr True)"

definition unused_of :: "uid \<Rightarrow> recovery_row \<Rightarrow> bool" where
  "unused_of i r \<longleftrightarrow> r_user_id r = i \<and> r_used_at r = None"

lemma count_mark:
  assumes "keyed key (filter P rows)" and "q \<in> set rows" and "P q" and "\<And>r. \<not> P (f r)"
    and "\<And>x. x \<in> set rows \<Longrightarrow> Q x \<longleftrightarrow> x = q"
  shows "Suc (count_where P (update_where Q f rows)) = count_where P rows"
proof -
  have "filter P (update_where Q f rows) = filter (\<lambda>x. P x \<and> \<not> Q x) rows"
    using assms(4) by (induction rows) auto
  also have "\<dots> = filter (\<lambda>x. P x \<and> x \<noteq> q) rows" by (rule filter_cong) (use assms(5) in auto)
  also have "\<dots> = removeAll q (filter P rows)"
    by (induction rows) auto
  also have "\<dots> = remove1 q (filter P rows)"
    using assms(1) by (simp add: keyed_def distinct_map distinct_remove1_removeAll)
  finally show ?thesis
    using assms(2,3) length_pos_if_in_set [of q "filter P rows"] by (simp add: count_where_def length_remove1)
qed

lemma random_code_matches:
  assumes "argon2_law env" and "generate_set (e_upper_tbl env) (\<lambda>salt p. e_hash_password env salt p (e_pepper env)) d salts = Inr codes"
    and "c \<in> set codes"
  shows "code_matches env (rc_plaintext c) (k, rc_hash c)"
proof -
  obtain j where c: "rc_plaintext c = random_code (d j)"
    "e_hash_password env (salts j) (rc_normalize (e_upper_tbl env) (rc_plaintext c)) (e_pepper env) = Inr (rc_hash c)"
    using generate_codes_spec [OF assms(2) [unfolded generate_set_def]] assms(3) by blast
  with assms(1) show ?thesis by (simp add: code_matches_def rc_verify_def argon2_law_def)
qed

text \<open>The codes table after a new set has been stored.\<close>

definition codes_stored :: "env \<Rightarrow> uid \<Rightarrow> ustr list \<Rightarrow> 'w world_scheme \<Rightarrow> bool" where
  "codes_stored env i plain t \<longleftrightarrow>
     length plain = 10 \<and> keyed r_id (filter (unused_of i) (recovery t)) \<and>
     (\<forall>r\<in>set (recovery t). r_id r \<in> r_id ` set (filter (unused_of i) (recovery t)) \<longrightarrow> unused_of i r) \<and>
     count_where (unused_of i) (recovery t) = 10 \<and>
     (\<forall>p\<in>set plain. \<exists>r\<in>set (filter (unused_of i) (recovery t)). code_matches env p (r_id r, r_code_hash r))"

lemma generate_and_store_wp:
  assumes "healthy s" and "store_ids_ok s" and "argon2_law env"
  shows "wp (generate_and_store_recovery_codes env i) (\<lambda>r t. healthy t \<and> users t = users s \<and>
      app_now t = app_now s \<and> (\<forall>plain. r = Inr plain \<longrightarrow> codes_stored env i plain t)) s"
proof -
  have stored: "codes_stored env i (map rc_plaintext codes) (s\<lparr>drawn := k, calls := c,
      recovery := delete_where (\<lambda>r. r_user_id r = i) (recovery s) @
        map (\<lambda>(k, h). \<lparr>r_id = next_id s + k, r_user_id = i, r_code_hash = h, r_used_at = None\<rparr>)
          (enumerate 0 (map rc_hash codes)), next_id := m\<rparr>)"
    if gen: "generate_set (e_upper_tbl env) (\<lambda>salt p. e_hash_password env salt p (e_pepper env)) d salts = Inr codes"
    for codes d salts k c m
  proof -
    let ?new = "map (\<lambda>(k, h). \<lparr>r_id = next_id s + k, r_user_id = i, r_code_hash = h, r_used_at = None\<rparr>)
      (enumerate 0 (map rc_hash codes))"
    have len: "length codes = 10"
      using generate_codes_spec [OF gen [unfolded generate_set_def]] by (simp add: RECOVERY_CODE_COUNT_def)
    have mine: "filter (unused_of i) (delete_where (\<lambda>r. r_user_id r = i) (recovery s) @ ?new) = ?new"
      by (auto simp: unused_of_def delete_where_def filter_empty_conv intro!: filter_True)
    have ids: "map r_id ?new = map (\<lambda>k. next_id s + k) [0..<length codes]"
      by (rule nth_equalityI) (simp_all add: nth_enumerate_eq)
    have old: "\<forall>r\<in>set (delete_where (\<lambda>r. r_user_id r = i) (recovery s)). r_id r < next_id s"
      using assms(2) by (auto simp: store_ids_ok_def set_delete_where)
    have new_ids: "r_id ` set ?new \<subseteq> {next_id s..}" by auto
    have match: "\<exists>r\<in>set ?new. code_matches env (rc_plaintext c) (r_id r, r_code_hash r)" if c: "c \<in> set codes" for c
    proof -
      obtain j where "j < length codes" "c = codes ! j" using c by (auto simp: in_set_conv_nth)
      then have "\<lparr>r_id = next_id s + j, r_user_id = i, r_code_hash = rc_hash c, r_used_at = None\<rparr> \<in> set ?new"
        by (force simp: in_set_enumerate_eq)
      then show ?thesis by (rule rev_bexI) (simp add: random_code_matches [OF assms(3) gen c])
    qed
    show ?thesis
      unfolding codes_stored_def
    proof (intro conjI)
      show "length (map rc_plaintext codes) = 10" using len by simp
      show "\<forall>p\<in>set (map rc_plaintext codes). \<exists>r\<in>set (filter (unused_of i) (recovery (s\<lparr>drawn := k, calls := c,
          recovery := delete_where (\<lambda>r. r_user_id r = i) (recovery s) @ ?new, next_id := m\<rparr>))).
          code_matches env p (r_id r, r_code_hash r)"
        using match by (simp add: mine del: filter_append)
    qed (use len old new_ids in \<open>auto simp: mine ids keyed_def distinct_map inj_on_def count_where_def unused_of_def in_set_enumerate_eq
        simp del: filter_append\<close>)
  qed
  show ?thesis
    using assms(1) stored
    by (simp add: generate_and_store_recovery_codes_def wp_rules healthyD replace_all_def split: sum.split)
qed

text \<open>Each code of the set is accepted once and leaves nine.\<close>

lemma stored_code_accepted:
  assumes "healthy t" and "codes_stored env i plain t" and "p \<in> set plain"
  shows "wp (verify_recovery_factor env i p) (\<lambda>ok u. ok \<and> Suc (count_where (unused_of i) (recovery u)) = 10) t"
proof -
  let ?mine = "filter (unused_of i) (recovery t)"
  have keyed: "keyed r_id ?mine" and ids: "\<And>x. x \<in> set (recovery t) \<Longrightarrow> r_id x \<in> r_id ` set ?mine \<Longrightarrow> unused_of i x"
    and ten: "count_where (unused_of i) (recovery t) = 10"
    using assms(2) by (simp_all only: codes_stored_def)
  obtain r where r: "r \<in> set ?mine" "code_matches env p (r_id r, r_code_hash r)"
    using assms(2,3) unfolding codes_stored_def by blast
  then have "find_row (code_matches env p) (map (\<lambda>r. (r_id r, r_code_hash r)) ?mine) \<noteq> None"
    by (auto simp: find_row_None)
  then obtain uc where uc: "find_row (code_matches env p) (map (\<lambda>r. (r_id r, r_code_hash r)) ?mine) = Some uc" by blast
  then obtain q where q: "q \<in> set (recovery t)" "unused_of i q" "uc = (r_id q, r_code_hash q)"
    by (auto dest!: find_row_Some)
  have only: "unused_code (r_id q) x \<longleftrightarrow> x = q" if x: "x \<in> set (recovery t)" for x
  proof
    assume "unused_code (r_id q) x"
    then have same: "r_id x = r_id q" by (simp add: unused_code_def)
    have "unused_of i x" by (rule ids) (use x q(1,2) same in auto)
    then show "x = q" by (intro keyed_unique [OF keyed]) (use x q(1,2) same in auto)
  qed (use q(2) in \<open>simp add: unused_code_def unused_of_def\<close>)
  have count: "Suc (count_where (unused_of i) (update_where (unused_code (r_id q)) f (recovery t))) = 10"
    if "\<And>r. \<not> unused_of i (f r)" for f
    using count_mark [of r_id "unused_of i" "recovery t" q f "unused_code (r_id q)"] that keyed ten q(1,2) only
    by simp
  have found: "List.find (code_matches env p) (map (\<lambda>r. (r_id r, r_code_hash r))
      (filter (\<lambda>r. r_user_id r = i \<and> r_used_at r = None) (recovery t))) = Some (r_id q, r_code_hash q)"
    using uc q(3) by (simp add: find_row_def unused_of_def [abs_def])
  have "\<exists>x\<in>set (recovery t). unused_code (r_id q) x" using q only by blast
  then show ?thesis
    using count [of "\<lambda>r. r\<lparr>r_used_at := Some (db_now t)\<rparr>"]
    by (simp add: verify_recovery_factor_def list_unused_def found wp_rules healthyD [OF assms(1)]
        recovery_mark_used_def affected_pos) (simp add: unused_of_def)
qed

section \<open>Enrollment\<close>

lemma store_ids_frame [simp]:
  "store_ids_ok (s\<lparr>calls := v0\<rparr>) = store_ids_ok s" "store_ids_ok (s\<lparr>drawn := v1\<rparr>) = store_ids_ok s"
  for s :: "'w world_scheme"
  by (simp_all add: store_ids_ok_def)

lemma live_user_frame [simp]:
  "live_user i (s\<lparr>calls := v0\<rparr>) = live_user i s"
  "live_user i (s\<lparr>drawn := v1\<rparr>) = live_user i s"
  "live_user i (s\<lparr>recovery := v2\<rparr>) = live_user i s"
  "live_user i (s\<lparr>next_id := v3\<rparr>) = live_user i s"
  "live_user i (s\<lparr>audit_log := v4\<rparr>) = live_user i s"
  for s :: "'w world_scheme"
  by (simp_all add: live_user_def)

lemma live_user_upd:
  assumes "\<And>u. u_id (f u) = u_id u" and "\<And>u. u_deleted_at (f u) = u_deleted_at u"
  shows "live_user i (upd_live i f s) = map_option f (live_user i s)"
proof -
  have "map_option (\<lambda>u. if has_id i u \<and> live u then f u else u) (find_row (\<lambda>u. has_id i u \<and> live u) (users s)) =
      map_option f (find_row (\<lambda>u. has_id i u \<and> live u) (users s))"
    by (cases "find_row (\<lambda>u. has_id i u \<and> live u) (users s)") (auto dest: find_row_Some)
  then show ?thesis
    using assms by (simp add: live_user_def find_row_update has_id_def live_def)
qed

lemma find_user_live:
  assumes "user_ids_ok s" and "live_user i s = Some u"
  shows "find_user i s = Some u"
proof -
  have "u \<in> set (users s)" "u_id u = i" using find_row_Some [OF assms(2) [unfolded live_user_def]] by (auto simp: has_id_def)
  then show ?thesis
    using find_row_key [of u_id "users s" u] assms(1)
    by (simp add: find_user_def user_ids_ok_def has_id_def [abs_def])
qed

lemma totp_start_wp:
  assumes "healthy s" and "live_user i s = Some u"
  shows "wp (totp_start env provision i) (\<lambda>r t. healthy t \<and> (store_ids_ok s \<longrightarrow> store_ids_ok t) \<and> app_now t = app_now s \<and>
     (\<forall>secret. rs_body r = SecretBody secret \<longrightarrow>
        (\<exists>enc. enc_secret env (take 12 (draws s (Suc (drawn s)))) secret = Inr enc \<and>
           live_user i t = Some (u\<lparr>u_totp_secret_enc := Some enc, u_totp_confirmed_at := None\<rparr>)))) s"
proof -
  have find: "find_row (\<lambda>u. has_id i u \<and> live u) (users s) = Some u" using assms(2) by (simp add: live_user_def)
  have upd: "live_user i (upd_live i (\<lambda>u. u\<lparr>u_totp_secret_enc := Some enc, u_totp_confirmed_at := None\<rparr>)
      (s\<lparr>drawn := k, calls := c\<rparr>)) = Some (u\<lparr>u_totp_secret_enc := Some enc, u_totp_confirmed_at := None\<rparr>)" for enc k c
    by (subst live_user_upd) (simp_all add: assms(2))
  have keep: "healthy (upd_live i f s') = healthy s'" "store_ids_ok (upd_live i f s') = store_ids_ok s'"
    "app_now (upd_live i f s') = app_now s'" for f and s' :: "'a world_scheme"
    by (simp_all add: upd_live_def healthy_def store_ids_ok_def)
  show ?thesis
    using assms(1)
    by (auto simp: totp_start_def require_pepper_def find_by_id_def find wp_rules healthyD set_totp_secret_def
        NONCE_LEN_def upd keep ok_body_def internal_def problem_def split: option.split sum.split)
qed

lemma totp_confirm_wp:
  assumes "healthy s" and "store_ids_ok s" and "argon2_law env" and "e_pepper env \<noteq> None"
    and "\<And>salt p. \<exists>h. e_hash_password env salt p (e_pepper env) = Inr h"
    and "live_user i s = Some u" and "u_totp_secret_enc u = Some enc" and "dec_secret env enc = Inr secret"
    and "valid_totp_confirm \<lparr>tc_code = code\<rparr>" and "e_totp_verify env (app_now s) secret code"
  shows "wp (totp_confirm env h i (Json \<lparr>tc_code = code\<rparr>)) (\<lambda>r t. \<exists>plain. r = ok_body 200 (CodesBody plain) \<and>
     codes_stored env i plain t \<and> healthy t \<and> app_now t = app_now s \<and>
     live_user i t = Some (u\<lparr>u_totp_confirmed_at := Some (db_now s)\<rparr>)) s"
proof -
  have find: "find_row (\<lambda>u. has_id i u \<and> live u) (users s) = Some u" using assms(6) by (simp add: live_user_def)
  obtain p where pepper: "e_pepper env = Some p" using assms(4) by blast
  let ?s = "upd_live i (\<lambda>u. u\<lparr>u_totp_confirmed_at := Some (db_now s)\<rparr>) (s\<lparr>calls := Suc (Suc (Suc (calls s)))\<rparr>)"
  have ok: "healthy ?s" "store_ids_ok ?s" using assms(1,2) by (simp_all add: upd_live_def healthy_def store_ids_ok_def)
  have live: "live_user i ?s = Some (u\<lparr>u_totp_confirmed_at := Some (db_now s)\<rparr>)"
    by (subst live_user_upd) (simp_all add: assms(6))
  have made: "\<exists>codes. generate_codes tbl (\<lambda>salt p. e_hash_password env salt p (e_pepper env)) d salts is = Inr codes"
    for tbl d salts "is"
  proof -
    obtain hsh where "\<And>salt p. e_hash_password env salt p (e_pepper env) = Inr (hsh salt p)"
      using assms(5) by metis
    then show ?thesis by (induction "is") (auto simp: Let_def)
  qed
  have total: "wp (generate_and_store_recovery_codes env i) (\<lambda>r t. \<exists>plain. r = Inr plain) ?s"
  proof -
    obtain codes where "generate_set (e_upper_tbl env) (\<lambda>salt p. e_hash_password env salt p (e_pepper env))
        (\<lambda>i j. u32_at (draws s (drawn s)) (GROUPS * GROUP_LEN * i + j)) (salt_at (draws s (Suc (drawn s)))) = Inr codes"
      using made unfolding generate_set_def by blast
    then show ?thesis
      using ok(1) by (simp add: generate_and_store_recovery_codes_def wp_rules healthyD replace_all_def upd_live_def)
  qed
  have store: "wp (generate_and_store_recovery_codes env i) (\<lambda>r t. \<exists>plain. r = Inr plain \<and> codes_stored env i plain t \<and>
      healthy t \<and> app_now t = app_now s \<and> live_user i t = Some (u\<lparr>u_totp_confirmed_at := Some (db_now s)\<rparr>)) ?s"
    by (rule wp_mono [OF wp_conj [OF generate_and_store_wp [OF ok assms(3), of i] total]])
       (use live in \<open>auto simp: live_user_def upd_live_def\<close>)
  have codes_frame: "codes_stored env i plain (t\<lparr>calls := n\<rparr>) = codes_stored env i plain t"
    "codes_stored env i plain (t\<lparr>calls := n, audit_log := l\<rparr>) = codes_stored env i plain t"
    for plain n l and t :: "'a world_scheme" by (simp_all add: codes_stored_def)
  show ?thesis
    using assms(1,9,10)
    by (simp add: totp_confirm_def json_or_400_def require_pepper_def pepper get_totp_def find assms(7,8) wp_rules
        healthyD confirm_totp_def)
       (rule wp_mono [OF store], auto simp: wp_rules Let_def codes_frame)
qed

lemma totp_factor_accepts:
  assumes "healthy s" and "e_pepper env \<noteq> None" and "live_user i s = Some u" and "u_totp_secret_enc u = Some enc"
    and "u_totp_confirmed_at u \<noteq> None" and "dec_secret env enc = Inr secret"
  shows "wp (verify_totp_factor env i code) (\<lambda>ok t. ok = e_totp_verify env (app_now s) secret code \<and> users t = users s) s"
  using assms
  by (auto simp: verify_totp_factor_def get_totp_def wp_rules healthyD live_user_def)

section \<open>Passwords\<close>

definition sessions_revoked :: "uid \<Rightarrow> 'w world_scheme \<Rightarrow> bool" where
  "sessions_revoked i t \<longleftrightarrow> (\<forall>f\<in>set (families t). f_user_id f = i \<longrightarrow> f_revoked_at f \<noteq> None)"

lemma sessions_revoked_where: "sessions_revoked i (revoke_where (\<lambda>f. f_user_id f = i) reason s)"
  unfolding sessions_revoked_def revoke_where_def
  by (simp del: not_None_eq) (rule spent_after_update; simp)

lemma sessions_revoked_frame [simp]:
  "sessions_revoked i (s\<lparr>calls := v0\<rparr>) = sessions_revoked i s"
  "sessions_revoked i (s\<lparr>audit_log := v1\<rparr>) = sessions_revoked i s"
  for s :: "'w world_scheme"
  by (simp_all add: sessions_revoked_def)

lemma revoke_where_fields [simp]:
  "users (revoke_where P reason s) = users s" "resets (revoke_where P reason s) = resets s"
  "calls (revoke_where P reason s) = calls s" "faults (revoke_where P reason s) = faults s"
  "healthy (revoke_where P reason s) = healthy s" "db_now (revoke_where P reason s) = db_now s"
  "audit_log (revoke_where P reason s) = audit_log s"
  by (simp_all add: revoke_where_def healthy_def)

definition reset_row_of :: "env \<Rightarrow> PasswordResetConfirmBody \<Rightarrow> 'w world_scheme \<Rightarrow> reset_row option" where
  "reset_row_of env req s = find_row (open_reset (hash_token (e_sha256 env) (prc_token req)) (db_now s)) (resets s)"

definition with_password :: "ustr \<Rightarrow> user_row \<Rightarrow> user_row" where
  "with_password h u = u\<lparr>u_password_hash := Some h\<rparr>"

lemma reset_confirm_wp:
  assumes "healthy s" and "valid_reset_confirm req" and "check_strength (e_zxcvbn env) (prc_new_password req) [] = Inr ()"
    and "e_hash_password env (take 16 (draws s (drawn s))) (prc_new_password req) (e_pepper env) = Inr hh"
  shows "wp (password_reset_confirm env h (Json req)) (\<lambda>r t. case reset_row_of env req s of
      None \<Rightarrow> r = invalid_reset_token \<and> users t = users s \<and> families t = families s
    | Some p \<Rightarrow> r = ok_body 204 NoBody \<and> reset_row_of env req t = None \<and> sessions_revoked (p_user_id p) t \<and>
        users t = update_where (has_id (p_user_id p)) (with_password hh) (users s)) s"
proof (cases "reset_row_of env req s")
  case None
  then have row: "find_row (open_reset (hash_token (e_sha256 env) (prc_token req)) (db_now s)) (resets s) = None"
    by (simp add: reset_row_of_def)
  show ?thesis
    unfolding None option.case
    using assms(1-3)
    by (simp add: password_reset_confirm_def parse_json_def wp_rules healthyD consume_def row)
next
  case (Some p)
  let ?h = "hash_token (e_sha256 env) (prc_token req)"
  have spent: "find_row (open_reset ?h (db_now s)) (update_where (open_reset ?h (db_now s))
      (\<lambda>p. p\<lparr>p_used_at := Some (db_now s)\<rparr>) (resets s)) = None"
    by (auto simp: find_row_None set_update_where open_reset_def)
  have frame: "reset_row_of env req (t\<lparr>calls := n\<rparr>) = reset_row_of env req t"
    "reset_row_of env req (t\<lparr>audit_log := l\<rparr>) = reset_row_of env req t"
    "reset_row_of env req (revoke_where P x t) = reset_row_of env req t"
    for t :: "'a world_scheme" and n l P x by (simp_all add: reset_row_of_def)
  have gone: "reset_row_of env req (upd_user i f (s\<lparr>calls := a, resets := update_where (open_reset ?h (db_now s))
      (\<lambda>p. p\<lparr>p_used_at := Some (db_now s)\<rparr>) (resets s), drawn := b\<rparr>)) = None" for i f a b
    using spent by (simp add: reset_row_of_def upd_user_def)
  from Some have row: "find_row (open_reset ?h (db_now s)) (resets s) = Some p" by (simp add: reset_row_of_def)
  show ?thesis
    unfolding Some option.case
    using assms(1-4)
    by (simp add: password_reset_confirm_def parse_json_def wp_rules healthyD consume_def row set_password_hash_def
        revoke_all_for_user_def revoke_all_for_user_counted_def Let_def sessions_revoked_where with_password_def [abs_def] frame)
       (simp add: reset_row_of_def upd_user_def spent)
qed

lemma change_password_wp:
  "wp (change_password env h i (Json req)) (\<lambda>r t. users t \<noteq> users s \<longrightarrow>
      (\<exists>u hh salt. live_user i s = Some u \<and> u_auth_source u = lit ''local'' \<and>
         password_verified env (cp_current_password req) (Some u) \<and>
         check_strength (e_zxcvbn env) (cp_new_password req) [u_email u, u_username u] = Inr () \<and>
         e_hash_password env salt (cp_new_password req) (e_pepper env) = Inr hh \<and>
         users t = update_where (has_id i) (\<lambda>u. u\<lparr>u_password_hash := Some hh, u_must_change_password := False\<rparr>) (users s) \<and>
         (healthy s \<longrightarrow> sessions_revoked i t))) s"
proof (cases "live_user i s")
  case None
  then have "find_row (\<lambda>u. has_id i u \<and> live u) (users s) = None" by (simp add: live_user_def)
  then show ?thesis
    by (simp add: change_password_def json_or_400_def wp_rules find_by_id_with_secret_def)
next
  case (Some u)
  then have find: "find_row (\<lambda>u. has_id i u \<and> live u) (users s) = Some u" by (simp add: live_user_def)
  show ?thesis
    unfolding Some
    by (auto simp: change_password_def json_or_400_def wp_rules find_by_id_with_secret_def find Let_def
        revoke_all_for_user_def revoke_all_for_user_counted_def sessions_revoked_where healthyD
        split: sum.split)
qed

section \<open>Properties\<close>

text \<open>
  C31: The second step of a login ends in a session only for a request that carries an unexpired
  challenge token and a factor of the challenged user: a code that the user's confirmed
  authenticator secret accepts now, or one of the user's unused recovery codes, which is spent with
  it. This holds whatever fails on the way.
\<close>

theorem second_step_needs_factor:
  assumes "store_ids_ok s" and "run_state (two_factor_verify env h (Json req)) s = (r, t)" and "is_session r"
  shows "\<exists>i. verify_mfa_token (e_unseal env) (e_uuid_parse env) (app_now s) (e_key env) (tv_mfa_token req) = Inr i \<and>
    factor_proved env i req s t"
  using wpI [OF assms(2) two_factor_session [OF assms(1)]] assms(3) by blast

text \<open>A server whose only token is a second-factor challenge for user 7.\<close>

definition mfa_env :: env where
  "mfa_env = demo_env\<lparr>e_unseal := (\<lambda>k now token. Some \<lparr>c_iat = 0, c_nbf = 0, c_exp = 2000, c_sub = Some [7],
     c_extra = [(TOKEN_TYPE_CLAIM, TOKEN_TYPE_MFA)]\<rparr>)\<rparr>"

definition demo_code :: "ustr \<Rightarrow> recovery_row" where
  "demo_code h = \<lparr>r_id = 3, r_user_id = 7, r_code_hash = h, r_used_at = None\<rparr>"

definition code_world :: world where
  "code_world = demo_world\<lparr>recovery := [demo_code [65]]\<rparr>"

definition code_request :: TwoFactorVerifyRequest where
  "code_request = \<lparr>tv_mfa_token = [1], tv_method = lit ''recovery'', tv_code = [97]\<rparr>"

lemma second_step_needs_factor_witness:
  "code_spent 3 (snd (run_state (two_factor_verify mfa_env [] (Json code_request)) code_world))"
proof -
  let ?run = "run_state (two_factor_verify mfa_env [] (Json code_request)) code_world"
  have ok: "store_ids_ok code_world"
    by (simp add: store_ids_ok_def code_world_def demo_world_def empty_world_def demo_code_def)
  have len: "len_between 1 16 (lit ''recovery'')" by (simp add: len_between_def lit_def utf8_len_def)
  have "wp (two_factor_verify mfa_env [] (Json code_request)) (\<lambda>r t. is_session r) code_world"
    using len
    by (simp add: two_factor_verify_def json_or_400_def code_request_def valid_two_factor_def len_between_def
        utf8_len_def verify_mfa_token_def verify_typed_def mfa_env_def code_world_def demo_lookup_simps wp_rules
        wp_stmt Let_def verify_factor_def verify_recovery_factor_def list_unused_def demo_code_def
        code_matches_def rc_verify_def rc_normalize_def to_uppercase_def ascii_upper_def is_ascii_lower_def
        recovery_mark_used_def affected_def count_where_def unused_code_def
        issue_session_def establish_session_def create_family_def insert_token_def stamp_login_def
        has_family_def any_row_def count_for_actor_actions_def new_access_token_def
        issue_access_token_def issue_typed_def set_expiry_def RFC3339_MIN_def RFC3339_MAX_def
        ACCESS_TTL_SECS_def is_session_def)
  then have "is_session (fst ?run)" by (simp add: wp_def case_prod_beta)
  from second_step_needs_factor [OF ok prod.collapse [symmetric] this]
  obtain i where "factor_proved mfa_env i code_request code_world (snd ?run)" by blast
  then show ?thesis
    by (auto simp: factor_proved_def code_request_def code_proved_def code_world_def demo_code_def)
qed

text \<open>
  Enrolling an authenticator works end to end: the secret shown at the start is stored encrypted
  and pending, a code for it activates the second factor and yields ten recovery codes, and from then
  on exactly the codes of that secret pass the challenge. Starting again on an account with an active
  authenticator switches it off until the new one is confirmed.
\<close>

theorem totp_enrollment:
  assumes "healthy s" and "store_ids_ok s" and "user_ids_ok s" and "argon2_law env" and "e_pepper env \<noteq> None"
    and aead: "\<And>key n pt ct. e_aead_encrypt env key n pt = Some ct \<Longrightarrow> e_aead_decrypt env key n ct = Some pt"
    and "\<And>k. 12 \<le> length (draws s k)" and hash: "\<And>salt p. \<exists>hh. e_hash_password env salt p (e_pepper env) = Inr hh"
    and "live_user i s = Some u"
    and "run_state (totp_start env provision i) s = (r, t)" and "rs_body r = SecretBody secret"
    and "valid_totp_confirm \<lparr>tc_code = code\<rparr>" and "e_totp_verify env (app_now s) secret code"
    and "run_state (totp_confirm env h i (Json \<lparr>tc_code = code\<rparr>)) t = (r', v)"
  shows "(\<exists>u'. live_user i t = Some u' \<and> u_totp_confirmed_at u' = None) \<and>
    (\<exists>plain. r' = ok_body 200 (CodesBody plain) \<and> length plain = 10) \<and>
    (\<exists>u'. live_user i v = Some u' \<and> u_totp_confirmed_at u' \<noteq> None) \<and>
    fst (run_state (verify_totp_factor env i code') v) = e_totp_verify env (app_now v) secret code'"
proof -
  obtain enc where enc: "enc_secret env (take 12 (draws s (Suc (drawn s)))) secret = Inr enc"
    and pending: "live_user i t = Some (u\<lparr>u_totp_secret_enc := Some enc, u_totp_confirmed_at := None\<rparr>)"
    and t: "healthy t" "store_ids_ok t" "app_now t = app_now s"
    using wpI [OF assms(10) totp_start_wp [OF assms(1,9)]] assms(2,11) by blast
  obtain key ct where "cipher (e_derive env) (e_pepper env) = Inr key" and
    "e_aead_encrypt env key (take 12 (draws s (Suc (drawn s)))) secret = Some ct"
    and "enc = take 12 (draws s (Suc (drawn s))) @ ct"
    using enc by (auto simp: enc_secret_def secret_encrypt_def split: sum.splits option.splits)
  then have dec: "dec_secret env enc = Inr secret"
    using aead assms(7) by (simp add: dec_secret_def secret_decrypt_def NONCE_LEN_def)
  obtain plain where v: "r' = ok_body 200 (CodesBody plain)" "codes_stored env i plain v" "healthy v"
    "app_now v = app_now t"
    "live_user i v = Some (u\<lparr>u_totp_secret_enc := Some enc, u_totp_confirmed_at := Some (db_now t)\<rparr>)"
    using wpI [OF assms(14) totp_confirm_wp [OF t(1,2) assms(4,5) hash pending _ dec assms(12)]] assms(13) t(3)
    by auto
  have "wp (verify_totp_factor env i code') (\<lambda>ok u. ok = e_totp_verify env (app_now v) secret code' \<and> users u = users v) v"
    by (rule totp_factor_accepts [OF v(3) assms(5) v(5) _ _ dec]) simp_all
  then have "fst (run_state (verify_totp_factor env i code') v) = e_totp_verify env (app_now v) secret code'"
    by (simp add: wp_def case_prod_beta)
  with pending v show ?thesis by (auto simp: codes_stored_def)
qed

lemma totp_enrollment_witness:
  "let s = demo_world;
       t = snd (run_state (totp_start demo_env (\<lambda>secret mail. True) 7) s);
       v = snd (run_state (totp_confirm demo_env [] 7 (Json \<lparr>tc_code = lit ''123456''\<rparr>)) t)
   in fst (run_state (verify_totp_factor demo_env 7 (lit ''123456'')) v) \<and>
      \<not> fst (run_state (verify_totp_factor demo_env 7 (lit ''654321'')) v)"
proof -
  let ?start = "run_state (totp_start demo_env (\<lambda>secret mail. True) 7) demo_world"
  let ?confirm = "run_state (totp_confirm demo_env [] 7 (Json \<lparr>tc_code = lit ''123456''\<rparr>)) (snd ?start)"
  have base: "store_ids_ok demo_world" "user_ids_ok demo_world" "argon2_law demo_env" "e_pepper demo_env \<noteq> None"
    "\<And>key n pt ct. e_aead_encrypt demo_env key n pt = Some ct \<Longrightarrow> e_aead_decrypt demo_env key n ct = Some pt"
    "\<And>k. 12 \<le> length (draws demo_world k)" "\<And>salt p. \<exists>hh. e_hash_password demo_env salt p (e_pepper demo_env) = Inr hh"
    "live_user 7 demo_world = Some (demo_user 7)"
    by (simp_all add: demo_lookup_simps store_ids_ok_def user_ids_ok_def keyed_def argon2_law_def live_user_def)
  have code: "valid_totp_confirm \<lparr>tc_code = lit ''123456''\<rparr>" "e_totp_verify demo_env n sec (lit ''123456'')"
    "\<not> e_totp_verify demo_env n sec (lit ''654321'')" for n sec
    by (simp_all add: valid_totp_confirm_def len_between_def lit_def utf8_len_def is_ascii_digit_def demo_env_def)
  have "wp (totp_start demo_env (\<lambda>secret mail. True) 7) (\<lambda>r t. rs_body r = SecretBody (replicate 20 0)) demo_world"
    by (simp add: totp_start_def require_pepper_def find_by_id_def demo_lookup_simps wp_rules Let_def
        enc_secret_def secret_encrypt_def cipher_def set_totp_secret_def ok_body_def SECRET_LEN_def)
  then have body: "rs_body (fst ?start) = SecretBody (replicate 20 0)" by (simp add: wp_def case_prod_beta)
  note enroll = totp_enrollment [OF demo_healthy(1) base prod.collapse [symmetric] body code(1,2) prod.collapse [symmetric]]
  show ?thesis
    using enroll [of "[]" "lit ''123456''"] enroll [of "[]" "lit ''654321''"] code(2,3) by (simp add: Let_def)
qed

text \<open>
  Recovery codes work end to end: a stored set has ten codes and replaces every earlier one, each code
  shown to the user passes the challenge afterwards, and using it leaves nine.
\<close>

theorem recovery_codes_work:
  assumes "healthy s" and "store_ids_ok s" and "argon2_law env"
    and "run_state (generate_and_store_recovery_codes env i) s = (Inr plain, t)" and "p \<in> set plain"
    and "run_state (verify_recovery_factor env i p) t = (ok, u)"
  shows "length plain = 10 \<and> count_where (unused_of i) (recovery t) = 10 \<and>
    ok \<and> count_where (unused_of i) (recovery u) = 9"
proof -
  have t: "healthy t" "codes_stored env i plain t"
    using wpI [OF assms(4) generate_and_store_wp [OF assms(1-3)]] by auto
  from wpI [OF assms(6) stored_code_accepted [OF t assms(5)]] t(2) show ?thesis by (simp add: codes_stored_def)
qed

lemma recovery_codes_work_witness:
  "fst (run_state (verify_recovery_factor demo_env 7 (lit ''AAAA-AAAA-AAAA''))
     (snd (run_state (generate_and_store_recovery_codes demo_env 7) demo_world)))"
proof -
  let ?run = "run_state (generate_and_store_recovery_codes demo_env 7) demo_world"
  have base: "store_ids_ok demo_world" "argon2_law demo_env"
    by (simp_all add: demo_lookup_simps store_ids_ok_def argon2_law_def)
  have zero: "u32_at (replicate 32 0) = (\<lambda>_. 0)" by (rule ext) (simp add: u32_at_def byte_at_def)
  have code: "random_code (\<lambda>_. 0) = lit ''AAAA-AAAA-AAAA''"
    by (simp add: random_code_def GROUPS_def GROUP_LEN_def upt_rec RC_codes lit_def)
  have "wp (generate_and_store_recovery_codes demo_env 7) (\<lambda>r t. \<exists>plain. r = Inr plain \<and> lit ''AAAA-AAAA-AAAA'' \<in> set plain) demo_world"
    by (simp add: generate_and_store_recovery_codes_def generate_set_def RECOVERY_CODE_COUNT_def upt_rec
        demo_lookup_simps wp_rules replace_all_def zero code Let_def)
  then obtain plain where "fst ?run = Inr plain" "lit ''AAAA-AAAA-AAAA'' \<in> set plain"
    by (auto simp: wp_def case_prod_beta)
  then show ?thesis
    using recovery_codes_work [OF demo_healthy(1) base, of 7 plain "snd ?run" "lit ''AAAA-AAAA-AAAA''"]
    by (metis prod.collapse)
qed

text \<open>
  C37: On a healthy database, for a new password that is well-formed, strong enough and can be hashed, a
  password reset does all of it or refuses: an open reset token sets the password of its owner and of nobody
  else, is spent, and revokes every session of that user; a token that is unknown, spent or expired changes no
  account and no session. The owner may be an account of the directory (\<open>reset_ignores_directory\<close>), although
  the documentation says that its password cannot be reset here.
\<close>

theorem password_reset_exact:
  assumes "healthy s" and "valid_reset_confirm req" and "check_strength (e_zxcvbn env) (prc_new_password req) [] = Inr ()"
    and "e_hash_password env (take 16 (draws s (drawn s))) (prc_new_password req) (e_pepper env) = Inr hh"
    and "run_state (password_reset_confirm env h (Json req)) s = (r, t)"
  shows "case reset_row_of env req s of
      None \<Rightarrow> r = invalid_reset_token \<and> users t = users s \<and> families t = families s
    | Some p \<Rightarrow> r = ok_body 204 NoBody \<and> reset_row_of env req t = None \<and> sessions_revoked (p_user_id p) t \<and>
        users t = update_where (has_id (p_user_id p)) (with_password hh) (users s)"
  using wpI [OF assms(5) reset_confirm_wp [OF assms(1-4)]] .

text \<open>
  A reset gives an account of the directory a local password, which the account page would refuse to change.
\<close>

lemma reset_ignores_directory:
  assumes "healthy s" and "valid_reset_confirm req" and "check_strength (e_zxcvbn env) (prc_new_password req) [] = Inr ()"
    and "e_hash_password env (take 16 (draws s (drawn s))) (prc_new_password req) (e_pepper env) = Inr hh"
    and "run_state (password_reset_confirm env h (Json req)) s = (r, t)"
    and "reset_row_of env req s = Some p" and "u \<in> set (users s)" and "u_id u = p_user_id p" and "u_auth_source u = lit ''ldap''"
  shows "\<exists>v\<in>set (users t). u_id v = u_id u \<and> u_auth_source v = lit ''ldap'' \<and> u_password_hash v = Some hh"
  using wpI [OF assms(5) reset_confirm_wp [OF assms(1-4)]] assms(6-)
  by (auto simp: set_update_where has_id_def with_password_def intro!: bexI [of _ "with_password hh u"])

definition demo_reset :: reset_row where
  "demo_reset = \<lparr>p_id = 1, p_user_id = 7, p_token_hash = hash_token (e_sha256 demo_env) [5],
     p_expires_at = 2000, p_used_at = None\<rparr>"

lemma password_reset_exact_witness:
  "let s = (demo_session None)\<lparr>resets := [demo_reset]\<rparr>;
       (r, t) = run_state (password_reset_confirm demo_env []
         (Json \<lparr>prc_token = [5], prc_new_password = replicate 12 113\<rparr>)) s
   in map u_password_hash (users t) = [Some (replicate 12 113)] \<and> sessions_revoked 7 t"
proof -
  let ?s = "(demo_session None)\<lparr>resets := [demo_reset]\<rparr>"
  let ?req = "\<lparr>prc_token = [5], prc_new_password = replicate 12 113\<rparr>"
  have ok: "healthy ?s" "valid_reset_confirm ?req" "check_strength (e_zxcvbn demo_env) (prc_new_password ?req) [] = Inr ()"
    "e_hash_password demo_env (take 16 (draws ?s (drawn ?s))) (prc_new_password ?req) (e_pepper demo_env) = Inr (replicate 12 113)"
    by (simp_all add: demo_session_facts demo_env_def valid_reset_confirm_def len_between_def utf8_len_def
        byte_len_def sum_list_replicate check_strength_def MIN_PASSWORD_LEN_def MIN_ZXCVBN_SCORE_def)
  have "reset_row_of demo_env ?req ?s = Some demo_reset"
    by (simp add: reset_row_of_def demo_reset_def open_reset_def find_row_def demo_session_def demo_world_def empty_world_def)
  with password_reset_exact [OF ok prod.collapse [symmetric], of "[]"] show ?thesis
    by (simp add: Let_def case_prod_beta demo_reset_def demo_session_def demo_world_def empty_world_def demo_user_def
        default_user_def has_id_def with_password_def)
qed

text \<open>
  The password of an account changes through the account page only for a live local account, on
  proof of the current password, to one that passes the policy, and only on that account; while the
  database answers, every session of the user is revoked with it.
\<close>

theorem password_change_guarded:
  assumes "run_state (change_password env h i (Json req)) s = (r, t)" and "users t \<noteq> users s"
  shows "\<exists>u hh salt. live_user i s = Some u \<and> u_auth_source u = lit ''local'' \<and>
    password_verified env (cp_current_password req) (Some u) \<and>
    check_strength (e_zxcvbn env) (cp_new_password req) [u_email u, u_username u] = Inr () \<and>
    e_hash_password env salt (cp_new_password req) (e_pepper env) = Inr hh \<and>
    users t = update_where (has_id i) (\<lambda>u. u\<lparr>u_password_hash := Some hh, u_must_change_password := False\<rparr>) (users s) \<and>
    (healthy s \<longrightarrow> sessions_revoked i t)"
  using wpI [OF assms(1) change_password_wp] assms(2) by blast

lemma password_change_guarded_witness:
  "sessions_revoked 7 (snd (run_state (change_password demo_env [] 7
     (Json \<lparr>cp_current_password = [112], cp_new_password = replicate 12 113\<rparr>)) (demo_session None)))"
proof -
  let ?run = "run_state (change_password demo_env [] 7
     (Json \<lparr>cp_current_password = [112], cp_new_password = replicate 12 113\<rparr>)) (demo_session None)"
  have ok: "valid_change_password \<lparr>cp_current_password = [112], cp_new_password = replicate 12 113\<rparr>"
    "check_strength (\<lambda>p ctx. 4) (replicate 12 113) ctx = Inr ()" for ctx
    by (simp_all add: valid_change_password_def len_between_def utf8_len_def byte_len_def sum_list_replicate
        check_strength_def MIN_PASSWORD_LEN_def MIN_ZXCVBN_SCORE_def)
  have differ: "replicate 12 113 \<noteq> [112 :: nat]" by (auto dest: arg_cong [where f = length])
  have "wp (change_password demo_env [] 7 (Json \<lparr>cp_current_password = [112], cp_new_password = replicate 12 113\<rparr>))
      (\<lambda>r t. users t \<noteq> users (demo_session None)) (demo_session None)"
    by (simp add: change_password_def json_or_400_def ok wp_rules demo_session_def demo_lookup_simps
        find_by_id_with_secret_def Let_def revoke_all_for_user_def revoke_all_for_user_counted_def upd_user_def differ)
  then have "users (snd ?run) \<noteq> users (demo_session None)" by (simp add: wp_def case_prod_beta)
  from password_change_guarded [OF prod.collapse [symmetric] this] demo_session_facts(1)
  show ?thesis by blast
qed

text \<open>
  Three limits. Starting an enrollment drops the confirmed state at once; a code is not remembered, so
  it passes again while its time step lasts; and the second step asks neither whether the account is
  still enabled nor whether it has been banned since the challenge.
\<close>

lemma start_disables_factor:
  assumes "healthy s" and "live_user i s = Some u"
    and "run_state (totp_start env provision i) s = (r, t)" and "rs_body r = SecretBody secret"
  shows "\<exists>u'. live_user i t = Some u' \<and> u_totp_confirmed_at u' = None"
  using wpI [OF assms(3) totp_start_wp [OF assms(1,2)]] assms(4) by auto

lemma totp_code_replayable:
  assumes "healthy s" and "run_state (verify_totp_factor env i code) s = (True, t)"
  shows "fst (run_state (verify_totp_factor env i code) t) = True"
proof -
  have frame: "wp (verify_totp_factor env i code) (\<lambda>ok t. healthy t \<and> users t = users s \<and> app_now t = app_now s) s"
    using assms(1) by (simp add: verify_totp_factor_def get_totp_def wp_rules split: option.split)
  obtain u enc secret where u: "live_user i s = Some u" "u_totp_secret_enc u = Some enc" "u_totp_confirmed_at u \<noteq> None"
    "dec_secret env enc = Inr secret" "e_totp_verify env (app_now s) secret code"
    using wpI [OF assms(2) totp_factor_wp] by (auto simp: totp_proved_def)
  have t: "healthy t" "live_user i t = Some u" "app_now t = app_now s"
    using wpI [OF assms(2) frame] u(1) by (auto simp: live_user_def)
  have "e_pepper env \<noteq> None" using u(4) by (cases "e_pepper env") (auto simp: dec_secret_def secret_decrypt_def cipher_def split: if_splits)
  from totp_factor_accepts [OF t(1) this t(2) u(2,3,4), of code] t(3) u(5)
  show ?thesis by (simp add: wp_def case_prod_beta)
qed

lemma second_step_ignores_ban:
  "is_session (fst (run_state (two_factor_verify mfa_env [] (Json code_request))
     (code_world\<lparr>users := [(demo_user 7)\<lparr>u_is_active := False, u_banned_at := Some 500\<rparr>]\<rparr>)))"
proof -
  have len: "len_between 1 16 (lit ''recovery'')" by (simp add: len_between_def lit_def utf8_len_def)
  have "wp (two_factor_verify mfa_env [] (Json code_request)) (\<lambda>r t. is_session r)
     (code_world\<lparr>users := [(demo_user 7)\<lparr>u_is_active := False, u_banned_at := Some 500\<rparr>]\<rparr>)"
    using len
    by (simp add: two_factor_verify_def json_or_400_def code_request_def valid_two_factor_def len_between_def
        utf8_len_def verify_mfa_token_def verify_typed_def mfa_env_def code_world_def demo_lookup_simps wp_rules
        wp_stmt Let_def verify_factor_def verify_recovery_factor_def list_unused_def demo_code_def
        code_matches_def rc_verify_def rc_normalize_def to_uppercase_def ascii_upper_def is_ascii_lower_def
        recovery_mark_used_def affected_def count_where_def unused_code_def
        issue_session_def establish_session_def create_family_def insert_token_def stamp_login_def
        has_family_def any_row_def count_for_actor_actions_def new_access_token_def
        issue_access_token_def issue_typed_def set_expiry_def RFC3339_MIN_def RFC3339_MAX_def
        ACCESS_TTL_SECS_def is_session_def)
  then show ?thesis by (simp add: wp_def case_prod_beta)
qed

end
