(* ===== verification/Gate.thy ===== *)
theory Gate
  imports Perms Second_Factor "HOL-Library.Mapping"
begin

text \<open>
  Who may make a request: the bearer credential (\<open>crates/api/src/auth/extractor.rs\<close>), the cache of
  account statuses behind it (\<open>crates/api/src/presence.rs\<close>) and the stored machine credentials
  (\<open>crates/db/src/app_tokens.rs\<close>).

  A server node extends the database by its own memory: the cache and the monotonic clock, in
  nanoseconds. A missing authentication context (a server started without one) is not modelled. The
  errors of the database layer other than the two constraint violations, a stored permission that
  does not parse among them, are all \<open>Unavailable\<close>.
\<close>

section \<open>The status cache\<close>

definition NANOS :: nat where "NANOS = 1000000000"

definition CHECK_TTL :: nat where "CHECK_TTL = 30 * NANOS"
definition SWEEP_AFTER :: nat where "SWEEP_AFTER = 3600 * NANOS"

record Entry =
  en_status :: AccountStatus
  en_checked :: nat

text \<open>The machine credentials and their project scope, as pairs of token and project.\<close>

record apptoken_row =
  ak_id :: nat
  ak_name :: ustr
  ak_token_hash :: ustr
  ak_prefix :: ustr
  ak_last4 :: ustr
  ak_permissions :: "ustr list"
  ak_created_by :: "uid option"
  ak_expires_at :: "int option"
  ak_revoked_at :: "int option"
  ak_last_used_at :: "int option"
  ak_created_at :: int

record node = world +
  instant :: nat
  p_ttl :: nat
  p_entries :: "(uid, Entry) mapping"
  app_tokens :: "apptoken_row list"
  app_token_projects :: "(nat \<times> nat) list"

definition reads :: "('s \<Rightarrow> 'a) \<Rightarrow> ('s, 'a) state" where
  "reads f = State (\<lambda>s. (f s, s))"

definition writes :: "('s \<Rightarrow> 's) \<Rightarrow> ('s, unit) state" where
  "writes f = State (\<lambda>s. ((), f s))"

definition elapsed :: "Entry \<Rightarrow> 'n node_scheme \<Rightarrow> nat" where
  "elapsed e s = instant s - en_checked e"

definition cached :: "uid \<Rightarrow> 'n node_scheme \<Rightarrow> AccountStatus option" where
  "cached i s =
     (case Mapping.lookup (p_entries s) i of
        None \<Rightarrow> None
      | Some e \<Rightarrow> if elapsed e s < p_ttl s then Some (en_status e) else None)"

definition store :: "uid \<Rightarrow> AccountStatus \<Rightarrow> 'n node_scheme \<Rightarrow> 'n node_scheme" where
  "store i st s =
     (let es = p_entries s;
          kept = (if Mapping.size es > 1024 then Mapping.filter (\<lambda>_ e. elapsed e s < SWEEP_AFTER) es else es)
      in s\<lparr>p_entries := Mapping.update i \<lparr>en_status = st, en_checked = instant s\<rparr> kept\<rparr>)"

definition invalidate :: "uid \<Rightarrow> 'n node_scheme \<Rightarrow> 'n node_scheme" where
  "invalidate i s = s\<lparr>p_entries := Mapping.delete i (p_entries s)\<rparr>"

definition presence_check :: "uid \<Rightarrow> ('n node_scheme, AccountStatus option) state" where
  "presence_check i = do {
     hit \<leftarrow> reads (cached i);
     case hit of
       Some st \<Rightarrow> State_Monad.return (Some st)
     | None \<Rightarrow> do {
         seen \<leftarrow> touch_last_seen i;
         case seen of
           Inr (Some st) \<Rightarrow> do {
             _ \<leftarrow> writes (store i st);
             State_Monad.return (Some st)
           }
         | Inr None \<Rightarrow> State_Monad.return None
         | Inl _ \<Rightarrow> State_Monad.return (Some \<lparr>is_active = True, banned = False\<rparr>)
       }
   }"

section \<open>Machine credentials\<close>

record AppTokenAuth =
  aa_id :: nat
  aa_permissions :: "Permission list"
  aa_project_ids :: "nat list"

definition scope_of :: "nat \<Rightarrow> 'n node_scheme \<Rightarrow> nat list" where
  "scope_of tid s = map snd (filter (\<lambda>p. fst p = tid) (app_token_projects s))"

text \<open>\<open>INSERT ... ON CONFLICT DO NOTHING\<close> for each project.\<close>

definition add_scope :: "nat \<Rightarrow> nat list \<Rightarrow> (nat \<times> nat) list \<Rightarrow> (nat \<times> nat) list" where
  "add_scope tid pids rows = fold (\<lambda>p acc. if (tid, p) \<in> set acc then acc else acc @ [(tid, p)]) pids rows"

definition apptoken_create ::
    "ustr \<Rightarrow> ustr \<Rightarrow> ustr \<Rightarrow> ustr \<Rightarrow> Permission list \<Rightarrow> uid option \<Rightarrow> int option \<Rightarrow> nat list \<Rightarrow> ('n node_scheme, nat) db" where
  "apptoken_create name token_hash prefix last4 permissions created_by expires_at project_ids = stmt (\<lambda>s.
     if any_row (\<lambda>t. ak_token_hash t = token_hash) (app_tokens s) then (Inl UniqueViolation, s)
     else if created_by \<noteq> None \<and> find_user (the created_by) s = None then (Inl ForeignKeyViolation, s)
     else (Inr (next_id s), s\<lparr>
       app_tokens := app_tokens s @
         [\<lparr>ak_id = next_id s, ak_name = name, ak_token_hash = token_hash, ak_prefix = prefix, ak_last4 = last4,
           ak_permissions = permissions_to_json permissions, ak_created_by = created_by,
           ak_expires_at = expires_at, ak_revoked_at = None, ak_last_used_at = None, ak_created_at = db_now s\<rparr>],
       app_token_projects := add_scope (next_id s) project_ids (app_token_projects s),
       next_id := Suc (next_id s)\<rparr>))"

definition active_apptoken :: "ustr \<Rightarrow> int \<Rightarrow> apptoken_row \<Rightarrow> bool" where
  "active_apptoken token_hash now t \<longleftrightarrow>
     ak_token_hash t = token_hash \<and> ak_revoked_at t = None \<and>
     (case ak_expires_at t of None \<Rightarrow> True | Some x \<Rightarrow> x > now)"

definition apptoken_find_active_by_hash :: "ustr \<Rightarrow> ('n node_scheme, AppTokenAuth option) db" where
  "apptoken_find_active_by_hash token_hash = stmt (\<lambda>s.
     case find_row (active_apptoken token_hash (db_now s)) (app_tokens s) of
       None \<Rightarrow> (Inr None, s)
     | Some t \<Rightarrow>
         (case permissions_from_json (ak_permissions t) of
            None \<Rightarrow> (Inl Unavailable, s)
          | Some ps \<Rightarrow> (Inr (Some \<lparr>aa_id = ak_id t, aa_permissions = ps, aa_project_ids = scope_of (ak_id t) s\<rparr>), s)))"

definition apptoken_update ::
    "nat \<Rightarrow> ustr option \<Rightarrow> Permission list option \<Rightarrow> nat list option \<Rightarrow> ('n node_scheme, bool) db" where
  "apptoken_update i name permissions project_ids =
     execute (\<lambda>s. any_row (\<lambda>t. ak_id t = i) (app_tokens s))
       (\<lambda>s. if \<not> any_row (\<lambda>t. ak_id t = i) (app_tokens s) then s
            else s\<lparr>
              app_tokens := update_where (\<lambda>t. ak_id t = i)
                (\<lambda>t. t\<lparr>ak_name := unwrap_or name (ak_name t),
                       ak_permissions := unwrap_or (map_option permissions_to_json permissions) (ak_permissions t)\<rparr>)
                (app_tokens s),
              app_token_projects := (case project_ids of
                  None \<Rightarrow> app_token_projects s
                | Some pids \<Rightarrow> add_scope i pids (filter (\<lambda>p. fst p \<noteq> i) (app_token_projects s)))\<rparr>)"

definition apptoken_revoke :: "nat \<Rightarrow> ('n node_scheme, bool) db" where
  "apptoken_revoke i =
     execute (\<lambda>s. affected (\<lambda>t. ak_id t = i \<and> ak_revoked_at t = None) (app_tokens s) > 0)
       (\<lambda>s. s\<lparr>app_tokens := update_where (\<lambda>t. ak_id t = i \<and> ak_revoked_at t = None)
                (\<lambda>t. t\<lparr>ak_revoked_at := Some (db_now s)\<rparr>) (app_tokens s)\<rparr>)"

definition apptoken_touch :: "nat \<Rightarrow> ('n node_scheme, unit) db" where
  "apptoken_touch i =
     execute (\<lambda>s. ()) (\<lambda>s. s\<lparr>app_tokens := update_where (\<lambda>t. ak_id t = i)
        (\<lambda>t. t\<lparr>ak_last_used_at := Some (db_now s)\<rparr>) (app_tokens s)\<rparr>)"

section \<open>The caller of a request\<close>

datatype Caller = User uid | AppToken AppTokenAuth

definition missing_token :: response where
  "missing_token = problem 401 (lit ''unauthorized'') (Some (lit ''missing or invalid access token''))"

definition account_inactive :: response where
  "account_inactive = problem 403 (lit ''account_inactive'') (Some (lit ''this account is not active''))"

definition superadmin_required :: response where
  "superadmin_required = problem 403 (lit ''forbidden'') (Some (lit ''superadmin role required''))"

definition bearer :: "HeaderMap \<Rightarrow> ustr option" where
  "bearer headers =
     map_option trim (Option.bind (header_str headers (lit ''authorization'')) (strip_prefix (lit ''Bearer '')))"

definition access_claims :: "env \<Rightarrow> ustr \<Rightarrow> int \<Rightarrow> TokenError + uid" where
  "access_claims env token now = verify_access_token (e_unseal env) (e_uuid_parse env) now (e_key env) token"

definition enforce_account_status :: "uid \<Rightarrow> ('n node_scheme, response + unit) state" where
  "enforce_account_status i = do {
     connected \<leftarrow> pool_get;
     if \<not> connected then State_Monad.return (Inl internal)
     else do {
       st \<leftarrow> presence_check i;
       State_Monad.return (case st of
           None \<Rightarrow> Inl account_inactive
         | Some s \<Rightarrow>
             if may_authenticate s then Inr ()
             else if banned s then Inl account_banned
             else Inl account_inactive)
     }
   }"

definition personal_token_user :: "env \<Rightarrow> ustr \<Rightarrow> ('n node_scheme, response + uid) state" where
  "personal_token_user env token = do {
     connected \<leftarrow> pool_get;
     if \<not> connected then State_Monad.return (Inl internal)
     else do {
       found \<leftarrow> ptoken_find_active_by_hash (hash_token (e_sha256 env) token);
       case found of
         Inr (Some (tid, user_id)) \<Rightarrow> do {
           _ \<leftarrow> ignore (ptoken_touch tid);
           State_Monad.return (Inr user_id)
         }
       | _ \<Rightarrow> State_Monad.return (Inl missing_token)
     }
   }"

definition access_token_user :: "env \<Rightarrow> ustr \<Rightarrow> ('n node_scheme, response + uid) state" where
  "access_token_user env token = do {
     now \<leftarrow> get_now;
     case access_claims env token now of
       Inl _ \<Rightarrow> State_Monad.return (Inl missing_token)
     | Inr user_id \<Rightarrow> do {
         allowed \<leftarrow> enforce_account_status user_id;
         State_Monad.return (case allowed of Inl r \<Rightarrow> Inl r | Inr _ \<Rightarrow> Inr user_id)
       }
   }"

definition auth_user :: "env \<Rightarrow> HeaderMap \<Rightarrow> ('n node_scheme, response + uid) state" where
  "auth_user env headers =
     (case bearer headers of
        None \<Rightarrow> State_Monad.return (Inl missing_token)
      | Some token \<Rightarrow>
          if starts_with PERSONAL_PREFIX token then personal_token_user env token
          else access_token_user env token)"

definition authenticate :: "env \<Rightarrow> HeaderMap \<Rightarrow> ('n node_scheme, response + Caller) state" where
  "authenticate env headers =
     (case bearer headers of
        None \<Rightarrow> State_Monad.return (Inl missing_token)
      | Some token \<Rightarrow>
          if starts_with PERSONAL_PREFIX token
          then do {
            r \<leftarrow> personal_token_user env token;
            State_Monad.return (case r of Inl e \<Rightarrow> Inl e | Inr i \<Rightarrow> Inr (User i))
          }
          else if starts_with PREFIX token
          then do {
            connected \<leftarrow> pool_get;
            if \<not> connected then State_Monad.return (Inl internal)
            else do {
              found \<leftarrow> apptoken_find_active_by_hash (hash_token (e_sha256 env) token);
              case found of
                Inr (Some t) \<Rightarrow> do {
                  _ \<leftarrow> ignore (apptoken_touch (aa_id t));
                  State_Monad.return (Inr (AppToken t))
                }
              | _ \<Rightarrow> State_Monad.return (Inl missing_token)
            }
          }
          else do {
            r \<leftarrow> access_token_user env token;
            State_Monad.return (case r of Inl e \<Rightarrow> Inl e | Inr i \<Rightarrow> Inr (User i))
          })"

definition superadmin_user :: "env \<Rightarrow> HeaderMap \<Rightarrow> ('n node_scheme, response + uid) state" where
  "superadmin_user env headers = do {
     caller \<leftarrow> auth_user env headers;
     case caller of
       Inl r \<Rightarrow> State_Monad.return (Inl r)
     | Inr user_id \<Rightarrow> do {
         connected \<leftarrow> pool_get;
         if \<not> connected then State_Monad.return (Inl internal)
         else do {
           row \<leftarrow> query (\<lambda>s. find_row (\<lambda>u. has_id user_id u \<and> live u) (users s));
           State_Monad.return (case row of
               Inl _ \<Rightarrow> Inl internal
             | Inr found \<Rightarrow>
                 if (case found of None \<Rightarrow> False
                     | Some u \<Rightarrow> u_is_superadmin u \<and> u_is_active u \<and> u_banned_at u = None)
                 then Inr user_id else Inl superadmin_required)
         }
       }
   }"

section \<open>How long a blocked account gets through\<close>

definition blocked :: "uid \<Rightarrow> 'w world_scheme \<Rightarrow> bool" where
  "blocked i s \<longleftrightarrow> (\<forall>u\<in>set (users s). has_id i u \<and> live u \<longrightarrow> \<not> (u_is_active u \<and> u_banned_at u = None))"

text \<open>
  A node while the account \<open>i\<close> stays blocked: anything that leaves the cache alone (other requests,
  other nodes, time passing), a check of some account, or a cache entry being dropped.
\<close>

inductive node_step :: "uid \<Rightarrow> 'n node_scheme \<Rightarrow> 'n node_scheme \<Rightarrow> bool" for i where
  elsewhere: "p_entries t = p_entries s \<Longrightarrow> p_ttl t = p_ttl s \<Longrightarrow> instant s \<le> instant t \<Longrightarrow>
     blocked i t \<Longrightarrow> node_step i s t"
| checks: "run_state (presence_check j) s = (r, t) \<Longrightarrow> node_step i s t"
| drops: "node_step i s (invalidate j s)"

definition node_run :: "uid \<Rightarrow> 'n node_scheme \<Rightarrow> 'n node_scheme \<Rightarrow> bool" where
  "node_run i = (node_step i)\<^sup>*\<^sup>*"

text \<open>Entries of \<open>i\<close> that let it through come only from the entries \<open>P\<close>.\<close>

definition lag_inv :: "uid \<Rightarrow> (Entry \<Rightarrow> bool) \<Rightarrow> 'n node_scheme \<Rightarrow> bool" where
  "lag_inv i P s \<longleftrightarrow> blocked i s \<and>
     (\<forall>e. Mapping.lookup (p_entries s) i = Some e \<longrightarrow> P e \<or> \<not> may_authenticate (en_status e))"

lemma blocked_found:
  assumes "blocked i s" and "find_row (\<lambda>u. has_id i u \<and> live u) (users s) = Some u"
  shows "\<not> may_authenticate \<lparr>is_active = u_is_active u, banned = u_banned_at u \<noteq> None\<rparr>"
  using assms find_row_Some [OF assms(2)] by (auto simp: blocked_def may_authenticate_def)

lemma blocked_seen: "blocked i s \<Longrightarrow> blocked i (upd_live j (\<lambda>u. u\<lparr>u_last_seen_at := x\<rparr>) s)"
  by (auto simp: blocked_def upd_live_def set_update_where has_id_def live_def)

lemma blocked_frame [simp]:
  "blocked i (s\<lparr>calls := c\<rparr>) = blocked i s"
  "blocked i (n\<lparr>p_entries := es\<rparr>) = blocked i n"
  for s :: "'w world_scheme" and n :: "'n node_scheme"
  by (simp_all add: blocked_def)

lemma lookup_store:
  "Mapping.lookup (p_entries (store j st s)) i = Some e \<Longrightarrow>
     (if i = j then e = \<lparr>en_status = st, en_checked = instant s\<rparr>
      else Mapping.lookup (p_entries s) i = Some e)"
  by (auto simp: store_def Let_def lookup_update' Mapping.lookup_filter split: if_splits option.splits)

lemma store_frame [simp]:
  "blocked i (store j st s) = blocked i s" "instant (store j st s) = instant s" "p_ttl (store j st s) = p_ttl s"
  by (simp_all add: store_def Let_def)

lemma invalidate_frame [simp]: "instant (invalidate j s) = instant s" "p_ttl (invalidate j s) = p_ttl s"
  by (simp_all add: invalidate_def)

lemma seen_frame [simp]:
  "p_entries (upd_live j f s) = p_entries s" "instant (upd_live j f s) = instant s"
  "p_ttl (upd_live j f s) = p_ttl s"
  for s :: "'n node_scheme"
  by (simp_all add: upd_live_def)

lemma check_lag_inv:
  assumes "lag_inv i P s"
  shows "wp (presence_check j) (\<lambda>_ t. lag_inv i P t \<and> instant t = instant s \<and> p_ttl t = p_ttl s) s"
proof -
  let ?s = "s\<lparr>calls := Suc (calls s)\<rparr>"
  let ?t = "upd_live j (\<lambda>u. u\<lparr>u_last_seen_at := Some (db_now s)\<rparr>) ?s"
  have block: "blocked i ?t" using assms by (intro blocked_seen) (simp add: lag_inv_def)
  have "lag_inv i P (store j \<lparr>is_active = u_is_active u, banned = u_banned_at u \<noteq> None\<rparr> ?t)"
    if u: "find_row (\<lambda>u. has_id j u \<and> live u) (users s) = Some u" for u
  proof -
    have "i = j \<Longrightarrow> \<not> may_authenticate \<lparr>is_active = u_is_active u, banned = u_banned_at u \<noteq> None\<rparr>"
      using blocked_found [of i s u] u assms by (simp add: lag_inv_def)
    then show ?thesis
      using assms block by (auto simp: lag_inv_def dest!: lookup_store split: if_splits)
  qed
  moreover have "lag_inv i P ?t" using assms block by (simp add: lag_inv_def)
  moreover have "lag_inv i P ?s" using assms by (simp add: lag_inv_def)
  ultimately show ?thesis
    using assms
    by (auto simp: presence_check_def reads_def writes_def touch_last_seen_def wp_def execute_def stmt_def Let_def
        split: option.splits)
qed

lemma step_lag_inv:
  assumes "node_step i s t" and "lag_inv i P s"
  shows "lag_inv i P t \<and> instant s \<le> instant t \<and> p_ttl t = p_ttl s"
  using assms(1)
proof cases
  case (checks j r)
  then show ?thesis using wpI [OF _ check_lag_inv [OF assms(2)]] by fastforce
next
  case (drops j)
  then show ?thesis using assms(2)
    by (cases "i = j") (auto simp: lag_inv_def invalidate_def)
qed (use assms(2) in \<open>auto simp: lag_inv_def\<close>)

lemma run_lag_inv:
  assumes "node_run i s t" and "lag_inv i P s"
  shows "lag_inv i P t \<and> instant s \<le> instant t \<and> p_ttl t = p_ttl s"
  using assms(1) [unfolded node_run_def] assms(2)
  by (induction rule: rtranclp_induct) (auto dest: step_lag_inv)

text \<open>What a check answers while the account is blocked and no stale entry is left.\<close>

lemma blocked_check:
  assumes "lag_inv i P s" and "\<And>e. P e \<Longrightarrow> \<not> elapsed e s < p_ttl s" and "\<not> faults s (calls s)"
  shows "wp (presence_check i) (\<lambda>r t. \<forall>st. r = Some st \<longrightarrow> \<not> may_authenticate st) s"
proof -
  have "\<not> may_authenticate st" if "cached i s = Some st" for st
    using that assms(1,2) by (auto simp: cached_def lag_inv_def split: option.splits if_splits)
  moreover have "\<not> may_authenticate \<lparr>is_active = u_is_active u, banned = u_banned_at u \<noteq> None\<rparr>"
    if "find_row (\<lambda>u. has_id i u \<and> live u) (users s) = Some u" for u
    using blocked_found [OF _ that] assms(1) by (simp add: lag_inv_def)
  ultimately show ?thesis
    using assms(3)
    by (auto simp: presence_check_def reads_def writes_def touch_last_seen_def wp_def execute_def stmt_def Let_def
        split: option.splits)
qed

lemma token_users_wp:
  assumes "blocked i s" and "\<And>v. wp (presence_check i) (\<lambda>r t. \<forall>st. r = Some st \<longrightarrow> \<not> may_authenticate st) (s\<lparr>calls := Suc (calls s)\<rparr>)"
  shows "wp (personal_token_user env token) (\<lambda>r t. r \<noteq> Inr i) s" and "wp (access_token_user env token) (\<lambda>r t. r \<noteq> Inr i) s"
proof -
  have "ptoken_owner h s \<noteq> Some (tid, i)" for h tid
    using assms(1) by (auto simp: ptoken_owner_def any_row_iff blocked_def dest!: find_row_Some)
  moreover have "ptoken_owner h (s\<lparr>calls := c\<rparr>) = ptoken_owner h s" for h c by (simp add: ptoken_owner_def)
  ultimately show "wp (personal_token_user env token) (\<lambda>r t. r \<noteq> Inr i) s"
    by (auto simp: personal_token_user_def wp_rules ptoken_find_active_by_hash_def ptoken_touch_def
        split: option.splits sum.splits)
  have "wp (enforce_account_status i) (\<lambda>r t. \<forall>x. r \<noteq> Inr x) s"
    by (auto simp: enforce_account_status_def wp_bind wp_pool_get wp_return split: option.splits
        intro!: wp_mono [OF assms(2)])
  then have "wp (enforce_account_status j) (\<lambda>r t. (case r of Inl x \<Rightarrow> Inl x | Inr _ \<Rightarrow> Inr j) \<noteq> Inr i) s" for j
    by (cases "j = i") (auto simp: wp_def split: sum.splits prod.splits)
  then show "wp (access_token_user env token) (\<lambda>r t. r \<noteq> Inr i) s"
    by (simp add: access_token_user_def wp_bind wp_get_now wp_return_fun split: sum.split)
qed

text \<open>Some extractor lets the request through as the account \<open>i\<close>.\<close>

definition let_through :: "env \<Rightarrow> HeaderMap \<Rightarrow> uid \<Rightarrow> 'n node_scheme \<Rightarrow> bool" where
  "let_through env headers i s \<longleftrightarrow>
     fst (run_state (auth_user env headers) s) = Inr i \<or> fst (run_state (authenticate env headers) s) = Inr (User i) \<or>
     fst (run_state (superadmin_user env headers) s) = Inr i"

lemma not_let_through:
  assumes "blocked i s" and "\<And>v. wp (presence_check i) (\<lambda>r t. \<forall>st. r = Some st \<longrightarrow> \<not> may_authenticate st) (s\<lparr>calls := Suc (calls s)\<rparr>)"
  shows "\<not> let_through env headers i s"
proof -
  note token = token_users_wp [OF assms]
  have user: "wp (auth_user env headers) (\<lambda>r t. r \<noteq> Inr i) s"
    unfolding auth_user_def using token by (simp add: wp_if wp_return split: option.split)
  have "wp (authenticate env headers) (\<lambda>r t. r \<noteq> Inr (User i)) s"
    unfolding authenticate_def
    by (auto simp: wp_if wp_return wp_bind wp_pool_get wp_ignore apptoken_find_active_by_hash_def apptoken_touch_def wp_stmt wp_execute
        wp_return_fun Let_def split: option.splits sum.splits intro!: wp_mono [OF token(1)] wp_mono [OF token(2)])
  moreover have "wp (superadmin_user env headers) (\<lambda>r t. r \<noteq> Inr i) s"
    unfolding superadmin_user_def wp_bind
    by (rule wp_mono [OF user]) (auto simp: wp_bind wp_pool_get wp_return wp_if wp_query split: sum.split)
  ultimately show ?thesis using user by (simp add: let_through_def wp_def case_prod_beta)
qed

text \<open>
  C6: A blocked account loses access within the time-to-live of the cache: from the moment it is banned,
  disabled or deleted, whatever other requests do to the cache, after \<open>p_ttl\<close> (30 seconds), or at once
  when its entry was dropped with the ban, no extractor lets a request through as that account, neither
  by access token nor by personal token, provided the database answers the check: a check that fails lets
  an access token pass.
\<close>

theorem ban_lag_bounded:
  assumes "blocked i s" and "\<And>e. Mapping.lookup (p_entries s) i = Some e \<Longrightarrow> en_checked e \<le> instant s"
    and "node_run i s t" and "instant s + p_ttl s \<le> instant t \<or> Mapping.lookup (p_entries s) i = None"
    and "\<not> faults t (Suc (calls t))"
  shows "\<not> let_through env headers i t"
proof -
  define P :: "Entry \<Rightarrow> bool" where "P = (\<lambda>e. Mapping.lookup (p_entries s) i \<noteq> None \<and> en_checked e \<le> instant s)"
  have "lag_inv i P s" using assms(1,2) by (auto simp: lag_inv_def P_def)
  from run_lag_inv [OF assms(3) this]
  have inv: "lag_inv i P t" and time: "instant s \<le> instant t" "p_ttl t = p_ttl s" by blast+
  have "wp (presence_check i) (\<lambda>r t. \<forall>st. r = Some st \<longrightarrow> \<not> may_authenticate st) (t\<lparr>calls := Suc (calls t)\<rparr>)"
  proof (rule blocked_check)
    show "lag_inv i P (t\<lparr>calls := Suc (calls t)\<rparr>)" using inv by (simp add: lag_inv_def)
  qed (use assms(4,5) time in \<open>auto simp: P_def elapsed_def\<close>)
  moreover have "blocked i t" using inv by (simp add: lag_inv_def)
  ultimately show ?thesis by (intro not_let_through)
qed

text \<open>
  The bound is for checks that run as a whole. A check that has read an allowed status before a ban and
  stores it after the ban's \<open>invalidate\<close> puts the old status back for a full time-to-live.
\<close>

lemma late_store_survives_invalidate:
  assumes "fst (run_state (touch_last_seen i) s) = Inr (Some st)" and "may_authenticate st" and "0 < p_ttl t"
  shows "cached i (store i st (invalidate i t)) = Some st"
proof -
  have "Mapping.lookup (p_entries (store i st (invalidate i t))) i = Some \<lparr>en_status = st, en_checked = instant t\<rparr>"
    by (simp add: store_def Let_def invalidate_def)
  then show ?thesis using assms(3) by (simp add: cached_def elapsed_def)
qed

definition demo_node :: node where
  "demo_node = world.extend demo_world
     \<lparr>instant = 100, p_ttl = CHECK_TTL,
      p_entries = Mapping.update 7 \<lparr>en_status = \<lparr>is_active = True, banned = False\<rparr>, en_checked = 90\<rparr> Mapping.empty,
      app_tokens = [], app_token_projects = []\<rparr>"

lemma demo_node_fields [simp]:
  "users demo_node = [demo_user 7]" "instant demo_node = 100" "p_ttl demo_node = CHECK_TTL"
  "Mapping.lookup (p_entries demo_node) i =
     (if i = 7 then Some \<lparr>en_status = \<lparr>is_active = True, banned = False\<rparr>, en_checked = 90\<rparr> else None)"
  "faults demo_node = (\<lambda>_. False)" "calls demo_node = 0" "app_tokens demo_node = []" "ptokens demo_node = []"
  "app_now demo_node = 1000"
  by (simp_all add: demo_node_def world.extend_def demo_world_def empty_world_def lookup_update')

lemma ban_lag_bounded_witness:
  "\<exists>t. node_run 7 (upd_live 7 (\<lambda>u. u\<lparr>u_banned_at := Some 5\<rparr>) demo_node) t \<and>
     instant t = 100 + CHECK_TTL \<and> \<not> let_through demo_env [(lit ''authorization'', lit ''Bearer ipat_k'')] 7 t"
proof -
  let ?s = "upd_live 7 (\<lambda>u. u\<lparr>u_banned_at := Some 5\<rparr>) demo_node"
  let ?t = "?s\<lparr>instant := 100 + CHECK_TTL\<rparr>"
  have blocks: "blocked 7 ?s"
    by (simp add: blocked_def upd_live_def has_id_def live_def demo_user_def default_user_def)
  then have "blocked 7 ?t" by (simp add: blocked_def)
  then have run: "node_run 7 ?s ?t"
    unfolding node_run_def by (intro r_into_rtranclp elsewhere) simp_all
  have fresh: "en_checked e \<le> instant ?s" if "Mapping.lookup (p_entries ?s) 7 = Some e" for e
    using that by (auto split: if_splits)
  have "\<not> faults ?t (Suc (calls ?t))" by (simp add: upd_live_def)
  then have "\<not> let_through demo_env [(lit ''authorization'', lit ''Bearer ipat_k'')] 7 ?t"
    by (intro ban_lag_bounded [OF blocks fresh run]) (auto split: if_splits)
  with run show ?thesis by (intro exI [of _ ?t]) simp
qed

section \<open>Whom a request is let through as\<close>

text \<open>A signed access token of \<open>i\<close> whose account is allowed: by a cached status not older than the time-to-live,
  else by the database, or because the database did not answer.\<close>

definition session_access :: "env \<Rightarrow> ustr \<Rightarrow> uid \<Rightarrow> 'n node_scheme \<Rightarrow> bool" where
  "session_access env token i s \<longleftrightarrow>
     access_claims env token (app_now s) = Inr i \<and>
     (case cached i s of
        Some st \<Rightarrow> may_authenticate st
      | None \<Rightarrow> faults s (Suc (calls s)) \<or>
          (\<exists>u. live_user i s = Some u \<and> u_is_active u \<and> u_banned_at u = None))"

definition token_access :: "env \<Rightarrow> ustr \<Rightarrow> AppTokenAuth \<Rightarrow> 'n node_scheme \<Rightarrow> bool" where
  "token_access env token a s \<longleftrightarrow>
     (\<exists>r\<in>set (app_tokens s). active_apptoken (hash_token (e_sha256 env) token) (db_now s) r \<and>
        aa_id a = ak_id r \<and> permissions_from_json (ak_permissions r) = Some (aa_permissions a) \<and>
        aa_project_ids a = scope_of (ak_id r) s)"

definition caller_ok :: "env \<Rightarrow> HeaderMap \<Rightarrow> Caller \<Rightarrow> 'n node_scheme \<Rightarrow> bool" where
  "caller_ok env headers c s \<longleftrightarrow>
     (\<exists>token. bearer headers = Some token \<and>
       (case c of
          User i \<Rightarrow>
            if starts_with PERSONAL_PREFIX token
            then \<exists>tid. ptoken_owner (hash_token (e_sha256 env) token) s = Some (tid, i)
            else \<not> starts_with PREFIX token \<and> session_access env token i s
        | AppToken a \<Rightarrow> starts_with PREFIX token \<and> token_access env token a s))"

lemma presence_check_wp:
  "wp (presence_check i) (\<lambda>r t. \<forall>st. r = Some st \<and> may_authenticate st \<longrightarrow>
     (case cached i s of
        Some st \<Rightarrow> may_authenticate st
      | None \<Rightarrow> faults s (calls s) \<or> (\<exists>u. live_user i s = Some u \<and> u_is_active u \<and> u_banned_at u = None))) s"
  by (auto simp: presence_check_def reads_def writes_def touch_last_seen_def wp_def execute_def stmt_def Let_def
      live_user_def may_authenticate_def split: option.splits)

lemma gate_frame [simp]:
  "cached i (s\<lparr>calls := c\<rparr>) = cached i s" "ptoken_owner h (s\<lparr>calls := c\<rparr>) = ptoken_owner h s"
  "scope_of k (s\<lparr>calls := c\<rparr>) = scope_of k s"
  for s :: "'n node_scheme"
  by (simp_all add: cached_def elapsed_def ptoken_owner_def scope_of_def cong: option.case_cong if_cong)

lemma personal_wp:
  "wp (personal_token_user env token) (\<lambda>r t. \<forall>i. r = Inr i \<longrightarrow>
     (\<exists>tid. ptoken_owner (hash_token (e_sha256 env) token) s = Some (tid, i))) s"
  by (auto simp: personal_token_user_def wp_rules ptoken_find_active_by_hash_def ptoken_touch_def
      split: option.splits sum.splits)

lemma access_wp: "wp (access_token_user env token) (\<lambda>r t. \<forall>i. r = Inr i \<longrightarrow> session_access env token i s) s"
proof -
  let ?s = "s\<lparr>calls := Suc (calls s)\<rparr>"
  have "wp (enforce_account_status i) (\<lambda>r t. \<forall>j x. r = Inr x \<and> i = j \<longrightarrow> session_access env token j s) s"
    if "access_claims env token (app_now s) = Inr i" for i
    using that
    by (auto simp: enforce_account_status_def wp_bind wp_pool_get wp_return wp_if session_access_def
        split: option.splits if_splits intro!: wp_mono [OF presence_check_wp])
  then show ?thesis
    by (auto simp: access_token_user_def wp_bind wp_get_now wp_return_fun split: sum.split
        elim!: wp_mono split: sum.splits)
qed

lemma apptoken_wp:
  "wp (apptoken_find_active_by_hash (hash_token (e_sha256 env) token))
     (\<lambda>r t. \<forall>a. r = Inr (Some a) \<longrightarrow> token_access env token a s) s"
proof -
  have "token_access env token \<lparr>aa_id = ak_id r, aa_permissions = ps, aa_project_ids = scope_of (ak_id r) s\<rparr> s"
    if "find_row (active_apptoken (hash_token (e_sha256 env) token) (db_now s)) (app_tokens s) = Some r"
      and "permissions_from_json (ak_permissions r) = Some ps" for r ps
    using find_row_Some [OF that(1)] that(2) by (auto simp: token_access_def)
  then show ?thesis
    by (auto simp: apptoken_find_active_by_hash_def wp_stmt Let_def split: option.splits)
qed

lemma caller_justified_library:
  assumes "run_state (authenticate env headers) s = (Inr c, t)"
  shows "caller_ok env headers c s"
proof (cases "bearer headers")
  case None
  then show ?thesis using assms by (simp add: authenticate_def)
next
  case (Some token)
  let ?s = "s\<lparr>calls := Suc (calls s)\<rparr>"
  have token: "token_access env token a ?s = token_access env token a s" for a
    by (simp add: token_access_def)
  have "wp (authenticate env headers) (\<lambda>r t. \<forall>c. r = Inr c \<longrightarrow> caller_ok env headers c s) s"
    using Some
    by (auto simp: authenticate_def wp_bind wp_if wp_return wp_pool_get caller_ok_def wp_ignore token
          apptoken_touch_def wp_execute wp_return_fun
        intro!: wp_mono [OF personal_wp] wp_mono [OF access_wp] wp_mono [OF apptoken_wp]
        split: sum.splits option.splits)
  then show ?thesis using wpI [OF assms] by blast
qed

text \<open>
  C5: A request is let through only as whom its bearer says: a personal token acts as the owner it is
  stored for, while that owner is enabled, unbanned and not deleted; an app token carries exactly
  the stored permissions and projects of an unrevoked, unexpired row with its digest; anything else
  needs a verified access token, of an account that a cached status within its time-to-live allows, or,
  when there is none, that the database allows; only then, when the database does not answer, the
  token passes without a check.
\<close>

theorem caller_justified:
  assumes "run_state (authenticate env headers) s = (Inr c, t)"
  shows "caller_ok env headers c s"
  using assms by (rule caller_justified_library)

definition demo_caller :: "HeaderMap" where
  "demo_caller = [(lit ''authorization'', lit ''Bearer ipat_k'')]"

definition demo_apptoken :: apptoken_row where
  "demo_apptoken = \<lparr>ak_id = 3, ak_name = [], ak_token_hash = hash_token (\<lambda>b. b) (lit ''ipat_k''), ak_prefix = [],
     ak_last4 = [], ak_permissions = [], ak_created_by = None, ak_expires_at = None, ak_revoked_at = None,
     ak_last_used_at = None, ak_created_at = 0\<rparr>"

lemma demo_bearer: "bearer demo_caller = Some (lit ''ipat_k'')"
  by (simp add: demo_caller_def bearer_def header_str_def hv_to_str_def text_defs)

lemma caller_justified_witness:
  "caller_ok demo_env demo_caller (AppToken \<lparr>aa_id = 3, aa_permissions = [], aa_project_ids = [5]\<rparr>)
     (demo_node\<lparr>app_tokens := [demo_apptoken], app_token_projects := [(3, 5)]\<rparr>)"
proof -
  let ?s = "demo_node\<lparr>app_tokens := [demo_apptoken], app_token_projects := [(3, 5)]\<rparr>"
  have pre: "\<not> starts_with PERSONAL_PREFIX (lit ''ipat_k'')" "starts_with PREFIX (lit ''ipat_k'')"
    by (simp_all add: PERSONAL_PREFIX_def PREFIX_def text_defs)
  have "wp (authenticate demo_env demo_caller)
      (\<lambda>r t. r = Inr (AppToken \<lparr>aa_id = 3, aa_permissions = [], aa_project_ids = [5]\<rparr>)) ?s"
    by (simp add: authenticate_def demo_bearer pre wp_rules wp_stmt Let_def apptoken_find_active_by_hash_def
        find_row_def active_apptoken_def demo_apptoken_def demo_env_def permissions_from_json.simps scope_of_def
        apptoken_touch_def)
  then obtain t where "run_state (authenticate demo_env demo_caller) ?s =
      (Inr (AppToken \<lparr>aa_id = 3, aa_permissions = [], aa_project_ids = [5]\<rparr>), t)"
    by (cases "run_state (authenticate demo_env demo_caller) ?s") (simp add: wp_def)
  then show ?thesis by (rule caller_justified)
qed

end
