(* ===== verification/Rate_Limit.thy ===== *)
theory Rate_Limit
  imports Gate "HOL-Library.Word"
begin

text \<open>
  The request budget of a client (\<open>crates/api/src/middleware/rate_limit.rs\<close>): one fixed window of a
  minute per address, and one more for requests with an \<open>Authorization\<close> header. Times are in
  nanoseconds of the monotonic clock. Counters and limits are the 32-bit words of the code, and the
  counter saturates. The next handler of the chain is an argument of \<open>layer\<close>.

  \<open>window_run\<close> is the reference: one window, no map, no other clients.
\<close>

section \<open>The limiter\<close>

definition WINDOW :: nat where "WINDOW = 60 * NANOS"
definition UNAUTH_PER_MIN :: "32 word" where "UNAUTH_PER_MIN = 60"
definition AUTH_PER_MIN :: "32 word" where "AUTH_PER_MIN = 600"

record Window =
  w_count :: "32 word"
  w_started :: nat

type_synonym rkey = "ip \<times> bool"

record RateLimiter =
  buckets :: "(rkey, Window) mapping"
  unauth_per_min :: "32 word"
  auth_per_min :: "32 word"

definition new_limiter :: "32 word \<Rightarrow> 32 word \<Rightarrow> RateLimiter" where
  "new_limiter u a = \<lparr>buckets = Mapping.empty, unauth_per_min = u, auth_per_min = a\<rparr>"

definition default_limiter :: RateLimiter where
  "default_limiter = new_limiter UNAUTH_PER_MIN AUTH_PER_MIN"

definition saturating_inc :: "32 word \<Rightarrow> 32 word" where
  "saturating_inc c = (if c = - 1 then c else c + 1)"

definition limit_of :: "RateLimiter \<Rightarrow> bool \<Rightarrow> 32 word" where
  "limit_of rl authenticated = (if authenticated then auth_per_min rl else unauth_per_min rl)"

definition rate_check :: "ip \<Rightarrow> bool \<Rightarrow> nat \<Rightarrow> RateLimiter \<Rightarrow> (nat + unit) \<times> RateLimiter" where
  "rate_check i authenticated now rl =
     (let limit = limit_of rl authenticated;
          entry = (case Mapping.lookup (buckets rl) (i, authenticated) of
                     None \<Rightarrow> \<lparr>w_count = 0, w_started = now\<rparr> | Some w \<Rightarrow> w);
          reset = (if now - w_started entry \<ge> WINDOW then \<lparr>w_count = 0, w_started = now\<rparr> else entry);
          w = reset\<lparr>w_count := saturating_inc (w_count reset)\<rparr>;
          rl' = rl\<lparr>buckets := Mapping.update (i, authenticated) w (buckets rl)\<rparr>
      in if w_count w > limit
         then (Inl (max 1 ((WINDOW - (now - w_started w)) div NANOS)), rl')
         else (Inr (), rl'))"

text \<open>The middleware: the refusal carries the number of seconds for the \<open>Retry-After\<close> header.\<close>

datatype 'r limited = Passed 'r | Limited response nat

definition layer :: "env \<Rightarrow> HeaderMap \<Rightarrow> nat \<Rightarrow> (HeaderMap \<Rightarrow> 'r) \<Rightarrow> RateLimiter \<Rightarrow> 'r limited \<times> RateLimiter" where
  "layer env headers now nxt rl =
     (let i = client_ip (e_parse_ip env) (e_unknown_ip env) headers;
          authenticated = map_of headers (lit ''authorization'') \<noteq> None
      in case rate_check i authenticated now rl of
           (Inr _, rl') \<Rightarrow> (Passed (nxt headers), rl')
         | (Inl retry_after, rl') \<Rightarrow>
             (Limited (problem 429 (lit ''rate_limited'') (Some (lit ''rate limit exceeded; retry later'')))
                retry_after, rl'))"

text \<open>A history of requests, each with its key and its time.\<close>

type_synonym hit = "rkey \<times> nat"

fun run_hits :: "RateLimiter \<Rightarrow> hit list \<Rightarrow> (nat + unit) list" where
  "run_hits rl [] = []"
| "run_hits rl ((k, t) # hs) =
     (case rate_check (fst k) (snd k) t rl of (r, rl') \<Rightarrow> r # run_hits rl' hs)"

section \<open>The reference: one window\<close>

definition window_at :: "nat \<Rightarrow> Window option \<Rightarrow> Window" where
  "window_at t wo =
     (case wo of
        None \<Rightarrow> \<lparr>w_count = 1, w_started = t\<rparr>
      | Some w \<Rightarrow> if w_started w + WINDOW \<le> t then \<lparr>w_count = 1, w_started = t\<rparr>
                  else w\<lparr>w_count := saturating_inc (w_count w)\<rparr>)"

definition verdict :: "32 word \<Rightarrow> nat \<Rightarrow> Window \<Rightarrow> nat + unit" where
  "verdict limit t w =
     (if w_count w \<le> limit then Inr () else Inl (max 1 ((WINDOW - (t - w_started w)) div NANOS)))"

fun window_run :: "32 word \<Rightarrow> Window option \<Rightarrow> nat list \<Rightarrow> (nat + unit) list" where
  "window_run limit wo [] = []"
| "window_run limit wo (t # ts) =
     (let w = window_at t wo in verdict limit t w # window_run limit (Some w) ts)"

text \<open>What one key sees of a history.\<close>

definition of_key :: "rkey \<Rightarrow> hit list \<Rightarrow> 'r list \<Rightarrow> 'r list" where
  "of_key k hs rs = map snd (filter (\<lambda>(h, r). fst h = k) (zip hs rs))"

definition times_of :: "rkey \<Rightarrow> hit list \<Rightarrow> nat list" where
  "times_of k hs = map snd (filter (\<lambda>h. fst h = k) hs)"

lemma WINDOW_pos [simp]: "0 < WINDOW"
  by (simp add: WINDOW_def NANOS_def)

lemma rate_check_reference:
  assumes "\<And>w. Mapping.lookup (buckets rl) k = Some w \<Longrightarrow> w_started w \<le> t"
  shows "rate_check (fst k) (snd k) t rl =
     (let w = window_at t (Mapping.lookup (buckets rl) k)
      in (verdict (limit_of rl (snd k)) t w, rl\<lparr>buckets := Mapping.update k w (buckets rl)\<rparr>))"
proof -
  have reset: "t - w_started w \<ge> WINDOW \<longleftrightarrow> w_started w + WINDOW \<le> t"
    if "Mapping.lookup (buckets rl) k = Some w" for w
    using assms [OF that] by linarith
  show ?thesis
    using reset
    by (cases "Mapping.lookup (buckets rl) k")
       (auto simp: rate_check_def window_at_def verdict_def Let_def saturating_inc_def not_le)
qed

lemma limit_of_update [simp]: "limit_of (rl\<lparr>buckets := b\<rparr>) = limit_of rl"
  by (simp add: limit_of_def fun_eq_iff)

section \<open>The limiter is one window per key\<close>

lemma window_at_started: "(\<And>w. wo = Some w \<Longrightarrow> w_started w \<le> t) \<Longrightarrow> w_started (window_at t wo) \<le> t"
  by (auto simp: window_at_def split: option.splits)

lemma run_hits_key:
  assumes "sorted (map snd hs)"
    and "\<And>j w h. Mapping.lookup (buckets rl) j = Some w \<Longrightarrow> h \<in> set hs \<Longrightarrow> w_started w \<le> snd h"
  shows "of_key k hs (run_hits rl hs) =
    window_run (limit_of rl (snd k)) (Mapping.lookup (buckets rl) k) (times_of k hs)"
  using assms
proof (induction hs arbitrary: rl)
  case (Cons h hs)
  obtain j t where h: "h = (j, t)" by fastforce
  let ?w = "window_at t (Mapping.lookup (buckets rl) j)"
  let ?rl = "rl\<lparr>buckets := Mapping.update j ?w (buckets rl)\<rparr>"
  have started: "w_started w \<le> t" if "Mapping.lookup (buckets rl) j = Some w" for w
    using Cons.prems(2) [OF that, of h] h by simp
  note check = rate_check_reference [of rl j t, OF started]
  have run: "run_hits rl (h # hs) = verdict (limit_of rl (snd j)) t ?w # run_hits ?rl hs"
    by (simp add: h check Let_def)
  have "w_started ?w \<le> t"
    by (intro window_at_started started)
  then have "of_key k hs (run_hits ?rl hs) =
      window_run (limit_of ?rl (snd k)) (Mapping.lookup (buckets ?rl) k) (times_of k hs)"
    using Cons.prems h by (intro Cons.IH) (fastforce simp: lookup_update' split: if_splits)+
  then show ?case
    unfolding run by (cases "j = k") (simp_all add: h of_key_def times_of_def lookup_update' Let_def)
qed (simp add: of_key_def times_of_def)

text \<open>
  The limiter is equivalent to one window per address and class of request: what a client is answered
  over any history in time order is what the reference window answers to its own requests alone, so
  no other client and no other class of requests changes its budget.
\<close>

theorem limiter_per_key:
  assumes "sorted (map snd hs)"
  shows "of_key k hs (run_hits (new_limiter u a) hs) =
    window_run (if snd k then a else u) None (times_of k hs)"
  using run_hits_key [OF assms, of "new_limiter u a" k]
  by (simp add: new_limiter_def limit_of_def)

lemma limiter_per_key_witness:
  "of_key (9, False) [((9, False), 0), ((8, False), 1), ((9, True), 2), ((9, False), 3)]
     (run_hits (new_limiter 1 5) [((9, False), 0), ((8, False), 1), ((9, True), 2), ((9, False), 3)]) =
   [Inr (), Inl 59]"
  using limiter_per_key [of "[((9, False), 0), ((8, False), 1), ((9, True), 2), ((9, False), 3)]" "(9, False)" 1 5]
  by (simp add: times_of_def Let_def window_at_def verdict_def saturating_inc_def WINDOW_def NANOS_def word_le_nat_alt)

section \<open>What a budget lets through\<close>

definition passed_in :: "nat \<Rightarrow> nat list \<Rightarrow> (nat + unit) list \<Rightarrow> nat" where
  "passed_in T ts rs = length (filter (\<lambda>(t, r). T \<le> t \<and> t < T + WINDOW \<and> r = Inr ()) (zip ts rs))"

definition hits_in :: "nat \<Rightarrow> nat list \<Rightarrow> nat" where
  "hits_in T ts = length (filter (\<lambda>t. T \<le> t \<and> t < T + WINDOW) ts)"

lemma passed_in_simps [simp]:
  "passed_in T [] rs = 0"
  "passed_in T (t # ts) (r # rs) = (if T \<le> t \<and> t < T + WINDOW \<and> r = Inr () then 1 else 0) + passed_in T ts rs"
  by (simp_all add: passed_in_def)

lemma hits_in_simps [simp]:
  "hits_in T [] = 0"
  "hits_in T (t # ts) = (if T \<le> t \<and> t < T + WINDOW then 1 else 0) + hits_in T ts"
  by (simp_all add: hits_in_def)

lemma passed_in_late: "\<forall>t\<in>set ts. T + WINDOW \<le> t \<Longrightarrow> passed_in T ts rs = 0"
  by (auto simp: passed_in_def filter_empty_conv dest!: set_zip_leftD)

lemma hits_in_late: "\<forall>t\<in>set ts. T + WINDOW \<le> t \<Longrightarrow> hits_in T ts = 0"
  by (auto simp: hits_in_def filter_empty_conv)

lemma verdict_passed [simp]: "verdict L t w = Inr () \<longleftrightarrow> w_count w \<le> L"
  by (simp add: verdict_def)

lemma unat_inc: "c \<noteq> - 1 \<Longrightarrow> unat (c + 1) = Suc (unat c)" for c :: "32 word"
  using unatSuc [of c] by (metis add.commute add_eq_0_iff)

lemma saturating_inc_unat: "L < - 1 \<Longrightarrow> c \<le> L \<Longrightarrow> unat (saturating_inc c) = Suc (unat c)"
  by (auto simp: saturating_inc_def unat_inc)

lemma saturating_inc_over: "L < - 1 \<Longrightarrow> \<not> c \<le> L \<Longrightarrow> \<not> saturating_inc c \<le> L"
  by (cases "c = - 1") (auto simp: saturating_inc_def unat_inc word_le_nat_alt)

text \<open>How much of the budget a window has left, and what that allows in the minute from \<open>T\<close>.\<close>

definition left :: "32 word \<Rightarrow> Window \<Rightarrow> nat" where
  "left L w = unat L - unat (w_count w)"

definition allowance :: "32 word \<Rightarrow> nat \<Rightarrow> Window \<Rightarrow> nat" where
  "allowance L T w =
     (if T \<le> w_started w then left L w
      else if T < w_started w + WINDOW then left L w + unat L else 2 * unat L)"

lemma left_inc:
  assumes "L < - 1"
  shows "(if saturating_inc (w_count w) \<le> L then 1 else 0) + left L (w\<lparr>w_count := saturating_inc (w_count w)\<rparr>) \<le> left L w"
proof (cases "w_count w \<le> L")
  case True
  then show ?thesis
    using saturating_inc_unat [OF assms True] by (auto simp: left_def word_le_nat_alt)
next
  case False
  then show ?thesis
    using saturating_inc_over [OF assms False] by (auto simp: left_def word_le_nat_alt)
qed

lemma window_run_allowance:
  assumes "L < - 1" and "sorted (w_started w # ts)"
  shows "passed_in T ts (window_run L (Some w) ts) \<le> allowance L T w"
  using assms(2)
proof (induction ts arbitrary: w)
  case (Cons t ts)
  let ?w = "window_at t (Some w)"
  have started: "w_started ?w \<le> t" using Cons.prems by (auto simp: window_at_def)
  have IH: "passed_in T ts (window_run L (Some ?w) ts) \<le> allowance L T ?w"
    using Cons.prems started by (intro Cons.IH) (auto intro: order_trans)
  show ?case
  proof (cases "T + WINDOW \<le> t")
    case True
    then have "\<forall>x\<in>set ts. T + WINDOW \<le> x" using Cons.prems by auto
    with True show ?thesis by (simp add: Let_def passed_in_late)
  next
    case False
    show ?thesis
    proof (cases "w_started w + WINDOW \<le> t")
      case True
      then have w: "?w = \<lparr>w_count = 1, w_started = t\<rparr>" by (simp add: window_at_def)
      have "(if (1 :: 32 word) \<le> L then 1 else 0) + left L ?w \<le> unat L"
        by (auto simp: w left_def word_le_nat_alt)
      then show ?thesis
        using IH True False by (auto simp: w Let_def allowance_def not_le split: if_splits)
    next
      case no_reset: False
      then have w: "?w = w\<lparr>w_count := saturating_inc (w_count w)\<rparr>" by (simp add: window_at_def)
      then show ?thesis
        using IH left_inc [OF assms(1), of w] no_reset False
        by (auto simp: Let_def allowance_def split: if_splits)
    qed
  qed
qed simp

lemma window_run_bound:
  assumes "L < - 1" and "sorted ts"
  shows "passed_in T ts (window_run L None ts) \<le> 2 * unat L"
proof (cases ts)
  case (Cons t us)
  let ?w = "\<lparr>w_count = 1, w_started = t\<rparr> :: Window"
  have "passed_in T us (window_run L (Some ?w) us) \<le> allowance L T ?w"
    using assms Cons by (intro window_run_allowance) auto
  moreover have "(if (1 :: 32 word) \<le> L then 1 else 0) + left L ?w \<le> unat L"
    by (auto simp: left_def word_le_nat_alt)
  ultimately show ?thesis
    by (auto simp: Cons Let_def window_at_def allowance_def split: if_splits)
qed simp

lemma window_run_all:
  assumes "L < - 1" and "sorted (w_started w # ts)" and "unat (w_count w) + hits_in (w_started w) ts \<le> unat L"
    and "\<And>T. hits_in T ts \<le> unat L"
  shows "set (window_run L (Some w) ts) \<subseteq> {Inr ()}"
  using assms(2-4)
proof (induction ts arbitrary: w)
  case (Cons t ts)
  let ?w = "window_at t (Some w)"
  have "sorted (w_started ?w # ts)"
    using Cons.prems(1) by (auto simp: window_at_def intro: order_trans)
  moreover have "unat (w_count ?w) + hits_in (w_started ?w) ts \<le> unat L \<and> w_count ?w \<le> L"
  proof (cases "w_started w + WINDOW \<le> t")
    case True
    then show ?thesis using Cons.prems(3) [of t] by (simp add: window_at_def word_le_nat_alt)
  next
    case False
    have "w_count w \<le> L" using Cons.prems(2) by (simp add: word_le_nat_alt)
    from saturating_inc_unat [OF assms(1) this] False Cons.prems(1,2) show ?thesis
      by (simp add: window_at_def word_le_nat_alt)
  qed
  moreover have "hits_in T ts \<le> unat L" for T using Cons.prems(3) [of T] by simp
  ultimately show ?case using Cons.IH [of ?w] by (simp add: Let_def)
qed simp

lemma sorted_times_of: "sorted (map snd hs) \<Longrightarrow> sorted (times_of k hs)"
  unfolding times_of_def by (rule sorted_filter)

text \<open>
  C40: For limits below the largest 32-bit number: in no minute, wherever it starts, does a client get more
  than twice its limit of requests through (the fixed window allows a burst on each side of a reset),
  and a client that never sends more than its limit in any minute is never refused.
\<close>

theorem rate_budget:
  assumes "u < - 1" and "a < - 1" and "sorted (map snd hs)"
  shows "passed_in T (times_of k hs) (of_key k hs (run_hits (new_limiter u a) hs)) \<le> 2 * unat (if snd k then a else u) \<and>
    ((\<forall>T. hits_in T (times_of k hs) \<le> unat (if snd k then a else u)) \<longrightarrow>
      set (of_key k hs (run_hits (new_limiter u a) hs)) \<subseteq> {Inr ()})"
proof (intro conjI impI)
  define L where "L = (if snd k then a else u)"
  have run: "of_key k hs (run_hits (new_limiter u a) hs) = window_run L None (times_of k hs)"
    using run_hits_key [OF assms(3), of "new_limiter u a" k] by (simp add: new_limiter_def limit_of_def L_def)
  have L: "L < - 1" using assms by (simp add: L_def)
  have ts: "sorted (times_of k hs)" using assms(3) by (rule sorted_times_of)
  show "passed_in T (times_of k hs) (of_key k hs (run_hits (new_limiter u a) hs)) \<le> 2 * unat (if snd k then a else u)"
    unfolding run using window_run_bound [OF L ts] by (simp add: L_def)
  show "set (of_key k hs (run_hits (new_limiter u a) hs)) \<subseteq> {Inr ()}"
    if "\<forall>T. hits_in T (times_of k hs) \<le> unat (if snd k then a else u)"
  proof (cases "times_of k hs")
    case (Cons t us)
    let ?w = "\<lparr>w_count = 1, w_started = t\<rparr> :: Window"
    have few: "hits_in T (t # us) \<le> unat L" for T using that Cons by (simp add: L_def)
    have "set (window_run L (Some ?w) us) \<subseteq> {Inr ()}"
    proof (rule window_run_all [OF L])
      show "unat (w_count ?w) + hits_in (w_started ?w) us \<le> unat L" using few [of t] by simp
      show "hits_in T us \<le> unat L" for T using few [of T] by simp
    qed (use ts Cons in simp)
    moreover have "(1 :: 32 word) \<le> L" using few [of t] by (simp add: word_le_nat_alt)
    ultimately show ?thesis unfolding run Cons by (simp add: Let_def window_at_def)
  qed (simp add: run)
qed

text \<open>A burst on each side of a reset: the factor two is reached.\<close>

lemma rate_budget_witness:
  "passed_in 1 (times_of (9, False) [((9, False), 0), ((9, False), WINDOW - 1), ((9, False), WINDOW), ((9, False), WINDOW)])
     (of_key (9, False) [((9, False), 0), ((9, False), WINDOW - 1), ((9, False), WINDOW), ((9, False), WINDOW)]
       (run_hits (new_limiter 2 5) [((9, False), 0), ((9, False), WINDOW - 1), ((9, False), WINDOW), ((9, False), WINDOW)])) \<le> 4 \<and>
   set (of_key (9, False) [((9, False), 0), ((9, False), 7)]
       (run_hits (new_limiter 2 5) [((9, False), 0), ((9, False), 7)])) \<subseteq> {Inr ()}"
proof -
  have L: "(2 :: 32 word) < - 1" "(5 :: 32 word) < - 1" by simp_all
  have "hits_in T (times_of (9, False) [((9, False), 0), ((9, False), 7)]) \<le> unat (2 :: 32 word)" for T
    by (simp add: times_of_def)
  then show ?thesis
    using rate_budget [OF L, of "[((9, False), 0), ((9, False), WINDOW - 1), ((9, False), WINDOW), ((9, False), WINDOW)]" 1 "(9, False)"]
      rate_budget [OF L, of "[((9, False), 0), ((9, False), 7)]" 0 "(9, False)"]
    by (simp add: WINDOW_def NANOS_def)
qed

section \<open>The retry hint\<close>

text \<open>
  The hint is between one and sixty seconds, and one second more than it is enough: the key's next
  request then finds its window over.
\<close>

lemma retry_after_enough:
  assumes "fst (rate_check i au t rl) = Inl r" and "\<And>w. Mapping.lookup (buckets rl) (i, au) = Some w \<Longrightarrow> w_started w \<le> t"
    and "t + (r + 1) * NANOS \<le> t'" and "0 < limit_of rl au"
  shows "1 \<le> r \<and> r \<le> 60 \<and> fst (rate_check i au t' (snd (rate_check i au t rl))) = Inr ()"
proof -
  let ?w = "window_at t (Mapping.lookup (buckets rl) (i, au))"
  let ?rl = "rl\<lparr>buckets := Mapping.update (i, au) ?w (buckets rl)\<rparr>"
  note now = rate_check_reference [of rl "(i, au)" t, simplified, OF assms(2)]
  have started: "w_started ?w \<le> t" using assms(2) by (intro window_at_started)
  have later: "w_started w \<le> t'" if "Mapping.lookup (buckets ?rl) (i, au) = Some w" for w
    using that started assms(3) by (simp add: lookup_update' split: if_splits)
  note again = rate_check_reference [of ?rl "(i, au)" t', simplified, OF later]
  have r: "r = max 1 ((WINDOW - (t - w_started ?w)) div NANOS)"
    using assms(1) now by (simp add: verdict_def Let_def split: if_splits)
  have "WINDOW - (t - w_started ?w) < (r + 1) * NANOS"
  proof -
    let ?x = "WINDOW - (t - w_started ?w)"
    have "?x < NANOS + ?x div NANOS * NANOS" by (rule dividend_less_div_times) (simp add: NANOS_def)
    also have "\<dots> \<le> (r + 1) * NANOS" using mult_le_mono1 [of "?x div NANOS" r NANOS] r by simp
    finally show ?thesis .
  qed
  then have over: "w_started ?w + WINDOW \<le> t'" using assms(3) started by linarith
  have "(WINDOW - (t - w_started ?w)) div NANOS \<le> 60"
    using div_le_mono [of "WINDOW - (t - w_started ?w)" WINDOW NANOS] by (simp add: WINDOW_def NANOS_def)
  moreover have "(1 :: 32 word) \<le> limit_of rl au" using assms(4) by (simp add: word_le_nat_alt word_less_nat_alt)
  moreover have "1 \<le> r" using r by simp
  moreover have "window_at t' (Some ?w) = \<lparr>w_count = 1, w_started = t'\<rparr>" using over by (simp add: window_at_def)
  ultimately show ?thesis
    using r by (simp add: now again Let_def)
qed

text \<open>The hint alone is not: it is rounded down, so a client that obeys it can be refused again.\<close>

lemma retry_after_short:
  "let rl = snd (rate_check 9 False 0 (new_limiter 1 5))
   in rate_check 9 False 1 rl = (Inl 59, snd (rate_check 9 False 1 rl)) \<and>
      fst (rate_check 9 False (1 + 59 * NANOS) (snd (rate_check 9 False 1 rl))) = Inl 1"
  by (simp add: rate_check_def new_limiter_def limit_of_def saturating_inc_def WINDOW_def NANOS_def
      word_le_nat_alt Let_def)

text \<open>No operation removes a window: one is kept for every address ever seen.\<close>

lemma buckets_grow:
  "Mapping.keys (buckets (snd (rate_check i au t rl))) = insert (i, au) (Mapping.keys (buckets rl))"
  by (simp add: rate_check_def Let_def)

end
