(* ===== verification/Projects_Db.thy ===== *)
theory Projects_Db
  imports Complex_Main Rate_Limit
begin

text \<open>
  The project side of the database: projects with their roles, memberships and invitations
  (\<open>crates/db/src/projects.rs\<close>, \<open>roles.rs\<close>, \<open>memberships.rs\<close>, \<open>invitations.rs\<close>) and the seeded
  taxonomy of a new project (\<open>crates/core/src/taxonomy.rs\<close>).

  The tables extend the node of \<open>Gate\<close>. Of a project the uploaded icon is left out. Text columns hold
  the stored strings; a stored permission list or visibility is parsed when it is read, as the code
  does. A rank is an \<open>f64\<close>; the seeded ones are small integers, exact as rationals. Fresh ids come
  from one counter for all tables. Constraints: \<open>projects.slug\<close>, \<open>projects.issue_prefix\<close>, \<open>roles
  (project, slug)\<close>, \<open>memberships (project, user)\<close>, \<open>invitations.token_hash\<close> and the prefix history
  are unique; a role is not deleted while a membership names it.
\<close>

section \<open>Tables\<close>

type_synonym pid = nat

record project_row =
  pj_id :: pid
  pj_slug :: ustr
  pj_name :: ustr
  pj_description :: ustr
  pj_owner_id :: uid
  pj_visibility :: ustr
  pj_issue_prefix :: ustr
  pj_color :: ustr
  pj_kanban_enabled :: bool
  pj_backlog_enabled :: bool
  pj_wiki_enabled :: bool
  pj_epics_enabled :: bool
  pj_in_progress_status_ids :: "nat list"
  pj_created_at :: int
  pj_deleted_at :: "int option"

record role_row =
  ro_id :: nat
  ro_project_id :: pid
  ro_slug :: ustr
  ro_name :: ustr
  ro_order :: int
  ro_is_admin :: bool
  ro_permissions :: "ustr list"

record member_row =
  mb_id :: nat
  mb_project_id :: pid
  mb_user_id :: uid
  mb_role_id :: nat
  mb_invited_by :: "uid option"
  mb_created_at :: int

record invite_row =
  iv_id :: nat
  iv_project_id :: pid
  iv_email :: ustr
  iv_role_id :: nat
  iv_token_hash :: ustr
  iv_invited_by :: "uid option"
  iv_expires_at :: int
  iv_accepted_at :: "int option"
  iv_created_at :: int

type_synonym f64 = rat

record taxonomy_row =
  x_id :: nat
  x_project_id :: pid
  x_kind :: ustr
  x_name :: ustr
  x_slug :: ustr
  x_color :: ustr
  x_emoji :: ustr
  x_order :: f64
  x_is_closed :: "bool option"
  x_counts_as_done :: "bool option"
  x_is_new :: "bool option"
  x_value :: "f64 option"
  x_created_at :: int

record board_row =
  bo_id :: nat
  bo_project_id :: pid
  bo_owner_id :: "uid option"
  bo_visibility :: ustr
  bo_name :: ustr
  bo_key :: ustr
  bo_color :: ustr
  bo_config :: ustr
  bo_order :: f64
  bo_created_at :: int
  bo_modified_at :: int

record history_row =
  hi_id :: nat
  hi_project_id :: pid
  hi_prefix :: ustr
  hi_replaced_at :: int

record store = node +
  projects :: "project_row list"
  roles :: "role_row list"
  members :: "member_row list"
  invites :: "invite_row list"
  taxonomy :: "taxonomy_row list"
  boards :: "board_row list"
  prefix_history :: "history_row list"

section \<open>The seeded taxonomy\<close>

record DefaultTaxonomyItem =
  dt_kind :: TaxonomyKind
  dt_name :: ustr
  dt_slug :: ustr
  dt_color :: ustr
  dt_is_closed :: "bool option"
  dt_counts_as_done :: "bool option"
  dt_is_new :: "bool option"
  dt_value :: "f64 option"

definition seed_status :: "string \<Rightarrow> string \<Rightarrow> string \<Rightarrow> bool \<Rightarrow> bool \<Rightarrow> bool \<Rightarrow> DefaultTaxonomyItem" where
  "seed_status name slug color ends_work counted is_new =
     \<lparr>dt_kind = IssueStatus, dt_name = lit name, dt_slug = lit slug, dt_color = lit color,
      dt_is_closed = Some ends_work, dt_counts_as_done = Some counted, dt_is_new = Some is_new, dt_value = None\<rparr>"

definition seed_plain :: "TaxonomyKind \<Rightarrow> string \<Rightarrow> string \<Rightarrow> string \<Rightarrow> DefaultTaxonomyItem" where
  "seed_plain kind name slug color =
     \<lparr>dt_kind = kind, dt_name = lit name, dt_slug = lit slug, dt_color = lit color,
      dt_is_closed = None, dt_counts_as_done = None, dt_is_new = None, dt_value = None\<rparr>"

definition seed_size :: "string \<Rightarrow> string \<Rightarrow> string \<Rightarrow> f64 \<Rightarrow> DefaultTaxonomyItem" where
  "seed_size name slug color ordinal =
     \<lparr>dt_kind = Size, dt_name = lit name, dt_slug = lit slug, dt_color = lit color,
      dt_is_closed = None, dt_counts_as_done = None, dt_is_new = None, dt_value = Some ordinal\<rparr>"

definition default_taxonomies :: "DefaultTaxonomyItem list" where
  "default_taxonomies =
     [seed_status ''New'' ''new'' ''#999999'' False False True,
      seed_status ''Ready'' ''ready'' ''#ff8a84'' False False False,
      seed_status ''In progress'' ''in-progress'' ''#ffcc00'' False False False,
      seed_status ''Ready for test'' ''ready-for-test'' ''#9dce0a'' False False False,
      seed_status ''Done'' ''done'' ''#669900'' True True False,
      seed_status ''Archived'' ''archived'' ''#5c3566'' True True False,
      seed_plain IssueType ''Story'' ''story'' ''#3b7dd8'',
      seed_plain IssueType ''Task'' ''task'' ''#669900'',
      seed_plain IssueType ''Bug'' ''bug'' ''#cc0000'',
      seed_plain IssueType ''Enhancement'' ''enhancement'' ''#9dce0a'',
      seed_plain IssueType ''Question'' ''question'' ''#0079bc'',
      seed_plain Priority ''Low'' ''low'' ''#999999'',
      seed_plain Priority ''Medium'' ''medium'' ''#ffcc00'',
      seed_plain Priority ''High'' ''high'' ''#ff7518'',
      seed_plain Priority ''Critical'' ''critical'' ''#cc0000'',
      seed_plain Priority ''Blocker'' ''blocker'' ''#5c3566'',
      seed_size ''XS'' ''xs'' ''#9dce0a'' 1,
      seed_size ''S'' ''s'' ''#669900'' 2,
      seed_size ''M'' ''m'' ''#ffcc00'' 3,
      seed_size ''L'' ''l'' ''#ff7518'' 4,
      seed_size ''XL'' ''xl'' ''#cc0000'' 5,
      seed_size ''XXL'' ''xxl'' ''#990000'' 6]"

section \<open>Projects\<close>

record Project =
  pr_id :: pid
  pr_slug :: ustr
  pr_name :: ustr
  pr_description :: ustr
  pr_owner_id :: uid
  pr_visibility :: Visibility
  pr_issue_prefix :: ustr
  pr_color :: ustr
  pr_kanban_enabled :: bool
  pr_backlog_enabled :: bool
  pr_wiki_enabled :: bool
  pr_epics_enabled :: bool
  pr_in_progress_status_ids :: "nat list"
  pr_created_at :: int

record NewProject =
  np_name :: ustr
  np_slug :: ustr
  np_description :: ustr
  np_owner_id :: uid
  np_visibility :: Visibility
  np_issue_prefix :: ustr
  np_color :: ustr

record ProjectUpdate =
  pu_name :: "ustr option"
  pu_description :: "ustr option"
  pu_visibility :: "Visibility option"
  pu_issue_prefix :: "ustr option"
  pu_color :: "ustr option"
  pu_kanban_enabled :: "bool option"
  pu_backlog_enabled :: "bool option"
  pu_wiki_enabled :: "bool option"
  pu_epics_enabled :: "bool option"
  pu_epic_board :: "nat list option"

text \<open>An unknown stored visibility reads as private.\<close>

definition row_to_project :: "project_row \<Rightarrow> Project" where
  "row_to_project r =
     \<lparr>pr_id = pj_id r, pr_slug = pj_slug r, pr_name = pj_name r, pr_description = pj_description r,
      pr_owner_id = pj_owner_id r, pr_visibility = unwrap_or (Visibility_parse (pj_visibility r)) Private,
      pr_issue_prefix = pj_issue_prefix r, pr_color = pj_color r, pr_kanban_enabled = pj_kanban_enabled r,
      pr_backlog_enabled = pj_backlog_enabled r, pr_wiki_enabled = pj_wiki_enabled r,
      pr_epics_enabled = pj_epics_enabled r, pr_in_progress_status_ids = pj_in_progress_status_ids r,
      pr_created_at = pj_created_at r\<rparr>"

definition is_project :: "pid \<Rightarrow> project_row \<Rightarrow> bool" where
  "is_project i p \<longleftrightarrow> pj_id p = i \<and> pj_deleted_at p = None"

definition seed_roles :: "pid \<Rightarrow> nat \<Rightarrow> role_row list" where
  "seed_roles i next =
     map (\<lambda>(k, r). \<lparr>ro_id = next + k, ro_project_id = i, ro_slug = dr_slug r, ro_name = dr_name r,
           ro_order = dr_order r, ro_is_admin = dr_is_admin r,
           ro_permissions = permissions_to_json (dr_permissions r)\<rparr>)
       (enumerate 0 default_roles)"

text \<open>\<open>for role in default_roles() { ... if role.is_admin { admin_role_id = Some(..) } }\<close>: the last one.\<close>

definition admin_role_id :: "role_row list \<Rightarrow> nat option" where
  "admin_role_id rs = fold (\<lambda>r acc. if ro_is_admin r then Some (ro_id r) else acc) rs None"

text \<open>Ranks per kind, in declaration order: \<open>APPEND_GAP\<close> apart.\<close>

definition APPEND_GAP :: f64 where "APPEND_GAP = 1"

fun seed_items :: "pid \<Rightarrow> nat \<Rightarrow> int \<Rightarrow> (TaxonomyKind \<Rightarrow> f64) \<Rightarrow> DefaultTaxonomyItem list \<Rightarrow> taxonomy_row list" where
  "seed_items i next now order_by_kind [] = []"
| "seed_items i next now order_by_kind (d # ds) =
     (let order = order_by_kind (dt_kind d) + APPEND_GAP
      in \<lparr>x_id = next, x_project_id = i, x_kind = TaxonomyKind_as_str (dt_kind d), x_name = dt_name d,
          x_slug = dt_slug d, x_color = dt_color d, x_emoji = [], x_order = order,
          x_is_closed = dt_is_closed d, x_counts_as_done = dt_counts_as_done d, x_is_new = dt_is_new d,
          x_value = dt_value d, x_created_at = now\<rparr>
         # seed_items i (Suc next) now (order_by_kind(dt_kind d := order)) ds)"

definition create_with_defaults :: "NewProject \<Rightarrow> ('s store_scheme, Project) db" where
  "create_with_defaults new = stmt (\<lambda>s.
     let i = next_id s;
         row = \<lparr>pj_id = i, pj_slug = np_slug new, pj_name = np_name new, pj_description = np_description new,
           pj_owner_id = np_owner_id new, pj_visibility = Visibility_as_str (np_visibility new),
           pj_issue_prefix = np_issue_prefix new, pj_color = np_color new, pj_kanban_enabled = True,
           pj_backlog_enabled = True, pj_wiki_enabled = True, pj_epics_enabled = True,
           pj_in_progress_status_ids = [], pj_created_at = db_now s, pj_deleted_at = None\<rparr>;
         rs = seed_roles i (i + 1);
         mid = i + 1 + length rs;
         xs = seed_items i (mid + 1) (db_now s) (\<lambda>_. 0) default_taxonomies;
         bid = mid + 1 + length xs
     in if any_row (\<lambda>p. pj_slug p = np_slug new \<or> pj_issue_prefix p = np_issue_prefix new) (projects s)
        then (Inl UniqueViolation, s)
        else if find_user (np_owner_id new) s = None then (Inl ForeignKeyViolation, s)
        else (case admin_role_id rs of
            None \<Rightarrow> (Inl Unavailable, s)
          | Some rid \<Rightarrow>
              (Inr (row_to_project row), s\<lparr>
                 projects := projects s @ [row],
                 roles := roles s @ rs,
                 members := members s @ [\<lparr>mb_id = mid, mb_project_id = i, mb_user_id = np_owner_id new,
                   mb_role_id = rid, mb_invited_by = None, mb_created_at = db_now s\<rparr>],
                 taxonomy := taxonomy s @ xs,
                 boards := boards s @ [\<lparr>bo_id = bid, bo_project_id = i, bo_owner_id = Some (np_owner_id new),
                   bo_visibility = lit ''shared'', bo_name = lit ''Board'', bo_key = lit ''board'',
                   bo_color = [], bo_config = lit ''{}'', bo_order = 0, bo_created_at = db_now s, bo_modified_at = db_now s\<rparr>],
                 next_id := bid + 1\<rparr>)))"

definition project_find_by_id :: "pid \<Rightarrow> ('s store_scheme, Project option) db" where
  "project_find_by_id i = query (\<lambda>s. map_option row_to_project (find_row (is_project i) (projects s)))"

definition find_by_prefix :: "ustr \<Rightarrow> ('s store_scheme, Project option) db" where
  "find_by_prefix prefix = query (\<lambda>s. map_option row_to_project
     (find_row (\<lambda>p. pj_issue_prefix p = prefix \<and> pj_deleted_at p = None) (projects s)))"

definition find_id_by_historic_prefix :: "ustr \<Rightarrow> ('s store_scheme, pid option) db" where
  "find_id_by_historic_prefix prefix = query (\<lambda>s. map_option hi_project_id
     (find_row (\<lambda>h. hi_prefix h = prefix) (prefix_history s)))"

definition record_prefix_history :: "pid \<Rightarrow> ustr \<Rightarrow> ('s store_scheme, unit) db" where
  "record_prefix_history i old_prefix = execute (\<lambda>s. ()) (\<lambda>s.
     if any_row (\<lambda>h. hi_prefix h = old_prefix) (prefix_history s)
     then s\<lparr>prefix_history := update_where (\<lambda>h. hi_prefix h = old_prefix)
              (\<lambda>h. h\<lparr>hi_project_id := i, hi_replaced_at := db_now s\<rparr>) (prefix_history s)\<rparr>
     else s\<lparr>prefix_history := prefix_history s @
              [\<lparr>hi_id = next_id s, hi_project_id = i, hi_prefix = old_prefix, hi_replaced_at = db_now s\<rparr>],
            next_id := Suc (next_id s)\<rparr>)"

definition slug_exists :: "ustr \<Rightarrow> ('s store_scheme, bool) db" where
  "slug_exists slug = query (\<lambda>s. any_row (\<lambda>p. pj_slug p = slug) (projects s))"

definition prefix_exists :: "ustr \<Rightarrow> pid option \<Rightarrow> ('s store_scheme, bool) db" where
  "prefix_exists prefix exclude =
     query (\<lambda>s. any_row (\<lambda>p. pj_issue_prefix p = prefix \<and> Some (pj_id p) \<noteq> exclude) (projects s))"

definition newest_first :: "project_row list \<Rightarrow> Project list" where
  "newest_first ps = map row_to_project (rev (sort_key pj_created_at ps))"

definition list_all_projects :: "('s store_scheme, Project list) db" where
  "list_all_projects = query (\<lambda>s. newest_first (filter (\<lambda>p. pj_deleted_at p = None) (projects s)))"

definition list_for_member :: "uid \<Rightarrow> ('s store_scheme, Project list) db" where
  "list_for_member i = query (\<lambda>s. newest_first (filter
     (\<lambda>p. pj_deleted_at p = None \<and> any_row (\<lambda>m. mb_project_id m = pj_id p \<and> mb_user_id m = i) (members s)) (projects s)))"

definition list_by_ids :: "pid list \<Rightarrow> ('s store_scheme, Project list) db" where
  "list_by_ids ids =
     (if ids = [] then State_Monad.return (Inr [])
      else query (\<lambda>s. newest_first (filter (\<lambda>p. pj_id p \<in> set ids \<and> pj_deleted_at p = None) (projects s))))"

definition apply_update :: "ProjectUpdate \<Rightarrow> project_row \<Rightarrow> project_row" where
  "apply_update upd p =
     p\<lparr>pj_name := unwrap_or (pu_name upd) (pj_name p),
       pj_description := unwrap_or (pu_description upd) (pj_description p),
       pj_visibility := unwrap_or (map_option Visibility_as_str (pu_visibility upd)) (pj_visibility p),
       pj_kanban_enabled := unwrap_or (pu_kanban_enabled upd) (pj_kanban_enabled p),
       pj_backlog_enabled := unwrap_or (pu_backlog_enabled upd) (pj_backlog_enabled p),
       pj_wiki_enabled := unwrap_or (pu_wiki_enabled upd) (pj_wiki_enabled p),
       pj_epics_enabled := unwrap_or (pu_epics_enabled upd) (pj_epics_enabled p),
       pj_in_progress_status_ids := unwrap_or (pu_epic_board upd) (pj_in_progress_status_ids p),
       pj_issue_prefix := unwrap_or (pu_issue_prefix upd) (pj_issue_prefix p),
       pj_color := unwrap_or (pu_color upd) (pj_color p)\<rparr>"

definition project_update :: "pid \<Rightarrow> ProjectUpdate \<Rightarrow> ('s store_scheme, Project option) db" where
  "project_update i upd = stmt (\<lambda>s.
     case find_row (is_project i) (projects s) of
       None \<Rightarrow> (Inr None, s)
     | Some p \<Rightarrow>
         if any_row (\<lambda>q. pj_id q \<noteq> i \<and> Some (pj_issue_prefix q) = pu_issue_prefix upd) (projects s)
         then (Inl UniqueViolation, s)
         else (Inr (Some (row_to_project (apply_update upd p))),
               s\<lparr>projects := update_where (is_project i) (apply_update upd) (projects s)\<rparr>))"

definition project_soft_delete :: "pid \<Rightarrow> ('s store_scheme, bool) db" where
  "project_soft_delete i =
     execute (\<lambda>s. affected (is_project i) (projects s) > 0)
       (\<lambda>s. s\<lparr>projects := update_where (is_project i) (\<lambda>p. p\<lparr>pj_deleted_at := Some (db_now s)\<rparr>) (projects s)\<rparr>)"

section \<open>Roles\<close>

record Role =
  rl_id :: nat
  rl_project_id :: pid
  rl_slug :: ustr
  rl_name :: ustr
  rl_order :: int
  rl_is_admin :: bool
  rl_permissions :: "Permission list"

text \<open>A stored list that does not parse makes the read fail.\<close>

definition row_to_role :: "role_row \<Rightarrow> DbError + Role" where
  "row_to_role r =
     (case permissions_from_json (ro_permissions r) of
        None \<Rightarrow> Inl Unavailable
      | Some ps \<Rightarrow> Inr \<lparr>rl_id = ro_id r, rl_project_id = ro_project_id r, rl_slug = ro_slug r, rl_name = ro_name r,
          rl_order = ro_order r, rl_is_admin = ro_is_admin r, rl_permissions = ps\<rparr>)"

text \<open>\<open>Option::map(row_to_role).transpose()\<close>, and collecting a list of results.\<close>

definition role_option :: "role_row option \<Rightarrow> DbError + Role option" where
  "role_option r = (case r of None \<Rightarrow> Inr None | Some row \<Rightarrow> map_sum (\<lambda>e. e) Some (row_to_role row))"

fun collect_results :: "('e + 'a) list \<Rightarrow> 'e + 'a list" where
  "collect_results [] = Inr []"
| "collect_results (r # rs) = (case r of Inl e \<Rightarrow> Inl e | Inr x \<Rightarrow> map_sum (\<lambda>e. e) ((#) x) (collect_results rs))"

text \<open>A query whose rows are parsed afterwards.\<close>

definition query_parsed :: "('s base_scheme \<Rightarrow> DbError + 'a) \<Rightarrow> ('s base_scheme, 'a) db" where
  "query_parsed f = stmt (\<lambda>s. (f s, s))"

definition in_project :: "pid \<Rightarrow> nat \<Rightarrow> role_row \<Rightarrow> bool" where
  "in_project i rid r \<longleftrightarrow> ro_id r = rid \<and> ro_project_id r = i"

definition roles_list_for_project :: "pid \<Rightarrow> ('s store_scheme, Role list) db" where
  "roles_list_for_project i = query_parsed (\<lambda>s.
     collect_results (map row_to_role (sort_key ro_order (filter (\<lambda>r. ro_project_id r = i) (roles s)))))"

definition find_in_project :: "pid \<Rightarrow> nat \<Rightarrow> ('s store_scheme, Role option) db" where
  "find_in_project i rid = query_parsed (\<lambda>s. role_option (find_row (in_project i rid) (roles s)))"

definition role_find_by_slug :: "pid \<Rightarrow> ustr \<Rightarrow> ('s store_scheme, Role option) db" where
  "role_find_by_slug i slug =
     query_parsed (\<lambda>s. role_option (find_row (\<lambda>r. ro_project_id r = i \<and> ro_slug r = slug) (roles s)))"

definition role_create :: "pid \<Rightarrow> ustr \<Rightarrow> ustr \<Rightarrow> int \<Rightarrow> Permission list \<Rightarrow> ('s store_scheme, Role) db" where
  "role_create i slug name order permissions = stmt (\<lambda>s.
     let row = \<lparr>ro_id = next_id s, ro_project_id = i, ro_slug = slug, ro_name = name, ro_order = order,
           ro_is_admin = False, ro_permissions = permissions_to_json permissions\<rparr>
     in if any_row (\<lambda>r. ro_project_id r = i \<and> ro_slug r = slug) (roles s) then (Inl UniqueViolation, s)
        else if \<not> any_row (\<lambda>p. pj_id p = i) (projects s) then (Inl ForeignKeyViolation, s)
        else (row_to_role row, s\<lparr>roles := roles s @ [row], next_id := Suc (next_id s)\<rparr>))"

definition plain_role :: "pid \<Rightarrow> nat \<Rightarrow> role_row \<Rightarrow> bool" where
  "plain_role i rid r \<longleftrightarrow> in_project i rid r \<and> \<not> ro_is_admin r"

definition role_edit :: "ustr option \<Rightarrow> Permission list option \<Rightarrow> role_row \<Rightarrow> role_row" where
  "role_edit name permissions r =
     r\<lparr>ro_name := unwrap_or name (ro_name r),
       ro_permissions := unwrap_or (map_option permissions_to_json permissions) (ro_permissions r)\<rparr>"

definition update_permissions ::
    "pid \<Rightarrow> nat \<Rightarrow> ustr option \<Rightarrow> Permission list option \<Rightarrow> ('s store_scheme, Role option) db" where
  "update_permissions i rid name permissions = stmt (\<lambda>s.
     (role_option (map_option (role_edit name permissions) (find_row (plain_role i rid) (roles s))),
      s\<lparr>roles := update_where (plain_role i rid) (role_edit name permissions) (roles s)\<rparr>))"

text \<open>
  Memberships restrict the deletion, invitations for the role go with it.
\<close>

definition role_delete :: "pid \<Rightarrow> nat \<Rightarrow> ('s store_scheme, bool) db" where
  "role_delete i rid = stmt (\<lambda>s.
     if \<not> any_row (plain_role i rid) (roles s) then (Inr False, s)
     else if any_row (\<lambda>m. mb_role_id m = rid) (members s) then (Inl ForeignKeyViolation, s)
     else (Inr True, s\<lparr>roles := delete_where (plain_role i rid) (roles s),
                       invites := delete_where (\<lambda>v. iv_role_id v = rid) (invites s)\<rparr>))"

section \<open>Memberships\<close>

record MemberAccess =
  ma_membership_id :: nat
  ma_role_id :: nat
  ma_role_slug :: ustr
  ma_is_admin :: bool
  ma_permissions :: "Permission list"

definition access_has :: "MemberAccess \<Rightarrow> Permission \<Rightarrow> bool" where
  "access_has a perm \<longleftrightarrow> ma_is_admin a \<or> perm \<in> set (ma_permissions a)"

definition is_member :: "pid \<Rightarrow> uid \<Rightarrow> member_row \<Rightarrow> bool" where
  "is_member i u m \<longleftrightarrow> mb_project_id m = i \<and> mb_user_id m = u"

definition role_of :: "'s store_scheme \<Rightarrow> member_row \<Rightarrow> role_row option" where
  "role_of s m = find_row (\<lambda>r. ro_id r = mb_role_id m) (roles s)"

definition member_join :: "pid \<Rightarrow> uid \<Rightarrow> 's store_scheme \<Rightarrow> (member_row \<times> role_row) option" where
  "member_join i u s =
     Option.bind (find_row (is_member i u) (members s)) (\<lambda>m. map_option (\<lambda>r. (m, r)) (role_of s m))"

definition access_of :: "member_row \<Rightarrow> role_row \<Rightarrow> DbError + MemberAccess" where
  "access_of m r =
     (case permissions_from_json (ro_permissions r) of
        None \<Rightarrow> Inl Unavailable
      | Some ps \<Rightarrow> Inr \<lparr>ma_membership_id = mb_id m, ma_role_id = ro_id r, ma_role_slug = ro_slug r,
          ma_is_admin = ro_is_admin r, ma_permissions = ps\<rparr>)"

definition access :: "pid \<Rightarrow> uid \<Rightarrow> ('s store_scheme, MemberAccess option) db" where
  "access i u = query_parsed (\<lambda>s.
     case member_join i u s of
       None \<Rightarrow> Inr None
     | Some (m, r) \<Rightarrow> map_sum (\<lambda>e. e) Some (access_of m r))"

record Membership =
  ms_id :: nat
  ms_project_id :: pid
  ms_user_id :: uid
  ms_username :: ustr
  ms_full_name :: ustr
  ms_email :: ustr
  ms_role_id :: nat
  ms_role_slug :: ustr
  ms_created_at :: int

definition row_to_membership :: "member_row \<Rightarrow> role_row \<Rightarrow> user_row \<Rightarrow> Membership" where
  "row_to_membership m r u =
     \<lparr>ms_id = mb_id m, ms_project_id = mb_project_id m, ms_user_id = mb_user_id m, ms_username = u_username u,
      ms_full_name = u_full_name u, ms_email = u_email u, ms_role_id = mb_role_id m, ms_role_slug = ro_slug r,
      ms_created_at = mb_created_at m\<rparr>"

definition members_list_for_project :: "pid \<Rightarrow> ('s store_scheme, Membership list) db" where
  "members_list_for_project i = query (\<lambda>s.
     List.map_filter (\<lambda>m. Option.bind (role_of s m) (\<lambda>r. map_option (row_to_membership m r) (find_user (mb_user_id m) s)))
       (sort_key mb_created_at (filter (\<lambda>m. mb_project_id m = i) (members s))))"

text \<open>\<open>INSERT ... ON CONFLICT (project_id, user_id) DO UPDATE SET role_id\<close>\<close>

definition upsert :: "pid \<Rightarrow> uid \<Rightarrow> nat \<Rightarrow> uid option \<Rightarrow> ('s store_scheme, nat) db" where
  "upsert i u rid invited_by = stmt (\<lambda>s.
     case find_row (is_member i u) (members s) of
       Some m \<Rightarrow>
         if \<not> any_row (\<lambda>r. ro_id r = rid) (roles s) then (Inl ForeignKeyViolation, s)
         else (Inr (mb_id m), s\<lparr>members := update_where (is_member i u) (\<lambda>m. m\<lparr>mb_role_id := rid\<rparr>) (members s)\<rparr>)
     | None \<Rightarrow>
         if find_user u s = None \<or> \<not> any_row (\<lambda>p. pj_id p = i) (projects s) \<or> \<not> any_row (\<lambda>r. ro_id r = rid) (roles s)
           \<or> (invited_by \<noteq> None \<and> find_user (the invited_by) s = None)
         then (Inl ForeignKeyViolation, s)
         else (Inr (next_id s), s\<lparr>
           members := members s @ [\<lparr>mb_id = next_id s, mb_project_id = i, mb_user_id = u, mb_role_id = rid,
             mb_invited_by = invited_by, mb_created_at = db_now s\<rparr>],
           next_id := Suc (next_id s)\<rparr>))"

definition change_role :: "pid \<Rightarrow> uid \<Rightarrow> nat \<Rightarrow> ('s store_scheme, bool) db" where
  "change_role i u rid = stmt (\<lambda>s.
     if \<not> any_row (is_member i u) (members s) then (Inr False, s)
     else if \<not> any_row (\<lambda>r. ro_id r = rid) (roles s) then (Inl ForeignKeyViolation, s)
     else (Inr True, s\<lparr>members := update_where (is_member i u) (\<lambda>m. m\<lparr>mb_role_id := rid\<rparr>) (members s)\<rparr>))"

definition member_remove :: "pid \<Rightarrow> uid \<Rightarrow> ('s store_scheme, bool) db" where
  "member_remove i u =
     execute (\<lambda>s. affected (is_member i u) (members s) > 0)
       (\<lambda>s. s\<lparr>members := delete_where (is_member i u) (members s)\<rparr>)"

definition holds_admin :: "pid \<Rightarrow> 's store_scheme \<Rightarrow> member_row \<Rightarrow> bool" where
  "holds_admin i s m \<longleftrightarrow> mb_project_id m = i \<and> (case role_of s m of None \<Rightarrow> False | Some r \<Rightarrow> ro_is_admin r)"

definition admin_count :: "pid \<Rightarrow> ('s store_scheme, nat) db" where
  "admin_count i = query (\<lambda>s. count_where (holds_admin i s) (members s))"

section \<open>Invitations\<close>

record AcceptedInvitation =
  ai_project_id :: pid
  ai_role_id :: nat
  ai_email :: ustr

definition open_invite :: "ustr \<Rightarrow> int \<Rightarrow> invite_row \<Rightarrow> bool" where
  "open_invite token_hash now v \<longleftrightarrow>
     iv_token_hash v = token_hash \<and> iv_accepted_at v = None \<and> iv_expires_at v > now"

definition invite_create ::
    "env \<Rightarrow> pid \<Rightarrow> ustr \<Rightarrow> nat \<Rightarrow> ustr \<Rightarrow> uid option \<Rightarrow> int \<Rightarrow> ('s store_scheme, nat) db" where
  "invite_create env i email rid token_hash invited_by expires_at = stmt (\<lambda>s.
     if any_row (\<lambda>v. iv_token_hash v = token_hash) (invites s) then (Inl UniqueViolation, s)
     else if \<not> any_row (\<lambda>p. pj_id p = i) (projects s) \<or> \<not> any_row (\<lambda>r. ro_id r = rid) (roles s)
       \<or> (invited_by \<noteq> None \<and> find_user (the invited_by) s = None)
     then (Inl ForeignKeyViolation, s)
     else (Inr (next_id s), s\<lparr>
       invites := invites s @ [\<lparr>iv_id = next_id s, iv_project_id = i, iv_email = to_lowercase env email,
         iv_role_id = rid, iv_token_hash = token_hash, iv_invited_by = invited_by, iv_expires_at = expires_at,
         iv_accepted_at = None, iv_created_at = db_now s\<rparr>],
       next_id := Suc (next_id s)\<rparr>))"

definition invite_find_pending :: "ustr \<Rightarrow> ('s store_scheme, AcceptedInvitation option) db" where
  "invite_find_pending token_hash = query (\<lambda>s.
     map_option (\<lambda>v. \<lparr>ai_project_id = iv_project_id v, ai_role_id = iv_role_id v, ai_email = iv_email v\<rparr>)
       (find_row (open_invite token_hash (db_now s)) (invites s)))"

definition invite_exists :: "ustr \<Rightarrow> ('s store_scheme, bool) db" where
  "invite_exists token_hash = query (\<lambda>s. any_row (\<lambda>v. iv_token_hash v = token_hash) (invites s))"

definition invite_mark_accepted :: "ustr \<Rightarrow> ('s store_scheme, bool) db" where
  "invite_mark_accepted token_hash =
     execute (\<lambda>s. affected (open_invite token_hash (db_now s)) (invites s) > 0)
       (\<lambda>s. s\<lparr>invites := update_where (open_invite token_hash (db_now s))
                (\<lambda>v. v\<lparr>iv_accepted_at := Some (db_now s)\<rparr>) (invites s)\<rparr>)"

definition invite_list_pending :: "pid \<Rightarrow> ('s store_scheme, invite_row list) db" where
  "invite_list_pending i = query (\<lambda>s.
     sort_key iv_created_at (filter (\<lambda>v. iv_project_id v = i \<and> iv_accepted_at v = None \<and> iv_expires_at v > db_now s)
       (invites s)))"

end
