(* ===== verification/Projects.thy ===== *)
theory Projects
  imports Projects_Db
begin

text \<open>
  The project endpoints (\<open>crates/api/src/projects.rs\<close>): names and prefixes of new projects, the
  \<open>ProjectContext\<close> every project request passes, and the handlers for projects, roles, members and
  invitations.

  A handler maps the request to a refusal or to a status and a payload (\<open>handler\<close>). Audit metadata is
  kept as the text of its JSON fields. The project id of the path is the raw parameter; a path
  without one is \<open>None\<close>.
\<close>

section \<open>Shapes of a handler\<close>

type_synonym ('s, 'a) handler = "('s, response + (nat \<times> 'a)) state"

definition refuse :: "response \<Rightarrow> ('s, response + 'a) state" where
  "refuse r = State_Monad.return (Inl r)"

definition answer :: "nat \<Rightarrow> 'a \<Rightarrow> ('s, 'a) handler" where
  "answer status x = State_Monad.return (Inr (status, x))"

text \<open>\<open>let Ok(client) = pool.get().await else { return internal }\<close>\<close>

definition with_client :: "('w base_scheme, response + 'a) state \<Rightarrow> ('w base_scheme, response + 'a) state" where
  "with_client m = do { connected \<leftarrow> pool_get; if connected then m else refuse internal }"

definition passing :: "response + 'b \<Rightarrow> ('b \<Rightarrow> ('s, response + 'a) state) \<Rightarrow> ('s, response + 'a) state" where
  "passing r f = (case r of Inl e \<Rightarrow> refuse e | Inr x \<Rightarrow> f x)"

definition not_found :: response where "not_found = problem 404 (lit ''not_found'') None"
definition forbidden :: response where "forbidden = problem 403 (lit ''forbidden'') None"

definition conflict :: "string \<Rightarrow> response" where
  "conflict detail = problem 409 (lit ''conflict'') (Some (lit detail))"

definition unknown_role :: response where "unknown_role = problem 422 (lit ''unknown_role'') None"

definition parse_body :: "('r \<Rightarrow> bool) \<Rightarrow> 'r json_body \<Rightarrow> response + 'r" where
  "parse_body valid body =
     (case body of
        Json v \<Rightarrow> if valid v then Inr v else Inl validation_problem
      | _ \<Rightarrow> Inl (problem 400 (lit ''invalid_body'') None))"

section \<open>Names and prefixes\<close>

fun slug_loop :: "ustr \<Rightarrow> ustr \<Rightarrow> bool \<Rightarrow> ustr" where
  "slug_loop [] out prev_dash = out"
| "slug_loop (ch # cs) out prev_dash =
     (if is_ascii_alnum ch then slug_loop cs (out @ [ascii_lower ch]) False
      else if \<not> prev_dash \<and> out \<noteq> [] then slug_loop cs (out @ [45]) True
      else slug_loop cs out prev_dash)"

definition slugify :: "ustr \<Rightarrow> ustr" where
  "slugify name =
     (let trimmed = trim_by (\<lambda>c. c = 45) (slug_loop name [] False)
      in if trimmed = [] then lit ''project'' else trimmed)"

definition split_whitespace :: "ustr \<Rightarrow> ustr list" where
  "split_whitespace s = filter (\<lambda>w. w \<noteq> []) (split_on is_white s)"

fun pad_x :: "nat \<Rightarrow> ustr \<Rightarrow> ustr" where
  "pad_x 0 p = p"
| "pad_x (Suc n) p = (if length p < 2 then pad_x n (p @ [88]) else p)"

text \<open>The prefix is ASCII, so its length in bytes is its length; two turns of the padding loop are enough.\<close>

definition derive_prefix :: "ustr \<Rightarrow> ustr" where
  "derive_prefix name =
     (let ws = filter (list_ex is_ascii_alpha) (split_whitespace name);
          p = (if length ws \<ge> 2
               then map ascii_upper (List.map_filter (List.find is_ascii_alpha) (take 3 ws))
               else map ascii_upper (take 3 (filter is_ascii_alpha name)))
      in take 3 (pad_x 2 p))"

definition letters :: "uchar list" where "letters = [65..<91]"

text \<open>The candidates in the order the nested loops try them.\<close>

definition prefix_candidates :: "ustr list" where
  "prefix_candidates =
     concat (map (\<lambda>a. map (\<lambda>b. [a, b]) letters) letters) @
     concat (map (\<lambda>a. concat (map (\<lambda>b. map (\<lambda>c. [a, b, c]) letters) letters)) letters)"

fun first_free :: "ustr list \<Rightarrow> ('s store_scheme, ustr) db" where
  "first_free [] = State_Monad.return (Inl Unavailable)"
| "first_free (cand # cands) = do {
     taken \<leftarrow> prefix_exists cand None;
     case taken of
       Inl e \<Rightarrow> State_Monad.return (Inl e)
     | Inr t \<Rightarrow> if t then first_free cands else State_Monad.return (Inr cand)
   }"

definition unique_prefix :: "ustr \<Rightarrow> ('s store_scheme, ustr) db" where
  "unique_prefix base = first_free (base # prefix_candidates)"

definition PROJECT_COLORS :: "ustr list" where
  "PROJECT_COLORS =
     [lit ''#999999'', lit ''#ff8a84'', lit ''#ffcc00'', lit ''#9dce0a'', lit ''#669900'', lit ''#0079bc'',
      lit ''#5c3566'', lit ''#cc0000'', lit ''#ff7518'', lit ''#34495e'']"

definition random_color :: "env \<Rightarrow> ('s base_scheme, ustr) state" where
  "random_color env = do {
     bytes \<leftarrow> draw_bytes;
     let raw = rt_raw (generate (e_sha256 env) bytes);
     let first = (case raw of [] \<Rightarrow> 0 | c # _ \<Rightarrow> unat (hd (utf8_char c)));
     State_Monad.return (PROJECT_COLORS ! (first mod 10))
   }"

text \<open>The token is ASCII and at least six characters long; the last resort is a fresh uuid.\<close>

fun slug_tries :: "env \<Rightarrow> ustr \<Rightarrow> nat \<Rightarrow> ('s store_scheme, ustr option) db" where
  "slug_tries env base 0 = State_Monad.return (Inr None)"
| "slug_tries env base (Suc n) = do {
     bytes \<leftarrow> draw_bytes;
     let raw = rt_raw (generate (e_sha256 env) bytes);
     let candidate = base @ lit ''-'' @ map ascii_lower (take 6 raw);
     taken \<leftarrow> slug_exists candidate;
     case taken of
       Inl e \<Rightarrow> State_Monad.return (Inl e)
     | Inr t \<Rightarrow> if t then slug_tries env base n else State_Monad.return (Inr (Some candidate))
   }"

definition unique_slug :: "env \<Rightarrow> ustr \<Rightarrow> ('s store_scheme, ustr) db" where
  "unique_slug env base = do {
     taken \<leftarrow> slug_exists base;
     case taken of
       Inl e \<Rightarrow> State_Monad.return (Inl e)
     | Inr t \<Rightarrow>
         if \<not> t then State_Monad.return (Inr base)
         else do {
           found \<leftarrow> slug_tries env base 5;
           case found of
             Inl e \<Rightarrow> State_Monad.return (Inl e)
           | Inr (Some candidate) \<Rightarrow> State_Monad.return (Inr candidate)
           | Inr None \<Rightarrow> do {
               uuid \<leftarrow> draw_bytes;
               State_Monad.return (Inr (base @ lit ''-'' @ hex_encode (take 16 uuid)))
             }
         }
   }"

section \<open>The context of a project request\<close>

definition INTELLIBOT_USER_ID :: uid where
  "INTELLIBOT_USER_ID = 0xb0700000000070008000000000000000"

record ProjectContext =
  cx_project :: Project
  cx_actor_id :: uid
  cx_access :: "MemberAccess option"
  cx_is_superadmin :: bool

definition ctx_has :: "ProjectContext \<Rightarrow> Permission \<Rightarrow> bool" where
  "ctx_has ctx perm \<longleftrightarrow>
     (cx_is_superadmin ctx \<and> is_superadmin_grant perm) \<or>
     (case cx_access ctx of None \<Rightarrow> False | Some a \<Rightarrow> access_has a perm)"

definition ctx_require :: "ProjectContext \<Rightarrow> Permission \<Rightarrow> response + unit" where
  "ctx_require ctx perm = (if ctx_has ctx perm then Inr () else Inl forbidden)"

definition can_view :: "ProjectContext \<Rightarrow> bool" where
  "can_view ctx \<longleftrightarrow>
     cx_is_superadmin ctx \<or>
     (case cx_access ctx of None \<Rightarrow> False | Some a \<Rightarrow> access_has a ProjectView) \<or>
     pr_visibility (cx_project ctx) \<noteq> Private"

definition user_context :: "Project \<Rightarrow> uid \<Rightarrow> ('s store_scheme, response + ProjectContext) state" where
  "user_context project user_id = do {
     acc \<leftarrow> access (pr_id project) user_id;
     case acc of
       Inl _ \<Rightarrow> refuse internal
     | Inr a \<Rightarrow> do {
         flag \<leftarrow> is_active_superadmin user_id;
         let is_superadmin = ok_or flag False;
         if pr_visibility project = Private \<and> a = None \<and> \<not> is_superadmin
         then refuse not_found
         else State_Monad.return (Inr \<lparr>cx_project = project, cx_actor_id = user_id, cx_access = a,
                cx_is_superadmin = is_superadmin\<rparr>)
       }
   }"

definition token_context :: "Project \<Rightarrow> AppTokenAuth \<Rightarrow> response + ProjectContext" where
  "token_context project tok =
     (let in_scope = pr_id project \<in> set (aa_project_ids tok)
      in if pr_visibility project = Private \<and> \<not> in_scope then Inl not_found
         else Inr \<lparr>cx_project = project, cx_actor_id = INTELLIBOT_USER_ID,
           cx_access = (if in_scope
             then Some \<lparr>ma_membership_id = 0, ma_role_id = 0, ma_role_slug = lit ''app_token'', ma_is_admin = False,
               ma_permissions = aa_permissions tok\<rparr>
             else None),
           cx_is_superadmin = False\<rparr>)"

definition context_of :: "pid \<Rightarrow> Caller \<Rightarrow> ('s store_scheme, response + ProjectContext) state" where
  "context_of project_id caller = with_client (do {
     found \<leftarrow> project_find_by_id project_id;
     case found of
       Inl _ \<Rightarrow> refuse internal
     | Inr None \<Rightarrow> refuse not_found
     | Inr (Some project) \<Rightarrow>
         (case caller of
            User user_id \<Rightarrow> user_context project user_id
          | AppToken tok \<Rightarrow> State_Monad.return (token_context project tok))
   })"

definition project_context :: "env \<Rightarrow> HeaderMap \<Rightarrow> ustr option \<Rightarrow> ('s store_scheme, response + ProjectContext) state" where
  "project_context env headers param = do {
     caller \<leftarrow> authenticate env headers;
     passing caller (\<lambda>c.
       case Option.bind param (e_uuid_parse env) of
         None \<Rightarrow> refuse not_found
       | Some project_id \<Rightarrow> context_of project_id c)
   }"

section \<open>Projects\<close>

record CreateProjectRequest =
  cp_name :: ustr
  cp_slug :: "ustr option"
  cp_description :: ustr
  cp_visibility :: "ustr option"
  cp_issue_prefix :: "ustr option"
  cp_color :: "ustr option"

record UpdateProjectRequest =
  up_name :: "ustr option"
  up_description :: "ustr option"
  up_visibility :: "ustr option"
  up_issue_prefix :: "ustr option"
  up_color :: "ustr option"
  up_kanban_enabled :: "bool option"
  up_backlog_enabled :: "bool option"
  up_wiki_enabled :: "bool option"
  up_epics_enabled :: "bool option"
  up_epic_board :: "nat list option"

definition opt_all :: "('a \<Rightarrow> bool) \<Rightarrow> 'a option \<Rightarrow> bool" where
  "opt_all P x = (case x of None \<Rightarrow> True | Some y \<Rightarrow> P y)"

definition len_between :: "nat \<Rightarrow> nat \<Rightarrow> ustr \<Rightarrow> bool" where
  "len_between lo hi s \<longleftrightarrow> lo \<le> byte_len s \<and> byte_len s \<le> hi"

text \<open>The pattern \<open>^[a-z0-9]+(?:-[a-z0-9]+)*$\<close>: segments between hyphens, none empty.\<close>

definition slug_char :: "uchar \<Rightarrow> bool" where
  "slug_char c \<longleftrightarrow> is_ascii_lower c \<or> is_ascii_digit c"

definition slug_pattern :: "ustr \<Rightarrow> bool" where
  "slug_pattern s \<longleftrightarrow> list_all (\<lambda>w. w \<noteq> [] \<and> list_all slug_char w) (split_on (\<lambda>c. c = 45) s)"

definition prefix_pattern :: "ustr \<Rightarrow> bool" where
  "prefix_pattern p \<longleftrightarrow> (length p = 2 \<or> length p = 3) \<and> list_all is_ascii_alpha p"

definition valid_create_project :: "CreateProjectRequest \<Rightarrow> bool" where
  "valid_create_project r \<longleftrightarrow>
     len_between 1 200 (cp_name r) \<and> opt_all (\<lambda>s. len_between 0 100 s \<and> slug_pattern s) (cp_slug r) \<and>
     len_between 0 4000 (cp_description r) \<and> opt_all (len_between 0 16) (cp_visibility r) \<and>
     opt_all (\<lambda>p. len_between 0 3 p \<and> prefix_pattern p) (cp_issue_prefix r) \<and>
     opt_all (len_between 0 16) (cp_color r)"

definition valid_update_project :: "UpdateProjectRequest \<Rightarrow> bool" where
  "valid_update_project r \<longleftrightarrow>
     opt_all (len_between 1 200) (up_name r) \<and> opt_all (len_between 0 4000) (up_description r) \<and>
     opt_all (len_between 0 16) (up_visibility r) \<and>
     opt_all (\<lambda>p. len_between 0 3 p \<and> prefix_pattern p) (up_issue_prefix r) \<and>
     opt_all (len_between 0 16) (up_color r)"

text \<open>An absent visibility, a known one, or an unknown one.\<close>

definition parse_visibility :: "ustr option \<Rightarrow> response + Visibility option" where
  "parse_visibility v =
     (case map_option Visibility_parse v of
        Some (Some x) \<Rightarrow> Inr (Some x)
      | Some None \<Rightarrow> Inl (problem 422 (lit ''invalid_visibility'') None)
      | None \<Rightarrow> Inr None)"

definition chosen_prefix :: "ustr option \<Rightarrow> ustr \<Rightarrow> ('s store_scheme, response + ustr) state" where
  "chosen_prefix requested name =
     (case requested of
        Some p \<Rightarrow> do {
          let upper = map ascii_upper p;
          taken \<leftarrow> prefix_exists upper None;
          (case taken of
             Inr True \<Rightarrow> refuse (conflict ''issue prefix already in use'')
           | Inr False \<Rightarrow> State_Monad.return (Inr upper)
           | Inl _ \<Rightarrow> refuse internal)
        }
      | None \<Rightarrow> do {
          r \<leftarrow> unique_prefix (derive_prefix name);
          (case r of Inl _ \<Rightarrow> refuse internal | Inr p \<Rightarrow> State_Monad.return (Inr p))
        })"

definition create_project ::
    "env \<Rightarrow> HeaderMap \<Rightarrow> uid \<Rightarrow> CreateProjectRequest json_body \<Rightarrow> ('s store_scheme, Project) handler" where
  "create_project env headers user_id body =
     passing (parse_body valid_create_project body) (\<lambda>req.
     passing (parse_visibility (cp_visibility req)) (\<lambda>vis. with_client (do {
       slug \<leftarrow> unique_slug env (unwrap_or (cp_slug req) (slugify (cp_name req)));
       case slug of
         Inl _ \<Rightarrow> refuse internal
       | Inr slug \<Rightarrow> do {
           prefix \<leftarrow> chosen_prefix (cp_issue_prefix req) (cp_name req);
           passing prefix (\<lambda>issue_prefix. do {
             color \<leftarrow> (case cp_color req of
                 Some c \<Rightarrow> if c \<noteq> [] then State_Monad.return c else random_color env
               | None \<Rightarrow> random_color env);
             created \<leftarrow> create_with_defaults
               \<lparr>np_name = cp_name req, np_slug = slug, np_description = cp_description req,
                np_owner_id = user_id, np_visibility = unwrap_or vis Private, np_issue_prefix = issue_prefix,
                np_color = color\<rparr>;
             case created of
               Inr project \<Rightarrow> do {
                 _ \<leftarrow> audit env headers (Some user_id) (lit ''project_created'')
                        [(lit ''project_id'', e_uuid_str env (pr_id project))];
                 answer 201 project
               }
             | Inl UniqueViolation \<Rightarrow> refuse (conflict ''project slug already exists'')
             | Inl _ \<Rightarrow> refuse internal
           })
         }
     })))"

definition list_projects :: "Caller \<Rightarrow> ('s store_scheme, Project list) handler" where
  "list_projects caller = with_client (do {
     listing \<leftarrow> (case caller of
         User user_id \<Rightarrow> do {
           flag \<leftarrow> is_active_superadmin user_id;
           if ok_or flag False then list_all_projects else list_for_member user_id
         }
       | AppToken tok \<Rightarrow> list_by_ids (aa_project_ids tok));
     case listing of
       Inr ps \<Rightarrow> answer 200 ps
     | Inl _ \<Rightarrow> refuse internal
   })"

definition get_project :: "ProjectContext \<Rightarrow> ('s, Project) handler" where
  "get_project ctx = (if \<not> can_view ctx then refuse forbidden else answer 200 (cx_project ctx))"

text \<open>The live prefix wins over a historic one; a private project shows itself to its readers only.\<close>

definition project_of_prefix :: "ustr \<Rightarrow> ('s store_scheme, response + Project option) state" where
  "project_of_prefix needle = do {
     current \<leftarrow> find_by_prefix needle;
     case current of
       Inl _ \<Rightarrow> refuse internal
     | Inr (Some p) \<Rightarrow> State_Monad.return (Inr (Some p))
     | Inr None \<Rightarrow> do {
         old \<leftarrow> find_id_by_historic_prefix needle;
         case old of
           Inl _ \<Rightarrow> refuse internal
         | Inr None \<Rightarrow> State_Monad.return (Inr None)
         | Inr (Some i) \<Rightarrow> do {
             p \<leftarrow> project_find_by_id i;
             case p of Inl _ \<Rightarrow> refuse internal | Inr v \<Rightarrow> State_Monad.return (Inr v)
           }
       }
   }"

definition resolve_by_prefix :: "uid \<Rightarrow> ustr \<Rightarrow> ('s store_scheme, Project) handler" where
  "resolve_by_prefix user_id prefix = with_client (do {
     found \<leftarrow> project_of_prefix (map ascii_upper (trim prefix));
     passing found (\<lambda>p. case p of
         None \<Rightarrow> refuse not_found
       | Some project \<Rightarrow>
           if pr_visibility project = Private
           then do {
             acc \<leftarrow> access (pr_id project) user_id;
             flag \<leftarrow> is_active_superadmin user_id;
             if ok_or acc None = None \<and> \<not> ok_or flag False then refuse not_found else answer 200 project
           }
           else answer 200 project)
   })"

definition update_project :: "ProjectContext \<Rightarrow> UpdateProjectRequest json_body \<Rightarrow> ('s store_scheme, Project) handler" where
  "update_project ctx body =
     passing (ctx_require ctx ProjectModify) (\<lambda>_.
     passing (parse_body valid_update_project body) (\<lambda>req.
     passing (parse_visibility (up_visibility req)) (\<lambda>vis. with_client (do {
       prefix \<leftarrow> (case up_issue_prefix req of
           None \<Rightarrow> State_Monad.return (Inr None)
         | Some p \<Rightarrow> do {
             taken \<leftarrow> prefix_exists (map ascii_upper p) (Some (pr_id (cx_project ctx)));
             case taken of
               Inr True \<Rightarrow> refuse (conflict ''issue prefix already in use'')
             | Inr False \<Rightarrow> State_Monad.return (Inr (Some (map ascii_upper p)))
             | Inl _ \<Rightarrow> refuse internal
           });
       passing prefix (\<lambda>issue_prefix. do {
         let prefix_changed = (case issue_prefix of None \<Rightarrow> False | Some p \<Rightarrow> p \<noteq> pr_issue_prefix (cx_project ctx));
         updated \<leftarrow> project_update (pr_id (cx_project ctx))
           \<lparr>pu_name = up_name req, pu_description = up_description req, pu_visibility = vis,
            pu_issue_prefix = issue_prefix, pu_color = up_color req, pu_kanban_enabled = up_kanban_enabled req,
            pu_backlog_enabled = up_backlog_enabled req, pu_wiki_enabled = up_wiki_enabled req,
            pu_epics_enabled = up_epics_enabled req, pu_epic_board = up_epic_board req\<rparr>;
         case updated of
           Inr (Some p) \<Rightarrow> do {
             _ \<leftarrow> (if prefix_changed
                   then ignore (record_prefix_history (pr_id (cx_project ctx)) (pr_issue_prefix (cx_project ctx)))
                   else State_Monad.return ());
             answer 200 p
           }
         | Inr None \<Rightarrow> refuse not_found
         | Inl _ \<Rightarrow> refuse internal
       })
     }))))"

definition delete_project :: "env \<Rightarrow> HeaderMap \<Rightarrow> ProjectContext \<Rightarrow> ('s store_scheme, unit) handler" where
  "delete_project env headers ctx =
     passing (ctx_require ctx ProjectDelete) (\<lambda>_. with_client (do {
       gone \<leftarrow> project_soft_delete (pr_id (cx_project ctx));
       case gone of
         Inr True \<Rightarrow> do {
           _ \<leftarrow> audit env headers (Some (cx_actor_id ctx)) (lit ''project_deleted'')
                  [(lit ''project_id'', e_uuid_str env (pr_id (cx_project ctx)))];
           answer 204 ()
         }
       | Inr False \<Rightarrow> refuse not_found
       | Inl _ \<Rightarrow> refuse internal
     }))"

section \<open>Roles\<close>

record CreateRoleRequest =
  qr_name :: ustr
  qr_slug :: ustr
  qr_permissions :: "Permission list"

record UpdateRoleRequest =
  ur_name :: "ustr option"
  ur_permissions :: "Permission list option"

definition valid_create_role :: "CreateRoleRequest \<Rightarrow> bool" where
  "valid_create_role r \<longleftrightarrow> len_between 1 64 (qr_name r) \<and> len_between 1 64 (qr_slug r) \<and>
     list_all (\<lambda>c. is_ascii_lower c \<or> is_ascii_digit c \<or> c = 95) (qr_slug r)"

definition valid_update_role :: "UpdateRoleRequest \<Rightarrow> bool" where
  "valid_update_role r \<longleftrightarrow> opt_all (len_between 1 64) (ur_name r)"

definition list_roles :: "ProjectContext \<Rightarrow> ('s store_scheme, Role list) handler" where
  "list_roles ctx =
     passing (ctx_require ctx RoleView) (\<lambda>_. with_client (do {
       rs \<leftarrow> roles_list_for_project (pr_id (cx_project ctx));
       case rs of Inr x \<Rightarrow> answer 200 x | Inl _ \<Rightarrow> refuse internal
     }))"

definition create_role :: "ProjectContext \<Rightarrow> CreateRoleRequest json_body \<Rightarrow> ('s store_scheme, Role) handler" where
  "create_role ctx body =
     passing (ctx_require ctx RoleCreate) (\<lambda>_.
     passing (parse_body valid_create_role body) (\<lambda>req. with_client (do {
       r \<leftarrow> role_create (pr_id (cx_project ctx)) (qr_slug req) (qr_name req) 100 (qr_permissions req);
       case r of
         Inr role \<Rightarrow> answer 201 role
       | Inl UniqueViolation \<Rightarrow> refuse (conflict ''role slug already exists'')
       | Inl _ \<Rightarrow> refuse internal
     })))"

definition update_role ::
    "env \<Rightarrow> HeaderMap \<Rightarrow> ProjectContext \<Rightarrow> ustr option \<Rightarrow> UpdateRoleRequest json_body \<Rightarrow> ('s store_scheme, Role) handler" where
  "update_role env headers ctx param body =
     passing (ctx_require ctx RoleModify) (\<lambda>_.
     case Option.bind param (e_uuid_parse env) of
       None \<Rightarrow> refuse not_found
     | Some role_id \<Rightarrow>
         passing (parse_body valid_update_role body) (\<lambda>req. with_client (do {
           r \<leftarrow> update_permissions (pr_id (cx_project ctx)) role_id (ur_name req) (ur_permissions req);
           case r of
             Inr (Some role) \<Rightarrow> do {
               _ \<leftarrow> audit env headers (Some (cx_actor_id ctx)) (lit ''role_modified'')
                      [(lit ''role_id'', e_uuid_str env role_id)];
               answer 200 role
             }
           | Inr None \<Rightarrow> refuse not_found
           | Inl _ \<Rightarrow> refuse internal
         })))"

text \<open>Every error of the statement is an error of the database driver, so all are answered alike.\<close>

definition delete_role :: "env \<Rightarrow> ProjectContext \<Rightarrow> ustr option \<Rightarrow> ('s store_scheme, unit) handler" where
  "delete_role env ctx param =
     passing (ctx_require ctx RoleDelete) (\<lambda>_.
     case Option.bind param (e_uuid_parse env) of
       None \<Rightarrow> refuse not_found
     | Some role_id \<Rightarrow> with_client (do {
         r \<leftarrow> role_delete (pr_id (cx_project ctx)) role_id;
         case r of
           Inr True \<Rightarrow> answer 204 ()
         | Inr False \<Rightarrow> refuse not_found
         | Inl _ \<Rightarrow> refuse (conflict ''role still has members'')
       }))"

section \<open>Members\<close>

record AddMemberRequest =
  am_user_id :: "uid option"
  am_identifier :: "ustr option"
  am_role :: ustr

definition valid_add_member :: "AddMemberRequest \<Rightarrow> bool" where
  "valid_add_member r \<longleftrightarrow> opt_all (len_between 0 254) (am_identifier r) \<and> len_between 1 64 (am_role r)"

text \<open>The role named in the request; a failing lookup counts as an unknown role.\<close>

definition with_role :: "pid \<Rightarrow> ustr \<Rightarrow> (Role \<Rightarrow> ('s store_scheme, response + 'a) state) \<Rightarrow> ('s store_scheme, response + 'a) state" where
  "with_role i slug f = do {
     r \<leftarrow> role_find_by_slug i slug;
     case r of Inr (Some role) \<Rightarrow> f role | _ \<Rightarrow> refuse unknown_role
   }"

definition list_members :: "ProjectContext \<Rightarrow> ('s store_scheme, Membership list) handler" where
  "list_members ctx =
     passing (ctx_require ctx MemberView) (\<lambda>_. with_client (do {
       ms \<leftarrow> members_list_for_project (pr_id (cx_project ctx));
       case ms of Inr x \<Rightarrow> answer 200 x | Inl _ \<Rightarrow> refuse internal
     }))"

definition member_lookup :: "env \<Rightarrow> AddMemberRequest \<Rightarrow> ('s store_scheme, user_row option) db option" where
  "member_lookup env req =
     (case am_user_id req of
        Some i \<Rightarrow> Some (find_by_id i)
      | None \<Rightarrow>
          (case map_option trim (am_identifier req) of
             Some ident \<Rightarrow> if ident \<noteq> [] then Some (find_active_by_identifier env ident) else None
           | None \<Rightarrow> None))"

definition add_member ::
    "env \<Rightarrow> HeaderMap \<Rightarrow> ProjectContext \<Rightarrow> AddMemberRequest json_body \<Rightarrow> ('s store_scheme, uid \<times> ustr) handler" where
  "add_member env headers ctx body =
     passing (ctx_require ctx MemberAdd) (\<lambda>_.
     passing (parse_body valid_add_member body) (\<lambda>req. with_client (
       case member_lookup env req of
         None \<Rightarrow> refuse (problem 422 (lit ''missing_user'') None)
       | Some lookup \<Rightarrow> do {
           u \<leftarrow> lookup;
           case u of
             Inr (Some user) \<Rightarrow> with_role (pr_id (cx_project ctx)) (am_role req) (\<lambda>role. do {
               acc \<leftarrow> access (pr_id (cx_project ctx)) (u_id user);
               if ok_or acc None \<noteq> None then refuse (conflict ''user is already a member'')
               else do {
                 r \<leftarrow> upsert (pr_id (cx_project ctx)) (u_id user) (rl_id role) (Some (cx_actor_id ctx));
                 case r of
                   Inr _ \<Rightarrow> do {
                     _ \<leftarrow> audit env headers (Some (cx_actor_id ctx)) (lit ''member_added'')
                            [(lit ''user_id'', e_uuid_str env (u_id user)), (lit ''role'', am_role req)];
                     answer 201 (u_id user, am_role req)
                   }
                 | Inl _ \<Rightarrow> refuse internal
               }
             })
           | _ \<Rightarrow> refuse (problem 404 (lit ''user_not_found'') None)
         })))"

definition valid_role_name :: "ustr \<Rightarrow> bool" where
  "valid_role_name r \<longleftrightarrow> len_between 1 64 r"

text \<open>A request that only names a role is that name.\<close>

definition join_project ::
    "env \<Rightarrow> HeaderMap \<Rightarrow> ProjectContext \<Rightarrow> ustr json_body \<Rightarrow> ('s store_scheme, uid \<times> ustr) handler" where
  "join_project env headers ctx body =
     (if \<not> cx_is_superadmin ctx then refuse forbidden
      else if cx_access ctx \<noteq> None then refuse (conflict ''user is already a member'')
      else passing (parse_body valid_role_name body) (\<lambda>req. with_client (
        with_role (pr_id (cx_project ctx)) req (\<lambda>role. do {
          r \<leftarrow> upsert (pr_id (cx_project ctx)) (cx_actor_id ctx) (rl_id role) (Some (cx_actor_id ctx));
          case r of
            Inr _ \<Rightarrow> do {
              _ \<leftarrow> audit env headers (Some (cx_actor_id ctx)) (lit ''member_added'')
                     [(lit ''user_id'', e_uuid_str env (cx_actor_id ctx)), (lit ''role'', req),
                      (lit ''self_join'', lit ''true'')];
              answer 201 (cx_actor_id ctx, req)
            }
          | Inl _ \<Rightarrow> refuse internal
        }))))"

text \<open>
  The guard of the last administrator: whether the target is one and no more than one is counted. A
  failing lookup of the target passes the guard; a failing count holds it.
\<close>

definition last_admin_guard :: "pid \<Rightarrow> uid \<Rightarrow> bool \<Rightarrow> ('s store_scheme, bool) state" where
  "last_admin_guard i target keeps_admin = do {
     acc \<leftarrow> access i target;
     case acc of
       Inr (Some a) \<Rightarrow>
         if ma_is_admin a \<and> \<not> keeps_admin
         then do { n \<leftarrow> admin_count i; State_Monad.return (ok_or n 0 \<le> 1) }
         else State_Monad.return False
     | _ \<Rightarrow> State_Monad.return False
   }"

definition change_member_role ::
    "env \<Rightarrow> HeaderMap \<Rightarrow> ProjectContext \<Rightarrow> ustr option \<Rightarrow> ustr json_body \<Rightarrow> ('s store_scheme, unit) handler" where
  "change_member_role env headers ctx param body =
     passing (ctx_require ctx MemberModifyRole) (\<lambda>_.
     case Option.bind param (e_uuid_parse env) of
       None \<Rightarrow> refuse not_found
     | Some target \<Rightarrow>
         passing (parse_body valid_role_name body) (\<lambda>req. with_client (
           with_role (pr_id (cx_project ctx)) req (\<lambda>role. do {
             last \<leftarrow> last_admin_guard (pr_id (cx_project ctx)) target (rl_is_admin role);
             if last then refuse (conflict ''cannot demote the last admin'')
             else do {
               r \<leftarrow> change_role (pr_id (cx_project ctx)) target (rl_id role);
               case r of
                 Inr True \<Rightarrow> do {
                   _ \<leftarrow> audit env headers (Some (cx_actor_id ctx)) (lit ''member_role_changed'')
                          [(lit ''user_id'', e_uuid_str env target), (lit ''role'', req)];
                   answer 204 ()
                 }
               | Inr False \<Rightarrow> refuse not_found
               | Inl _ \<Rightarrow> refuse internal
             }
           }))))"

definition remove_member ::
    "env \<Rightarrow> HeaderMap \<Rightarrow> ProjectContext \<Rightarrow> ustr option \<Rightarrow> ('s store_scheme, unit) handler" where
  "remove_member env headers ctx param =
     (case Option.bind param (e_uuid_parse env) of
        None \<Rightarrow> refuse not_found
      | Some target \<Rightarrow>
          passing (if target \<noteq> cx_actor_id ctx then ctx_require ctx MemberRemove else Inr ()) (\<lambda>_. with_client (do {
            last \<leftarrow> last_admin_guard (pr_id (cx_project ctx)) target False;
            if last then refuse (conflict ''cannot remove the last admin'')
            else do {
              r \<leftarrow> member_remove (pr_id (cx_project ctx)) target;
              case r of
                Inr True \<Rightarrow> do {
                  _ \<leftarrow> audit env headers (Some (cx_actor_id ctx)) (lit ''member_removed'')
                         [(lit ''user_id'', e_uuid_str env target)];
                  answer 204 ()
                }
              | Inr False \<Rightarrow> refuse not_found
              | Inl _ \<Rightarrow> refuse internal
            }
          })))"

section \<open>Invitations\<close>

definition INVITE_TTL_SECS :: int where "INVITE_TTL_SECS = 7 * 24 * 60 * 60"

record InviteRequest =
  iq_email :: ustr
  iq_role :: ustr

definition valid_invite :: "env \<Rightarrow> InviteRequest \<Rightarrow> bool" where
  "valid_invite env r \<longleftrightarrow> e_email_ok env (iq_email r) \<and> len_between 0 254 (iq_email r) \<and> len_between 1 64 (iq_role r)"

definition invite ::
    "env \<Rightarrow> HeaderMap \<Rightarrow> ProjectContext \<Rightarrow> InviteRequest json_body \<Rightarrow> ('s store_scheme, nat \<times> ustr option) handler" where
  "invite env headers ctx body =
     passing (ctx_require ctx MemberAdd) (\<lambda>_.
     passing (parse_body (valid_invite env) body) (\<lambda>req. with_client (
       with_role (pr_id (cx_project ctx)) (iq_role req) (\<lambda>role. do {
         bytes \<leftarrow> draw_bytes;
         let token = generate (e_sha256 env) bytes;
         now \<leftarrow> get_now;
         r \<leftarrow> invite_create env (pr_id (cx_project ctx)) (iq_email req) (rl_id role) (rt_hash token)
                (Some (cx_actor_id ctx)) (now + INVITE_TTL_SECS);
         case r of
           Inl _ \<Rightarrow> refuse internal
         | Inr invitation_id \<Rightarrow> do {
             _ \<leftarrow> audit env headers (Some (cx_actor_id ctx)) (lit ''member_invited'')
                    [(lit ''email'', iq_email req), (lit ''role'', iq_role req)];
             answer 201 (invitation_id,
               if \<not> e_mailer_configured env \<and> e_is_dev env then Some (rt_raw token) else None)
           }
       }))))"

definition list_invitations :: "ProjectContext \<Rightarrow> ('s store_scheme, invite_row list) handler" where
  "list_invitations ctx =
     passing (ctx_require ctx MemberView) (\<lambda>_. with_client (do {
       vs \<leftarrow> invite_list_pending (pr_id (cx_project ctx));
       case vs of Inr x \<Rightarrow> answer 200 x | Inl _ \<Rightarrow> refuse internal
     }))"

definition valid_accept :: "ustr \<Rightarrow> bool" where
  "valid_accept token \<longleftrightarrow> len_between 1 512 token"

definition invitation_gone :: response where
  "invitation_gone = problem 410 (lit ''invitation_consumed'') None"

definition accept_invitation ::
    "env \<Rightarrow> HeaderMap \<Rightarrow> uid \<Rightarrow> ustr json_body \<Rightarrow> ('s store_scheme, pid) handler" where
  "accept_invitation env headers user_id body =
     passing (parse_body valid_accept body) (\<lambda>token. with_client (do {
       let token_hash = hash_token (e_sha256 env) token;
       pending \<leftarrow> invite_find_pending token_hash;
       case pending of
         Inl _ \<Rightarrow> refuse internal
       | Inr None \<Rightarrow> do {
           e \<leftarrow> invite_exists token_hash;
           refuse (if ok_or e False then invitation_gone else not_found)
         }
       | Inr (Some found) \<Rightarrow> do {
           marked \<leftarrow> invite_mark_accepted token_hash;
           case marked of
             Inl _ \<Rightarrow> refuse internal
           | Inr False \<Rightarrow> refuse invitation_gone
           | Inr True \<Rightarrow> do {
               r \<leftarrow> upsert (ai_project_id found) user_id (ai_role_id found) None;
               case r of
                 Inl _ \<Rightarrow> refuse internal
               | Inr _ \<Rightarrow> do {
                   _ \<leftarrow> audit env headers (Some user_id) (lit ''membership_granted'')
                          [(lit ''project_id'', e_uuid_str env (ai_project_id found))];
                   answer 200 (ai_project_id found)
                 }
             }
         }
     }))"

end
