(* ===== verification/Admin.thy ===== *)
theory Admin
  imports Projects
begin

text \<open>
  The administration pages (\<open>crates/api/src/admin/handlers.rs\<close>): accounts, bans, second factors and
  sessions of others, platform invitations, app tokens and the sign-in switches, with the listings
  (\<open>users::list\<close>, \<open>audit::list\<close>) they page through.

  Every handler gets the administrator that the \<open>SuperadminUser\<close> extractor let through
  (\<open>admin_endpoint\<close>). The JSON metadata of an audit entry is the list of its fields as text. Of the
  platform settings the two sign-in switches are kept.
\<close>

section \<open>Shapes\<close>

definition admin_endpoint ::
    "env \<Rightarrow> HeaderMap \<Rightarrow> (uid \<Rightarrow> ('s store_scheme, 'a) handler) \<Rightarrow> ('s store_scheme, 'a) handler" where
  "admin_endpoint env headers h = do { admin \<leftarrow> superadmin_user env headers; passing admin h }"

definition json_bool :: "bool \<Rightarrow> ustr" where
  "json_bool b = (if b then lit ''true'' else lit ''false'')"

definition json_null :: ustr where "json_null = lit ''null''"

definition json_opt :: "('a \<Rightarrow> ustr) \<Rightarrow> 'a option \<Rightarrow> ustr" where
  "json_opt f x = (case x of None \<Rightarrow> json_null | Some y \<Rightarrow> f y)"

definition last_superadmin :: response where
  "last_superadmin = problem 409 (lit ''last_superadmin'')
     (Some (lit ''the requested change would leave the platform with no active superadmin''))"

definition outcome_to_response :: "AdminUpdateOutcome \<Rightarrow> response option" where
  "outcome_to_response outcome =
     (case outcome of Updated \<Rightarrow> None | NotFound \<Rightarrow> Some not_found | LastSuperadmin \<Rightarrow> Some last_superadmin)"

text \<open>One update in a chain: an error or a refusal ends the request.\<close>

definition stepping :: "('s, AdminUpdateOutcome) db \<Rightarrow> ('s, response + 'a) state \<Rightarrow> ('s, response + 'a) state" where
  "stepping op rest = do {
     r \<leftarrow> op;
     case r of
       Inl _ \<Rightarrow> refuse internal
     | Inr outcome \<Rightarrow> (case outcome_to_response outcome of Some e \<Rightarrow> refuse e | None \<Rightarrow> rest)
   }"

definition parsed :: "('r \<Rightarrow> bool) \<Rightarrow> 'r json_body \<Rightarrow> response + 'r" where
  "parsed valid body =
     (case parse_json body of
        Inl e \<Rightarrow> Inl e
      | Inr v \<Rightarrow> if valid v then Inr v else Inl validation_problem)"

text \<open>An existing account of the path, or 404.\<close>

definition on_account :: "uid \<Rightarrow> (user_row \<Rightarrow> ('s store_scheme, response + 'a) state) \<Rightarrow> ('s store_scheme, response + 'a) state" where
  "on_account i f = do {
     found \<leftarrow> find_by_id i;
     case found of
       Inl _ \<Rightarrow> refuse internal
     | Inr None \<Rightarrow> refuse not_found
     | Inr (Some u) \<Rightarrow> f u
   }"

section \<open>Listings\<close>

datatype StatusFilter = All | Active | Inactive | Banned | NoTwoFactor

definition StatusFilter_parse :: "ustr option \<Rightarrow> StatusFilter" where
  "StatusFilter_parse raw =
     (if raw = Some (lit ''active'') then Active
      else if raw = Some (lit ''inactive'') then Inactive
      else if raw = Some (lit ''banned'') then Banned
      else if raw = Some (lit ''no_2fa'') then NoTwoFactor
      else All)"

definition status_predicate :: "StatusFilter \<Rightarrow> 'w world_scheme \<Rightarrow> user_row \<Rightarrow> bool" where
  "status_predicate f s u =
     (case f of
        All \<Rightarrow> True
      | Active \<Rightarrow> u_is_active u \<and> u_banned_at u = None
      | Inactive \<Rightarrow> \<not> u_is_active u \<and> u_banned_at u = None
      | Banned \<Rightarrow> u_banned_at u \<noteq> None
      | NoTwoFactor \<Rightarrow> u_totp_confirmed_at u = None \<and> u_id u \<notin> set (passkey_owners s))"

record ListFilter =
  lf_q :: "ustr option"
  lf_status :: StatusFilter
  lf_limit :: nat
  lf_offset :: nat

definition clamp :: "nat \<Rightarrow> nat \<Rightarrow> nat \<Rightarrow> nat" where
  "clamp lo hi x = min hi (max lo x)"

text \<open>SQL's \<open>LIKE\<close>: \<open>%\<close> any text, \<open>_\<close> one character, a backslash takes the next one literally.\<close>

fun like :: "ustr \<Rightarrow> ustr \<Rightarrow> bool" where
  "like [] s = (s = [])"
| "like (p # ps) s =
     (if p = 37 then list_ex (\<lambda>k. like ps (drop k s)) [0..<Suc (length s)]
      else if p = 92 then (case ps of [] \<Rightarrow> False | q # qs \<Rightarrow> (case s of [] \<Rightarrow> False | c # cs \<Rightarrow> c = q \<and> like qs cs))
      else (case s of [] \<Rightarrow> False | c # cs \<Rightarrow> (p = 95 \<or> c = p) \<and> like ps cs))"

definition matches_query :: "env \<Rightarrow> ustr option \<Rightarrow> user_row \<Rightarrow> bool" where
  "matches_query env q u =
     (case q of
        None \<Rightarrow> True
      | Some t \<Rightarrow>
          let pat = [37] @ to_lowercase env t @ [37]
          in like pat (to_lowercase env (u_email u)) \<or> like pat (to_lowercase env (u_username u)) \<or>
             like pat (to_lowercase env (u_full_name u)))"

definition listed :: "env \<Rightarrow> ListFilter \<Rightarrow> 'w world_scheme \<Rightarrow> user_row \<Rightarrow> bool" where
  "listed env f s u \<longleftrightarrow> live u \<and> u_auth_source u \<noteq> lit ''system'' \<and> matches_query env (lf_q f) u \<and>
     status_predicate (lf_status f) s u"

definition page :: "nat \<Rightarrow> nat \<Rightarrow> 'a list \<Rightarrow> 'a list" where
  "page limit offset xs = take limit (drop offset xs)"

text \<open>Two statements: the page, newest first, and the count of the whole listing.\<close>

definition users_list :: "env \<Rightarrow> ListFilter \<Rightarrow> ('w world_scheme, user_row list \<times> nat) db" where
  "users_list env f = do {
     rows \<leftarrow> query (\<lambda>s. page (clamp 1 200 (lf_limit f)) (lf_offset f)
                         (rev (sort_key u_created_at (filter (listed env f s) (users s)))));
     case rows of
       Inl e \<Rightarrow> State_Monad.return (Inl e)
     | Inr items \<Rightarrow> do {
         n \<leftarrow> query (\<lambda>s. count_where (listed env f s) (users s));
         State_Monad.return (map_sum (\<lambda>e. e) (Pair items) n)
       }
   }"

definition has_action :: "ustr option \<Rightarrow> audit_row \<Rightarrow> bool" where
  "has_action action l \<longleftrightarrow> (case action of None \<Rightarrow> True | Some a \<Rightarrow> l_action l = a)"

definition audit_list :: "ustr option \<Rightarrow> nat \<Rightarrow> nat \<Rightarrow> ('w world_scheme, audit_row list) db" where
  "audit_list action limit offset =
     query (\<lambda>s. page limit offset (rev (sort_key l_created_at (filter (has_action action) (audit_log s)))))"

definition audit_count :: "ustr option \<Rightarrow> ('w world_scheme, nat) db" where
  "audit_count action = query (\<lambda>s. count_where (has_action action) (audit_log s))"

definition non_empty :: "ustr option \<Rightarrow> ustr option" where
  "non_empty x = (case x of None \<Rightarrow> None | Some t \<Rightarrow> if t = [] then None else Some t)"

definition list_activity ::
    "ustr option \<Rightarrow> nat option \<Rightarrow> nat option \<Rightarrow> uid \<Rightarrow> ('s store_scheme, audit_row list \<times> nat \<times> nat \<times> nat) handler" where
  "list_activity action limit offset admin = with_client (do {
     let lim = clamp 1 200 (unwrap_or limit 50);
     let off = unwrap_or offset 0;
     items \<leftarrow> audit_list (non_empty action) lim off;
     case items of
       Inl _ \<Rightarrow> refuse internal
     | Inr rows \<Rightarrow> do {
         n \<leftarrow> audit_count (non_empty action);
         answer 200 (rows, ok_or n 0, lim, off)
       }
   })"

definition list_users ::
    "env \<Rightarrow> ustr option \<Rightarrow> ustr option \<Rightarrow> nat option \<Rightarrow> nat option \<Rightarrow> uid
     \<Rightarrow> ('s store_scheme, user_row list \<times> nat \<times> nat \<times> nat) handler" where
  "list_users env q status limit offset admin = with_client (do {
     let flt = \<lparr>lf_q = non_empty q, lf_status = StatusFilter_parse status, lf_limit = unwrap_or limit 50,
                   lf_offset = unwrap_or offset 0\<rparr>;
     r \<leftarrow> users_list env flt;
     case r of
       Inl _ \<Rightarrow> refuse internal
     | Inr (items, n) \<Rightarrow> answer 200 (items, n, clamp 1 200 (lf_limit flt), lf_offset flt)
   })"

section \<open>Accounts\<close>

definition PLATFORM_INVITE_TTL_SECS :: int where "PLATFORM_INVITE_TTL_SECS = 7 * 24 * 60 * 60"
definition RESET_TTL_SECS :: int where "RESET_TTL_SECS = 60 * 60"
definition GENERATED_PASSWORD_LEN :: nat where "GENERATED_PASSWORD_LEN = 24"

record CreateUserRequest =
  qu_email :: ustr
  qu_username :: ustr
  qu_full_name :: ustr
  qu_password :: "ustr option"
  qu_is_superadmin :: bool

record UpdateUserRequest =
  xu_is_active :: "bool option"
  xu_is_superadmin :: "bool option"
  xu_full_name :: "ustr option"
  xu_exclude_from_time_reports :: "bool option"

definition valid_create_user :: "env \<Rightarrow> CreateUserRequest \<Rightarrow> bool" where
  "valid_create_user env r \<longleftrightarrow>
     e_email_ok env (qu_email r) \<and> len_between 0 254 (qu_email r) \<and> len_between 3 64 (qu_username r) \<and>
     list_all (\<lambda>c. is_ascii_alnum c \<or> c = 95 \<or> c = 46 \<or> c = 45) (qu_username r) \<and>
     len_between 0 256 (qu_full_name r) \<and> opt_all (len_between 0 1024) (qu_password r)"

definition valid_update_user :: "UpdateUserRequest \<Rightarrow> bool" where
  "valid_update_user r \<longleftrightarrow> opt_all (len_between 0 256) (xu_full_name r)"

text \<open>The characters come from the random generator's alphanumeric distribution (\<open>sample\<close>).\<close>

definition random_password :: "(byte list \<Rightarrow> nat \<Rightarrow> uchar) \<Rightarrow> ('s base_scheme, ustr) state" where
  "random_password sample = do {
     bytes \<leftarrow> draw_bytes;
     State_Monad.return (map (sample bytes) [0..<GENERATED_PASSWORD_LEN])
   }"

definition chosen_password ::
    "(byte list \<Rightarrow> nat \<Rightarrow> uchar) \<Rightarrow> ustr option \<Rightarrow> ('s base_scheme, ustr \<times> ustr option) state" where
  "chosen_password sample requested =
     (case non_empty requested of
        Some p \<Rightarrow> State_Monad.return (p, None)
      | None \<Rightarrow> do { p \<leftarrow> random_password sample; State_Monad.return (p, Some p) })"

definition admin_create_user ::
    "env \<Rightarrow> (byte list \<Rightarrow> nat \<Rightarrow> uchar) \<Rightarrow> HeaderMap \<Rightarrow> CreateUserRequest json_body \<Rightarrow> uid
     \<Rightarrow> ('s store_scheme, user_row \<times> ustr option) handler" where
  "admin_create_user env sample headers body admin =
     passing (parsed (valid_create_user env) body) (\<lambda>req. do {
       chosen \<leftarrow> chosen_password sample (qu_password req);
       salt \<leftarrow> draw_bytes;
       case e_hash_password env salt (fst chosen) (e_pepper env) of
         Inl _ \<Rightarrow> refuse internal
       | Inr h \<Rightarrow> with_client (do {
           created \<leftarrow> create_with_flags env
             \<lparr>nu_email = qu_email req, nu_username = qu_username req, nu_full_name = qu_full_name req,
              nu_password_hash = h\<rparr> (qu_is_superadmin req) True;
           case created of
             Inr user \<Rightarrow> do {
               _ \<leftarrow> audit env headers (Some admin) (lit ''admin_user_created'')
                      [(lit ''target_user_id'', e_uuid_str env (u_id user)),
                       (lit ''is_superadmin'', json_bool (u_is_superadmin user))];
               answer 201 (user, snd chosen)
             }
           | Inl UniqueViolation \<Rightarrow>
               refuse (problem 409 (lit ''already_exists'') (Some (lit ''email or username is already taken'')))
           | Inl _ \<Rightarrow> refuse internal
         })
     })"

text \<open>Of a profile update the administration sets the full name only.\<close>

definition update_full_name :: "uid \<Rightarrow> ustr \<Rightarrow> ('w world_scheme, user_row option) db" where
  "update_full_name i name =
     execute (\<lambda>s. map_option (\<lambda>u. u\<lparr>u_full_name := name\<rparr>) (find_row (\<lambda>u. has_id i u \<and> live u) (users s)))
       (upd_live i (\<lambda>u. u\<lparr>u_full_name := name\<rparr>))"

definition naming :: "uid \<Rightarrow> ustr option \<Rightarrow> ('s store_scheme, response + 'a) state \<Rightarrow> ('s store_scheme, response + 'a) state" where
  "naming i full_name rest =
     (case full_name of
        None \<Rightarrow> rest
      | Some name \<Rightarrow> do {
          r \<leftarrow> update_full_name i name;
          case r of Inl _ \<Rightarrow> refuse internal | Inr None \<Rightarrow> refuse not_found | Inr (Some _) \<Rightarrow> rest
        })"

definition requested :: "'v option \<Rightarrow> ('v \<Rightarrow> ('s, AdminUpdateOutcome) db) \<Rightarrow> ('s, response + 'a) state \<Rightarrow> ('s, response + 'a) state" where
  "requested v op rest = (case v of None \<Rightarrow> rest | Some x \<Rightarrow> stepping (op x) rest)"

definition admin_update_user ::
    "env \<Rightarrow> HeaderMap \<Rightarrow> uid \<Rightarrow> UpdateUserRequest json_body \<Rightarrow> uid \<Rightarrow> ('s store_scheme, user_row) handler" where
  "admin_update_user env headers i body admin =
     passing (parsed valid_update_user body) (\<lambda>req. with_client (
       requested (xu_is_superadmin req) (set_superadmin i) (
       requested (xu_is_active req) (set_active i) (
       requested (xu_exclude_from_time_reports req) (set_exclude_from_time_reports i) (
       naming i (xu_full_name req) (
       on_account i (\<lambda>updated. do {
         _ \<leftarrow> audit env headers (Some admin) (lit ''admin_user_updated'')
                [(lit ''target_user_id'', e_uuid_str env i),
                 (lit ''is_superadmin'', json_opt json_bool (xu_is_superadmin req)),
                 (lit ''is_active'', json_opt json_bool (xu_is_active req)),
                 (lit ''exclude_from_time_reports'', json_opt json_bool (xu_exclude_from_time_reports req)),
                 (lit ''full_name_changed'', json_bool (xu_full_name req \<noteq> None))];
         answer 200 updated
       })))))))"

definition delete_user :: "env \<Rightarrow> HeaderMap \<Rightarrow> uid \<Rightarrow> uid \<Rightarrow> ('s store_scheme, unit) handler" where
  "delete_user env headers i admin = with_client (do {
     now \<leftarrow> get_now;
     stepping (soft_delete_guarded i (now + 30 * 24 * 60 * 60)) (do {
       _ \<leftarrow> audit env headers (Some admin) (lit ''admin_user_deleted'') [(lit ''target_user_id'', e_uuid_str env i)];
       answer 204 ()
     })
   })"

text \<open>A secret shown in the response on development servers without a mailer only.\<close>

definition revealed :: "env \<Rightarrow> ustr \<Rightarrow> ustr option" where
  "revealed env raw = (if \<not> e_mailer_configured env \<and> e_is_dev env then Some raw else None)"

definition reset_password :: "env \<Rightarrow> HeaderMap \<Rightarrow> uid \<Rightarrow> uid \<Rightarrow> ('s store_scheme, ustr option \<times> int) handler" where
  "reset_password env headers i admin = with_client (on_account i (\<lambda>user. do {
     bytes \<leftarrow> draw_bytes;
     let token = generate (e_sha256 env) bytes;
     now \<leftarrow> get_now;
     r \<leftarrow> reset_create (u_id user) (rt_hash token) (now + RESET_TTL_SECS);
     case r of
       Inl _ \<Rightarrow> refuse internal
     | Inr _ \<Rightarrow> do {
         _ \<leftarrow> audit env headers (Some admin) (lit ''admin_password_reset_issued'')
                [(lit ''target_user_id'', e_uuid_str env i)];
         answer 201 (revealed env (rt_raw token), now + RESET_TTL_SECS)
       }
   }))"

section \<open>Account security\<close>

definition passkeys_delete_all :: "uid \<Rightarrow> ('w world_scheme, nat) db" where
  "passkeys_delete_all i =
     execute (\<lambda>s. affected (\<lambda>u. u = i) (passkey_owners s))
       (\<lambda>s. s\<lparr>passkey_owners := delete_where (\<lambda>u. u = i) (passkey_owners s)\<rparr>)"

record TwoFactorResetResponse =
  tf_totp_cleared :: bool
  tf_passkeys_removed :: nat
  tf_recovery_codes_removed :: nat
  tf_sessions_revoked :: nat

definition reset_two_factor :: "env \<Rightarrow> HeaderMap \<Rightarrow> uid \<Rightarrow> uid \<Rightarrow> ('s store_scheme, TwoFactorResetResponse) handler" where
  "reset_two_factor env headers i admin = with_client (on_account i (\<lambda>_. do {
     totp \<leftarrow> get_totp i;
     let totp_cleared = (ok_or totp None \<noteq> None);
     d \<leftarrow> disable_totp i;
     case d of
       Inl _ \<Rightarrow> refuse internal
     | Inr _ \<Rightarrow> do {
         p \<leftarrow> passkeys_delete_all i;
         case p of
           Inl _ \<Rightarrow> refuse internal
         | Inr passkeys_removed \<Rightarrow> do {
             c \<leftarrow> delete_all_for_user i;
             case c of
               Inl _ \<Rightarrow> refuse internal
             | Inr recovery_codes_removed \<Rightarrow> do {
                 n \<leftarrow> revoke_all_for_user_counted i (lit ''admin_2fa_reset'');
                 let sessions_revoked = ok_or n 0;
                 _ \<leftarrow> audit env headers (Some admin) (lit ''admin_user_2fa_reset'')
                        [(lit ''target_user_id'', e_uuid_str env i), (lit ''totp_cleared'', json_bool totp_cleared),
                         (lit ''passkeys_removed'', nat_str passkeys_removed),
                         (lit ''recovery_codes_removed'', nat_str recovery_codes_removed),
                         (lit ''sessions_revoked'', nat_str sessions_revoked)];
                 answer 200 \<lparr>tf_totp_cleared = totp_cleared, tf_passkeys_removed = passkeys_removed,
                   tf_recovery_codes_removed = recovery_codes_removed, tf_sessions_revoked = sessions_revoked\<rparr>
               }
           }
       }
   }))"

definition valid_ban :: "ustr option \<Rightarrow> bool" where
  "valid_ban reason \<longleftrightarrow> opt_all (len_between 0 500) reason"

definition cannot_ban_self :: response where
  "cannot_ban_self = problem 400 (lit ''cannot_ban_self'') (Some (lit ''an administrator cannot ban their own account''))"

text \<open>The request carries the optional reason.\<close>

definition ban_user ::
    "env \<Rightarrow> HeaderMap \<Rightarrow> uid \<Rightarrow> ustr option json_body \<Rightarrow> uid \<Rightarrow> ('s store_scheme, user_row) handler" where
  "ban_user env headers i body admin =
     passing (parsed valid_ban body) (\<lambda>req.
       if i = admin then refuse cannot_ban_self
       else with_client (do {
         let reason = (case req of None \<Rightarrow> None | Some t \<Rightarrow> if trim t = [] then None else Some t);
         stepping (set_banned i True admin reason) (do {
           n \<leftarrow> revoke_all_for_user_counted i (lit ''account_banned'');
           _ \<leftarrow> writes (invalidate i);
           _ \<leftarrow> audit env headers (Some admin) (lit ''admin_user_banned'')
                  [(lit ''target_user_id'', e_uuid_str env i), (lit ''reason'', json_opt (\<lambda>t. t) reason),
                   (lit ''sessions_revoked'', nat_str (ok_or n 0))];
           on_account i (answer 200)
         })
       }))"

definition unban_user :: "env \<Rightarrow> HeaderMap \<Rightarrow> uid \<Rightarrow> uid \<Rightarrow> ('s store_scheme, user_row) handler" where
  "unban_user env headers i admin = with_client (
     stepping (set_banned i False admin None) (do {
       _ \<leftarrow> writes (invalidate i);
       _ \<leftarrow> audit env headers (Some admin) (lit ''admin_user_unbanned'') [(lit ''target_user_id'', e_uuid_str env i)];
       on_account i (answer 200)
     }))"

definition list_user_sessions :: "uid \<Rightarrow> uid \<Rightarrow> ('s store_scheme, family_row list \<times> nat) handler" where
  "list_user_sessions i admin = with_client (on_account i (\<lambda>_. do {
     r \<leftarrow> list_active_for_user i;
     case r of Inl _ \<Rightarrow> refuse internal | Inr items \<Rightarrow> answer 200 (items, length items)
   }))"

definition revoke_user_sessions :: "env \<Rightarrow> HeaderMap \<Rightarrow> uid \<Rightarrow> uid \<Rightarrow> ('s store_scheme, nat) handler" where
  "revoke_user_sessions env headers i admin = with_client (on_account i (\<lambda>_. do {
     r \<leftarrow> revoke_all_for_user_counted i (lit ''admin_revoked_sessions'');
     case r of
       Inl _ \<Rightarrow> refuse internal
     | Inr n \<Rightarrow> do {
         _ \<leftarrow> audit env headers (Some admin) (lit ''admin_sessions_revoked'')
                [(lit ''target_user_id'', e_uuid_str env i), (lit ''sessions_revoked'', nat_str n)];
         answer 200 n
       }
   }))"

section \<open>Platform invitations\<close>

record CreateInvitationRequest =
  ci_email :: ustr
  ci_role :: ustr

definition valid_create_invitation :: "env \<Rightarrow> CreateInvitationRequest \<Rightarrow> bool" where
  "valid_create_invitation env r \<longleftrightarrow>
     e_email_ok env (ci_email r) \<and> len_between 0 254 (ci_email r) \<and> len_between 0 16 (ci_role r)"

record CreateInvitationResponse =
  cv_invitation_id :: nat
  cv_email :: ustr
  cv_role :: ustr
  cv_expires_at :: int
  cv_invite_token :: "ustr option"

definition quoted :: "string \<Rightarrow> ustr" where
  "quoted t = [39] @ lit t @ [39]"

definition create_invitation ::
    "env \<Rightarrow> HeaderMap \<Rightarrow> CreateInvitationRequest json_body \<Rightarrow> uid \<Rightarrow> ('s store_scheme, CreateInvitationResponse) handler" where
  "create_invitation env headers body admin =
     passing (parsed (valid_create_invitation env) body) (\<lambda>req.
       case PlatformInviteRole_parse (ci_role req) of
         None \<Rightarrow> refuse (problem 422 (lit ''unknown_role'') (Some (lit ''role must be '' @ quoted ''user'' @ lit '' or '' @ quoted ''superadmin'')))
       | Some role \<Rightarrow> with_client (do {
           bytes \<leftarrow> draw_bytes;
           let token = generate (e_sha256 env) bytes;
           now \<leftarrow> get_now;
           r \<leftarrow> pinvite_create env (ci_email req) role (rt_hash token) (Some admin) (now + PLATFORM_INVITE_TTL_SECS);
           case r of
             Inl _ \<Rightarrow> refuse internal
           | Inr invitation_id \<Rightarrow> do {
               _ \<leftarrow> audit env headers (Some admin) (lit ''admin_invitation_created'')
                      [(lit ''email'', ci_email req), (lit ''role'', PlatformInviteRole_as_str role)];
               answer 201 \<lparr>cv_invitation_id = invitation_id, cv_email = ci_email req,
                 cv_role = PlatformInviteRole_as_str role, cv_expires_at = now + PLATFORM_INVITE_TTL_SECS,
                 cv_invite_token = revealed env (rt_raw token)\<rparr>
             }
         }))"

definition list_platform_invitations :: "uid \<Rightarrow> ('s store_scheme, pinvite_row list) handler" where
  "list_platform_invitations admin = with_client (do {
     r \<leftarrow> list_pending;
     case r of Inl _ \<Rightarrow> refuse internal | Inr items \<Rightarrow> answer 200 items
   })"

definition revoke_invitation :: "env \<Rightarrow> HeaderMap \<Rightarrow> nat \<Rightarrow> uid \<Rightarrow> ('s store_scheme, unit) handler" where
  "revoke_invitation env headers invitation_id admin = with_client (do {
     r \<leftarrow> pinvite_revoke invitation_id;
     case r of
       Inl _ \<Rightarrow> refuse internal
     | Inr False \<Rightarrow> refuse not_found
     | Inr True \<Rightarrow> do {
         _ \<leftarrow> audit env headers (Some admin) (lit ''admin_invitation_revoked'')
                [(lit ''invitation_id'', e_uuid_str env invitation_id)];
         answer 204 ()
       }
   })"

section \<open>App tokens\<close>

text \<open>Deleted projects count as existing.\<close>

definition projects_all_exist :: "pid list \<Rightarrow> ('s store_scheme, bool) db" where
  "projects_all_exist ids =
     (if ids = [] then State_Monad.return (Inr True)
      else query (\<lambda>s. count_where (\<lambda>p. pj_id p \<in> set ids) (projects s) = length ids))"

definition unknown_project :: response where
  "unknown_project = problem 422 (lit ''unknown_project'') (Some (lit ''one or more project_ids do not exist''))"

record AppToken =
  tk_id :: nat
  tk_name :: ustr
  tk_prefix :: ustr
  tk_last4 :: ustr
  tk_permissions :: "Permission list"
  tk_project_ids :: "pid list"
  tk_created_by :: "uid option"
  tk_expires_at :: "int option"
  tk_revoked_at :: "int option"
  tk_last_used_at :: "int option"
  tk_created_at :: int

definition row_to_token :: "'s node_scheme \<Rightarrow> apptoken_row \<Rightarrow> DbError + AppToken" where
  "row_to_token s t =
     (case permissions_from_json (ak_permissions t) of
        None \<Rightarrow> Inl Unavailable
      | Some ps \<Rightarrow> Inr \<lparr>tk_id = ak_id t, tk_name = ak_name t, tk_prefix = ak_prefix t, tk_last4 = ak_last4 t,
          tk_permissions = ps, tk_project_ids = scope_of (ak_id t) s, tk_created_by = ak_created_by t,
          tk_expires_at = ak_expires_at t, tk_revoked_at = ak_revoked_at t, tk_last_used_at = ak_last_used_at t,
          tk_created_at = ak_created_at t\<rparr>)"

definition apptoken_list :: "('s node_scheme, AppToken list) db" where
  "apptoken_list = query_parsed (\<lambda>s. collect_results (map (row_to_token s) (rev (sort_key ak_created_at (app_tokens s)))))"

definition apptoken_get :: "nat \<Rightarrow> ('s node_scheme, AppToken option) db" where
  "apptoken_get i = query_parsed (\<lambda>s.
     case find_row (\<lambda>t. ak_id t = i) (app_tokens s) of
       None \<Rightarrow> Inr None
     | Some t \<Rightarrow> map_sum (\<lambda>e. e) Some (row_to_token s t))"

record CreateAppTokenRequest =
  ca_name :: ustr
  ca_permissions :: "Permission list"
  ca_project_ids :: "pid list"
  ca_expires_at :: "int option"

record UpdateAppTokenRequest =
  ua_name :: "ustr option"
  ua_permissions :: "Permission list option"
  ua_project_ids :: "pid list option"

definition valid_create_app_token :: "CreateAppTokenRequest \<Rightarrow> bool" where
  "valid_create_app_token r \<longleftrightarrow> len_between 1 128 (ca_name r)"

definition valid_update_app_token :: "UpdateAppTokenRequest \<Rightarrow> bool" where
  "valid_update_app_token r \<longleftrightarrow> opt_all (len_between 1 128) (ua_name r)"

text \<open>\<open>sort\<close> and \<open>dedup\<close>\<close>

definition sort_dedup :: "pid list \<Rightarrow> pid list" where
  "sort_dedup ids = remdups_adj (sort ids)"

definition in_known_projects ::
    "pid list \<Rightarrow> ('s store_scheme, response + 'a) state \<Rightarrow> ('s store_scheme, response + 'a) state" where
  "in_known_projects ids rest = do {
     known \<leftarrow> projects_all_exist ids;
     case known of Inl _ \<Rightarrow> refuse internal | Inr k \<Rightarrow> if k then rest else refuse unknown_project
   }"

definition create_app_token ::
    "env \<Rightarrow> HeaderMap \<Rightarrow> CreateAppTokenRequest json_body \<Rightarrow> uid \<Rightarrow> ('s store_scheme, AppToken \<times> ustr) handler" where
  "create_app_token env headers body admin =
     passing (parsed valid_create_app_token body) (\<lambda>req. with_client (
       in_known_projects (sort_dedup (ca_project_ids req)) (do {
         bytes \<leftarrow> draw_bytes;
         let minted = generate_app (e_sha256 env) bytes;
         r \<leftarrow> apptoken_create (ca_name req) (at_hash minted) (at_prefix minted) (at_last4 minted)
                (ca_permissions req) (Some admin) (ca_expires_at req) (sort_dedup (ca_project_ids req));
         case r of
           Inl _ \<Rightarrow> refuse internal
         | Inr i \<Rightarrow> do {
             got \<leftarrow> apptoken_get i;
             case got of
               Inr (Some token) \<Rightarrow> do {
                 _ \<leftarrow> audit env headers (Some admin) (lit ''admin_app_token_created'')
                        [(lit ''app_token_id'', e_uuid_str env i), (lit ''name'', ca_name req)];
                 answer 201 (token, at_raw minted)
               }
             | _ \<Rightarrow> refuse internal
           }
       })))"

definition list_app_tokens :: "uid \<Rightarrow> ('s store_scheme, AppToken list) handler" where
  "list_app_tokens admin = with_client (do {
     r \<leftarrow> apptoken_list;
     case r of Inl _ \<Rightarrow> refuse internal | Inr items \<Rightarrow> answer 200 items
   })"

definition get_app_token :: "nat \<Rightarrow> uid \<Rightarrow> ('s store_scheme, AppToken) handler" where
  "get_app_token i admin = with_client (do {
     r \<leftarrow> apptoken_get i;
     case r of Inl _ \<Rightarrow> refuse internal | Inr None \<Rightarrow> refuse not_found | Inr (Some t) \<Rightarrow> answer 200 t
   })"

definition update_app_token ::
    "env \<Rightarrow> HeaderMap \<Rightarrow> nat \<Rightarrow> UpdateAppTokenRequest json_body \<Rightarrow> uid \<Rightarrow> ('s store_scheme, AppToken) handler" where
  "update_app_token env headers i body admin =
     passing (parsed valid_update_app_token body) (\<lambda>req. with_client (
       let deduped = map_option sort_dedup (ua_project_ids req)
       in in_known_projects (unwrap_or deduped []) (do {
         r \<leftarrow> apptoken_update i (ua_name req) (ua_permissions req) deduped;
         case r of
           Inl _ \<Rightarrow> refuse internal
         | Inr False \<Rightarrow> refuse not_found
         | Inr True \<Rightarrow> do {
             got \<leftarrow> apptoken_get i;
             case got of
               Inr (Some token) \<Rightarrow> do {
                 _ \<leftarrow> audit env headers (Some admin) (lit ''admin_app_token_updated'')
                        [(lit ''app_token_id'', e_uuid_str env i)];
                 answer 200 token
               }
             | _ \<Rightarrow> refuse internal
           }
       })))"

definition revoke_app_token :: "env \<Rightarrow> HeaderMap \<Rightarrow> nat \<Rightarrow> uid \<Rightarrow> ('s store_scheme, unit) handler" where
  "revoke_app_token env headers i admin = with_client (do {
     r \<leftarrow> apptoken_revoke i;
     case r of
       Inl _ \<Rightarrow> refuse internal
     | Inr False \<Rightarrow> refuse not_found
     | Inr True \<Rightarrow> do {
         _ \<leftarrow> audit env headers (Some admin) (lit ''admin_app_token_revoked'')
                [(lit ''app_token_id'', e_uuid_str env i)];
         answer 204 ()
       }
   })"

section \<open>Sign-in switches\<close>

record UpdateSettingsRequest =
  us_open_registration :: bool
  us_local_password_login_disabled :: "bool option"

definition settings_of :: "'w world_scheme \<Rightarrow> bool \<times> bool" where
  "settings_of s = (open_registration s, local_password_login_disabled s)"

definition set_open_registration :: "bool \<Rightarrow> ('w world_scheme, bool \<times> bool) db" where
  "set_open_registration value = stmt (\<lambda>s.
     let t = s\<lparr>open_registration := value\<rparr> in (Inr (settings_of t), t))"

definition set_local_password_login_disabled :: "bool \<Rightarrow> ('w world_scheme, bool \<times> bool) db" where
  "set_local_password_login_disabled value = stmt (\<lambda>s.
     let t = s\<lparr>local_password_login_disabled := value\<rparr> in (Inr (settings_of t), t))"

definition get_settings :: "uid \<Rightarrow> ('s store_scheme, bool \<times> bool) handler" where
  "get_settings admin = with_client (do {
     r \<leftarrow> query settings_of;
     case r of Inl _ \<Rightarrow> refuse internal | Inr x \<Rightarrow> answer 200 x
   })"

definition update_settings ::
    "env \<Rightarrow> HeaderMap \<Rightarrow> UpdateSettingsRequest json_body \<Rightarrow> uid \<Rightarrow> ('s store_scheme, bool \<times> bool) handler" where
  "update_settings env headers body admin =
     passing (parse_json body) (\<lambda>req. with_client (do {
       first \<leftarrow> (case us_local_password_login_disabled req of
           None \<Rightarrow> State_Monad.return (Inr ())
         | Some disabled \<Rightarrow> do {
             r \<leftarrow> set_local_password_login_disabled disabled;
             State_Monad.return (case r of Inl _ \<Rightarrow> Inl internal | Inr _ \<Rightarrow> Inr ())
           });
       passing first (\<lambda>_. do {
         r \<leftarrow> set_open_registration (us_open_registration req);
         case r of
           Inl _ \<Rightarrow> refuse internal
         | Inr x \<Rightarrow> do {
             _ \<leftarrow> audit env headers (Some admin) (lit ''admin_settings_updated'')
                    [(lit ''open_registration'', json_bool (us_open_registration req))];
             answer 200 x
           }
       })
     }))"

end
