(* ===== verification/Project_Access.thy ===== *)
theory Project_Access
  imports Projects
begin

text \<open>
  What a project request may do. \<open>granted\<close> is the specification: a permission comes from the role of the
  caller's membership (the administrator role carries all of them), from the superadmin flag for the
  listed ones, or from an app token inside its scope.
\<close>

section \<open>Weakest preconditions of the handler shapes\<close>

lemma wp_refuse [wp_rules]: "wp (refuse r) Q s = Q (Inl r) s"
  by (simp add: refuse_def wp_return)

lemma wp_answer [wp_rules]: "wp (answer n x) Q s = Q (Inr (n, x)) s"
  by (simp add: answer_def wp_return)

lemma wp_with_client [wp_rules]:
  "wp (with_client m) Q s =
     (if faults s (calls s) then Q (Inl internal) (s\<lparr>calls := Suc (calls s)\<rparr>)
      else wp m Q (s\<lparr>calls := Suc (calls s)\<rparr>))"
  by (simp add: with_client_def wp_bind wp_pool_get wp_if wp_refuse)

lemma wp_passing [wp_rules]: "wp (passing r f) Q s = (case r of Inl e \<Rightarrow> Q (Inl e) s | Inr x \<Rightarrow> wp (f x) Q s)"
  by (simp add: passing_def wp_refuse split: sum.split)

lemma wp_query_parsed [wp_rules]:
  "wp (query_parsed f) Q s =
     (if faults s (calls s) then Q (Inl Unavailable) (s\<lparr>calls := Suc (calls s)\<rparr>)
      else Q (f (s\<lparr>calls := Suc (calls s)\<rparr>)) (s\<lparr>calls := Suc (calls s)\<rparr>))"
  by (simp add: query_parsed_def wp_stmt Let_def)

lemma member_join_calls [simp]:
  "member_join i u (s\<lparr>calls := c\<rparr>) = member_join i u s" "role_of (s\<lparr>calls := c\<rparr>) = role_of s"
  for s :: "'s store_scheme"
  by (simp_all add: member_join_def role_of_def fun_eq_iff)

section \<open>Who may do what\<close>

definition superadmin_row :: "uid \<Rightarrow> 'w world_scheme \<Rightarrow> bool" where
  "superadmin_row u s \<longleftrightarrow> any_row (\<lambda>r. has_id u r \<and> u_is_superadmin r \<and> u_is_active r \<and> live r) (users s)"

definition role_grants :: "role_row \<Rightarrow> Permission \<Rightarrow> bool" where
  "role_grants r perm \<longleftrightarrow>
     ro_is_admin r \<or> (\<exists>ps. permissions_from_json (ro_permissions r) = Some ps \<and> perm \<in> set ps)"

definition granted :: "pid \<Rightarrow> Caller \<Rightarrow> Permission \<Rightarrow> 's store_scheme \<Rightarrow> bool" where
  "granted i c perm s \<longleftrightarrow>
     (case c of
        User u \<Rightarrow> (superadmin_row u s \<and> is_superadmin_grant perm) \<or>
                  (\<exists>m r. member_join i u s = Some (m, r) \<and> role_grants r perm)
      | AppToken a \<Rightarrow> i \<in> set (aa_project_ids a) \<and> perm \<in> set (aa_permissions a))"

definition visible :: "pid \<Rightarrow> Caller \<Rightarrow> 's store_scheme \<Rightarrow> bool" where
  "visible i c s \<longleftrightarrow>
     (\<exists>p. find_row (is_project i) (projects s) = Some p \<and>
        (pr_visibility (row_to_project p) \<noteq> Private \<or>
         (case c of
            User u \<Rightarrow> member_join i u s \<noteq> None \<or> superadmin_row u s
          | AppToken a \<Rightarrow> i \<in> set (aa_project_ids a))))"

definition readable_role :: "pid \<Rightarrow> Caller \<Rightarrow> 's store_scheme \<Rightarrow> bool" where
  "readable_role i c s \<longleftrightarrow>
     (\<forall>u m r. c = User u \<and> member_join i u s = Some (m, r) \<longrightarrow> permissions_from_json (ro_permissions r) \<noteq> None)"

definition actor_of :: "Caller \<Rightarrow> uid" where
  "actor_of c = (case c of User u \<Rightarrow> u | AppToken _ \<Rightarrow> INTELLIBOT_USER_ID)"

definition context_fits :: "pid \<Rightarrow> Caller \<Rightarrow> ProjectContext \<Rightarrow> 's store_scheme \<Rightarrow> bool" where
  "context_fits i c ctx s \<longleftrightarrow>
     (\<exists>p. find_row (is_project i) (projects s) = Some p \<and> cx_project ctx = row_to_project p) \<and>
     cx_actor_id ctx = actor_of c \<and> (\<forall>perm. ctx_has ctx perm \<longrightarrow> granted i c perm s) \<and>
     (cx_is_superadmin ctx \<longrightarrow> (\<exists>u. c = User u \<and> superadmin_row u s)) \<and>
     (\<forall>u. c = User u \<longrightarrow> (cx_access ctx = None \<longleftrightarrow> member_join i u s = None))"

lemma is_project_pr_id: "find_row (is_project i) ps = Some p \<Longrightarrow> pr_id (row_to_project p) = i"
  using find_row_Some [of "is_project i" ps p] by (simp add: is_project_def row_to_project_def)

lemma access_of_grants:
  "access_of m r = Inr a \<Longrightarrow> access_has a perm \<longleftrightarrow> role_grants r perm"
  by (auto simp: access_of_def access_has_def role_grants_def split: option.splits)

lemma context_of_wp:
  "wp (context_of i c) (\<lambda>r t. \<forall>ctx. r = Inr ctx \<longrightarrow> context_fits i c ctx s) s"
proof -
  show ?thesis
  proof (cases c)
    case (User u)
    then show ?thesis
      by (auto simp: context_of_def wp_rules project_find_by_id_def user_context_def access_def
          is_active_superadmin_def context_fits_def actor_of_def is_project_pr_id superadmin_row_def
          ctx_has_def granted_def access_of_grants Let_def map_sum_def split: option.splits sum.splits prod.splits)
  next
    case (AppToken a)
    then show ?thesis
      by (auto simp: context_of_def wp_rules project_find_by_id_def token_context_def Let_def context_fits_def
          actor_of_def is_project_pr_id ctx_has_def access_has_def granted_def split: option.splits if_splits)
  qed
qed

lemma context_of_healthy:
  assumes "healthy s"
  shows "wp (context_of i c) (\<lambda>r t. (r = Inl not_found \<longleftrightarrow> \<not> visible i c s) \<and>
     (visible i c s \<and> readable_role i c s \<longrightarrow>
        (\<exists>ctx. r = Inr ctx \<and> (\<forall>perm. ctx_has ctx perm \<longleftrightarrow> granted i c perm s)))) s"
proof -
  have ok: "faults s k = False" for k using assms by (simp add: healthy_def)
  have differ: "internal \<noteq> not_found" "not_found \<noteq> internal" by (simp_all add: internal_def not_found_def problem_def)
  show ?thesis
  proof (cases c)
    case (User u)
    show ?thesis
    proof (cases "find_row (is_project i) (projects s)")
      case None
      then show ?thesis using User
        by (simp add: context_of_def wp_rules project_find_by_id_def visible_def ok)
    next
      case (Some p)
      note found = this
      show ?thesis
      proof (cases "member_join i u s")
        case None
        then show ?thesis using User found
          by (auto simp: context_of_def wp_rules project_find_by_id_def user_context_def access_def visible_def
              is_active_superadmin_def is_project_pr_id superadmin_row_def ctx_has_def granted_def Let_def ok)
      next
        case (Some mr)
        obtain m r where "mr = (m, r)" by fastforce
        with Some User found differ show ?thesis
          by (cases "access_of m r")
             (auto simp: context_of_def wp_rules project_find_by_id_def user_context_def access_def visible_def
              is_active_superadmin_def is_project_pr_id superadmin_row_def ctx_has_def granted_def Let_def ok
              access_of_grants readable_role_def access_of_def map_sum_def split: option.splits)
      qed
    qed
  next
    case (AppToken a)
    then show ?thesis
      by (auto simp: context_of_def wp_rules project_find_by_id_def token_context_def Let_def visible_def
          is_project_pr_id ctx_has_def access_has_def granted_def ok split: option.splits if_splits)
  qed
qed

section \<open>Authentication leaves the projects alone\<close>

definition same_access :: "'s store_scheme \<Rightarrow> 's store_scheme \<Rightarrow> bool" where
  "same_access s t \<longleftrightarrow>
     projects t = projects s \<and> roles t = roles s \<and> members t = members s \<and> faults t = faults s \<and>
     (\<forall>u. superadmin_row u t = superadmin_row u s)"

interpretation reading: evolution same_access
  by unfold_locales (auto simp: same_access_def)

lemma any_row_update: "any_row P (update_where Q f rows) = any_row (\<lambda>r. P (if Q r then f r else r)) rows"
  by (induction rows) (simp_all add: any_row_def)

lemma superadmin_row_seen:
  "superadmin_row u (upd_live j (\<lambda>u. u\<lparr>u_last_seen_at := z\<rparr>) s) = superadmin_row u s"
  by (auto simp: superadmin_row_def upd_live_def any_row_update has_id_def live_def fun_eq_iff
      intro!: arg_cong2 [where f = any_row])

lemma same_access_simps:
  "same_access s (s\<lparr>calls := c\<rparr>)" "same_access s (s\<lparr>ptokens := x\<rparr>)"
  "same_access s (store j st s)" "same_access s (s\<lparr>app_tokens := y\<rparr>)"
  "same_access s (upd_live j (\<lambda>u. u\<lparr>u_last_seen_at := z\<rparr>) s)"
  for s :: "'s store_scheme"
  by (simp_all add: same_access_def superadmin_row_seen) (simp_all add: superadmin_row_def store_def Let_def upd_live_def)

lemma keeps_stmt_reading: "(\<And>s. same_access s (snd (f s))) \<Longrightarrow> keeps same_access (stmt f)"
proof -
  assume f: "\<And>s. same_access s (snd (f s))"
  have "same_access s (snd (f (s\<lparr>calls := c\<rparr>)))" for s c
    using reading.R_trans [OF same_access_simps(1) f] .
  then show ?thesis by (simp add: keeps_wp wp_stmt Let_def same_access_simps case_prod_beta)
qed

lemma keeps_cheap:
  "keeps same_access get_now" "keeps same_access (reads g)" "keeps same_access (writes (store j x))"
  by (simp_all add: keeps_def get_now_def reads_def writes_def reading.R_refl same_access_simps)

lemma keeps_statements:
  "keeps same_access (query f)" "keeps same_access pool_get" "keeps same_access (touch_last_seen j)"
  "keeps same_access (ptoken_touch k)" "keeps same_access (apptoken_touch k)"
  "keeps same_access (apptoken_find_active_by_hash h)"
  by (auto simp: query_def pool_get_def touch_last_seen_def ptoken_touch_def
      apptoken_touch_def execute_def apptoken_find_active_by_hash_def reading.R_refl same_access_simps
      intro!: keeps_stmt_reading reading.keeps_bind reading.keeps_return split: option.splits)

lemma keeps_authenticate: "keeps same_access (authenticate env headers)"
  by (auto simp: authenticate_def personal_token_user_def access_token_user_def enforce_account_status_def
      presence_check_def ptoken_find_active_by_hash_def Let_def
      intro!: reading.keeps_rules keeps_cheap keeps_statements split: option.splits sum.splits)

lemma same_access_facts:
  assumes "same_access s t"
  shows "granted i c perm t = granted i c perm s" "visible i c t = visible i c s"
    "readable_role i c t = readable_role i c s" "context_fits i c ctx t = context_fits i c ctx s"
    "healthy t = healthy s"
  using assms
  by (auto simp: same_access_def granted_def visible_def readable_role_def context_fits_def member_join_def
      role_of_def healthy_def split: Caller.splits)

lemma project_context_wp:
  "wp (project_context env headers param) (\<lambda>r t. \<forall>ctx. r = Inr ctx \<longrightarrow>
     (\<exists>c i. caller_ok env headers c s \<and> Option.bind param (e_uuid_parse env) = Some i \<and> context_fits i c ctx s)) s"
proof -
  obtain r t where run: "run_state (authenticate env headers) s = (r, t)" by fastforce
  have same: "same_access s t" using keeps_authenticate [of env headers] run by (metis keeps_def snd_conv)
  show ?thesis
  proof (cases r)
    case (Inl e)
    then show ?thesis by (simp add: project_context_def wp_def run passing_def refuse_def)
  next
    case (Inr c)
    then have ok: "caller_ok env headers c s" using run by (simp add: caller_justified_library)
    show ?thesis
    proof (cases "Option.bind param (e_uuid_parse env)")
      case None
      with Inr show ?thesis by (simp add: project_context_def wp_def run passing_def refuse_def)
    next
      case (Some i)
      have "wp (context_of i c) (\<lambda>r u. \<forall>ctx. r = Inr ctx \<longrightarrow> context_fits i c ctx s) t"
        using context_of_wp [of i c t] by (simp add: same_access_facts [OF same])
      then have "wp (context_of i c) (\<lambda>r u. \<forall>ctx. r = Inr ctx \<longrightarrow>
          (\<exists>c j. caller_ok env headers c s \<and> Some i = Some j \<and> context_fits j c ctx s)) t"
        by (rule wp_mono) (use ok in blast)
      with Inr Some show ?thesis by (simp add: project_context_def wp_def run passing_def)
    qed
  qed
qed

text \<open>
  C7: Whatever fails, a project request gets a context only for an existing project and an authenticated
  caller, and no permission in it that the caller does not hold: by the stored role of the
  membership, by the superadmin flag for reading and managing members, or by an app token within
  its projects.
\<close>

theorem project_access_justified:
  assumes "run_state (project_context env headers param) s = (Inr ctx, t)"
  shows "\<exists>c i. caller_ok env headers c s \<and> Option.bind param (e_uuid_parse env) = Some i \<and> context_fits i c ctx s"
  using wpI [OF assms project_context_wp] by blast

definition role_row_of :: "nat \<Rightarrow> pid \<Rightarrow> ustr \<Rightarrow> bool \<Rightarrow> Permission list \<Rightarrow> role_row" where
  "role_row_of rid i slug adm ps = \<lparr>ro_id = rid, ro_project_id = i, ro_slug = slug, ro_name = slug, ro_order = 0,
     ro_is_admin = adm, ro_permissions = permissions_to_json ps\<rparr>"

definition member_row_of :: "nat \<Rightarrow> pid \<Rightarrow> uid \<Rightarrow> nat \<Rightarrow> member_row" where
  "member_row_of k i u rid = \<lparr>mb_id = k, mb_project_id = i, mb_user_id = u, mb_role_id = rid, mb_invited_by = None,
     mb_created_at = 0\<rparr>"

definition project_row_of :: "pid \<Rightarrow> Visibility \<Rightarrow> project_row" where
  "project_row_of i v = \<lparr>pj_id = i, pj_slug = [], pj_name = [], pj_description = [], pj_owner_id = 7,
     pj_visibility = Visibility_as_str v, pj_issue_prefix = [], pj_color = [], pj_kanban_enabled = True,
     pj_backlog_enabled = True, pj_wiki_enabled = True, pj_epics_enabled = True, pj_in_progress_status_ids = [],
     pj_created_at = 0, pj_deleted_at = None\<rparr>"

text \<open>Project 5 with the administrator 7 and the plain member 8.\<close>

definition demo_store :: store where
  "demo_store = node.extend (demo_node\<lparr>users := [demo_user 7, demo_user 8], app_tokens := [demo_apptoken],
       app_token_projects := [(3, 5)], next_id := 100\<rparr>)
     \<lparr>projects = [project_row_of 5 Private],
      roles = [role_row_of 10 5 (lit ''admin'') True [], role_row_of 11 5 (lit ''dev'') False [IssueView]],
      members = [member_row_of 20 5 7 10, member_row_of 21 5 8 11],
      invites = [], taxonomy = [], boards = [], prefix_history = []\<rparr>"

lemma demo_store_fields [simp]:
  "users demo_store = [demo_user 7, demo_user 8]" "app_tokens demo_store = [demo_apptoken]"
  "app_token_projects demo_store = [(3, 5)]" "projects demo_store = [project_row_of 5 Private]"
  "roles demo_store = [role_row_of 10 5 (lit ''admin'') True [], role_row_of 11 5 (lit ''dev'') False [IssueView]]"
  "members demo_store = [member_row_of 20 5 7 10, member_row_of 21 5 8 11]" "invites demo_store = []"
  "faults demo_store = (\<lambda>_. False)" "calls demo_store = 0" "next_id demo_store = 100"
  "healthy demo_store"
  by (simp_all add: demo_store_def node.extend_def demo_node_def world.extend_def demo_world_def empty_world_def
      healthy_def)

text \<open>
  C11: A project exists for a caller exactly when it is not private, the caller is a member or a
  superadmin, or the app token is scoped to it: anyone else gets the answer an absent project gets.
  Whoever sees it holds exactly the granted permissions.
\<close>

theorem hidden_like_absent:
  assumes "healthy s" and "run_state (context_of i c) s = (r, t)"
  shows "(r = Inl not_found \<longleftrightarrow> \<not> visible i c s) \<and>
    (\<not> visible i c s \<longrightarrow> r = fst (run_state (context_of i c) (s\<lparr>projects := delete_where (is_project i) (projects s)\<rparr>))) \<and>
    (visible i c s \<and> readable_role i c s \<longrightarrow>
       (\<exists>ctx. r = Inr ctx \<and> (\<forall>perm. ctx_has ctx perm \<longleftrightarrow> granted i c perm s)))"
proof -
  note exact = wpI [OF assms(2) context_of_healthy [OF assms(1)]]
  let ?s = "s\<lparr>projects := delete_where (is_project i) (projects s)\<rparr>"
  have "healthy ?s" using assms(1) by (simp add: healthy_def)
  moreover have "\<not> visible i c ?s"
    by (auto simp: visible_def delete_where_def dest!: find_row_Some)
  ultimately have "fst (run_state (context_of i c) ?s) = Inl not_found"
    using context_of_healthy [of ?s i c] by (simp add: wp_def case_prod_beta)
  with exact show ?thesis by simp
qed

lemmas demo_join_simps = member_join_def role_of_def find_row_def is_member_def member_row_of_def role_row_of_def

lemma demo_project [simp]: "is_project i (project_row_of j v) \<longleftrightarrow> i = j"
  by (auto simp: is_project_def project_row_of_def)

lemma demo_visibility: "pr_visibility (row_to_project (project_row_of 5 Private)) = Private"
  by (simp add: row_to_project_def project_row_of_def unwrap_or_def Visibility_parse_def)

lemma demo_superadmin: "\<not> superadmin_row u demo_store"
  by (simp add: superadmin_row_def any_row_def demo_user_def default_user_def)

lemma hidden_like_absent_witness:
  "fst (run_state (context_of 5 (User 9)) demo_store) = Inl not_found \<and>
   (\<exists>ctx. fst (run_state (context_of 5 (User 8)) demo_store) = Inr ctx \<and>
      ctx_has ctx IssueView \<and> \<not> ctx_has ctx ProjectDelete)"
proof -
  note exact = hidden_like_absent [OF _ prod.collapse [symmetric], of demo_store 5]
  have "\<not> visible 5 (User 9) demo_store"
    by (simp add: visible_def demo_visibility demo_superadmin demo_join_simps)
  moreover have join: "member_join 5 8 demo_store =
      Some (member_row_of 21 5 8 11, role_row_of 11 5 (lit ''dev'') False [IssueView])"
    by (simp add: demo_join_simps)
  then have "visible 5 (User 8) demo_store" "readable_role 5 (User 8) demo_store"
    by (simp_all add: visible_def find_row_def readable_role_def role_row_of_def)
  moreover have "granted 5 (User 8) IssueView demo_store" "\<not> granted 5 (User 8) ProjectDelete demo_store"
    by (simp_all add: granted_def join role_grants_def role_row_of_def demo_superadmin)
  ultimately show ?thesis using exact [of "User 9"] exact [of "User 8"] by auto
qed

lemma project_access_justified_witness:
  "\<exists>ctx c i. fst (run_state (project_context demo_env demo_caller (Some [5])) demo_store) = Inr ctx \<and>
     caller_ok demo_env demo_caller c demo_store \<and> i = 5 \<and> context_fits i c ctx demo_store"
proof -
  have pre: "\<not> starts_with PERSONAL_PREFIX (lit ''ipat_k'')" "starts_with PREFIX (lit ''ipat_k'')"
    by (simp_all add: PERSONAL_PREFIX_def PREFIX_def text_defs)
  have "wp (project_context demo_env demo_caller (Some [5])) (\<lambda>r t. \<exists>ctx. r = Inr ctx) demo_store"
    by (simp add: project_context_def authenticate_def demo_bearer pre wp_rules wp_stmt Let_def
        apptoken_find_active_by_hash_def find_row_def active_apptoken_def demo_apptoken_def demo_env_def
        permissions_from_json.simps scope_of_def apptoken_touch_def context_of_def project_find_by_id_def
        is_project_def project_row_of_def token_context_def row_to_project_def)
  then obtain ctx t where run: "run_state (project_context demo_env demo_caller (Some [5])) demo_store = (Inr ctx, t)"
    by (cases "run_state (project_context demo_env demo_caller (Some [5])) demo_store") (auto simp: wp_def)
  have parse: "Option.bind (Some [5]) (e_uuid_parse demo_env) = Some 5" by (simp add: demo_env_def)
  from project_access_justified [OF run] run parse show ?thesis by auto
qed

end
