(* ===== verification/Project_Admins.thy ===== *)
theory Project_Admins
  imports Project_Access
begin

text \<open>
  Requests that manage a project: the context, then the handler. Two facts about any of them: without the
  permission it needs it does nothing, and while the database answers no sequence of them takes a project's
  last administrator (the roster contract of \<open>Sticky\<close>, interpreted on the membership table).

  Accepting an invitation is not such a request: see \<open>invitation_demotes_last_admin\<close>; and a lookup
  that fails skips the guard: see \<open>guard_fails_open\<close>.
\<close>

section \<open>Requests\<close>

datatype project_act =
    UpdateProject "UpdateProjectRequest json_body"
  | DeleteProject
  | CreateRole "CreateRoleRequest json_body"
  | UpdateRole "ustr option" "UpdateRoleRequest json_body"
  | DeleteRole "ustr option"
  | AddMember "AddMemberRequest json_body"
  | JoinProject "ustr json_body"
  | ChangeMemberRole "ustr option" "ustr json_body"
  | RemoveMember "ustr option"
  | Invite "InviteRequest json_body"

text \<open>The status alone: the payloads differ.\<close>

definition status_of :: "('s, 'a) handler \<Rightarrow> ('s, response + nat) state" where
  "status_of h = do { r \<leftarrow> h; State_Monad.return (map_sum (\<lambda>e. e) fst r) }"

definition run_act :: "env \<Rightarrow> HeaderMap \<Rightarrow> project_act \<Rightarrow> ProjectContext \<Rightarrow> ('s store_scheme, response + nat) state" where
  "run_act env h act ctx =
     (case act of
        UpdateProject body \<Rightarrow> status_of (update_project ctx body)
      | DeleteProject \<Rightarrow> status_of (delete_project env h ctx)
      | CreateRole body \<Rightarrow> status_of (create_role ctx body)
      | UpdateRole param body \<Rightarrow> status_of (update_role env h ctx param body)
      | DeleteRole param \<Rightarrow> status_of (delete_role env ctx param)
      | AddMember body \<Rightarrow> status_of (add_member env h ctx body)
      | JoinProject body \<Rightarrow> status_of (join_project env h ctx body)
      | ChangeMemberRole param body \<Rightarrow> status_of (change_member_role env h ctx param body)
      | RemoveMember param \<Rightarrow> status_of (remove_member env h ctx param)
      | Invite body \<Rightarrow> status_of (invite env h ctx body))"

definition request :: "env \<Rightarrow> HeaderMap \<Rightarrow> pid \<Rightarrow> Caller \<Rightarrow> project_act \<Rightarrow> ('s store_scheme, response + nat) state" where
  "request env h i c act = do { r \<leftarrow> context_of i c; passing r (run_act env h act) }"

text \<open>What each request needs.\<close>

definition may :: "env \<Rightarrow> pid \<Rightarrow> Caller \<Rightarrow> project_act \<Rightarrow> 's store_scheme \<Rightarrow> bool" where
  "may env i c act s \<longleftrightarrow>
     (case act of
        UpdateProject _ \<Rightarrow> granted i c ProjectModify s
      | DeleteProject \<Rightarrow> granted i c ProjectDelete s
      | CreateRole _ \<Rightarrow> granted i c RoleCreate s
      | UpdateRole _ _ \<Rightarrow> granted i c RoleModify s
      | DeleteRole _ \<Rightarrow> granted i c RoleDelete s
      | AddMember _ \<Rightarrow> granted i c MemberAdd s
      | JoinProject _ \<Rightarrow> (\<exists>u. c = User u \<and> superadmin_row u s \<and> member_join i u s = None)
      | ChangeMemberRole _ _ \<Rightarrow> granted i c MemberModifyRole s
      | RemoveMember param \<Rightarrow>
          granted i c MemberRemove s \<or> Option.bind param (e_uuid_parse env) = Some (actor_of c)
      | Invite _ \<Rightarrow> granted i c MemberAdd s)"

lemma wp_status_of: "wp (status_of h) Q s = wp h (\<lambda>r. Q (map_sum (\<lambda>e. e) fst r)) s"
  by (simp add: status_of_def wp_bind wp_return_fun)

text \<open>Only the count of database calls moves.\<close>

definition untouched :: "'s base_scheme \<Rightarrow> 's base_scheme \<Rightarrow> bool" where
  "untouched s t \<longleftrightarrow> (\<exists>n. t = s\<lparr>calls := n\<rparr>)"

lemma untouched_refl [simp]: "untouched s s"
proof -
  have "s = s\<lparr>calls := calls s\<rparr>" by simp
  then show ?thesis unfolding untouched_def by blast
qed

lemma untouched_calls [simp]: "untouched s (s\<lparr>calls := n\<rparr>)"
  by (auto simp: untouched_def)

interpretation idle: evolution untouched
  by unfold_locales (auto simp: untouched_def)

lemma keeps_untouched: "keeps untouched (query f)" "keeps untouched (query_parsed g)" "keeps untouched pool_get"
  by (auto simp: keeps_wp wp_query wp_query_parsed wp_pool_get)

lemma context_of_untouched: "keeps untouched (context_of i c)"
  by (auto simp: context_of_def with_client_def refuse_def project_find_by_id_def user_context_def access_def
      is_active_superadmin_def Let_def intro!: idle.keeps_rules keeps_untouched
      split: option.splits sum.splits Caller.splits)

lemma run_act_forbidden:
  assumes "context_fits i c ctx s" and "\<not> may env i c act s"
  shows "wp (run_act env h act ctx) (\<lambda>r u. u = t \<and> (\<exists>e. r = Inl e \<and> e \<in> {forbidden, not_found, conflict ''user is already a member''})) t"
proof -
  have "ctx_require ctx p = Inl forbidden" if "\<not> granted i c p s" for p
    using assms(1) that by (auto simp: context_fits_def ctx_require_def)
  moreover have "\<not> cx_is_superadmin ctx \<or> cx_access ctx \<noteq> None" if "\<not> (\<exists>u. c = User u \<and> superadmin_row u s \<and> member_join i u s = None)"
    using assms(1) that by (auto simp: context_fits_def)
  moreover have "cx_actor_id ctx = actor_of c" using assms(1) by (simp add: context_fits_def)
  ultimately show ?thesis
    using assms(2)
    by (cases act) (auto simp: run_act_def may_def wp_status_of update_project_def delete_project_def create_role_def
        update_role_def delete_role_def add_member_def join_project_def change_member_role_def remove_member_def
        invite_def wp_passing wp_refuse split: option.splits)
qed

lemma request_inert:
  assumes "\<not> may env i c act s"
  shows "wp (request env h i c act) (\<lambda>r t. untouched s t \<and>
    (\<exists>e. r = Inl e \<and> e \<in> {forbidden, not_found, internal, conflict ''user is already a member''})) s"
proof -
  have refusals: "wp (context_of i c) (\<lambda>r t. \<forall>e. r = Inl e \<longrightarrow> e \<in> {not_found, internal}) s"
    by (auto simp: context_of_def wp_rules project_find_by_id_def user_context_def access_def
        is_active_superadmin_def token_context_def Let_def split: option.splits sum.splits Caller.splits)
  show ?thesis
    unfolding request_def wp_bind
  proof (rule wp_mono [OF wp_conj [OF wp_conj [OF context_of_wp wp_keeps [OF context_of_untouched]] refusals]])
    fix r t
    assume *: "((\<forall>ctx. r = Inr ctx \<longrightarrow> context_fits i c ctx s) \<and> untouched s t) \<and>
      (\<forall>e. r = Inl e \<longrightarrow> e \<in> {not_found, internal})"
    show "wp (passing r (run_act env h act)) (\<lambda>r t. untouched s t \<and>
        (\<exists>e. r = Inl e \<and> e \<in> {forbidden, not_found, internal, conflict ''user is already a member''})) t"
    proof (cases r)
      case (Inr ctx)
      then show ?thesis
        using * by (auto simp: wp_passing intro!: wp_mono [OF run_act_forbidden [OF _ assms]])
    qed (use * in \<open>auto simp: wp_passing\<close>)
  qed
qed

text \<open>
  C12: A request without the permission it needs does nothing, whatever it asks for and whatever fails:
  no table changes, nothing is logged, and the answer is a refusal.
\<close>

theorem ungranted_request_inert:
  assumes "\<not> may env i c act s" and "run_state (request env h i c act) s = (r, t)"
  shows "(\<exists>n. t = s\<lparr>calls := n\<rparr>) \<and>
    (\<exists>e. r = Inl e \<and> e \<in> {forbidden, not_found, internal, conflict ''user is already a member''})"
  using wpI [OF assms(2) request_inert [OF assms(1)]] by (simp add: untouched_def)

lemma ungranted_request_inert_witness:
  "fst (run_state (request demo_env [] 5 (User 8) (RemoveMember (Some [7]))) demo_store)
     \<in> Inl ` {forbidden, not_found, internal, conflict ''user is already a member''}"
proof -
  have "member_join 5 8 demo_store = Some (member_row_of 21 5 8 11, role_row_of 11 5 (lit ''dev'') False [IssueView])"
    by (simp add: demo_join_simps)
  then have "\<not> may demo_env 5 (User 8) (RemoveMember (Some [7])) demo_store"
    by (simp add: may_def granted_def role_grants_def role_row_of_def demo_superadmin actor_of_def demo_env_def)
  from ungranted_request_inert [OF this prod.collapse [symmetric]] show ?thesis by fastforce
qed

section \<open>The administrators of a project\<close>

definition admins :: "pid \<Rightarrow> 's store_scheme \<Rightarrow> uid set" where
  "admins i s = mb_user_id ` {m \<in> set (members s). holds_admin i s m}"

definition member_key :: "member_row \<Rightarrow> pid \<times> uid" where
  "member_key m = (mb_project_id m, mb_user_id m)"

text \<open>The constraints of the schema, and stored permission lists that parse.\<close>

definition roster_ok :: "'s store_scheme \<Rightarrow> bool" where
  "roster_ok s \<longleftrightarrow> healthy s \<and> keyed ro_id (roles s) \<and> keyed member_key (members s) \<and>
     (\<forall>r\<in>set (roles s). ro_id r < next_id s \<and> permissions_from_json (ro_permissions r) \<noteq> None)"

definition admin_role :: "nat \<Rightarrow> 's store_scheme \<Rightarrow> bool" where
  "admin_role rid s \<longleftrightarrow> (\<exists>r\<in>set (roles s). ro_id r = rid \<and> ro_is_admin r)"

lemma role_of_keyed:
  "keyed ro_id (roles s) \<Longrightarrow> role_of s m = Some r \<longleftrightarrow> r \<in> set (roles s) \<and> ro_id r = mb_role_id m"
  using find_row_key [of ro_id "roles s" r] by (auto simp: role_of_def dest: find_row_Some)

lemma holds_admin_iff:
  "keyed ro_id (roles s) \<Longrightarrow> holds_admin i s m \<longleftrightarrow> mb_project_id m = i \<and> admin_role (mb_role_id m) s"
proof -
  assume k: "keyed ro_id (roles s)"
  note row = role_of_keyed [OF k, of m]
  show ?thesis
  proof (cases "role_of s m")
    case None
    then show ?thesis using row by (auto simp: holds_admin_def admin_role_def)
  next
    case (Some r)
    then have "admin_role (mb_role_id m) s \<longleftrightarrow> ro_is_admin r" using row unfolding admin_role_def by (metis option.inject)
    then show ?thesis using Some by (simp add: holds_admin_def)
  qed
qed

lemma admins_iff:
  "keyed ro_id (roles s) \<Longrightarrow> u \<in> admins i s \<longleftrightarrow>
     (\<exists>m\<in>set (members s). mb_project_id m = i \<and> mb_user_id m = u \<and> admin_role (mb_role_id m) s)"
  by (auto simp: admins_def holds_admin_iff)

text \<open>The administrators of \<open>i\<close> but those in \<open>T\<close> stay.\<close>

definition roster_step :: "pid \<Rightarrow> uid set \<Rightarrow> 's store_scheme \<Rightarrow> 's store_scheme \<Rightarrow> bool" where
  "roster_step i T s t \<longleftrightarrow> (roster_ok s \<longrightarrow> roster_ok t \<and> admins i s - T \<subseteq> admins i t)"

interpretation roster: evolution "roster_step i T" for i T
  by unfold_locales (auto simp: roster_step_def)

lemma roster_stepI:
  assumes "roster_ok s \<Longrightarrow> roster_ok t"
    and "\<And>u m. \<lbrakk>roster_ok s; m \<in> set (members s); mb_project_id m = i; mb_user_id m = u; u \<notin> T; admin_role (mb_role_id m) s\<rbrakk>
      \<Longrightarrow> \<exists>m'\<in>set (members t). mb_project_id m' = i \<and> mb_user_id m' = u \<and> admin_role (mb_role_id m') t"
  shows "roster_step i T s t"
proof -
  have "keyed ro_id (roles x)" if "roster_ok x" for x :: "'a store_scheme" using that by (simp add: roster_ok_def)
  then show ?thesis using assms by (fastforce simp: roster_step_def admins_iff)
qed

lemma roster_same:
  assumes "members t = members s" and "roles t = roles s" and "faults t = faults s" and "next_id s \<le> next_id t"
  shows "roster_step i T s t"
  using assms by (intro roster_stepI) (auto simp: roster_ok_def healthy_def admin_role_def intro: less_le_trans)

lemma roster_stmt: "(\<And>s. roster_step i T s (snd (f s))) \<Longrightarrow> keeps (roster_step i T) (stmt f)"
proof -
  assume f: "\<And>s. roster_step i T s (snd (f s))"
  have calls: "roster_step i T s (s\<lparr>calls := c\<rparr>)" for s :: "'a store_scheme" and c by (rule roster_same) simp_all
  have "roster_step i T s (snd (f (s\<lparr>calls := c\<rparr>)))" for s c
    using roster.R_trans [OF calls f] .
  then show ?thesis using calls by (simp add: keeps_wp wp_stmt Let_def case_prod_beta)
qed

lemma roster_reads:
  "keeps (roster_step i T) (query f)" "keeps (roster_step i T) (query_parsed g)" "keeps (roster_step i T) pool_get"
  "keeps (roster_step i T) get_now" "keeps (roster_step i T) draw_bytes"
  by (auto simp: keeps_wp wp_query wp_query_parsed wp_pool_get wp_get_now wp_draw_bytes intro!: roster_same)

lemma roster_plain:
  "keeps (roster_step i T) (audit env h a act meta)"
  "keeps (roster_step i T) (project_update j upd)" "keeps (roster_step i T) (project_soft_delete j)"
  "keeps (roster_step i T) (record_prefix_history j x)"
  "keeps (roster_step i T) (invite_create env j em rid th ib ex)"
  by (auto simp: audit_def audit_record_def project_update_def project_soft_delete_def record_prefix_history_def
      invite_create_def execute_def intro!: roster_stmt roster.keeps_ignore roster_same split: option.splits)

lemma role_edit_simps [simp]:
  "ro_id (role_edit n p r) = ro_id r" "ro_is_admin (role_edit n p r) = ro_is_admin r"
  "ro_project_id (role_edit n p r) = ro_project_id r" "ro_slug (role_edit n p r) = ro_slug r"
  by (simp_all add: role_edit_def)

lemma role_edit_parses:
  "permissions_from_json (ro_permissions r) \<noteq> None \<Longrightarrow> permissions_from_json (ro_permissions (role_edit n p r)) \<noteq> None"
  by (cases p) (simp_all add: role_edit_def unwrap_or_def)

lemma roster_new_role:
  "roster_step i T s (s\<lparr>roles := roles s @ [\<lparr>ro_id = next_id s, ro_project_id = j, ro_slug = slug, ro_name = name,
     ro_order = ord, ro_is_admin = False, ro_permissions = permissions_to_json ps\<rparr>], next_id := Suc (next_id s)\<rparr>)"
  by (rule roster_stepI) (auto simp: roster_ok_def healthy_def keyed_snoc admin_role_def less_SucI)

lemma roster_edit_role:
  "roster_step i T s (s\<lparr>roles := update_where (plain_role j rid) (role_edit n p) (roles s)\<rparr>)"
proof (rule roster_stepI)
  show "roster_ok s \<Longrightarrow> roster_ok (s\<lparr>roles := update_where (plain_role j rid) (role_edit n p) (roles s)\<rparr>)"
    using role_edit_parses
    by (auto simp: roster_ok_def healthy_def set_update_where intro!: keyed_update_where)
qed (auto simp: admin_role_def set_update_where plain_role_def)

lemma roster_drop_role:
  "\<not> any_row (\<lambda>m. mb_role_id m = rid) (members s) \<Longrightarrow>
     roster_step i T s (s\<lparr>roles := delete_where (plain_role j rid) (roles s), invites := vs\<rparr>)"
  by (rule roster_stepI) (auto simp: roster_ok_def healthy_def set_delete_where keyed_delete_where admin_role_def
      plain_role_def)

lemma roster_roles:
  "keeps (roster_step i T) (role_create j slug name ord ps)"
  "keeps (roster_step i T) (update_permissions j rid n p)"
  "keeps (roster_step i T) (role_delete j rid)"
  by (auto simp: role_create_def update_permissions_def role_delete_def Let_def roster.R_refl roster_new_role
      roster_edit_role roster_drop_role intro!: roster_stmt)

text \<open>The three statements on memberships touch one member; a new membership touches none.\<close>

lemma roster_edit_member:
  "(j = i \<Longrightarrow> u \<in> T) \<Longrightarrow> roster_step i T s
     (s\<lparr>members := update_where (is_member j u) (\<lambda>m. m\<lparr>mb_role_id := rid\<rparr>) (members s)\<rparr>)"
proof (rule roster_stepI)
  assume "roster_ok s"
  then show "roster_ok (s\<lparr>members := update_where (is_member j u) (\<lambda>m. m\<lparr>mb_role_id := rid\<rparr>) (members s)\<rparr>)"
    by (auto simp: roster_ok_def healthy_def member_key_def intro!: keyed_update_where)
qed (auto simp: admin_role_def set_update_where is_member_def)

lemma roster_drop_member:
  "(j = i \<Longrightarrow> u \<in> T) \<Longrightarrow> roster_step i T s (s\<lparr>members := delete_where (is_member j u) (members s)\<rparr>)"
  by (rule roster_stepI) (auto simp: roster_ok_def healthy_def keyed_delete_where admin_role_def set_delete_where
      is_member_def)

lemma roster_new_member:
  "find_row (is_member j u) (members s) = None \<Longrightarrow>
     roster_step i T s (s\<lparr>members := members s @ [\<lparr>mb_id = next_id s, mb_project_id = j,
      mb_user_id = u, mb_role_id = rid, mb_invited_by = w, mb_created_at = x\<rparr>], next_id := Suc (next_id s)\<rparr>)"
  by (rule roster_stepI) (auto simp: roster_ok_def healthy_def keyed_snoc member_key_def find_row_None is_member_def
      admin_role_def less_SucI)

lemma roster_members:
  assumes "j = i \<Longrightarrow> u \<in> T"
  shows "keeps (roster_step i T) (upsert j u rid by_whom)" "keeps (roster_step i T) (change_role j u rid)"
    "keeps (roster_step i T) (member_remove j u)"
  using assms
  by (auto simp: upsert_def change_role_def member_remove_def execute_def roster.R_refl roster_new_member
      roster_edit_member roster_drop_member intro!: roster_stmt split: option.splits)

section \<open>Handlers and the roster\<close>

lemma wp_bind_untouched:
  assumes "keeps untouched m" and "\<And>a t. untouched s t \<Longrightarrow> wp (f a) Q t"
  shows "wp (State_Monad.bind m f) Q s"
  unfolding wp_bind by (rule wp_mono [OF wp_keeps [OF assms(1)]]) (rule assms(2))

lemma untouched_facts:
  assumes "untouched s t"
  shows "roster_ok t = roster_ok s" "admins i t = admins i s" "member_join i u t = member_join i u s"
    "roster_step i T s t" "members t = members s" "roles t = roles s" "context_fits i c ctx t = context_fits i c ctx s"
proof -
  have "same_access s t" using assms by (auto simp: untouched_def same_access_simps)
  then show "context_fits i c ctx t = context_fits i c ctx s" by (rule same_access_facts)
qed (use assms in \<open>auto simp: untouched_def roster_ok_def healthy_def admins_def holds_admin_def roster_same\<close>)

text \<open>Without faults the lookup of a membership is exact.\<close>

lemma access_exact:
  assumes "roster_ok s"
  shows "wp (access i u) (\<lambda>r t. untouched s t \<and>
     (case member_join i u s of
        None \<Rightarrow> r = Inr None
      | Some (m, q) \<Rightarrow> \<exists>a. r = Inr (Some a) \<and> ma_is_admin a = ro_is_admin q)) s"
proof -
  have "faults s k = False" for k using assms by (simp add: roster_ok_def healthy_def)
  moreover have "\<exists>a. access_of m q = Inr a \<and> ma_is_admin a = ro_is_admin q" if "member_join i u s = Some (m, q)" for m q
  proof -
    have "q \<in> set (roles s)"
      using that by (auto simp: member_join_def role_of_def bind_eq_Some_conv dest: find_row_Some)
    then show ?thesis using assms by (auto simp: access_of_def roster_ok_def split: option.splits)
  qed
  ultimately show ?thesis
    by (cases "member_join i u s") (fastforce simp: access_def wp_query_parsed)+
qed

text \<open>The membership of an administrator, as the lookups see it.\<close>

lemma admin_join:
  assumes "roster_ok s" and "u \<in> admins i s"
  obtains m q where "m \<in> set (members s)" "is_member i u m" "member_join i u s = Some (m, q)" "ro_is_admin q"
proof -
  have keys: "keyed ro_id (roles s)" "keyed member_key (members s)" using assms(1) by (simp_all add: roster_ok_def)
  obtain m where m: "m \<in> set (members s)" "mb_project_id m = i" "mb_user_id m = u" "admin_role (mb_role_id m) s"
    using assms(2) unfolding admins_iff [OF keys(1)] by blast
  obtain q where q: "q \<in> set (roles s)" "ro_id q = mb_role_id m" "ro_is_admin q" using m by (auto simp: admin_role_def)
  obtain m' where m': "find_row (is_member i u) (members s) = Some m'"
    using m find_row_None [of "is_member i u" "members s"]
    by (cases "find_row (is_member i u) (members s)") (auto simp: is_member_def)
  then have "m' = m"
    using find_row_Some [OF m'] m keyed_unique [OF keys(2), of m' m] by (simp add: is_member_def member_key_def)
  then show thesis
    using that [of m q] m m' q role_of_keyed [OF keys(1), of m q] by (simp add: member_join_def is_member_def)
qed

lemma last_admin_count:
  assumes "roster_ok s" and "admins i s = {u}"
  shows "count_where (holds_admin i s) (members s) \<le> 1"
proof -
  have "keyed member_key (filter (holds_admin i s) (members s))"
    using assms(1) by (simp add: roster_ok_def keyed_def distinct_map_filter)
  moreover have "member_key m = (i, u)" if "m \<in> set (filter (holds_admin i s) (members s))" for m
    using that assms(2) by (auto simp: admins_def holds_admin_def member_key_def)
  ultimately show ?thesis
    by (cases "filter (holds_admin i s) (members s)" rule: list.exhaust;
        cases "tl (filter (holds_admin i s) (members s))") (auto simp: count_where_def keyed_def)
qed

lemma last_admin_guard_exact:
  assumes "roster_ok s" and "admins i s = {u}"
  shows "wp (last_admin_guard i u k) (\<lambda>b t. untouched s t \<and> b = (\<not> k)) s"
proof -
  obtain m q where mq: "member_join i u s = Some (m, q)" "ro_is_admin q"
    using admin_join [OF assms(1)] assms(2) by (metis singletonI)
  show ?thesis
    unfolding last_admin_guard_def wp_bind
  proof (rule wp_mono [OF access_exact [OF assms(1)]])
    fix r t
    assume "untouched s t \<and> (case member_join i u s of None \<Rightarrow> r = Inr None
      | Some (m, q) \<Rightarrow> \<exists>a. r = Inr (Some a) \<and> ma_is_admin a = ro_is_admin q)"
    then obtain a where t: "untouched s t" and r: "r = Inr (Some a)" "ma_is_admin a" using mq by auto
    have t_ok: "roster_ok t" "admins i t = {u}" using assms by (simp_all add: untouched_facts [OF t])
    have "holds_admin i (t\<lparr>calls := c\<rparr>) = holds_admin i t" for c by (simp add: holds_admin_def fun_eq_iff)
    moreover have "untouched s (t\<lparr>calls := c\<rparr>)" for c by (rule idle.R_trans [OF t]) simp
    ultimately show "wp (case r of Inl _ \<Rightarrow> State_Monad.return False | Inr None \<Rightarrow> State_Monad.return False
        | Inr (Some a) \<Rightarrow> if ma_is_admin a \<and> \<not> k then do { n \<leftarrow> admin_count i; State_Monad.return (ok_or n 0 \<le> 1) }
            else State_Monad.return False) (\<lambda>b t. untouched s t \<and> b = (\<not> k)) t"
      using r t last_admin_count [OF t_ok] t_ok(1)
      by (auto simp: admin_count_def wp_rules roster_ok_def healthy_def)
  qed
qed

section \<open>Each handler and the roster\<close>

lemma upsert_new_member:
  assumes "member_join j u s = None"
  shows "wp (upsert j u rid by_whom) (\<lambda>_ t. roster_step i {} s t) s"
proof (cases "j = i")
  case True
  have "wp (upsert j u rid by_whom) (\<lambda>_ t. roster_step i {u} s t) s"
    by (intro wp_keeps roster_members) simp
  moreover have "roster_step i {} s t" if "roster_step i {u} s t" for t
  proof -
    have "u \<notin> admins i s" if "roster_ok s"
    proof
      assume "u \<in> admins i s"
      with that obtain m q where "member_join i u s = Some (m, q)" by (rule admin_join)
      with assms True show False by simp
    qed
    with that show ?thesis by (auto simp: roster_step_def)
  qed
  ultimately show ?thesis by (rule wp_mono)
qed (intro wp_keeps roster_members, simp)

text \<open>A step from a state reached by reads alone, and the rest of the handler.\<close>

lemma roster_after:
  assumes "untouched s t" and "wp m (\<lambda>_ u. roster_step i T t u) t" and "\<And>a. keeps (roster_step i T) (f a)"
  shows "wp (State_Monad.bind m f) (\<lambda>_ u. roster_step i T s u) t"
  unfolding wp_bind
proof (rule wp_mono [OF assms(2)])
  fix a u
  assume "roster_step i T t u"
  with untouched_facts(4) [OF assms(1)] have "roster_step i T s u" by (rule roster.R_trans)
  then show "wp (f a) (\<lambda>_ v. roster_step i T s v) u"
    by (intro wp_mono [OF wp_keeps [OF assms(3)]]) (rule roster.R_trans)
qed

lemmas roster_keeps = roster.keeps_rules roster_reads roster_plain roster_roles roster_members

lemmas handler_shapes = with_client_def passing_def refuse_def answer_def status_of_def with_role_def

lemma keeps_shapes:
  "(\<And>x. keeps (roster_step i T) (f x)) \<Longrightarrow> keeps (roster_step i T) (passing r f)"
  "keeps (roster_step i T) m \<Longrightarrow> keeps (roster_step i T) (with_client m)"
  "(\<And>x. keeps (roster_step i T) (g x)) \<Longrightarrow> keeps (roster_step i T) (with_role j slug g)"
  "keeps (roster_step i T) (refuse e)" "keeps (roster_step i T) (answer n y)"
  by (auto simp: handler_shapes role_find_by_slug_def intro!: roster_keeps split: sum.splits option.splits)

lemma roster_project_acts:
  "keeps (roster_step i T) (update_project ctx b1)" "keeps (roster_step i T) (delete_project env h ctx)"
  "keeps (roster_step i T) (create_role ctx b2)" "keeps (roster_step i T) (update_role env h ctx param b3)"
  "keeps (roster_step i T) (delete_role env ctx param)" "keeps (roster_step i T) (invite env h ctx b4)"
  by (auto simp: update_project_def delete_project_def create_role_def update_role_def delete_role_def invite_def
      prefix_exists_def Let_def intro!: keeps_shapes roster_keeps split: sum.splits option.splits bool.splits DbError.splits)

lemma guard_reads: "keeps untouched (last_admin_guard j u k)" "keeps untouched (access j u)"
  by (auto simp: last_admin_guard_def access_def admin_count_def intro!: idle.keeps_rules keeps_untouched
      split: sum.splits option.splits)

lemma keeps_untouched_roster: "keeps untouched m \<Longrightarrow> keeps (roster_step i T) m"
  using untouched_facts(4) by (fastforce simp: keeps_def)

lemma roster_targeted_acts:
  assumes "\<And>u. pr_id (cx_project ctx) = i \<Longrightarrow> Option.bind param (e_uuid_parse env) = Some u \<Longrightarrow> u \<in> T"
  shows "keeps (roster_step i T) (change_member_role env h ctx param body)"
    "keeps (roster_step i T) (remove_member env h ctx param)"
  using assms
  by (auto simp: change_member_role_def remove_member_def intro!: keeps_shapes roster_keeps
      keeps_untouched_roster [OF guard_reads(1)] split: sum.splits option.splits bool.splits)

text \<open>
  What holds at the end of a handler whose decisive statement follows reads from the state \<open>s\<close>.
\<close>

definition ends :: "'s store_scheme \<Rightarrow> ('s store_scheme \<Rightarrow> bool) \<Rightarrow> ('s store_scheme, 'a) state \<Rightarrow> bool" where
  "ends s Q m \<longleftrightarrow> (\<forall>t. untouched s t \<longrightarrow> Q t \<and> wp m (\<lambda>_. Q) t)"

lemma ends_read:
  assumes "keeps untouched m" and "\<And>a. ends s Q (f a)"
  shows "ends s Q (State_Monad.bind m f)"
  unfolding ends_def
proof (intro allI impI conjI)
  fix t
  assume "untouched s t"
  then show "wp (State_Monad.bind m f) (\<lambda>_. Q) t" "Q t"
    using assms(2) by (auto simp: ends_def intro!: wp_bind_untouched assms(1) intro: idle.R_trans)
qed

lemma ends_shapes:
  assumes "\<And>t. untouched s t \<Longrightarrow> Q t"
  shows "ends s Q (refuse e)" "ends s Q (answer n y)"
    "ends s Q m \<Longrightarrow> ends s Q (with_client m)"
    "(\<And>x. r = Inr x \<Longrightarrow> ends s Q (f x)) \<Longrightarrow> ends s Q (passing r f)"
    "(\<And>role. ends s Q (g role)) \<Longrightarrow> ends s Q (with_role j slug g)"
proof -
  show leaves: "ends s Q (refuse e)" "ends s Q (answer n y)" for e n y
    using assms by (simp_all add: ends_def wp_rules)
  show "ends s Q m \<Longrightarrow> ends s Q (with_client m)"
    by (auto simp: with_client_def leaves intro!: ends_read keeps_untouched)
  show "(\<And>x. r = Inr x \<Longrightarrow> ends s Q (f x)) \<Longrightarrow> ends s Q (passing r f)"
    by (cases r) (auto simp: passing_def leaves)
  show "(\<And>role. ends s Q (g role)) \<Longrightarrow> ends s Q (with_role j slug g)"
    by (auto simp: with_role_def leaves role_find_by_slug_def intro!: ends_read keeps_untouched
        split: sum.splits option.splits)
qed

definition adds :: "pid \<Rightarrow> 's store_scheme \<Rightarrow> ('s store_scheme, 'a) state \<Rightarrow> bool" where
  "adds i s = ends s (roster_step i {} s)"

lemma adds_shapes:
  "adds i s (refuse e)" "adds i s (answer n y)"
  "adds i s m \<Longrightarrow> adds i s (with_client m)"
  "(\<And>x. r = Inr x \<Longrightarrow> adds i s (f x)) \<Longrightarrow> adds i s (passing r f)"
  "(\<And>role. adds i s (g role)) \<Longrightarrow> adds i s (with_role j slug g)"
  unfolding adds_def by (rule ends_shapes; simp add: untouched_facts)+

lemma adds_read: "keeps untouched m \<Longrightarrow> (\<And>a. adds i s (f a)) \<Longrightarrow> adds i s (State_Monad.bind m f)"
  unfolding adds_def by (rule ends_read)

lemma adds_upsert:
  assumes "member_join j u s = None" and "\<And>a. keeps (roster_step i {}) (f a)"
  shows "adds i s (State_Monad.bind (upsert j u rid w) f)"
  using assms by (auto simp: adds_def ends_def intro!: roster_after upsert_new_member simp: untouched_facts)

lemma join_adds:
  assumes "cx_is_superadmin ctx \<and> cx_access ctx = None \<longrightarrow> member_join (pr_id (cx_project ctx)) (cx_actor_id ctx) s = None"
  shows "adds i s (join_project env h ctx body)"
  using assms
  by (auto simp: join_project_def intro!: adds_shapes adds_upsert keeps_shapes roster_keeps split: sum.splits)

lemma member_adds:
  assumes "roster_ok s"
  shows "adds i s (add_member env h ctx body)"
proof -
  have lookups: "keeps untouched l" if "member_lookup env req = Some l" for req :: AddMemberRequest
      and l :: "('a store_scheme, user_row option) db"
    using that by (auto simp: member_lookup_def find_by_id_def find_active_by_identifier_def
        intro!: keeps_untouched split: option.splits if_splits)
  have checked: "adds i s (do { acc \<leftarrow> access j u; if ok_or acc None \<noteq> None then refuse e else f })"
    if "member_join j u s = None \<Longrightarrow> adds i s f" for j u e and f :: "('a store_scheme, response + (nat \<times> 'b)) state"
    unfolding adds_def ends_def wp_bind
  proof (intro allI impI conjI, simp add: untouched_facts, rule wp_mono [OF access_exact])
    fix t r v
    assume t: "untouched s t"
    show "roster_ok t" using assms by (simp add: untouched_facts [OF t])
    assume "untouched t v \<and> (case member_join j u t of None \<Rightarrow> r = Inr None
      | Some (m, q) \<Rightarrow> \<exists>a. r = Inr (Some a) \<and> ma_is_admin a = ro_is_admin q)"
    then have v: "untouched s v" "member_join j u s = None \<or> (\<exists>a. r = Inr (Some a))"
      using t idle.R_trans [OF t, of v] by (auto simp: untouched_facts [OF t] split: option.splits)
    then show "wp (if ok_or r None \<noteq> None then refuse e else f) (\<lambda>_ u. roster_step i {} s u) v"
      using that adds_shapes(1) [of i s e] by (auto simp: adds_def ends_def)
  qed
  show ?thesis
    by (auto simp: add_member_def simp del: not_None_eq intro!: adds_shapes checked adds_upsert keeps_shapes roster_keeps
        adds_read [OF lookups] split: option.splits sum.splits)
qed

section \<open>The last administrator\<close>

text \<open>Whom a request may strip of the administrator role.\<close>

definition act_target :: "env \<Rightarrow> project_act \<Rightarrow> uid option" where
  "act_target env act =
     (case act of
        ChangeMemberRole param _ \<Rightarrow> Option.bind param (e_uuid_parse env)
      | RemoveMember param \<Rightarrow> Option.bind param (e_uuid_parse env)
      | _ \<Rightarrow> None)"

lemma status_of_roster: "keeps (roster_step i T) m \<Longrightarrow> keeps (roster_step i T) (status_of m)"
  by (auto simp: status_of_def intro!: roster.keeps_bind roster.keeps_return)

lemma wp_act_step:
  assumes ok: "roster_ok s" and fits: "context_fits j c ctx s"
    and target: "\<And>u. j = i \<Longrightarrow> act_target env act = Some u \<Longrightarrow> u \<in> T"
  shows "wp (run_act env h act ctx) (\<lambda>_ t. roster_step i T s t) s"
proof -
  obtain p where "find_row (is_project j) (projects s) = Some p" "cx_project ctx = row_to_project p"
    using fits by (auto simp: context_fits_def)
  then have at: "pr_id (cx_project ctx) = j" by (simp add: is_project_pr_id)
  then have joins: "cx_is_superadmin ctx \<and> cx_access ctx = None \<longrightarrow> member_join (pr_id (cx_project ctx)) (cx_actor_id ctx) s = None"
    using fits by (auto simp: context_fits_def actor_of_def)
  have weaker: "wp m (\<lambda>_ t. roster_step i T s t) s" if "adds i s m" for m :: "('a store_scheme, 'b) state"
    by (rule wp_mono [of m "\<lambda>_ t. roster_step i {} s t"]) (use that in \<open>simp add: adds_def ends_def\<close>, auto simp: roster_step_def)
  show ?thesis
  proof (cases act)
    case (AddMember body)
    then show ?thesis using weaker [OF member_adds [OF ok, of i env h ctx body]] by (simp add: run_act_def wp_status_of)
  next
    case (JoinProject body)
    then show ?thesis using weaker [OF join_adds [OF joins, of i env h body]] by (simp add: run_act_def wp_status_of)
  next
    case (ChangeMemberRole param body)
    then show ?thesis using target at
      by (auto simp: run_act_def act_target_def wp_status_of intro!: wp_keeps roster_targeted_acts)
  next
    case (RemoveMember param)
    then show ?thesis using target at
      by (auto simp: run_act_def act_target_def wp_status_of intro!: wp_keeps roster_targeted_acts)
  qed (auto simp: run_act_def wp_status_of intro!: wp_keeps roster_project_acts)
qed

text \<open>The last administrator is spared by the guard, or keeps an administrator role.\<close>

lemma change_role_keeps:
  assumes "roster_ok s" and "u \<in> admins i s" and "admin_role rid s"
  shows "wp (change_role i u rid) (\<lambda>_ t. roster_ok t \<and> u \<in> admins i t) s"
proof -
  have "wp (change_role i u rid) (\<lambda>_ t. roster_step i {u} s t) s"
    by (intro wp_keeps roster_members) simp
  moreover have "wp (change_role i u rid) (\<lambda>_ t. roster_ok t \<longrightarrow> u \<in> admins i t) s"
  proof -
    have keys: "keyed ro_id (roles s)" using assms(1) by (simp add: roster_ok_def)
    obtain m q where m: "m \<in> set (members s)" "is_member i u m" using admin_join [OF assms(1,2)] .
    have "u \<in> admins i (s\<lparr>calls := c, members := update_where (is_member i u) (\<lambda>m. m\<lparr>mb_role_id := rid\<rparr>) (members s)\<rparr>)"
      (is "u \<in> admins i (?t c)") for c
    proof -
      have row: "m\<lparr>mb_role_id := rid\<rparr> \<in> set (members (?t c))" using m by (auto simp: set_update_where)
      have "admin_role rid (?t c)" using assms(3) by (simp add: admin_role_def)
      moreover have unique: "keyed ro_id (roles (?t c))" using keys by simp
      ultimately show ?thesis
        unfolding admins_iff [OF unique] by (intro bexI [OF _ row]) (use m(2) in \<open>simp add: is_member_def [of i u m]\<close>)
    qed
    moreover have "u \<in> admins i (s\<lparr>calls := c\<rparr>)" for c using assms(2) untouched_facts(2) [OF untouched_calls] by blast
    ultimately show ?thesis by (simp add: change_role_def wp_stmt Let_def)
  qed
  ultimately have "wp (change_role i u rid) (\<lambda>_ t. roster_step i {u} s t \<and> (roster_ok t \<longrightarrow> u \<in> admins i t)) s"
    by (rule wp_conj)
  then show ?thesis by (rule wp_mono) (use assms(1) in \<open>simp add: roster_step_def\<close>)
qed

lemma ends_with_role:
  assumes "\<And>t. untouched s t \<Longrightarrow> Q t"
    and "\<And>role. (rl_is_admin role \<Longrightarrow> admin_role (rl_id role) s) \<Longrightarrow> ends s Q (g role)"
  shows "ends s Q (with_role j slug g)"
  unfolding ends_def
proof (intro allI impI conjI)
  fix t
  assume t: "untouched s t"
  show "Q t" by (rule assms(1) [OF t])
  have later: "untouched s (t\<lparr>calls := c\<rparr>)" for c by (rule idle.R_trans [OF t]) simp
  have row: "rl_is_admin role \<Longrightarrow> admin_role (rl_id role) s"
    if "role_option (find_row P (roles t)) = Inr (Some role)" for P role
    using that untouched_facts(6) [OF t]
    by (auto simp: role_option_def row_to_role_def map_sum_def admin_role_def split: option.splits sum.splits dest: find_row_Some)
  have branch: "wp (g role) (\<lambda>_. Q) (t\<lparr>calls := c\<rparr>)" if "role_option (find_row P (roles t)) = Inr (Some role)" for P role c
    using assms(2) [OF row [OF that]] later [of c] by (auto simp: ends_def)
  show "wp (with_role j slug g) (\<lambda>_. Q) t"
    by (auto simp: with_role_def wp_rules role_find_by_slug_def assms(1) later branch split: sum.splits option.splits)
qed

lemma last_admin_stays:
  assumes ok: "roster_ok s" and last: "admins i s = {u}" and at: "pr_id (cx_project ctx) = i"
    and param: "Option.bind param (e_uuid_parse env) = Some u"
  shows "ends s (\<lambda>t. admins i t \<noteq> {}) (change_member_role env h ctx param body)"
    "ends s (\<lambda>t. admins i t \<noteq> {}) (remove_member env h ctx param)"
proof -
  let ?Q = "\<lambda>t. admins i t \<noteq> {}"
  have idle: "?Q t" if "untouched s t" for t using last by (simp add: untouched_facts [OF that])
  have guarded: "ends s ?Q (do { b \<leftarrow> last_admin_guard i u k; if b then refuse e else f })"
    if "k \<Longrightarrow> ends s ?Q f" for k e and f :: "('a store_scheme, response + (nat \<times> 'b)) state"
    unfolding ends_def wp_bind
  proof (intro allI impI conjI, simp add: idle, rule wp_mono [OF last_admin_guard_exact])
    fix t b v
    assume t: "untouched s t"
    show "roster_ok t" "admins i t = {u}" using ok last by (simp_all add: untouched_facts [OF t])
    assume "untouched t v \<and> b = (\<not> k)"
    then show "wp (if b then refuse e else f) (\<lambda>_. ?Q) v"
      using idle.R_trans [OF t, of v] that idle by (auto simp: ends_def wp_refuse)
  qed
  have stays: "wp m (\<lambda>_. ?Q) t" if "keeps (roster_step i {}) m" "roster_ok t" "u \<in> admins i t" for m :: "('a store_scheme, 'b) state" and t
    by (rule wp_mono [OF wp_keeps [OF that(1)]]) (use that in \<open>auto simp: roster_step_def\<close>)
  have changed: "ends s ?Q (State_Monad.bind (change_role i u rid) f)"
    if "admin_role rid s" "\<And>a. keeps (roster_step i {}) (f a)" for rid and f :: "DbError + bool \<Rightarrow> ('a store_scheme, 'b) state"
    unfolding ends_def wp_bind
  proof (intro allI impI conjI, simp add: idle, rule wp_mono [OF change_role_keeps])
    fix t
    assume t: "untouched s t"
    show "roster_ok t" "u \<in> admins i t" "admin_role rid t"
      using ok last that(1) by (simp_all add: untouched_facts [OF t] admin_role_def)
  qed (use that stays in auto)
  have strict: "ends s ?Q (do { b \<leftarrow> last_admin_guard i u False; if b then refuse e else f })"
    for e and f :: "('a store_scheme, response + (nat \<times> 'b)) state"
    by (rule guarded) simp
  show "ends s ?Q (change_member_role env h ctx param body)"
    by (auto simp: change_member_role_def at param intro!: ends_shapes(1,3,4) idle ends_with_role guarded changed
        keeps_shapes roster_keeps split: sum.splits bool.splits)
  show "ends s ?Q (remove_member env h ctx param)"
    unfolding remove_member_def at param option.case by (intro ends_shapes(3,4) idle strict)
qed

lemma wp_last_kept:
  assumes "roster_ok s" and "admins i s = {u}" and "act_target env act = Some u" and "context_fits i c ctx s"
  shows "wp (run_act env h act ctx) (\<lambda>_ t. admins i t \<noteq> {}) s"
proof -
  have "pr_id (cx_project ctx) = i" using assms(4) by (auto simp: context_fits_def is_project_pr_id)
  from last_admin_stays [OF assms(1,2) this] show ?thesis
    using assms(3) by (cases act) (simp_all add: act_target_def run_act_def wp_status_of ends_def)
qed

lemma wp_request:
  assumes "\<And>t. untouched s t \<Longrightarrow> Q t"
    and "\<And>ctx t. untouched s t \<Longrightarrow> context_fits j c ctx t \<Longrightarrow> wp (run_act env h act ctx) (\<lambda>_. Q) t"
  shows "wp (request env h j c act) (\<lambda>_. Q) s"
  unfolding request_def wp_bind
proof (rule wp_mono [OF wp_conj [OF context_of_wp wp_keeps [OF context_of_untouched]]])
  fix r :: "response + ProjectContext" and t
  assume "(\<forall>ctx. r = Inr ctx \<longrightarrow> context_fits j c ctx s) \<and> untouched s t"
  then show "wp (passing r (run_act env h act)) (\<lambda>_. Q) t"
    using assms by (cases r) (auto simp: wp_passing untouched_facts)
qed

lemma request_step:
  assumes "roster_ok s" and "\<And>u. j = i \<Longrightarrow> act_target env act = Some u \<Longrightarrow> u \<in> T"
  shows "wp (request env h j c act) (\<lambda>_ t. roster_step i T s t) s"
proof (rule wp_request)
  fix ctx t
  assume t: "untouched s t" and fits: "context_fits j c ctx t"
  have "roster_ok t" using assms(1) by (simp add: untouched_facts [OF t])
  then have "wp (run_act env h act ctx) (\<lambda>_ u. roster_step i T t u) t"
    by (rule wp_act_step [OF _ fits]) (rule assms(2))
  then show "wp (run_act env h act ctx) (\<lambda>_ u. roster_step i T s u) t"
    by (rule wp_mono) (rule roster.R_trans [OF untouched_facts(4) [OF t]])
qed (rule untouched_facts(4))

lemma request_last_kept:
  assumes "roster_ok s" and "admins i s = {u}" and "act_target env act = Some u"
  shows "wp (request env h i c act) (\<lambda>_ t. admins i t \<noteq> {}) s"
proof (rule wp_request)
  fix ctx t
  assume t: "untouched s t" and fits: "context_fits i c ctx t"
  show "wp (run_act env h act ctx) (\<lambda>_ t. admins i t \<noteq> {}) t"
    by (rule wp_last_kept [OF _ _ assms(3) fits]) (use assms in \<open>simp_all add: untouched_facts [OF t]\<close>)
qed (use assms in \<open>simp add: untouched_facts\<close>)

text \<open>A request of a project, by anyone, and the environment it runs in.\<close>

type_synonym project_request = "HeaderMap \<times> pid \<times> Caller \<times> project_act"

definition apply_request :: "env \<Rightarrow> project_request \<Rightarrow> 's store_scheme \<Rightarrow> 's store_scheme" where
  "apply_request env q s = (case q of (h, j, c, act) \<Rightarrow> snd (run_state (request env h j c act) s))"

definition request_target :: "env \<Rightarrow> project_request \<Rightarrow> uid" where
  "request_target env q = (case q of (h, j, c, act) \<Rightarrow> (case act_target env act of None \<Rightarrow> 0 | Some u \<Rightarrow> u))"

lemma apply_request_step:
  assumes "roster_ok s" and "\<And>u. j = i \<Longrightarrow> act_target env act = Some u \<Longrightarrow> u \<in> T"
  shows "roster_step i T s (apply_request env (h, j, c, act) s)"
  using request_step [OF assms, where h = h and c = c] by (simp add: apply_request_def wp_def case_prod_beta)

interpretation project_admins: roster_guard roster_ok "admins i" "apply_request env" "request_target env" for i env
proof
  fix s :: "'s store_scheme" and q :: project_request
  obtain h j c act where q: "q = (h, j, c, act)" by (cases q)
  assume ok: "roster_ok s"
  note step = apply_request_step [OF ok, where j = j and i = i and env = env and act = act and h = h and c = c, folded q]
  show "roster_ok (apply_request env q s)" using step [of UNIV] ok by (simp add: roster_step_def)
  fix u
  show "u \<in> admins i (apply_request env q s)" if "u \<in> admins i s" "u \<noteq> request_target env q"
    using step [of "{request_target env q}"] that ok by (auto simp: roster_step_def request_target_def q)
next
  fix s :: "'s store_scheme" and q :: project_request
  obtain h j c act where q: "q = (h, j, c, act)" by (cases q)
  assume ok: "roster_ok s" and last: "admins i s = {request_target env q}"
  show "admins i (apply_request env q s) \<noteq> {}"
  proof (cases "j = i \<and> act_target env act \<noteq> None")
    case True
    then have "act_target env act = Some (request_target env q)" "j = i" by (auto simp: request_target_def q)
    then show ?thesis using request_last_kept [OF ok last, of env act h c]
      by (simp add: apply_request_def q wp_def case_prod_beta)
  next
    case False
    then have "roster_step i {} s (apply_request env q s)"
      unfolding q by (intro apply_request_step [OF ok]) auto
    then show ?thesis using ok last by (auto simp: roster_step_def)
  qed
qed

text \<open>
  C2: While the database answers, no sequence of requests of the project's own management, whoever sends them,
  leaves a project without an administrator: a project with one keeps one, and an administrator nobody demotes
  or removes stays one. Two things are outside and break it: accepting an invitation
  (\<open>invitation_demotes_last_admin\<close>) and a failing lookup (\<open>guard_fails_open\<close>).
\<close>

theorem project_keeps_admin:
  assumes "roster_ok s" and "admins i s \<noteq> {}"
  shows "admins i (fold (apply_request env) qs s) \<noteq> {} \<and>
    (\<forall>u\<in>admins i s. (\<forall>q\<in>set qs. u \<noteq> request_target env q) \<longrightarrow> u \<in> admins i (fold (apply_request env) qs s))"
  using project_admins.run_never_empty [OF assms] project_admins.untargeted_stays [OF assms(1)] by blast

lemma demo_roster: "roster_ok demo_store" "admins 5 demo_store = {7}"
proof -
  show "roster_ok demo_store"
    by (simp add: roster_ok_def keyed_def role_row_of_def member_row_of_def member_key_def)
  then show "admins 5 demo_store = {7}"
    by (auto simp: admins_iff roster_ok_def admin_role_def role_row_of_def member_row_of_def)
qed

lemma project_keeps_admin_witness:
  "admins 5 (fold (apply_request demo_env)
     [([], 5, User 7, RemoveMember (Some [7])), ([], 5, User 7, ChangeMemberRole (Some [7]) (Json (lit ''dev'')))]
     demo_store) \<noteq> {}"
  by (rule conjunct1 [OF project_keeps_admin]) (simp_all add: demo_roster)

section \<open>Two ways around the guard\<close>

text \<open>
  Accepting an invitation sets the role of an existing member without the guard: the last
  administrator who opens a link meant for someone else (the e-mail address is not compared) is
  demoted, and the project has no administrator left.
\<close>

definition invited_store :: "ustr \<Rightarrow> store" where
  "invited_store token = demo_store\<lparr>invites := [\<lparr>iv_id = 30, iv_project_id = 5, iv_email = [99], iv_role_id = 11,
     iv_token_hash = hash_token (e_sha256 demo_env) token, iv_invited_by = Some 7, iv_expires_at = 2000,
     iv_accepted_at = None, iv_created_at = 0\<rparr>]\<rparr>"

lemma demo_more [simp]: "db_now demo_store = 1000"
  by (simp add: demo_store_def node.extend_def demo_node_def world.extend_def demo_world_def empty_world_def)

lemma invitation_demotes_last_admin:
  "wp (accept_invitation demo_env [] 7 (Json (lit ''t''))) (\<lambda>r t. r = Inr (200, 5) \<and> admins 5 t = {})
     (invited_store (lit ''t''))"
  by (simp add: accept_invitation_def parse_body_def valid_accept_def len_between_def lit_def utf8_len_def wp_rules wp_stmt Let_def
      invite_find_pending_def find_row_def invited_store_def open_invite_def invite_mark_accepted_def affected_def
      count_where_def upsert_def is_member_def member_row_of_def role_row_of_def any_row_def
      admins_def holds_admin_def role_of_def)

text \<open>A fault of the lookup inside the guard lets the demotion pass.\<close>

definition demo_ctx :: ProjectContext where
  "demo_ctx = \<lparr>cx_project = row_to_project (project_row_of 5 Private), cx_actor_id = 7,
     cx_access = Some \<lparr>ma_membership_id = 20, ma_role_id = 10, ma_role_slug = lit ''admin'', ma_is_admin = True,
       ma_permissions = []\<rparr>, cx_is_superadmin = False\<rparr>"

lemma guard_fails_open:
  "wp (remove_member demo_env [] demo_ctx (Some [7])) (\<lambda>r t. r = Inr (204, ()) \<and> admins 5 t = {})
     (demo_store\<lparr>faults := (\<lambda>k. k = 1)\<rparr>)"
  by (simp add: remove_member_def demo_env_def demo_ctx_def wp_rules wp_stmt Let_def last_admin_guard_def access_def
      member_remove_def affected_def count_where_def is_member_def member_row_of_def row_to_project_def project_row_of_def
      admins_def delete_where_def holds_admin_def role_of_def role_row_of_def find_row_def)

end
