(* ===== verification/Admin_Correct.thy ===== *)
theory Admin_Correct
  imports Admin Project_Admins
begin

text \<open>
  What the administration pages guarantee. \<open>standing\<close> is what none of their requests undoes: a usable
  superadmin remains, and any but the account aimed at keeps that standing (the roster contract of
  \<open>Sticky\<close> on the superadmins, lifted from the statements to whole requests with their sign-in).
\<close>

section \<open>The superadmins under any request\<close>

definition accounts_ok :: "'w world_scheme \<Rightarrow> bool" where
  "accounts_ok s \<longleftrightarrow> user_ids_ok s \<and> (\<forall>u\<in>set (users s). u_id u < next_id s)"

definition standing :: "uid \<Rightarrow> 'w world_scheme \<Rightarrow> 'w world_scheme \<Rightarrow> bool" where
  "standing i s t \<longleftrightarrow> (accounts_ok s \<longrightarrow>
     accounts_ok t \<and> (superadmin_ids s \<noteq> {} \<longrightarrow> superadmin_ids t \<noteq> {}) \<and> superadmin_ids s - {i} \<subseteq> superadmin_ids t)"

interpretation standing: evolution "standing i" for i
  by unfold_locales (auto simp: standing_def)

lemma standing_same:
  "users t = users s \<Longrightarrow> next_id s \<le> next_id t \<Longrightarrow> standing i s t"
  by (auto simp: standing_def accounts_ok_def user_ids_ok_def superadmin_ids_def intro: less_le_trans)

lemma standing_stmt: "(\<And>s. standing i s (snd (f s))) \<Longrightarrow> keeps (standing i) (stmt f)"
proof -
  assume f: "\<And>s. standing i s (snd (f s))"
  have calls: "standing i s (s\<lparr>calls := c\<rparr>)" for s :: "'a world_scheme" and c by (rule standing_same) simp_all
  have "standing i s (snd (f (s\<lparr>calls := c\<rparr>)))" for s c using standing.R_trans [OF calls f] .
  then show ?thesis using calls by (simp add: keeps_wp wp_stmt Let_def case_prod_beta)
qed

lemma standing_upd:
  assumes "users t = update_where P f (users s)" and "next_id t = next_id s"
    and "\<And>u. u_id (f u) = u_id u" and "\<And>u. active_superadmin u \<Longrightarrow> active_superadmin (f u)"
  shows "standing i s t"
proof -
  have "superadmin_ids s \<subseteq> superadmin_ids t" by (rule superadmin_ids_kept [OF assms(1,3,4)])
  moreover have "accounts_ok s \<Longrightarrow> accounts_ok t"
    using assms(1-3) user_ids_ok_update [OF _ assms(3,1)] by (auto simp: accounts_ok_def set_update_where)
  ultimately show ?thesis by (auto simp: standing_def)
qed

lemma standing_admin: "standing (admin_target op) s (apply_admin op s)"
proof -
  have same_ids: "next_id (apply_admin op s) = next_id s"
    by (cases op) (simp_all add: admin_defs upd_user_def upd_live_def split: option.split)
  obtain P f where step: "users (apply_admin op s) = update_where P f (users s)" "\<And>u. u_id (f u) = u_id u"
    using apply_admin_one_row [of op s] unfolding one_row_def by blast
  show ?thesis
    using superadmins.valid_kept [of s op] superadmins.never_empty [of s op] superadmins.others_kept [of s _ op] step same_ids
    by (auto simp: standing_def accounts_ok_def set_update_where)
qed

lemma standing_admin_ops:
  "keeps (standing i) (set_superadmin i v)" "keeps (standing i) (set_active i v)"
  "keeps (standing i) (set_exclude_from_time_reports i v)" "keeps (standing i) (set_banned i v actor r)"
  "keeps (standing i) (soft_delete_guarded i g)"
  unfolding keeps_def
  by (metis standing_admin admin_target.simps apply_admin.simps)+

lemma standing_live:
  "(\<And>u. u_id (f u) = u_id u) \<Longrightarrow> (\<And>u. active_superadmin u \<Longrightarrow> active_superadmin (f u)) \<Longrightarrow> standing i s (upd_live j f s)"
  by (rule standing_upd [of _ "\<lambda>u. has_id j u \<and> live u" f]) (simp_all add: upd_live_def)

lemma standing_new_user:
  "standing i s (s\<lparr>users := users s @ [row\<lparr>u_id := next_id s, u_created_at := x\<rparr>], next_id := Suc (next_id s)\<rparr>)"
  by (auto simp: standing_def accounts_ok_def user_ids_ok_def keyed_snoc superadmin_ids_def less_SucI)

lemma standing_reads:
  "keeps (standing i) (query f)" "keeps (standing i) (query_parsed g)" "keeps (standing i) pool_get"
  "keeps (standing i) get_now" "keeps (standing i) draw_bytes"
  by (auto simp: keeps_wp wp_query wp_query_parsed wp_pool_get wp_get_now wp_draw_bytes intro!: standing_same)

lemma standing_users:
  "keeps (standing i) (insert_user new)" "keeps (standing i) (touch_last_seen j)"
  "keeps (standing i) (update_full_name j name)" "keeps (standing i) (disable_totp j)"
  by (auto simp: insert_user_def touch_last_seen_def update_full_name_def disable_totp_def execute_def Let_def
      standing_new_user standing.R_refl active_superadmin_def intro!: standing_stmt standing_live)

lemma standing_plain:
  "keeps (standing i) (audit env h a act meta)"
  "keeps (standing i) (reset_create j th x)"
  "keeps (standing i) (passkeys_delete_all j)" "keeps (standing i) (delete_all_for_user j)"
  "keeps (standing i) (revoke_all_for_user_counted j why)" "keeps (standing i) (pinvite_create env em role th ib x)"
  "keeps (standing i) (pinvite_revoke k)" "keeps (standing i) (set_open_registration b)"
  "keeps (standing i) (set_local_password_login_disabled b)" "keeps (standing i) (ptoken_touch k)"
  by (auto simp: audit_def audit_record_def
      reset_create_def passkeys_delete_all_def delete_all_for_user_def revoke_all_for_user_counted_def revoke_where_def
      pinvite_create_def pinvite_revoke_def set_open_registration_def set_local_password_login_disabled_def
      ptoken_touch_def execute_def Let_def
      intro!: standing_stmt standing.keeps_ignore standing_same)

lemma standing_node:
  fixes s :: "'n node_scheme"
  shows "keeps (standing i) (reads f :: ('n node_scheme, 'a) state)" "keeps (standing i) (writes (invalidate j) :: ('n node_scheme, unit) state)"
    "keeps (standing i) (writes (store j st) :: ('n node_scheme, unit) state)"
    "keeps (standing i) (apptoken_create name th pre l4 ps cb x pids :: ('n node_scheme, nat) db)"
    "keeps (standing i) (apptoken_update k name' ps' pids' :: ('n node_scheme, bool) db)"
    "keeps (standing i) (apptoken_revoke k :: ('n node_scheme, bool) db)"
proof -
  show "keeps (standing i) (reads f :: ('n node_scheme, 'a) state)" "keeps (standing i) (writes (invalidate j) :: ('n node_scheme, unit) state)"
    "keeps (standing i) (writes (store j st) :: ('n node_scheme, unit) state)"
    by (auto simp: keeps_def reads_def writes_def invalidate_def store_def Let_def intro!: standing_same)
qed (auto simp: apptoken_create_def apptoken_update_def apptoken_revoke_def execute_def intro!: standing_stmt standing_same)

lemmas standing_keeps = standing.keeps_rules standing_reads standing_plain standing_users standing_admin_ops standing_node

lemma standing_gate: "keeps (standing i) (superadmin_user env headers)"
  by (auto simp: superadmin_user_def auth_user_def personal_token_user_def access_token_user_def
      enforce_account_status_def presence_check_def ptoken_find_active_by_hash_def
      intro!: standing_keeps split: option.splits sum.splits)

lemma standing_shapes:
  "keeps (standing i) (refuse e)" "keeps (standing i) (answer n y)"
  "keeps (standing i) m \<Longrightarrow> keeps (standing i) (with_client m)"
  "(\<And>x. keeps (standing i) (f x)) \<Longrightarrow> keeps (standing i) (passing r f)"
  "keeps (standing i) op \<Longrightarrow> keeps (standing i) rest \<Longrightarrow> keeps (standing i) (stepping op rest)"
  "(\<And>v. keeps (standing i) (op' v)) \<Longrightarrow> keeps (standing i) rest \<Longrightarrow> keeps (standing i) (requested v op' rest)"
  "(\<And>u. keeps (standing i) (g u)) \<Longrightarrow> keeps (standing i) (on_account j g)"
  "keeps (standing i) rest \<Longrightarrow> keeps (standing i) (naming j name rest)"
  "keeps (standing i) rest \<Longrightarrow> keeps (standing i) (in_known_projects ids rest)"
  by (auto simp: refuse_def answer_def with_client_def passing_def stepping_def requested_def on_account_def naming_def
      in_known_projects_def projects_all_exist_def find_by_id_def intro!: standing_keeps
      split: sum.splits option.splits)

section \<open>Requests of the administration pages\<close>

datatype admin_act =
    ListActivity "ustr option" "nat option" "nat option"
  | ListUsers "ustr option" "ustr option" "nat option" "nat option"
  | CreateUser "CreateUserRequest json_body"
  | UpdateUser uid "UpdateUserRequest json_body"
  | DeleteUser uid
  | ResetPassword uid
  | ResetTwoFactor uid
  | BanUser uid "ustr option json_body"
  | UnbanUser uid
  | ListSessions uid
  | RevokeSessions uid
  | CreateInvitation "CreateInvitationRequest json_body"
  | ListInvitations
  | RevokeInvitation nat
  | CreateAppToken "CreateAppTokenRequest json_body"
  | ListAppTokens
  | GetAppToken nat
  | UpdateAppToken nat "UpdateAppTokenRequest json_body"
  | RevokeAppToken nat
  | GetSettings
  | UpdateSettings "UpdateSettingsRequest json_body"

definition run_admin ::
    "env \<Rightarrow> (byte list \<Rightarrow> nat \<Rightarrow> uchar) \<Rightarrow> HeaderMap \<Rightarrow> admin_act \<Rightarrow> uid \<Rightarrow> ('s store_scheme, response + nat) state" where
  "run_admin env sample h act admin =
     (case act of
        ListActivity a l k \<Rightarrow> status_of (list_activity a l k admin)
      | ListUsers q st l k \<Rightarrow> status_of (list_users env q st l k admin)
      | CreateUser b \<Rightarrow> status_of (admin_create_user env sample h b admin)
      | UpdateUser i b \<Rightarrow> status_of (admin_update_user env h i b admin)
      | DeleteUser i \<Rightarrow> status_of (delete_user env h i admin)
      | ResetPassword i \<Rightarrow> status_of (reset_password env h i admin)
      | ResetTwoFactor i \<Rightarrow> status_of (reset_two_factor env h i admin)
      | BanUser i b \<Rightarrow> status_of (ban_user env h i b admin)
      | UnbanUser i \<Rightarrow> status_of (unban_user env h i admin)
      | ListSessions i \<Rightarrow> status_of (list_user_sessions i admin)
      | RevokeSessions i \<Rightarrow> status_of (revoke_user_sessions env h i admin)
      | CreateInvitation b \<Rightarrow> status_of (create_invitation env h b admin)
      | ListInvitations \<Rightarrow> status_of (list_platform_invitations admin)
      | RevokeInvitation k \<Rightarrow> status_of (revoke_invitation env h k admin)
      | CreateAppToken b \<Rightarrow> status_of (create_app_token env h b admin)
      | ListAppTokens \<Rightarrow> status_of (list_app_tokens admin)
      | GetAppToken k \<Rightarrow> status_of (get_app_token k admin)
      | UpdateAppToken k b \<Rightarrow> status_of (update_app_token env h k b admin)
      | RevokeAppToken k \<Rightarrow> status_of (revoke_app_token env h k admin)
      | GetSettings \<Rightarrow> status_of (get_settings admin)
      | UpdateSettings b \<Rightarrow> status_of (update_settings env h b admin))"

definition admin_request ::
    "env \<Rightarrow> (byte list \<Rightarrow> nat \<Rightarrow> uchar) \<Rightarrow> HeaderMap \<Rightarrow> admin_act \<Rightarrow> ('s store_scheme, response + nat) state" where
  "admin_request env sample h act = do { admin \<leftarrow> superadmin_user env h; passing admin (run_admin env sample h act) }"

text \<open>The account whose standing a request may change; the others have none, for which any name will do.\<close>

definition aimed_at :: "admin_act \<Rightarrow> uid option" where
  "aimed_at act =
     (case act of UpdateUser i _ \<Rightarrow> Some i | DeleteUser i \<Rightarrow> Some i | BanUser i _ \<Rightarrow> Some i | UnbanUser i \<Rightarrow> Some i
      | _ \<Rightarrow> None)"

lemma standing_status: "keeps (standing i) m \<Longrightarrow> keeps (standing i) (status_of m)"
  by (auto simp: status_of_def intro!: standing.keeps_bind standing.keeps_return)

lemmas standing_all = standing_shapes standing_keeps standing_status

lemma standing_reads_pages:
  "keeps (standing i) (list_activity a l k admin)" "keeps (standing i) (list_users env q st l k admin)"
  "keeps (standing i) (list_user_sessions j admin)" "keeps (standing i) (list_platform_invitations admin)"
  "keeps (standing i) (list_app_tokens admin)" "keeps (standing i) (get_app_token k' admin)"
  "keeps (standing i) (get_settings admin)"
  by (auto simp: list_activity_def list_users_def list_user_sessions_def list_platform_invitations_def list_app_tokens_def
      get_app_token_def get_settings_def audit_list_def audit_count_def users_list_def list_active_for_user_def
      list_pending_def apptoken_list_def apptoken_get_def Let_def
      intro!: standing_all split: sum.splits option.splits)

lemma standing_account_pages:
  "keeps (standing i) (admin_create_user env sample h b1 admin)" "keeps (standing i) (admin_update_user env h i b2 admin)"
  "keeps (standing i) (delete_user env h i admin)" "keeps (standing i) (ban_user env h i b3 admin)"
  "keeps (standing i) (unban_user env h i admin)"
  by (auto simp: admin_create_user_def chosen_password_def random_password_def create_with_flags_def admin_update_user_def
      delete_user_def ban_user_def unban_user_def Let_def
      intro!: standing_all split: sum.splits option.splits DbError.splits)

lemma standing_security_pages:
  "keeps (standing i) (reset_password env h j admin)" "keeps (standing i) (reset_two_factor env h j admin)"
  "keeps (standing i) (revoke_user_sessions env h j admin)"
  by (auto simp: reset_password_def reset_two_factor_def revoke_user_sessions_def get_totp_def Let_def
      intro!: standing_all split: sum.splits option.splits)

lemma standing_credential_pages:
  "keeps (standing i) (create_invitation env h b1 admin)" "keeps (standing i) (revoke_invitation env h k admin)"
  "keeps (standing i) (create_app_token env h b2 admin)" "keeps (standing i) (update_app_token env h k b3 admin)"
  "keeps (standing i) (revoke_app_token env h k admin)" "keeps (standing i) (update_settings env h b4 admin)"
  by (auto simp: create_invitation_def revoke_invitation_def create_app_token_def update_app_token_def
      revoke_app_token_def update_settings_def apptoken_get_def Let_def
      intro!: standing_all split: sum.splits option.splits bool.splits)

lemma standing_request:
  assumes "\<And>j. aimed_at act = Some j \<Longrightarrow> j = i"
  shows "keeps (standing i) (admin_request env sample h act)"
proof -
  have "keeps (standing i) (run_admin env sample h act admin)" for admin
    using assms
    by (cases act) (auto simp: run_admin_def aimed_at_def intro!: standing_status standing_reads_pages
        standing_account_pages standing_security_pages standing_credential_pages)
  then show ?thesis
    unfolding admin_request_def by (intro standing.keeps_bind standing_gate standing_shapes(4))
qed

text \<open>Any number of requests, each with its headers and the environment's random alphabet.\<close>

type_synonym admin_call = "HeaderMap \<times> admin_act"

definition apply_request_admin ::
    "env \<Rightarrow> (byte list \<Rightarrow> nat \<Rightarrow> uchar) \<Rightarrow> admin_call \<Rightarrow> 's store_scheme \<Rightarrow> 's store_scheme" where
  "apply_request_admin env sample call s = snd (run_state (admin_request env sample (fst call) (snd call)) s)"

definition call_target :: "admin_call \<Rightarrow> uid" where
  "call_target call = unwrap_or (aimed_at (snd call)) 0"

interpretation admin_pages: roster_guard accounts_ok superadmin_ids "apply_request_admin env sample" call_target for env sample
proof
  fix s :: "'s store_scheme" and call :: admin_call
  have "keeps (standing (call_target call)) (admin_request env sample (fst call) (snd call) :: ('s store_scheme, response + nat) state)"
    by (rule standing_request) (simp add: call_target_def unwrap_or_def)
  then have step: "standing (call_target call) s (apply_request_admin env sample call s)"
    by (simp add: keeps_def apply_request_admin_def)
  show "accounts_ok s \<Longrightarrow> accounts_ok (apply_request_admin env sample call s)"
    using step by (simp add: standing_def)
  show "accounts_ok s \<Longrightarrow> h \<in> superadmin_ids s \<Longrightarrow> h \<noteq> call_target call \<Longrightarrow>
      h \<in> superadmin_ids (apply_request_admin env sample call s)" for h
    using step by (auto simp: standing_def)
  show "accounts_ok s \<Longrightarrow> superadmin_ids s = {call_target call} \<Longrightarrow>
      superadmin_ids (apply_request_admin env sample call s) \<noteq> {}"
    using step by (simp add: standing_def)
qed

text \<open>
  C1: The administration pages never lock everyone out: from any state with a usable superadmin
  (promoted, enabled, not banned, not deleted), no sequence of requests to any of them, with their
  sign-in and whatever fails on the way, leaves none; and a usable superadmin no request is aimed at
  stays one.
\<close>

theorem administration_never_locks_out:
  assumes "accounts_ok s" and "superadmin_ids s \<noteq> {}"
  shows "superadmin_ids (fold (apply_request_admin env sample) reqs s) \<noteq> {} \<and>
    (\<forall>h\<in>superadmin_ids s. (\<forall>c\<in>set reqs. h \<noteq> call_target c) \<longrightarrow>
       h \<in> superadmin_ids (fold (apply_request_admin env sample) reqs s))"
  using admin_pages.run_never_empty [OF assms] admin_pages.untargeted_stays [OF assms(1)] by blast

definition admin_store :: store where
  "admin_store = demo_store\<lparr>users := [demo_admin 1, demo_admin 2]\<rparr>"

lemma admin_store_fields [simp]:
  "users admin_store = [demo_admin 1, demo_admin 2]" "faults admin_store = (\<lambda>_. False)" "calls admin_store = 0"
  "next_id admin_store = 100" "healthy admin_store"
  by (simp_all add: admin_store_def healthy_def)

lemma admin_store_ok: "accounts_ok admin_store" "superadmin_ids admin_store = {1, 2}"
  by (simp_all add: accounts_ok_def user_ids_ok_def keyed_def demo_admin_def default_user_def superadmin_ids_code
      active_superadmin_def)

lemma administration_never_locks_out_witness:
  "superadmin_ids (fold (apply_request_admin demo_env (\<lambda>_ _. 97))
     [([], BanUser 2 (Json None)), ([], DeleteUser 1), ([], UpdateUser 1 MalformedJson)] admin_store) \<noteq> {}"
  by (rule conjunct1 [OF administration_never_locks_out]) (simp_all add: admin_store_ok)

section \<open>Bans\<close>

lemma wp_writes [wp_rules]: "wp (writes f) Q s = Q () (f s)"
  by (simp add: wp_def writes_def)

lemma wp_stepping [wp_rules]:
  "wp (stepping op rest) Q s = wp op (\<lambda>r t. case r of
     Inl _ \<Rightarrow> Q (Inl internal) t
   | Inr outcome \<Rightarrow> (case outcome_to_response outcome of Some e \<Rightarrow> Q (Inl e) t | None \<Rightarrow> wp rest Q t)) s"
  unfolding stepping_def wp_bind
proof (rule arg_cong [where f = "\<lambda>P. wp op P s"], intro ext)
  fix r t
  show "wp (case r of Inl x \<Rightarrow> refuse internal
      | Inr outcome \<Rightarrow> (case outcome_to_response outcome of None \<Rightarrow> rest | Some e \<Rightarrow> refuse e)) Q t =
    (case r of Inl x \<Rightarrow> Q (Inl internal) t
      | Inr outcome \<Rightarrow> (case outcome_to_response outcome of None \<Rightarrow> wp rest Q t | Some e \<Rightarrow> Q (Inl e) t))"
    by (cases r) (simp_all add: wp_refuse split: option.split)
qed

lemma wp_on_account [wp_rules]:
  "wp (on_account i f) Q s = (let s' = s\<lparr>calls := Suc (calls s)\<rparr>
     in if faults s (calls s) then Q (Inl internal) s'
        else case find_row (\<lambda>u. has_id i u \<and> live u) (users s) of None \<Rightarrow> Q (Inl not_found) s' | Some u \<Rightarrow> wp (f u) Q s')"
  unfolding on_account_def find_by_id_def wp_bind wp_query Let_def sum.case wp_refuse
  by (cases "find_row (\<lambda>u. has_id i u \<and> live u) (users s)"; simp only: if_True option.case world_calls wp_refuse)

definition signed_out :: "uid \<Rightarrow> 'w world_scheme \<Rightarrow> bool" where
  "signed_out i s \<longleftrightarrow> (\<forall>f\<in>set (families s). f_user_id f = i \<longrightarrow> f_revoked_at f \<noteq> None)"

lemma signed_out_revoked: "signed_out i (revoke_where (\<lambda>f. f_user_id f = i) why s)"
  by (simp add: signed_out_def revoke_where_def update_where_def ball_Un)

definition shut_out :: "uid \<Rightarrow> 'n node_scheme \<Rightarrow> bool" where
  "shut_out i s \<longleftrightarrow> blocked i s \<and> Mapping.lookup (p_entries s) i = None"

text \<open>What follows a ban keeps the account out.\<close>

definition stays_out :: "uid \<Rightarrow> 'n node_scheme \<Rightarrow> 'n node_scheme \<Rightarrow> bool" where
  "stays_out i s t \<longleftrightarrow> (shut_out i s \<longrightarrow> shut_out i t) \<and> (signed_out i s \<longrightarrow> signed_out i t)"

interpretation stays_out: evolution "stays_out i" for i
  by unfold_locales (auto simp: stays_out_def)

lemma stays_out_same:
  "users t = users s \<Longrightarrow> p_entries t = p_entries s \<Longrightarrow> families t = families s \<Longrightarrow> stays_out i s t"
  by (simp add: stays_out_def shut_out_def blocked_def signed_out_def)

lemma stays_out_keeps:
  "keeps (stays_out i) (audit env h a act meta)" "keeps (stays_out i) (on_account j (answer n))"
  by (auto simp: keeps_wp wp_audit Let_def wp_on_account wp_answer stays_out_same split: option.split)

lemma set_banned_wp:
  "wp (set_banned i True a why) (\<lambda>r t. faults t = faults s \<and> (r = Inr Updated \<longrightarrow> blocked i t)) s"
  by (auto simp: set_banned_def wp_stmt Let_def upd_user_def blocked_def set_update_where split: option.split)

lemma shut_then_keeps:
  assumes "blocked i t" and "\<And>n. keeps (stays_out i) (f n)"
  shows "wp (do { n \<leftarrow> revoke_all_for_user_counted i why; _ \<leftarrow> writes (invalidate i); f n })
     (\<lambda>_ u. shut_out i u \<and> (healthy t \<longrightarrow> signed_out i u)) t"
proof -
  have rest: "wp (f n) (\<lambda>_ u. shut_out i u \<and> (healthy t \<longrightarrow> signed_out i u)) v"
    if "shut_out i v" "healthy t \<longrightarrow> signed_out i v" for v n
    by (rule wp_mono [OF wp_keeps [OF assms(2)]]) (use that in \<open>auto simp: stays_out_def\<close>)
  have "shut_out i (invalidate i (t\<lparr>calls := c\<rparr>))" "shut_out i (invalidate i (revoke_where P w (t\<lparr>calls := c\<rparr>)))" for c P w
    using assms(1) by (auto simp: shut_out_def invalidate_def blocked_def revoke_where_def)
  moreover have "signed_out i (invalidate i (revoke_where (\<lambda>f. f_user_id f = i) w (t\<lparr>calls := c\<rparr>)))" for c w
    using signed_out_revoked [of i w "t\<lparr>calls := c\<rparr>"] by (simp add: signed_out_def invalidate_def)
  ultimately show ?thesis
    by (simp add: wp_bind revoke_all_for_user_counted_def wp_execute wp_writes) (intro conjI impI rest; simp add: healthy_def)
qed

lemma ban_wp:
  "wp (ban_user env h i body admin) (\<lambda>r t. \<forall>x. r = Inr x \<longrightarrow>
     shut_out i t \<and> i \<noteq> admin \<and> (healthy s \<longrightarrow> signed_out i t)) s"
proof -
  have step: "wp (stepping (set_banned i True admin why) (do {
        n \<leftarrow> revoke_all_for_user_counted i why'; _ \<leftarrow> writes (invalidate i); f n }))
      (\<lambda>r u. \<forall>x. r = Inr x \<longrightarrow> shut_out i u \<and> (healthy t \<longrightarrow> signed_out i u)) t"
    if "\<And>n. keeps (stays_out i) (f n)"
    for why why' t and f :: "DbError + nat \<Rightarrow> ('a store_scheme, response + (nat \<times> user_row)) state"
    unfolding wp_stepping
  proof (rule wp_mono [OF set_banned_wp])
    fix r and v :: "'a store_scheme"
    assume v: "faults v = faults t \<and> (r = Inr Updated \<longrightarrow> blocked i v)"
    show "case r of Inl x \<Rightarrow> \<forall>x. Inl internal = Inr x \<longrightarrow> shut_out i v \<and> (healthy t \<longrightarrow> signed_out i v)
      | Inr outcome \<Rightarrow> (case outcome_to_response outcome of
          None \<Rightarrow> wp (do { n \<leftarrow> revoke_all_for_user_counted i why'; _ \<leftarrow> writes (invalidate i); f n })
            (\<lambda>r u. \<forall>x. r = Inr x \<longrightarrow> shut_out i u \<and> (healthy t \<longrightarrow> signed_out i u)) v
        | Some e \<Rightarrow> \<forall>x. Inl e = Inr x \<longrightarrow> shut_out i v \<and> (healthy t \<longrightarrow> signed_out i v))"
      using v wp_mono [OF shut_then_keeps [of i v f why', OF _ that]]
      by (auto simp: outcome_to_response_def healthy_def split: sum.split AdminUpdateOutcome.split)
  qed
  have tail: "keeps (stays_out i) (do { _ \<leftarrow> audit env h a act m; on_account i (answer 200) })" for a act m
    by (intro stays_out.keeps_bind stays_out_keeps)
  show ?thesis
  proof (cases "parsed valid_ban body")
    case (Inr req)
    then show ?thesis
      using step [OF tail, where t = "s\<lparr>calls := Suc (calls s)\<rparr>"]
      by (simp add: ban_user_def wp_passing wp_refuse wp_with_client Let_def healthy_def)
  qed (simp add: ban_user_def wp_passing)
qed

text \<open>
  C8: A ban takes hold with its answer, whatever else fails: from then on no extractor lets a request through
  as the banned account while it stays blocked, whatever other requests do to the status cache, provided the
  database answers the check (a check that fails lets an access token pass). No administrator bans the own
  account. Unless a statement failed, every session of the account is revoked.
\<close>

theorem ban_takes_hold:
  assumes "run_state (ban_user env h i body admin) s = (Inr x, t)"
  shows "i \<noteq> admin \<and> (healthy s \<longrightarrow> signed_out i t) \<and>
    (\<forall>t' env' headers. node_run i t t' \<and> \<not> faults t' (Suc (calls t')) \<longrightarrow> \<not> let_through env' headers i t')"
proof -
  have facts: "shut_out i t" "i \<noteq> admin" "healthy s \<longrightarrow> signed_out i t" using wpI [OF assms ban_wp] by simp_all
  then have lag: "lag_inv i (\<lambda>_. False) t" by (simp add: shut_out_def lag_inv_def)
  have "\<not> let_through env' headers i t'"
    if "node_run i t t'" "\<not> faults t' (Suc (calls t'))" for t' env' headers
  proof -
    have inv: "lag_inv i (\<lambda>_. False) t'" using run_lag_inv [OF that(1) lag] by blast
    have "wp (presence_check i) (\<lambda>r t. \<forall>st. r = Some st \<longrightarrow> \<not> may_authenticate st) (t'\<lparr>calls := Suc (calls t')\<rparr>)"
      by (rule blocked_check [of i "\<lambda>_. False"]) (use inv that(2) in \<open>simp_all add: lag_inv_def\<close>)
    moreover have "blocked i t'" using inv by (simp add: lag_inv_def)
    ultimately show ?thesis by (intro not_let_through)
  qed
  with facts show ?thesis by blast
qed

lemma ban_takes_hold_witness:
  "\<exists>x t. run_state (ban_user demo_env [] 2 (Json (Some (lit ''spam''))) 1) admin_store = (Inr x, t) \<and>
     signed_out 2 t \<and> \<not> let_through demo_env demo_caller 2 t"
proof -
  let ?run = "run_state (ban_user demo_env [] 2 (Json (Some (lit ''spam''))) 1) admin_store"
  have "wp (ban_user demo_env [] 2 (Json (Some (lit ''spam''))) 1) (\<lambda>r t. (\<exists>x. r = Inr x) \<and> faults t = (\<lambda>_. False)) admin_store"
    by (simp add: ban_user_def parsed_def parse_json_def valid_ban_def opt_all_def len_between_def lit_def utf8_len_def
        wp_passing wp_with_client Let_def wp_stepping set_banned_def wp_stmt find_user_def find_row_def has_id_def demo_admin_def
        default_user_def other_superadmins_def count_where_def active_superadmin_def outcome_to_response_def
        wp_bind revoke_all_for_user_counted_def wp_execute wp_writes wp_audit wp_on_account wp_answer upd_user_def
        invalidate_def revoke_where_def live_def)
  then obtain x t where run: "?run = (Inr x, t)" and ok: "faults t = (\<lambda>_. False)" by (cases ?run) (auto simp: wp_def)
  have "node_run 2 t t" by (simp add: node_run_def)
  with ban_takes_hold [OF run] run ok show ?thesis by auto
qed

section \<open>Resetting a second factor\<close>

lemma signed_out_frame [simp]:
  "signed_out i (s\<lparr>calls := c\<rparr>) = signed_out i s" "signed_out i (w\<lparr>audit_log := l\<rparr>) = signed_out i w"
  for w :: "'w world_scheme"
  by (simp_all add: signed_out_def)

definition no_totp :: "user_row \<Rightarrow> user_row" where
  "no_totp u = u\<lparr>u_totp_secret_enc := None, u_totp_confirmed_at := None\<rparr>"

definition factors_removed :: "uid \<Rightarrow> 'w world_scheme \<Rightarrow> 'w world_scheme \<Rightarrow> bool" where
  "factors_removed i s t \<longleftrightarrow>
     users t = update_where (\<lambda>u. has_id i u \<and> live u) no_totp (users s) \<and>
     passkey_owners t = delete_where (\<lambda>u. u = i) (passkey_owners s) \<and>
     recovery t = delete_where (\<lambda>r. r_user_id r = i) (recovery s)"

lemma factors_removed_frame [simp]:
  "factors_removed i s (w\<lparr>calls := c\<rparr>) = factors_removed i s w"
  "factors_removed i s (w\<lparr>audit_log := l\<rparr>) = factors_removed i s w"
  "factors_removed i s (revoke_where P why w) = factors_removed i s w"
  for w :: "'w world_scheme"
  by (simp_all add: factors_removed_def revoke_where_def)

lemma revoke_where_frame [simp]:
  "users (revoke_where P why s) = users s" "calls (revoke_where P why s) = calls s"
  "faults (revoke_where P why s) = faults s" "audit_log (revoke_where P why s) = audit_log s"
  by (simp_all add: revoke_where_def)

lemma cleared_factors:
  "factors_removed i s (s\<lparr>users := update_where (\<lambda>u. has_id i u \<and> live u)
       (\<lambda>u. u\<lparr>u_totp_secret_enc := None, u_totp_confirmed_at := None\<rparr>) (users s),
     passkey_owners := delete_where (\<lambda>u. u = i) (passkey_owners s),
     recovery := delete_where (\<lambda>r. r_user_id r = i) (recovery s)\<rparr>)"
  by (simp add: factors_removed_def no_totp_def [abs_def])

lemma reset_two_factor_wp:
  "wp (reset_two_factor env h i admin) (\<lambda>r t. \<forall>x. r = Inr x \<longrightarrow>
     (\<exists>u. find_row (\<lambda>u. has_id i u \<and> live u) (users s) = Some u) \<and> factors_removed i s t \<and> (healthy s \<longrightarrow> signed_out i t)) s"
proof -
  have faultless: "healthy s \<Longrightarrow> \<not> faults s k" for k by (simp add: healthy_def)
  show ?thesis
    unfolding reset_two_factor_def wp_with_client wp_on_account Let_def get_totp_def disable_totp_def passkeys_delete_all_def
      delete_all_for_user_def revoke_all_for_user_counted_def wp_bind wp_query wp_execute wp_refuse
    by (simp split: option.split del: not_None_eq add: wp_execute wp_refuse wp_bind wp_answer wp_audit Let_def upd_live_def
        signed_out_revoked cleared_factors) (use faultless in blast)
qed

text \<open>
  C9: When the reset of a second factor answers, whatever statements failed, the account has none left: neither
  the authenticator's secret nor its confirmation, no passkey, no recovery code; nobody else's account, passkeys
  or codes are touched; and if no statement failed, its sessions are revoked.
\<close>

theorem second_factor_reset_complete:
  assumes "user_ids_ok s" and "run_state (reset_two_factor env h i admin) s = (Inr x, t)"
  shows "(\<exists>u. find_user i t = Some u \<and> u_totp_secret_enc u = None \<and> u_totp_confirmed_at u = None) \<and>
    i \<notin> set (passkey_owners t) \<and> find_row (\<lambda>r. r_user_id r = i) (recovery t) = None \<and> \<not> second_factor i t \<and>
    (healthy s \<longrightarrow> signed_out i t) \<and>
    (\<forall>j. j \<noteq> i \<longrightarrow> find_user j t = find_user j s \<and>
       filter (\<lambda>u. u = j) (passkey_owners t) = filter (\<lambda>u. u = j) (passkey_owners s) \<and>
       filter (\<lambda>r. r_user_id r = j) (recovery t) = filter (\<lambda>r. r_user_id r = j) (recovery s))"
proof -
  from wpI [OF assms(2) reset_two_factor_wp] obtain u where
    u: "find_row (\<lambda>u. has_id i u \<and> live u) (users s) = Some u" and gone: "factors_removed i s t"
    and out: "healthy s \<longrightarrow> signed_out i t" by blast
  have row: "find_user j t = map_option (\<lambda>v. if has_id i v \<and> live v then no_totp v else v) (find_user j s)" for j
  proof -
    have "has_id j (no_totp v) = has_id j v" for v by (simp add: has_id_def no_totp_def)
    then have "List.find (has_id j) (update_where P no_totp us) = map_option (\<lambda>v. if P v then no_totp v else v) (List.find (has_id j) us)"
      for P us by (induction us) simp_all
    then show ?thesis using gone by (simp add: find_user_def find_row_def factors_removed_def)
  qed
  have "find_user i s = Some u"
    using find_row_Some [OF u] find_row_key [of u_id "users s" u] assms(1)
    by (simp add: find_user_def user_ids_ok_def has_id_def [abs_def])
  then have own: "find_user i t = Some (no_totp u)" using row [of i] find_row_Some [OF u] by simp
  have keys: "i \<notin> set (passkey_owners t)" using gone by (simp add: factors_removed_def set_delete_where)
  have codes: "find_row (\<lambda>r. r_user_id r = i) (recovery t) = None"
    using gone by (simp add: find_row_None factors_removed_def set_delete_where)
  have others: "find_user j t = find_user j s \<and> filter (\<lambda>u. u = j) (passkey_owners t) = filter (\<lambda>u. u = j) (passkey_owners s) \<and>
      filter (\<lambda>r. r_user_id r = j) (recovery t) = filter (\<lambda>r. r_user_id r = j) (recovery s)" if "j \<noteq> i" for j
  proof -
    have "find_user j s = Some v \<Longrightarrow> \<not> has_id i v" for v
      using that by (auto simp: find_user_def has_id_def dest!: find_row_Some)
    then have "find_user j t = find_user j s" using row [of j] by (cases "find_user j s") auto
    then show ?thesis
      using that gone by (auto simp: factors_removed_def delete_where_def intro!: filter_cong)
  qed
  have "\<not> second_factor i t" using own keys by (simp add: second_factor_def no_totp_def)
  moreover have "u_totp_secret_enc (no_totp u) = None" "u_totp_confirmed_at (no_totp u) = None" by (simp_all add: no_totp_def)
  ultimately show ?thesis using own keys codes others out by blast
qed

definition factor_store :: store where
  "factor_store = admin_store\<lparr>passkey_owners := [2, 1], recovery := [\<lparr>r_id = 50, r_user_id = 2, r_code_hash = [], r_used_at = None\<rparr>]\<rparr>"

lemma second_factor_reset_complete_witness:
  "\<exists>x t. run_state (reset_two_factor demo_env [] 2 1) factor_store = (Inr x, t) \<and>
     (\<exists>u. find_user 2 t = Some u \<and> u_totp_secret_enc u = None) \<and> find_user 1 t = find_user 1 factor_store \<and> second_factor 2 factor_store"
proof -
  let ?run = "run_state (reset_two_factor demo_env [] 2 1) factor_store"
  have "wp (reset_two_factor demo_env [] 2 1) (\<lambda>r t. \<exists>x. r = Inr x) factor_store"
    by (simp add: reset_two_factor_def factor_store_def wp_with_client wp_on_account Let_def get_totp_def disable_totp_def
        passkeys_delete_all_def delete_all_for_user_def revoke_all_for_user_counted_def wp_bind wp_query wp_execute
        find_row_def has_id_def demo_admin_def default_user_def live_def wp_audit wp_answer upd_live_def)
  then obtain x t where run: "?run = (Inr x, t)" by (cases ?run) (auto simp: wp_def)
  have "user_ids_ok factor_store" using admin_store_ok(1) by (simp add: factor_store_def accounts_ok_def user_ids_ok_def)
  from second_factor_reset_complete [OF this run]
  have "\<exists>u. find_user 2 t = Some u \<and> u_totp_secret_enc u = None" "find_user 1 t = find_user 1 factor_store"
    by (blast, simp)
  moreover have "second_factor 2 factor_store" by (simp add: factor_store_def second_factor_def)
  ultimately show ?thesis using run by blast
qed

section \<open>App tokens from creation to revocation\<close>

definition token_ids_ok :: "'n node_scheme \<Rightarrow> bool" where
  "token_ids_ok s \<longleftrightarrow>
     (\<forall>t\<in>set (app_tokens s). ak_id t < next_id s) \<and> (\<forall>p\<in>set (app_token_projects s). fst p < next_id s)"

lemma add_scope_fresh:
  "distinct pids \<Longrightarrow> \<forall>p\<in>set rows. fst p = tid \<longrightarrow> snd p \<notin> set pids \<Longrightarrow>
     add_scope tid pids rows = rows @ map (Pair tid) pids"
proof (induction pids arbitrary: rows)
  case (Cons p pids)
  then have "(tid, p) \<notin> set rows" by fastforce
  then have "add_scope tid (p # pids) rows = add_scope tid pids (rows @ [(tid, p)])" by (simp add: add_scope_def)
  also have "\<dots> = (rows @ [(tid, p)]) @ map (Pair tid) pids" using Cons.prems by (intro Cons.IH) auto
  finally show ?case by simp
qed (simp add: add_scope_def)

lemma distinct_sort_dedup: "distinct (sort_dedup ids)"
proof -
  have "sorted xs \<Longrightarrow> distinct (remdups_adj xs)" for xs :: "nat list"
    by (induction xs rule: remdups_adj.induct) (auto simp: order.antisym)
  then show ?thesis by (simp add: sort_dedup_def)
qed

definition minted_row :: "nat \<Rightarrow> CreateAppTokenRequest \<Rightarrow> NewAppToken \<Rightarrow> uid \<Rightarrow> int \<Rightarrow> apptoken_row" where
  "minted_row i req m admin now = \<lparr>ak_id = i, ak_name = ca_name req, ak_token_hash = at_hash m, ak_prefix = at_prefix m,
     ak_last4 = at_last4 m, ak_permissions = permissions_to_json (ca_permissions req), ak_created_by = Some admin,
     ak_expires_at = ca_expires_at req, ak_revoked_at = None, ak_last_used_at = None, ak_created_at = now\<rparr>"

definition minted :: "env \<Rightarrow> CreateAppTokenRequest \<Rightarrow> AppToken \<Rightarrow> ustr \<Rightarrow> 's store_scheme \<Rightarrow> 's store_scheme \<Rightarrow> bool" where
  "minted env req tok secret s t \<longleftrightarrow>
     (\<exists>bytes admin. let m = generate_app (e_sha256 env) bytes in
        secret = at_raw m \<and> tk_id tok = next_id s \<and>
        (\<forall>r\<in>set (app_tokens s). ak_token_hash r \<noteq> at_hash m) \<and>
        app_tokens t = app_tokens s @ [minted_row (next_id s) req m admin (db_now s)] \<and>
        app_token_projects t = add_scope (next_id s) (sort_dedup (ca_project_ids req)) (app_token_projects s)) \<and>
     faults t = faults s \<and> db_now t = db_now s \<and> next_id t = Suc (next_id s)"

lemma find_row_snoc: "\<forall>x\<in>set xs. \<not> P x \<Longrightarrow> P r \<Longrightarrow> find_row P (xs @ [r]) = Some r"
  by (induction xs) (simp_all add: find_row_def)

lemma mintedI:
  assumes "\<not> any_row (\<lambda>r. ak_token_hash r = at_hash (generate_app (e_sha256 env) bytes)) (app_tokens s)"
    and "app_tokens t = app_tokens s @ [minted_row (next_id s) req (generate_app (e_sha256 env) bytes) admin (db_now s)]"
    and "app_token_projects t = add_scope (next_id s) (sort_dedup (ca_project_ids req)) (app_token_projects s)"
    and "faults t = faults s" and "db_now t = db_now s" and "next_id t = Suc (next_id s)" and "tk_id tok = next_id s"
  shows "minted env req tok (at_raw (generate_app (e_sha256 env) bytes)) s t"
  using assms unfolding minted_def Let_def any_row_iff by blast

lemma create_app_token_wp:
  assumes "healthy s" and "token_ids_ok s"
  shows "wp (create_app_token env h (Json req) admin) (\<lambda>r t. \<forall>n tok secret. r = Inr (n, tok, secret) \<longrightarrow> minted env req tok secret s t) s"
proof -
  have ok: "faults s = (\<lambda>_. False)" using assms(1) by (auto simp: healthy_def)
  have found: "find_row (\<lambda>t. ak_id t = next_id s) (app_tokens s @ [r]) = Some r" if "ak_id r = next_id s" for r
    using assms(2) that by (intro find_row_snoc) (auto simp: token_ids_ok_def)
  show ?thesis
    unfolding create_app_token_def
    by (simp add: parsed_def parse_json_def wp_passing wp_with_client in_known_projects_def projects_all_exist_def ok Let_def
        wp_bind wp_if wp_query wp_return wp_refuse wp_draw_bytes apptoken_create_def wp_stmt apptoken_get_def wp_query_parsed
        found row_to_token_def wp_audit wp_answer split: option.split)
       (auto intro!: mintedI [where admin = admin] simp: minted_row_def ok)
qed

lemma app_secret_prefix:
  "starts_with PREFIX (at_raw (generate_app sha bytes))" "\<not> starts_with PERSONAL_PREFIX (at_raw (generate_app sha bytes))"
  "hash_token sha (at_raw (generate_app sha bytes)) = at_hash (generate_app sha bytes)"
  by (simp_all add: generate_app_def generate_with_prefix_def Let_def PREFIX_def PERSONAL_PREFIX_def starts_with_def lit_def)

definition in_force :: "int option \<Rightarrow> int \<Rightarrow> bool" where
  "in_force expires_at now \<longleftrightarrow> (case expires_at of None \<Rightarrow> True | Some x \<Rightarrow> x > now)"

lemma minted_accepted:
  assumes "minted env req tok secret s t" and "token_ids_ok s" and "healthy s"
    and "bearer headers = Some secret" and "in_force (ca_expires_at req) (db_now s)"
  shows "fst (run_state (authenticate env headers) t) =
    Inr (AppToken \<lparr>aa_id = tk_id tok, aa_permissions = ca_permissions req, aa_project_ids = sort_dedup (ca_project_ids req)\<rparr>)"
proof -
  obtain bytes admin where m: "secret = at_raw (generate_app (e_sha256 env) bytes)" "tk_id tok = next_id s"
      "\<forall>r\<in>set (app_tokens s). ak_token_hash r \<noteq> at_hash (generate_app (e_sha256 env) bytes)"
      "app_tokens t = app_tokens s @ [minted_row (next_id s) req (generate_app (e_sha256 env) bytes) admin (db_now s)]"
      "app_token_projects t = add_scope (next_id s) (sort_dedup (ca_project_ids req)) (app_token_projects s)"
      "faults t = faults s" "db_now t = db_now s"
    using assms(1) unfolding minted_def Let_def by blast
  have ok: "faults t = (\<lambda>_. False)" using m(6) assms(3) by (auto simp: healthy_def)
  have row: "find_row (active_apptoken (hash_token (e_sha256 env) secret) (db_now t)) (app_tokens t) =
      Some (minted_row (next_id s) req (generate_app (e_sha256 env) bytes) admin (db_now s))"
    unfolding m(4) by (rule find_row_snoc)
      (use m assms(5) in \<open>auto simp: active_apptoken_def app_secret_prefix minted_row_def in_force_def split: option.splits\<close>)
  have old: "filter (\<lambda>p. fst p = next_id s) (app_token_projects s) = []"
    using assms(2) by (auto simp: token_ids_ok_def filter_empty_conv)
  have "app_token_projects t = app_token_projects s @ map (Pair (next_id s)) (sort_dedup (ca_project_ids req))"
    unfolding m(5) using assms(2) by (intro add_scope_fresh distinct_sort_dedup) (auto simp: token_ids_ok_def)
  then have scope: "scope_of (next_id s) t = sort_dedup (ca_project_ids req)"
    using old by (simp add: scope_of_def comp_def)
  have "wp (authenticate env headers) (\<lambda>r _. r =
      Inr (AppToken \<lparr>aa_id = tk_id tok, aa_permissions = ca_permissions req, aa_project_ids = sort_dedup (ca_project_ids req)\<rparr>)) t"
    using row scope
    by (simp add: authenticate_def assms(4) app_secret_prefix m(1,2) wp_bind wp_if wp_pool_get wp_return ok
        apptoken_find_active_by_hash_def wp_stmt Let_def wp_ignore apptoken_touch_def wp_execute)
       (simp add: minted_row_def wp_bind wp_ignore wp_execute wp_return)
  then show ?thesis by (simp add: wp_def case_prod_beta)
qed

lemma revoked_refused:
  assumes "minted env req tok secret s t" and "token_ids_ok s" and "healthy s" and "bearer headers = Some secret"
  shows "wp (revoke_app_token env h (tk_id tok) admin') (\<lambda>r u. fst (run_state (authenticate env headers) u) = Inl missing_token) t"
proof -
  obtain bytes admin where m: "secret = at_raw (generate_app (e_sha256 env) bytes)" "tk_id tok = next_id s"
      "\<forall>r\<in>set (app_tokens s). ak_token_hash r \<noteq> at_hash (generate_app (e_sha256 env) bytes)"
      "app_tokens t = app_tokens s @ [minted_row (next_id s) req (generate_app (e_sha256 env) bytes) admin (db_now s)]"
      "faults t = faults s"
    using assms(1) unfolding minted_def Let_def by blast
  have ok: "faults t = (\<lambda>_. False)" using m(5) assms(3) by (auto simp: healthy_def)
  have refused: "fst (run_state (authenticate env headers) u) = Inl missing_token"
    if "\<forall>r\<in>set (app_tokens u). ak_token_hash r = at_hash (generate_app (e_sha256 env) bytes) \<longrightarrow> ak_revoked_at r \<noteq> None"
      and "faults u = (\<lambda>_. False)" for u :: "'a store_scheme"
  proof -
    have none: "find_row (active_apptoken (at_hash (generate_app (e_sha256 env) bytes)) (db_now u)) (app_tokens u) = None"
      using that(1) by (auto simp: find_row_None active_apptoken_def)
    have "wp (authenticate env headers) (\<lambda>r _. r = Inl missing_token) u"
      by (simp add: authenticate_def assms(4) app_secret_prefix m(1) wp_bind wp_if wp_pool_get wp_return that(2)
          apptoken_find_active_by_hash_def wp_stmt Let_def none)
    then show ?thesis by (simp add: wp_def case_prod_beta)
  qed
  let ?P = "\<lambda>r. ak_id r = next_id s \<and> ak_revoked_at r = None"
  let ?row = "minted_row (next_id s) req (generate_app (e_sha256 env) bytes) admin (db_now s)"
  have "?row \<in> set (app_tokens t)" unfolding m(4) set_append by (rule UnI2) simp
  moreover have "?P ?row" by (simp add: minted_row_def)
  ultimately have mine: "affected ?P (app_tokens t) > 0"
    unfolding affected_def count_where_pos by (intro bexI)
  have after: "\<forall>r\<in>set (update_where ?P (\<lambda>r. r\<lparr>ak_revoked_at := Some x\<rparr>) (app_tokens t)).
      ak_token_hash r = at_hash (generate_app (e_sha256 env) bytes) \<longrightarrow> ak_revoked_at r \<noteq> None" for x
  proof (intro ballI impI)
    fix r
    assume "r \<in> set (update_where ?P (\<lambda>r. r\<lparr>ak_revoked_at := Some x\<rparr>) (app_tokens t))"
      and hash: "ak_token_hash r = at_hash (generate_app (e_sha256 env) bytes)"
    then obtain q where q: "q \<in> set (app_tokens t)" "r = (if ?P q then q\<lparr>ak_revoked_at := Some x\<rparr> else q)"
      by (auto simp: update_where_def)
    then have "ak_token_hash q = at_hash (generate_app (e_sha256 env) bytes)" using hash by (cases "?P q") simp_all
    then have "q = minted_row (next_id s) req (generate_app (e_sha256 env) bytes) admin (db_now s)"
      using q(1) m(3,4) by auto
    then show "ak_revoked_at r \<noteq> None" using q(2) by (simp add: minted_row_def)
  qed
  show ?thesis
    using mine
    by (simp add: revoke_app_token_def wp_with_client ok m(2) apptoken_revoke_def wp_bind wp_execute wp_audit Let_def wp_answer)
       (intro conjI impI; rule refused; simp add: ok after)
qed

text \<open>
  C10: An app token works exactly as it was created, until it is revoked: a request that carries the
  secret of the creation's answer is let through with the requested permissions and the requested
  projects, each once, while the token has not expired; once it has been revoked the secret is
  refused like a missing one.
\<close>

theorem app_token_lifecycle:
  assumes "healthy s" and "token_ids_ok s"
    and "run_state (create_app_token env h (Json req) admin) s = (Inr (n, tok, secret), t)"
    and "bearer headers = Some secret"
  shows "(in_force (ca_expires_at req) (db_now s) \<longrightarrow> fst (run_state (authenticate env headers) t) =
      Inr (AppToken \<lparr>aa_id = tk_id tok, aa_permissions = ca_permissions req, aa_project_ids = sort_dedup (ca_project_ids req)\<rparr>)) \<and>
    fst (run_state (authenticate env headers) (snd (run_state (revoke_app_token env h' (tk_id tok) admin') t))) = Inl missing_token"
proof -
  have m: "minted env req tok secret s t"
    using wpI [OF assms(3) create_app_token_wp [OF assms(1,2)]] by blast
  have "fst (run_state (authenticate env headers) (snd (run_state (revoke_app_token env h' (tk_id tok) admin') t))) = Inl missing_token"
    using revoked_refused [OF m assms(2,1,4), of h' admin'] by (simp add: wp_def case_prod_beta)
  then show ?thesis using minted_accepted [OF m assms(2,1,4)] by blast
qed

definition demo_token_request :: CreateAppTokenRequest where
  "demo_token_request = \<lparr>ca_name = lit ''ci'', ca_permissions = [IssueView], ca_project_ids = [5, 5], ca_expires_at = None\<rparr>"

definition demo_secret :: ustr where
  "demo_secret = at_raw (generate_app (e_sha256 demo_env) (replicate 32 0))"

lemma bearer_word:
  assumes "word \<noteq> []" and "\<forall>c\<in>set word. 33 \<le> c \<and> c < 127"
  shows "bearer [(lit ''authorization'', lit ''Bearer '' @ word)] = Some word"
proof -
  have white: "\<not> is_white (hd word)" "\<not> is_white (last word)"
    using assms hd_in_set [of word] last_in_set [of word] by (fastforce simp: is_white_def)+
  have "list_all (\<lambda>b. b = 9 \<or> (32 \<le> b \<and> b < 127)) word" using assms(2) by (fastforce simp: list_all_iff)
  moreover have "trim word = word"
  proof -
    have "dropWhile is_white word = word" using white(1) assms(1) by (cases word) simp_all
    moreover have "dropWhile is_white (rev word) = rev word" using white(2) assms(1) by (cases word rule: rev_cases) simp_all
    ultimately show ?thesis by (simp add: trim_def trim_by_def)
  qed
  ultimately show ?thesis
    by (simp add: bearer_def header_str_def hv_to_str_def lit_def strip_prefix_def starts_with_def)
qed

lemma demo_secret_bearer: "bearer [(lit ''authorization'', lit ''Bearer '' @ demo_secret)] = Some demo_secret"
proof (rule bearer_word)
  show "demo_secret \<noteq> []" by (simp add: demo_secret_def generate_app_def generate_with_prefix_def PREFIX_def lit_def Let_def)
  show "\<forall>c\<in>set demo_secret. 33 \<le> c \<and> c < 127"
    using base64url_chars [of "replicate 32 0"]
    by (auto simp: demo_secret_def generate_app_def generate_with_prefix_def PREFIX_def B64_ALPHABET_def lit_def Let_def)
qed

definition token_store :: store where
  "token_store = admin_store\<lparr>app_tokens := [], app_token_projects := []\<rparr>"

lemma token_store_fields [simp]:
  "projects token_store = [project_row_of 5 Private]" "app_tokens token_store = []" "app_token_projects token_store = []"
  "users token_store = [demo_admin 1, demo_admin 2]" "faults token_store = (\<lambda>_. False)" "calls token_store = 0"
  "next_id token_store = 100" "healthy token_store"
  by (simp_all add: token_store_def healthy_def admin_store_def)

lemma demo_draws: "draws token_store (drawn token_store) = replicate 32 0"
  by (simp add: token_store_def admin_store_def demo_store_def node.extend_def demo_node_def world.extend_def demo_world_def empty_world_def)

lemma app_token_lifecycle_witness:
  "\<exists>n tok t. run_state (create_app_token demo_env [] (Json demo_token_request) 1) token_store = (Inr (n, tok, demo_secret), t) \<and>
     fst (run_state (authenticate demo_env [(lit ''authorization'', lit ''Bearer '' @ demo_secret)]) t) =
       Inr (AppToken \<lparr>aa_id = tk_id tok, aa_permissions = [IssueView], aa_project_ids = [5]\<rparr>)"
proof -
  let ?run = "run_state (create_app_token demo_env [] (Json demo_token_request) 1) token_store"
  have ids: "token_ids_ok token_store"
    by (simp add: token_ids_ok_def)
  have "wp (create_app_token demo_env [] (Json demo_token_request) 1) (\<lambda>r t. \<exists>n tok. r = Inr (n, tok, demo_secret)) token_store"
    by (simp add: create_app_token_def demo_token_request_def parsed_def parse_json_def valid_create_app_token_def
        len_between_def lit_def utf8_len_def wp_passing wp_with_client in_known_projects_def projects_all_exist_def sort_dedup_def
        Let_def wp_bind wp_query count_where_def project_row_of_def wp_draw_bytes demo_draws apptoken_create_def wp_stmt find_user_def find_row_def any_row_def has_id_def
        demo_admin_def apptoken_get_def wp_query_parsed row_to_token_def wp_audit wp_answer demo_secret_def)
  then obtain n tok t where run: "?run = (Inr (n, tok, demo_secret), t)" by (cases ?run) (auto simp: wp_def)
  from app_token_lifecycle [OF _ ids run demo_secret_bearer, of "[]" 1] run show ?thesis
    by (auto simp: demo_token_request_def in_force_def sort_dedup_def)
qed

end
