(* ===== verification/Ranks.thy ===== *)
theory Ranks
  imports Projects_Db "HOL-Library.Log_Nat" "HOL-Library.Multiset"
begin

text \<open>
  Orders of reorderable lists (\<open>crates/core/src/ordering.rs\<close>). A finite \<open>f64\<close> is the rational it stands
  for; an operation rounds its exact result to the nearest double, ties to the even one, with 53 bits
  of precision and the exponents of the subnormal numbers. Ranks stay far from the largest double, so
  overflow is left out.

  \<open>rank_table\<close> is what moving an item relies on: a table whose rows carry a rank each, where an update
  changes the ranks of the rows it names. The taxonomy, the epics and the issues are such tables.
\<close>

section \<open>Doubles\<close>

definition pow2 :: "int \<Rightarrow> rat" where
  "pow2 k = (if 0 \<le> k then 2 ^ nat k else 1 / 2 ^ nat (- k))"

text \<open>The exponent \<open>k\<close> with \<open>2 ^ k \<le> x < 2 ^ (k + 1)\<close>, for positive \<open>x\<close>.\<close>

definition ilog2 :: "rat \<Rightarrow> int" where
  "ilog2 x = (if 1 \<le> x then int (floorlog 2 (nat \<lfloor>x\<rfloor>)) - 1 else - int (floorlog 2 (nat (\<lceil>1 / x\<rceil> - 1))))"

definition round_even :: "rat \<Rightarrow> int" where
  "round_even y =
     (let k = \<lfloor>y\<rfloor>; d = y - of_int k
      in if d < 1 / 2 \<or> (d = 1 / 2 \<and> even k) then k else k + 1)"

definition f64_ulp :: "rat \<Rightarrow> rat" where
  "f64_ulp x = pow2 (max (- 1074) (ilog2 \<bar>x\<bar> - 52))"

definition f64_round :: "rat \<Rightarrow> f64" where
  "f64_round x = (if x = 0 then 0 else f64_ulp x * of_int (round_even (x / f64_ulp x)))"

lemma pow2_pos: "0 < pow2 k"
  by (simp add: pow2_def)

lemma round_even_near: "\<bar>of_int (round_even y) - y\<bar> \<le> 1 / 2"
proof -
  have "of_int \<lfloor>y\<rfloor> \<le> y" "y < of_int \<lfloor>y\<rfloor> + 1" by linarith+
  then show ?thesis by (auto simp: round_even_def Let_def)
qed

lemma round_even_int [simp]: "round_even (of_int k) = k"
  by (simp add: round_even_def)

lemma f64_round_near: "\<bar>f64_round x - x\<bar> \<le> f64_ulp x / 2"
proof (cases "x = 0")
  case False
  let ?u = "f64_ulp x"
  have u: "0 < ?u" by (simp add: f64_ulp_def pow2_pos)
  have "f64_round x - x = ?u * (of_int (round_even (x / ?u)) - x / ?u)"
    using u False by (simp add: f64_round_def right_diff_distrib)
  then have "\<bar>f64_round x - x\<bar> = ?u * \<bar>of_int (round_even (x / ?u)) - x / ?u\<bar>"
    using u by (simp add: abs_mult)
  also have "\<dots> \<le> ?u * (1 / 2)" using u by (intro mult_left_mono round_even_near) simp_all
  finally show ?thesis by simp
next
  case True
  have "0 < f64_ulp x" by (simp add: f64_ulp_def pow2_pos)
  with True show ?thesis by (simp add: f64_round_def)
qed

lemma ilog2_below:
  assumes "x < 2 ^ n" and "0 < n"
  shows "ilog2 x < int n"
proof (cases "1 \<le> x")
  case True
  then have "nat \<lfloor>x\<rfloor> < 2 ^ n" using assms(1) by (simp add: nat_less_iff floor_less_iff)
  then have "floorlog 2 (nat \<lfloor>x\<rfloor>) \<le> n" by (intro floorlog_leI) simp_all
  then show ?thesis using True by (simp add: ilog2_def)
qed (use assms(2) in \<open>simp add: ilog2_def\<close>)

lemma f64_ulp_small: "\<bar>x\<bar> < 2 ^ 53 \<Longrightarrow> \<exists>n. f64_ulp x = 1 / 2 ^ n"
proof -
  assume "\<bar>x\<bar> < 2 ^ 53"
  then have "ilog2 \<bar>x\<bar> < 53" using ilog2_below [of "\<bar>x\<bar>" 53] by simp
  then show ?thesis by (intro exI [of _ "nat (- max (- 1074) (ilog2 \<bar>x\<bar> - 52))"]) (auto simp: f64_ulp_def pow2_def max_def)
qed

lemma f64_ulp_le: "\<bar>x\<bar> < 2 ^ 53 \<Longrightarrow> f64_ulp x \<le> 1"
  using f64_ulp_small [of x] by auto

lemma f64_round_int: "\<bar>k\<bar> < 2 ^ 53 \<Longrightarrow> f64_round (of_int k) = of_int k"
proof -
  assume "\<bar>k\<bar> < 2 ^ 53"
  then have "\<bar>of_int k :: rat\<bar> < 2 ^ 53" by (metis of_int_abs of_int_less_iff of_int_numeral of_int_power)
  then obtain n where n: "f64_ulp (of_int k) = 1 / 2 ^ n" using f64_ulp_small by blast
  have "round_even (of_int k / (1 / 2 ^ n)) = k * 2 ^ n"
    using round_even_int [of "k * 2 ^ n"] by simp
  then show ?thesis using n by (simp add: f64_round_def)
qed

definition f64_add :: "f64 \<Rightarrow> f64 \<Rightarrow> f64" where "f64_add a b = f64_round (a + b)"
definition f64_sub :: "f64 \<Rightarrow> f64 \<Rightarrow> f64" where "f64_sub a b = f64_round (a - b)"
definition f64_half :: "f64 \<Rightarrow> f64" where "f64_half a = f64_round (a / 2)"

section \<open>Ranks\<close>

definition rank_between :: "f64 option \<Rightarrow> f64 option \<Rightarrow> f64 option" where
  "rank_between before after =
     (case (before, after) of
        (None, None) \<Rightarrow> Some APPEND_GAP
      | (Some b, None) \<Rightarrow> Some (f64_add b APPEND_GAP)
      | (None, Some a) \<Rightarrow> Some (f64_sub a APPEND_GAP)
      | (Some b, Some a) \<Rightarrow>
          (let (lo, hi) = if b \<le> a then (b, a) else (a, b);
               mid = f64_add lo (f64_half (f64_sub hi lo))
           in if mid > lo \<and> mid < hi then Some mid else None))"

definition normalized_ranks :: "nat \<Rightarrow> f64 list" where
  "normalized_ranks total_rows = map (\<lambda>i. f64_add (of_nat i) APPEND_GAP) [0..<total_rows]"

definition tame :: "f64 \<Rightarrow> bool" where
  "tame r \<longleftrightarrow> \<bar>r\<bar> < 2 ^ 53 - 1"

lemma append_rank: "tame b \<Longrightarrow> b < f64_add b APPEND_GAP"
proof -
  assume "tame b"
  then have "f64_ulp (b + 1) \<le> 1" by (intro f64_ulp_le) (auto simp: tame_def)
  then have "\<bar>f64_round (b + 1) - (b + 1)\<bar> \<le> 1 / 2" using f64_round_near [of "b + 1"] by linarith
  then show ?thesis unfolding f64_add_def APPEND_GAP_def by linarith
qed

lemma prepend_rank: "tame a \<Longrightarrow> f64_sub a APPEND_GAP < a"
proof -
  assume "tame a"
  then have "f64_ulp (a - 1) \<le> 1" by (intro f64_ulp_le) (auto simp: tame_def)
  then have "\<bar>f64_round (a - 1) - (a - 1)\<bar> \<le> 1 / 2" using f64_round_near [of "a - 1"] by linarith
  then show ?thesis unfolding f64_sub_def APPEND_GAP_def by linarith
qed

lemma rank_between_strict:
  assumes "rank_between before after = Some r"
    and "\<And>b a. before = Some b \<Longrightarrow> after = Some a \<Longrightarrow> b < a"
    and "\<And>b. before = Some b \<Longrightarrow> tame b" and "\<And>a. after = Some a \<Longrightarrow> tame a"
  shows "(\<forall>b. before = Some b \<longrightarrow> b < r) \<and> (\<forall>a. after = Some a \<longrightarrow> r < a)"
  using assms append_rank prepend_rank
  by (cases before; cases after) (auto simp: rank_between_def Let_def split: if_splits)

lemma normalized_rank: "i < total_rows \<Longrightarrow> total_rows < 2 ^ 53 \<Longrightarrow> normalized_ranks total_rows ! i = of_nat (Suc i)"
  using f64_round_int [of "int (Suc i)"] by (simp add: normalized_ranks_def f64_add_def APPEND_GAP_def add.commute)

lemma normalized_ranks_eq: "total_rows < 2 ^ 53 \<Longrightarrow> normalized_ranks total_rows = map (\<lambda>i. of_nat (Suc i)) [0..<total_rows]"
proof (rule nth_equalityI)
  assume c: "total_rows < 2 ^ 53"
  show "normalized_ranks total_rows ! i = map (\<lambda>i. of_nat (Suc i)) [0..<total_rows] ! i" if "i < length (normalized_ranks total_rows)" for i
    using that normalized_rank [OF _ c, of i] by (simp add: normalized_ranks_def)
qed (simp add: normalized_ranks_def)

lemma normalized_sorted: "total_rows < 2 ^ 53 \<Longrightarrow> sorted_wrt (<) (normalized_ranks total_rows)"
  by (simp add: normalized_ranks_eq sorted_wrt_map sorted_wrt_upt)

section \<open>Listings by rank\<close>

definition by_rank :: "(nat \<times> f64) list \<Rightarrow> nat list" where
  "by_rank items = map fst (sort_key snd items)"

definition rank_in :: "(nat \<times> f64) list \<Rightarrow> nat option \<Rightarrow> f64 option" where
  "rank_in items t = Option.bind t (map_of items)"

fun position :: "nat \<Rightarrow> nat list \<Rightarrow> nat option" where
  "position x [] = None"
| "position x (y # ys) = (if x = y then Some 0 else map_option Suc (position x ys))"

text \<open>The order a move asks for: the item after \<open>before\<close>, or before \<open>after\<close>, or at the end.\<close>

definition target_order :: "nat list \<Rightarrow> nat \<Rightarrow> nat option \<Rightarrow> nat option \<Rightarrow> nat list" where
  "target_order ids i before after =
     (let others = filter (\<lambda>x. x \<noteq> i) ids;
          pos = (case before of
                   Some b \<Rightarrow> (case position b others of None \<Rightarrow> length others | Some p \<Rightarrow> Suc p)
                 | None \<Rightarrow> (case after of Some a \<Rightarrow> unwrap_or (position a others) 0 | None \<Rightarrow> length others));
          k = min pos (length others)
      in take k others @ i # drop k others)"

definition set_rank :: "nat \<Rightarrow> f64 \<Rightarrow> (nat \<times> f64) list \<Rightarrow> (nat \<times> f64) list" where
  "set_rank i r items = map (\<lambda>(j, q). (j, if j = i then r else q)) items"

lemma map_fst_set_rank [simp]: "map fst (set_rank i r items) = map fst items"
  by (simp add: set_rank_def case_prod_beta comp_def)

lemma fst_set_set_rank [simp]: "fst ` set (set_rank i r items) = fst ` set items"
  by (metis list.set_map map_fst_set_rank)

lemma by_rank_unique:
  assumes "mset items = mset ys" and "sorted_wrt (<) (map snd ys)"
  shows "by_rank items = map fst ys"
proof -
  have "distinct (map snd ys)" using assms(2) by (simp add: strict_sorted_iff)
  then have "inj_on snd (set items)" using assms(1) by (metis distinct_map mset_eq_setD)
  moreover have "sorted (map snd ys)" using assms(2) by (simp add: strict_sorted_iff)
  ultimately show ?thesis using assms(1) by (simp add: by_rank_def sort_key_inj_key_eq)
qed

definition neighbours :: "nat list \<Rightarrow> nat \<Rightarrow> nat option \<times> nat option" where
  "neighbours others k =
     (if k = 0 then None else Some (others ! (k - 1)), if k < length others then Some (others ! k) else None)"

lemma position_nth: "distinct xs \<Longrightarrow> k < length xs \<Longrightarrow> position (xs ! k) xs = Some k"
proof (induction xs arbitrary: k)
  case (Cons x xs)
  then show ?case by (cases k) auto
qed simp

lemma target_order_between:
  assumes "distinct ids" and "k \<le> length (filter (\<lambda>x. x \<noteq> i) ids)"
    and "(before, after) = neighbours (filter (\<lambda>x. x \<noteq> i) ids) k"
  shows "target_order ids i before after =
    take k (filter (\<lambda>x. x \<noteq> i) ids) @ i # drop k (filter (\<lambda>x. x \<noteq> i) ids)"
proof -
  let ?o = "filter (\<lambda>x. x \<noteq> i) ids"
  have d: "distinct ?o" using assms(1) by simp
  show ?thesis
  proof (cases k)
    case 0
    then show ?thesis using assms(3) position_nth [OF d, of 0]
      by (cases ?o) (auto simp: neighbours_def target_order_def Let_def unwrap_or_def)
  next
    case (Suc m)
    then show ?thesis using assms(2,3) position_nth [OF d, of m]
      by (auto simp: neighbours_def target_order_def Let_def)
  qed
qed

lemma mset_set_rank:
  "distinct (map fst items) \<Longrightarrow> i \<in> fst ` set items \<Longrightarrow>
     mset (set_rank i r items) = add_mset (i, r) (mset (filter (\<lambda>p. fst p \<noteq> i) items))"
proof (induction items)
  case (Cons p items)
  obtain j q where p: "p = (j, q)" by (cases p)
  show ?case
  proof (cases "j = i")
    case True
    then have "\<forall>p\<in>set items. fst p \<noteq> i" using Cons.prems(1) p by auto
    moreover from this have "set_rank i r items = items" by (induction items) (auto simp: set_rank_def)
    moreover have "filter (\<lambda>p. fst p \<noteq> i) items = items" using calculation(1) by simp
    ultimately show ?thesis using True p by (simp add: set_rank_def)
  next
    case False
    then have "i \<in> fst ` set items" using Cons.prems(2) p by auto
    with Cons False p show ?thesis by (simp add: set_rank_def)
  qed
qed simp

lemma sorted_insert_between:
  assumes "sorted_wrt (<) (map snd P)" and "k \<le> length P"
    and "k \<noteq> 0 \<Longrightarrow> snd (P ! (k - 1)) < r" and "k < length P \<Longrightarrow> r < snd (P ! k)"
  shows "sorted_wrt (<) (map snd (take k P @ (i, r :: f64) # drop k P))"
proof -
  have idx: "a < b \<Longrightarrow> b < length P \<Longrightarrow> snd (P ! a) < snd (P ! b)" for a b
    using sorted_wrt_nth_less [OF assms(1), of a b] by simp
  have below: "snd (P ! a) < r" if "a < k" for a
  proof (cases "a = k - 1")
    case False
    then have "snd (P ! a) < snd (P ! (k - 1))" using that assms(2) by (intro idx) linarith+
    then show ?thesis using assms(3) that by simp
  qed (use that assms(3) in simp)
  have above: "r < snd (P ! b)" if "k \<le> b" "b < length P" for b
  proof (cases "b = k")
    case False
    then have "snd (P ! k) < snd (P ! b)" using that by (intro idx) simp_all
    then show ?thesis using assms(4) that by simp
  qed (use that assms(4) in simp)
  have parts: "sorted_wrt (<) (map snd (take k P @ drop k P))" using assms(1) by simp
  have "\<forall>x\<in>set (map snd (take k P)). x < r" using below by (fastforce simp: in_set_conv_nth)
  moreover have "\<forall>y\<in>set (map snd (drop k P)). r < y"
  proof
    fix y
    assume "y \<in> set (map snd (drop k P))"
    then obtain m where "m < length P - k" "y = snd (P ! (k + m))" by (auto simp: in_set_conv_nth)
    then show "r < y" using above [of "k + m"] by simp
  qed
  ultimately show ?thesis using parts unfolding map_append sorted_wrt_append by (fastforce simp: sorted_wrt_append)
qed

definition ranks_ok :: "(nat \<times> f64) list \<Rightarrow> bool" where
  "ranks_ok items \<longleftrightarrow> distinct (map fst items) \<and> distinct (map snd items) \<and> list_all (\<lambda>p. tame (snd p)) items"

text \<open>A move between two neighbours puts the item there and leaves the others in their order.\<close>

lemma move_places:
  assumes "ranks_ok items" and "i \<in> fst ` set items"
    and "k \<le> length others" and "others = filter (\<lambda>x. x \<noteq> i) (by_rank items)"
    and "(before, after) = neighbours others k"
    and "rank_between (rank_in items before) (rank_in items after) = Some r"
  shows "by_rank (set_rank i r items) = take k others @ i # drop k others"
proof -
  define P where "P = filter (\<lambda>p. fst p \<noteq> i) (sort_key snd items)"
  have others: "others = map fst P" unfolding assms(4) by_rank_def filter_map P_def by (simp add: comp_def)
  have "sorted (map snd (sort_key snd items))" "distinct (map snd (sort_key snd items))"
    using assms(1) by (simp_all add: ranks_ok_def distinct_map)
  then have "sorted_wrt (<) (map snd (sort_key snd items))" by (simp add: strict_sorted_iff)
  then have P: "sorted_wrt (<) (map snd P)" by (simp add: P_def sorted_wrt_map sorted_wrt_filter)
  have find: "rank_in items (Some (fst p)) = Some (snd p)" "tame (snd p)" if "p \<in> set P" for p
    using that assms(1) by (auto simp: P_def rank_in_def ranks_ok_def list_all_iff intro!: map_of_is_SomeI)
  have nb: "k \<noteq> 0 \<Longrightarrow> before = Some (fst (P ! (k - 1)))" "k = 0 \<Longrightarrow> before = None"
      "k < length P \<Longrightarrow> after = Some (fst (P ! k))" "k = length P \<Longrightarrow> after = None"
    using assms(3,5) by (auto simp: neighbours_def others)
  have k: "k \<le> length P" using assms(3) others by simp
  have b: "rank_in items before = (if k = 0 then None else Some (snd (P ! (k - 1))))"
    using nb(1,2) find(1) [of "P ! (k - 1)"] k by (cases "k = 0") (simp_all add: rank_in_def)
  have a: "rank_in items after = (if k < length P then Some (snd (P ! k)) else None)"
    using nb(3,4) find(1) [of "P ! k"] k by (cases "k = length P") (simp_all add: rank_in_def)
  have "(\<forall>x. rank_in items before = Some x \<longrightarrow> x < r) \<and> (\<forall>x. rank_in items after = Some x \<longrightarrow> r < x)"
  proof (rule rank_between_strict [OF assms(6)])
    show "x < y" if "rank_in items before = Some x" "rank_in items after = Some y" for x y
      using that a b sorted_wrt_nth_less [OF P, of "k - 1" k] by (simp split: if_splits)
    show "tame x" if "rank_in items before = Some x" for x
      using that b k find(2) [of "P ! (k - 1)"] by (simp split: if_splits)
    show "tame x" if "rank_in items after = Some x" for x
      using that a find(2) [of "P ! k"] by (simp split: if_splits)
  qed
  then have "sorted_wrt (<) (map snd (take k P @ (i, r) # drop k P))"
    using a b by (intro sorted_insert_between P k) simp_all
  moreover have "mset (set_rank i r items) = mset (take k P @ (i, r) # drop k P)"
  proof -
    have "mset P = mset (take k P) + mset (drop k P)" by (simp flip: mset_append)
    then show ?thesis using mset_set_rank [of items i r] assms(1,2) by (simp add: ranks_ok_def P_def)
  qed
  ultimately have "by_rank (set_rank i r items) = map fst (take k P @ (i, r) # drop k P)"
    by (intro by_rank_unique)
  then show ?thesis by (simp add: others take_map drop_map)
qed

lemma fold_set_rank:
  "distinct (map fst ps) \<Longrightarrow> fold (\<lambda>(i, r). set_rank i r) ps items =
     map (\<lambda>(j, q). (j, case map_of ps j of None \<Rightarrow> q | Some r \<Rightarrow> r)) items"
proof (induction ps arbitrary: items)
  case (Cons p ps)
  obtain i r where p: "p = (i, r)" by (cases p)
  have "map_of ps i = None" using Cons.prems p by (simp add: map_of_eq_None_iff)
  then show ?case using Cons p by (auto simp: set_rank_def split: option.split)
qed simp

lemma renumber_places:
  assumes "distinct order" and "set order = fst ` set items" and "distinct (map fst items)" and "length order < 2 ^ 53"
  shows "by_rank (fold (\<lambda>(i, r). set_rank i r) (zip order (normalized_ranks (length order))) items) = order"
proof -
  let ?ps = "zip order (normalized_ranks (length order))"
  have len: "length (normalized_ranks (length order)) = length order" by (simp add: normalized_ranks_def)
  then have fst: "map fst ?ps = order" and snd: "map snd ?ps = normalized_ranks (length order)" by simp_all
  let ?r = "\<lambda>j. (j, case map_of ?ps j of None \<Rightarrow> 0 | Some r \<Rightarrow> r)"
  have "fold (\<lambda>(i, r). set_rank i r) ?ps items = map ?r (map fst items)"
  proof -
    have known: "map_of ?ps j = None \<Longrightarrow> (j, q) \<notin> set items" for j q
      using assms(2) fst by (metis fst_conv image_eqI list.set_map map_of_eq_None_iff)
    then show ?thesis using assms(1) fst
      by (subst fold_set_rank) (auto dest: known split: option.split)
  qed
  moreover have "?ps = map ?r order"
  proof (rule nth_equalityI)
    fix m
    assume "m < length ?ps"
    then have m: "m < length order" by simp
    then have "map_of ?ps (order ! m) = Some (normalized_ranks (length order) ! m)"
      using assms(1) len by (intro map_of_zip_nth) simp_all
    then show "?ps ! m = map ?r order ! m" using m len by simp
  qed (simp add: len)
  moreover have "mset order = mset (map fst items)"
    using assms(1-3) by (intro iffD1 [OF set_eq_iff_mset_eq_distinct]) simp_all
  ultimately have "mset (fold (\<lambda>(i, r). set_rank i r) ?ps items) = mset ?ps" by (metis mset_map)
  moreover have "sorted_wrt (<) (map snd ?ps)" unfolding snd by (rule normalized_sorted [OF assms(4)])
  ultimately show ?thesis using fst by (metis by_rank_unique)
qed

lemma by_rank_perm: "set (by_rank items) = fst ` set items" "distinct (map fst items) \<Longrightarrow> distinct (by_rank items)"
  by (simp_all add: by_rank_def distinct_map)

lemma target_order_perm:
  assumes "distinct ids" and "i \<in> set ids"
  shows "distinct (target_order ids i before after)" and "set (target_order ids i before after) = set ids"
    and "length (target_order ids i before after) = length ids"
proof -
  let ?o = "filter (\<lambda>x. x \<noteq> i) ids"
  obtain k where k: "target_order ids i before after = take k ?o @ i # drop k ?o"
    by (simp add: target_order_def Let_def)
  have "distinct (take k ?o @ drop k ?o)" using assms(1) by simp
  then show "distinct (target_order ids i before after)"
    unfolding k by (auto simp del: append_take_drop_id dest: in_set_takeD in_set_dropD)
  have all: "set (take k ?o @ drop k ?o) = set ?o" by simp
  show "set (target_order ids i before after) = set ids"
    using all assms(2) unfolding k by (auto simp del: append_take_drop_id)
  then show "length (target_order ids i before after) = length ids"
    using \<open>distinct (target_order ids i before after)\<close> assms(1) by (metis distinct_card)
qed

section \<open>Tables with ranks\<close>

locale rank_table =
  fixes ranks :: "'s \<Rightarrow> (nat \<times> f64) list" and put_rank :: "nat \<Rightarrow> f64 \<Rightarrow> 's \<Rightarrow> 's"
  assumes ranks_put: "ranks (put_rank i r s) = set_rank i r (ranks s)"
begin

lemma ranks_fold: "ranks (fold (\<lambda>(i, r). put_rank i r) ps s) = fold (\<lambda>(i, r). set_rank i r) ps (ranks s)"
  by (induction ps arbitrary: s) (auto simp: ranks_put)

text \<open>Whether a midpoint is left or the whole list is renumbered, the item ends up at its place.\<close>

lemma moved_to_target:
  assumes "ranks_ok (ranks s)" and "i \<in> fst ` set (ranks s)" and "length (ranks s) < 2 ^ 53"
    and "k \<le> length others" and "others = filter (\<lambda>x. x \<noteq> i) (by_rank (ranks s))"
    and "(before, after) = neighbours others k"
    and "t = (case rank_between (rank_in (ranks s) before) (rank_in (ranks s) after) of
       Some r \<Rightarrow> put_rank i r s
     | None \<Rightarrow> (let order = target_order (by_rank (ranks s)) i before after
               in fold (\<lambda>(j, r). put_rank j r) (zip order (normalized_ranks (length order))) s))"
  shows "by_rank (ranks t) = take k others @ i # drop k others"
proof (cases "rank_between (rank_in (ranks s) before) (rank_in (ranks s) after)")
  case (Some r)
  then show ?thesis using move_places [OF assms(1,2,4-6)] assms(7) by (simp add: ranks_put)
next
  case None
  let ?ids = "by_rank (ranks s)"
  let ?order = "target_order ?ids i before after"
  have ids: "distinct ?ids" "set ?ids = fst ` set (ranks s)" "length ?ids = length (ranks s)"
    using assms(1) by (simp_all add: by_rank_perm ranks_ok_def) (simp add: by_rank_def)
  then have "i \<in> set ?ids" using assms(2) by simp
  note perm = target_order_perm [OF ids(1) this, of before after]
  have "by_rank (fold (\<lambda>(i, r). set_rank i r) (zip ?order (normalized_ranks (length ?order))) (ranks s)) = ?order"
    using assms(1,3) perm ids(2,3) by (intro renumber_places) (simp_all add: ranks_ok_def)
  then have "by_rank (ranks t) = ?order"
    using None assms(7) by (simp add: Let_def ranks_fold)
  moreover have "?order = take k others @ i # drop k others"
    using target_order_between [OF ids(1)] assms(4-6) by simp
  ultimately show ?thesis by simp
qed

end

end
