(* ===== verification/Tracker_Db.thy ===== *)
theory Tracker_Db
  imports Ranks Admin
begin

text \<open>
  The backlog side of the database: the taxonomy (\<open>crates/db/src/taxonomy.rs\<close>), epics and issues with
  their relations (\<open>backlog.rs\<close>, \<open>labels.rs\<close>, \<open>issue_links.rs\<close>, \<open>issue_watchers.rs\<close>), comments and
  history (\<open>comments.rs\<close>, \<open>history.rs\<close>) and stored responses (\<open>idempotency.rs\<close>), with the triggers and
  the foreign keys of the migrations: an issue's milestone follows its epic (V019), its release version
  mirrors the first component version (V022), an update stamps \<open>modified_at\<close> (V001).

  Dates are day numbers. Of attachments, customers, releases and components the columns are kept that
  these operations read. A version counter is unbounded. The search index is derived data and left out,
  as is the list of time entries that an issue's deletion detaches.
\<close>

section \<open>Tables\<close>

record epic_row =
  ep_id :: nat
  ep_project_id :: pid
  ep_ref :: int
  ep_subject :: ustr
  ep_description :: ustr
  ep_status_id :: "nat option"
  ep_color :: ustr
  ep_owner_id :: "uid option"
  ep_assigned_to :: "uid option"
  ep_milestone_id :: "nat option"
  ep_start_date :: "int option"
  ep_end_date :: "int option"
  ep_cover_image :: "(ustr \<times> ustr) option"
  ep_cover_updated_at :: "int option"
  ep_order :: f64
  ep_version :: int
  ep_created_at :: int
  ep_modified_at :: int
  ep_deleted_at :: "int option"
  ep_grace_until :: "int option"

record issue_row =
  is_id :: nat
  is_project_id :: pid
  is_ref :: int
  is_subject :: ustr
  is_description :: ustr
  is_status_id :: "nat option"
  is_type_id :: "nat option"
  is_priority_id :: "nat option"
  is_size_id :: "nat option"
  is_epic_id :: "nat option"
  is_parent_id :: "nat option"
  is_milestone_id :: "nat option"
  is_owner_id :: "uid option"
  is_assigned_to :: "uid option"
  is_qa_assignee_id :: "uid option"
  is_reviewer_id :: "uid option"
  is_category :: "ustr option"
  is_start_date :: "int option"
  is_due_date :: "int option"
  is_resolution :: "ustr option"
  is_resolved_at :: "int option"
  is_release_version_id :: "nat option"
  is_release_text :: "ustr option"
  is_order :: f64
  is_version :: int
  is_created_at :: int
  is_modified_at :: int
  is_deleted_at :: "int option"
  is_grace_until :: "int option"

record milestone_row =
  ms_id :: nat
  ms_project_id :: pid
  ms_name :: ustr
  ms_slug :: ustr
  ms_description :: ustr
  ms_start_date :: "int option"
  ms_actual_start_date :: "int option"
  ms_end_date :: "int option"
  ms_actual_end_date :: "int option"
  ms_business_release_date :: "int option"
  ms_closed :: bool
  ms_closed_at :: "int option"
  ms_order :: f64
  ms_version :: int
  ms_created_at :: int
  ms_modified_at :: int
  ms_deleted_at :: "int option"

record label_row =
  lb_id :: nat
  lb_project_id :: pid
  lb_name :: ustr
  lb_color :: ustr
  lb_created_at :: int

record version_row =
  vr_id :: nat
  vr_release_id :: nat
  vr_order :: f64

record link_row =
  ln_id :: nat
  ln_project_id :: pid
  ln_source :: nat
  ln_target :: nat
  ln_type :: ustr
  ln_created_at :: int

record comment_row =
  cm_id :: nat
  cm_project_id :: pid
  cm_target_type :: ustr
  cm_target_id :: nat
  cm_author_id :: "uid option"
  cm_body :: ustr
  cm_body_html :: ustr
  cm_edited_at :: "int option"
  cm_created_at :: int
  cm_deleted_at :: "int option"

text \<open>The JSON values of a history difference, and a difference: the changed fields, old and new.\<close>

datatype jval = JNull | JText ustr | JId nat | JIds "nat list" | JInt int

datatype diff = Created | Deleted | Changed "(ustr \<times> jval \<times> jval) list"

record history_entry =
  he_project_id :: pid
  he_target_type :: ustr
  he_target_id :: nat
  he_actor_id :: "uid option"
  he_diff :: diff
  he_created_at :: int

record attachment_row =
  at_target_type :: ustr
  at_target_id :: nat
  at_storage_key :: ustr
  at_deleted_at :: "int option"

record ComponentVersion =
  cv_component_id :: nat
  cv_release_version_id :: nat

text \<open>Epics and issues as the API shows them: the row, the parsed enumerations, the relations.\<close>

record Epic =
  eo_row :: epic_row
  eo_task_total :: nat
  eo_task_closed :: nat

record Issue =
  io_row :: issue_row
  io_category :: "IssueCategory option"
  io_resolution :: "Resolution option"
  io_labels :: "nat list"
  io_components :: "nat list"
  io_component_versions :: "ComponentVersion list"
  io_customer_ids :: "nat list"
  io_watchers :: "uid list"

text \<open>A stored response: its body is the entity that was created.\<close>

datatype created_body = EpicBody Epic | IssueBody Issue

record idem_row =
  id_user_id :: uid
  id_key :: ustr
  id_method :: ustr
  id_path :: ustr
  id_status :: nat
  id_body :: created_body
  id_expires_at :: int

text \<open>What is published on the project's event channel (\<open>crates/api/src/events.rs\<close>).\<close>

datatype event =
    IssueEvent ustr uid Issue
  | IssueGone uid nat
  | EpicEvent ustr uid Epic
  | EpicGone uid nat
  | CommentEvent ustr uid ustr nat nat
  | BoardChanged uid nat

text \<open>An entry of the time tracking; its link to an issue is cleared when that is purged.\<close>

record time_row =
  te_id :: nat
  te_user_id :: uid
  te_kind :: ustr
  te_meeting_type :: "ustr option"
  te_project_id :: "pid option"
  te_issue_id :: "nat option"
  te_entry_date :: int
  te_minutes :: int
  te_note :: ustr
  te_booking_id :: "nat option"
  te_created_at :: int
  te_modified_at :: int
  te_version :: int

record tracker = store +
  ref_counters :: "(pid \<times> int \<times> int) list"
  epics :: "epic_row list"
  issues :: "issue_row list"
  milestones :: "milestone_row list"
  label_rows :: "label_row list"
  component_rows :: "label_row list"
  customer_rows :: "(nat \<times> pid) list"
  release_rows :: "(nat \<times> pid) list"
  version_rows :: "version_row list"
  component_releases :: "(nat \<times> nat) list"
  issue_labels :: "(nat \<times> nat) list"
  issue_components :: "(nat \<times> nat) list"
  issue_customers :: "(nat \<times> nat) list"
  issue_watchers :: "(nat \<times> uid) list"
  issue_versions :: "(nat \<times> ComponentVersion) list"
  link_rows :: "link_row list"
  comment_rows :: "comment_row list"
  history_log :: "history_entry list"
  attachment_rows :: "attachment_row list"
  idem_rows :: "idem_row list"
  published :: "(pid \<times> event) list"
  time_entries :: "time_row list"

section \<open>Triggers and foreign keys\<close>

definition live_epic :: "nat \<Rightarrow> epic_row \<Rightarrow> bool" where
  "live_epic i e \<longleftrightarrow> ep_id e = i \<and> ep_deleted_at e = None"

definition epic_milestone :: "epic_row list \<Rightarrow> nat option \<Rightarrow> nat option" where
  "epic_milestone es e = Option.bind e (\<lambda>i. Option.bind (find_row (live_epic i) es) ep_milestone_id)"

text \<open>Before an insert or update of an issue: its milestone is that of its epic, if that is not deleted.\<close>

definition issue_milestone_from_epic :: "'t tracker_scheme \<Rightarrow> issue_row \<Rightarrow> issue_row" where
  "issue_milestone_from_epic s r = r\<lparr>is_milestone_id := epic_milestone (epics s) (is_epic_id r)\<rparr>"

definition update_issues :: "(issue_row \<Rightarrow> bool) \<Rightarrow> (issue_row \<Rightarrow> issue_row) \<Rightarrow> 't tracker_scheme \<Rightarrow> 't tracker_scheme" where
  "update_issues P f s =
     s\<lparr>issues := update_where P (\<lambda>r. issue_milestone_from_epic s ((f r)\<lparr>is_modified_at := db_now s\<rparr>)) (issues s)\<rparr>"

text \<open>After an update of an epic that moves it or changes whether it is deleted.\<close>

definition effective_milestone :: "epic_row \<Rightarrow> nat option" where
  "effective_milestone e = (if ep_deleted_at e = None then ep_milestone_id e else None)"

definition epic_milestone_cascade :: "epic_row \<Rightarrow> 't tracker_scheme \<Rightarrow> 't tracker_scheme" where
  "epic_milestone_cascade e s =
     update_issues (\<lambda>r. is_epic_id r = Some (ep_id e) \<and> is_milestone_id r \<noteq> effective_milestone e)
       (\<lambda>r. r\<lparr>is_milestone_id := effective_milestone e\<rparr>) s"

definition epic_moved :: "epic_row \<Rightarrow> epic_row \<Rightarrow> bool" where
  "epic_moved old new \<longleftrightarrow>
     ep_milestone_id new \<noteq> ep_milestone_id old \<or> (ep_deleted_at new = None) \<noteq> (ep_deleted_at old = None)"

definition update_epics :: "(epic_row \<Rightarrow> bool) \<Rightarrow> (epic_row \<Rightarrow> epic_row) \<Rightarrow> 't tracker_scheme \<Rightarrow> 't tracker_scheme" where
  "update_epics P f s =
     (let g = \<lambda>e. (f e)\<lparr>ep_modified_at := db_now s\<rparr>
      in fold (\<lambda>e. epic_milestone_cascade (g e)) (filter (\<lambda>e. P e \<and> epic_moved e (g e)) (epics s))
           (s\<lparr>epics := update_where P g (epics s)\<rparr>))"

text \<open>The release version of an issue mirrors the first of its component versions by order.\<close>

definition first_version :: "'t tracker_scheme \<Rightarrow> nat \<Rightarrow> nat option" where
  "first_version s i =
     (let vs = filter (\<lambda>v. (\<exists>p\<in>set (issue_versions s). fst p = i \<and> cv_release_version_id (snd p) = vr_id v)) (version_rows s)
      in case sort_key vr_order (sort_key vr_id vs) of [] \<Rightarrow> None | v # _ \<Rightarrow> Some (vr_id v))"

definition issue_mirror_release_version :: "nat \<Rightarrow> 't tracker_scheme \<Rightarrow> 't tracker_scheme" where
  "issue_mirror_release_version i s =
     update_issues (\<lambda>r. is_id r = i \<and> is_release_version_id r \<noteq> first_version s i)
       (\<lambda>r. r\<lparr>is_release_version_id := first_version s i\<rparr>) s"

definition delete_versions :: "(nat \<times> ComponentVersion \<Rightarrow> bool) \<Rightarrow> 't tracker_scheme \<Rightarrow> 't tracker_scheme" where
  "delete_versions P s =
     fold issue_mirror_release_version (map fst (filter P (issue_versions s)))
       (s\<lparr>issue_versions := delete_where P (issue_versions s)\<rparr>)"

text \<open>Deleting an assigned component prunes its version.\<close>

definition delete_issue_components :: "(nat \<times> nat \<Rightarrow> bool) \<Rightarrow> 't tracker_scheme \<Rightarrow> 't tracker_scheme" where
  "delete_issue_components P s =
     fold (\<lambda>p. delete_versions (\<lambda>q. fst q = fst p \<and> cv_component_id (snd q) = snd p)) (filter P (issue_components s))
       (s\<lparr>issue_components := delete_where P (issue_components s)\<rparr>)"

definition clear_ref :: "nat \<Rightarrow> nat option \<Rightarrow> nat option" where
  "clear_ref i x = (if x = Some i then None else x)"

text \<open>\<open>ON DELETE SET NULL\<close> of the taxonomy.\<close>

definition detach_item :: "nat \<Rightarrow> 't tracker_scheme \<Rightarrow> 't tracker_scheme" where
  "detach_item i s =
     update_epics (\<lambda>e. ep_status_id e = Some i) (\<lambda>e. e\<lparr>ep_status_id := None\<rparr>)
       (update_issues
          (\<lambda>r. is_status_id r = Some i \<or> is_type_id r = Some i \<or> is_priority_id r = Some i \<or> is_size_id r = Some i)
          (\<lambda>r. r\<lparr>is_status_id := clear_ref i (is_status_id r), is_type_id := clear_ref i (is_type_id r),
                 is_priority_id := clear_ref i (is_priority_id r), is_size_id := clear_ref i (is_size_id r)\<rparr>) s)"

definition known_ref :: "nat option \<Rightarrow> nat list \<Rightarrow> bool" where
  "known_ref x ids \<longleftrightarrow> (case x of None \<Rightarrow> True | Some i \<Rightarrow> i \<in> set ids)"

definition issue_refs_ok :: "'t tracker_scheme \<Rightarrow> issue_row \<Rightarrow> bool" where
  "issue_refs_ok s r \<longleftrightarrow>
     known_ref (is_status_id r) (map x_id (taxonomy s)) \<and> known_ref (is_type_id r) (map x_id (taxonomy s)) \<and>
     known_ref (is_priority_id r) (map x_id (taxonomy s)) \<and> known_ref (is_size_id r) (map x_id (taxonomy s)) \<and>
     known_ref (is_epic_id r) (map ep_id (epics s)) \<and> known_ref (is_parent_id r) (is_id r # map is_id (issues s)) \<and>
     known_ref (is_assigned_to r) (map u_id (users s)) \<and> known_ref (is_qa_assignee_id r) (map u_id (users s)) \<and>
     known_ref (is_reviewer_id r) (map u_id (users s)) \<and> known_ref (is_owner_id r) (map u_id (users s)) \<and>
     known_ref (is_release_version_id r) (map vr_id (version_rows s))"

definition epic_refs_ok :: "'t tracker_scheme \<Rightarrow> epic_row \<Rightarrow> bool" where
  "epic_refs_ok s e \<longleftrightarrow>
     known_ref (ep_status_id e) (map x_id (taxonomy s)) \<and> known_ref (ep_owner_id e) (map u_id (users s)) \<and>
     known_ref (ep_assigned_to e) (map u_id (users s)) \<and> known_ref (ep_milestone_id e) (map ms_id (milestones s))"

section \<open>Taxonomy\<close>

record TaxonomyItem =
  ti_row :: taxonomy_row
  ti_kind :: TaxonomyKind

definition row_to_item :: "taxonomy_row \<Rightarrow> TaxonomyItem" where
  "row_to_item r = \<lparr>ti_row = r, ti_kind = unwrap_or (TaxonomyKind_parse (x_kind r)) Priority\<rparr>"

definition in_kind :: "pid \<Rightarrow> TaxonomyKind \<Rightarrow> taxonomy_row \<Rightarrow> bool" where
  "in_kind p kind r \<longleftrightarrow> x_project_id r = p \<and> x_kind r = TaxonomyKind_as_str kind"

definition is_new_status :: "pid \<Rightarrow> taxonomy_row \<Rightarrow> bool" where
  "is_new_status p r \<longleftrightarrow> in_kind p IssueStatus r \<and> x_is_new r = Some True"

definition new_status_id :: "pid \<Rightarrow> ('t tracker_scheme, nat option) db" where
  "new_status_id p = query (\<lambda>s. map_option x_id (find_row (is_new_status p) (taxonomy s)))"

definition clear_is_new :: "pid \<Rightarrow> ('t tracker_scheme, unit) db" where
  "clear_is_new p = execute (\<lambda>s. ())
     (\<lambda>s. s\<lparr>taxonomy := update_where (is_new_status p) (\<lambda>r. r\<lparr>x_is_new := Some False\<rparr>) (taxonomy s)\<rparr>)"

definition items_of :: "pid \<Rightarrow> TaxonomyKind \<Rightarrow> 't tracker_scheme \<Rightarrow> taxonomy_row list" where
  "items_of p kind s = sort_key x_order (filter (in_kind p kind) (taxonomy s))"

definition taxonomy_list :: "pid \<Rightarrow> TaxonomyKind \<Rightarrow> ('t tracker_scheme, TaxonomyItem list) db" where
  "taxonomy_list p kind = query (\<lambda>s. map row_to_item (items_of p kind s))"

text \<open>The largest value of a column, none on an empty table.\<close>

definition greatest :: "f64 list \<Rightarrow> f64 option" where
  "greatest rs = (case rs of [] \<Rightarrow> None | r # rs' \<Rightarrow> Some (fold max rs' r))"

definition max_order :: "pid \<Rightarrow> TaxonomyKind \<Rightarrow> ('t tracker_scheme, f64 option) db" where
  "max_order p kind = query (\<lambda>s. greatest (map x_order (filter (in_kind p kind) (taxonomy s))))"

text \<open>The unique constraints: the slug in its project and kind, and one new status per project.\<close>

definition taxonomy_clash :: "taxonomy_row \<Rightarrow> taxonomy_row \<Rightarrow> bool" where
  "taxonomy_clash r q \<longleftrightarrow>
     x_id q \<noteq> x_id r \<and> x_project_id q = x_project_id r \<and>
     (x_kind q = x_kind r \<and> x_slug q = x_slug r \<or>
      is_new_status (x_project_id r) q \<and> is_new_status (x_project_id r) r)"

record NewTaxonomyItem =
  nt_name :: ustr
  nt_slug :: ustr
  nt_color :: ustr
  nt_emoji :: ustr
  nt_is_closed :: "bool option"
  nt_counts_as_done :: "bool option"
  nt_is_new :: "bool option"
  nt_value :: "f64 option"

definition taxonomy_create :: "pid \<Rightarrow> TaxonomyKind \<Rightarrow> NewTaxonomyItem \<Rightarrow> ('t tracker_scheme, TaxonomyItem) db" where
  "taxonomy_create p kind new = do {
     top \<leftarrow> max_order p kind;
     case top of
       Inl e \<Rightarrow> State_Monad.return (Inl e)
     | Inr m \<Rightarrow> stmt (\<lambda>s.
         let row = \<lparr>x_id = next_id s, x_project_id = p, x_kind = TaxonomyKind_as_str kind, x_name = nt_name new,
               x_slug = nt_slug new, x_color = nt_color new, x_emoji = nt_emoji new,
               x_order = unwrap_or (rank_between m None) 1, x_is_closed = nt_is_closed new,
               x_counts_as_done = nt_counts_as_done new, x_is_new = nt_is_new new, x_value = nt_value new,
               x_created_at = db_now s\<rparr>
         in if any_row (taxonomy_clash row) (taxonomy s) then (Inl UniqueViolation, s)
            else (Inr (row_to_item row), s\<lparr>taxonomy := taxonomy s @ [row], next_id := Suc (next_id s)\<rparr>))
   }"

definition or_else :: "'a option \<Rightarrow> 'a option \<Rightarrow> 'a option" where
  "or_else x y = (case x of None \<Rightarrow> y | Some _ \<Rightarrow> x)"

record TaxonomyPatch =
  tp_name :: "ustr option"
  tp_color :: "ustr option"
  tp_emoji :: "ustr option"
  tp_is_closed :: "bool option"
  tp_counts_as_done :: "bool option"
  tp_is_new :: "bool option"
  tp_value :: "f64 option"

definition patch_item :: "TaxonomyPatch \<Rightarrow> taxonomy_row \<Rightarrow> taxonomy_row" where
  "patch_item u r = r\<lparr>x_name := unwrap_or (tp_name u) (x_name r), x_color := unwrap_or (tp_color u) (x_color r),
     x_emoji := unwrap_or (tp_emoji u) (x_emoji r), x_is_closed := or_else (tp_is_closed u) (x_is_closed r),
     x_counts_as_done := or_else (tp_counts_as_done u) (x_counts_as_done r),
     x_is_new := or_else (tp_is_new u) (x_is_new r), x_value := or_else (tp_value u) (x_value r)\<rparr>"

definition is_item :: "pid \<Rightarrow> TaxonomyKind \<Rightarrow> nat \<Rightarrow> taxonomy_row \<Rightarrow> bool" where
  "is_item p kind i r \<longleftrightarrow> x_id r = i \<and> in_kind p kind r"

definition taxonomy_edit ::
    "pid \<Rightarrow> TaxonomyKind \<Rightarrow> nat \<Rightarrow> TaxonomyPatch \<Rightarrow> ('t tracker_scheme, TaxonomyItem option) db" where
  "taxonomy_edit p kind i u = stmt (\<lambda>s.
     case find_row (is_item p kind i) (taxonomy s) of
       None \<Rightarrow> (Inr None, s)
     | Some r \<Rightarrow>
         if any_row (taxonomy_clash (patch_item u r)) (taxonomy s) then (Inl UniqueViolation, s)
         else (Inr (Some (row_to_item (patch_item u r))),
               s\<lparr>taxonomy := update_where (is_item p kind i) (patch_item u) (taxonomy s)\<rparr>))"

definition taxonomy_delete :: "pid \<Rightarrow> TaxonomyKind \<Rightarrow> nat \<Rightarrow> ('t tracker_scheme, bool) db" where
  "taxonomy_delete p kind i =
     execute (\<lambda>s. affected (is_item p kind i) (taxonomy s) > 0)
       (\<lambda>s. if any_row (is_item p kind i) (taxonomy s)
            then detach_item i (s\<lparr>taxonomy := delete_where (is_item p kind i) (taxonomy s)\<rparr>) else s)"

definition put_item_rank :: "pid \<Rightarrow> TaxonomyKind \<Rightarrow> nat \<Rightarrow> f64 \<Rightarrow> 't tracker_scheme \<Rightarrow> 't tracker_scheme" where
  "put_item_rank p kind i r s =
     s\<lparr>taxonomy := update_where (is_item p kind i) (\<lambda>row. row\<lparr>x_order := r\<rparr>) (taxonomy s)\<rparr>"

definition put_ranks :: "(nat \<Rightarrow> f64 \<Rightarrow> 's \<Rightarrow> 's) \<Rightarrow> nat list \<Rightarrow> 's \<Rightarrow> 's" where
  "put_ranks put order s = fold (\<lambda>(i, r). put i r) (zip order (normalized_ranks (length order))) s"

definition move_item :: "pid \<Rightarrow> TaxonomyKind \<Rightarrow> nat \<Rightarrow> nat option \<Rightarrow> nat option \<Rightarrow> ('t tracker_scheme, bool) db" where
  "move_item p kind i before after = do {
     listed \<leftarrow> taxonomy_list p kind;
     case listed of
       Inl e \<Rightarrow> State_Monad.return (Inl e)
     | Inr items \<Rightarrow>
         let ranked = map (\<lambda>t. (x_id (ti_row t), x_order (ti_row t))) items
         in if i \<notin> set (map fst ranked) then State_Monad.return (Inr False)
            else (case rank_between (rank_in ranked before) (rank_in ranked after) of
                Some r \<Rightarrow> execute (\<lambda>s. affected (is_item p kind i) (taxonomy s) > 0) (put_item_rank p kind i r)
              | None \<Rightarrow> execute (\<lambda>s. True) (put_ranks (put_item_rank p kind) (target_order (map fst ranked) i before after)))
   }"

text \<open>Rows that name a taxonomy item, deleted ones included.\<close>

definition taxonomy_reference_count :: "nat \<Rightarrow> ('t tracker_scheme, nat) db" where
  "taxonomy_reference_count i = query (\<lambda>s.
     count_where (\<lambda>e. ep_status_id e = Some i) (epics s) +
     count_where (\<lambda>r. is_status_id r = Some i \<or> is_type_id r = Some i \<or> is_priority_id r = Some i \<or> is_size_id r = Some i) (issues s))"

section \<open>References and epics\<close>

datatype 'a UpdateOutcome = Changed_to 'a | Missing | Conflicting

fun bump :: "pid \<Rightarrow> (int \<times> int \<Rightarrow> int \<times> int) \<Rightarrow> (pid \<times> int \<times> int) list \<Rightarrow> (pid \<times> int \<times> int) list" where
  "bump p f [] = [(p, f (0, 0))]"
| "bump p f ((q, x) # rows) = (if q = p then (q, f x) # rows else (q, x) # bump p f rows)"

definition counters :: "pid \<Rightarrow> 't tracker_scheme \<Rightarrow> int \<times> int" where
  "counters p s = (case map_of (ref_counters s) p of None \<Rightarrow> (0, 0) | Some x \<Rightarrow> x)"

definition alloc_ref :: "pid \<Rightarrow> ('t tracker_scheme, int) db" where
  "alloc_ref p = execute (\<lambda>s. fst (counters p s) + 1)
     (\<lambda>s. s\<lparr>ref_counters := bump p (\<lambda>(a, b). (a + 1, b)) (ref_counters s)\<rparr>)"

definition alloc_epic_ref :: "pid \<Rightarrow> ('t tracker_scheme, int) db" where
  "alloc_epic_ref p = execute (\<lambda>s. snd (counters p s) + 1)
     (\<lambda>s. s\<lparr>ref_counters := bump p (\<lambda>(a, b). (a, b + 1)) (ref_counters s)\<rparr>)"

definition next_epic_order :: "pid \<Rightarrow> ('t tracker_scheme, f64) db" where
  "next_epic_order p = query (\<lambda>s.
     unwrap_or (rank_between (greatest (map ep_order (filter (\<lambda>e. ep_project_id e = p) (epics s)))) None) 1)"

definition next_issue_order :: "pid \<Rightarrow> ('t tracker_scheme, f64) db" where
  "next_issue_order p = query (\<lambda>s.
     unwrap_or (rank_between (greatest (map is_order (filter (\<lambda>r. is_project_id r = p) (issues s)))) None) 1)"

text \<open>Whether the status of a row counts as finished work.\<close>

definition counts_done :: "'t tracker_scheme \<Rightarrow> nat option \<Rightarrow> bool" where
  "counts_done s status \<longleftrightarrow>
     (\<exists>r\<in>set (taxonomy s). status = Some (x_id r) \<and> x_counts_as_done r = Some True)"

definition in_epic :: "pid \<Rightarrow> nat \<Rightarrow> issue_row \<Rightarrow> bool" where
  "in_epic p e r \<longleftrightarrow> is_project_id r = p \<and> is_epic_id r = Some e \<and> is_deleted_at r = None"

definition task_counts :: "pid \<Rightarrow> 't tracker_scheme \<Rightarrow> nat \<Rightarrow> nat \<times> nat" where
  "task_counts p s e =
     (count_where (in_epic p e) (issues s), count_where (\<lambda>r. in_epic p e r \<and> counts_done s (is_status_id r)) (issues s))"

definition epic_task_count_one :: "pid \<Rightarrow> nat \<Rightarrow> ('t tracker_scheme, nat \<times> nat) db" where
  "epic_task_count_one p e = query (\<lambda>s. task_counts p s e)"

text \<open>The counts of all epics that have tasks.\<close>

definition epic_task_counts :: "pid \<Rightarrow> ('t tracker_scheme, (nat \<times> nat \<times> nat) list) db" where
  "epic_task_counts p = query (\<lambda>s.
     map (\<lambda>e. (e, task_counts p s e))
       (remdups (List.map_filter is_epic_id (filter (\<lambda>r. is_project_id r = p \<and> is_deleted_at r = None) (issues s)))))"

definition row_to_epic :: "epic_row \<Rightarrow> Epic" where
  "row_to_epic e = \<lparr>eo_row = e, eo_task_total = 0, eo_task_closed = 0\<rparr>"

definition counted :: "(nat \<times> nat) option \<Rightarrow> Epic \<Rightarrow> Epic" where
  "counted c e = (case c of None \<Rightarrow> e | Some (n, k) \<Rightarrow> e\<lparr>eo_task_total := n, eo_task_closed := k\<rparr>)"

text \<open>Chaining of statements that fail as a whole.\<close>

definition andThen :: "('s, 'a) db \<Rightarrow> ('a \<Rightarrow> ('s, 'b) db) \<Rightarrow> ('s, 'b) db" where
  "andThen m f = do { r \<leftarrow> m; case r of Inl e \<Rightarrow> State_Monad.return (Inl e) | Inr x \<Rightarrow> f x }"

record NewEpic =
  ne_subject :: ustr
  ne_description :: ustr
  ne_status_id :: "nat option"
  ne_color :: ustr
  ne_assigned_to :: "uid option"
  ne_milestone_id :: "nat option"

definition db_create_epic :: "pid \<Rightarrow> uid \<Rightarrow> NewEpic \<Rightarrow> ('t tracker_scheme, Epic) db" where
  "db_create_epic p owner new =
     andThen (alloc_epic_ref p) (\<lambda>ref.
     andThen (next_epic_order p) (\<lambda>order. stmt (\<lambda>s.
       let row = \<lparr>ep_id = next_id s, ep_project_id = p, ep_ref = ref, ep_subject = ne_subject new,
             ep_description = ne_description new, ep_status_id = ne_status_id new, ep_color = ne_color new,
             ep_owner_id = Some owner, ep_assigned_to = ne_assigned_to new, ep_milestone_id = ne_milestone_id new,
             ep_start_date = None, ep_end_date = None, ep_cover_image = None, ep_cover_updated_at = None,
             ep_order = order, ep_version = 1, ep_created_at = db_now s, ep_modified_at = db_now s,
             ep_deleted_at = None, ep_grace_until = None\<rparr>
       in if any_row (\<lambda>e. ep_project_id e = p \<and> ep_ref e = ref) (epics s) then (Inl UniqueViolation, s)
          else if \<not> epic_refs_ok s row then (Inl ForeignKeyViolation, s)
          else (Inr (row_to_epic row), s\<lparr>epics := epics s @ [row], next_id := Suc (next_id s)\<rparr>))))"

definition is_epic :: "pid \<Rightarrow> nat \<Rightarrow> epic_row \<Rightarrow> bool" where
  "is_epic p i e \<longleftrightarrow> ep_id e = i \<and> ep_project_id e = p \<and> ep_deleted_at e = None"

definition db_get_epic :: "pid \<Rightarrow> nat \<Rightarrow> ('t tracker_scheme, Epic option) db" where
  "db_get_epic p i =
     andThen (query (\<lambda>s. find_row (is_epic p i) (epics s))) (\<lambda>row.
       case row of
         None \<Rightarrow> State_Monad.return (Inr None)
       | Some e \<Rightarrow> andThen (epic_task_count_one p (ep_id e)) (\<lambda>c.
           State_Monad.return (Inr (Some (counted (Some c) (row_to_epic e))))))"

definition epics_where :: "(epic_row \<Rightarrow> bool) \<Rightarrow> pid \<Rightarrow> ('t tracker_scheme, Epic list) db" where
  "epics_where P p =
     andThen (query (\<lambda>s. sort_key ep_order (filter (\<lambda>e. ep_project_id e = p \<and> ep_deleted_at e = None \<and> P e) (epics s)))) (\<lambda>rows.
     andThen (epic_task_counts p) (\<lambda>c.
       State_Monad.return (Inr (map (\<lambda>e. counted (map_of c (ep_id e)) (row_to_epic e)) rows))))"

definition db_list_epics :: "pid \<Rightarrow> ('t tracker_scheme, Epic list) db" where
  "db_list_epics p = epics_where (\<lambda>_. True) p"

definition epics_in_milestone :: "pid \<Rightarrow> nat \<Rightarrow> ('t tracker_scheme, Epic list) db" where
  "epics_in_milestone p m = epics_where (\<lambda>e. ep_milestone_id e = Some m) p"

text \<open>After an update that matched nothing: the row is missing, or its version is another.\<close>

definition classify_miss :: "('t tracker_scheme \<Rightarrow> bool) \<Rightarrow> ('t tracker_scheme, 'a UpdateOutcome) db" where
  "classify_miss exists_row =
     andThen (query exists_row) (\<lambda>e. State_Monad.return (Inr (if e then Conflicting else Missing)))"

record EpicWrite =
  ew_subject :: ustr
  ew_description :: ustr
  ew_status_id :: "nat option"
  ew_color :: ustr
  ew_assigned_to :: "uid option"
  ew_milestone_id :: "nat option"
  ew_start_date :: "int option"
  ew_end_date :: "int option"

definition write_epic :: "EpicWrite \<Rightarrow> epic_row \<Rightarrow> epic_row" where
  "write_epic w e = e\<lparr>ep_subject := ew_subject w, ep_description := ew_description w, ep_status_id := ew_status_id w,
     ep_color := ew_color w, ep_assigned_to := ew_assigned_to w, ep_milestone_id := ew_milestone_id w,
     ep_start_date := ew_start_date w, ep_end_date := ew_end_date w, ep_version := ep_version e + 1\<rparr>"

definition db_update_epic :: "pid \<Rightarrow> nat \<Rightarrow> int \<Rightarrow> EpicWrite \<Rightarrow> ('t tracker_scheme, Epic UpdateOutcome) db" where
  "db_update_epic p i expected w =
     andThen (stmt (\<lambda>s.
       case find_row (\<lambda>e. is_epic p i e \<and> ep_version e = expected) (epics s) of
         None \<Rightarrow> (Inr None, s)
       | Some e \<Rightarrow>
           if \<not> epic_refs_ok s (write_epic w e) then (Inl ForeignKeyViolation, s)
           else (Inr (Some ((write_epic w e)\<lparr>ep_modified_at := db_now s\<rparr>)),
                 update_epics (\<lambda>e. is_epic p i e \<and> ep_version e = expected) (write_epic w) s))) (\<lambda>row.
     case row of
       Some e \<Rightarrow> andThen (epic_task_count_one p (ep_id e)) (\<lambda>c.
           State_Monad.return (Inr (Changed_to (counted (Some c) (row_to_epic e)))))
     | None \<Rightarrow> classify_miss (\<lambda>s. any_row (is_epic p i) (epics s)))"

definition epic_cover_object :: "pid \<Rightarrow> nat \<Rightarrow> ('t tracker_scheme, (ustr \<times> ustr) option) db" where
  "epic_cover_object p i = query (\<lambda>s. Option.bind (find_row (is_epic p i) (epics s)) ep_cover_image)"

definition set_epic_cover_image :: "pid \<Rightarrow> nat \<Rightarrow> ustr \<Rightarrow> ustr \<Rightarrow> ('t tracker_scheme, bool) db" where
  "set_epic_cover_image p i key mime =
     execute (\<lambda>s. affected (is_epic p i) (epics s) > 0)
       (\<lambda>s. update_epics (is_epic p i) (\<lambda>e. e\<lparr>ep_cover_image := Some (key, mime), ep_cover_updated_at := Some (db_now s)\<rparr>) s)"

definition clear_epic_cover_image :: "pid \<Rightarrow> nat \<Rightarrow> ('t tracker_scheme, bool) db" where
  "clear_epic_cover_image p i =
     execute (\<lambda>s. affected (is_epic p i) (epics s) > 0)
       (\<lambda>s. update_epics (is_epic p i) (\<lambda>e. e\<lparr>ep_cover_image := None, ep_cover_updated_at := Some (db_now s)\<rparr>) s)"

text \<open>Two statements: the old epics leave the milestone, then the given ones enter it.\<close>

definition set_milestone_epics :: "pid \<Rightarrow> nat \<Rightarrow> nat list \<Rightarrow> ('t tracker_scheme, unit) db" where
  "set_milestone_epics p m ids =
     andThen (execute (\<lambda>s. ()) (update_epics
         (\<lambda>e. ep_project_id e = p \<and> ep_milestone_id e = Some m \<and> ep_deleted_at e = None) (\<lambda>e. e\<lparr>ep_milestone_id := None\<rparr>)))
       (\<lambda>_. if ids = [] then State_Monad.return (Inr ())
            else stmt (\<lambda>s. if \<not> any_row (\<lambda>x. ms_id x = m) (milestones s) \<and>
                  any_row (\<lambda>e. ep_project_id e = p \<and> ep_id e \<in> set ids \<and> ep_deleted_at e = None) (epics s)
                then (Inl ForeignKeyViolation, s)
                else (Inr (), update_epics (\<lambda>e. ep_project_id e = p \<and> ep_id e \<in> set ids \<and> ep_deleted_at e = None)
                        (\<lambda>e. e\<lparr>ep_milestone_id := Some m\<rparr>) s)))"

definition epic_in_project :: "pid \<Rightarrow> nat \<Rightarrow> ('t tracker_scheme, bool) db" where
  "epic_in_project p i = query (\<lambda>s. any_row (is_epic p i) (epics s))"

section \<open>Issues\<close>

record IssueWrite =
  iw_subject :: ustr
  iw_description :: ustr
  iw_status_id :: "nat option"
  iw_type_id :: "nat option"
  iw_priority_id :: "nat option"
  iw_size_id :: "nat option"
  iw_epic_id :: "nat option"
  iw_parent_id :: "nat option"
  iw_milestone_id :: "nat option"
  iw_assigned_to :: "uid option"
  iw_qa_assignee_id :: "uid option"
  iw_reviewer_id :: "uid option"
  iw_category :: "ustr option"
  iw_start_date :: "int option"
  iw_due_date :: "int option"
  iw_resolution :: "ustr option"
  iw_release_version_id :: "nat option"
  iw_release_text :: "ustr option"

definition row_to_issue :: "issue_row \<Rightarrow> Issue" where
  "row_to_issue r = \<lparr>io_row = r, io_category = Option.bind (is_category r) IssueCategory_parse,
     io_resolution = Option.bind (is_resolution r) Resolution_parse, io_labels = [], io_components = [],
     io_component_versions = [], io_customer_ids = [], io_watchers = []\<rparr>"

text \<open>The second components of the pairs of an issue, ordered.\<close>

definition related :: "(nat \<times> nat) list \<Rightarrow> nat \<Rightarrow> nat list" where
  "related pairs i = sort (map snd (filter (\<lambda>p. fst p = i) pairs))"

definition versions_of :: "(nat \<times> ComponentVersion) list \<Rightarrow> nat \<Rightarrow> ComponentVersion list" where
  "versions_of rows i = sort_key cv_component_id (map snd (filter (\<lambda>p. fst p = i) rows))"

definition issue_label_ids :: "nat \<Rightarrow> ('t tracker_scheme, nat list) db" where
  "issue_label_ids i = query (\<lambda>s. related (issue_labels s) i)"

definition issue_component_ids :: "nat \<Rightarrow> ('t tracker_scheme, nat list) db" where
  "issue_component_ids i = query (\<lambda>s. related (issue_components s) i)"

definition issue_customer_ids :: "nat \<Rightarrow> ('t tracker_scheme, nat list) db" where
  "issue_customer_ids i = query (\<lambda>s. related (issue_customers s) i)"

definition issue_watcher_ids :: "nat \<Rightarrow> ('t tracker_scheme, uid list) db" where
  "issue_watcher_ids i = query (\<lambda>s. related (issue_watchers s) i)"

definition issue_component_versions :: "nat \<Rightarrow> ('t tracker_scheme, ComponentVersion list) db" where
  "issue_component_versions i = query (\<lambda>s. versions_of (issue_versions s) i)"

text \<open>\<open>INSERT ... ON CONFLICT DO NOTHING\<close> of pairs, where every second component must exist.\<close>

fun add_pairs :: "nat \<Rightarrow> nat list \<Rightarrow> (nat \<times> nat) list \<Rightarrow> (nat \<times> nat) list" where
  "add_pairs i [] rows = rows"
| "add_pairs i (x # xs) rows = add_pairs i xs (if (i, x) \<in> set rows then rows else rows @ [(i, x)])"

definition set_issue_labels :: "nat \<Rightarrow> nat list \<Rightarrow> ('t tracker_scheme, unit) db" where
  "set_issue_labels i ids = stmt (\<lambda>s.
     if list_ex (\<lambda>x. x \<notin> set (map lb_id (label_rows s))) ids then (Inl ForeignKeyViolation, s)
     else (Inr (), s\<lparr>issue_labels := add_pairs i ids (delete_where (\<lambda>p. fst p = i) (issue_labels s))\<rparr>))"

definition set_issue_customers :: "nat \<Rightarrow> nat list \<Rightarrow> ('t tracker_scheme, unit) db" where
  "set_issue_customers i ids = stmt (\<lambda>s.
     if list_ex (\<lambda>x. x \<notin> set (map fst (customer_rows s))) ids then (Inl ForeignKeyViolation, s)
     else (Inr (), s\<lparr>issue_customers := add_pairs i ids (delete_where (\<lambda>p. fst p = i) (issue_customers s))\<rparr>))"

definition set_issue_components :: "nat \<Rightarrow> nat list \<Rightarrow> ('t tracker_scheme, unit) db" where
  "set_issue_components i ids = stmt (\<lambda>s.
     if list_ex (\<lambda>x. x \<notin> set (map lb_id (component_rows s))) ids then (Inl ForeignKeyViolation, s)
     else let t = delete_issue_components (\<lambda>p. fst p = i \<and> snd p \<notin> set ids) s
          in (Inr (), t\<lparr>issue_components := add_pairs i ids (issue_components t)\<rparr>))"

text \<open>A version is written for a component the issue has; one per component.\<close>

definition put_version :: "nat \<Rightarrow> ComponentVersion \<Rightarrow> 't tracker_scheme \<Rightarrow> 't tracker_scheme" where
  "put_version i v s =
     (let same = (\<lambda>q. fst q = i \<and> cv_component_id (snd q) = cv_component_id v)
      in if (i, cv_component_id v) \<notin> set (issue_components s) then s
         else issue_mirror_release_version i
           (if any_row same (issue_versions s)
            then s\<lparr>issue_versions := update_where same (\<lambda>_. (i, v)) (issue_versions s)\<rparr>
            else s\<lparr>issue_versions := issue_versions s @ [(i, v)]\<rparr>))"

definition set_issue_component_versions :: "nat \<Rightarrow> ComponentVersion list \<Rightarrow> ('t tracker_scheme, unit) db" where
  "set_issue_component_versions i vs = stmt (\<lambda>s.
     if list_ex (\<lambda>v. (i, cv_component_id v) \<in> set (issue_components s) \<and>
          cv_release_version_id v \<notin> set (map vr_id (version_rows s))) vs then (Inl ForeignKeyViolation, s)
     else (Inr (), fold (put_version i) vs (delete_versions (\<lambda>q. fst q = i) s)))"

text \<open>All relations of a batch of issues, in five queries.\<close>

definition hydrate_issue_relations :: "Issue list \<Rightarrow> ('t tracker_scheme, Issue list) db" where
  "hydrate_issue_relations batch =
     (if batch = [] then State_Monad.return (Inr [])
      else
        andThen (query (\<lambda>s. related (issue_labels s))) (\<lambda>labels_of.
        andThen (query (\<lambda>s. related (issue_components s))) (\<lambda>components_of.
        andThen (query (\<lambda>s. related (issue_customers s))) (\<lambda>customers_of.
        andThen (query (\<lambda>s. related (issue_watchers s))) (\<lambda>watchers_of.
        andThen (query (\<lambda>s. versions_of (issue_versions s))) (\<lambda>of_component.
          State_Monad.return (Inr (map (\<lambda>x. let i = is_id (io_row x) in
            x\<lparr>io_labels := labels_of i, io_components := components_of i, io_component_versions := of_component i,
              io_customer_ids := customers_of i, io_watchers := watchers_of i\<rparr>) batch))))))))"

text \<open>Whether a status closes an issue.\<close>

definition closing :: "'t tracker_scheme \<Rightarrow> nat option \<Rightarrow> bool" where
  "closing s status \<longleftrightarrow>
     (\<exists>r\<in>set (taxonomy s). status = Some (x_id r) \<and> x_is_closed r = Some True)"

definition db_create_issue :: "pid \<Rightarrow> uid \<Rightarrow> IssueWrite \<Rightarrow> ('t tracker_scheme, Issue) db" where
  "db_create_issue p owner w =
     andThen (alloc_ref p) (\<lambda>ref.
     andThen (next_issue_order p) (\<lambda>order.
     andThen (case iw_status_id w of Some x \<Rightarrow> State_Monad.return (Inr (Some x)) | None \<Rightarrow> new_status_id p) (\<lambda>status.
     stmt (\<lambda>s.
       let row = issue_milestone_from_epic s
           \<lparr>is_id = next_id s, is_project_id = p, is_ref = ref, is_subject = iw_subject w,
            is_description = iw_description w, is_status_id = status, is_type_id = iw_type_id w,
            is_priority_id = iw_priority_id w, is_size_id = iw_size_id w, is_epic_id = iw_epic_id w,
            is_parent_id = iw_parent_id w, is_milestone_id = iw_milestone_id w, is_owner_id = Some owner,
            is_assigned_to = iw_assigned_to w, is_qa_assignee_id = iw_qa_assignee_id w,
            is_reviewer_id = iw_reviewer_id w, is_category = iw_category w, is_start_date = iw_start_date w,
            is_due_date = iw_due_date w, is_resolution = iw_resolution w,
            is_resolved_at = (if closing s status then Some (db_now s) else None),
            is_release_version_id = iw_release_version_id w, is_release_text = iw_release_text w,
            is_order = order, is_version = 1, is_created_at = db_now s, is_modified_at = db_now s,
            is_deleted_at = None, is_grace_until = None\<rparr>
       in if any_row (\<lambda>r. is_project_id r = p \<and> is_ref r = ref) (issues s) then (Inl UniqueViolation, s)
          else if \<not> issue_refs_ok s row then (Inl ForeignKeyViolation, s)
          else (Inr (row_to_issue row), s\<lparr>issues := issues s @ [row], next_id := Suc (next_id s)\<rparr>)))))"

definition is_issue :: "pid \<Rightarrow> nat \<Rightarrow> issue_row \<Rightarrow> bool" where
  "is_issue p i r \<longleftrightarrow> is_id r = i \<and> is_project_id r = p \<and> is_deleted_at r = None"

definition db_get_issue :: "pid \<Rightarrow> nat \<Rightarrow> ('t tracker_scheme, Issue option) db" where
  "db_get_issue p i =
     andThen (query (\<lambda>s. find_row (is_issue p i) (issues s))) (\<lambda>row.
       case row of
         None \<Rightarrow> State_Monad.return (Inr None)
       | Some r \<Rightarrow>
           andThen (issue_label_ids i) (\<lambda>ls.
           andThen (issue_component_ids i) (\<lambda>cs.
           andThen (issue_component_versions i) (\<lambda>vs.
           andThen (issue_customer_ids i) (\<lambda>us.
           andThen (issue_watcher_ids i) (\<lambda>ws.
             State_Monad.return (Inr (Some ((row_to_issue r)\<lparr>io_labels := ls, io_components := cs,
               io_component_versions := vs, io_customer_ids := us, io_watchers := ws\<rparr>)))))))))"

definition issues_where :: "(issue_row \<Rightarrow> bool) \<Rightarrow> pid \<Rightarrow> ('t tracker_scheme, Issue list) db" where
  "issues_where P p =
     andThen (query (\<lambda>s. sort_key is_order (filter (\<lambda>r. is_project_id r = p \<and> is_deleted_at r = None \<and> P r) (issues s))))
       (\<lambda>rows. hydrate_issue_relations (map row_to_issue rows))"

definition db_list_issues :: "pid \<Rightarrow> ('t tracker_scheme, Issue list) db" where
  "db_list_issues p = issues_where (\<lambda>_. True) p"

definition issues_in_milestone :: "pid \<Rightarrow> nat \<Rightarrow> ('t tracker_scheme, Issue list) db" where
  "issues_in_milestone p m = issues_where (\<lambda>r. is_milestone_id r = Some m) p"

definition children_for_parent :: "pid \<Rightarrow> nat \<Rightarrow> ('t tracker_scheme, Issue list) db" where
  "children_for_parent p i = query (\<lambda>s. map row_to_issue (sort_key is_order
     (filter (\<lambda>r. is_project_id r = p \<and> is_parent_id r = Some i \<and> is_deleted_at r = None) (issues s))))"

definition write_issue :: "'t tracker_scheme \<Rightarrow> IssueWrite \<Rightarrow> issue_row \<Rightarrow> issue_row" where
  "write_issue s w r = r\<lparr>is_subject := iw_subject w, is_description := iw_description w, is_status_id := iw_status_id w,
     is_type_id := iw_type_id w, is_priority_id := iw_priority_id w, is_size_id := iw_size_id w,
     is_epic_id := iw_epic_id w, is_parent_id := iw_parent_id w, is_milestone_id := iw_milestone_id w,
     is_assigned_to := iw_assigned_to w, is_qa_assignee_id := iw_qa_assignee_id w, is_reviewer_id := iw_reviewer_id w,
     is_category := iw_category w, is_start_date := iw_start_date w, is_due_date := iw_due_date w,
     is_resolution := iw_resolution w, is_release_version_id := iw_release_version_id w,
     is_release_text := iw_release_text w,
     is_resolved_at := (if closing s (iw_status_id w)
        then Some (unwrap_or (is_resolved_at r) (db_now s)) else None),
     is_version := is_version r + 1\<rparr>"

definition db_update_issue :: "pid \<Rightarrow> nat \<Rightarrow> int \<Rightarrow> IssueWrite \<Rightarrow> ('t tracker_scheme, Issue UpdateOutcome) db" where
  "db_update_issue p i expected w =
     andThen (stmt (\<lambda>s.
       case find_row (\<lambda>r. is_issue p i r \<and> is_version r = expected) (issues s) of
         None \<Rightarrow> (Inr None, s)
       | Some r \<Rightarrow>
           if \<not> issue_refs_ok s (write_issue s w r) then (Inl ForeignKeyViolation, s)
           else (Inr (Some (issue_milestone_from_epic s ((write_issue s w r)\<lparr>is_modified_at := db_now s\<rparr>))),
                 update_issues (\<lambda>r. is_issue p i r \<and> is_version r = expected) (write_issue s w) s))) (\<lambda>row.
     case row of
       Some r \<Rightarrow> State_Monad.return (Inr (Changed_to (row_to_issue r)))
     | None \<Rightarrow> classify_miss (\<lambda>s. any_row (is_issue p i) (issues s)))"

definition issue_id_by_ref :: "pid \<Rightarrow> int \<Rightarrow> ('t tracker_scheme, nat option) db" where
  "issue_id_by_ref p ref = query (\<lambda>s. map_option is_id
     (find_row (\<lambda>r. is_project_id r = p \<and> is_ref r = ref \<and> is_deleted_at r = None) (issues s)))"

definition issue_in_project :: "pid \<Rightarrow> nat \<Rightarrow> ('t tracker_scheme, bool) db" where
  "issue_in_project p i = query (\<lambda>s. any_row (is_issue p i) (issues s))"

text \<open>The recursive query: the ancestors of an issue among the live ones, at most 100 deep.\<close>

definition live_issue :: "nat \<Rightarrow> issue_row \<Rightarrow> bool" where
  "live_issue i r \<longleftrightarrow> is_id r = i \<and> is_deleted_at r = None"

fun chain_above :: "issue_row list \<Rightarrow> nat \<Rightarrow> issue_row \<Rightarrow> nat list" where
  "chain_above rows 0 r = [is_id r]"
| "chain_above rows (Suc n) r =
     is_id r # (case Option.bind (is_parent_id r) (\<lambda>q. find_row (live_issue q) rows) of
        None \<Rightarrow> [] | Some parent \<Rightarrow> chain_above rows n parent)"

definition parent_chain_contains :: "pid \<Rightarrow> nat \<Rightarrow> nat \<Rightarrow> ('t tracker_scheme, bool) db" where
  "parent_chain_contains p start needle = query (\<lambda>s.
     case find_row (is_issue p start) (issues s) of
       None \<Rightarrow> False
     | Some r \<Rightarrow> needle \<in> set (chain_above (issues s) 99 r))"

section \<open>Deletion and order\<close>

definition db_soft_delete_issue :: "pid \<Rightarrow> nat \<Rightarrow> int \<Rightarrow> ('t tracker_scheme, bool) db" where
  "db_soft_delete_issue p i grace =
     execute (\<lambda>s. affected (is_issue p i) (issues s) > 0)
       (\<lambda>s. update_issues (is_issue p i) (\<lambda>r. r\<lparr>is_deleted_at := Some (db_now s), is_grace_until := Some grace\<rparr>) s)"

definition db_soft_delete_epic :: "pid \<Rightarrow> nat \<Rightarrow> int \<Rightarrow> ('t tracker_scheme, bool) db" where
  "db_soft_delete_epic p i grace =
     execute (\<lambda>s. affected (is_epic p i) (epics s) > 0)
       (\<lambda>s. update_epics (is_epic p i) (\<lambda>e. e\<lparr>ep_deleted_at := Some (db_now s), ep_grace_until := Some grace\<rparr>) s)"

definition issue_in_closed_status :: "pid \<Rightarrow> nat \<Rightarrow> ('t tracker_scheme, bool) db" where
  "issue_in_closed_status p i = query (\<lambda>s.
     case find_row (is_issue p i) (issues s) of None \<Rightarrow> False | Some r \<Rightarrow> closing s (is_status_id r))"

definition epic_in_closed_status :: "pid \<Rightarrow> nat \<Rightarrow> ('t tracker_scheme, bool) db" where
  "epic_in_closed_status p i = query (\<lambda>s.
     case find_row (is_epic p i) (epics s) of None \<Rightarrow> False | Some e \<Rightarrow> closing s (ep_status_id e))"

definition put_issue_rank :: "pid \<Rightarrow> nat \<Rightarrow> f64 \<Rightarrow> 't tracker_scheme \<Rightarrow> 't tracker_scheme" where
  "put_issue_rank p i r s = update_issues (\<lambda>q. is_id q = i \<and> is_project_id q = p) (\<lambda>q. q\<lparr>is_order := r\<rparr>) s"

definition put_epic_rank :: "pid \<Rightarrow> nat \<Rightarrow> f64 \<Rightarrow> 't tracker_scheme \<Rightarrow> 't tracker_scheme" where
  "put_epic_rank p i r s = update_epics (\<lambda>e. ep_id e = i \<and> ep_project_id e = p) (\<lambda>e. e\<lparr>ep_order := r\<rparr>) s"

text \<open>\<open>set_order\<close> of a table: one new rank, or all of them anew in one transaction.\<close>

definition set_order ::
    "('t tracker_scheme \<Rightarrow> bool) \<Rightarrow> (nat \<Rightarrow> f64 \<Rightarrow> 't tracker_scheme \<Rightarrow> 't tracker_scheme) \<Rightarrow> nat \<Rightarrow> f64 option \<Rightarrow> f64 option
     \<Rightarrow> nat list \<Rightarrow> ('t tracker_scheme, bool) db" where
  "set_order hit put i before after order =
     (case rank_between before after of
        Some r \<Rightarrow> execute hit (put i r)
      | None \<Rightarrow> execute (\<lambda>s. True) (put_ranks put order))"

datatype entity_ref = EpicRef nat | IssueRef nat

definition db_resolve_ref :: "pid \<Rightarrow> int \<Rightarrow> ('t tracker_scheme, entity_ref option) db" where
  "db_resolve_ref p ref =
     andThen (query (\<lambda>s. find_row (\<lambda>e. ep_project_id e = p \<and> ep_ref e = ref \<and> ep_deleted_at e = None) (epics s))) (\<lambda>e.
       case e of
         Some row \<Rightarrow> State_Monad.return (Inr (Some (EpicRef (ep_id row))))
       | None \<Rightarrow> query (\<lambda>s. map_option (\<lambda>r. IssueRef (is_id r))
           (find_row (\<lambda>r. is_project_id r = p \<and> is_ref r = ref \<and> is_deleted_at r = None) (issues s))))"

text \<open>The storage keys of removed attachments that no remaining one names, each once.\<close>

definition orphan_storage_keys :: "attachment_row list \<Rightarrow> attachment_row list \<Rightarrow> ustr list" where
  "orphan_storage_keys removed remaining =
     filter (\<lambda>k. k \<notin> set (map at_storage_key remaining)) (remdups (map at_storage_key removed))"

definition of_targets :: "string \<Rightarrow> nat list \<Rightarrow> ustr \<Rightarrow> nat \<Rightarrow> bool" where
  "of_targets kind ids t i \<longleftrightarrow> t = lit kind \<and> i \<in> set ids"

text \<open>Comments, history and attachments of entities that are purged.\<close>

definition purge_targets :: "string \<Rightarrow> nat list \<Rightarrow> 't tracker_scheme \<Rightarrow> 't tracker_scheme" where
  "purge_targets kind ids s = s\<lparr>
     comment_rows := delete_where (\<lambda>c. of_targets kind ids (cm_target_type c) (cm_target_id c)) (comment_rows s),
     history_log := delete_where (\<lambda>h. of_targets kind ids (he_target_type h) (he_target_id h)) (history_log s),
     attachment_rows := delete_where (\<lambda>a. of_targets kind ids (at_target_type a) (at_target_id a)) (attachment_rows s)\<rparr>"

definition purged_keys :: "string \<Rightarrow> nat list \<Rightarrow> 't tracker_scheme \<Rightarrow> ustr list" where
  "purged_keys kind ids s =
     orphan_storage_keys (filter (\<lambda>a. of_targets kind ids (at_target_type a) (at_target_id a)) (attachment_rows s))
       (delete_where (\<lambda>a. of_targets kind ids (at_target_type a) (at_target_id a)) (attachment_rows s))"

definition issue_ids_of :: "pid \<Rightarrow> 't tracker_scheme \<Rightarrow> nat list" where
  "issue_ids_of p s = map is_id (filter (\<lambda>r. is_project_id r = p) (issues s))"

definition epic_ids_of :: "pid \<Rightarrow> 't tracker_scheme \<Rightarrow> nat list" where
  "epic_ids_of p s = map ep_id (filter (\<lambda>e. ep_project_id e = p) (epics s))"

text \<open>
  Deleting issues: their relations go with them, sub-tasks elsewhere lose their parent, and entries of the time
  tracking lose their link (\<open>ON DELETE SET NULL\<close>), which is an update of the entry.
\<close>

definition unlink_entries :: "nat list \<Rightarrow> int \<Rightarrow> time_row list \<Rightarrow> time_row list" where
  "unlink_entries ids now es =
     update_where (\<lambda>r. \<exists>q\<in>set ids. te_issue_id r = Some q) (\<lambda>r. r\<lparr>te_issue_id := None, te_modified_at := now\<rparr>) es"

definition drop_issues :: "nat list \<Rightarrow> 't tracker_scheme \<Rightarrow> 't tracker_scheme" where
  "drop_issues ids s =
     update_issues (\<lambda>r. \<exists>q\<in>set ids. is_parent_id r = Some q) (\<lambda>r. r\<lparr>is_parent_id := None\<rparr>)
       (s\<lparr>issues := delete_where (\<lambda>r. is_id r \<in> set ids) (issues s),
          issue_labels := delete_where (\<lambda>x. fst x \<in> set ids) (issue_labels s),
          issue_components := delete_where (\<lambda>x. fst x \<in> set ids) (issue_components s),
          issue_customers := delete_where (\<lambda>x. fst x \<in> set ids) (issue_customers s),
          issue_watchers := delete_where (\<lambda>x. fst x \<in> set ids) (issue_watchers s),
          issue_versions := delete_where (\<lambda>x. fst x \<in> set ids) (issue_versions s),
          link_rows := delete_where (\<lambda>l. ln_source l \<in> set ids \<or> ln_target l \<in> set ids) (link_rows s),
          time_entries := unlink_entries ids (db_now s) (time_entries s)\<rparr>)"

definition purge_project_issues :: "pid \<Rightarrow> ('t tracker_scheme, nat \<times> ustr list) db" where
  "purge_project_issues p =
     execute (\<lambda>s. (length (issue_ids_of p s), purged_keys ''issue'' (issue_ids_of p s) s))
       (\<lambda>s. drop_issues (issue_ids_of p s) (purge_targets ''issue'' (issue_ids_of p s) s))"

definition drop_epics :: "nat list \<Rightarrow> 't tracker_scheme \<Rightarrow> 't tracker_scheme" where
  "drop_epics ids s =
     update_issues (\<lambda>r. \<exists>q\<in>set ids. is_epic_id r = Some q) (\<lambda>r. r\<lparr>is_epic_id := None\<rparr>)
       (s\<lparr>epics := delete_where (\<lambda>e. ep_id e \<in> set ids) (epics s)\<rparr>)"

definition purge_project_epics :: "pid \<Rightarrow> ('t tracker_scheme, nat \<times> ustr list) db" where
  "purge_project_epics p =
     execute (\<lambda>s. (length (epic_ids_of p s), purged_keys ''epic'' (epic_ids_of p s) s))
       (\<lambda>s. drop_epics (epic_ids_of p s) (purge_targets ''epic'' (epic_ids_of p s) s))"

section \<open>Labels, links, watchers\<close>

definition in_label :: "pid \<Rightarrow> nat \<Rightarrow> label_row \<Rightarrow> bool" where
  "in_label p i l \<longleftrightarrow> lb_id l = i \<and> lb_project_id l = p"

definition label_clash :: "label_row \<Rightarrow> label_row \<Rightarrow> bool" where
  "label_clash l q \<longleftrightarrow> lb_id q \<noteq> lb_id l \<and> lb_project_id q = lb_project_id l \<and> lb_name q = lb_name l"

definition patch_label :: "ustr option \<Rightarrow> ustr option \<Rightarrow> label_row \<Rightarrow> label_row" where
  "patch_label name color l = l\<lparr>lb_name := unwrap_or name (lb_name l), lb_color := unwrap_or color (lb_color l)\<rparr>"

text \<open>The listings order by name; the model leaves that order, the database's collation, out.\<close>

definition label_list :: "pid \<Rightarrow> ('t tracker_scheme, label_row list) db" where
  "label_list p = query (\<lambda>s. filter (\<lambda>l. lb_project_id l = p) (label_rows s))"

definition label_create :: "pid \<Rightarrow> ustr \<Rightarrow> ustr \<Rightarrow> ('t tracker_scheme, label_row) db" where
  "label_create p name color = stmt (\<lambda>s.
     let row = \<lparr>lb_id = next_id s, lb_project_id = p, lb_name = name, lb_color = color, lb_created_at = db_now s\<rparr>
     in if any_row (label_clash row) (label_rows s) then (Inl UniqueViolation, s)
        else (Inr row, s\<lparr>label_rows := label_rows s @ [row], next_id := Suc (next_id s)\<rparr>))"

definition label_edit :: "pid \<Rightarrow> nat \<Rightarrow> ustr option \<Rightarrow> ustr option \<Rightarrow> ('t tracker_scheme, label_row option) db" where
  "label_edit p i name color = stmt (\<lambda>s.
     case find_row (in_label p i) (label_rows s) of
       None \<Rightarrow> (Inr None, s)
     | Some l \<Rightarrow>
         if any_row (label_clash (patch_label name color l)) (label_rows s) then (Inl UniqueViolation, s)
         else (Inr (Some (patch_label name color l)),
               s\<lparr>label_rows := update_where (in_label p i) (patch_label name color) (label_rows s)\<rparr>))"

definition label_delete :: "pid \<Rightarrow> nat \<Rightarrow> ('t tracker_scheme, bool) db" where
  "label_delete p i =
     execute (\<lambda>s. affected (in_label p i) (label_rows s) > 0)
       (\<lambda>s. if any_row (in_label p i) (label_rows s)
            then s\<lparr>label_rows := delete_where (in_label p i) (label_rows s),
                   issue_labels := delete_where (\<lambda>x. snd x = i) (issue_labels s)\<rparr> else s)"

definition component_list :: "pid \<Rightarrow> ('t tracker_scheme, label_row list) db" where
  "component_list p = query (\<lambda>s. filter (\<lambda>l. lb_project_id l = p) (component_rows s))"

definition component_create :: "pid \<Rightarrow> ustr \<Rightarrow> ustr \<Rightarrow> ('t tracker_scheme, label_row) db" where
  "component_create p name color = stmt (\<lambda>s.
     let row = \<lparr>lb_id = next_id s, lb_project_id = p, lb_name = name, lb_color = color, lb_created_at = db_now s\<rparr>
     in if any_row (label_clash row) (component_rows s) then (Inl UniqueViolation, s)
        else (Inr row, s\<lparr>component_rows := component_rows s @ [row], next_id := Suc (next_id s)\<rparr>))"

definition component_edit :: "pid \<Rightarrow> nat \<Rightarrow> ustr option \<Rightarrow> ustr option \<Rightarrow> ('t tracker_scheme, label_row option) db" where
  "component_edit p i name color = stmt (\<lambda>s.
     case find_row (in_label p i) (component_rows s) of
       None \<Rightarrow> (Inr None, s)
     | Some l \<Rightarrow>
         if any_row (label_clash (patch_label name color l)) (component_rows s) then (Inl UniqueViolation, s)
         else (Inr (Some (patch_label name color l)),
               s\<lparr>component_rows := update_where (in_label p i) (patch_label name color) (component_rows s)\<rparr>))"

definition component_delete :: "pid \<Rightarrow> nat \<Rightarrow> ('t tracker_scheme, bool) db" where
  "component_delete p i =
     execute (\<lambda>s. affected (in_label p i) (component_rows s) > 0)
       (\<lambda>s. if any_row (in_label p i) (component_rows s)
            then delete_versions (\<lambda>q. cv_component_id (snd q) = i)
              (delete_issue_components (\<lambda>x. snd x = i)
                (s\<lparr>component_rows := delete_where (in_label p i) (component_rows s),
                   component_releases := delete_where (\<lambda>x. fst x = i) (component_releases s)\<rparr>)) else s)"

definition dedup_len :: "nat list \<Rightarrow> nat" where
  "dedup_len ids = length (sort_dedup ids)"

definition labels_all_in_project :: "pid \<Rightarrow> nat list \<Rightarrow> ('t tracker_scheme, bool) db" where
  "labels_all_in_project p ids =
     (if ids = [] then State_Monad.return (Inr True)
      else query (\<lambda>s. count_where (\<lambda>l. lb_project_id l = p \<and> lb_id l \<in> set ids) (label_rows s) = dedup_len ids))"

definition components_all_in_project :: "pid \<Rightarrow> nat list \<Rightarrow> ('t tracker_scheme, bool) db" where
  "components_all_in_project p ids =
     (if ids = [] then State_Monad.return (Inr True)
      else query (\<lambda>s. count_where (\<lambda>l. lb_project_id l = p \<and> lb_id l \<in> set ids) (component_rows s) = dedup_len ids))"

definition customer_in_project :: "pid \<Rightarrow> nat \<Rightarrow> ('t tracker_scheme, bool) db" where
  "customer_in_project p i = query (\<lambda>s. (i, p) \<in> set (customer_rows s))"

definition version_in_project :: "pid \<Rightarrow> nat \<Rightarrow> ('t tracker_scheme, bool) db" where
  "version_in_project p i = query (\<lambda>s. any_row (\<lambda>v. vr_id v = i \<and> (vr_release_id v, p) \<in> set (release_rows s)) (version_rows s))"

record IssueLink =
  lk_id :: nat
  lk_other_issue_id :: nat
  lk_other_ref :: int
  lk_other_subject :: ustr
  lk_link_type :: LinkType
  lk_outgoing :: bool
  lk_created_at :: int

definition row_to_link :: "link_row \<Rightarrow> bool \<Rightarrow> issue_row \<Rightarrow> IssueLink" where
  "row_to_link l outgoing other = \<lparr>lk_id = ln_id l, lk_other_issue_id = is_id other, lk_other_ref = is_ref other,
     lk_other_subject = is_subject other, lk_link_type = unwrap_or (LinkType_parse (ln_type l)) Relates,
     lk_outgoing = outgoing, lk_created_at = ln_created_at l\<rparr>"

definition links_for_issue :: "nat \<Rightarrow> ('t tracker_scheme, IssueLink list) db" where
  "links_for_issue i = query (\<lambda>s. sort_key lk_created_at (
     List.map_filter (\<lambda>l. map_option (row_to_link l True) (find_row (live_issue (ln_target l)) (issues s)))
       (filter (\<lambda>l. ln_source l = i) (link_rows s)) @
     List.map_filter (\<lambda>l. map_option (row_to_link l False) (find_row (live_issue (ln_source l)) (issues s)))
       (filter (\<lambda>l. ln_target l = i) (link_rows s))))"

definition link_create :: "pid \<Rightarrow> nat \<Rightarrow> nat \<Rightarrow> ustr \<Rightarrow> ('t tracker_scheme, IssueLink) db" where
  "link_create p source target type = stmt (\<lambda>s.
     let row = \<lparr>ln_id = next_id s, ln_project_id = p, ln_source = source, ln_target = target, ln_type = type,
           ln_created_at = db_now s\<rparr>
     in if source = target then (Inl Unavailable, s)
        else if any_row (\<lambda>l. ln_source l = source \<and> ln_target l = target \<and> ln_type l = type) (link_rows s)
        then (Inl UniqueViolation, s)
        else (case (find_row (\<lambda>r. is_id r = source) (issues s), find_row (\<lambda>r. is_id r = target) (issues s)) of
            (Some _, Some other) \<Rightarrow>
              (Inr (row_to_link row True other), s\<lparr>link_rows := link_rows s @ [row], next_id := Suc (next_id s)\<rparr>)
          | _ \<Rightarrow> (Inl ForeignKeyViolation, s)))"

definition link_delete :: "pid \<Rightarrow> nat \<Rightarrow> ('t tracker_scheme, bool) db" where
  "link_delete p i =
     execute (\<lambda>s. affected (\<lambda>l. ln_id l = i \<and> ln_project_id l = p) (link_rows s) > 0)
       (\<lambda>s. s\<lparr>link_rows := delete_where (\<lambda>l. ln_id l = i \<and> ln_project_id l = p) (link_rows s)\<rparr>)"

definition watcher_add :: "nat \<Rightarrow> uid \<Rightarrow> ('t tracker_scheme, bool) db" where
  "watcher_add i u = stmt (\<lambda>s.
     if (i, u) \<in> set (issue_watchers s) then (Inr False, s)
     else if i \<notin> set (map is_id (issues s)) \<or> u \<notin> set (map u_id (users s)) then (Inl ForeignKeyViolation, s)
     else (Inr True, s\<lparr>issue_watchers := issue_watchers s @ [(i, u)]\<rparr>))"

definition watcher_remove :: "nat \<Rightarrow> uid \<Rightarrow> ('t tracker_scheme, bool) db" where
  "watcher_remove i u =
     execute (\<lambda>s. (i, u) \<in> set (issue_watchers s))
       (\<lambda>s. s\<lparr>issue_watchers := delete_where (\<lambda>x. x = (i, u)) (issue_watchers s)\<rparr>)"

section \<open>Comments, history, stored responses, events\<close>

definition comment_create ::
    "pid \<Rightarrow> ustr \<Rightarrow> nat \<Rightarrow> uid \<Rightarrow> ustr \<Rightarrow> ustr \<Rightarrow> ('t tracker_scheme, comment_row) db" where
  "comment_create p target_type target author body html = stmt (\<lambda>s.
     let row = \<lparr>cm_id = next_id s, cm_project_id = p, cm_target_type = target_type, cm_target_id = target,
           cm_author_id = Some author, cm_body = body, cm_body_html = html, cm_edited_at = None,
           cm_created_at = db_now s, cm_deleted_at = None\<rparr>
     in if author \<notin> set (map u_id (users s)) then (Inl ForeignKeyViolation, s)
        else (Inr row, s\<lparr>comment_rows := comment_rows s @ [row], next_id := Suc (next_id s)\<rparr>))"

definition comment_list :: "ustr \<Rightarrow> nat \<Rightarrow> ('t tracker_scheme, comment_row list) db" where
  "comment_list target_type target = query (\<lambda>s. sort_key cm_created_at
     (filter (\<lambda>c. cm_target_type c = target_type \<and> cm_target_id c = target \<and> cm_deleted_at c = None) (comment_rows s)))"

definition live_comment :: "nat \<Rightarrow> comment_row \<Rightarrow> bool" where
  "live_comment i c \<longleftrightarrow> cm_id c = i \<and> cm_deleted_at c = None"

definition comment_meta :: "nat \<Rightarrow> ('t tracker_scheme, (uid option \<times> int) option) db" where
  "comment_meta i = query (\<lambda>s. map_option (\<lambda>c. (cm_author_id c, cm_created_at c)) (find_row (live_comment i) (comment_rows s)))"

definition comment_update :: "nat \<Rightarrow> ustr \<Rightarrow> ustr \<Rightarrow> ('t tracker_scheme, comment_row option) db" where
  "comment_update i body html =
     execute (\<lambda>s. map_option (\<lambda>c. c\<lparr>cm_body := body, cm_body_html := html, cm_edited_at := Some (db_now s)\<rparr>)
                    (find_row (live_comment i) (comment_rows s)))
       (\<lambda>s. s\<lparr>comment_rows := update_where (live_comment i)
          (\<lambda>c. c\<lparr>cm_body := body, cm_body_html := html, cm_edited_at := Some (db_now s)\<rparr>) (comment_rows s)\<rparr>)"

definition comment_soft_delete :: "nat \<Rightarrow> ('t tracker_scheme, bool) db" where
  "comment_soft_delete i =
     execute (\<lambda>s. affected (live_comment i) (comment_rows s) > 0)
       (\<lambda>s. s\<lparr>comment_rows := update_where (live_comment i) (\<lambda>c. c\<lparr>cm_deleted_at := Some (db_now s)\<rparr>) (comment_rows s)\<rparr>)"

definition attachments_soft_delete :: "ustr \<Rightarrow> nat \<Rightarrow> ('t tracker_scheme, nat) db" where
  "attachments_soft_delete target_type target =
     (let hit = (\<lambda>a. at_target_type a = target_type \<and> at_target_id a = target \<and> at_deleted_at a = None)
      in execute (\<lambda>s. affected hit (attachment_rows s))
           (\<lambda>s. s\<lparr>attachment_rows := update_where hit (\<lambda>a. a\<lparr>at_deleted_at := Some (db_now s)\<rparr>) (attachment_rows s)\<rparr>))"

text \<open>A failure to record history is logged and ignored.\<close>

definition history_record :: "pid \<Rightarrow> ustr \<Rightarrow> nat \<Rightarrow> uid option \<Rightarrow> diff \<Rightarrow> ('t tracker_scheme, unit) state" where
  "history_record p target_type target actor d = ignore (execute (\<lambda>s. ()) (\<lambda>s. s\<lparr>history_log := history_log s @
     [\<lparr>he_project_id = p, he_target_type = target_type, he_target_id = target, he_actor_id = actor, he_diff = d,
       he_created_at = db_now s\<rparr>]\<rparr>))"

definition history_list :: "ustr \<Rightarrow> nat \<Rightarrow> ('t tracker_scheme, (diff \<times> uid option \<times> int) list) db" where
  "history_list target_type target = query (\<lambda>s. map (\<lambda>h. (he_diff h, he_actor_id h, he_created_at h))
     (sort_key he_created_at (filter (\<lambda>h. he_target_type h = target_type \<and> he_target_id h = target) (history_log s))))"

definition idem_hit :: "uid \<Rightarrow> ustr \<Rightarrow> ustr \<Rightarrow> ustr \<Rightarrow> idem_row \<Rightarrow> bool" where
  "idem_hit user key meth path r \<longleftrightarrow> id_user_id r = user \<and> id_key r = key \<and> id_method r = meth \<and> id_path r = path"

definition idem_lookup :: "uid \<Rightarrow> ustr \<Rightarrow> ustr \<Rightarrow> ustr \<Rightarrow> ('t tracker_scheme, (nat \<times> created_body) option) db" where
  "idem_lookup user key meth path = query (\<lambda>s. map_option (\<lambda>r. (id_status r, id_body r))
     (find_row (\<lambda>r. idem_hit user key meth path r \<and> id_expires_at r > db_now s) (idem_rows s)))"

definition idem_store ::
    "uid \<Rightarrow> ustr \<Rightarrow> ustr \<Rightarrow> ustr \<Rightarrow> nat \<Rightarrow> created_body \<Rightarrow> int \<Rightarrow> ('t tracker_scheme, unit) db" where
  "idem_store user key meth path status body expires = execute (\<lambda>s. ())
     (\<lambda>s. if any_row (idem_hit user key meth path) (idem_rows s) then s
          else s\<lparr>idem_rows := idem_rows s @ [\<lparr>id_user_id = user, id_key = key, id_method = meth, id_path = path,
                 id_status = status, id_body = body, id_expires_at = expires\<rparr>]\<rparr>)"

text \<open>Publishing cannot fail; who listens is not modelled.\<close>

definition publish :: "pid \<Rightarrow> event \<Rightarrow> ('t tracker_scheme, unit) state" where
  "publish p e = State (\<lambda>s. ((), s\<lparr>published := published s @ [(p, e)]\<rparr>))"

lemma wp_publish [wp_rules]: "wp (publish p e) Q s = Q () (s\<lparr>published := published s @ [(p, e)]\<rparr>)"
  by (simp add: wp_def publish_def)

lemma wp_andThen [wp_rules]:
  "wp (andThen m f) Q s = wp m (\<lambda>r. case r of Inl e \<Rightarrow> Q (Inl e) | Inr x \<Rightarrow> wp (f x) Q) s"
  unfolding andThen_def wp_bind
  by (intro arg_cong [of _ _ "\<lambda>Q. wp m Q s"] ext) (simp add: wp_return split: sum.split)

end
