(* ===== verification/Catalog_Api.thy ===== *)
theory Catalog_Api
  imports Tracker_Db
begin

text \<open>
  The handlers around the backlog: the taxonomy (\<open>crates/api/src/taxonomy.rs\<close>), labels and components
  (\<open>catalog.rs\<close>), links between issues and watchers (\<open>issue_relations.rs\<close>). The parameters of the path
  are the raw texts; one that is absent is \<open>None\<close>.
\<close>

section \<open>Shapes\<close>

definition permitted ::
    "ProjectContext \<Rightarrow> Permission \<Rightarrow> ('s, response + 'a) state \<Rightarrow> ('s, response + 'a) state" where
  "permitted ctx perm m = passing (ctx_require ctx perm) (\<lambda>_. m)"

text \<open>\<open>match ... { Ok(x) => ..., Err(_) => internal }\<close> and \<open>let Some(x) = ... else { return not_found }\<close>\<close>

definition served :: "('s, 'a) db \<Rightarrow> ('a \<Rightarrow> ('s, response + 'b) state) \<Rightarrow> ('s, response + 'b) state" where
  "served m f = do { r \<leftarrow> m; case r of Inl _ \<Rightarrow> refuse internal | Inr x \<Rightarrow> f x }"

definition present :: "'a option \<Rightarrow> ('a \<Rightarrow> ('s, response + 'b) state) \<Rightarrow> ('s, response + 'b) state" where
  "present x f = (case x of None \<Rightarrow> refuse not_found | Some y \<Rightarrow> f y)"

definition item_id :: "env \<Rightarrow> ustr option \<Rightarrow> nat option" where
  "item_id env param = Option.bind param (e_uuid_parse env)"

text \<open>A deletion answers 204 or 404.\<close>

definition removed :: "('s, bool) db \<Rightarrow> ('s, unit) handler" where
  "removed m = served m (\<lambda>hit. if hit then answer 204 () else refuse not_found)"

lemma wp_permitted [wp_rules]:
  "wp (permitted ctx perm m) Q s = (if ctx_has ctx perm then wp m Q s else Q (Inl forbidden) s)"
  by (simp add: permitted_def ctx_require_def passing_def refuse_def wp_return)

lemma wp_served [wp_rules]:
  "wp (served m f) Q s = wp m (\<lambda>r. case r of Inl _ \<Rightarrow> Q (Inl internal) | Inr x \<Rightarrow> wp (f x) Q) s"
  unfolding served_def wp_bind
  by (intro arg_cong [of _ _ "\<lambda>Q. wp m Q s"] ext) (simp add: refuse_def wp_return split: sum.split)

lemma wp_present [wp_rules]:
  "wp (present x f) Q s = (case x of None \<Rightarrow> Q (Inl not_found) s | Some y \<Rightarrow> wp (f y) Q s)"
  by (simp add: present_def refuse_def wp_return split: option.split)

section \<open>Taxonomy\<close>

definition parse_kind :: "ustr option \<Rightarrow> TaxonomyKind option" where
  "parse_kind param = Option.bind param TaxonomyKind_parse"

record CreateTaxonomyItemRequest =
  ct_name :: ustr
  ct_slug :: ustr
  ct_color :: ustr
  ct_emoji :: ustr
  ct_is_closed :: "bool option"
  ct_counts_as_done :: "bool option"
  ct_is_new :: "bool option"
  ct_value :: "f64 option"

definition valid_create_item :: "CreateTaxonomyItemRequest \<Rightarrow> bool" where
  "valid_create_item r \<longleftrightarrow> len_between 1 64 (ct_name r) \<and> len_between 1 64 (ct_slug r) \<and> slug_pattern (ct_slug r) \<and>
     len_between 0 16 (ct_color r) \<and> len_between 0 16 (ct_emoji r)"

definition valid_update_item :: "TaxonomyPatch \<Rightarrow> bool" where
  "valid_update_item r \<longleftrightarrow> opt_all (len_between 1 64) (tp_name r) \<and> opt_all (len_between 0 16) (tp_color r) \<and>
     opt_all (len_between 0 16) (tp_emoji r)"

text \<open>The flags a kind carries, false when the request omits them.\<close>

definition item_of_request :: "TaxonomyKind \<Rightarrow> CreateTaxonomyItemRequest \<Rightarrow> NewTaxonomyItem" where
  "item_of_request kind r = \<lparr>nt_name = ct_name r, nt_slug = ct_slug r, nt_color = ct_color r, nt_emoji = ct_emoji r,
     nt_is_closed = (if TaxonomyKind_has_closed kind then Some (unwrap_or (ct_is_closed r) False) else None),
     nt_counts_as_done = (if TaxonomyKind_has_counts_as_done kind then Some (unwrap_or (ct_counts_as_done r) False) else None),
     nt_is_new = (if TaxonomyKind_has_new kind then Some (unwrap_or (ct_is_new r) False) else None),
     nt_value = (if TaxonomyKind_has_value kind then ct_value r else None)\<rparr>"

definition list_taxonomy :: "ProjectContext \<Rightarrow> ustr option \<Rightarrow> ('t tracker_scheme, TaxonomyItem list) handler" where
  "list_taxonomy ctx kind = permitted ctx ProjectView (present (parse_kind kind) (\<lambda>k. with_client (
     served (taxonomy_list (pr_id (cx_project ctx)) k) (answer 200))))"

text \<open>The flag is taken from the other statuses by a statement of its own, before the item is written.\<close>

definition unmark_new :: "pid \<Rightarrow> bool option \<Rightarrow> ('t tracker_scheme, unit) db" where
  "unmark_new p is_new = (if is_new = Some True then clear_is_new p else State_Monad.return (Inr ()))"

definition create_item ::
    "ProjectContext \<Rightarrow> ustr option \<Rightarrow> CreateTaxonomyItemRequest json_body \<Rightarrow> ('t tracker_scheme, TaxonomyItem) handler" where
  "create_item ctx kind body = permitted ctx TaxonomyCreate (present (parse_kind kind) (\<lambda>k.
     passing (parse_body valid_create_item body) (\<lambda>req. with_client (
       served (unmark_new (pr_id (cx_project ctx)) (nt_is_new (item_of_request k req))) (\<lambda>_. do {
         created \<leftarrow> taxonomy_create (pr_id (cx_project ctx)) k (item_of_request k req);
         case created of
           Inr item \<Rightarrow> answer 201 item
         | Inl UniqueViolation \<Rightarrow>
             refuse (problem 409 (lit ''already_exists'') (Some (lit ''slug already used for this kind'')))
         | Inl _ \<Rightarrow> refuse internal
       })))))"

definition edit_of_request :: "TaxonomyKind \<Rightarrow> TaxonomyPatch \<Rightarrow> TaxonomyPatch" where
  "edit_of_request kind r = r\<lparr>tp_is_new := (if TaxonomyKind_has_new kind then tp_is_new r else None),
     tp_counts_as_done := (if TaxonomyKind_has_counts_as_done kind then tp_counts_as_done r else None)\<rparr>"

definition edit_item ::
    "env \<Rightarrow> ProjectContext \<Rightarrow> ustr option \<Rightarrow> ustr option \<Rightarrow> TaxonomyPatch json_body \<Rightarrow> ('t tracker_scheme, TaxonomyItem) handler" where
  "edit_item env ctx kind param body = permitted ctx TaxonomyModify (present (parse_kind kind) (\<lambda>k.
     present (item_id env param) (\<lambda>i. passing (parse_body valid_update_item body) (\<lambda>req. with_client (
       served (unmark_new (pr_id (cx_project ctx)) (tp_is_new (edit_of_request k req))) (\<lambda>_.
       served (taxonomy_edit (pr_id (cx_project ctx)) k i (edit_of_request k req)) (\<lambda>r. present r (answer 200))))))))"

definition in_use :: "nat \<Rightarrow> response" where
  "in_use n = problem 409 (lit ''in_use'') (Some (nat_str n @
     (if n = 1 then lit '' entity references'' else lit '' entities reference'') @ lit '' this item''))"

definition delete_item :: "env \<Rightarrow> ProjectContext \<Rightarrow> ustr option \<Rightarrow> ustr option \<Rightarrow> ('t tracker_scheme, unit) handler" where
  "delete_item env ctx kind param = permitted ctx TaxonomyDelete (present (parse_kind kind) (\<lambda>k.
     present (item_id env param) (\<lambda>i. with_client (
       served (taxonomy_reference_count i) (\<lambda>n.
         if n > 0 then refuse (in_use n) else removed (taxonomy_delete (pr_id (cx_project ctx)) k i))))))"

definition move_taxonomy_item ::
    "env \<Rightarrow> ProjectContext \<Rightarrow> ustr option \<Rightarrow> ustr option \<Rightarrow> (nat option \<times> nat option) json_body \<Rightarrow> ('t tracker_scheme, unit) handler" where
  "move_taxonomy_item env ctx kind param body = permitted ctx TaxonomyModify (present (parse_kind kind) (\<lambda>k.
     present (item_id env param) (\<lambda>i. passing (parse_body (\<lambda>_. True) body) (\<lambda>(before, after). with_client (
       removed (move_item (pr_id (cx_project ctx)) k i before after))))))"

section \<open>Labels and components\<close>

record CreateLabelRequest =
  cl_name :: ustr
  cl_color :: ustr

record UpdateLabelRequest =
  ul_name :: "ustr option"
  ul_color :: "ustr option"

definition valid_create_label :: "CreateLabelRequest \<Rightarrow> bool" where
  "valid_create_label r \<longleftrightarrow> len_between 1 64 (cl_name r) \<and> len_between 0 16 (cl_color r)"

definition valid_update_label :: "UpdateLabelRequest \<Rightarrow> bool" where
  "valid_update_label r \<longleftrightarrow> opt_all (len_between 1 64) (ul_name r) \<and> opt_all (len_between 0 16) (ul_color r)"

definition already_exists :: response where
  "already_exists = problem 409 (lit ''already_exists'') None"

definition list_labels :: "ProjectContext \<Rightarrow> ('t tracker_scheme, label_row list) handler" where
  "list_labels ctx = permitted ctx ProjectView (with_client (served (label_list (pr_id (cx_project ctx))) (answer 200)))"

definition create_label :: "ProjectContext \<Rightarrow> CreateLabelRequest json_body \<Rightarrow> ('t tracker_scheme, label_row) handler" where
  "create_label ctx body = permitted ctx LabelCreate (passing (parse_body valid_create_label body) (\<lambda>req. with_client (do {
     created \<leftarrow> label_create (pr_id (cx_project ctx)) (cl_name req) (cl_color req);
     case created of
       Inr l \<Rightarrow> answer 201 l
     | Inl UniqueViolation \<Rightarrow> refuse already_exists
     | Inl _ \<Rightarrow> refuse internal
   })))"

definition edit_label ::
    "env \<Rightarrow> ProjectContext \<Rightarrow> ustr option \<Rightarrow> UpdateLabelRequest json_body \<Rightarrow> ('t tracker_scheme, label_row) handler" where
  "edit_label env ctx param body = permitted ctx LabelModify (present (item_id env param) (\<lambda>i.
     passing (parse_body valid_update_label body) (\<lambda>req. with_client (
       served (label_edit (pr_id (cx_project ctx)) i (ul_name req) (ul_color req)) (\<lambda>r. present r (answer 200))))))"

definition delete_label :: "env \<Rightarrow> ProjectContext \<Rightarrow> ustr option \<Rightarrow> ('t tracker_scheme, unit) handler" where
  "delete_label env ctx param = permitted ctx LabelDelete (present (item_id env param) (\<lambda>i. with_client (
     removed (label_delete (pr_id (cx_project ctx)) i))))"

definition list_components :: "ProjectContext \<Rightarrow> ('t tracker_scheme, label_row list) handler" where
  "list_components ctx = permitted ctx ProjectView (with_client (served (component_list (pr_id (cx_project ctx))) (answer 200)))"

definition create_component :: "ProjectContext \<Rightarrow> CreateLabelRequest json_body \<Rightarrow> ('t tracker_scheme, label_row) handler" where
  "create_component ctx body = permitted ctx ComponentCreate (passing (parse_body valid_create_label body) (\<lambda>req. with_client (do {
     created \<leftarrow> component_create (pr_id (cx_project ctx)) (cl_name req) (cl_color req);
     case created of
       Inr l \<Rightarrow> answer 201 l
     | Inl UniqueViolation \<Rightarrow> refuse already_exists
     | Inl _ \<Rightarrow> refuse internal
   })))"

definition edit_component ::
    "env \<Rightarrow> ProjectContext \<Rightarrow> ustr option \<Rightarrow> UpdateLabelRequest json_body \<Rightarrow> ('t tracker_scheme, label_row) handler" where
  "edit_component env ctx param body = permitted ctx ComponentModify (present (item_id env param) (\<lambda>i.
     passing (parse_body valid_update_label body) (\<lambda>req. with_client (
       served (component_edit (pr_id (cx_project ctx)) i (ul_name req) (ul_color req)) (\<lambda>r. present r (answer 200))))))"

definition delete_component :: "env \<Rightarrow> ProjectContext \<Rightarrow> ustr option \<Rightarrow> ('t tracker_scheme, unit) handler" where
  "delete_component env ctx param = permitted ctx ComponentDelete (present (item_id env param) (\<lambda>i. with_client (
     removed (component_delete (pr_id (cx_project ctx)) i))))"

section \<open>Links and watchers\<close>

record CreateLinkRequest =
  cq_target_issue_id :: nat
  cq_link_type :: LinkType

text \<open>\<open>bl::issue_in_project(..).await.unwrap_or(false)\<close>\<close>

definition issue_known :: "ProjectContext \<Rightarrow> nat \<Rightarrow> ('t tracker_scheme, bool) state" where
  "issue_known ctx i = do { r \<leftarrow> issue_in_project (pr_id (cx_project ctx)) i; State_Monad.return (ok_or r False) }"

definition list_links :: "env \<Rightarrow> ProjectContext \<Rightarrow> ustr option \<Rightarrow> ('t tracker_scheme, IssueLink list) handler" where
  "list_links env ctx param = permitted ctx IssueView (present (item_id env param) (\<lambda>i. with_client (do {
     known \<leftarrow> issue_known ctx i;
     if \<not> known then refuse not_found else served (links_for_issue i) (answer 200)
   })))"

definition invalid_link :: "string \<Rightarrow> response" where
  "invalid_link detail = problem 422 (lit ''validation_failed'') (Some (lit detail))"

definition create_link ::
    "env \<Rightarrow> ProjectContext \<Rightarrow> ustr option \<Rightarrow> CreateLinkRequest json_body \<Rightarrow> ('t tracker_scheme, IssueLink) handler" where
  "create_link env ctx param body = permitted ctx IssueModify (present (item_id env param) (\<lambda>i.
     passing (parse_body (\<lambda>_. True) body) (\<lambda>req.
       if cq_target_issue_id req = i then refuse (invalid_link ''an issue cannot link to itself'')
       else with_client (do {
         source_ok \<leftarrow> issue_known ctx i;
         if \<not> source_ok then refuse not_found
         else do {
           target_ok \<leftarrow> issue_known ctx (cq_target_issue_id req);
           if \<not> target_ok then refuse (invalid_link ''target issue not found in this project'')
           else do {
             created \<leftarrow> link_create (pr_id (cx_project ctx)) i (cq_target_issue_id req) (LinkType_as_str (cq_link_type req));
             case created of
               Inr l \<Rightarrow> answer 201 l
             | Inl UniqueViolation \<Rightarrow> refuse (problem 409 (lit ''already_exists'') (Some (lit ''link already exists'')))
             | Inl _ \<Rightarrow> refuse internal
           }
         }
       }))))"

definition delete_link :: "env \<Rightarrow> ProjectContext \<Rightarrow> ustr option \<Rightarrow> ('t tracker_scheme, unit) handler" where
  "delete_link env ctx param = permitted ctx IssueModify (present (item_id env param) (\<lambda>l. with_client (
     removed (link_delete (pr_id (cx_project ctx)) l))))"

definition list_watchers :: "env \<Rightarrow> ProjectContext \<Rightarrow> ustr option \<Rightarrow> ('t tracker_scheme, uid list) handler" where
  "list_watchers env ctx param = permitted ctx IssueView (present (item_id env param) (\<lambda>i. with_client (do {
     known \<leftarrow> issue_known ctx i;
     if \<not> known then refuse not_found else served (issue_watcher_ids i) (answer 200)
   })))"

text \<open>The body may be missing or unreadable: then the caller watches.\<close>

definition add_watcher ::
    "env \<Rightarrow> ProjectContext \<Rightarrow> ustr option \<Rightarrow> uid option json_body \<Rightarrow> ('t tracker_scheme, unit) handler" where
  "add_watcher env ctx param body = permitted ctx IssueModify (present (item_id env param) (\<lambda>i.
     let user = (case body of Json u \<Rightarrow> unwrap_or u (cx_actor_id ctx) | _ \<Rightarrow> cx_actor_id ctx)
     in with_client (do {
       known \<leftarrow> issue_known ctx i;
       if \<not> known then refuse not_found else served (watcher_add i user) (\<lambda>_. answer 204 ())
     })))"

definition remove_watcher ::
    "env \<Rightarrow> ProjectContext \<Rightarrow> ustr option \<Rightarrow> ustr option \<Rightarrow> ('t tracker_scheme, unit) handler" where
  "remove_watcher env ctx param user = permitted ctx IssueModify (present (item_id env param) (\<lambda>i.
     present (item_id env user) (\<lambda>u. with_client (removed (watcher_remove i u)))))"

end
