(* ===== verification/Milestones.thy ===== *)
theory Milestones
  imports Catalog_Api
begin

text \<open>
  Milestones (\<open>crates/db/src/milestones.rs\<close>, \<open>crates/api/src/milestones.rs\<close>): their date rules, the
  guarded update, completion, the epics that compose one, the board and the statistics; and the revision
  tags and \<open>If-Match\<close> checks of \<open>crates/api/src/backlog.rs\<close> that updates share. Dates are day numbers.
  A failed \<open>CHECK\<close> is an error of the statement like any other.
\<close>

section \<open>Revisions\<close>

definition int_str :: "int \<Rightarrow> ustr" where
  "int_str v = (if v < 0 then 45 # nat_str (nat (- v)) else nat_str (nat v))"

definition etag :: "env \<Rightarrow> nat \<Rightarrow> int \<Rightarrow> ustr" where
  "etag env i v = [34] @ e_uuid_str env i @ [58] @ int_str v @ [34]"

definition strip_weak :: "ustr \<Rightarrow> ustr" where
  "strip_weak tag = unwrap_or (strip_prefix (lit ''W/'') tag) tag"

definition stale :: "ustr option \<Rightarrow> response" where
  "stale detail = problem 412 (lit ''precondition_failed'') detail"

definition check_if_match :: "HeaderMap \<Rightarrow> ustr \<Rightarrow> response + unit" where
  "check_if_match headers current =
     (case header_str headers (lit ''if-match'') of
        None \<Rightarrow> Inl (problem 428 (lit ''precondition_required'') (Some (lit ''If-Match header is required for updates'')))
      | Some val \<Rightarrow>
          if trim val = lit ''*'' \<or> list_ex (\<lambda>e. strip_weak (trim e) = strip_weak current) (split_on (\<lambda>c. c = 44) val)
          then Inr () else Inl (stale (Some (lit ''ETag mismatch; reload and retry''))))"

definition unprocessable :: "string \<Rightarrow> string \<Rightarrow> response" where
  "unprocessable code detail = problem 422 (lit code) (Some (lit detail))"

text \<open>A payload with the tag of its revision.\<close>

definition tagged :: "env \<Rightarrow> nat \<Rightarrow> nat \<Rightarrow> int \<Rightarrow> 'a \<Rightarrow> ('s, ustr \<times> 'a) handler" where
  "tagged env status i v x = answer status (etag env i v, x)"

section \<open>The table\<close>

definition is_milestone :: "pid \<Rightarrow> nat \<Rightarrow> milestone_row \<Rightarrow> bool" where
  "is_milestone p i m \<longleftrightarrow> ms_id m = i \<and> ms_project_id m = p \<and> ms_deleted_at m = None"

text \<open>The actual end when it is recorded, else the planned one.\<close>

definition effective_end :: "int option \<Rightarrow> int option \<Rightarrow> int option" where
  "effective_end planned actual = (case actual of Some a \<Rightarrow> Some a | None \<Rightarrow> planned)"

definition dates_ok :: "int option \<Rightarrow> int option \<Rightarrow> bool" where
  "dates_ok start end_date = (case (start, end_date) of (Some s, Some e) \<Rightarrow> e \<ge> s | _ \<Rightarrow> True)"

definition business_release_ok :: "int option \<Rightarrow> int option \<Rightarrow> bool" where
  "business_release_ok end_date business =
     (case business of None \<Rightarrow> True | Some b \<Rightarrow> (case end_date of None \<Rightarrow> False | Some e \<Rightarrow> b > e))"

text \<open>The constraints of V021 and V029.\<close>

definition milestone_checks :: "milestone_row \<Rightarrow> bool" where
  "milestone_checks m \<longleftrightarrow>
     business_release_ok (effective_end (ms_end_date m) (ms_actual_end_date m)) (ms_business_release_date m) \<and>
     dates_ok (ms_actual_start_date m) (ms_actual_end_date m)"

record MilestoneNew =
  mn_name :: ustr
  mn_slug :: ustr
  mn_description :: ustr
  mn_start_date :: "int option"
  mn_actual_start_date :: "int option"
  mn_end_date :: "int option"
  mn_actual_end_date :: "int option"
  mn_business_release_date :: "int option"

text \<open>The next order counts deleted milestones; the slug is unique in its project and a \<open>varchar(100)\<close>.\<close>

definition db_create_milestone :: "pid \<Rightarrow> MilestoneNew \<Rightarrow> ('t tracker_scheme, milestone_row) db" where
  "db_create_milestone p new =
     andThen (query (\<lambda>s. f64_add (unwrap_or (greatest (map ms_order (filter (\<lambda>m. ms_project_id m = p) (milestones s)))) 0) 1))
       (\<lambda>order. stmt (\<lambda>s.
         let row = \<lparr>ms_id = next_id s, ms_project_id = p, ms_name = mn_name new, ms_slug = mn_slug new,
               ms_description = mn_description new, ms_start_date = mn_start_date new,
               ms_actual_start_date = mn_actual_start_date new, ms_end_date = mn_end_date new,
               ms_actual_end_date = mn_actual_end_date new, ms_business_release_date = mn_business_release_date new,
               ms_closed = False, ms_closed_at = None, ms_order = order, ms_version = 1, ms_created_at = db_now s,
               ms_modified_at = db_now s, ms_deleted_at = None\<rparr>
         in if length (mn_slug new) > 100 \<or> \<not> milestone_checks row then (Inl Unavailable, s)
            else if any_row (\<lambda>m. ms_project_id m = p \<and> ms_slug m = mn_slug new) (milestones s) then (Inl UniqueViolation, s)
            else (Inr row, s\<lparr>milestones := milestones s @ [row], next_id := Suc (next_id s)\<rparr>)))"

definition db_get_milestone :: "pid \<Rightarrow> nat \<Rightarrow> ('t tracker_scheme, milestone_row option) db" where
  "db_get_milestone p i = query (\<lambda>s. find_row (is_milestone p i) (milestones s))"

definition wanted :: "bool option \<Rightarrow> milestone_row \<Rightarrow> bool" where
  "wanted state m \<longleftrightarrow> ms_deleted_at m = None \<and> (case state of None \<Rightarrow> True | Some c \<Rightarrow> ms_closed m = c)"

definition list_filtered :: "pid \<Rightarrow> bool option \<Rightarrow> ('t tracker_scheme, milestone_row list) db" where
  "list_filtered p state = query (\<lambda>s.
     sort_key ms_order (filter (\<lambda>m. ms_project_id m = p \<and> wanted state m) (milestones s)))"

definition completed_count :: "pid \<Rightarrow> ('t tracker_scheme, nat) db" where
  "completed_count p = query (\<lambda>s. count_where (\<lambda>m. ms_project_id m = p \<and> wanted (Some True) m) (milestones s))"

definition completed_count_across :: "pid list \<Rightarrow> ('t tracker_scheme, nat) db" where
  "completed_count_across ps =
     (if ps = [] then State_Monad.return (Inr 0)
      else query (\<lambda>s. count_where (\<lambda>m. ms_project_id m \<in> set ps \<and> wanted (Some True) m) (milestones s)))"

record MilestoneRollup =
  mu_milestone :: milestone_row
  mu_task_total :: nat
  mu_task_closed :: nat
  mu_epic_count :: nat

definition in_milestone :: "nat \<Rightarrow> issue_row \<Rightarrow> bool" where
  "in_milestone m r \<longleftrightarrow> is_milestone_id r = Some m \<and> is_deleted_at r = None"

definition rollup :: "'t tracker_scheme \<Rightarrow> milestone_row \<Rightarrow> MilestoneRollup" where
  "rollup s m = \<lparr>mu_milestone = m, mu_task_total = count_where (in_milestone (ms_id m)) (issues s),
     mu_task_closed = count_where (\<lambda>r. in_milestone (ms_id m) r \<and> counts_done s (is_status_id r)) (issues s),
     mu_epic_count = count_where (\<lambda>e. ep_milestone_id e = Some (ms_id m) \<and> ep_deleted_at e = None) (epics s)\<rparr>"

definition list_across :: "pid list \<Rightarrow> bool option \<Rightarrow> ('t tracker_scheme, MilestoneRollup list) db" where
  "list_across ps state =
     (if ps = [] then State_Monad.return (Inr [])
      else query (\<lambda>s. map (rollup s) (sort_key ms_project_id (sort_key ms_order
        (filter (\<lambda>m. ms_project_id m \<in> set ps \<and> wanted state m) (milestones s))))))"

record MilestonePatch =
  mp_name :: "ustr option"
  mp_description :: "ustr option"
  mp_start_date :: "int option option"
  mp_actual_start_date :: "int option option"
  mp_end_date :: "int option option"
  mp_actual_end_date :: "int option option"
  mp_business_release_date :: "int option option"

text \<open>A business release that is not written goes when the last technical end does.\<close>

definition patch_milestone :: "MilestonePatch \<Rightarrow> milestone_row \<Rightarrow> milestone_row" where
  "patch_milestone u m =
     (let actual = unwrap_or (mp_actual_end_date u) (ms_actual_end_date m);
          planned = unwrap_or (mp_end_date u) (ms_end_date m)
      in m\<lparr>ms_name := unwrap_or (mp_name u) (ms_name m), ms_description := unwrap_or (mp_description u) (ms_description m),
           ms_start_date := unwrap_or (mp_start_date u) (ms_start_date m),
           ms_end_date := planned, ms_actual_end_date := actual,
           ms_business_release_date := (case mp_business_release_date u of
               Some b \<Rightarrow> b
             | None \<Rightarrow> if effective_end planned actual = None then None else ms_business_release_date m),
           ms_actual_start_date := unwrap_or (mp_actual_start_date u) (ms_actual_start_date m),
           ms_version := ms_version m + 1\<rparr>)"

definition db_update_milestone ::
    "pid \<Rightarrow> nat \<Rightarrow> int \<Rightarrow> MilestonePatch \<Rightarrow> ('t tracker_scheme, milestone_row UpdateOutcome) db" where
  "db_update_milestone p i expected u =
     andThen (stmt (\<lambda>s.
       case find_row (\<lambda>m. is_milestone p i m \<and> ms_version m = expected) (milestones s) of
         None \<Rightarrow> (Inr None, s)
       | Some m \<Rightarrow>
           let m' = (patch_milestone u m)\<lparr>ms_modified_at := db_now s\<rparr>
           in if \<not> milestone_checks m' then (Inl Unavailable, s)
              else (Inr (Some m'), s\<lparr>milestones := update_where (\<lambda>q. is_milestone p i q \<and> ms_version q = expected)
                      (\<lambda>q. (patch_milestone u q)\<lparr>ms_modified_at := db_now s\<rparr>) (milestones s)\<rparr>))) (\<lambda>row.
     case row of
       Some m \<Rightarrow> State_Monad.return (Inr (Changed_to m))
     | None \<Rightarrow> classify_miss (\<lambda>s. any_row (is_milestone p i) (milestones s)))"

text \<open>Completing copies the planned end into a missing actual one, unless it precedes the actual start.\<close>

definition complete_milestone :: "int \<Rightarrow> milestone_row \<Rightarrow> milestone_row" where
  "complete_milestone now m = m\<lparr>ms_closed := True, ms_closed_at := Some (unwrap_or (ms_closed_at m) now),
     ms_actual_end_date := (case ms_actual_end_date m of
         Some a \<Rightarrow> Some a
       | None \<Rightarrow> if dates_ok (ms_actual_start_date m) (ms_end_date m) then ms_end_date m else None),
     ms_version := ms_version m + 1, ms_modified_at := now\<rparr>"

definition reopen_milestone :: "int \<Rightarrow> milestone_row \<Rightarrow> milestone_row" where
  "reopen_milestone now m = m\<lparr>ms_closed := False, ms_closed_at := None, ms_version := ms_version m + 1, ms_modified_at := now\<rparr>"

text \<open>An update of one milestone that returns it; a failed constraint undoes it.\<close>

definition change_milestone ::
    "pid \<Rightarrow> nat \<Rightarrow> (int \<Rightarrow> milestone_row \<Rightarrow> milestone_row) \<Rightarrow> ('t tracker_scheme, milestone_row option) db" where
  "change_milestone p i f = stmt (\<lambda>s.
     case find_row (is_milestone p i) (milestones s) of
       None \<Rightarrow> (Inr None, s)
     | Some m \<Rightarrow> if \<not> milestone_checks (f (db_now s) m) then (Inl Unavailable, s)
         else (Inr (Some (f (db_now s) m)), s\<lparr>milestones := update_where (is_milestone p i) (f (db_now s)) (milestones s)\<rparr>))"

definition db_close_milestone :: "pid \<Rightarrow> nat \<Rightarrow> ('t tracker_scheme, milestone_row option) db" where
  "db_close_milestone p i = change_milestone p i complete_milestone"

definition db_reopen_milestone :: "pid \<Rightarrow> nat \<Rightarrow> ('t tracker_scheme, milestone_row option) db" where
  "db_reopen_milestone p i = change_milestone p i reopen_milestone"

definition soft_delete_milestone :: "pid \<Rightarrow> nat \<Rightarrow> ('t tracker_scheme, bool) db" where
  "soft_delete_milestone p i =
     execute (\<lambda>s. affected (is_milestone p i) (milestones s) > 0)
       (\<lambda>s. s\<lparr>milestones := update_where (is_milestone p i)
          (\<lambda>m. m\<lparr>ms_deleted_at := Some (db_now s), ms_modified_at := db_now s\<rparr>) (milestones s)\<rparr>)"

definition milestone_in_project :: "pid \<Rightarrow> nat \<Rightarrow> ('t tracker_scheme, bool) db" where
  "milestone_in_project p i = query (\<lambda>s. any_row (is_milestone p i) (milestones s))"

definition milestone_is_closed :: "pid \<Rightarrow> nat \<Rightarrow> ('t tracker_scheme, bool) db" where
  "milestone_is_closed p i = query (\<lambda>s.
     case find_row (is_milestone p i) (milestones s) of None \<Rightarrow> False | Some m \<Rightarrow> ms_closed m)"

definition has_epics :: "pid \<Rightarrow> nat \<Rightarrow> ('t tracker_scheme, bool) db" where
  "has_epics p i = query (\<lambda>s.
     any_row (\<lambda>e. ep_milestone_id e = Some i \<and> ep_project_id e = p \<and> ep_deleted_at e = None) (epics s))"

record MilestoneStats =
  mt_total_points :: f64
  mt_completed_points :: f64
  mt_total_tasks :: nat
  mt_completed_tasks :: nat

definition size_value :: "'t tracker_scheme \<Rightarrow> issue_row \<Rightarrow> f64 option" where
  "size_value s r = Option.bind (is_size_id r) (\<lambda>i. Option.bind (find_row (\<lambda>t. x_id t = i) (taxonomy s)) x_value)"

text \<open>A sum skips nulls; its additions round one by one, in the order of the table.\<close>

definition f64_sum :: "f64 list \<Rightarrow> f64" where
  "f64_sum xs = fold (\<lambda>x acc. f64_add acc x) xs 0"

definition milestone_stats :: "pid \<Rightarrow> nat \<Rightarrow> ('t tracker_scheme, MilestoneStats) db" where
  "milestone_stats p i = query (\<lambda>s.
     let rows = filter (\<lambda>r. is_project_id r = p \<and> in_milestone i r) (issues s)
     in \<lparr>mt_total_points = f64_sum (List.map_filter (size_value s) rows),
         mt_completed_points = f64_sum (List.map_filter
            (\<lambda>r. if counts_done s (is_status_id r) then size_value s r else Some 0) rows),
         mt_total_tasks = length rows,
         mt_completed_tasks = count_where (\<lambda>r. counts_done s (is_status_id r)) rows\<rparr>)"

section \<open>Requests\<close>

record CreateMilestoneRequest =
  mc_name :: ustr
  mc_slug :: "ustr option"
  mc_description :: ustr
  mc_start_date :: "int option"
  mc_actual_start_date :: "int option"
  mc_end_date :: "int option"
  mc_actual_end_date :: "int option"
  mc_business_release_date :: "int option"

definition valid_create_milestone :: "CreateMilestoneRequest \<Rightarrow> bool" where
  "valid_create_milestone r \<longleftrightarrow> len_between 1 200 (mc_name r) \<and>
     opt_all (\<lambda>s. len_between 0 100 s \<and> slug_pattern s) (mc_slug r) \<and> len_between 0 100000 (mc_description r)"

definition valid_update_milestone :: "MilestonePatch \<Rightarrow> bool" where
  "valid_update_milestone r \<longleftrightarrow> opt_all (len_between 1 200) (mp_name r) \<and> opt_all (len_between 0 100000) (mp_description r)"

text \<open>The \<open>state\<close> parameter: every milestone, the open or the completed ones, or an unknown filter.\<close>

definition state_filter :: "ustr option \<Rightarrow> bool option option" where
  "state_filter q =
     (case q of
        None \<Rightarrow> Some None
      | Some v \<Rightarrow> if v = lit ''all'' then Some None else if v = lit ''open'' then Some (Some False)
          else if v = lit ''completed'' then Some (Some True) else None)"

definition invalid_state :: response where
  "invalid_state = problem 422 (lit ''invalid_state'') (Some (lit ''state must be one of: open, completed, all''))"

definition invalid_dates :: "string \<Rightarrow> response" where
  "invalid_dates detail = problem 422 (lit ''invalid_dates'') (Some (lit detail))"

definition ACTUAL_RANGE_RULE :: string where
  "ACTUAL_RANGE_RULE = ''actual_end_date must be on or after actual_start_date''"

definition BUSINESS_RELEASE_RULE :: string where
  "BUSINESS_RELEASE_RULE =
     ''business_release_date must be after the technical end date (actual_end_date when set, otherwise end_date)''"

text \<open>A milestone as the caller sees it: the business release is there, null included, or its key is gone.\<close>

record MilestoneJson =
  mj_row :: milestone_row
  mj_business_release_date :: "int option option"

definition view :: "milestone_row \<Rightarrow> bool \<Rightarrow> MilestoneJson" where
  "view m may = \<lparr>mj_row = m\<lparr>ms_business_release_date := None\<rparr>,
     mj_business_release_date = (if may then Some (ms_business_release_date m) else None)\<rparr>"

definition may_view :: "ProjectContext \<Rightarrow> bool" where
  "may_view ctx = ctx_has ctx MilestoneBusinessReleaseView"

definition show_milestone ::
    "env \<Rightarrow> ProjectContext \<Rightarrow> nat \<Rightarrow> milestone_row \<Rightarrow> ('s, ustr \<times> MilestoneJson) handler" where
  "show_milestone env ctx status m = tagged env status (ms_id m) (ms_version m) (view m (may_view ctx))"

definition modify_business :: "ProjectContext \<Rightarrow> bool \<Rightarrow> response + unit" where
  "modify_business ctx touched = (if touched then ctx_require ctx MilestoneBusinessReleaseModify else Inr ())"

definition new_dates :: "CreateMilestoneRequest \<Rightarrow> response + unit" where
  "new_dates r =
     (if \<not> dates_ok (mc_start_date r) (mc_end_date r) then Inl (invalid_dates ''end_date must be on or after start_date'')
      else if \<not> dates_ok (mc_actual_start_date r) (mc_actual_end_date r) then Inl (invalid_dates ACTUAL_RANGE_RULE)
      else if \<not> business_release_ok (effective_end (mc_end_date r) (mc_actual_end_date r)) (mc_business_release_date r)
      then Inl (invalid_dates BUSINESS_RELEASE_RULE) else Inr ())"

definition milestone_of_request :: "CreateMilestoneRequest \<Rightarrow> MilestoneNew" where
  "milestone_of_request r = \<lparr>mn_name = mc_name r, mn_slug = unwrap_or (mc_slug r) (slugify (mc_name r)),
     mn_description = mc_description r, mn_start_date = mc_start_date r, mn_actual_start_date = mc_actual_start_date r,
     mn_end_date = mc_end_date r, mn_actual_end_date = mc_actual_end_date r,
     mn_business_release_date = mc_business_release_date r\<rparr>"

definition create_milestone ::
    "env \<Rightarrow> ProjectContext \<Rightarrow> CreateMilestoneRequest json_body \<Rightarrow> ('t tracker_scheme, ustr \<times> MilestoneJson) handler" where
  "create_milestone env ctx body = permitted ctx MilestoneCreate (
     passing (parse_body valid_create_milestone body) (\<lambda>req.
     passing (modify_business ctx (mc_business_release_date req \<noteq> None)) (\<lambda>_.
     passing (new_dates req) (\<lambda>_. with_client (do {
       created \<leftarrow> db_create_milestone (pr_id (cx_project ctx)) (milestone_of_request req);
       case created of
         Inr m \<Rightarrow> show_milestone env ctx 201 m
       | Inl UniqueViolation \<Rightarrow> refuse (problem 409 (lit ''already_exists'') (Some (lit ''milestone slug already used'')))
       | Inl _ \<Rightarrow> refuse internal
     })))))"

definition list_milestones ::
    "ProjectContext \<Rightarrow> ustr option \<Rightarrow> ('t tracker_scheme, MilestoneJson list \<times> nat) handler" where
  "list_milestones ctx state = permitted ctx MilestoneView (
     case state_filter state of
       None \<Rightarrow> refuse invalid_state
     | Some c \<Rightarrow> with_client (
         served (completed_count (pr_id (cx_project ctx))) (\<lambda>n.
         served (list_filtered (pr_id (cx_project ctx)) c) (\<lambda>rows.
           answer 200 (map (\<lambda>m. view m (may_view ctx)) rows, n)))))"

record ListedMilestone =
  lm_milestone :: MilestoneJson
  lm_project :: Project
  lm_task_total :: nat
  lm_task_closed :: nat
  lm_epic_count :: nat

text \<open>The projects of a member whose milestones he may see, with whether he sees the business release.\<close>

fun member_projects :: "uid \<Rightarrow> Project list \<Rightarrow> ('t tracker_scheme, (Project \<times> bool) list) db" where
  "member_projects u [] = State_Monad.return (Inr [])"
| "member_projects u (p # ps) =
     andThen (access (pr_id p) u) (\<lambda>a. andThen (member_projects u ps) (\<lambda>rest. State_Monad.return (Inr (
       case a of
         None \<Rightarrow> rest
       | Some m \<Rightarrow> if access_has m MilestoneView then (p, access_has m MilestoneBusinessReleaseView) # rest else rest))))"

definition visible_projects :: "Caller \<Rightarrow> ('t tracker_scheme, (Project \<times> bool) list) db" where
  "visible_projects caller =
     (case caller of
        User u \<Rightarrow> do {
          flag \<leftarrow> is_active_superadmin u;
          if ok_or flag False
          then andThen list_all_projects (\<lambda>ps. State_Monad.return (Inr (map (\<lambda>p. (p, True)) ps)))
          else andThen (list_for_member u) (member_projects u)
        }
      | AppToken tok \<Rightarrow>
          if MilestoneView \<in> set (aa_permissions tok)
          then andThen (list_by_ids (aa_project_ids tok)) (\<lambda>ps. State_Monad.return (Inr (
            map (\<lambda>p. (p, MilestoneBusinessReleaseView \<in> set (aa_permissions tok))) ps)))
          else State_Monad.return (Inr []))"

definition listed :: "(Project \<times> bool) list \<Rightarrow> MilestoneRollup \<Rightarrow> ListedMilestone option" where
  "listed visible r =
     map_option (\<lambda>(project, may). \<lparr>lm_milestone = view (mu_milestone r) may, lm_project = project,
         lm_task_total = mu_task_total r, lm_task_closed = mu_task_closed r, lm_epic_count = mu_epic_count r\<rparr>)
       (map_of (rev (map (\<lambda>v. (pr_id (fst v), v)) visible)) (ms_project_id (mu_milestone r)))"

definition list_all_milestones ::
    "Caller \<Rightarrow> ustr option \<Rightarrow> ('t tracker_scheme, ListedMilestone list \<times> nat) handler" where
  "list_all_milestones caller state =
     (case state_filter state of
        None \<Rightarrow> refuse invalid_state
      | Some c \<Rightarrow> with_client (
          served (visible_projects caller) (\<lambda>visible.
          served (list_across (map (\<lambda>v. pr_id (fst v)) visible) c) (\<lambda>rows.
          served (completed_count_across (map (\<lambda>v. pr_id (fst v)) visible)) (\<lambda>n.
            answer 200 (List.map_filter (listed visible) rows, n))))))"

definition get_milestone ::
    "env \<Rightarrow> ProjectContext \<Rightarrow> ustr option \<Rightarrow> ('t tracker_scheme, ustr \<times> MilestoneJson) handler" where
  "get_milestone env ctx param = permitted ctx MilestoneView (present (item_id env param) (\<lambda>i. with_client (
     served (db_get_milestone (pr_id (cx_project ctx)) i) (\<lambda>r. present r (show_milestone env ctx 200)))))"

text \<open>The rules on the row as the request would leave it.\<close>

definition edited_dates :: "MilestonePatch \<Rightarrow> milestone_row \<Rightarrow> response + unit" where
  "edited_dates u m =
     (let start = unwrap_or (mp_start_date u) (ms_start_date m);
          actual_start = unwrap_or (mp_actual_start_date u) (ms_actual_start_date m);
          planned = unwrap_or (mp_end_date u) (ms_end_date m);
          actual = unwrap_or (mp_actual_end_date u) (ms_actual_end_date m);
          effective = effective_end planned actual;
          business = (if effective = None then None else unwrap_or (mp_business_release_date u) (ms_business_release_date m))
      in if \<not> dates_ok start planned then Inl (invalid_dates ''end_date must be on or after start_date'')
         else if \<not> dates_ok start actual then Inl (invalid_dates ''actual_end_date must be on or after start_date'')
         else if \<not> dates_ok actual_start actual then Inl (invalid_dates ACTUAL_RANGE_RULE)
         else if \<not> business_release_ok effective business then Inl (invalid_dates BUSINESS_RELEASE_RULE)
         else Inr ())"

definition update_milestone ::
    "env \<Rightarrow> ProjectContext \<Rightarrow> HeaderMap \<Rightarrow> ustr option \<Rightarrow> MilestonePatch json_body
     \<Rightarrow> ('t tracker_scheme, ustr \<times> MilestoneJson) handler" where
  "update_milestone env ctx headers param body = permitted ctx MilestoneModify (present (item_id env param) (\<lambda>i.
     passing (parse_body valid_update_milestone body) (\<lambda>req.
     passing (modify_business ctx (mp_business_release_date req \<noteq> None)) (\<lambda>_. with_client (do {
       found \<leftarrow> db_get_milestone (pr_id (cx_project ctx)) i;
       present (ok_or found None) (\<lambda>existing.
       passing (check_if_match headers (etag env (ms_id existing) (ms_version existing))) (\<lambda>_.
       passing (edited_dates req existing) (\<lambda>_.
       served (db_update_milestone (pr_id (cx_project ctx)) i (ms_version existing) req) (\<lambda>outcome.
         case outcome of
           Changed_to m \<Rightarrow> show_milestone env ctx 200 m
         | Missing \<Rightarrow> refuse not_found
         | Conflicting \<Rightarrow> refuse (stale (Some (lit ''milestone changed since it was loaded; reload and retry'')))))))
     })))))"

definition set_completed ::
    "env \<Rightarrow> ProjectContext \<Rightarrow> ustr option \<Rightarrow> bool \<Rightarrow> ('t tracker_scheme, ustr \<times> MilestoneJson) handler" where
  "set_completed env ctx param completed = permitted ctx MilestoneModify (present (item_id env param) (\<lambda>i. with_client (
     served (if completed then db_close_milestone (pr_id (cx_project ctx)) i else db_reopen_milestone (pr_id (cx_project ctx)) i)
       (\<lambda>r. present r (show_milestone env ctx 200)))))"

definition milestone_has_epics :: response where
  "milestone_has_epics = problem 409 (lit ''milestone_has_epics'') (Some (lit ''remove every epic from the milestone before deleting it''))"

definition delete_milestone :: "env \<Rightarrow> ProjectContext \<Rightarrow> ustr option \<Rightarrow> ('t tracker_scheme, unit) handler" where
  "delete_milestone env ctx param = permitted ctx MilestoneDelete (present (item_id env param) (\<lambda>i. with_client (
     served (has_epics (pr_id (cx_project ctx)) i) (\<lambda>full.
       if full then refuse milestone_has_epics else removed (soft_delete_milestone (pr_id (cx_project ctx)) i)))))"

definition milestone_known :: "ProjectContext \<Rightarrow> nat \<Rightarrow> ('t tracker_scheme, bool) state" where
  "milestone_known ctx i = do { r \<leftarrow> milestone_in_project (pr_id (cx_project ctx)) i; State_Monad.return (ok_or r False) }"

text \<open>A request about a milestone that must be in the project.\<close>

definition about_milestone ::
    "env \<Rightarrow> ProjectContext \<Rightarrow> ustr option \<Rightarrow> (nat \<Rightarrow> ('t tracker_scheme, response + 'a) state)
     \<Rightarrow> ('t tracker_scheme, response + 'a) state" where
  "about_milestone env ctx param f = present (item_id env param) (\<lambda>i. with_client (do {
     known \<leftarrow> milestone_known ctx i;
     if \<not> known then refuse not_found else f i
   }))"

definition milestone_epics :: "env \<Rightarrow> ProjectContext \<Rightarrow> ustr option \<Rightarrow> ('t tracker_scheme, Epic list) handler" where
  "milestone_epics env ctx param = permitted ctx MilestoneView (about_milestone env ctx param (\<lambda>i.
     served (epics_in_milestone (pr_id (cx_project ctx)) i) (answer 200)))"

record board_column =
  bc_status :: "TaxonomyItem option"
  bc_issues :: "(Issue \<times> Issue list) list"

text \<open>Each issue with its sub-tasks, none if they cannot be read.\<close>

fun with_subtasks :: "pid \<Rightarrow> Issue list \<Rightarrow> ('t tracker_scheme, (Issue \<times> Issue list) list) state" where
  "with_subtasks p [] = State_Monad.return []"
| "with_subtasks p (x # xs) = do {
     children \<leftarrow> children_for_parent p (is_id (io_row x));
     rest \<leftarrow> with_subtasks p xs;
     State_Monad.return ((x, ok_or children []) # rest)
   }"

definition column_of :: "(Issue \<times> Issue list) list \<Rightarrow> TaxonomyItem option \<Rightarrow> board_column" where
  "column_of cards status = \<lparr>bc_status = status,
     bc_issues = filter (\<lambda>c. is_status_id (io_row (fst c)) = map_option (\<lambda>t. x_id (ti_row t)) status) cards\<rparr>"

definition milestone_board :: "env \<Rightarrow> ProjectContext \<Rightarrow> ustr option \<Rightarrow> ('t tracker_scheme, nat \<times> board_column list) handler" where
  "milestone_board env ctx param = permitted ctx MilestoneView (about_milestone env ctx param (\<lambda>i.
     served (taxonomy_list (pr_id (cx_project ctx)) IssueStatus) (\<lambda>statuses.
     served (issues_in_milestone (pr_id (cx_project ctx)) i) (\<lambda>rows. do {
       cards \<leftarrow> with_subtasks (pr_id (cx_project ctx)) rows;
       answer 200 (i, map (\<lambda>t. column_of cards (Some t)) statuses @ [column_of cards None])
     }))))"

definition get_milestone_stats :: "env \<Rightarrow> ProjectContext \<Rightarrow> ustr option \<Rightarrow> ('t tracker_scheme, MilestoneStats) handler" where
  "get_milestone_stats env ctx param = permitted ctx MilestoneView (about_milestone env ctx param (\<lambda>i.
     served (milestone_stats (pr_id (cx_project ctx)) i) (answer 200)))"

definition milestone_closed :: response where
  "milestone_closed = problem 409 (lit ''milestone_closed'') (Some (lit ''cannot add an epic to a completed milestone''))"

text \<open>Adding to a completed milestone is refused, emptying one is not.\<close>

definition set_epics :: "env \<Rightarrow> ProjectContext \<Rightarrow> ustr option \<Rightarrow> nat list json_body \<Rightarrow> ('t tracker_scheme, unit) handler" where
  "set_epics env ctx param body = permitted ctx MilestoneModify (present (item_id env param) (\<lambda>_.
     passing (parse_body (\<lambda>_. True) body) (\<lambda>ids. about_milestone env ctx param (\<lambda>i. do {
       full \<leftarrow> (if ids = [] then State_Monad.return (Inr False) else milestone_is_closed (pr_id (cx_project ctx)) i);
       if ok_or full False then refuse milestone_closed
       else served (set_milestone_epics (pr_id (cx_project ctx)) i ids) (\<lambda>_. answer 204 ())
     }))))"

end
