(* ===== verification/Tracker.thy ===== *)
theory Tracker
  imports Milestones
begin

text \<open>
  The backlog endpoints (\<open>crates/api/src/backlog.rs\<close>): epics, issues, comments, history. Updates are
  guarded by \<open>If-Match\<close> and by the version in the statement; creations with an \<open>Idempotency-Key\<close> are
  replayed; changes are recorded as history and published. A difference keeps its fields in the order
  they are compared, and a date as its day number.
\<close>

section \<open>Requests\<close>

definition COMMENT_EDIT_WINDOW_SECS :: int where "COMMENT_EDIT_WINDOW_SECS = 24 * 60 * 60"
definition IDEMPOTENCY_TTL_SECS :: int where "IDEMPOTENCY_TTL_SECS = 24 * 60 * 60"
definition ERASE_GRACE_DAYS :: int where "ERASE_GRACE_DAYS = 30"

definition grace_end :: "int \<Rightarrow> int" where
  "grace_end now = now + ERASE_GRACE_DAYS * 86400"

definition parse_create :: "('r \<Rightarrow> bool) \<Rightarrow> 'r json_body \<Rightarrow> response + 'r" where
  "parse_create valid body =
     (case body of
        Json v \<Rightarrow> if valid v then Inr v else Inl (unprocessable ''validation_failed'' ''validation failed'')
      | _ \<Rightarrow> Inl (problem 400 (lit ''invalid_body'') None))"

definition parse_patch :: "'r json_body \<Rightarrow> response + 'r" where
  "parse_patch body =
     (case body of
        Json v \<Rightarrow> Inr v
      | MalformedJson \<Rightarrow> Inl (problem 400 (lit ''invalid_body'') (Some (lit ''unknown or malformed field'')))
      | MissingJsonContentType \<Rightarrow> Inl (problem 400 (lit ''invalid_body'') None))"

definition diff_field :: "string \<Rightarrow> jval \<Rightarrow> jval \<Rightarrow> (ustr \<times> jval \<times> jval) list" where
  "diff_field name old new = (if old \<noteq> new then [(lit name, old, new)] else [])"

definition jopt :: "('a \<Rightarrow> jval) \<Rightarrow> 'a option \<Rightarrow> jval" where
  "jopt f x = (case x of None \<Rightarrow> JNull | Some y \<Rightarrow> f y)"

text \<open>\<open>str::parse::<i64>\<close>\<close>

definition digits_value :: "ustr \<Rightarrow> int" where
  "digits_value ds = foldl (\<lambda>n c. n * 10 + (int c - 48)) 0 ds"

definition parse_i64 :: "ustr \<Rightarrow> int option" where
  "parse_i64 s =
     (let (sign, ds) = (case s of [] \<Rightarrow> (1, []) | c # cs \<Rightarrow> if c = 45 then (- 1, cs) else if c = 43 then (1, cs) else (1, s));
          n = sign * digits_value ds
      in if ds = [] \<or> \<not> list_all is_ascii_digit ds \<or> n < - (2 ^ 63) \<or> n \<ge> 2 ^ 63 then None else Some n)"

section \<open>Repeated requests\<close>

text \<open>The answer of a creation: the entity and its tag, or a stored answer again.\<close>

datatype reply = Fresh ustr created_body | Replayed created_body

definition idem_key :: "HeaderMap \<Rightarrow> ustr option" where
  "idem_key headers = header_str headers (lit ''idempotency-key'')"

definition replay_status :: "nat \<Rightarrow> nat" where
  "replay_status n = (if 100 \<le> n \<and> n < 1000 then n else 200)"

definition replay :: "uid \<Rightarrow> ustr option \<Rightarrow> ustr \<Rightarrow> ustr \<Rightarrow> ('t tracker_scheme, (nat \<times> created_body) option) state" where
  "replay user key meth path =
     (case key of
        None \<Rightarrow> State_Monad.return None
      | Some k \<Rightarrow> do {
          r \<leftarrow> idem_lookup user k meth path;
          State_Monad.return (map_option (\<lambda>(st, b). (replay_status st, b)) (ok_or r None))
        })"

definition remember :: "uid \<Rightarrow> ustr option \<Rightarrow> ustr \<Rightarrow> ustr \<Rightarrow> nat \<Rightarrow> created_body \<Rightarrow> ('t tracker_scheme, unit) state" where
  "remember user key meth path status body =
     (case key of
        None \<Rightarrow> State_Monad.return ()
      | Some k \<Rightarrow> do {
          now \<leftarrow> get_now;
          ignore (idem_store user k meth path status body (now + IDEMPOTENCY_TTL_SECS))
        })"

definition project_path :: "env \<Rightarrow> ProjectContext \<Rightarrow> string \<Rightarrow> ustr" where
  "project_path env ctx entity = lit ''/projects/'' @ e_uuid_str env (pr_id (cx_project ctx)) @ lit ''/'' @ lit entity"

text \<open>A creation: the stored answer if there is one, else the work.\<close>

definition once ::
    "env \<Rightarrow> ProjectContext \<Rightarrow> HeaderMap \<Rightarrow> string \<Rightarrow> ('t tracker_scheme, reply) handler \<Rightarrow> ('t tracker_scheme, reply) handler" where
  "once env ctx headers entity work = do {
     stored \<leftarrow> replay (cx_actor_id ctx) (idem_key headers) (lit ''POST'') (project_path env ctx entity);
     case stored of
       Some (status, b) \<Rightarrow> answer status (Replayed b)
     | None \<Rightarrow> work
   }"

text \<open>The end of a creation: history, the stored answer, the event.\<close>

definition announce ::
    "env \<Rightarrow> ProjectContext \<Rightarrow> HeaderMap \<Rightarrow> string \<Rightarrow> string \<Rightarrow> nat \<Rightarrow> int \<Rightarrow> created_body \<Rightarrow> pid \<Rightarrow> event
     \<Rightarrow> ('t tracker_scheme, reply) handler" where
  "announce env ctx headers kind entity i version body p e = do {
     _ \<leftarrow> history_record (pr_id (cx_project ctx)) (lit kind) i (Some (cx_actor_id ctx)) Created;
     _ \<leftarrow> remember (cx_actor_id ctx) (idem_key headers) (lit ''POST'') (project_path env ctx entity) 201 body;
     _ \<leftarrow> publish p e;
     answer 201 (Fresh (etag env i version) body)
   }"

section \<open>Epics\<close>

record CreateEpicRequest =
  ce_subject :: ustr
  ce_description :: ustr
  ce_status_id :: "nat option"
  ce_color :: ustr
  ce_assigned_to :: "uid option"
  ce_milestone_id :: "nat option"

record UpdateEpicRequest =
  ue_subject :: "ustr option"
  ue_description :: "ustr option"
  ue_status_id :: "nat option option"
  ue_color :: "ustr option"
  ue_assigned_to :: "uid option option"
  ue_milestone_id :: "nat option option"
  ue_start_date :: "int option"
  ue_end_date :: "int option"

definition valid_create_epic :: "CreateEpicRequest \<Rightarrow> bool" where
  "valid_create_epic r \<longleftrightarrow> len_between 1 500 (ce_subject r) \<and> len_between 0 100000 (ce_description r) \<and>
     len_between 0 16 (ce_color r)"

definition validate_epic_milestone_assignment :: "ProjectContext \<Rightarrow> nat option \<Rightarrow> ('t tracker_scheme, response + unit) state" where
  "validate_epic_milestone_assignment ctx milestone =
     (case milestone of
        None \<Rightarrow> State_Monad.return (Inr ())
      | Some m \<Rightarrow> do {
          known \<leftarrow> milestone_known ctx m;
          if \<not> known then refuse (unprocessable ''invalid_association'' ''milestone is not in this project'')
          else do {
            full \<leftarrow> milestone_is_closed (pr_id (cx_project ctx)) m;
            if ok_or full False then refuse milestone_closed else State_Monad.return (Inr ())
          }
        })"

text \<open>\<open>if let Err(r) = check(..).await { return r; }\<close>\<close>

definition verifying :: "('s, response + unit) state \<Rightarrow> ('s, response + 'a) state \<Rightarrow> ('s, response + 'a) state" where
  "verifying check m = do { r \<leftarrow> check; passing r (\<lambda>_. m) }"

definition epic_of_request :: "CreateEpicRequest \<Rightarrow> NewEpic" where
  "epic_of_request r = \<lparr>ne_subject = ce_subject r, ne_description = ce_description r, ne_status_id = ce_status_id r,
     ne_color = ce_color r, ne_assigned_to = ce_assigned_to r, ne_milestone_id = ce_milestone_id r\<rparr>"

definition create_epic ::
    "env \<Rightarrow> ProjectContext \<Rightarrow> HeaderMap \<Rightarrow> CreateEpicRequest json_body \<Rightarrow> ('t tracker_scheme, reply) handler" where
  "create_epic env ctx headers body = permitted ctx EpicCreate (
     passing (parse_create valid_create_epic body) (\<lambda>req. with_client (
     verifying (validate_epic_milestone_assignment ctx (ce_milestone_id req)) (
     once env ctx headers ''epics'' (
     served (db_create_epic (pr_id (cx_project ctx)) (cx_actor_id ctx) (epic_of_request req)) (\<lambda>e.
       announce env ctx headers ''epic'' ''epics'' (ep_id (eo_row e)) (ep_version (eo_row e)) (EpicBody e)
         (ep_project_id (eo_row e)) (EpicEvent (lit ''epic.created'') (cx_actor_id ctx) e)))))))"

definition list_epics :: "ProjectContext \<Rightarrow> ('t tracker_scheme, Epic list) handler" where
  "list_epics ctx = permitted ctx EpicView (with_client (served (db_list_epics (pr_id (cx_project ctx))) (answer 200)))"

definition show_epic :: "env \<Rightarrow> Epic \<Rightarrow> ('s, ustr \<times> Epic) handler" where
  "show_epic env e = tagged env 200 (ep_id (eo_row e)) (ep_version (eo_row e)) e"

definition get_epic :: "env \<Rightarrow> ProjectContext \<Rightarrow> ustr option \<Rightarrow> ('t tracker_scheme, ustr \<times> Epic) handler" where
  "get_epic env ctx param = permitted ctx EpicView (present (item_id env param) (\<lambda>i. with_client (
     served (db_get_epic (pr_id (cx_project ctx)) i) (\<lambda>r. present r (show_epic env)))))"

text \<open>What a patch leaves of an epic; an absent date keeps the old one.\<close>

definition edited_epic :: "UpdateEpicRequest \<Rightarrow> epic_row \<Rightarrow> EpicWrite" where
  "edited_epic u old = \<lparr>ew_subject = unwrap_or (ue_subject u) (ep_subject old),
     ew_description = unwrap_or (ue_description u) (ep_description old),
     ew_status_id = unwrap_or (ue_status_id u) (ep_status_id old), ew_color = unwrap_or (ue_color u) (ep_color old),
     ew_assigned_to = unwrap_or (ue_assigned_to u) (ep_assigned_to old),
     ew_milestone_id = unwrap_or (ue_milestone_id u) (ep_milestone_id old),
     ew_start_date = or_else (ue_start_date u) (ep_start_date old),
     ew_end_date = or_else (ue_end_date u) (ep_end_date old)\<rparr>"

definition epic_diff :: "epic_row \<Rightarrow> EpicWrite \<Rightarrow> (ustr \<times> jval \<times> jval) list" where
  "epic_diff old w =
     diff_field ''subject'' (JText (ep_subject old)) (JText (ew_subject w)) @
     diff_field ''description'' (JText (ep_description old)) (JText (ew_description w)) @
     diff_field ''color'' (JText (ep_color old)) (JText (ew_color w)) @
     diff_field ''status_id'' (jopt JId (ep_status_id old)) (jopt JId (ew_status_id w)) @
     diff_field ''assigned_to'' (jopt JId (ep_assigned_to old)) (jopt JId (ew_assigned_to w)) @
     diff_field ''milestone_id'' (jopt JId (ep_milestone_id old)) (jopt JId (ew_milestone_id w)) @
     diff_field ''start_date'' (jopt JInt (ep_start_date old)) (jopt JInt (ew_start_date w)) @
     diff_field ''end_date'' (jopt JInt (ep_end_date old)) (jopt JInt (ew_end_date w))"

definition record_changes :: "ProjectContext \<Rightarrow> string \<Rightarrow> nat \<Rightarrow> (ustr \<times> jval \<times> jval) list \<Rightarrow> ('t tracker_scheme, unit) state" where
  "record_changes ctx kind i d =
     (if d = [] then State_Monad.return ()
      else history_record (pr_id (cx_project ctx)) (lit kind) i (Some (cx_actor_id ctx)) (Changed d))"

definition update_epic ::
    "env \<Rightarrow> ProjectContext \<Rightarrow> HeaderMap \<Rightarrow> ustr option \<Rightarrow> UpdateEpicRequest json_body
     \<Rightarrow> ('t tracker_scheme, ustr \<times> Epic) handler" where
  "update_epic env ctx headers param body = permitted ctx EpicModify (present (item_id env param) (\<lambda>i.
     passing (parse_patch body) (\<lambda>u. with_client (do {
       found \<leftarrow> db_get_epic (pr_id (cx_project ctx)) i;
       present (ok_or found None) (\<lambda>e.
       let old = eo_row e; w = edited_epic u old
       in passing (check_if_match headers (etag env (ep_id old) (ep_version old))) (\<lambda>_.
          verifying (if ew_milestone_id w \<noteq> ep_milestone_id old then validate_epic_milestone_assignment ctx (ew_milestone_id w)
                 else State_Monad.return (Inr ())) (
          served (db_update_epic (pr_id (cx_project ctx)) i (ep_version old) w) (\<lambda>outcome.
            case outcome of
              Changed_to e' \<Rightarrow> do {
                _ \<leftarrow> record_changes ctx ''epic'' (ep_id (eo_row e')) (epic_diff old w);
                _ \<leftarrow> publish (ep_project_id (eo_row e')) (EpicEvent (lit ''epic.updated'') (cx_actor_id ctx) e');
                show_epic env e'
              }
            | Missing \<Rightarrow> refuse not_found
            | Conflicting \<Rightarrow> refuse (stale None)))))
     }))))"

text \<open>The listing is read first; the target order is used when the ranks leave no room.\<close>

definition reorder ::
    "('t tracker_scheme \<Rightarrow> bool) \<Rightarrow> (nat \<Rightarrow> f64 \<Rightarrow> 't tracker_scheme \<Rightarrow> 't tracker_scheme) \<Rightarrow> nat \<Rightarrow> nat option \<Rightarrow> nat option
     \<Rightarrow> (nat \<times> f64) list \<Rightarrow> ('t tracker_scheme, unit) handler" where
  "reorder hit put i before after_id items =
     (if i \<notin> set (map fst items) then refuse not_found
      else removed (set_order hit put i (rank_in items before) (rank_in items after_id)
        (target_order (map fst items) i before after_id)))"

definition move_epic ::
    "env \<Rightarrow> ProjectContext \<Rightarrow> ustr option \<Rightarrow> (nat option \<times> nat option) json_body \<Rightarrow> ('t tracker_scheme, unit) handler" where
  "move_epic env ctx param body = permitted ctx EpicModify (present (item_id env param) (\<lambda>i.
     passing (parse_create (\<lambda>_. True) body) (\<lambda>(before, after_id). with_client (
       served (db_list_epics (pr_id (cx_project ctx))) (\<lambda>items.
         reorder (\<lambda>s. any_row (\<lambda>e. ep_id e = i \<and> ep_project_id e = pr_id (cx_project ctx)) (epics s))
           (put_epic_rank (pr_id (cx_project ctx))) i before after_id
           (map (\<lambda>e. (ep_id (eo_row e), ep_order (eo_row e))) items))))))"

section \<open>Deletion\<close>

definition audit_delete :: "env \<Rightarrow> ProjectContext \<Rightarrow> HeaderMap \<Rightarrow> EntityKind \<Rightarrow> nat \<Rightarrow> ('t tracker_scheme, unit) state" where
  "audit_delete env ctx headers kind i =
     audit env headers (Some (cx_actor_id ctx)) (lit ''entity_deleted'')
       [(lit ''kind'', EntityKind_as_str kind), (lit ''id'', e_uuid_str env i)]"

definition admin_access :: "ProjectContext \<Rightarrow> bool" where
  "admin_access ctx \<longleftrightarrow> (case cx_access ctx of None \<Rightarrow> False | Some a \<Rightarrow> ma_is_admin a)"

text \<open>Only admins delete what is in a closed status.\<close>

definition delete_entity ::
    "env \<Rightarrow> ProjectContext \<Rightarrow> HeaderMap \<Rightarrow> ustr option \<Rightarrow> EntityKind \<Rightarrow> Permission \<Rightarrow> ('t tracker_scheme, unit) handler" where
  "delete_entity env ctx headers param kind perm = permitted ctx perm (present (item_id env param) (\<lambda>i. with_client (do {
     flag \<leftarrow> (case kind of Issue \<Rightarrow> issue_in_closed_status (pr_id (cx_project ctx)) i
       | Epic \<Rightarrow> epic_in_closed_status (pr_id (cx_project ctx)) i);
     if ok_or flag False \<and> \<not> admin_access ctx
     then refuse (problem 403 (lit ''forbidden'') (Some (lit ''only admins may delete closed items'')))
     else do {
       now \<leftarrow> get_now;
       served (case kind of Issue \<Rightarrow> db_soft_delete_issue (pr_id (cx_project ctx)) i (grace_end now)
           | Epic \<Rightarrow> db_soft_delete_epic (pr_id (cx_project ctx)) i (grace_end now)) (\<lambda>hit.
         if \<not> hit then refuse not_found
         else do {
           _ \<leftarrow> history_record (pr_id (cx_project ctx)) (EntityKind_as_str kind) i (Some (cx_actor_id ctx)) Deleted;
           _ \<leftarrow> audit_delete env ctx headers kind i;
           _ \<leftarrow> publish (pr_id (cx_project ctx)) (case kind of Issue \<Rightarrow> IssueGone (cx_actor_id ctx) i | Epic \<Rightarrow> EpicGone (cx_actor_id ctx) i);
           answer 204 ()
         })
     }
   })))"

definition delete_epic :: "env \<Rightarrow> ProjectContext \<Rightarrow> HeaderMap \<Rightarrow> ustr option \<Rightarrow> ('t tracker_scheme, unit) handler" where
  "delete_epic env ctx headers param = delete_entity env ctx headers param Epic EpicDelete"

definition delete_issue :: "env \<Rightarrow> ProjectContext \<Rightarrow> HeaderMap \<Rightarrow> ustr option \<Rightarrow> ('t tracker_scheme, unit) handler" where
  "delete_issue env ctx headers param = delete_entity env ctx headers param Issue IssueDelete"

text \<open>Purging; deleting the stored objects, whose failures are ignored, is the answer's list of keys here.\<close>

definition purge ::
    "env \<Rightarrow> ProjectContext \<Rightarrow> HeaderMap \<Rightarrow> string \<Rightarrow> ('t tracker_scheme, nat \<times> ustr list) db
     \<Rightarrow> ('t tracker_scheme, nat \<times> ustr list) handler" where
  "purge env ctx headers action m = permitted ctx ProjectModify (with_client (served m (\<lambda>(n, keys). do {
     _ \<leftarrow> audit env headers (Some (cx_actor_id ctx)) (lit action)
            [(lit ''project_id'', e_uuid_str env (pr_id (cx_project ctx))), (lit ''deleted'', nat_str n)];
     answer 200 (n, keys)
   })))"

definition purge_issues :: "env \<Rightarrow> ProjectContext \<Rightarrow> HeaderMap \<Rightarrow> ('t tracker_scheme, nat \<times> ustr list) handler" where
  "purge_issues env ctx headers = purge env ctx headers ''project_issues_purged'' (purge_project_issues (pr_id (cx_project ctx)))"

definition purge_epics :: "env \<Rightarrow> ProjectContext \<Rightarrow> HeaderMap \<Rightarrow> ('t tracker_scheme, nat \<times> ustr list) handler" where
  "purge_epics env ctx headers = purge env ctx headers ''project_epics_purged'' (purge_project_epics (pr_id (cx_project ctx)))"

lemma wp_verifying [wp_rules]:
  "wp (verifying check m) Q s = wp check (\<lambda>r. case r of Inl e \<Rightarrow> Q (Inl e) | Inr _ \<Rightarrow> wp m Q) s"
  unfolding verifying_def wp_bind
  by (intro arg_cong [of _ _ "\<lambda>Q. wp check Q s"] ext) (simp add: passing_def refuse_def wp_return split: sum.split)

end
