(* ===== verification/Issues.thy ===== *)
theory Issues
  imports Tracker
begin

text \<open>
  The issue endpoints of \<open>crates/api/src/backlog.rs\<close>: the checks on what an issue refers to, creation one
  by one and in bulk, the guarded update, reordering, lookup, and the comments and history of issues and
  epics. Rendering of markdown is a parameter.
\<close>

section \<open>What an issue may refer to\<close>

definition reject_issue_milestone_write :: "nat option \<Rightarrow> response + unit" where
  "reject_issue_milestone_write milestone =
     (if milestone \<noteq> None
      then Inl (unprocessable ''milestone_via_epic_only'' ''an issue's milestone follows its epic and cannot be set directly'')
      else Inr ())"

definition epic_known :: "ProjectContext \<Rightarrow> nat \<Rightarrow> ('t tracker_scheme, bool) state" where
  "epic_known ctx i = do { r \<leftarrow> epic_in_project (pr_id (cx_project ctx)) i; State_Monad.return (ok_or r False) }"

text \<open>A check of an optional reference.\<close>

definition known_or :: "response \<Rightarrow> (nat \<Rightarrow> ('s, bool) state) \<Rightarrow> nat option \<Rightarrow> ('s, response + unit) state" where
  "known_or e look x =
     (case x of
        None \<Rightarrow> State_Monad.return (Inr ())
      | Some i \<Rightarrow> do { known \<leftarrow> look i; if known then State_Monad.return (Inr ()) else refuse e })"

definition validate_issue_associations ::
    "ProjectContext \<Rightarrow> nat option \<Rightarrow> nat option \<Rightarrow> nat option \<Rightarrow> ('t tracker_scheme, response + unit) state" where
  "validate_issue_associations ctx epic parent milestone =
     passing (reject_issue_milestone_write milestone) (\<lambda>_.
     verifying (known_or (unprocessable ''invalid_association'' ''epic is not in this project'') (epic_known ctx) epic)
       (known_or (unprocessable ''invalid_association'' ''parent issue is not in this project'') (issue_known ctx) parent))"

definition validate_label_component_ids ::
    "ProjectContext \<Rightarrow> nat list \<Rightarrow> nat list \<Rightarrow> ('t tracker_scheme, response + unit) state" where
  "validate_label_component_ids ctx label_ids component_ids = do {
     a \<leftarrow> labels_all_in_project (pr_id (cx_project ctx)) label_ids;
     if \<not> ok_or a False then refuse (unprocessable ''invalid_label'' ''a label is not in this project'')
     else do {
       b \<leftarrow> components_all_in_project (pr_id (cx_project ctx)) component_ids;
       if \<not> ok_or b False then refuse (unprocessable ''invalid_component'' ''a component is not in this project'')
       else State_Monad.return (Inr ())
     }
   }"

fun customers_known :: "ProjectContext \<Rightarrow> nat list \<Rightarrow> ('t tracker_scheme, response + unit) state" where
  "customers_known ctx [] = State_Monad.return (Inr ())"
| "customers_known ctx (c # cs) = do {
     r \<leftarrow> customer_in_project (pr_id (cx_project ctx)) c;
     if \<not> ok_or r False then refuse (unprocessable ''invalid_association'' ''customer not found in this project'')
     else customers_known ctx cs
   }"

definition version_known :: "ProjectContext \<Rightarrow> nat \<Rightarrow> ('t tracker_scheme, bool) state" where
  "version_known ctx v = do { r \<leftarrow> version_in_project (pr_id (cx_project ctx)) v; State_Monad.return (ok_or r False) }"

definition has_text :: "ustr option \<Rightarrow> bool" where
  "has_text t \<longleftrightarrow> (case t of None \<Rightarrow> False | Some x \<Rightarrow> trim x \<noteq> [])"

definition validate_issue_extras ::
    "ProjectContext \<Rightarrow> nat list \<Rightarrow> nat option \<Rightarrow> ustr option \<Rightarrow> ('t tracker_scheme, response + unit) state" where
  "validate_issue_extras ctx customers version release_text =
     (if version \<noteq> None \<and> has_text release_text
      then refuse (unprocessable ''invalid_fix_version'' ''set either release_version_id or release_text, not both'')
      else verifying (customers_known ctx customers)
        (known_or (unprocessable ''invalid_association'' ''release version not found in this project'') (version_known ctx) version))"

text \<open>Each component once, each one the issue has, each version of a release the component ships in.\<close>

fun component_version_shape :: "nat list \<Rightarrow> nat list \<Rightarrow> ComponentVersion list \<Rightarrow> response + unit" where
  "component_version_shape seen component_ids [] = Inr ()"
| "component_version_shape seen component_ids (v # vs) =
     (if cv_component_id v \<in> set seen
      then Inl (unprocessable ''component_version_duplicate'' ''a component can have only one fix version'')
      else if cv_component_id v \<notin> set component_ids
      then Inl (unprocessable ''component_version_unassigned'' ''a fix version was given for a component the issue does not affect'')
      else component_version_shape (cv_component_id v # seen) component_ids vs)"

definition ships :: "'t tracker_scheme \<Rightarrow> ComponentVersion \<Rightarrow> bool" where
  "ships s v \<longleftrightarrow>
     any_row (\<lambda>x. vr_id x = cv_release_version_id v \<and> (cv_component_id v, vr_release_id x) \<in> set (component_releases s)) (version_rows s)"

definition validate_component_versions ::
    "ComponentVersion list \<Rightarrow> nat list \<Rightarrow> ('t tracker_scheme, response + unit) state" where
  "validate_component_versions pairs component_ids =
     (if pairs = [] then State_Monad.return (Inr ())
      else passing (component_version_shape [] component_ids pairs) (\<lambda>_.
        served (query ships) (\<lambda>allowed.
          if list_all allowed pairs then State_Monad.return (Inr ())
          else refuse (unprocessable ''component_version_unrelated'' ''that version does not belong to a release this component ships in''))))"

section \<open>Creation\<close>

record CreateIssueRequest =
  ci_subject :: ustr
  ci_description :: ustr
  ci_status_id :: "nat option"
  ci_type_id :: "nat option"
  ci_priority_id :: "nat option"
  ci_size_id :: "nat option"
  ci_epic_id :: "nat option"
  ci_parent_id :: "nat option"
  ci_milestone_id :: "nat option"
  ci_assigned_to :: "uid option"
  ci_qa_assignee_id :: "uid option"
  ci_reviewer_id :: "uid option"
  ci_category :: "IssueCategory option"
  ci_customer_ids :: "nat list"
  ci_start_date :: "int option"
  ci_due_date :: "int option"
  ci_resolution :: "Resolution option"
  ci_release_version_id :: "nat option"
  ci_release_text :: "ustr option"
  ci_labels :: "nat list"
  ci_components :: "nat list"
  ci_component_versions :: "ComponentVersion list"

definition valid_create_issue :: "CreateIssueRequest \<Rightarrow> bool" where
  "valid_create_issue r \<longleftrightarrow> len_between 1 500 (ci_subject r) \<and> len_between 0 100000 (ci_description r) \<and>
     length (ci_customer_ids r) \<le> 50 \<and> opt_all (len_between 0 100) (ci_release_text r) \<and>
     length (ci_labels r) \<le> 50 \<and> length (ci_components r) \<le> 50 \<and> length (ci_component_versions r) \<le> 50"

definition write_from_create :: "CreateIssueRequest \<Rightarrow> IssueWrite" where
  "write_from_create r = \<lparr>iw_subject = ci_subject r, iw_description = ci_description r, iw_status_id = ci_status_id r,
     iw_type_id = ci_type_id r, iw_priority_id = ci_priority_id r, iw_size_id = ci_size_id r,
     iw_epic_id = ci_epic_id r, iw_parent_id = ci_parent_id r, iw_milestone_id = None,
     iw_assigned_to = ci_assigned_to r, iw_qa_assignee_id = ci_qa_assignee_id r, iw_reviewer_id = ci_reviewer_id r,
     iw_category = map_option IssueCategory_as_str (ci_category r), iw_start_date = ci_start_date r,
     iw_due_date = ci_due_date r, iw_resolution = map_option Resolution_as_str (ci_resolution r),
     iw_release_version_id = ci_release_version_id r, iw_release_text = ci_release_text r\<rparr>"

text \<open>The relations of a new issue, one statement after the other until one fails.\<close>

definition set_relations :: "nat \<Rightarrow> CreateIssueRequest \<Rightarrow> ('t tracker_scheme, unit) db" where
  "set_relations i r =
     andThen (set_issue_labels i (ci_labels r)) (\<lambda>_.
     andThen (set_issue_components i (ci_components r)) (\<lambda>_.
     andThen (set_issue_component_versions i (ci_component_versions r)) (\<lambda>_.
       set_issue_customers i (ci_customer_ids r))))"

definition get_full :: "ProjectContext \<Rightarrow> nat \<Rightarrow> (Issue \<Rightarrow> ('t tracker_scheme, response + 'a) state) \<Rightarrow> ('t tracker_scheme, response + 'a) state" where
  "get_full ctx i f = do {
     r \<leftarrow> db_get_issue (pr_id (cx_project ctx)) i;
     case r of Inr (Some full) \<Rightarrow> f full | _ \<Rightarrow> refuse internal
   }"

definition validate_new_issue :: "ProjectContext \<Rightarrow> CreateIssueRequest \<Rightarrow> ('t tracker_scheme, response + unit) state" where
  "validate_new_issue ctx r =
     verifying (validate_label_component_ids ctx (ci_labels r) (ci_components r)) (
     verifying (validate_issue_associations ctx (ci_epic_id r) (ci_parent_id r) (ci_milestone_id r)) (
       validate_issue_extras ctx (ci_customer_ids r) (ci_release_version_id r) (ci_release_text r)))"

definition create_issue ::
    "env \<Rightarrow> ProjectContext \<Rightarrow> HeaderMap \<Rightarrow> CreateIssueRequest json_body \<Rightarrow> ('t tracker_scheme, reply) handler" where
  "create_issue env ctx headers body = permitted ctx IssueCreate (
     passing (parse_create valid_create_issue body) (\<lambda>req. with_client (
     verifying (validate_new_issue ctx req) (
     once env ctx headers ''issues'' (
     served (db_create_issue (pr_id (cx_project ctx)) (cx_actor_id ctx) (write_from_create req)) (\<lambda>x.
     verifying (validate_component_versions (ci_component_versions req) (ci_components req)) (
     served (set_relations (is_id (io_row x)) req) (\<lambda>_.
     get_full ctx (is_id (io_row x)) (\<lambda>full.
       announce env ctx headers ''issue'' ''issues'' (is_id (io_row full)) (is_version (io_row full)) (IssueBody full)
         (is_project_id (io_row full)) (IssueEvent (lit ''issue.created'') (cx_actor_id ctx) full))))))))))"

text \<open>In bulk: all checks first, then one issue after the other.\<close>

fun validate_all :: "ProjectContext \<Rightarrow> CreateIssueRequest list \<Rightarrow> ('t tracker_scheme, response + unit) state" where
  "validate_all ctx [] = State_Monad.return (Inr ())"
| "validate_all ctx (r # rs) = verifying (validate_new_issue ctx r) (validate_all ctx rs)"

fun create_all :: "ProjectContext \<Rightarrow> CreateIssueRequest list \<Rightarrow> ('t tracker_scheme, response + Issue list) state" where
  "create_all ctx [] = State_Monad.return (Inr [])"
| "create_all ctx (r # rs) =
     served (db_create_issue (pr_id (cx_project ctx)) (cx_actor_id ctx) (write_from_create r)) (\<lambda>x.
     served (set_relations (is_id (io_row x)) r) (\<lambda>_. do {
       _ \<leftarrow> history_record (pr_id (cx_project ctx)) (lit ''issue'') (is_id (io_row x)) (Some (cx_actor_id ctx)) Created;
       get_full ctx (is_id (io_row x)) (\<lambda>full. do {
         rest \<leftarrow> create_all ctx rs;
         passing rest (\<lambda>xs. State_Monad.return (Inr (full # xs)))
       })
     }))"

fun publish_all :: "ProjectContext \<Rightarrow> Issue list \<Rightarrow> ('t tracker_scheme, unit) state" where
  "publish_all ctx [] = State_Monad.return ()"
| "publish_all ctx (x # xs) = do {
     _ \<leftarrow> publish (is_project_id (io_row x)) (IssueEvent (lit ''issue.created'') (cx_actor_id ctx) x);
     publish_all ctx xs
   }"

definition valid_bulk :: "CreateIssueRequest list \<Rightarrow> bool" where
  "valid_bulk items \<longleftrightarrow> 1 \<le> length items \<and> length items \<le> 100 \<and> list_all valid_create_issue items"

definition bulk_create_issues ::
    "ProjectContext \<Rightarrow> CreateIssueRequest list json_body \<Rightarrow> ('t tracker_scheme, Issue list) handler" where
  "bulk_create_issues ctx body = permitted ctx IssueCreate (
     passing (parse_create valid_bulk body) (\<lambda>items. with_client (
     verifying (validate_all ctx items) (do {
       made \<leftarrow> create_all ctx items;
       passing made (\<lambda>xs. do {
         _ \<leftarrow> publish_all ctx xs;
         answer 201 xs
       })
     }))))"

section \<open>Reading\<close>

definition show_issue :: "env \<Rightarrow> Issue \<Rightarrow> ('s, ustr \<times> Issue) handler" where
  "show_issue env x = tagged env 200 (is_id (io_row x)) (is_version (io_row x)) x"

definition get_issue :: "env \<Rightarrow> ProjectContext \<Rightarrow> ustr option \<Rightarrow> ('t tracker_scheme, ustr \<times> Issue) handler" where
  "get_issue env ctx param = permitted ctx IssueView (present (item_id env param) (\<lambda>i. with_client (
     served (db_get_issue (pr_id (cx_project ctx)) i) (\<lambda>r. present r (show_issue env)))))"

definition get_issue_by_ref :: "env \<Rightarrow> ProjectContext \<Rightarrow> ustr option \<Rightarrow> ('t tracker_scheme, ustr \<times> Issue) handler" where
  "get_issue_by_ref env ctx param = permitted ctx IssueView (present (Option.bind param parse_i64) (\<lambda>ref. with_client (
     served (issue_id_by_ref (pr_id (cx_project ctx)) ref) (\<lambda>r. present r (\<lambda>i. do {
       x \<leftarrow> db_get_issue (pr_id (cx_project ctx)) i;
       present (ok_or x None) (show_issue env)
     })))))"

definition resolve_ref :: "ProjectContext \<Rightarrow> ustr option \<Rightarrow> ('t tracker_scheme, entity_ref \<times> int) handler" where
  "resolve_ref ctx param = permitted ctx ProjectView (present (Option.bind param parse_i64) (\<lambda>ref. with_client (
     served (db_resolve_ref (pr_id (cx_project ctx)) ref) (\<lambda>r. present r (\<lambda>e. answer 200 (e, ref))))))"

section \<open>Changing\<close>

record UpdateIssueRequest =
  ui_subject :: "ustr option"
  ui_description :: "ustr option"
  ui_status_id :: "nat option option"
  ui_type_id :: "nat option option"
  ui_priority_id :: "nat option option"
  ui_size_id :: "nat option option"
  ui_epic_id :: "nat option option"
  ui_parent_id :: "nat option option"
  ui_milestone_id :: "nat option option"
  ui_assigned_to :: "uid option option"
  ui_qa_assignee_id :: "uid option option"
  ui_reviewer_id :: "uid option option"
  ui_category :: "IssueCategory option option"
  ui_customer_ids :: "nat list option"
  ui_start_date :: "int option"
  ui_due_date :: "int option"
  ui_resolution :: "Resolution option option"
  ui_release_version_id :: "nat option option"
  ui_release_text :: "ustr option option"
  ui_labels :: "nat list option"
  ui_components :: "nat list option"
  ui_component_versions :: "ComponentVersion list option"

definition edited_issue :: "UpdateIssueRequest \<Rightarrow> Issue \<Rightarrow> IssueWrite" where
  "edited_issue u x = (let old = io_row x in
     \<lparr>iw_subject = unwrap_or (ui_subject u) (is_subject old),
      iw_description = unwrap_or (ui_description u) (is_description old),
      iw_status_id = unwrap_or (ui_status_id u) (is_status_id old),
      iw_type_id = unwrap_or (ui_type_id u) (is_type_id old),
      iw_priority_id = unwrap_or (ui_priority_id u) (is_priority_id old),
      iw_size_id = unwrap_or (ui_size_id u) (is_size_id old),
      iw_epic_id = unwrap_or (ui_epic_id u) (is_epic_id old),
      iw_parent_id = unwrap_or (ui_parent_id u) (is_parent_id old),
      iw_milestone_id = is_milestone_id old,
      iw_assigned_to = unwrap_or (ui_assigned_to u) (is_assigned_to old),
      iw_qa_assignee_id = unwrap_or (ui_qa_assignee_id u) (is_qa_assignee_id old),
      iw_reviewer_id = unwrap_or (ui_reviewer_id u) (is_reviewer_id old),
      iw_category = map_option IssueCategory_as_str (unwrap_or (ui_category u) (io_category x)),
      iw_start_date = or_else (ui_start_date u) (is_start_date old),
      iw_due_date = or_else (ui_due_date u) (is_due_date old),
      iw_resolution = map_option Resolution_as_str (unwrap_or (ui_resolution u) (io_resolution x)),
      iw_release_version_id = unwrap_or (ui_release_version_id u) (is_release_version_id old),
      iw_release_text = unwrap_or (ui_release_text u) (is_release_text old)\<rparr>)"

definition edited_customers :: "UpdateIssueRequest \<Rightarrow> Issue \<Rightarrow> nat list" where
  "edited_customers u x = unwrap_or (ui_customer_ids u) (io_customer_ids x)"

definition issue_diff :: "UpdateIssueRequest \<Rightarrow> Issue \<Rightarrow> (ustr \<times> jval \<times> jval) list" where
  "issue_diff u x = (let old = io_row x; w = edited_issue u x in
     diff_field ''subject'' (JText (is_subject old)) (JText (iw_subject w)) @
     diff_field ''description'' (JText (is_description old)) (JText (iw_description w)) @
     diff_field ''status_id'' (jopt JId (is_status_id old)) (jopt JId (iw_status_id w)) @
     diff_field ''type_id'' (jopt JId (is_type_id old)) (jopt JId (iw_type_id w)) @
     diff_field ''priority_id'' (jopt JId (is_priority_id old)) (jopt JId (iw_priority_id w)) @
     diff_field ''size_id'' (jopt JId (is_size_id old)) (jopt JId (iw_size_id w)) @
     diff_field ''epic_id'' (jopt JId (is_epic_id old)) (jopt JId (iw_epic_id w)) @
     diff_field ''parent_id'' (jopt JId (is_parent_id old)) (jopt JId (iw_parent_id w)) @
     diff_field ''milestone_id'' (jopt JId (is_milestone_id old)) (jopt JId (iw_milestone_id w)) @
     diff_field ''assigned_to'' (jopt JId (is_assigned_to old)) (jopt JId (iw_assigned_to w)) @
     diff_field ''qa_assignee_id'' (jopt JId (is_qa_assignee_id old)) (jopt JId (iw_qa_assignee_id w)) @
     diff_field ''reviewer_id'' (jopt JId (is_reviewer_id old)) (jopt JId (iw_reviewer_id w)) @
     diff_field ''category'' (jopt (\<lambda>c. JText (IssueCategory_as_str c)) (io_category x)) (jopt JText (iw_category w)) @
     (if ui_customer_ids u \<noteq> None \<and> io_customer_ids x \<noteq> edited_customers u x
      then [(lit ''customer_ids'', JIds (io_customer_ids x), JIds (edited_customers u x))] else []) @
     diff_field ''start_date'' (jopt JInt (is_start_date old)) (jopt JInt (iw_start_date w)) @
     diff_field ''due_date'' (jopt JInt (is_due_date old)) (jopt JInt (iw_due_date w)) @
     diff_field ''resolution'' (jopt (\<lambda>c. JText (Resolution_as_str c)) (io_resolution x)) (jopt JText (iw_resolution w)) @
     diff_field ''release_version_id'' (jopt JId (is_release_version_id old)) (jopt JId (iw_release_version_id w)) @
     diff_field ''release_text'' (jopt JText (is_release_text old)) (jopt JText (iw_release_text w)))"

definition only_if :: "bool \<Rightarrow> nat option \<Rightarrow> nat option" where
  "only_if b x = (if b then x else None)"

text \<open>The parent: not the issue, and not below it.\<close>

definition validate_parent :: "ProjectContext \<Rightarrow> nat \<Rightarrow> bool \<Rightarrow> nat option \<Rightarrow> ('t tracker_scheme, response + unit) state" where
  "validate_parent ctx i changed parent =
     (if parent = Some i then refuse (unprocessable ''invalid_association'' ''an issue cannot be its own parent'')
      else (case only_if changed parent of
          None \<Rightarrow> State_Monad.return (Inr ())
        | Some q \<Rightarrow> do {
            r \<leftarrow> parent_chain_contains (pr_id (cx_project ctx)) q i;
            if ok_or r False
            then refuse (unprocessable ''invalid_association'' ''parent would create a cycle in the issue hierarchy'')
            else State_Monad.return (Inr ())
          }))"

text \<open>The checks of an update, in the order of the handler.\<close>

definition validate_edit :: "ProjectContext \<Rightarrow> nat \<Rightarrow> UpdateIssueRequest \<Rightarrow> Issue \<Rightarrow> ('t tracker_scheme, response + unit) state" where
  "validate_edit ctx i u x =
     (let old = io_row x; w = edited_issue u x;
          epic_changed = iw_epic_id w \<noteq> is_epic_id old; parent_changed = iw_parent_id w \<noteq> is_parent_id old
      in verifying (validate_label_component_ids ctx (unwrap_or (ui_labels u) []) (unwrap_or (ui_components u) [])) (
         verifying (case ui_component_versions u of
             None \<Rightarrow> State_Monad.return (Inr ())
           | Some pairs \<Rightarrow> validate_component_versions pairs (unwrap_or (ui_components u) (io_components x))) (
         passing (reject_issue_milestone_write (Option.bind (ui_milestone_id u) (\<lambda>m. m))) (\<lambda>_.
         verifying (if epic_changed \<or> parent_changed
             then validate_issue_associations ctx (only_if epic_changed (iw_epic_id w)) (only_if parent_changed (iw_parent_id w)) None
             else State_Monad.return (Inr ())) (
         verifying (validate_parent ctx i parent_changed (iw_parent_id w)) (
           validate_issue_extras ctx (edited_customers u x) (iw_release_version_id w) (iw_release_text w)))))))"

definition whenever :: "'a option \<Rightarrow> ('a \<Rightarrow> ('s, unit) db) \<Rightarrow> ('s, unit) db" where
  "whenever x f = (case x of None \<Rightarrow> State_Monad.return (Inr ()) | Some y \<Rightarrow> f y)"

definition replace_relations :: "nat \<Rightarrow> UpdateIssueRequest \<Rightarrow> ('t tracker_scheme, unit) db" where
  "replace_relations i u =
     andThen (whenever (ui_labels u) (set_issue_labels i)) (\<lambda>_.
     andThen (whenever (ui_components u) (set_issue_components i)) (\<lambda>_.
     andThen (whenever (ui_component_versions u) (set_issue_component_versions i)) (\<lambda>_.
       whenever (ui_customer_ids u) (set_issue_customers i))))"

definition finish_update ::
    "env \<Rightarrow> ProjectContext \<Rightarrow> UpdateIssueRequest \<Rightarrow> Issue \<Rightarrow> Issue \<Rightarrow> ('t tracker_scheme, ustr \<times> Issue) handler" where
  "finish_update env ctx u x x' =
     served (replace_relations (is_id (io_row x')) u) (\<lambda>_. do {
       _ \<leftarrow> record_changes ctx ''issue'' (is_id (io_row x')) (issue_diff u x);
       get_full ctx (is_id (io_row x')) (\<lambda>full. do {
         _ \<leftarrow> publish (is_project_id (io_row full)) (IssueEvent (lit ''issue.updated'') (cx_actor_id ctx) full);
         show_issue env full
       })
     })"

definition apply_edit ::
    "env \<Rightarrow> ProjectContext \<Rightarrow> nat \<Rightarrow> UpdateIssueRequest \<Rightarrow> Issue \<Rightarrow> ('t tracker_scheme, ustr \<times> Issue) handler" where
  "apply_edit env ctx i u x =
     served (db_update_issue (pr_id (cx_project ctx)) i (is_version (io_row x)) (edited_issue u x)) (\<lambda>outcome.
       case outcome of
         Changed_to x' \<Rightarrow> finish_update env ctx u x x'
       | Missing \<Rightarrow> refuse not_found
       | Conflicting \<Rightarrow> refuse (stale None))"

definition guarded_edit ::
    "env \<Rightarrow> ProjectContext \<Rightarrow> HeaderMap \<Rightarrow> nat \<Rightarrow> UpdateIssueRequest \<Rightarrow> Issue \<Rightarrow> ('t tracker_scheme, ustr \<times> Issue) handler" where
  "guarded_edit env ctx headers i u x =
     passing (check_if_match headers (etag env (is_id (io_row x)) (is_version (io_row x)))) (\<lambda>_.
     verifying (validate_edit ctx i u x) (apply_edit env ctx i u x))"

definition update_issue ::
    "env \<Rightarrow> ProjectContext \<Rightarrow> HeaderMap \<Rightarrow> ustr option \<Rightarrow> UpdateIssueRequest json_body
     \<Rightarrow> ('t tracker_scheme, ustr \<times> Issue) handler" where
  "update_issue env ctx headers param body = permitted ctx IssueModify (present (item_id env param) (\<lambda>i.
     passing (parse_patch body) (\<lambda>u. with_client (do {
       found \<leftarrow> db_get_issue (pr_id (cx_project ctx)) i;
       present (ok_or found None) (guarded_edit env ctx headers i u)
     }))))"

text \<open>After a move the issue is read again and published, if it can be read.\<close>

definition move_issue ::
    "env \<Rightarrow> ProjectContext \<Rightarrow> ustr option \<Rightarrow> (nat option \<times> nat option) json_body \<Rightarrow> ('t tracker_scheme, unit) handler" where
  "move_issue env ctx param body = permitted ctx IssueModify (present (item_id env param) (\<lambda>i.
     passing (parse_create (\<lambda>_. True) body) (\<lambda>(before, after_id). with_client (
       served (db_list_issues (pr_id (cx_project ctx))) (\<lambda>items. do {
         resp \<leftarrow> reorder (\<lambda>s. any_row (\<lambda>r. is_id r = i \<and> is_project_id r = pr_id (cx_project ctx)) (issues s))
           (put_issue_rank (pr_id (cx_project ctx))) i before after_id
           (map (\<lambda>x. (is_id (io_row x), is_order (io_row x))) items);
         case resp of
           Inl e \<Rightarrow> refuse e
         | Inr _ \<Rightarrow> do {
             fresh \<leftarrow> db_get_issue (pr_id (cx_project ctx)) i;
             _ \<leftarrow> (case ok_or fresh None of
                 None \<Rightarrow> State_Monad.return ()
               | Some x \<Rightarrow> publish (is_project_id (io_row x)) (IssueEvent (lit ''issue.updated'') (cx_actor_id ctx) x));
             State_Monad.return resp
           }
       })))))"

section \<open>Comments and history\<close>

definition entity_target :: "env \<Rightarrow> ustr option \<Rightarrow> ustr option \<Rightarrow> (EntityKind \<times> nat) option" where
  "entity_target env entity param =
     Option.bind entity (\<lambda>e.
     Option.bind (if e = lit ''epics'' then Some Epic else if e = lit ''issues'' then Some Issue else None) (\<lambda>kind.
     map_option (\<lambda>i. (kind, i)) (item_id env param)))"

fun view_perm :: "EntityKind \<Rightarrow> Permission" where
  "view_perm Epic = EpicView"
| "view_perm Issue = IssueView"

definition list_comments :: "env \<Rightarrow> ProjectContext \<Rightarrow> ustr option \<Rightarrow> ustr option \<Rightarrow> ('t tracker_scheme, comment_row list) handler" where
  "list_comments env ctx entity param = present (entity_target env entity param) (\<lambda>(kind, i).
     permitted ctx (view_perm kind) (with_client (served (comment_list (EntityKind_as_str kind) i) (answer 200))))"

definition valid_comment :: "ustr \<Rightarrow> bool" where
  "valid_comment b \<longleftrightarrow> len_between 1 50000 b"

definition create_comment ::
    "env \<Rightarrow> (ustr \<Rightarrow> ustr) \<Rightarrow> ProjectContext \<Rightarrow> ustr option \<Rightarrow> ustr option \<Rightarrow> ustr json_body
     \<Rightarrow> ('t tracker_scheme, comment_row) handler" where
  "create_comment env render ctx entity param body = present (entity_target env entity param) (\<lambda>(kind, i).
     permitted ctx CommentCreate (passing (parse_create valid_comment body) (\<lambda>text. with_client (
       served (comment_create (pr_id (cx_project ctx)) (EntityKind_as_str kind) i (cx_actor_id ctx) text (render text)) (\<lambda>c. do {
         _ \<leftarrow> publish (pr_id (cx_project ctx))
                (CommentEvent (lit ''comment.created'') (cx_actor_id ctx) (EntityKind_as_str kind) i (cm_id c));
         answer 201 c
       })))))"

definition authorize_comment_mutation :: "ProjectContext \<Rightarrow> uid option \<Rightarrow> int \<Rightarrow> int \<Rightarrow> response + unit" where
  "authorize_comment_mutation ctx author created now =
     (let moderator = (case cx_access ctx of None \<Rightarrow> False | Some a \<Rightarrow> access_has a CommentModerate)
      in if moderator then Inr ()
         else if author = Some (cx_actor_id ctx) \<and> now - created \<le> COMMENT_EDIT_WINDOW_SECS then Inr ()
         else Inl forbidden)"

definition publish_comment ::
    "env \<Rightarrow> ProjectContext \<Rightarrow> string \<Rightarrow> ustr option \<Rightarrow> ustr option \<Rightarrow> nat \<Rightarrow> ('t tracker_scheme, unit) state" where
  "publish_comment env ctx what entity param c =
     (case entity_target env entity param of
        None \<Rightarrow> State_Monad.return ()
      | Some (kind, i) \<Rightarrow> publish (pr_id (cx_project ctx))
          (CommentEvent (lit what) (cx_actor_id ctx) (EntityKind_as_str kind) i c))"

definition update_comment ::
    "env \<Rightarrow> (ustr \<Rightarrow> ustr) \<Rightarrow> ProjectContext \<Rightarrow> ustr option \<Rightarrow> ustr option \<Rightarrow> ustr option \<Rightarrow> ustr json_body
     \<Rightarrow> ('t tracker_scheme, comment_row) handler" where
  "update_comment env render ctx entity param comment body = present (item_id env comment) (\<lambda>c.
     passing (parse_create valid_comment body) (\<lambda>text. with_client (do {
       meta \<leftarrow> comment_meta c;
       present (ok_or meta None) (\<lambda>(author, created). do {
         now \<leftarrow> get_now;
         passing (authorize_comment_mutation ctx author created now) (\<lambda>_.
         served (comment_update c text (render text)) (\<lambda>r. present r (\<lambda>row. do {
           _ \<leftarrow> publish_comment env ctx ''comment.updated'' entity param (cm_id row);
           answer 200 row
         })))
       })
     })))"

definition delete_comment ::
    "env \<Rightarrow> ProjectContext \<Rightarrow> ustr option \<Rightarrow> ustr option \<Rightarrow> ustr option \<Rightarrow> ('t tracker_scheme, unit) handler" where
  "delete_comment env ctx entity param comment = present (item_id env comment) (\<lambda>c. with_client (do {
     meta \<leftarrow> comment_meta c;
     present (ok_or meta None) (\<lambda>(author, created). do {
       now \<leftarrow> get_now;
       passing (authorize_comment_mutation ctx author created now) (\<lambda>_.
       served (comment_soft_delete c) (\<lambda>hit.
         if \<not> hit then refuse not_found
         else do {
           _ \<leftarrow> ignore (attachments_soft_delete (lit ''comment'') c);
           _ \<leftarrow> publish_comment env ctx ''comment.deleted'' entity param c;
           answer 204 ()
         }))
     })
   }))"

definition list_history ::
    "env \<Rightarrow> ProjectContext \<Rightarrow> ustr option \<Rightarrow> ustr option \<Rightarrow> ('t tracker_scheme, (diff \<times> uid option \<times> int) list) handler" where
  "list_history env ctx entity param = present (entity_target env entity param) (\<lambda>(kind, i).
     permitted ctx (view_perm kind) (with_client (served (history_list (EntityKind_as_str kind) i) (answer 200))))"

end
