(* ===== verification/Backlog_Steps.thy ===== *)
theory Backlog_Steps
  imports Issues Project_Admins
begin

text \<open>
  What every request on a backlog is made of. \<open>backlog_core\<close> is the contract of a relation between the states
  before and after: it holds across changes that leave the epics, the issues, the counters, the comments and the
  time entries alone, updates in place and creations. Then it holds across every request that edits no comment and
  purges nothing, whatever the faults. \<open>backlog_editing\<close> adds what edits of comments and purges of epics need,
  \<open>backlog_evolution\<close> what purges of issues need: then it holds across any sequence of requests.
\<close>

section \<open>Requests\<close>

datatype backlog_act =
    CreateItem "ustr option" "CreateTaxonomyItemRequest json_body"
  | EditItem "ustr option" "ustr option" "TaxonomyPatch json_body"
  | DeleteItem "ustr option" "ustr option"
  | MoveItem "ustr option" "ustr option" "(nat option \<times> nat option) json_body"
  | CreateLabel "CreateLabelRequest json_body"
  | EditLabel "ustr option" "UpdateLabelRequest json_body"
  | DeleteLabel "ustr option"
  | CreateComponent "CreateLabelRequest json_body"
  | EditComponent "ustr option" "UpdateLabelRequest json_body"
  | DeleteComponent "ustr option"
  | CreateLink "ustr option" "CreateLinkRequest json_body"
  | DeleteLink "ustr option"
  | AddWatcher "ustr option" "uid option json_body"
  | RemoveWatcher "ustr option" "ustr option"
  | CreateMilestone "CreateMilestoneRequest json_body"
  | UpdateMilestone "ustr option" "MilestonePatch json_body"
  | SetCompleted "ustr option" bool
  | DeleteMilestone "ustr option"
  | SetEpics "ustr option" "nat list json_body"
  | CreateEpic "CreateEpicRequest json_body"
  | UpdateEpic "ustr option" "UpdateEpicRequest json_body"
  | MoveEpic "ustr option" "(nat option \<times> nat option) json_body"
  | DeleteEpic "ustr option"
  | PurgeEpics
  | CreateIssue "CreateIssueRequest json_body"
  | BulkCreate "CreateIssueRequest list json_body"
  | UpdateIssue "ustr option" "UpdateIssueRequest json_body"
  | MoveIssue "ustr option" "(nat option \<times> nat option) json_body"
  | DeleteIssue "ustr option"
  | PurgeIssues
  | CreateComment "ustr option" "ustr option" "ustr json_body"
  | UpdateComment "ustr option" "ustr option" "ustr option" "ustr json_body"
  | DeleteComment "ustr option" "ustr option" "ustr option"

definition run_backlog ::
    "env \<Rightarrow> (ustr \<Rightarrow> ustr) \<Rightarrow> HeaderMap \<Rightarrow> backlog_act \<Rightarrow> ProjectContext \<Rightarrow> ('t tracker_scheme, response + nat) state" where
  "run_backlog env render h act ctx =
     (case act of
        CreateItem kind body \<Rightarrow> status_of (create_item ctx kind body)
      | EditItem kind param body \<Rightarrow> status_of (edit_item env ctx kind param body)
      | DeleteItem kind param \<Rightarrow> status_of (delete_item env ctx kind param)
      | MoveItem kind param body \<Rightarrow> status_of (move_taxonomy_item env ctx kind param body)
      | CreateLabel body \<Rightarrow> status_of (create_label ctx body)
      | EditLabel param body \<Rightarrow> status_of (edit_label env ctx param body)
      | DeleteLabel param \<Rightarrow> status_of (delete_label env ctx param)
      | CreateComponent body \<Rightarrow> status_of (create_component ctx body)
      | EditComponent param body \<Rightarrow> status_of (edit_component env ctx param body)
      | DeleteComponent param \<Rightarrow> status_of (delete_component env ctx param)
      | CreateLink param body \<Rightarrow> status_of (create_link env ctx param body)
      | DeleteLink param \<Rightarrow> status_of (delete_link env ctx param)
      | AddWatcher param body \<Rightarrow> status_of (add_watcher env ctx param body)
      | RemoveWatcher param user \<Rightarrow> status_of (remove_watcher env ctx param user)
      | CreateMilestone body \<Rightarrow> status_of (create_milestone env ctx body)
      | UpdateMilestone param body \<Rightarrow> status_of (update_milestone env ctx h param body)
      | SetCompleted param c \<Rightarrow> status_of (set_completed env ctx param c)
      | DeleteMilestone param \<Rightarrow> status_of (delete_milestone env ctx param)
      | SetEpics param body \<Rightarrow> status_of (set_epics env ctx param body)
      | CreateEpic body \<Rightarrow> status_of (create_epic env ctx h body)
      | UpdateEpic param body \<Rightarrow> status_of (update_epic env ctx h param body)
      | MoveEpic param body \<Rightarrow> status_of (move_epic env ctx param body)
      | DeleteEpic param \<Rightarrow> status_of (delete_epic env ctx h param)
      | PurgeEpics \<Rightarrow> status_of (purge_epics env ctx h)
      | CreateIssue body \<Rightarrow> status_of (create_issue env ctx h body)
      | BulkCreate body \<Rightarrow> status_of (bulk_create_issues ctx body)
      | UpdateIssue param body \<Rightarrow> status_of (update_issue env ctx h param body)
      | MoveIssue param body \<Rightarrow> status_of (move_issue env ctx param body)
      | DeleteIssue param \<Rightarrow> status_of (delete_issue env ctx h param)
      | PurgeIssues \<Rightarrow> status_of (purge_issues env ctx h)
      | CreateComment entity param body \<Rightarrow> status_of (create_comment env render ctx entity param body)
      | UpdateComment entity param c body \<Rightarrow> status_of (update_comment env render ctx entity param c body)
      | DeleteComment entity param c \<Rightarrow> status_of (delete_comment env ctx entity param c))"

text \<open>Requests that edit no comment and purge nothing.\<close>

definition quiet_act :: "backlog_act \<Rightarrow> bool" where
  "quiet_act act \<longleftrightarrow>
     (case act of PurgeEpics \<Rightarrow> False | PurgeIssues \<Rightarrow> False | UpdateComment _ _ _ _ \<Rightarrow> False | DeleteComment _ _ _ \<Rightarrow> False | _ \<Rightarrow> True)"

section \<open>Small changes\<close>

definition backlog_frame :: "'t tracker_scheme \<Rightarrow> 't tracker_scheme \<Rightarrow> bool" where
  "backlog_frame s t \<longleftrightarrow>
     issues t = issues s \<and> epics t = epics s \<and> ref_counters t = ref_counters s \<and> next_id s \<le> next_id t \<and>
     time_entries t = time_entries s \<and> members t = members s \<and> roles t = roles s \<and> tracker.more t = tracker.more s"

text \<open>Here no comment is touched either; one may be added.\<close>

definition quiet_frame :: "'t tracker_scheme \<Rightarrow> 't tracker_scheme \<Rightarrow> bool" where
  "quiet_frame s t \<longleftrightarrow> backlog_frame s t \<and> set (comment_rows s) \<subseteq> set (comment_rows t)"

text \<open>An updated issue keeps its identity, its version does not fall, and a new epic of it exists.\<close>

definition issue_kept :: "'t tracker_scheme \<Rightarrow> issue_row \<Rightarrow> issue_row \<Rightarrow> bool" where
  "issue_kept s r q \<longleftrightarrow>
     is_id q = is_id r \<and> is_project_id q = is_project_id r \<and> is_ref q = is_ref r \<and> is_version r \<le> is_version q \<and>
     (is_epic_id q = is_epic_id r \<or> known_ref (is_epic_id q) (map ep_id (epics s)))"

definition epic_kept :: "epic_row \<Rightarrow> epic_row \<Rightarrow> bool" where
  "epic_kept e q \<longleftrightarrow> ep_id q = ep_id e \<and> ep_project_id q = ep_project_id e \<and> ep_ref q = ep_ref e \<and> ep_version e \<le> ep_version q"

lemma frame_refl [simp]: "backlog_frame s s" "quiet_frame s s"
  by (simp_all add: backlog_frame_def quiet_frame_def)

definition after_requests ::
    "(env \<times> (ustr \<Rightarrow> ustr) \<times> HeaderMap \<times> backlog_act \<times> ProjectContext) list \<Rightarrow> 't tracker_scheme \<Rightarrow> 't tracker_scheme" where
  "after_requests reqs s =
     fold (\<lambda>(env, render, h, act, ctx) t. snd (run_state (run_backlog env render h act ctx) t)) reqs s"

text \<open>A relation that does not see the count of database calls holds across whatever only reads.\<close>

locale calls_evolution = evolution R for R :: "'w base_scheme \<Rightarrow> 'w base_scheme \<Rightarrow> bool" +
  assumes calls_kept: "R s (s\<lparr>calls := n\<rparr>)"
begin

lemma keeps_stmt: "(\<And>s. R s (snd (f s))) \<Longrightarrow> keeps R (stmt f)"
proof -
  assume *: "R s (snd (f s))" for s
  have "R s (snd (f (s\<lparr>calls := n\<rparr>)))" for s n by (rule R_trans [OF calls_kept *])
  then show ?thesis by (simp add: keeps_wp wp_stmt Let_def case_prod_beta calls_kept)
qed

lemma keeps_execute: "(\<And>s. R s (f s)) \<Longrightarrow> keeps R (execute g f)"
  unfolding execute_def by (rule keeps_stmt) simp

lemma keeps_query: "keeps R (query g)"
  unfolding query_def by (rule keeps_stmt) (simp add: R_refl)

lemma keeps_pool: "keeps R pool_get" "keeps R get_now"
  using calls_kept by (auto simp: pool_get_def keeps_wp wp_bind wp_return wp_get_now wp_stmt Let_def R_refl)

lemma keeps_andThen: "keeps R m \<Longrightarrow> (\<And>x. keeps R (f x)) \<Longrightarrow> keeps R (andThen m f)"
  unfolding andThen_def by (intro keeps_rules)

lemma keeps_refuse: "keeps R (refuse r)" "keeps R (answer st x)"
  by (simp_all add: refuse_def answer_def keeps_return)

lemma keeps_passing: "(\<And>x. keeps R (f x)) \<Longrightarrow> keeps R (passing r f)"
  by (simp add: passing_def keeps_refuse split: sum.split)

lemma keeps_client: "keeps R m \<Longrightarrow> keeps R (with_client m)"
  unfolding with_client_def by (intro keeps_rules keeps_pool keeps_refuse)

lemma keeps_permitted: "keeps R m \<Longrightarrow> keeps R (permitted ctx perm m)"
  by (simp add: permitted_def keeps_passing)

lemma keeps_served: "keeps R m \<Longrightarrow> (\<And>x. keeps R (f x)) \<Longrightarrow> keeps R (served m f)"
  unfolding served_def by (intro keeps_rules keeps_refuse)

lemma keeps_present: "(\<And>x. keeps R (f x)) \<Longrightarrow> keeps R (present x f)"
  unfolding present_def by (intro keeps_rules keeps_refuse)

lemma keeps_verifying: "keeps R c \<Longrightarrow> keeps R m \<Longrightarrow> keeps R (verifying c m)"
  unfolding verifying_def by (intro keeps_rules keeps_passing)

lemma keeps_removed: "keeps R m \<Longrightarrow> keeps R (removed m)"
  unfolding removed_def by (intro keeps_served keeps_rules keeps_refuse)

lemma keeps_status: "keeps R m \<Longrightarrow> keeps R (status_of m)"
  unfolding status_of_def by (intro keeps_rules)

lemma keeps_error:
  "keeps R a \<Longrightarrow> keeps R b \<Longrightarrow> keeps R c \<Longrightarrow> keeps R (case e of UniqueViolation \<Rightarrow> a | ForeignKeyViolation \<Rightarrow> b | Unavailable \<Rightarrow> c)"
  by (simp split: DbError.split)

lemma keeps_outcome:
  "(\<And>x. keeps R (f x)) \<Longrightarrow> keeps R a \<Longrightarrow> keeps R b \<Longrightarrow> keeps R (case out of Changed_to x \<Rightarrow> f x | Missing \<Rightarrow> a | Conflicting \<Rightarrow> b)"
  by (simp split: UpdateOutcome.split)

lemmas reading_shapes = keeps_rules keeps_error keeps_outcome keeps_query keeps_pool keeps_andThen keeps_refuse keeps_passing
  keeps_client keeps_permitted keeps_served keeps_present keeps_verifying keeps_removed keeps_status

end

interpretation reading: calls_evolution untouched
  by unfold_locales simp

text \<open>What edits and creations of epics and issues leave alone.\<close>

definition side_kept :: "'t tracker_scheme \<Rightarrow> 't tracker_scheme \<Rightarrow> bool" where
  "side_kept s t \<longleftrightarrow> comment_rows t = comment_rows s \<and> time_entries t = time_entries s \<and> members t = members s \<and>
     roles t = roles s \<and> next_id s \<le> next_id t \<and> tracker.more t = tracker.more s"

interpretation side: calls_evolution side_kept
  by unfold_locales (auto simp: side_kept_def)

lemma side_updates:
  "side_kept s (update_issues P f s)" "side_kept s (update_epics P' g s)" "side_kept s (drop_epics ids s)"
proof -
  show issues: "side_kept s (update_issues P f s)" for P f s by (simp add: side_kept_def update_issues_def)
  have folded: "side_kept s (fold (\<lambda>e. epic_milestone_cascade (g e)) es s)" for g es s
    by (induction es arbitrary: s) (auto simp: side.R_refl epic_milestone_cascade_def intro: side.R_trans issues)
  have start: "side_kept s (s\<lparr>epics := x\<rparr>)" for x by (simp add: side_kept_def)
  show "side_kept s (update_epics P' g s)" unfolding update_epics_def Let_def by (rule side.R_trans [OF start folded])
  show "side_kept s (drop_epics ids s)" by (simp add: drop_epics_def side_kept_def update_issues_def)
qed

lemma side_creations: "keeps side_kept (db_create_issue p u w)" "keeps side_kept (db_create_epic p u new)"
proof -
  show "keeps side_kept (db_create_issue p u w)"
    unfolding db_create_issue_def alloc_ref_def next_issue_order_def new_status_id_def
    by (cases "iw_status_id w")
      (auto simp: Let_def side_kept_def intro!: side.reading_shapes side.keeps_execute side.keeps_stmt)
  show "keeps side_kept (db_create_epic p u new)"
    unfolding db_create_epic_def alloc_epic_ref_def next_epic_order_def
    by (auto simp: Let_def side_kept_def intro!: side.reading_shapes side.keeps_execute side.keeps_stmt)
qed

lemma keeps_weaker: "keeps R m \<Longrightarrow> (\<And>s t. R s t \<Longrightarrow> Q s t) \<Longrightarrow> keeps Q m"
  by (simp add: keeps_def)

locale backlog_core = evolution R for R :: "'t tracker_scheme \<Rightarrow> 't tracker_scheme \<Rightarrow> bool" +
  assumes framed: "quiet_frame s t \<Longrightarrow> R s t"
    and issues_changed: "(\<And>r. issue_kept s r (f r)) \<Longrightarrow> R s (update_issues P f s)"
    and epics_changed: "(\<And>e. epic_kept e (g e)) \<Longrightarrow> R s (update_epics P' g s)"
    and issue_created: "keeps R (db_create_issue p u w)"
    and epic_created: "keeps R (db_create_epic p u new)"

sublocale backlog_core \<subseteq> calls_evolution R
  by unfold_locales (simp add: framed quiet_frame_def backlog_frame_def)

context backlog_core begin

lemma keeps_frame: "(\<And>s. quiet_frame s (snd (f s))) \<Longrightarrow> keeps R (stmt f)"
  by (rule keeps_stmt) (rule framed)

lemma keeps_frame_execute: "(\<And>s. quiet_frame s (f s)) \<Longrightarrow> keeps R (execute g f)"
  by (rule keeps_execute) (rule framed)

lemma keeps_audit: "keeps R (audit env h actor action meta)"
  unfolding audit_def audit_record_def
  by (intro keeps_rules keeps_frame) (simp add: quiet_frame_def backlog_frame_def)

lemma keeps_publish: "keeps R (publish p e)"
  by (auto simp: keeps_wp wp_publish quiet_frame_def backlog_frame_def intro!: framed)

lemmas shapes = reading_shapes keeps_audit keeps_publish

section \<open>Statements\<close>

lemma keeps_folded: "(\<And>x s. R s (f x s)) \<Longrightarrow> R s (fold f xs s)"
  by (induction xs arbitrary: s) (auto simp: R_refl intro: R_trans)

lemma mirrored: "R s (issue_mirror_release_version i s)"
  unfolding issue_mirror_release_version_def by (rule issues_changed) (simp add: issue_kept_def)

lemma versions_deleted: "R s (delete_versions P s)"
  unfolding delete_versions_def
  by (rule R_trans [OF framed keeps_folded [OF mirrored]]) (simp add: quiet_frame_def backlog_frame_def)

lemma components_deleted: "R s (delete_issue_components P s)"
  unfolding delete_issue_components_def
  by (rule R_trans [OF framed keeps_folded [OF versions_deleted]]) (simp add: quiet_frame_def backlog_frame_def)

lemma version_put: "R s (put_version i v s)"
proof -
  have "R s (issue_mirror_release_version i (s\<lparr>issue_versions := x\<rparr>))" for x
    by (rule R_trans [OF framed mirrored]) (simp add: quiet_frame_def backlog_frame_def)
  then show ?thesis by (simp add: put_version_def Let_def R_refl)
qed

lemma item_detached: "R s (detach_item i s)"
  unfolding detach_item_def
  by (rule R_trans [OF issues_changed epics_changed]) (simp_all add: issue_kept_def epic_kept_def)

lemma ranks_put: "(\<And>i r s. R s (put i r s)) \<Longrightarrow> R s (put_ranks put order s)"
  unfolding put_ranks_def by (rule keeps_folded) (simp split: prod.split)

lemma issue_rank_put: "R s (put_issue_rank p i r s)"
  unfolding put_issue_rank_def by (rule issues_changed) (simp add: issue_kept_def)

lemma epic_rank_put: "R s (put_epic_rank p i r s)"
  unfolding put_epic_rank_def by (rule epics_changed) (simp add: epic_kept_def)

lemma item_rank_put: "R s (put_item_rank p k i r s)"
  unfolding put_item_rank_def by (rule framed) (simp add: quiet_frame_def backlog_frame_def)

lemma keeps_set_order:
  "(\<And>i r s. R s (put i r s)) \<Longrightarrow> keeps R (set_order hit put i b a order)"
  unfolding set_order_def by (intro keeps_rules keeps_execute ranks_put)

lemma keeps_taxonomy:
  "keeps R (clear_is_new p)" "keeps R (unmark_new p flag)" "keeps R (taxonomy_list p k)" "keeps R (max_order p k)"
  "keeps R (taxonomy_create p k new)" "keeps R (taxonomy_edit p k i u)" "keeps R (taxonomy_delete p k i)"
  "keeps R (move_item p k i b a)" "keeps R (taxonomy_reference_count i)"
proof -
  show clear: "keeps R (clear_is_new p)" for p
    unfolding clear_is_new_def by (rule keeps_frame_execute) (simp add: quiet_frame_def backlog_frame_def)
  show "keeps R (unmark_new p flag)" unfolding unmark_new_def by (intro keeps_rules clear)
  show reads: "keeps R (taxonomy_list p k)" "keeps R (max_order p k)" "keeps R (taxonomy_reference_count i)" for p k i
    unfolding taxonomy_list_def max_order_def taxonomy_reference_count_def by (rule keeps_query)+
  show "keeps R (taxonomy_create p k new)"
    unfolding taxonomy_create_def by (intro keeps_rules reads keeps_frame) (auto simp: quiet_frame_def backlog_frame_def Let_def)
  show "keeps R (taxonomy_edit p k i u)"
    unfolding taxonomy_edit_def by (rule keeps_frame) (auto simp: quiet_frame_def backlog_frame_def split: option.split)
  have "R s (detach_item i (s\<lparr>taxonomy := x\<rparr>))" for s x
    by (rule R_trans [OF framed item_detached]) (simp add: quiet_frame_def backlog_frame_def)
  then show "keeps R (taxonomy_delete p k i)"
    unfolding taxonomy_delete_def by (intro keeps_execute) (simp add: R_refl)
  show "keeps R (move_item p k i b a)"
    unfolding move_item_def Let_def by (intro keeps_rules reads keeps_execute ranks_put item_rank_put)
qed

lemma keeps_labels:
  "keeps R (label_create p name color)" "keeps R (label_edit p i n c)" "keeps R (label_delete p i)"
  "keeps R (component_create p name color)" "keeps R (component_edit p i n c)" "keeps R (component_delete p i)"
  "keeps R (link_create p i j type)" "keeps R (link_delete p i)" "keeps R (watcher_add i u)" "keeps R (watcher_remove i u)"
proof -
  show "keeps R (label_create p name color)" "keeps R (component_create p name color)" "keeps R (watcher_add i u)"
    unfolding label_create_def component_create_def watcher_add_def
    by (rule keeps_frame; auto simp: quiet_frame_def backlog_frame_def Let_def)+
  show "keeps R (label_edit p i n c)" "keeps R (component_edit p i n c)" "keeps R (link_create p i j type)"
    unfolding label_edit_def component_edit_def link_create_def
    by (rule keeps_frame; auto simp: quiet_frame_def backlog_frame_def Let_def split: option.split)+
  show "keeps R (label_delete p i)" "keeps R (link_delete p i)" "keeps R (watcher_remove i u)"
    unfolding label_delete_def link_delete_def watcher_remove_def
    by (rule keeps_frame_execute; simp add: quiet_frame_def backlog_frame_def)+
  have "R s (delete_versions P (delete_issue_components Q (s\<lparr>component_rows := x, component_releases := y\<rparr>)))" for s P Q x y
    by (rule R_trans [OF framed R_trans [OF components_deleted versions_deleted]]) (simp add: quiet_frame_def backlog_frame_def)
  then show "keeps R (component_delete p i)"
    unfolding component_delete_def by (intro keeps_execute) (simp add: R_refl)
qed

lemma keeps_milestones:
  "keeps R (db_create_milestone p new)" "keeps R (db_get_milestone p i)" "keeps R (db_update_milestone p i v u)"
  "keeps R (change_milestone p i f)" "keeps R (soft_delete_milestone p i)" "keeps R (has_epics p i)"
  "keeps R (milestone_is_closed p i)" "keeps R (milestone_known ctx i)" "keeps R (classify_miss found)"
proof -
  show miss: "keeps R (classify_miss found)" for found
    unfolding classify_miss_def by (intro shapes)
  show "keeps R (db_create_milestone p new)"
    unfolding db_create_milestone_def by (intro shapes keeps_frame) (auto simp: quiet_frame_def backlog_frame_def Let_def)
  show "keeps R (db_update_milestone p i v u)"
    unfolding db_update_milestone_def by (intro shapes keeps_frame miss) (auto simp: quiet_frame_def backlog_frame_def Let_def split: option.split)
  show "keeps R (change_milestone p i f)"
    unfolding change_milestone_def by (rule keeps_frame) (auto simp: quiet_frame_def backlog_frame_def split: option.split)
  show "keeps R (soft_delete_milestone p i)"
    unfolding soft_delete_milestone_def by (rule keeps_frame_execute) (simp add: quiet_frame_def backlog_frame_def)
  show "keeps R (db_get_milestone p i)" "keeps R (has_epics p i)" "keeps R (milestone_is_closed p i)" "keeps R (milestone_known ctx i)"
    unfolding db_get_milestone_def has_epics_def milestone_is_closed_def milestone_known_def milestone_in_project_def
    by (intro shapes)+
qed

lemma keeps_records:
  "keeps R (history_record p t i a d)" "keeps R (record_changes ctx k i changed)"
  "keeps R (replay u key meth path)" "keeps R (remember u key meth path st made)"
  "keeps R (comment_create p t i u b html)" "keeps R (comment_meta c)" "keeps R (attachments_soft_delete t c)" "keeps R (publish_comment env ctx what e q c)"
proof -
  show history: "keeps R (history_record p t i a d)" for p t i a d
    unfolding history_record_def by (intro shapes keeps_frame_execute) (simp add: quiet_frame_def backlog_frame_def)
  show "keeps R (record_changes ctx k i changed)"
    unfolding record_changes_def by (intro shapes history)
  show "keeps R (replay u key meth path)"
    unfolding replay_def idem_lookup_def by (intro shapes)
  show "keeps R (remember u key meth path st made)"
    unfolding remember_def idem_store_def by (intro shapes keeps_frame_execute) (simp add: quiet_frame_def backlog_frame_def)
  show "keeps R (comment_create p t i u b html)"
    unfolding comment_create_def by (rule keeps_frame) (auto simp: quiet_frame_def backlog_frame_def Let_def)
  show "keeps R (comment_meta c)" unfolding comment_meta_def by (rule keeps_query)
  show "keeps R (attachments_soft_delete t c)"
    unfolding attachments_soft_delete_def Let_def by (rule keeps_frame_execute) (simp add: quiet_frame_def backlog_frame_def)
  show "keeps R (publish_comment env ctx what e q c)"
    unfolding publish_comment_def by (intro shapes)
qed

lemma keeps_epics:
  "keeps R (db_get_epic p i)" "keeps R (db_list_epics p)" "keeps R (db_update_epic p i v w)"
  "keeps R (set_milestone_epics p m ids)" "keeps R (db_soft_delete_epic p i g)" "keeps R (epic_in_closed_status p i)"
  "keeps R (epic_known ctx i)"
proof -
  show "keeps R (db_get_epic p i)" "keeps R (db_list_epics p)" "keeps R (epic_in_closed_status p i)" "keeps R (epic_known ctx i)"
    unfolding db_get_epic_def db_list_epics_def epics_where_def epic_task_count_one_def epic_task_counts_def
      epic_in_closed_status_def epic_known_def epic_in_project_def
    by (intro shapes)+
  have written: "R s (update_epics P (write_epic w) s)" for P w s
    by (rule epics_changed) (simp add: epic_kept_def write_epic_def)
  show "keeps R (db_update_epic p i v w)"
    unfolding db_update_epic_def epic_task_count_one_def
    by (intro shapes keeps_stmt keeps_milestones(9)) (simp add: R_refl written split: option.split)
  have assign: "R s (update_epics P (\<lambda>e. e\<lparr>ep_milestone_id := m\<rparr>) s)" for P m s
    by (rule epics_changed) (simp add: epic_kept_def)
  show "keeps R (set_milestone_epics p m ids)"
    unfolding set_milestone_epics_def by (intro shapes keeps_execute keeps_stmt assign) (simp add: R_refl assign)
  show "keeps R (db_soft_delete_epic p i g)"
    unfolding db_soft_delete_epic_def by (intro keeps_execute epics_changed) (simp add: epic_kept_def)
qed

lemma keeps_relations:
  "keeps R (set_issue_labels i ids)" "keeps R (set_issue_components i ids)" "keeps R (set_issue_component_versions i vs)"
  "keeps R (set_issue_customers i ids)" "keeps R (set_relations i req)" "keeps R (replace_relations i u)"
proof -
  show labels: "keeps R (set_issue_labels i ids)" for i ids
    unfolding set_issue_labels_def by (rule keeps_frame) (simp add: quiet_frame_def backlog_frame_def)
  show customers: "keeps R (set_issue_customers i ids)" for i ids
    unfolding set_issue_customers_def by (rule keeps_frame) (simp add: quiet_frame_def backlog_frame_def)
  have "R s ((delete_issue_components P s)\<lparr>issue_components := x\<rparr>)" for P x s
    by (rule R_trans [OF components_deleted [of s P] framed]) (simp add: quiet_frame_def backlog_frame_def)
  then show components: "keeps R (set_issue_components i ids)" for i ids
    unfolding set_issue_components_def by (intro keeps_stmt) (simp add: R_refl Let_def)
  have "R s (fold (put_version i) vs (delete_versions P s))" for P i vs s
    by (rule R_trans [OF versions_deleted keeps_folded [OF version_put]])
  then show versions: "keeps R (set_issue_component_versions i vs)" for i vs
    unfolding set_issue_component_versions_def by (intro keeps_stmt) (simp add: R_refl)
  show "keeps R (set_relations i req)" "keeps R (replace_relations i u)"
    unfolding set_relations_def replace_relations_def whenever_def
    by (intro shapes labels customers components versions)+
qed

lemma keeps_issues:
  "keeps R (db_get_issue p i)" "keeps R (db_list_issues p)" "keeps R (db_update_issue p i v w)"
  "keeps R (db_soft_delete_issue p i g)" "keeps R (issue_in_closed_status p i)" "keeps R (issue_known ctx i)"
  "(\<And>x. keeps R (f x)) \<Longrightarrow> keeps R (get_full ctx i f)"
proof -
  show get: "keeps R (db_get_issue p i)" for p i
    unfolding db_get_issue_def issue_label_ids_def issue_component_ids_def issue_component_versions_def
      issue_customer_ids_def issue_watcher_ids_def
    by (intro shapes)
  show "keeps R (db_list_issues p)" "keeps R (issue_in_closed_status p i)" "keeps R (issue_known ctx i)"
    unfolding db_list_issues_def issues_where_def hydrate_issue_relations_def issue_in_closed_status_def issue_known_def
      issue_in_project_def
    by (intro shapes)+
  have written: "R s (update_issues P (write_issue s w) s)" if "issue_refs_ok s (write_issue s w r)" for P w s r
    by (rule issues_changed) (use that in \<open>simp add: issue_kept_def write_issue_def issue_refs_ok_def\<close>)
  show "keeps R (db_update_issue p i v w)"
    unfolding db_update_issue_def
    by (intro shapes keeps_stmt keeps_milestones(9)) (auto simp: R_refl split: option.split intro!: written)
  show "keeps R (db_soft_delete_issue p i g)"
    unfolding db_soft_delete_issue_def by (intro keeps_execute issues_changed) (simp add: issue_kept_def)
  assume "keeps R (f x)" for x
  then show "keeps R (get_full ctx i f)" unfolding get_full_def by (intro shapes get)
qed

lemma keeps_customers: "keeps R (customers_known ctx cs)"
  by (induction cs) (auto simp: customer_in_project_def intro!: shapes)

lemma keeps_checks:
  "keeps R (validate_epic_milestone_assignment ctx m)" "keeps R (validate_new_issue ctx req)"
  "keeps R (validate_component_versions pairs cs)" "keeps R (validate_edit ctx i u x)"
proof -
  show "keeps R (validate_epic_milestone_assignment ctx m)"
    unfolding validate_epic_milestone_assignment_def by (intro shapes keeps_milestones)
  have assoc: "keeps R (validate_issue_associations ctx e p m)" for e p m
    unfolding validate_issue_associations_def known_or_def by (intro shapes keeps_epics keeps_issues)
  have ids: "keeps R (validate_label_component_ids ctx a b)" for a b
    unfolding validate_label_component_ids_def labels_all_in_project_def components_all_in_project_def by (intro shapes)
  have extras: "keeps R (validate_issue_extras ctx cs v t)" for cs v t
    unfolding validate_issue_extras_def known_or_def version_known_def version_in_project_def
    by (intro shapes keeps_customers)
  show versions: "keeps R (validate_component_versions pairs cs)" for pairs cs
    unfolding validate_component_versions_def by (intro shapes)
  show "keeps R (validate_new_issue ctx req)"
    unfolding validate_new_issue_def by (intro shapes assoc ids extras)
  show "keeps R (validate_edit ctx i u x)"
    unfolding validate_edit_def validate_parent_def parent_chain_contains_def Let_def
    by (intro shapes assoc ids extras versions)
qed

section \<open>Handlers\<close>

lemma keeps_announce: "keeps R (announce env ctx h k e i v b p ev)"
  unfolding announce_def by (intro shapes keeps_records)

lemma keeps_once: "keeps R work \<Longrightarrow> keeps R (once env ctx h e work)"
  unfolding once_def by (intro shapes keeps_records)

lemma keeps_reorder: "(\<And>i r s. R s (put i r s)) \<Longrightarrow> keeps R (reorder hit put i b a items)"
  unfolding reorder_def by (intro shapes keeps_set_order)

lemma keeps_validate_all: "keeps R (validate_all ctx rs)"
  by (induction rs) (auto intro!: shapes keeps_checks)

lemma keeps_create_all: "keeps R (create_all ctx rs)"
  by (induction rs) (auto intro!: shapes issue_created keeps_relations keeps_records keeps_issues)

lemma keeps_publish_all: "keeps R (publish_all ctx xs)"
  by (induction xs) (auto intro!: shapes)

lemma keeps_show: "keeps R (show_milestone env ctx st m)" "keeps R (show_epic env e)" "keeps R (show_issue env x)"
  by (simp_all add: show_milestone_def show_epic_def show_issue_def tagged_def keeps_refuse)

lemma keeps_finish: "keeps R (finish_update env ctx u x x')"
  unfolding finish_update_def by (intro shapes keeps_relations keeps_records keeps_issues keeps_show)

lemma keeps_delete_entity: "keeps R (delete_entity env ctx h param k perm)"
  unfolding delete_entity_def audit_delete_def
  by (cases k) (auto intro!: shapes keeps_issues keeps_epics keeps_records)

lemma keeps_purge: "keeps R m \<Longrightarrow> keeps R (purge env ctx h what m)"
  unfolding purge_def by (intro shapes)

lemmas parts = keeps_taxonomy keeps_labels keeps_milestones keeps_records keeps_epics keeps_relations keeps_issues keeps_checks
  keeps_announce keeps_once keeps_reorder keeps_validate_all keeps_create_all keeps_publish_all keeps_show keeps_finish
  keeps_delete_entity keeps_purge issue_created epic_created issue_rank_put epic_rank_put

lemma keeps_catalog_acts:
  "keeps R (create_item ctx k body1)" "keeps R (edit_item env ctx k q body2)" "keeps R (delete_item env ctx k q)"
  "keeps R (move_taxonomy_item env ctx k q body3)" "keeps R (create_label ctx body4)" "keeps R (edit_label env ctx q body5)"
  "keeps R (delete_label env ctx q)" "keeps R (create_component ctx body4)" "keeps R (edit_component env ctx q body5)"
  "keeps R (delete_component env ctx q)" "keeps R (create_link env ctx q body6)" "keeps R (delete_link env ctx q)"
  "keeps R (add_watcher env ctx q body7)" "keeps R (remove_watcher env ctx q user)"
  unfolding create_item_def edit_item_def delete_item_def move_taxonomy_item_def create_label_def edit_label_def delete_label_def
    create_component_def edit_component_def delete_component_def create_link_def delete_link_def add_watcher_def remove_watcher_def
    Let_def
  by (intro shapes parts)+

lemma keeps_milestone_acts:
  "keeps R (create_milestone env ctx body1)" "keeps R (update_milestone env ctx h q body2)" "keeps R (set_completed env ctx q c)"
  "keeps R (delete_milestone env ctx q)" "keeps R (set_epics env ctx q body3)"
  unfolding create_milestone_def update_milestone_def set_completed_def delete_milestone_def set_epics_def about_milestone_def
    db_close_milestone_def db_reopen_milestone_def
  by (intro shapes parts)+

lemma keeps_epic_acts:
  "keeps R (create_epic env ctx h body1)" "keeps R (update_epic env ctx h q body2)" "keeps R (move_epic env ctx q body3)"
  "keeps R (delete_epic env ctx h q)"
  unfolding create_epic_def update_epic_def move_epic_def delete_epic_def
  by (intro shapes parts)+

lemma keeps_issue_acts:
  "keeps R (create_issue env ctx h body1)" "keeps R (bulk_create_issues ctx body2)" "keeps R (update_issue env ctx h q body3)"
  "keeps R (move_issue env ctx q body4)" "keeps R (delete_issue env ctx h q)"
  unfolding create_issue_def bulk_create_issues_def update_issue_def guarded_edit_def apply_edit_def move_issue_def delete_issue_def
  by (intro shapes parts)+

lemma keeps_create_comment: "keeps R (create_comment env render ctx e q body)"
  unfolding create_comment_def by (intro shapes parts)

lemma keeps_quiet_act: "quiet_act act \<Longrightarrow> keeps R (run_backlog env render h act ctx)"
  unfolding run_backlog_def quiet_act_def
  by (cases act) (simp_all add: keeps_status keeps_catalog_acts keeps_milestone_acts keeps_epic_acts keeps_issue_acts
      keeps_create_comment)

end

locale backlog_editing = backlog_core +
  assumes comments_framed: "backlog_frame s t \<Longrightarrow> R s t"
    and epics_dropped: "R s (drop_epics ids s)"

context backlog_editing begin

lemma keeps_purge_epics: "keeps R (purge_epics env ctx h)"
proof -
  have "R s (drop_epics ids (purge_targets k ids s))" for ids k s
    by (rule R_trans [OF comments_framed epics_dropped]) (simp add: backlog_frame_def purge_targets_def)
  then have "keeps R (purge_project_epics p)" for p
    unfolding purge_project_epics_def by (rule keeps_execute)
  then show ?thesis unfolding purge_epics_def by (rule keeps_purge)
qed

lemma keeps_comment_acts:
  "keeps R (update_comment env render ctx e q c body)" "keeps R (delete_comment env ctx e q c)"
proof -
  have edits: "keeps R (comment_update i b html)" "keeps R (comment_soft_delete i)" for i b html
    unfolding comment_update_def comment_soft_delete_def
    by (rule keeps_execute, rule comments_framed, simp add: backlog_frame_def)+
  show "keeps R (update_comment env render ctx e q c body)" "keeps R (delete_comment env ctx e q c)"
    unfolding update_comment_def delete_comment_def by (intro shapes parts edits)+
qed

lemma keeps_editing_act:
  assumes "act \<noteq> PurgeIssues"
  shows "keeps R (run_backlog env render h act ctx)"
proof (cases "quiet_act act")
  case True
  then show ?thesis by (rule keeps_quiet_act)
next
  case False
  show ?thesis
    by (cases act) (use assms False in \<open>simp_all add: quiet_act_def run_backlog_def keeps_status keeps_purge_epics keeps_comment_acts\<close>)
qed

end

locale backlog_evolution = backlog_editing +
  assumes issues_dropped: "R s (drop_issues ids s)"

context backlog_evolution begin

text \<open>Every request, and any number of them.\<close>

lemma keeps_purge_issues: "keeps R (purge_issues env ctx h)"
proof -
  have "R s (drop_issues ids (purge_targets k ids s))" for ids k s
    by (rule R_trans [OF comments_framed issues_dropped]) (simp add: backlog_frame_def purge_targets_def)
  then have "keeps R (purge_project_issues p)" for p
    unfolding purge_project_issues_def by (rule keeps_execute)
  then show ?thesis unfolding purge_issues_def by (rule keeps_purge)
qed

lemma keeps_backlog: "keeps R (run_backlog env render h act ctx)"
proof (cases "act = PurgeIssues")
  case True
  then show ?thesis by (simp add: run_backlog_def keeps_status keeps_purge_issues)
qed (rule keeps_editing_act)

lemma backlog_run: "R s (after_requests reqs s)"
  unfolding after_requests_def
proof (induction reqs arbitrary: s)
  case (Cons q reqs)
  obtain env render h act ctx where q: "q = (env, render, h, act, ctx)" by (cases q)
  have "R s (snd (run_state (run_backlog env render h act ctx) s))" using keeps_backlog by (simp add: keeps_def)
  then show ?case using R_trans [OF _ Cons.IH] by (simp add: q)
qed (simp add: R_refl)

end

end
