(* ===== verification/Backlog_Correct.thy ===== *)
theory Backlog_Correct
  imports Backlog_Steps
begin

text \<open>
  What no sequence of backlog requests breaks: the milestone of an issue is that of its epic, a reference
  names one issue for ever, and the version of an issue never falls, so that an update made from an old
  version is refused. Each is a relation that satisfies the contract \<open>backlog_evolution\<close>.
\<close>

section \<open>Rows under updates\<close>

lemma update_issues_fields [simp]:
  "epics (update_issues P f s) = epics s" "ref_counters (update_issues P f s) = ref_counters s"
  "next_id (update_issues P f s) = next_id s"
  by (simp_all add: update_issues_def)

lemma in_update_issues:
  "q \<in> set (issues (update_issues P f s)) \<longleftrightarrow>
     (\<exists>r\<in>set (issues s). q = (if P r then issue_milestone_from_epic s ((f r)\<lparr>is_modified_at := db_now s\<rparr>) else r))"
  unfolding update_issues_def by (auto simp: update_where_def)

lemma issue_kept_simps [simp]:
  "is_id (issue_milestone_from_epic s r) = is_id r" "is_project_id (issue_milestone_from_epic s r) = is_project_id r"
  "is_ref (issue_milestone_from_epic s r) = is_ref r" "is_version (issue_milestone_from_epic s r) = is_version r"
  "is_epic_id (issue_milestone_from_epic s r) = is_epic_id r" "is_deleted_at (issue_milestone_from_epic s r) = is_deleted_at r"
  "is_order (issue_milestone_from_epic s r) = is_order r"
  "is_milestone_id (issue_milestone_from_epic s r) = epic_milestone (epics s) (is_epic_id r)"
  by (simp_all add: issue_milestone_from_epic_def)

lemma cascade_fields [simp]:
  "epics (epic_milestone_cascade e s) = epics s" "ref_counters (epic_milestone_cascade e s) = ref_counters s"
  "next_id (epic_milestone_cascade e s) = next_id s"
  by (simp_all add: epic_milestone_cascade_def)

lemma cascades_fields [simp]:
  "epics (fold (\<lambda>e. epic_milestone_cascade (g e)) es s) = epics s"
  "ref_counters (fold (\<lambda>e. epic_milestone_cascade (g e)) es s) = ref_counters s"
  "next_id (fold (\<lambda>e. epic_milestone_cascade (g e)) es s) = next_id s"
  by (induction es arbitrary: s) simp_all

lemma update_epics_fields [simp]:
  "epics (update_epics P f s) = update_where P (\<lambda>e. (f e)\<lparr>ep_modified_at := db_now s\<rparr>) (epics s)"
  "ref_counters (update_epics P f s) = ref_counters s" "next_id (update_epics P f s) = next_id s"
  by (simp_all add: update_epics_def Let_def)


text \<open>The issues of the state after, one by one: the same ones, with versions that do not fall.\<close>

definition aged :: "issue_row list \<Rightarrow> issue_row list \<Rightarrow> bool" where
  "aged = list_all2 (\<lambda>r q. is_id q = is_id r \<and> is_project_id q = is_project_id r \<and> is_ref q = is_ref r \<and> is_version r \<le> is_version q)"

lemma aged_refl [simp]: "aged rs rs"
  by (simp add: aged_def list_all2_same)

lemma aged_trans: "aged rs qs \<Longrightarrow> aged qs ps \<Longrightarrow> aged rs ps"
  unfolding aged_def by (rule list_all2_trans) auto

lemma aged_update: "(\<And>r. issue_kept s' r (f r)) \<Longrightarrow> aged (issues s) (issues (update_issues P f s))"
  by (auto simp: aged_def update_issues_def update_where_def list_all2_map2 list_all2_same issue_kept_def)

lemma aged_cascade: "aged (issues s) (issues (epic_milestone_cascade e s))"
  unfolding epic_milestone_cascade_def by (rule aged_update) (simp add: issue_kept_def)

lemma aged_epics: "aged (issues s) (issues (update_epics P f s))"
proof -
  have "aged (issues s) (issues (fold (\<lambda>e. epic_milestone_cascade (g e)) es s))" for g es and s :: "'a tracker_scheme"
    by (induction es arbitrary: s) (auto intro: aged_trans [OF aged_cascade])
  from this [of "s\<lparr>epics := _\<rparr>"] show ?thesis by (simp add: update_epics_def Let_def)
qed

lemma aged_keys: "aged rs qs \<Longrightarrow> map is_id qs = map is_id rs \<and> map (\<lambda>r. (is_project_id r, is_ref r)) qs = map (\<lambda>r. (is_project_id r, is_ref r)) rs"
  unfolding aged_def by (induction rule: list_all2_induct) auto

lemma aged_source:
  assumes "aged rs qs" and "q \<in> set qs"
  obtains r where "r \<in> set rs" "is_id q = is_id r" "is_project_id q = is_project_id r" "is_ref q = is_ref r" "is_version r \<le> is_version q"
  using assms unfolding aged_def by (force simp: list_all2_conv_all_nth in_set_conv_nth)

text \<open>A created issue or epic: nothing, or one row at the end with fresh keys.\<close>

definition issue_added :: "pid \<Rightarrow> 't tracker_scheme \<Rightarrow> 't tracker_scheme \<Rightarrow> bool" where
  "issue_added p s t \<longleftrightarrow> epics t = epics s \<and> next_id s \<le> next_id t \<and>
     (ref_counters t = ref_counters s \<or> ref_counters t = bump p (\<lambda>(a, b). (a + 1, b)) (ref_counters s)) \<and>
     (issues t = issues s \<or>
      (\<exists>row. issues t = issues s @ [issue_milestone_from_epic s row] \<and> is_id row = next_id s \<and> next_id t = Suc (next_id s) \<and>
         is_project_id row = p \<and> is_ref row = fst (counters p s) + 1 \<and>
         ref_counters t = bump p (\<lambda>(a, b). (a + 1, b)) (ref_counters s) \<and>
         known_ref (is_epic_id row) (map ep_id (epics s)) \<and>
         (\<forall>r\<in>set (issues s). is_project_id r = p \<longrightarrow> is_ref r \<noteq> is_ref row)))"

lemma issue_from_epic_cong: "epics s' = epics s \<Longrightarrow> issue_milestone_from_epic s' r = issue_milestone_from_epic s r"
  by (simp add: issue_milestone_from_epic_def)

lemma wp_create_issue: "wp (db_create_issue p u w) (\<lambda>_. issue_added p s) s"
proof -
  define T where "T c = s\<lparr>calls := c, ref_counters := bump p (\<lambda>(a, b). (a + 1, b)) (ref_counters s)\<rparr>" for c
  have same: "issue_added p s (s\<lparr>calls := c\<rparr>)" "issue_added p s (T c)" for c
    by (simp_all add: issue_added_def T_def)
  have T: "(T c)\<lparr>calls := d\<rparr> = T d" for c d by (simp add: T_def)
  have row: "issue_added p s ((T c)\<lparr>issues := issues s @ [issue_milestone_from_epic (T c) r], next_id := Suc (next_id s)\<rparr>)"
    if "issue_refs_ok (T c) (issue_milestone_from_epic (T c) r)" "is_id r = next_id s" "is_project_id r = p"
      "is_ref r = fst (counters p s) + 1" "\<not> any_row (\<lambda>q. is_project_id q = p \<and> is_ref q = fst (counters p s) + 1) (issues s)" for r c
    using that unfolding issue_added_def
    by (intro conjI disjI2 exI [of _ r])
      (auto simp: T_def issue_refs_ok_def any_row_iff issue_from_epic_cong [of "s\<lparr>calls := c, ref_counters := _\<rparr>" s])
  have calls: "counters p (s\<lparr>calls := c\<rparr>) = counters p s" for c by (simp add: counters_def)
  have fields: "issues (T c) = issues s" "next_id (T c) = next_id s" for c by (simp_all add: T_def)
  have last: "wp (stmt (\<lambda>s. let row = issue_milestone_from_epic s (mk s)
        in if any_row (\<lambda>r. is_project_id r = p \<and> is_ref r = fst (counters p s0) + 1) (issues s) then (Inl UniqueViolation, s)
           else if \<not> issue_refs_ok s row then (Inl ForeignKeyViolation, s)
           else (Inr (row_to_issue row), s\<lparr>issues := issues s @ [row], next_id := Suc (next_id s)\<rparr>)))
      (\<lambda>_. issue_added p s) (T c)"
    if "\<And>t. is_id (mk t) = next_id t \<and> is_project_id (mk t) = p \<and> is_ref (mk t) = fst (counters p s) + 1" "s0 = s" for mk s0 c
    using row [where r = "mk _"] that by (simp add: wp_stmt Let_def same T fields)
  show ?thesis
    unfolding db_create_issue_def alloc_ref_def next_issue_order_def new_status_id_def
    by (auto simp: wp_andThen wp_execute wp_query wp_return same T calls simp flip: T_def intro!: last split: option.split)
qed

definition epic_added :: "pid \<Rightarrow> 't tracker_scheme \<Rightarrow> 't tracker_scheme \<Rightarrow> bool" where
  "epic_added p s t \<longleftrightarrow> issues t = issues s \<and> next_id s \<le> next_id t \<and>
     (ref_counters t = ref_counters s \<or> ref_counters t = bump p (\<lambda>(a, b). (a, b + 1)) (ref_counters s)) \<and>
     (epics t = epics s \<or>
      (\<exists>row. epics t = epics s @ [row] \<and> ep_id row = next_id s \<and> next_id t = Suc (next_id s) \<and>
         ep_project_id row = p \<and> ep_ref row = snd (counters p s) + 1 \<and>
         ref_counters t = bump p (\<lambda>(a, b). (a, b + 1)) (ref_counters s) \<and>
         (\<forall>e\<in>set (epics s). ep_project_id e = p \<longrightarrow> ep_ref e \<noteq> ep_ref row)))"

lemma wp_create_epic: "wp (db_create_epic p u new) (\<lambda>_. epic_added p s) s"
proof -
  define T where "T c = s\<lparr>calls := c, ref_counters := bump p (\<lambda>(a, b). (a, b + 1)) (ref_counters s)\<rparr>" for c
  have same: "epic_added p s (s\<lparr>calls := c\<rparr>)" "epic_added p s (T c)" for c
    by (simp_all add: epic_added_def T_def)
  have T: "(T c)\<lparr>calls := d\<rparr> = T d" for c d by (simp add: T_def)
  have row: "epic_added p s ((T c)\<lparr>epics := epics s @ [r], next_id := Suc (next_id s)\<rparr>)"
    if "ep_id r = next_id s" "ep_project_id r = p" "ep_ref r = snd (counters p s) + 1"
      "\<not> any_row (\<lambda>q. ep_project_id q = p \<and> ep_ref q = snd (counters p s) + 1) (epics s)" for r c
    using that unfolding epic_added_def by (intro conjI disjI2 exI [of _ r]) (auto simp: T_def any_row_iff)
  have calls: "counters p (s\<lparr>calls := c\<rparr>) = counters p s" for c by (simp add: counters_def)
  have fields: "epics (T c) = epics s" "next_id (T c) = next_id s" for c by (simp_all add: T_def)
  have last: "wp (stmt (\<lambda>s. let row = mk s
        in if any_row (\<lambda>e. ep_project_id e = p \<and> ep_ref e = snd (counters p s0) + 1) (epics s) then (Inl UniqueViolation, s)
           else if \<not> epic_refs_ok s row then (Inl ForeignKeyViolation, s)
           else (Inr (row_to_epic row), s\<lparr>epics := epics s @ [row], next_id := Suc (next_id s)\<rparr>)))
      (\<lambda>_. epic_added p s) (T c)"
    if "\<And>t. ep_id (mk t) = next_id t \<and> ep_project_id (mk t) = p \<and> ep_ref (mk t) = snd (counters p s) + 1" "s0 = s" for mk s0 c
    using row [where r = "mk _"] that by (simp add: wp_stmt Let_def same T fields)
  show ?thesis
    unfolding db_create_epic_def alloc_epic_ref_def next_epic_order_def
    by (auto simp: wp_andThen wp_execute wp_query wp_return same T calls simp flip: T_def intro!: last)
qed

lemma counters_bump:
  "ref_counters t = bump p f (ref_counters s) \<Longrightarrow> counters q t = (if q = p then f (counters p s) else counters q s)"
proof -
  have "(case map_of (bump p f rows) q of None \<Rightarrow> (0, 0) | Some x \<Rightarrow> x) =
      (if q = p then f (case map_of rows p of None \<Rightarrow> (0, 0) | Some x \<Rightarrow> x) else (case map_of rows q of None \<Rightarrow> (0, 0) | Some x \<Rightarrow> x))" for rows
    by (induction rows) auto
  then show "ref_counters t = bump p f (ref_counters s) \<Longrightarrow> ?thesis" by (simp add: counters_def)
qed

lemma counters_cong: "ref_counters t = ref_counters s \<Longrightarrow> counters q t = counters q s"
  by (simp add: counters_def)

text \<open>Purges leave rows of the state before, as they were or without the purged parent or epic.\<close>

lemma dropped_issues:
  "q \<in> set (issues (drop_issues ids s)) \<Longrightarrow> \<exists>r\<in>set (issues s). is_id q = is_id r \<and> is_project_id q = is_project_id r \<and> is_ref q = is_ref r \<and>
     is_version q = is_version r \<and> is_epic_id q = is_epic_id r \<and> (is_milestone_id q = is_milestone_id r \<or>
       is_milestone_id q = epic_milestone (epics s) (is_epic_id r))"
  by (auto simp: drop_issues_def in_update_issues set_delete_where split: if_splits)

lemma dropped_issue_keys: "map k (issues (drop_issues ids s)) = map k (filter (\<lambda>r. is_id r \<notin> set ids) (issues s))"
  if "\<And>r m n q. k (r\<lparr>is_parent_id := q, is_modified_at := n, is_milestone_id := m\<rparr>) = k r"
  for s :: "'t tracker_scheme"
proof -
  have "k (issue_milestone_from_epic s' (r\<lparr>is_parent_id := None, is_modified_at := n\<rparr>)) = k r" for s' :: "'t tracker_scheme" and r n
    using that [where r = r and m = "epic_milestone (epics s') (is_epic_id r)" and q = None and n = n] by (simp add: issue_milestone_from_epic_def)
  then show ?thesis by (auto simp: drop_issues_def update_issues_def update_where_def delete_where_def)
qed

lemma dropped_fields [simp]:
  "epics (drop_issues ids s) = epics s" "next_id (drop_issues ids s) = next_id s" "ref_counters (drop_issues ids s) = ref_counters s"
  "epics (drop_epics ids s) = delete_where (\<lambda>e. ep_id e \<in> set ids) (epics s)" "next_id (drop_epics ids s) = next_id s"
  "ref_counters (drop_epics ids s) = ref_counters s"
  by (simp_all add: drop_issues_def drop_epics_def)

lemma aged_drop_epics: "aged (issues s) (issues (drop_epics ids s))"
proof -
  have "aged (issues (s\<lparr>epics := x\<rparr>)) (issues (update_issues P (\<lambda>r. r\<lparr>is_epic_id := None\<rparr>) (s\<lparr>epics := x\<rparr>)))" for P x
    by (rule aged_update) (simp add: issue_kept_def known_ref_def)
  then show ?thesis by (simp add: drop_epics_def)
qed

section \<open>Versions\<close>

definition at_least :: "nat \<Rightarrow> int \<Rightarrow> 't tracker_scheme \<Rightarrow> bool" where
  "at_least i n s \<longleftrightarrow> i < next_id s \<and> (\<forall>r\<in>set (issues s). is_id r = i \<longrightarrow> n \<le> is_version r)"

definition never_older :: "nat \<Rightarrow> int \<Rightarrow> 't tracker_scheme \<Rightarrow> 't tracker_scheme \<Rightarrow> bool" where
  "never_older i n s t \<longleftrightarrow> (at_least i n s \<longrightarrow> at_least i n t)"

lemma at_least_aged: "aged (issues s) (issues t) \<Longrightarrow> next_id s \<le> next_id t \<Longrightarrow> never_older i n s t"
  unfolding never_older_def at_least_def by (force elim: aged_source)

interpretation version: backlog_evolution "never_older i n" for i n
proof
  show "never_older i n s s" for s :: "'t tracker_scheme" by (simp add: never_older_def)
  show "never_older i n s u" if "never_older i n s t" "never_older i n t u" for s t u :: "'t tracker_scheme"
    using that by (simp add: never_older_def)
  show frame: "never_older i n s t" if "backlog_frame s t" for s t :: "'t tracker_scheme"
    using that by (intro at_least_aged) (simp_all add: backlog_frame_def)
  show "never_older i n s t" if "quiet_frame s t" for s t :: "'t tracker_scheme"
    using that by (intro frame) (simp add: quiet_frame_def)
  show "never_older i n s (update_issues P f s)" if "\<And>r. issue_kept s r (f r)" for s :: "'t tracker_scheme" and P f
    by (intro at_least_aged aged_update [OF that]) simp
  show "never_older i n s (update_epics P g s)" for s :: "'t tracker_scheme" and P g
    by (intro at_least_aged aged_epics) simp
  show "keeps (never_older i n) (db_create_issue p u w)" for p u w
    unfolding keeps_wp
    by (intro allI wp_mono [OF wp_create_issue]) (auto simp: issue_added_def never_older_def at_least_def)
  show "keeps (never_older i n) (db_create_epic p u new)" for p u new
    unfolding keeps_wp
    by (intro allI wp_mono [OF wp_create_epic]) (auto simp: epic_added_def never_older_def at_least_def)
  show "never_older i n s (drop_issues ids s)" for s :: "'t tracker_scheme" and ids
    by (auto simp: never_older_def at_least_def dest!: dropped_issues)
  show "never_older i n s (drop_epics ids s)" for s :: "'t tracker_scheme" and ids
    by (intro at_least_aged aged_drop_epics) simp
qed

section \<open>References\<close>

definition refs_ok :: "'t tracker_scheme \<Rightarrow> bool" where
  "refs_ok s \<longleftrightarrow>
     keyed is_id (issues s) \<and> keyed (\<lambda>r. (is_project_id r, is_ref r)) (issues s) \<and>
     (\<forall>r\<in>set (issues s). is_id r < next_id s \<and> is_ref r \<le> fst (counters (is_project_id r) s))"

text \<open>Counters only grow; an issue that was not there has a reference above the old counter.\<close>

definition refs_step :: "'t tracker_scheme \<Rightarrow> 't tracker_scheme \<Rightarrow> bool" where
  "refs_step s t \<longleftrightarrow> (refs_ok s \<longrightarrow> refs_ok t) \<and> (\<forall>p. fst (counters p s) \<le> fst (counters p t)) \<and>
     (\<forall>q\<in>set (issues t). (\<exists>r\<in>set (issues s). is_id r = is_id q \<and> is_project_id r = is_project_id q \<and> is_ref r = is_ref q) \<or>
        fst (counters (is_project_id q) s) < is_ref q)"

lemma refs_aged:
  assumes "aged (issues s) (issues t)" and "next_id s \<le> next_id t" and "\<And>p. fst (counters p t) = fst (counters p s)"
  shows "refs_step s t"
proof -
  have "refs_ok s \<longrightarrow> refs_ok t"
    using assms(2,3) aged_keys [OF assms(1)] aged_source [OF assms(1)]
    unfolding refs_ok_def keyed_def by (metis order_less_le_trans)
  moreover have "\<exists>r\<in>set (issues s). is_id r = is_id q \<and> is_project_id r = is_project_id q \<and> is_ref r = is_ref q"
    if "q \<in> set (issues t)" for q
    using aged_source [OF assms(1) that] by metis
  ultimately show ?thesis using assms(3) by (simp add: refs_step_def)
qed

lemma refs_added: "issue_added p s t \<Longrightarrow> refs_step s t"
proof -
  assume a: "issue_added p s t"
  have le: "fst (counters q s) \<le> fst (counters q t)" for q
    using a counters_bump [of t p _ s q] counters_cong [of t s q] by (auto simp: issue_added_def split: prod.splits)
  show ?thesis
  proof (cases "issues t = issues s")
    case True
    have "refs_ok s \<longrightarrow> refs_ok t"
      using True le a unfolding refs_ok_def issue_added_def by (metis order_less_le_trans order_trans)
    then show ?thesis using True le by (auto simp: refs_step_def)
  next
    case False
    then obtain row where row: "issues t = issues s @ [issue_milestone_from_epic s row]" "is_id row = next_id s"
        "next_id t = Suc (next_id s)" "is_project_id row = p" "is_ref row = fst (counters p s) + 1"
        "ref_counters t = bump p (\<lambda>(a, b). (a + 1, b)) (ref_counters s)"
        "\<forall>r\<in>set (issues s). is_project_id r = p \<longrightarrow> is_ref r \<noteq> is_ref row"
      using a by (auto simp: issue_added_def)
    have top: "fst (counters p t) = fst (counters p s) + 1"
      using counters_bump [OF row(6), of p] by (simp split: prod.split)
    have "refs_ok t" if ok: "refs_ok s"
    proof -
      have "is_ref r \<le> fst (counters (is_project_id r) t)" if "r \<in> set (issues s)" for r
        using ok that le [of "is_project_id r"] unfolding refs_ok_def by force
      then show ?thesis
        using ok row top unfolding refs_ok_def by (auto simp: keyed_snoc less_Suc_eq)
    qed
    then show ?thesis using le row by (auto simp: refs_step_def)
  qed
qed

interpretation ref: backlog_evolution refs_step
proof
  show "refs_step s s" for s :: "'t tracker_scheme" by (auto simp: refs_step_def)
  show "refs_step s u" if "refs_step s t" "refs_step t u" for s t u :: "'t tracker_scheme"
  proof -
    have "(\<exists>r\<in>set (issues s). is_id r = is_id q \<and> is_project_id r = is_project_id q \<and> is_ref r = is_ref q) \<or>
        fst (counters (is_project_id q) s) < is_ref q" if "q \<in> set (issues u)" for q
      using \<open>refs_step t u\<close> \<open>refs_step s t\<close> that unfolding refs_step_def by (metis order_le_less_trans)
    moreover have "fst (counters p s) \<le> fst (counters p u)" for p
      using that unfolding refs_step_def by (meson order_trans)
    ultimately show ?thesis using that unfolding refs_step_def by blast
  qed
  show frame: "refs_step s t" if "backlog_frame s t" for s t :: "'t tracker_scheme"
    using that by (intro refs_aged) (simp_all add: backlog_frame_def counters_def)
  show "refs_step s t" if "quiet_frame s t" for s t :: "'t tracker_scheme"
    using that by (intro frame) (simp add: quiet_frame_def)
  show "refs_step s (update_issues P f s)" if "\<And>r. issue_kept s r (f r)" for s :: "'t tracker_scheme" and P f
    by (intro refs_aged aged_update [OF that]) (simp_all add: counters_def)
  show "refs_step s (update_epics P g s)" for s :: "'t tracker_scheme" and P g
    by (intro refs_aged aged_epics) (simp_all add: counters_def)
  show "keeps refs_step (db_create_issue p u w)" for p u w
    unfolding keeps_wp by (intro allI wp_mono [OF wp_create_issue]) (rule refs_added)
  have epic: "refs_step s t" if "epic_added p s t" for p and s t :: "'t tracker_scheme"
  proof (rule refs_aged)
    show "aged (issues s) (issues t)" "next_id s \<le> next_id t" using that by (simp_all add: epic_added_def)
    show "fst (counters q t) = fst (counters q s)" for q
      using that counters_bump [of t p _ s q] counters_cong [of t s q] by (auto simp: epic_added_def split: prod.splits)
  qed
  show "keeps refs_step (db_create_epic p u new)" for p u new
    unfolding keeps_wp by (intro allI wp_mono [OF wp_create_epic]) (rule epic)
  show "refs_step s (drop_issues ids s)" for s :: "'t tracker_scheme" and ids
  proof -
    let ?t = "drop_issues ids s"
    have "keyed is_id (issues ?t)" if "keyed is_id (issues s)"
      using that dropped_issue_keys [of is_id ids s] by (simp add: keyed_def distinct_map_filter)
    moreover have "keyed (\<lambda>r. (is_project_id r, is_ref r)) (issues ?t)" if "keyed (\<lambda>r. (is_project_id r, is_ref r)) (issues s)"
      using that dropped_issue_keys [of "\<lambda>r. (is_project_id r, is_ref r)" ids s] by (simp add: keyed_def distinct_map_filter)
    moreover have "counters p ?t = counters p s" for p by (simp add: counters_def)
    ultimately show ?thesis
      unfolding refs_step_def refs_ok_def by (fastforce dest!: dropped_issues)
  qed
  show "refs_step s (drop_epics ids s)" for s :: "'t tracker_scheme" and ids
    by (intro refs_aged aged_drop_epics) (simp_all add: counters_def)
qed

section \<open>Milestones\<close>

definition milestones_follow :: "'t tracker_scheme \<Rightarrow> bool" where
  "milestones_follow s \<longleftrightarrow>
     keyed ep_id (epics s) \<and> (\<forall>e\<in>set (epics s). ep_id e < next_id s) \<and>
     (\<forall>r\<in>set (issues s). is_milestone_id r = epic_milestone (epics s) (is_epic_id r) \<and>
        (\<forall>i. is_epic_id r = Some i \<longrightarrow> i < next_id s))"

definition follow_step :: "'t tracker_scheme \<Rightarrow> 't tracker_scheme \<Rightarrow> bool" where
  "follow_step s t \<longleftrightarrow> (milestones_follow s \<longrightarrow> milestones_follow t)"

lemma epic_milestone_of: "keyed ep_id es \<Longrightarrow> e \<in> set es \<Longrightarrow> epic_milestone es (Some (ep_id e)) = effective_milestone e"
proof -
  assume k: "keyed ep_id es" and e: "e \<in> set es"
  have same: "q = e" if "q \<in> set es" "ep_id q = ep_id e" for q using keyed_unique [OF k that(1) e that(2)] .
  show ?thesis
  proof (cases "find_row (live_epic (ep_id e)) es")
    case None
    then have "ep_deleted_at e \<noteq> None" using e by (auto simp: find_row_None live_epic_def)
    then show ?thesis using None by (auto simp: epic_milestone_def effective_milestone_def)
  next
    case (Some q)
    then have "q = e" "ep_deleted_at e = None" using find_row_Some [OF Some] same by (auto simp: live_epic_def)
    then show ?thesis using Some by (simp add: epic_milestone_def effective_milestone_def)
  qed
qed

lemma epic_milestone_none: "\<forall>e\<in>set es. ep_id e \<noteq> i \<Longrightarrow> epic_milestone es (Some i) = None"
proof -
  assume "\<forall>e\<in>set es. ep_id e \<noteq> i"
  then have "find_row (live_epic i) es = None" by (auto simp: find_row_None live_epic_def)
  then show ?thesis by (simp add: epic_milestone_def)
qed

text \<open>After the cascades an issue has the milestone of its epic, or its epic is none of those that moved.\<close>

lemma cascades_mirror:
  assumes "keyed ep_id es" and "\<forall>e\<in>set moved. g e \<in> set es" and "epics u = es"
    and "r \<in> set (issues (fold (\<lambda>e. epic_milestone_cascade (g e)) moved u))"
  shows "(\<exists>q\<in>set (issues u). is_epic_id q = is_epic_id r) \<and>
    (is_milestone_id r = epic_milestone es (is_epic_id r) \<or>
     r \<in> set (issues u) \<and> (\<forall>e\<in>set moved. is_epic_id r \<noteq> Some (ep_id (g e))))"
  using assms
proof (induction moved arbitrary: u)
  case (Cons e moved)
  let ?v = "epic_milestone_cascade (g e) u"
  have "g e \<in> set es" using Cons.prems(2) by simp
  then have eff: "epic_milestone es (Some (ep_id (g e))) = effective_milestone (g e)"
    by (rule epic_milestone_of [OF Cons.prems(1)])
  have step: "(\<exists>p\<in>set (issues u). is_epic_id p = is_epic_id q) \<and>
      (is_milestone_id q = epic_milestone es (is_epic_id q) \<or> q \<in> set (issues u) \<and> is_epic_id q \<noteq> Some (ep_id (g e)))"
    if "q \<in> set (issues ?v)" for q
  proof -
    obtain p where p: "p \<in> set (issues u)" and q: "q = (if is_epic_id p = Some (ep_id (g e)) \<and> is_milestone_id p \<noteq> effective_milestone (g e)
        then issue_milestone_from_epic u (p\<lparr>is_milestone_id := effective_milestone (g e), is_modified_at := db_now u\<rparr>) else p)"
      using \<open>q \<in> _\<close> by (auto simp: epic_milestone_cascade_def in_update_issues)
    then have "is_epic_id q = is_epic_id p" by simp
    moreover have "is_milestone_id q = epic_milestone es (is_epic_id q) \<or> q = p \<and> is_epic_id p \<noteq> Some (ep_id (g e))"
      using q eff Cons.prems(3) by (cases "is_epic_id p = Some (ep_id (g e))") (simp_all split: if_splits)
    ultimately show ?thesis using p by metis
  qed
  have "(\<exists>q\<in>set (issues ?v). is_epic_id q = is_epic_id r) \<and>
    (is_milestone_id r = epic_milestone es (is_epic_id r) \<or>
     r \<in> set (issues ?v) \<and> (\<forall>e\<in>set moved. is_epic_id r \<noteq> Some (ep_id (g e))))"
    using Cons.prems by (intro Cons.IH) simp_all
  then show ?case using step by (metis set_ConsD)
qed auto

lemma follow_epics:
  assumes kept: "\<And>e. epic_kept e (f e)" and ok: "milestones_follow s"
  shows "milestones_follow (update_epics P f s)"
proof -
  define g where "g = (\<lambda>e. (f e)\<lparr>ep_modified_at := db_now s\<rparr>)"
  define es where "es = update_where P g (epics s)"
  define moved where "moved = filter (\<lambda>e. P e \<and> epic_moved e (g e)) (epics s)"
  let ?t = "update_epics P f s"
  have t: "?t = fold (\<lambda>e. epic_milestone_cascade (g e)) moved (s\<lparr>epics := es\<rparr>)"
    by (simp add: update_epics_def g_def es_def moved_def Let_def)
  have gid: "ep_id (g e) = ep_id e" for e using kept [of e] by (simp add: g_def epic_kept_def)
  have key: "keyed ep_id (epics s)" using ok by (simp add: milestones_follow_def)
  then have keys: "keyed ep_id es" unfolding es_def by (rule keyed_update_where) (simp add: gid)
  have es: "set es = (\<lambda>e. if P e then g e else e) ` set (epics s)" by (simp add: es_def update_where_def)
  have "map ep_id es = map ep_id (epics s)" unfolding es_def by (rule map_update_where) (simp add: gid)
  then have ids: "ep_id ` set es = ep_id ` set (epics s)" by (metis list.set_map)
  have still: "epic_milestone es x = epic_milestone (epics s) x" if "\<forall>e\<in>set moved. x \<noteq> Some (ep_id (g e))" for x
  proof (cases x)
    case (Some i)
    show ?thesis
    proof (cases "i \<in> ep_id ` set (epics s)")
      case True
      then obtain e where e: "e \<in> set (epics s)" "ep_id e = i" by blast
      let ?e = "if P e then g e else e"
      have "?e \<in> set es" using e by (simp add: es)
      moreover have "ep_id ?e = i" using e gid by simp
      ultimately have "epic_milestone es (Some i) = effective_milestone ?e" using epic_milestone_of [OF keys] by metis
      moreover have "epic_milestone (epics s) (Some i) = effective_milestone e" using epic_milestone_of [OF key e(1)] e(2) by simp
      moreover have "effective_milestone ?e = effective_milestone e"
      proof (cases "P e")
        case True
        have "e \<notin> set moved" using that Some e(2) gid by auto
        then have "\<not> epic_moved e (g e)" using True e(1) by (simp add: moved_def)
        then show ?thesis by (auto simp: epic_moved_def effective_milestone_def)
      qed simp
      ultimately show ?thesis using Some by simp
    next
      case False
      then have "epic_milestone es (Some i) = None" using ids by (intro epic_milestone_none) blast
      moreover have "epic_milestone (epics s) (Some i) = None" using False by (intro epic_milestone_none) blast
      ultimately show ?thesis using Some by simp
    qed
  qed (simp add: epic_milestone_def)
  have "(\<exists>q\<in>set (issues s). is_epic_id q = is_epic_id r) \<and> is_milestone_id r = epic_milestone es (is_epic_id r)"
    if "r \<in> set (issues ?t)" for r
  proof -
    have "(\<exists>q\<in>set (issues (s\<lparr>epics := es\<rparr>)). is_epic_id q = is_epic_id r) \<and>
      (is_milestone_id r = epic_milestone es (is_epic_id r) \<or>
       r \<in> set (issues (s\<lparr>epics := es\<rparr>)) \<and> (\<forall>e\<in>set moved. is_epic_id r \<noteq> Some (ep_id (g e))))"
      using that unfolding t by (intro cascades_mirror keys) (auto simp: moved_def es)
    then show ?thesis using still ok unfolding milestones_follow_def by auto
  qed
  moreover have "epics ?t = es" by (simp add: es_def g_def)
  moreover have "\<forall>e\<in>set es. ep_id e < next_id s" using ok ids unfolding milestones_follow_def by (metis imageE imageI)
  ultimately show ?thesis using ok keys unfolding milestones_follow_def by (metis update_epics_fields(3))
qed

lemma follow_same:
  assumes "milestones_follow s" and "epics t = epics s" and "next_id s \<le> next_id t"
    and "\<And>q. q \<in> set (issues t) \<Longrightarrow> (\<exists>r\<in>set (issues s). is_epic_id q = is_epic_id r \<and> is_milestone_id q = is_milestone_id r) \<or>
        is_milestone_id q = epic_milestone (epics s) (is_epic_id q) \<and> (\<forall>i. is_epic_id q = Some i \<longrightarrow> i < next_id t)"
  shows "milestones_follow t"
  using assms unfolding milestones_follow_def by (metis order_less_le_trans)

lemma known_epic_below: "milestones_follow s \<Longrightarrow> known_ref (Some i) (map ep_id (epics s)) \<Longrightarrow> i < next_id s"
  by (auto simp: milestones_follow_def known_ref_def)

lemma issue_epic_below: "milestones_follow s \<Longrightarrow> r \<in> set (issues s) \<Longrightarrow> is_epic_id r = Some i \<Longrightarrow> i < next_id s"
  by (simp add: milestones_follow_def)

lemma follow_equal:
  "issues t = issues s \<Longrightarrow> epics t = epics s \<Longrightarrow> next_id s \<le> next_id t \<Longrightarrow> follow_step s t"
  unfolding follow_step_def by (rule impI, rule follow_same [of s]) (assumption | simp | blast)+

interpretation follow: backlog_evolution follow_step
proof
  show "follow_step s s" for s :: "'t tracker_scheme" by (simp add: follow_step_def)
  show "follow_step s u" if "follow_step s t" "follow_step t u" for s t u :: "'t tracker_scheme"
    using that by (simp add: follow_step_def)
  show frame: "follow_step s t" if "backlog_frame s t" for s t :: "'t tracker_scheme"
    using that by (intro follow_equal) (simp_all add: backlog_frame_def)
  show "follow_step s t" if "quiet_frame s t" for s t :: "'t tracker_scheme"
    using that by (intro frame) (simp add: quiet_frame_def)
  show "follow_step s (update_issues P f s)" if kept: "\<And>r. issue_kept s r (f r)" for s :: "'t tracker_scheme" and P f
    unfolding follow_step_def
  proof (rule impI, rule follow_same [of s])
    fix q
    assume ok: "milestones_follow s" and q: "q \<in> set (issues (update_issues P f s))"
    then obtain r where r: "r \<in> set (issues s)" and q: "q = (if P r then issue_milestone_from_epic s ((f r)\<lparr>is_modified_at := db_now s\<rparr>) else r)"
      by (auto simp: in_update_issues)
    have "i < next_id s" if "is_epic_id (f r) = Some i" for i
      using kept [of r] that known_epic_below [OF ok, of i] issue_epic_below [OF ok r, of i] by (auto simp: issue_kept_def)
    then show "(\<exists>r\<in>set (issues s). is_epic_id q = is_epic_id r \<and> is_milestone_id q = is_milestone_id r) \<or>
        is_milestone_id q = epic_milestone (epics s) (is_epic_id q) \<and> (\<forall>i. is_epic_id q = Some i \<longrightarrow> i < next_id (update_issues P f s))"
      using q r by auto
  qed simp_all
  show "follow_step s (update_epics P g s)" if "\<And>e. epic_kept e (g e)" for s :: "'t tracker_scheme" and P g
    unfolding follow_step_def using follow_epics [OF that] by blast
  have issue: "follow_step s t" if added: "issue_added p s t" for p and s t :: "'t tracker_scheme"
    unfolding follow_step_def
  proof (rule impI, rule follow_same [of s])
    show "epics t = epics s" "next_id s \<le> next_id t" using added by (simp_all add: issue_added_def)
    fix q
    assume ok: "milestones_follow s" and "q \<in> set (issues t)"
    then consider "q \<in> set (issues s)" | row where "q = issue_milestone_from_epic s row" "known_ref (is_epic_id row) (map ep_id (epics s))"
      using added by (auto simp: issue_added_def)
    then show "(\<exists>r\<in>set (issues s). is_epic_id q = is_epic_id r \<and> is_milestone_id q = is_milestone_id r) \<or>
        is_milestone_id q = epic_milestone (epics s) (is_epic_id q) \<and> (\<forall>i. is_epic_id q = Some i \<longrightarrow> i < next_id t)"
    proof cases
      case 2
      then have "i < next_id t" if "is_epic_id q = Some i" for i
        using known_epic_below [OF ok, of i] \<open>next_id s \<le> next_id t\<close> that 2 by simp
      then show ?thesis using 2 by simp
    qed blast
  qed
  show "keeps follow_step (db_create_issue p u w)" for p u w
    unfolding keeps_wp by (intro allI wp_mono [OF wp_create_issue]) (rule issue)
  have epic: "follow_step s t" if add: "epic_added p s t" for p and s t :: "'t tracker_scheme"
  proof (cases "epics t = epics s")
    case True
    then show ?thesis using add by (intro follow_equal) (simp_all add: epic_added_def)
  next
    case False
    then obtain row where row: "epics t = epics s @ [row]" "ep_id row = next_id s" "next_id t = Suc (next_id s)" "issues t = issues s"
      using add by (auto simp: epic_added_def)
    have new: "epic_milestone (epics t) (Some i) = epic_milestone (epics s) (Some i)" if "i < next_id s" for i
    proof -
      have "\<not> live_epic i row" using that row(2) by (simp add: live_epic_def)
      then have "find_row (live_epic i) (es @ [row]) = find_row (live_epic i) es" for es
        by (induction es) (auto simp: find_row_def)
      then show ?thesis by (simp add: epic_milestone_def row(1))
    qed
    show ?thesis
      unfolding follow_step_def
    proof
      assume ok: "milestones_follow s"
      have "is_milestone_id r = epic_milestone (epics t) (is_epic_id r) \<and> (\<forall>i. is_epic_id r = Some i \<longrightarrow> i < next_id t)"
        if "r \<in> set (issues s)" for r
        using ok that new row(3) unfolding milestones_follow_def by (cases "is_epic_id r") (auto simp: epic_milestone_def)
      moreover have "keyed ep_id (epics t)" "\<forall>e\<in>set (epics t). ep_id e < next_id t"
        using ok row unfolding milestones_follow_def by (auto simp: keyed_snoc)
      ultimately show "milestones_follow t" by (simp add: milestones_follow_def row(4))
    qed
  qed
  show "keeps follow_step (db_create_epic p u new)" for p u new
    unfolding keeps_wp by (intro allI wp_mono [OF wp_create_epic]) (rule epic)
  show "follow_step s (drop_issues ids s)" for s :: "'t tracker_scheme" and ids
    unfolding follow_step_def
  proof (rule impI, rule follow_same [of s])
    fix q
    assume ok: "milestones_follow s" and "q \<in> set (issues (drop_issues ids s))"
    then obtain r where "r \<in> set (issues s)" "is_epic_id q = is_epic_id r"
        "is_milestone_id q = is_milestone_id r \<or> is_milestone_id q = epic_milestone (epics s) (is_epic_id r)"
      by (auto dest!: dropped_issues)
    then show "(\<exists>r\<in>set (issues s). is_epic_id q = is_epic_id r \<and> is_milestone_id q = is_milestone_id r) \<or>
        is_milestone_id q = epic_milestone (epics s) (is_epic_id q) \<and> (\<forall>i. is_epic_id q = Some i \<longrightarrow> i < next_id (drop_issues ids s))"
      using ok unfolding milestones_follow_def by (metis dropped_fields(2))
  qed simp_all
  show "follow_step s (drop_epics ids s)" for s :: "'t tracker_scheme" and ids
    unfolding follow_step_def
  proof
    assume ok: "milestones_follow s"
    let ?es = "delete_where (\<lambda>e. ep_id e \<in> set ids) (epics s)"
    have find: "find_row (live_epic i) (filter (\<lambda>e. ep_id e \<notin> set ids) es) = find_row (live_epic i) es" if "i \<notin> set ids" for i es
      using that by (induction es) (auto simp: find_row_def live_epic_def)
    have kept: "epic_milestone ?es x = epic_milestone (epics s) x" if "\<forall>i\<in>set ids. x \<noteq> Some i" for x
      using that find by (cases x) (auto simp: epic_milestone_def delete_where_def)
    have "is_milestone_id q = epic_milestone ?es (is_epic_id q) \<and> (\<forall>i. is_epic_id q = Some i \<longrightarrow> i < next_id s)"
      if mem: "q \<in> set (issues (drop_epics ids s))" for q
    proof -
      obtain r where "r \<in> set (issues (s\<lparr>epics := ?es\<rparr>))" and q: "q = (if \<exists>i\<in>set ids. is_epic_id r = Some i
          then issue_milestone_from_epic (s\<lparr>epics := ?es\<rparr>) ((r\<lparr>is_epic_id := None\<rparr>)\<lparr>is_modified_at := db_now (s\<lparr>epics := ?es\<rparr>)\<rparr>) else r)"
        using mem unfolding drop_epics_def in_update_issues by blast
      then have r: "r \<in> set (issues s)" by simp
      show ?thesis
      proof (cases "\<exists>i\<in>set ids. is_epic_id r = Some i")
        case True
        then show ?thesis using q by simp
      next
        case False
        then show ?thesis using q r ok kept [of "is_epic_id r"] by (auto simp: milestones_follow_def)
      qed
    qed
    moreover have "keyed ep_id ?es" using ok by (simp add: milestones_follow_def keyed_delete_where)
    moreover have "\<forall>e\<in>set ?es. ep_id e < next_id s" using ok by (simp add: milestones_follow_def set_delete_where)
    ultimately show "milestones_follow (drop_epics ids s)" by (simp add: milestones_follow_def)
  qed
qed

end
