(* ===== verification/Backlog_Demo.thy ===== *)
theory Backlog_Demo
  imports Backlog_Correct
begin

text \<open>A concrete backlog: project 5 with an epic in a milestone, three issues and a comment.\<close>

definition demo_issue :: "nat \<Rightarrow> int \<Rightarrow> f64 \<Rightarrow> nat option \<Rightarrow> issue_row" where
  "demo_issue i n rank epic =
     \<lparr>is_id = i, is_project_id = 5, is_ref = n, is_subject = [i], is_description = [], is_status_id = None,
      is_type_id = None, is_priority_id = None, is_size_id = None, is_epic_id = epic, is_parent_id = None,
      is_milestone_id = (if epic = None then None else Some 40), is_owner_id = Some 7, is_assigned_to = None,
      is_qa_assignee_id = None, is_reviewer_id = None, is_category = None, is_start_date = None, is_due_date = None,
      is_resolution = None, is_resolved_at = None, is_release_version_id = None, is_release_text = None, is_order = rank,
      is_version = 1, is_created_at = 0, is_modified_at = 0, is_deleted_at = None, is_grace_until = None\<rparr>"

definition demo_epic :: epic_row where
  "demo_epic =
     \<lparr>ep_id = 50, ep_project_id = 5, ep_ref = 1, ep_subject = [], ep_description = [], ep_status_id = None, ep_color = [],
      ep_owner_id = Some 7, ep_assigned_to = None, ep_milestone_id = Some 40, ep_start_date = None, ep_end_date = None,
      ep_cover_image = None, ep_cover_updated_at = None, ep_order = 1, ep_version = 1, ep_created_at = 0,
      ep_modified_at = 0, ep_deleted_at = None, ep_grace_until = None\<rparr>"

definition demo_milestone :: milestone_row where
  "demo_milestone =
     \<lparr>ms_id = 40, ms_project_id = 5, ms_name = [], ms_slug = [], ms_description = [], ms_start_date = None,
      ms_actual_start_date = None, ms_end_date = Some 700, ms_actual_end_date = None, ms_business_release_date = Some 800,
      ms_closed = False, ms_closed_at = None, ms_order = 1, ms_version = 1, ms_created_at = 0, ms_modified_at = 0,
      ms_deleted_at = None\<rparr>"

definition demo_comment :: comment_row where
  "demo_comment =
     \<lparr>cm_id = 70, cm_project_id = 5, cm_target_type = lit ''issue'', cm_target_id = 60, cm_author_id = Some 7,
      cm_body = [97], cm_body_html = [97], cm_edited_at = None, cm_created_at = 900, cm_deleted_at = None\<rparr>"

definition demo_tracker :: tracker where
  "demo_tracker = store.extend demo_store
     (tracker.fields [(5, 3, 1)] [demo_epic] [demo_issue 60 1 1 (Some 50), demo_issue 61 2 2 None, demo_issue 62 3 3 None]
        [demo_milestone] [] [] [] [] [] [] [] [] [] [] [] [] [demo_comment] [] [] [] [] [])"

lemma demo_tracker_fields [simp]:
  "ref_counters demo_tracker = [(5, 3, 1)]" "epics demo_tracker = [demo_epic]"
  "issues demo_tracker = [demo_issue 60 1 1 (Some 50), demo_issue 61 2 2 None, demo_issue 62 3 3 None]"
  "milestones demo_tracker = [demo_milestone]" "label_rows demo_tracker = []" "component_rows demo_tracker = []"
  "issue_labels demo_tracker = []" "issue_components demo_tracker = []" "issue_customers demo_tracker = []"
  "issue_watchers demo_tracker = []" "issue_versions demo_tracker = []" "comment_rows demo_tracker = [demo_comment]"
  "history_log demo_tracker = []" "idem_rows demo_tracker = []" "published demo_tracker = []"
  "faults demo_tracker = (\<lambda>_. False)" "calls demo_tracker = 0" "next_id demo_tracker = 100"
  "app_now demo_tracker = 1000" "db_now demo_tracker = 1000" "healthy demo_tracker"
  "users demo_tracker = [demo_user 7, demo_user 8]" "taxonomy demo_tracker = []" "members demo_tracker = members demo_store"
  "roles demo_tracker = roles demo_store" "projects demo_tracker = [project_row_of 5 Private]"
  by (simp_all add: demo_tracker_def store.extend_def tracker.fields_def demo_store_def node.extend_def demo_node_def
      world.extend_def demo_world_def empty_world_def healthy_def)

lemma demo_issue_fields [simp]:
  "is_id (demo_issue i n r e) = i" "is_project_id (demo_issue i n r e) = 5" "is_ref (demo_issue i n r e) = n"
  "is_epic_id (demo_issue i n r e) = e" "is_milestone_id (demo_issue i n r e) = (if e = None then None else Some 40)"
  "is_order (demo_issue i n r e) = r" "is_version (demo_issue i n r e) = 1" "is_deleted_at (demo_issue i n r e) = None"
  "is_parent_id (demo_issue i n r e) = None" "is_release_version_id (demo_issue i n r e) = None"
  "is_category (demo_issue i n r e) = None" "is_resolution (demo_issue i n r e) = None"
  "is_release_text (demo_issue i n r e) = None" "is_status_id (demo_issue i n r e) = None"
  "is_type_id (demo_issue i n r e) = None" "is_priority_id (demo_issue i n r e) = None"
  "is_size_id (demo_issue i n r e) = None" "is_assigned_to (demo_issue i n r e) = None"
  "is_qa_assignee_id (demo_issue i n r e) = None" "is_reviewer_id (demo_issue i n r e) = None"
  "is_owner_id (demo_issue i n r e) = Some 7"
  by (simp_all add: demo_issue_def)

lemma demo_epic_fields [simp]:
  "ep_id demo_epic = 50" "ep_project_id demo_epic = 5" "ep_milestone_id demo_epic = Some 40" "ep_deleted_at demo_epic = None"
  by (simp_all add: demo_epic_def)

lemma demo_ctx_fields [simp]:
  "pr_id (cx_project demo_ctx) = 5" "cx_actor_id demo_ctx = 7" "ctx_has demo_ctx perm"
  by (simp_all add: demo_ctx_def row_to_project_def project_row_of_def ctx_has_def access_has_def)

lemma demo_uuids [simp]: "e_uuid_str demo_env u = [u]" "e_uuid_parse demo_env t = Some (hd t)"
  by (simp_all add: demo_env_def)

lemma demo_backlog: "milestones_follow demo_tracker" "refs_ok demo_tracker"
  by (simp_all add: milestones_follow_def refs_ok_def keyed_def epic_milestone_def find_row_def live_epic_def counters_def)

definition demo_patch :: UpdateIssueRequest where
  "demo_patch =
     \<lparr>ui_subject = Some (lit ''new''), ui_description = None, ui_status_id = None, ui_type_id = None, ui_priority_id = None,
      ui_size_id = None, ui_epic_id = None, ui_parent_id = None, ui_milestone_id = None, ui_assigned_to = None,
      ui_qa_assignee_id = None, ui_reviewer_id = None, ui_category = None, ui_customer_ids = None, ui_start_date = None,
      ui_due_date = None, ui_resolution = None, ui_release_version_id = None, ui_release_text = None, ui_labels = None,
      ui_components = None, ui_component_versions = None\<rparr>"

definition demo_tag :: HeaderMap where
  "demo_tag = [(lit ''if-match'', [34, 60, 58, 49, 34])]"

lemma demo_tag_matches:
  "header_str demo_tag (lit ''if-match'') = Some [34, 60, 58, 49, 34]" "check_if_match demo_tag (etag demo_env 60 1) = Inr ()"
  "trim [34, 60, 58, 49, 34] \<noteq> lit ''*''"
proof -
  show tag: "header_str demo_tag (lit ''if-match'') = Some [34, 60, 58, 49, 34]"
    by (simp add: demo_tag_def header_str_def hv_to_str_def lit_def)
  have trimmed: "trim [34, 60, 58, 49, 34] = [34, 60, 58, 49, 34]"
    by (simp add: trim_def trim_by_def is_white_def)
  then show "trim [34, 60, 58, 49, 34] \<noteq> lit ''*''" by (simp add: lit_def)
  have "split_on (\<lambda>c. c = 44) [34, 60, 58, 49, 34] = [[34, 60, 58, 49, 34]]" by (rule split_on_single) simp
  moreover have "etag demo_env 60 1 = [34, 60, 58, 49, 34]" by (simp add: etag_def int_str_def nat_str.simps)
  ultimately show "check_if_match demo_tag (etag demo_env 60 1) = Inr ()"
    by (simp add: check_if_match_def tag trimmed)
qed

lemmas demo_run_simps = wp_rules wp_permitted wp_present wp_passing wp_with_client wp_served wp_verifying wp_stmt Let_def
  item_id_def find_row_def row_to_issue_def unwrap_or_def

text \<open>The change of the demo patch, and what reads the issue.\<close>

lemma demo_write:
  assumes "io_row x = demo_issue 60 1 1 (Some 50)" and "io_category x = None" and "io_resolution x = None"
  shows "edited_issue demo_patch x =
    \<lparr>iw_subject = lit ''new'', iw_description = [], iw_status_id = None, iw_type_id = None, iw_priority_id = None,
     iw_size_id = None, iw_epic_id = Some 50, iw_parent_id = None, iw_milestone_id = Some 40, iw_assigned_to = None,
     iw_qa_assignee_id = None, iw_reviewer_id = None, iw_category = None, iw_start_date = None, iw_due_date = None,
     iw_resolution = None, iw_release_version_id = None, iw_release_text = None\<rparr>"
  using assms by (simp add: edited_issue_def demo_patch_def demo_issue_def unwrap_or_def or_else_def)

lemmas get_issue_defs = db_get_issue_def issue_label_ids_def issue_component_ids_def issue_component_versions_def
  issue_customer_ids_def issue_watcher_ids_def is_issue_def

lemmas demo_edit_simps = demo_run_simps update_issue_def get_issue_defs parse_patch_def guarded_edit_def demo_tag_matches
lemmas demo_validate_simps = demo_run_simps demo_patch_def validate_label_component_ids_def labels_all_in_project_def
  components_all_in_project_def reject_issue_milestone_write_def validate_issue_associations_def known_or_def validate_parent_def
  validate_issue_extras_def edited_customers_def has_text_def related_def only_if_def
lemmas demo_finish_simps = demo_run_simps record_changes_def get_full_def history_record_def get_issue_defs update_issues_def
  update_where_def issue_milestone_from_epic_def write_issue_def show_issue_def tagged_def

text \<open>Requests that create, move to another epic, delete and purge.\<close>

definition demo_requests :: "(env \<times> (ustr \<Rightarrow> ustr) \<times> HeaderMap \<times> backlog_act \<times> ProjectContext) list" where
  "demo_requests = map (\<lambda>act. (demo_env, (\<lambda>t. t), [], act, demo_ctx))
     [DeleteIssue (Some [60]), PurgeIssues, DeleteEpic (Some [50]), MoveIssue (Some [61]) (Json (None, Some 62)), PurgeEpics]"

end
