(* ===== verification/Backlog_Safety.thy ===== *)
theory Backlog_Safety
  imports Backlog_Demo
begin

text \<open>
  The guarantees of the backlog as single statements: milestones follow epics, references are never given
  twice, an update from an old version is refused, a move puts an issue where it was asked, a repeated
  creation creates nothing, and who may change a comment.
\<close>

section \<open>Requests in sequence\<close>

text \<open>
  C14: Whatever backlog requests are made, and whatever statements fail, the milestone of every issue,
  deleted ones included, is the milestone of its epic, and none if the epic is deleted.
\<close>

theorem milestone_follows_epic:
  assumes "milestones_follow s" and "r \<in> set (issues (after_requests reqs s))"
  shows "is_milestone_id r = epic_milestone (epics (after_requests reqs s)) (is_epic_id r)"
  using follow.backlog_run [of s reqs] assms by (simp add: follow_step_def milestones_follow_def)

lemma milestone_follows_epic_witness:
  "let t = after_requests demo_requests demo_tracker
   in list_all (\<lambda>r. is_milestone_id r = epic_milestone (epics t) (is_epic_id r)) (issues t)"
  using milestone_follows_epic [OF demo_backlog(1)] by (simp add: Let_def list_all_iff)

text \<open>
  C15: A reference names one issue of its project for ever: after any backlog requests, purges included, an
  issue with the reference an issue had is that issue.
\<close>

theorem references_never_reused:
  assumes "refs_ok s" and "r \<in> set (issues s)" and "q \<in> set (issues (after_requests reqs s))"
    and "is_project_id q = is_project_id r" and "is_ref q = is_ref r"
  shows "is_id q = is_id r"
proof -
  have step: "refs_step s (after_requests reqs s)" by (rule ref.backlog_run)
  have le: "is_ref r \<le> fst (counters (is_project_id r) s)" using assms(1,2) by (simp add: refs_ok_def)
  have "\<not> fst (counters (is_project_id q) s) < is_ref q" using le assms(4,5) by simp
  moreover have "\<forall>q\<in>set (issues (after_requests reqs s)). (\<exists>r\<in>set (issues s). is_id r = is_id q \<and>
      is_project_id r = is_project_id q \<and> is_ref r = is_ref q) \<or> fst (counters (is_project_id q) s) < is_ref q"
    using step by (simp add: refs_step_def)
  ultimately obtain p where p: "p \<in> set (issues s)" "is_id p = is_id q" "is_project_id p = is_project_id q" "is_ref p = is_ref q"
    using assms(3) by blast
  have key: "keyed (\<lambda>r. (is_project_id r, is_ref r)) (issues s)" using assms(1) by (simp add: refs_ok_def)
  have "p = r" by (rule keyed_unique [OF key p(1) assms(2)]) (simp add: p assms(4,5))
  then show ?thesis using p(2) by simp
qed

lemma references_never_reused_witness:
  "list_all (\<lambda>q. is_id q = 62) (filter (\<lambda>q. is_project_id q = 5 \<and> is_ref q = 3) (issues (after_requests demo_requests demo_tracker)))"
  using references_never_reused [OF demo_backlog(2), of "demo_issue 62 3 3 None" _ demo_requests] by (simp add: list_all_iff)

section \<open>Updates from an old version\<close>

lemma untouched_backlog: "untouched s t \<Longrightarrow> issues t = issues s \<and> epics t = epics s \<and> next_id t = next_id s"
  by (auto simp: untouched_def)

lemma wp_db_get_issue:
  "wp (db_get_issue p i) (\<lambda>r t. untouched s t \<and> (\<forall>x. r = Inr (Some x) \<longrightarrow> find_row (is_issue p i) (issues s) = Some (io_row x))) s"
proof -
  have "wp (db_get_issue p i) (\<lambda>_. untouched s) s"
    unfolding db_get_issue_def issue_label_ids_def issue_component_ids_def issue_component_versions_def
      issue_customer_ids_def issue_watcher_ids_def
    by (rule wp_keeps) (intro reading.reading_shapes)
  moreover have "wp (db_get_issue p i) (\<lambda>r t. \<forall>x. r = Inr (Some x) \<longrightarrow> find_row (is_issue p i) (issues s) = Some (io_row x)) s"
    unfolding db_get_issue_def issue_label_ids_def issue_component_ids_def issue_component_versions_def
      issue_customer_ids_def issue_watcher_ids_def
    by (auto simp: wp_rules row_to_issue_def split: option.split)
  ultimately show ?thesis by (rule wp_conj)
qed

lemma validate_edit_reads: "keeps untouched (validate_edit ctx i u x)"
proof -
  have customers: "keeps untouched (customers_known ctx cs)" for cs
    by (induction cs) (auto simp: customer_in_project_def intro!: reading.reading_shapes)
  show ?thesis
    unfolding validate_edit_def validate_parent_def parent_chain_contains_def Let_def validate_issue_associations_def
      validate_label_component_ids_def validate_issue_extras_def known_or_def epic_known_def issue_known_def version_known_def
      epic_in_project_def issue_in_project_def version_in_project_def labels_all_in_project_def components_all_in_project_def
      validate_component_versions_def
    by (intro reading.reading_shapes customers)
qed

lemma write_issue_fields [simp]:
  "is_id (write_issue s w r) = is_id r" "is_version (write_issue s w r) = is_version r + 1"
  "is_project_id (write_issue s w r) = is_project_id r" "is_epic_id (write_issue s w r) = iw_epic_id w"
  "is_parent_id (write_issue s w r) = iw_parent_id w" "is_deleted_at (write_issue s w r) = is_deleted_at r"
  by (simp_all add: write_issue_def)

lemma wp_db_update_issue:
  "wp (db_update_issue p i v w) (\<lambda>r t. \<forall>x. r = Inr (Changed_to x) \<longrightarrow>
     is_id (io_row x) = i \<and> (keyed is_id (issues s) \<longrightarrow> i < next_id s \<longrightarrow> at_least i (v + 1) t)) s"
proof -
  have raised: "at_least i (v + 1) (update_issues (\<lambda>r. is_issue p i r \<and> is_version r = v) (write_issue s' w) s')"
    if row: "find_row (\<lambda>r. is_issue p i r \<and> is_version r = v) (issues s') = Some r" and key: "keyed is_id (issues s')" and "i < next_id s'"
    for r and s' :: "'a tracker_scheme"
  proof -
    have r: "r \<in> set (issues s')" "is_issue p i r" "is_version r = v" using find_row_Some [OF row] by auto
    have "v + 1 \<le> is_version q"
      if q: "q \<in> set (issues (update_issues (\<lambda>r. is_issue p i r \<and> is_version r = v) (write_issue s' w) s'))" "is_id q = i" for q
    proof -
      obtain q0 where q0: "q0 \<in> set (issues s')"
          "q = (if is_issue p i q0 \<and> is_version q0 = v
            then issue_milestone_from_epic s' ((write_issue s' w q0)\<lparr>is_modified_at := db_now s'\<rparr>) else q0)"
        using q(1) by (auto simp: in_update_issues)
      have "is_id q0 = i" using q(2) q0(2) by (simp add: write_issue_def split: if_splits)
      then have "q0 = r" using keyed_unique [OF key q0(1) r(1)] r(2) by (simp add: is_issue_def)
      then show ?thesis using q0(2) r(2,3) by (simp add: write_issue_def)
    qed
    then show ?thesis using that(3) by (simp add: at_least_def)
  qed
  show ?thesis
    unfolding db_update_issue_def
  proof (simp add: wp_andThen wp_stmt wp_return Let_def classify_miss_def wp_query row_to_issue_def split: option.split, safe)
    fix r
    assume "find_row (\<lambda>r. is_issue p i r \<and> is_version r = v) (issues s) = Some r"
    then show "is_id r = i" using find_row_Some by (fastforce simp: is_issue_def)
  next
    fix r
    assume "find_row (\<lambda>r. is_issue p i r \<and> is_version r = v) (issues s) = Some r" "keyed is_id (issues s)" "i < next_id s"
    then show "at_least i (v + 1) (update_issues (\<lambda>r. is_issue p i r \<and> is_version r = v)
        (write_issue (s\<lparr>calls := Suc (calls s)\<rparr>) w) (s\<lparr>calls := Suc (calls s)\<rparr>))"
      by (intro raised) simp_all
  qed
qed

text \<open>What a successful update says of the issue before and after.\<close>

definition edited ::
    "env \<Rightarrow> HeaderMap \<Rightarrow> ustr option \<Rightarrow> 't tracker_scheme \<Rightarrow> response + 'a \<Rightarrow> 't tracker_scheme \<Rightarrow> bool" where
  "edited env h param s out t \<longleftrightarrow> (\<forall>y. out = Inr y \<longrightarrow> (\<exists>i r. item_id env param = Some i \<and>
     r \<in> set (issues s) \<and> is_id r = i \<and> check_if_match h (etag env i (is_version r)) = Inr () \<and>
     (keyed is_id (issues s) \<longrightarrow> i < next_id s \<longrightarrow> at_least i (is_version r + 1) t)))"

lemma edited_Inl [simp]: "edited env h param s (Inl e) t"
  by (simp add: edited_def)

lemma wp_apply_edit:
  fixes s :: "'t tracker_scheme"
  assumes "item_id env param = Some i" and "untouched s w" and "io_row x \<in> set (issues s)" and "is_id (io_row x) = i"
    and "check_if_match h (etag env i (is_version (io_row x))) = Inr ()"
  shows "wp (apply_edit env ctx i u x) (edited env h param s) w"
  unfolding apply_edit_def wp_served
proof (rule wp_mono [OF wp_db_update_issue])
  let ?n = "is_version (io_row x) + 1"
  fix out :: "DbError + Issue UpdateOutcome" and z :: "'t tracker_scheme"
  assume *: "\<forall>x'. out = Inr (Changed_to x') \<longrightarrow> is_id (io_row x') = i \<and>
    (keyed is_id (issues w) \<longrightarrow> i < next_id w \<longrightarrow> at_least i ?n z)"
  have "wp (finish_update env ctx u x x') (edited env h param s) z" if "out = Inr (Changed_to x')" for x'
  proof (rule wp_mono [OF wp_keeps [OF version.keeps_finish [of i ?n]]])
    fix r :: "response + nat \<times> nat list \<times> Issue" and q :: "'t tracker_scheme"
    assume "never_older i ?n z q"
    then show "edited env h param s r q"
      using * that untouched_backlog [OF assms(2)] assms unfolding edited_def never_older_def by auto
  qed
  then show "(case out of Inl _ \<Rightarrow> edited env h param s (Inl internal)
    | Inr outcome \<Rightarrow> wp (case outcome of
        Changed_to x' \<Rightarrow> finish_update env ctx u x x'
      | Missing \<Rightarrow> refuse not_found
      | Conflicting \<Rightarrow> refuse (stale None)) (edited env h param s)) z"
    by (auto simp: wp_refuse split: sum.split UpdateOutcome.split)
qed

lemma wp_guarded_edit:
  fixes s :: "'t tracker_scheme"
  assumes "item_id env param = Some i" and "untouched s w" and "io_row x \<in> set (issues s)" and "is_id (io_row x) = i"
  shows "wp (guarded_edit env ctx h i u x) (edited env h param s) w"
proof (cases "check_if_match h (etag env i (is_version (io_row x)))")
  case (Inr m)
  have "wp (verifying (validate_edit ctx i u x) (apply_edit env ctx i u x)) (edited env h param s) w"
    unfolding wp_verifying
  proof (rule wp_mono [OF wp_keeps [OF validate_edit_reads]])
    fix ok :: "response + unit" and z :: "'t tracker_scheme"
    assume "untouched w z"
    then have "untouched s z" by (rule idle.R_trans [OF assms(2)])
    then show "(case ok of Inl e \<Rightarrow> edited env h param s (Inl e) | Inr _ \<Rightarrow> wp (apply_edit env ctx i u x) (edited env h param s)) z"
      using Inr assms wp_apply_edit [of env param i s z x h ctx u] by (simp split: sum.split)
  qed
  then show ?thesis using Inr assms(4) by (simp add: guarded_edit_def wp_passing)
qed (use assms(4) in \<open>simp add: guarded_edit_def wp_passing\<close>)

lemma wp_update_issue: "wp (update_issue env ctx h param body) (edited env h param s) s" for s :: "'t tracker_scheme"
proof -
  have work: "wp (do { found \<leftarrow> db_get_issue (pr_id (cx_project ctx)) i; present (ok_or found None) (guarded_edit env ctx h i u) })
      (edited env h param s) v"
    if i: "item_id env param = Some i" and v: "untouched s v" for i u v
    unfolding wp_bind
  proof (rule wp_mono [OF wp_db_get_issue])
    fix found :: "DbError + Issue option" and t :: "'t tracker_scheme"
    assume found: "untouched v t \<and> (\<forall>x. found = Inr (Some x) \<longrightarrow> find_row (is_issue (pr_id (cx_project ctx)) i) (issues v) = Some (io_row x))"
    have "wp (guarded_edit env ctx h i u x) (edited env h param s) t" if "ok_or found None = Some x" for x
    proof (rule wp_guarded_edit [OF i])
      have "found = Inr (Some x)" using that by (cases found) simp_all
      then have "find_row (is_issue (pr_id (cx_project ctx)) i) (issues s) = Some (io_row x)"
        using found untouched_backlog [OF v] by simp
      then show "io_row x \<in> set (issues s)" "is_id (io_row x) = i" using find_row_Some by (fastforce simp: is_issue_def)+
      show "untouched s t" using idle.R_trans [OF v] found by blast
    qed
    then show "wp (present (ok_or found None) (guarded_edit env ctx h i u)) (edited env h param s) t"
      by (simp add: wp_present split: option.split)
  qed
  show ?thesis
    unfolding update_issue_def
    by (auto simp: wp_permitted wp_present wp_passing wp_with_client intro!: work split: option.split sum.split)
qed

text \<open>Two versions have different tags.\<close>

lemma int_str_inj: "int_str v = int_str w \<Longrightarrow> v = w"
proof -
  assume eq: "int_str v = int_str w"
  have sign: "nat_str n \<noteq> 45 # cs" for n cs
    using nat_str_digits [of 45 n] by (auto simp: is_ascii_digit_def)
  show ?thesis
    using eq sign [of "nat v"] sign [of "nat w"] sign [of "nat v", symmetric] nat_str_inj [of "nat (- v)" "nat (- w)"] nat_str_inj [of "nat v" "nat w"]
    by (auto simp: int_str_def split: if_splits) metis+
qed

lemma single_tag:
  assumes "check_if_match h (etag env i v) = Inr ()" and "header_str h (lit ''if-match'') = Some tag"
    and "44 \<notin> set tag" and "trim tag \<noteq> lit ''*''"
  shows "strip_weak (trim tag) = etag env i v"
proof -
  have "strip_weak (etag env i v) = etag env i v"
    by (simp add: strip_weak_def strip_prefix_def starts_with_def etag_def lit_def unwrap_or_def)
  moreover have "split_on (\<lambda>c. c = 44) tag = [tag]" using assms(3) by (intro split_on_single) auto
  ultimately show ?thesis using assms by (simp add: check_if_match_def split: if_splits)
qed

text \<open>
  C13: No update is lost. Once an update of an issue with a tag has succeeded, an update of it with the same
  tag is refused, by whoever, with whatever change, and whatever requests lie between.
\<close>

theorem stale_update_refused:
  assumes "run_state (update_issue env ctx h param body) s = (Inr x, t)" and "refs_ok s"
    and "header_str h (lit ''if-match'') = Some tag" and "header_str h' (lit ''if-match'') = Some tag"
    and "44 \<notin> set tag" and "trim tag \<noteq> lit ''*''"
  shows "fst (run_state (update_issue env ctx' h' param body') (after_requests reqs t)) \<noteq> Inr y"
proof
  let ?u = "after_requests reqs t"
  assume second: "fst (run_state (update_issue env ctx' h' param body') ?u) = Inr y"
  have "edited env h param s (Inr x) t" using wpI [OF assms(1) wp_update_issue] .
  then obtain i r where i: "item_id env param = Some i" and r: "r \<in> set (issues s)" "is_id r = i"
      "check_if_match h (etag env i (is_version r)) = Inr ()"
      "keyed is_id (issues s) \<longrightarrow> i < next_id s \<longrightarrow> at_least i (is_version r + 1) t"
    unfolding edited_def by blast
  have "at_least i (is_version r + 1) t" using r assms(2) by (auto simp: refs_ok_def)
  then have newer: "at_least i (is_version r + 1) ?u"
    using version.backlog_run [of i "is_version r + 1" t reqs] by (simp add: never_older_def)
  obtain v where "run_state (update_issue env ctx' h' param body') ?u = (Inr y, v)"
    using second by (cases "run_state (update_issue env ctx' h' param body') ?u") simp
  then have "edited env h' param ?u (Inr y) v" using wpI [OF _ wp_update_issue] by blast
  then obtain q where q: "q \<in> set (issues ?u)" "is_id q = i" "check_if_match h' (etag env i (is_version q)) = Inr ()"
    using i unfolding edited_def by (metis option.inject)
  have "etag env i (is_version r) = etag env i (is_version q)"
    using single_tag [OF r(3) assms(3,5,6)] single_tag [OF q(3) assms(4-6)] by simp
  then have "is_version r = is_version q" by (auto simp: etag_def dest: int_str_inj)
  then show False using newer q by (auto simp: at_least_def)
qed

lemma demo_edit: "\<exists>x t. run_state (update_issue demo_env demo_ctx demo_tag (Some [60]) (Json demo_patch)) demo_tracker = (Inr x, t)"
proof -
  have "wp (update_issue demo_env demo_ctx demo_tag (Some [60]) (Json demo_patch)) (\<lambda>r t. \<exists>x. r = Inr x) demo_tracker"
    by (simp add: demo_edit_simps,
      simp add: demo_run_simps validate_edit_def demo_write,
      simp add: demo_validate_simps, fold demo_patch_def,
      simp add: apply_edit_def demo_write db_update_issue_def demo_run_simps is_issue_def,
      simp add: issue_refs_ok_def known_ref_def write_issue_def demo_user_def default_user_def,
      simp add: finish_update_def replace_relations_def whenever_def demo_patch_def demo_run_simps, fold demo_patch_def,
      simp add: demo_finish_simps)
  then show ?thesis by (cases "run_state (update_issue demo_env demo_ctx demo_tag (Some [60]) (Json demo_patch)) demo_tracker") (simp add: wp_def)
qed

lemma stale_update_refused_witness:
  "\<exists>x t. run_state (update_issue demo_env demo_ctx demo_tag (Some [60]) (Json demo_patch)) demo_tracker = (Inr x, t) \<and>
     \<not> (\<exists>y. fst (run_state (update_issue demo_env demo_ctx demo_tag (Some [60]) (Json demo_patch)) (after_requests demo_requests t)) = Inr y)"
proof -
  obtain x t where run: "run_state (update_issue demo_env demo_ctx demo_tag (Some [60]) (Json demo_patch)) demo_tracker = (Inr x, t)"
    using demo_edit by blast
  show ?thesis
    using run stale_update_refused [OF run demo_backlog(2) demo_tag_matches(1) demo_tag_matches(1) _ demo_tag_matches(3)] by fastforce
qed

section \<open>Moving\<close>

lemma insort_key_map: "insort_key g (f x) (map f xs) = map f (insort_key (\<lambda>x. g (f x)) x xs)"
  by (induction xs) auto

lemma sort_key_map: "sort_key g (map f xs) = map f (sort_key (\<lambda>x. g (f x)) xs)"
  by (induction xs) (auto simp: insort_key_map)

lemma rank_in_sorted: "distinct (map fst items) \<Longrightarrow> rank_in (sort_key snd items) x = rank_in items x"
proof -
  assume d: "distinct (map fst items)"
  then have "map_of (sort_key snd items) = map_of items" by (subst map_of_inject_set) (simp_all add: distinct_map)
  then show ?thesis by (simp add: rank_in_def)
qed

text \<open>A rank table of the backlog: the count of database calls is no part of it.\<close>

locale backlog_ranks = rank_table ranks put_rank
  for ranks :: "'t tracker_scheme \<Rightarrow> (nat \<times> f64) list" and put_rank +
  assumes ranks_calls: "ranks (s\<lparr>calls := n\<rparr>) = ranks s"
begin

lemma wp_reorder:
  assumes "ranks_ok (ranks s)" and "length (ranks s) < 2 ^ 53"
    and "k \<le> length others" and "others = filter (\<lambda>x. x \<noteq> i) (by_rank (ranks s))" and "(b, a) = neighbours others k"
  shows "wp (reorder hit put_rank i b a (sort_key snd (ranks s)))
    (\<lambda>out t. \<forall>y. out = Inr y \<longrightarrow> by_rank (ranks t) = take k others @ i # drop k others) s"
proof (cases "i \<in> fst ` set (ranks s)")
  case True
  let ?items = "sort_key snd (ranks s)"
  let ?s = "s\<lparr>calls := Suc (calls s)\<rparr>"
  have d: "distinct (map fst (ranks s))" using assms(1) by (simp add: ranks_ok_def)
  note eq = rank_in_sorted [OF d]
  note moved = moved_to_target [of ?s i k others b a, unfolded ranks_calls, OF assms(1) True assms(2-5)]
  show ?thesis
  proof (cases "rank_between (rank_in (ranks s) b) (rank_in (ranks s) a)")
    case (Some r)
    then show ?thesis using moved [of "put_rank i r ?s"] True
      by (simp add: reorder_def set_order_def removed_def wp_served wp_execute wp_answer wp_refuse eq)
  next
    case None
    then show ?thesis using moved [of "put_ranks put_rank (target_order (map fst ?items) i b a) ?s"] True
      by (simp add: reorder_def set_order_def removed_def wp_served wp_execute wp_answer wp_refuse eq put_ranks_def by_rank_def Let_def)
  qed
next
  case False
  then show ?thesis by (simp add: reorder_def wp_refuse)
qed

end

definition issue_ranks :: "pid \<Rightarrow> 't tracker_scheme \<Rightarrow> (nat \<times> f64) list" where
  "issue_ranks p s = map (\<lambda>r. (is_id r, is_order r)) (filter (\<lambda>r. is_project_id r = p \<and> is_deleted_at r = None) (issues s))"

definition epic_ranks :: "pid \<Rightarrow> 't tracker_scheme \<Rightarrow> (nat \<times> f64) list" where
  "epic_ranks p s = map (\<lambda>e. (ep_id e, ep_order e)) (filter (\<lambda>e. ep_project_id e = p \<and> ep_deleted_at e = None) (epics s))"

definition item_ranks :: "pid \<Rightarrow> TaxonomyKind \<Rightarrow> 't tracker_scheme \<Rightarrow> (nat \<times> f64) list" where
  "item_ranks p kind s = map (\<lambda>r. (x_id r, x_order r)) (filter (in_kind p kind) (taxonomy s))"

lemma ranks_update:
  assumes "\<And>x. P (g x) = P x" and "\<And>x. P x \<Longrightarrow> key (g x) = (case key x of (j, q) \<Rightarrow> (j, if j = i then r else q))"
  shows "map key (filter P (map g xs)) = set_rank i r (map key (filter P xs))"
  using assms by (induction xs) (auto simp: set_rank_def)

interpretation issue_order: backlog_ranks "issue_ranks p" "put_issue_rank p" for p
proof
  show "issue_ranks p (put_issue_rank p i r s) = set_rank i r (issue_ranks p s)" for i r and s :: "'t tracker_scheme"
    unfolding issue_ranks_def put_issue_rank_def update_issues_def update_where_def
    by simp (rule ranks_update; auto)
  show "issue_ranks p (s\<lparr>calls := n\<rparr>) = issue_ranks p s" for n and s :: "'t tracker_scheme"
    by (simp add: issue_ranks_def)
qed

interpretation epic_order: backlog_ranks "epic_ranks p" "put_epic_rank p" for p
proof
  show "epic_ranks p (put_epic_rank p i r s) = set_rank i r (epic_ranks p s)" for i r and s :: "'t tracker_scheme"
    unfolding epic_ranks_def put_epic_rank_def update_epics_fields update_where_def
    by (rule ranks_update) auto
  show "epic_ranks p (s\<lparr>calls := n\<rparr>) = epic_ranks p s" for n and s :: "'t tracker_scheme"
    by (simp add: epic_ranks_def)
qed

interpretation item_order: backlog_ranks "item_ranks p kind" "put_item_rank p kind" for p kind
proof
  show "item_ranks p kind (put_item_rank p kind i r s) = set_rank i r (item_ranks p kind s)" for i r and s :: "'t tracker_scheme"
    unfolding item_ranks_def put_item_rank_def update_where_def
    by simp (rule ranks_update; auto simp: is_item_def in_kind_def)
  show "item_ranks p kind (s\<lparr>calls := n\<rparr>) = item_ranks p kind s" for n and s :: "'t tracker_scheme"
    by (simp add: item_ranks_def)
qed

lemma wp_db_list_issues:
  "wp (db_list_issues p) (\<lambda>r t. untouched s t \<and> (\<forall>xs. r = Inr xs \<longrightarrow>
     map (\<lambda>x. (is_id (io_row x), is_order (io_row x))) xs = sort_key snd (issue_ranks p s))) s"
proof -
  let ?rows = "sort_key is_order (filter (\<lambda>r. is_project_id r = p \<and> is_deleted_at r = None) (issues s))"
  have ranks: "sort_key snd (issue_ranks p s) = map (\<lambda>r. (is_id r, is_order r)) ?rows"
    by (simp add: issue_ranks_def sort_key_map)
  have "wp (db_list_issues p) (\<lambda>_. untouched s) s"
    unfolding db_list_issues_def issues_where_def hydrate_issue_relations_def
    by (rule wp_keeps) (intro reading.reading_shapes)
  moreover have "wp (db_list_issues p) (\<lambda>r t. \<forall>xs. r = Inr xs \<longrightarrow> map (\<lambda>x. (is_id (io_row x), is_order (io_row x))) xs = map (\<lambda>r. (is_id r, is_order r)) ?rows) s"
    unfolding db_list_issues_def issues_where_def hydrate_issue_relations_def
    by (auto simp: wp_rules row_to_issue_def Let_def)
  ultimately show ?thesis unfolding ranks by (rule wp_conj)
qed

definition landed :: "pid \<Rightarrow> nat list \<Rightarrow> response + nat \<times> unit \<Rightarrow> 't tracker_scheme \<Rightarrow> bool" where
  "landed p target out t \<longleftrightarrow> (\<forall>y. out = Inr y \<longrightarrow> by_rank (issue_ranks p t) = target)"

lemma landed_Inl [simp]: "landed p target (Inl e) t"
  by (simp add: landed_def)

text \<open>After the move only the event is added.\<close>

lemma wp_landed_after:
  fixes z :: "'t tracker_scheme"
  assumes "landed p target out z"
  shows "wp (case out of
       Inl e \<Rightarrow> refuse e
     | Inr _ \<Rightarrow> do {
         fresh \<leftarrow> db_get_issue q i;
         _ \<leftarrow> (case ok_or fresh None of
             None \<Rightarrow> State_Monad.return ()
           | Some x \<Rightarrow> publish (is_project_id (io_row x)) (IssueEvent kind actor x));
         State_Monad.return out
       }) (landed p target) z"
proof (cases out)
  case (Inr v)
  have "landed p target out w" if "untouched z w" for w
    using assms untouched_backlog [OF that] by (simp add: landed_def issue_ranks_def)
  moreover have "landed p target out (w\<lparr>published := ps\<rparr>)" if "landed p target out w" for w :: "'t tracker_scheme" and ps
    using that by (simp add: landed_def issue_ranks_def)
  ultimately show ?thesis
    unfolding Inr sum.case wp_bind
    by (intro wp_mono [OF wp_db_get_issue]) (auto simp: Inr wp_rules split: option.split)
qed (simp add: wp_refuse)

lemma wp_move_issue:
  fixes s :: "'t tracker_scheme"
  assumes "item_id env param = Some i" and "p = pr_id (cx_project ctx)"
    and "ranks_ok (issue_ranks p s)" and "length (issue_ranks p s) < 2 ^ 53"
    and "others = filter (\<lambda>x. x \<noteq> i) (by_rank (issue_ranks p s))" and "k \<le> length others"
    and "(before, behind) = neighbours others k"
  shows "wp (move_issue env ctx param (Json (before, behind))) (landed p (take k others @ i # drop k others)) s"
proof -
  let ?Q = "landed p (take k others @ i # drop k others)"
  have work: "wp (served (db_list_issues p) (\<lambda>items. State_Monad.bind (reorder hit (put_issue_rank p) i before behind
      (map (\<lambda>x. (is_id (io_row x), is_order (io_row x))) items)) rest)) ?Q v"
    if v: "untouched s v" and rest: "\<And>out z. ?Q out z \<Longrightarrow> wp (rest out) ?Q z" for v hit rest
    unfolding wp_served
  proof (rule wp_mono [OF wp_db_list_issues])
    fix r :: "DbError + Issue list" and w :: "'t tracker_scheme"
    assume w: "untouched v w \<and> (\<forall>xs. r = Inr xs \<longrightarrow> map (\<lambda>x. (is_id (io_row x), is_order (io_row x))) xs = sort_key snd (issue_ranks p v))"
    then have same: "issue_ranks p w = issue_ranks p s" "issue_ranks p v = issue_ranks p s"
      using untouched_backlog [OF v] untouched_backlog [of v w] by (simp_all add: issue_ranks_def)
    have "wp (reorder hit (put_issue_rank p) i before behind (sort_key snd (issue_ranks p w)))
        (\<lambda>out t. \<forall>y. out = Inr y \<longrightarrow> by_rank (issue_ranks p t) = take k others @ i # drop k others) w"
      using assms same by (intro issue_order.wp_reorder) simp_all
    then have "wp (State_Monad.bind (reorder hit (put_issue_rank p) i before behind (sort_key snd (issue_ranks p s))) rest) ?Q w"
      unfolding wp_bind same by (rule wp_mono) (rule rest, simp add: landed_def)
    then show "(case r of Inl _ \<Rightarrow> ?Q (Inl internal) | Inr items \<Rightarrow> wp (State_Monad.bind (reorder hit (put_issue_rank p) i before behind
      (map (\<lambda>x. (is_id (io_row x), is_order (io_row x))) items)) rest) ?Q) w"
      using w same by (auto split: sum.split)
  qed
  show ?thesis
    unfolding move_issue_def assms(2) [symmetric]
    by (auto simp: wp_permitted wp_present wp_passing wp_with_client parse_create_def assms(1) intro!: work wp_landed_after)
qed

text \<open>
  C16: A move between two neighbours puts the issue there and leaves the others in their order, whether the
  midpoint of their ranks is a new double or the whole project is renumbered.
\<close>

theorem moved_issue_lands:
  assumes "run_state (move_issue env ctx param (Json (before, behind))) s = (Inr y, t)"
    and "item_id env param = Some i" and "p = pr_id (cx_project ctx)"
    and "ranks_ok (issue_ranks p s)" and "length (issue_ranks p s) < 2 ^ 53"
    and "others = filter (\<lambda>x. x \<noteq> i) (by_rank (issue_ranks p s))" and "k \<le> length others"
    and "(before, behind) = neighbours others k"
  shows "by_rank (issue_ranks p t) = take k others @ i # drop k others"
  using wpI [OF assms(1) wp_move_issue [OF assms(2-8)]] by (cases y) (simp add: landed_def)

lemma moved_issue_lands_witness:
  "\<exists>t. run_state (move_issue demo_env demo_ctx (Some [60]) (Json (Some 62, None))) demo_tracker = (Inr (204, ()), t) \<and>
     by_rank (issue_ranks 5 t) = [61, 62, 60]"
proof -
  let ?run = "run_state (move_issue demo_env demo_ctx (Some [60]) (Json (Some 62, None))) demo_tracker"
  have "wp (move_issue demo_env demo_ctx (Some [60]) (Json (Some 62, None))) (\<lambda>r t. r = Inr (204, ())) demo_tracker"
    by (simp add: move_issue_def demo_run_simps parse_create_def db_list_issues_def issues_where_def hydrate_issue_relations_def,
      simp add: reorder_def rank_in_def removed_def set_order_def rank_between_def any_row_def demo_run_simps,
      simp add: wp_def case_prod_beta)
  then obtain t where run: "?run = (Inr (204, ()), t)" by (cases ?run) (simp add: wp_def)
  have ranks: "issue_ranks 5 demo_tracker = [(60, 1), (61, 2), (62, 3)]"
    by (simp add: issue_ranks_def)
  have order: "by_rank [(60, 1), (61, 2), (62, 3)] = [60, 61, 62]" by (simp add: by_rank_def)
  have "by_rank (issue_ranks 5 t) = take 2 [61, 62] @ 60 # drop 2 [61, 62]"
    by (rule moved_issue_lands [OF run]) (simp_all add: ranks order item_id_def ranks_ok_def tame_def neighbours_def)
  then show ?thesis using run by auto
qed

section \<open>Comments\<close>

definition may_change_comment :: "ProjectContext \<Rightarrow> int \<Rightarrow> comment_row \<Rightarrow> bool" where
  "may_change_comment ctx now c \<longleftrightarrow>
     (\<exists>a. cx_access ctx = Some a \<and> access_has a CommentModerate) \<or>
     cm_author_id c = Some (cx_actor_id ctx) \<and> now - cm_created_at c \<le> COMMENT_EDIT_WINDOW_SECS"

lemma authorized: "authorize_comment_mutation ctx (cm_author_id c) (cm_created_at c) now = Inr () \<longleftrightarrow> may_change_comment ctx now c"
  by (auto simp: authorize_comment_mutation_def may_change_comment_def split: option.split)

lemma authorize_cases:
  "authorize_comment_mutation ctx author created now = Inl forbidden \<or> authorize_comment_mutation ctx author created now = Inr ()"
  by (simp add: authorize_comment_mutation_def Let_def)

text \<open>A request that leaves the comment \<open>c\<close> as it is.\<close>

definition comment_stays :: "comment_row \<Rightarrow> 't tracker_scheme \<Rightarrow> 't tracker_scheme \<Rightarrow> bool" where
  "comment_stays c s t \<longleftrightarrow> (c \<in> set (comment_rows s) \<longrightarrow> c \<in> set (comment_rows t))"

interpretation commented: backlog_core "comment_stays c" for c
proof
  show "comment_stays c s s" for s :: "'t tracker_scheme" by (simp add: comment_stays_def)
  show "comment_stays c s u" if "comment_stays c s t" "comment_stays c t u" for s t u :: "'t tracker_scheme"
    using that by (simp add: comment_stays_def)
  show "comment_stays c s t" if "quiet_frame s t" for s t :: "'t tracker_scheme"
    using that by (auto simp: comment_stays_def quiet_frame_def)
  have side: "comment_stays c s t" if "side_kept s t" for s t :: "'t tracker_scheme"
    using that by (simp add: comment_stays_def side_kept_def)
  show "comment_stays c s (update_issues P f s)" "comment_stays c s (update_epics P' g s)" for s :: "'t tracker_scheme" and P f P' g
    by (rule side, rule side_updates)+
  show "keeps (comment_stays c) (db_create_issue p u w)" "keeps (comment_stays c) (db_create_epic p u new)" for p u w new
    by (rule keeps_weaker [OF side_creations(1) side], assumption, rule keeps_weaker [OF side_creations(2) side], assumption)
qed

text \<open>The comment is named by the request, is not deleted, and the sender may change it.\<close>

definition named_and_allowed :: "env \<Rightarrow> ProjectContext \<Rightarrow> ustr option \<Rightarrow> comment_row \<Rightarrow> 't tracker_scheme \<Rightarrow> bool" where
  "named_and_allowed env ctx param c s \<longleftrightarrow>
     item_id env param = Some (cm_id c) \<and> cm_deleted_at c = None \<and> may_change_comment ctx (app_now s) c"

text \<open>Why a request may change or remove a comment.\<close>

definition change_justified :: "env \<Rightarrow> backlog_act \<Rightarrow> ProjectContext \<Rightarrow> comment_row \<Rightarrow> 't tracker_scheme \<Rightarrow> bool" where
  "change_justified env act ctx c s \<longleftrightarrow>
     (case act of
        UpdateComment _ _ param _ \<Rightarrow> named_and_allowed env ctx param c s
      | DeleteComment _ _ param \<Rightarrow> named_and_allowed env ctx param c s
      | PurgeIssues \<Rightarrow> ctx_has ctx ProjectModify \<and>
          of_targets ''issue'' (issue_ids_of (pr_id (cx_project ctx)) s) (cm_target_type c) (cm_target_id c)
      | PurgeEpics \<Rightarrow> ctx_has ctx ProjectModify \<and>
          of_targets ''epic'' (epic_ids_of (pr_id (cx_project ctx)) s) (cm_target_type c) (cm_target_id c)
      | _ \<Rightarrow> False)"

lemma found_comment:
  assumes "keyed cm_id (comment_rows s)" and "c \<in> set (comment_rows s)"
    and "find_row (live_comment (cm_id c)) (comment_rows s) = Some q"
  shows "q = c" and "cm_deleted_at c = None"
proof -
  have "q \<in> set (comment_rows s)" "cm_id q = cm_id c" "cm_deleted_at q = None"
    using find_row_Some [OF assms(3)] by (auto simp: live_comment_def)
  then show "q = c" using assms(1,2) by (auto simp: keyed_def distinct_map inj_on_def)
  then show "cm_deleted_at c = None" using \<open>cm_deleted_at q = None\<close> by simp
qed

text \<open>The statements that write comments leave the others alone.\<close>

lemma other_comments:
  assumes "i \<noteq> cm_id c"
  shows "keeps (comment_stays c) (comment_update i text html)" "keeps (comment_stays c) (comment_soft_delete i)"
proof -
  have "\<not> live_comment i c" using assms by (simp add: live_comment_def)
  then have "comment_stays c s (s\<lparr>comment_rows := update_where (live_comment i) f (comment_rows s)\<rparr>)" for s :: "'t tracker_scheme" and f
    by (auto simp: comment_stays_def set_update_where)
  then show "keeps (comment_stays c) (comment_update i text html)" "keeps (comment_stays c) (comment_soft_delete i)"
    unfolding comment_update_def comment_soft_delete_def by (auto intro!: commented.keeps_execute)
qed

lemma guarded_comment:
  fixes s :: "'t tracker_scheme"
  assumes "keyed cm_id (comment_rows s)" and "c \<in> set (comment_rows s)" and "\<not> named_and_allowed env ctx param c s"
    and other: "\<And>i. i \<noteq> cm_id c \<Longrightarrow> keeps (comment_stays c) (h i)" and "item_id env param = Some i"
  shows "wp (do {
       meta \<leftarrow> comment_meta i;
       present (ok_or meta None) (\<lambda>(author, created). do {
         now \<leftarrow> get_now;
         passing (authorize_comment_mutation ctx author created now) (\<lambda>_. h i)
       })
     }) (\<lambda>_. comment_stays c s) (s\<lparr>calls := n\<rparr>)"
proof -
  have stays: "comment_stays c s (s\<lparr>calls := m\<rparr>)" for m by (simp add: comment_stays_def)
  have "wp (h i) (\<lambda>_. comment_stays c s) (s\<lparr>calls := m\<rparr>)" if "i \<noteq> cm_id c" for m
    by (rule wp_mono [OF wp_keeps [OF other [OF that]]]) (rule commented.R_trans [OF stays])
  moreover have "authorize_comment_mutation ctx (cm_author_id q) (cm_created_at q) (app_now s) = Inl forbidden"
    if "i = cm_id c" "find_row (live_comment i) (comment_rows s) = Some q" for q
  proof -
    have "q = c" "cm_deleted_at c = None" using found_comment [OF assms(1,2)] that by auto
    then have "\<not> may_change_comment ctx (app_now s) q" using assms(3,5) that(1) by (simp add: named_and_allowed_def)
    then show ?thesis using authorized [of ctx q "app_now s"] authorize_cases [of ctx "cm_author_id q" "cm_created_at q" "app_now s"] by auto
  qed
  ultimately show ?thesis
    by (cases "i = cm_id c")
      (auto simp: wp_bind comment_meta_def wp_query wp_present wp_passing wp_get_now wp_refuse stays split: option.split sum.split)
qed

lemma comment_acts_stay:
  fixes s :: "'t tracker_scheme"
  assumes "keyed cm_id (comment_rows s)" and "c \<in> set (comment_rows s)" and "\<not> named_and_allowed env ctx param c s"
  shows "wp (update_comment env render ctx entity target param body) (\<lambda>_. comment_stays c s) s"
    and "wp (delete_comment env ctx entity target param) (\<lambda>_. comment_stays c s) s"
proof -
  have stays: "comment_stays c s (s\<lparr>calls := m\<rparr>)" "comment_stays c s s" for m by (simp_all add: comment_stays_def)
  note shape = commented.shapes commented.parts other_comments
  show "wp (update_comment env render ctx entity target param body) (\<lambda>_. comment_stays c s) s"
    unfolding update_comment_def
    by (auto simp: wp_present wp_passing wp_with_client stays split: option.split sum.split
        intro!: guarded_comment [OF assms] shape)
  show "wp (delete_comment env ctx entity target param) (\<lambda>_. comment_stays c s) s"
    unfolding delete_comment_def
    by (auto simp: wp_present wp_passing wp_with_client stays split: option.split sum.split
        intro!: guarded_comment [OF assms] shape)
qed

text \<open>A purge removes the comments of what it purges, and only by whoever may modify the project.\<close>

lemma purge_stays:
  fixes s :: "'t tracker_scheme"
  assumes "c \<in> set (comment_rows s)"
    and kept: "ctx_has ctx ProjectModify \<Longrightarrow> c \<in> set (comment_rows (f (s\<lparr>calls := Suc (Suc (calls s))\<rparr>)))"
  shows "wp (purge env ctx h what (execute g f)) (\<lambda>_. comment_stays c s) s"
proof -
  have rest: "keeps (comment_stays c) (do { _ \<leftarrow> audit env h a b d; answer st x })" for a b d and st :: nat and x :: "nat \<times> ustr list"
    by (intro commented.shapes)
  have "wp (do { _ \<leftarrow> audit env h a b d; answer st x }) (\<lambda>_. comment_stays c s) t"
    if "c \<in> set (comment_rows t)" for t :: "'t tracker_scheme" and a b d and st :: nat and x :: "nat \<times> ustr list"
    by (rule wp_mono [OF wp_keeps [OF rest]]) (use that in \<open>simp add: comment_stays_def\<close>)
  then show ?thesis
    using assms
    by (auto simp: purge_def permitted_def ctx_require_def passing_def wp_refuse wp_with_client wp_served wp_execute comment_stays_def
        split: sum.split prod.split)
qed

lemma purged_comments:
  "comment_rows (drop_issues ids s) = comment_rows s" "comment_rows (drop_epics ids s) = comment_rows s"
  "c \<in> set (comment_rows (purge_targets k ids s)) \<longleftrightarrow>
     c \<in> set (comment_rows s) \<and> \<not> of_targets k ids (cm_target_type c) (cm_target_id c)"
  by (simp_all add: drop_issues_def drop_epics_def update_issues_def purge_targets_def set_delete_where)

text \<open>
  C17: No request on a backlog changes or removes a comment without a right to: whatever statements fail, a comment
  that is not as it was after a request is one that the request names for an update or a deletion, that was not
  deleted, and that the sender may change, as a moderator of the project of the request or as the author within a
  day of writing it; or it belongs to an issue or epic of a project that the sender may modify and has purged.
\<close>

theorem comment_change_authorized:
  fixes s :: "'t tracker_scheme"
  assumes "keyed cm_id (comment_rows s)" and "c \<in> set (comment_rows s)"
    and "c \<notin> set (comment_rows (snd (run_state (run_backlog env render h act ctx) s)))"
  shows "change_justified env act ctx c s"
proof (rule ccontr)
  assume unjust: "\<not> change_justified env act ctx c s"
  have "wp (run_backlog env render h act ctx) (\<lambda>_. comment_stays c s) s"
  proof (cases "quiet_act act")
    case True
    then show ?thesis by (intro wp_keeps commented.keeps_quiet_act)
  next
    case False
    have issue: "wp (purge_issues env ctx h) (\<lambda>_. comment_stays c s) s" if "act = PurgeIssues"
      unfolding purge_issues_def purge_project_issues_def
      by (rule purge_stays) (use assms(2) unjust that in \<open>auto simp: change_justified_def purged_comments issue_ids_of_def\<close>)
    have epic: "wp (purge_epics env ctx h) (\<lambda>_. comment_stays c s) s" if "act = PurgeEpics"
      unfolding purge_epics_def purge_project_epics_def
      by (rule purge_stays) (use assms(2) unjust that in \<open>auto simp: change_justified_def purged_comments epic_ids_of_def\<close>)
    show ?thesis
      using False issue epic comment_acts_stay [OF assms(1,2)] unjust
      by (cases act) (simp_all add: quiet_act_def change_justified_def run_backlog_def wp_status_of)
  qed
  then show False using assms(2,3) by (simp add: wp_def case_prod_beta comment_stays_def)
qed

lemma comment_change_authorized_witness:
  "demo_comment \<notin> set (comment_rows (snd (run_state (run_backlog demo_env (\<lambda>x. x) []
       (UpdateComment (Some (lit ''issues'')) (Some [60]) (Some [70]) (Json [98])) demo_ctx) demo_tracker))) \<and>
   may_change_comment demo_ctx 1000 demo_comment"
proof -
  let ?act = "UpdateComment (Some (lit ''issues'')) (Some [60]) (Some [70]) (Json [98])"
  let ?run = "run_backlog demo_env (\<lambda>x. x) [] ?act demo_ctx"
  have allowed: "authorize_comment_mutation demo_ctx (Some 7) 900 1000 = Inr ()"
    by (simp add: authorize_comment_mutation_def demo_ctx_def access_has_def)
  have "wp ?run (\<lambda>r t. demo_comment \<notin> set (comment_rows t)) demo_tracker"
    by (simp add: run_backlog_def wp_status_of update_comment_def demo_run_simps parse_create_def valid_comment_def len_between_def
      byte_len_def utf8_len_def comment_meta_def comment_update_def live_comment_def demo_comment_def allowed publish_comment_def
      split: option.split)
  then have gone: "demo_comment \<notin> set (comment_rows (snd (run_state ?run demo_tracker)))" by (simp add: wp_def case_prod_beta)
  moreover have "keyed cm_id (comment_rows demo_tracker)" "demo_comment \<in> set (comment_rows demo_tracker)" by (simp_all add: keyed_def)
  ultimately show ?thesis
    using comment_change_authorized [of demo_tracker demo_comment demo_env "\<lambda>x. x" "[]" ?act demo_ctx]
    by (simp add: change_justified_def named_and_allowed_def)
qed

end
