(* ===== verification/Calendar.thy ===== *)
theory Calendar
  imports Tracker
begin

text \<open>
  Dates. The server uses the \<open>time\<close> crate: a \<open>Date\<close> is here its day number, so that one day later is the
  next number, and what the crate computes of it is a record of functions. \<open>calendar_laws\<close> is what the
  time tracking relies on; the proleptic Gregorian calendar of the years 0 to 9999 satisfies it.
\<close>

section \<open>The calendar of the server\<close>

record calendar =
  cal_min :: int
  cal_max :: int
  cal_ymd :: "int \<Rightarrow> int \<times> nat \<times> nat"
  cal_date :: "int \<Rightarrow> nat \<Rightarrow> nat \<Rightarrow> int option"
  cal_weekend :: "int \<Rightarrow> bool"
  cal_today :: "int \<Rightarrow> int"
  cal_parse :: "ustr \<Rightarrow> int option"
  cal_format :: "int \<Rightarrow> ustr"

definition cal_year :: "calendar \<Rightarrow> int \<Rightarrow> int" where
  "cal_year cal d = fst (cal_ymd cal d)"

definition cal_month :: "calendar \<Rightarrow> int \<Rightarrow> nat" where
  "cal_month cal d = fst (snd (cal_ymd cal d))"

definition on_calendar :: "calendar \<Rightarrow> int \<Rightarrow> bool" where
  "on_calendar cal d \<longleftrightarrow> cal_min cal \<le> d \<and> d \<le> cal_max cal"

text \<open>\<open>month_start\<close>, \<open>month_end\<close>: an impossible month is an error of the database layer.\<close>

definition month_start :: "calendar \<Rightarrow> int \<Rightarrow> nat \<Rightarrow> DbError + int" where
  "month_start cal year month =
     (if month < 1 \<or> 12 < month then Inl Unavailable
      else case cal_date cal year month 1 of None \<Rightarrow> Inl Unavailable | Some d \<Rightarrow> Inr d)"

definition month_end :: "calendar \<Rightarrow> int \<Rightarrow> nat \<Rightarrow> DbError + int" where
  "month_end cal year month =
     (let (ny, nm) = (if month = 12 then (year + 1, 1) else (year, month + 1))
      in if nm < 1 \<or> 12 < nm then Inl Unavailable
         else case cal_date cal ny nm 1 of None \<Rightarrow> Inl Unavailable | Some d \<Rightarrow> Inr (d - 1))"

definition is_working_day :: "calendar \<Rightarrow> int \<Rightarrow> bool" where
  "is_working_day cal d \<longleftrightarrow> \<not> cal_weekend cal d"

definition year_month :: "calendar \<Rightarrow> int \<Rightarrow> int \<times> int" where
  "year_month cal d = (cal_year cal d, int (cal_month cal d))"

definition default_range :: "calendar \<Rightarrow> int \<Rightarrow> int \<times> int" where
  "default_range cal today =
     (let start = unwrap_or (cal_date cal (cal_year cal today) (cal_month cal today) 1) today;
          (ny, nm) = (if cal_month cal today = 12 then (cal_year cal today + 1, 1)
                      else (cal_year cal today, cal_month cal today + 1))
      in (start, unwrap_or (map_option (\<lambda>d. d - 1) (cal_date cal ny nm 1)) today))"

section \<open>Laws\<close>

definition ymd_less :: "int \<times> nat \<times> nat \<Rightarrow> int \<times> nat \<times> nat \<Rightarrow> bool" where
  "ymd_less p q \<longleftrightarrow> fst p < fst q \<or> fst p = fst q \<and>
     (fst (snd p) < fst (snd q) \<or> fst (snd p) = fst (snd q) \<and> snd (snd p) < snd (snd q))"

lemma ymd_less_trans: "ymd_less p q \<Longrightarrow> ymd_less q r \<Longrightarrow> ymd_less p r"
  by (auto simp: ymd_less_def)

locale calendar_laws =
  fixes cal :: calendar
  assumes date_ymd: "cal_date cal y m d = Some x \<longleftrightarrow> on_calendar cal x \<and> cal_ymd cal x = (y, m, d)"
    and later: "on_calendar cal x \<Longrightarrow> on_calendar cal z \<Longrightarrow> x < z \<Longrightarrow> ymd_less (cal_ymd cal x) (cal_ymd cal z)"
    and fields: "on_calendar cal x \<Longrightarrow> cal_ymd cal x = (y, m, d) \<Longrightarrow> 1 \<le> m \<and> m \<le> 12 \<and> 1 \<le> d"
begin

lemma not_earlier: "on_calendar cal x \<Longrightarrow> on_calendar cal z \<Longrightarrow> x \<le> z \<Longrightarrow> \<not> ymd_less (cal_ymd cal z) (cal_ymd cal x)"
  using later [of x z] ymd_less_trans [of "cal_ymd cal x" "cal_ymd cal z" "cal_ymd cal x"]
  by (cases "x = z") (auto simp: ymd_less_def)

lemma order_iff: "on_calendar cal x \<Longrightarrow> on_calendar cal z \<Longrightarrow> x < z \<longleftrightarrow> ymd_less (cal_ymd cal x) (cal_ymd cal z)"
  using later [of x z] not_earlier [of z x] by fastforce

text \<open>The days from the start to the end of a month are the days with its year and month.\<close>

lemma month_days:
  assumes "month_start cal y m = Inr a" and "month_end cal y m = Inr b" and "on_calendar cal x"
  shows "a \<le> x \<and> x \<le> b \<longleftrightarrow> year_month cal x = (y, int m)"
proof -
  have m: "1 \<le> m" "m \<le> 12" and a: "cal_date cal y m 1 = Some a"
    using assms(1) by (auto simp: month_start_def split: if_splits option.splits)
  define ny nm where "ny = (if m = 12 then y + 1 else y)" and "nm = (if m = 12 then 1 else m + 1)"
  have b: "cal_date cal ny nm 1 = Some (b + 1)"
    using assms(2) by (auto simp: month_end_def ny_def nm_def split: if_splits option.splits)
  have ends: "on_calendar cal a" "cal_ymd cal a = (y, m, 1)" "on_calendar cal (b + 1)" "cal_ymd cal (b + 1) = (ny, nm, 1)"
    using a b by (simp_all add: date_ymd)
  obtain y' m' d' where x: "cal_ymd cal x = (y', m', d')" by (cases "cal_ymd cal x")
  have f: "1 \<le> m'" "m' \<le> 12" "1 \<le> d'" using fields [OF assms(3) x] by auto
  have lo: "a \<le> x \<longleftrightarrow> \<not> ymd_less (y', m', d') (y, m, 1)"
    using order_iff [OF assms(3) ends(1)] x ends(2) by auto
  have hi: "x \<le> b \<longleftrightarrow> ymd_less (y', m', d') (ny, nm, 1)"
    using order_iff [OF assms(3) ends(3)] x ends(4) by auto
  show ?thesis
    unfolding lo hi year_month_def cal_year_def cal_month_def x
    using m f by (auto simp: ymd_less_def ny_def nm_def split: if_splits)
qed

end

section \<open>The Gregorian calendar\<close>

type_synonym civil = "nat \<times> nat \<times> nat"

definition leap :: "nat \<Rightarrow> bool" where
  "leap y \<longleftrightarrow> y mod 4 = 0 \<and> (y mod 100 \<noteq> 0 \<or> y mod 400 = 0)"

definition month_len :: "nat \<Rightarrow> nat \<Rightarrow> nat" where
  "month_len y m =
     (if m = 2 then (if leap y then 29 else 28) else if m \<in> {4, 6, 9, 11} then 30 else 31)"

definition civil_ok :: "civil \<Rightarrow> bool" where
  "civil_ok p = (case p of (y, m, d) \<Rightarrow> 1 \<le> m \<and> m \<le> 12 \<and> 1 \<le> d \<and> d \<le> month_len y m)"

definition next_civil :: "civil \<Rightarrow> civil" where
  "next_civil p = (case p of (y, m, d) \<Rightarrow>
     if d < month_len y m then (y, m, d + 1) else if m < 12 then (y, m + 1, 1) else (y + 1, 1, 1))"

definition prev_civil :: "civil \<Rightarrow> civil" where
  "prev_civil p = (case p of (y, m, d) \<Rightarrow>
     if 1 < d then (y, m, d - 1) else if 1 < m then (y, m - 1, month_len y (m - 1)) else (y - 1, 12, 31))"

definition civil :: "nat \<Rightarrow> civil" where
  "civil n = (next_civil ^^ n) (0, 1, 1)"

fun year_days :: "nat \<Rightarrow> nat" where
  "year_days 0 = 0"
| "year_days (Suc y) = year_days y + (if leap y then 366 else 365)"

fun months_days :: "nat \<Rightarrow> nat \<Rightarrow> nat" where
  "months_days y 0 = 0"
| "months_days y (Suc m) = months_days y m + (if m = 0 then 0 else month_len y m)"

definition day_number :: "civil \<Rightarrow> nat" where
  "day_number p = (case p of (y, m, d) \<Rightarrow> year_days y + months_days y m + (d - 1))"

lemma months_total: "months_days y 12 + 31 = (if leap y then 366 else 365)"
  by (simp add: numeral_eq_Suc month_len_def)

lemma months_step: "0 < m \<Longrightarrow> months_days y (Suc m) = months_days y m + month_len y m"
  by simp

lemma months_first: "months_days y (Suc 0) = 0"
  by simp

lemma month_len_pos: "28 \<le> month_len y m"
  by (simp add: month_len_def)

lemma civil_ok_next: "civil_ok p \<Longrightarrow> civil_ok (next_civil p)"
proof -
  have "1 \<le> month_len y m" for y m using month_len_pos [of y m] by linarith
  then show "civil_ok p \<Longrightarrow> civil_ok (next_civil p)"
    by (cases p) (simp add: civil_ok_def next_civil_def split: if_splits)
qed

lemma day_number_next: "civil_ok p \<Longrightarrow> day_number (next_civil p) = Suc (day_number p)"
proof -
  assume ok: "civil_ok p"
  obtain y m d where p: "p = (y, m, d)" by (cases p)
  have m: "1 \<le> m" "m \<le> 12" "1 \<le> d" "d \<le> month_len y m" using ok by (simp_all add: civil_ok_def p)
  consider "d < month_len y m" | "d = month_len y m" "m < 12" | "d = month_len y m" "m = 12"
    using m by linarith
  then show ?thesis
  proof cases
    case 3
    then have "month_len y m = 31" by (simp add: month_len_def)
    then show ?thesis using 3 m months_total [of y] by (simp add: p day_number_def next_civil_def numeral_eq_Suc split: if_splits)
  qed (use m in \<open>simp_all add: p day_number_def next_civil_def\<close>)
qed

lemma civil_facts: "civil_ok (civil n) \<and> day_number (civil n) = n"
proof (induction n)
  case 0
  show ?case by (simp add: civil_def civil_ok_def month_len_def day_number_def)
next
  case (Suc n)
  then show ?case using civil_ok_next [of "civil n"] day_number_next [of "civil n"] by (simp add: civil_def)
qed

declare year_days.simps [simp del] months_days.simps [simp del]

lemma prev_next:
  assumes "civil_ok p" and "p \<noteq> (0, 1, 1)"
  shows "civil_ok (prev_civil p) \<and> next_civil (prev_civil p) = p"
proof -
  obtain y m d where p: "p = (y, m, d)" by (cases p)
  have ok: "1 \<le> m" "m \<le> 12" "1 \<le> d" "d \<le> month_len y m" using assms(1) by (simp_all add: civil_ok_def p)
  consider "1 < d" | "d = 1" "1 < m" | "d = 1" "m = 1" "0 < y" using ok assms(2) p by force
  then show ?thesis
  proof cases
    case 2
    have "1 \<le> month_len y (m - 1)" using month_len_pos [of y "m - 1"] by linarith
    then show ?thesis using 2 ok by (simp add: p civil_ok_def prev_civil_def next_civil_def) linarith
  next
    case 3
    then show ?thesis by (simp add: p civil_ok_def prev_civil_def next_civil_def month_len_def)
  qed (use ok in \<open>auto simp: p civil_ok_def prev_civil_def next_civil_def\<close>)
qed

lemma civil_day_number: "civil_ok p \<Longrightarrow> civil (day_number p) = p"
proof (induction "day_number p" arbitrary: p)
  case 0
  obtain y m d where p: "p = (y, m, d)" by (cases p)
  have zero: "year_days y = 0" "months_days y m = 0" "1 \<le> m" "1 \<le> d" "d \<le> 1" using 0 by (auto simp: p day_number_def civil_ok_def)
  have "y = 0" using zero(1) by (cases y) (auto simp: year_days.simps split: if_splits)
  moreover have "m = 1"
  proof (rule ccontr)
    assume "m \<noteq> 1"
    then obtain k where "m = Suc (Suc k)" using zero(3) by (cases m; cases "m - 1") auto
    then show False using zero(2) months_step [of "Suc k" y] month_len_pos [of y "Suc k"] by simp
  qed
  ultimately have "p = (0, 1, 1)" using p zero(4,5) by simp
  then show ?case by (simp add: civil_def day_number_def year_days.simps months_first)
next
  case (Suc n)
  then have "p \<noteq> (0, 1, 1)" by (auto simp: day_number_def year_days.simps months_first)
  note prev = prev_next [OF Suc.prems this]
  then have "day_number (prev_civil p) = n" using day_number_next [of "prev_civil p"] Suc.hyps(2) by simp
  then have "civil n = prev_civil p" using Suc.hyps(1) prev by metis
  then show ?case using prev Suc.hyps(2) [symmetric] by (simp add: civil_def)
qed

lemma civil_less_next: "civil_ok p \<Longrightarrow> ymd_less (map_prod int (\<lambda>q. q) p) (map_prod int (\<lambda>q. q) (next_civil p))"
  by (cases p) (simp add: ymd_less_def next_civil_def civil_ok_def)

lemma civil_later: "n < k \<Longrightarrow> ymd_less (map_prod int (\<lambda>q. q) (civil n)) (map_prod int (\<lambda>q. q) (civil k))"
proof (induction k)
  case (Suc k)
  have step: "ymd_less (map_prod int (\<lambda>q. q) (civil k)) (map_prod int (\<lambda>q. q) (civil (Suc k)))"
    using civil_less_next [of "civil k"] civil_facts by (simp add: civil_def)
  show ?case
  proof (cases "n = k")
    case False
    then show ?thesis using Suc step by (auto intro: ymd_less_trans)
  qed (use step in simp)
qed simp

definition two_digits :: "nat \<Rightarrow> ustr" where
  "two_digits n = [48 + n div 10 mod 10, 48 + n mod 10]"

definition iso_format :: "civil \<Rightarrow> ustr" where
  "iso_format p = (case p of (y, m, d) \<Rightarrow> two_digits (y div 100) @ two_digits y @ [45] @ two_digits m @ [45] @ two_digits d)"

definition gregorian_date :: "int \<Rightarrow> nat \<Rightarrow> nat \<Rightarrow> int option" where
  "gregorian_date y m d =
     (if 0 \<le> y \<and> y \<le> 9999 \<and> civil_ok (nat y, m, d) then Some (int (day_number (nat y, m, d))) else None)"

text \<open>\<open>[year]-[month]-[day]\<close>, with four, two and two digits.\<close>

definition gregorian_parse :: "ustr \<Rightarrow> int option" where
  "gregorian_parse t =
     (case t of
        [a, b, c, e, h1, f, g, h2, k, l] \<Rightarrow>
          if h1 = 45 \<and> h2 = 45 \<and> list_all is_ascii_digit [a, b, c, e, f, g, k, l]
          then gregorian_date (int ((a - 48) * 1000 + (b - 48) * 100 + (c - 48) * 10 + (e - 48)))
                 ((f - 48) * 10 + (g - 48)) ((k - 48) * 10 + (l - 48))
          else None
      | _ \<Rightarrow> None)"

definition gregorian :: calendar where
  "gregorian =
     \<lparr>cal_min = 0, cal_max = 3652424, cal_ymd = (\<lambda>x. map_prod int (\<lambda>q. q) (civil (nat x))), cal_date = gregorian_date,
      cal_weekend = (\<lambda>x. x mod 7 \<in> {0, 1}), cal_today = (\<lambda>now. 719528 + now div 86400), cal_parse = gregorian_parse,
      cal_format = (\<lambda>x. iso_format (civil (nat x)))\<rparr>"

lemma round_up_div: "0 < n \<Longrightarrow> (y + (n - 1)) div n = y div n + (if y mod n = 0 then 0 else (1::nat))"
proof -
  assume n: "0 < n"
  have "y + (n - 1) = y mod n + (n - 1) + y div n * n" by (simp add: mult.commute)
  then have "(y + (n - 1)) div n = y div n + (y mod n + (n - 1)) div n" using n by (metis div_mult_self1 less_not_refl add.commute)
  moreover have "(y mod n + (n - 1)) div n = (if y mod n = 0 then 0 else 1)"
  proof (cases "y mod n = 0")
    case False
    have split: "y mod n + (n - 1) = (y mod n - 1) + n" and low: "y mod n - 1 < n" using False n mod_less_divisor [OF n, of y] by linarith+
    then have "(y mod n + (n - 1)) div n = 1" unfolding split using n low by (simp only: div_add_self2 div_less)
    then show ?thesis using False by simp
  qed (use n in simp)
  ultimately show ?thesis by simp
qed

lemma round_up_Suc: "0 < n \<Longrightarrow> (Suc y + (n - 1)) div n = (y + (n - 1)) div n + (if y mod n = 0 then 1 else (0::nat))"
  using round_up_div [of n y] div_add_self2 [of n y] by (simp add: add.commute)

lemma year_days_closed: "year_days y + (y + 99) div 100 = 365 * y + (y + 3) div 4 + (y + 399) div 400"
proof (induction y)
  case (Suc y)
  have "y mod 400 = 0 \<Longrightarrow> y mod 100 = 0" "y mod 100 = 0 \<Longrightarrow> y mod 4 = 0" by presburger+
  then show ?case
    using Suc round_up_Suc [of 4 y] round_up_Suc [of 100 y] round_up_Suc [of 400 y] by (auto simp: leap_def year_days.simps)
qed (simp add: year_days.simps)

lemma year_days_mono: "y \<le> z \<Longrightarrow> year_days y \<le> year_days z"
  by (induction z) (auto simp: le_Suc_eq year_days.simps)

lemma year_days_end: "year_days 10000 = 3652425"
  using year_days_closed [of 10000] by simp

lemma months_mono: "k \<le> m \<Longrightarrow> months_days y k \<le> months_days y m"
  by (induction m) (auto simp: le_Suc_eq months_days.simps)

lemma day_in_year: "civil_ok (y, m, d) \<Longrightarrow> day_number (y, m, d) < year_days (Suc y)"
proof -
  assume ok: "civil_ok (y, m, d)"
  have "months_days y m + month_len y m = months_days y (Suc m)" using ok by (simp add: civil_ok_def months_step)
  also have "\<dots> \<le> months_days y 13" using ok by (intro months_mono) (simp add: civil_ok_def)
  also have "\<dots> = (if leap y then 366 else 365)"
    using months_total [of y] months_step [of 12 y] by (simp add: month_len_def)
  finally have "months_days y m + month_len y m \<le> (if leap y then 366 else 365)" .
  then show ?thesis using ok by (cases "leap y"; simp add: civil_ok_def day_number_def year_days.simps; linarith)
qed

lemma last_year: "civil_ok (y, m, d) \<Longrightarrow> day_number (y, m, d) \<le> 3652424 \<longleftrightarrow> y \<le> 9999"
proof
  assume ok: "civil_ok (y, m, d)"
  show "y \<le> 9999" if "day_number (y, m, d) \<le> 3652424"
  proof (rule ccontr)
    assume "\<not> y \<le> 9999"
    then have "year_days 10000 \<le> year_days y" by (intro year_days_mono) simp
    then show False using that year_days_end by (simp add: day_number_def)
  qed
  show "day_number (y, m, d) \<le> 3652424" if "y \<le> 9999"
    using day_in_year [OF ok] year_days_mono [of "Suc y" 10000] that year_days_end by simp
qed

interpretation gregorian: calendar_laws gregorian
proof
  fix x z y :: int and m d :: nat
  show "cal_date gregorian y m d = Some x \<longleftrightarrow> on_calendar gregorian x \<and> cal_ymd gregorian x = (y, m, d)"
  proof
    assume "cal_date gregorian y m d = Some x"
    then have *: "0 \<le> y" "y \<le> 9999" "civil_ok (nat y, m, d)" "x = int (day_number (nat y, m, d))"
      by (auto simp: gregorian_def gregorian_date_def split: if_splits)
    then show "on_calendar gregorian x \<and> cal_ymd gregorian x = (y, m, d)"
      using last_year [OF *(3)] civil_day_number [OF *(3)] by (simp add: gregorian_def on_calendar_def)
  next
    assume "on_calendar gregorian x \<and> cal_ymd gregorian x = (y, m, d)"
    moreover obtain a b c where "civil (nat x) = (a, b, c)" by (cases "civil (nat x)")
    ultimately have *: "0 \<le> x" "x \<le> 3652424" "civil (nat x) = (nat y, m, d)" "0 \<le> y"
      by (auto simp: gregorian_def on_calendar_def)
    then have ok: "civil_ok (nat y, m, d)" "day_number (nat y, m, d) = nat x" using civil_facts [of "nat x"] by auto
    then show "cal_date gregorian y m d = Some x"
      using * last_year [OF ok(1)] by (simp add: gregorian_def gregorian_date_def nat_le_iff)
  qed
  show "on_calendar gregorian x \<Longrightarrow> on_calendar gregorian z \<Longrightarrow> x < z \<Longrightarrow> ymd_less (cal_ymd gregorian x) (cal_ymd gregorian z)"
    using civil_later [of "nat x" "nat z"] by (simp add: gregorian_def on_calendar_def)
  show "on_calendar gregorian x \<Longrightarrow> cal_ymd gregorian x = (y, m, d) \<Longrightarrow> 1 \<le> m \<and> m \<le> 12 \<and> 1 \<le> d"
    using civil_facts [of "nat x"] by (cases "civil (nat x)") (auto simp: gregorian_def civil_ok_def)
qed

end
