(* ===== verification/Time_Db.thy ===== *)
theory Time_Db
  imports Calendar Project_Admins "HOL-Library.AList"
begin

text \<open>
  The tables of the time tracking and their statements (\<open>crates/db/src/time_tracking.rs\<close>): locked project
  months, vacation allowances, the daily target of each account, the statements on the entries of worked time
  and absences, and the reports. A transaction is one statement. The entries themselves are a table of the
  backlog's state, since a purge of issues clears their links to them. A row of
  \<open>work_targets\<close> is a value of the column \<open>users.work_minutes_per_day\<close> that differs from its default.
  Listings by name follow \<open>coll\<close>, the rank of a text in the collation of the database.
\<close>

section \<open>Rows\<close>

record PeriodLock =
  pl_id :: nat
  pl_project_id :: pid
  pl_year :: int
  pl_month :: int
  pl_locked_by :: "uid option"
  pl_locked_at :: int

record VacationAllowance =
  va_id :: nat
  va_user_id :: uid
  va_year :: int
  va_allowance_days :: f64
  va_carried_over_days :: f64
  va_note :: ustr
  va_set_by :: "uid option"
  va_created_at :: int
  va_modified_at :: int

record timesheets = tracker +
  period_locks :: "PeriodLock list"
  allowances :: "VacationAllowance list"
  work_targets :: "(uid \<times> int) list"

record TimeEntry =
  to_row :: time_row
  to_kind :: EntryKind
  to_meeting_type :: "MeetingType option"

definition kind_from_row :: "time_row \<Rightarrow> EntryKind" where
  "kind_from_row r = unwrap_or (EntryKind_parse (te_kind r)) EntryKind.Work"

definition meeting_type_from_row :: "time_row \<Rightarrow> MeetingType option" where
  "meeting_type_from_row r = Option.bind (te_meeting_type r) MeetingType_parse"

definition row_to_entry :: "time_row \<Rightarrow> TimeEntry" where
  "row_to_entry r = \<lparr>to_row = r, to_kind = kind_from_row r, to_meeting_type = meeting_type_from_row r\<rparr>"

record TimeEntryDetail = TimeEntry +
  td_issue_ref :: "int option"
  td_issue_subject :: "ustr option"
  td_project_name :: "ustr option"
  td_project_slug :: "ustr option"
  td_username :: "ustr option"
  td_full_name :: "ustr option"

text \<open>\<open>DETAIL_SELECT\<close>: the left joins with the issue, the project and the account.\<close>

definition row_to_detail :: "'t timesheets_scheme \<Rightarrow> time_row \<Rightarrow> TimeEntryDetail" where
  "row_to_detail s r =
     (let issue = Option.bind (te_issue_id r) (\<lambda>i. find_row (\<lambda>q. is_id q = i) (issues s));
          project = Option.bind (te_project_id r) (\<lambda>p. find_row (\<lambda>q. pj_id q = p) (projects s));
          user = find_row (has_id (te_user_id r)) (users s)
      in \<lparr>to_row = r, to_kind = kind_from_row r, to_meeting_type = meeting_type_from_row r,
          td_issue_ref = map_option is_ref issue, td_issue_subject = map_option is_subject issue,
          td_project_name = map_option pj_name project, td_project_slug = map_option pj_slug project,
          td_username = map_option u_username user, td_full_name = map_option u_full_name user\<rparr>)"

text \<open>The constraints of the table (V002, V012) and its foreign keys.\<close>

definition absence_kinds :: "ustr list" where
  "absence_kinds = [lit ''vacation'', lit ''illness'', lit ''day_off'', lit ''holiday'']"

definition meeting_types :: "ustr list" where
  "meeting_types = [lit ''daily'', lit ''planning'', lit ''troubleshooting'', lit ''retro'', lit ''refinement'', lit ''other'']"

definition entry_checks :: "time_row \<Rightarrow> bool" where
  "entry_checks r \<longleftrightarrow>
     0 < te_minutes r \<and> te_minutes r \<le> 1440 \<and>
     (te_kind r = lit ''work'' \<and> te_project_id r \<noteq> None \<or> te_kind r = lit ''meeting'' \<or>
      te_kind r \<in> set absence_kinds \<and> te_project_id r = None) \<and>
     (case te_meeting_type r of None \<Rightarrow> True | Some t \<Rightarrow> te_kind r = lit ''meeting'' \<and> t \<in> set meeting_types)"

definition entry_refs_ok :: "'t timesheets_scheme \<Rightarrow> time_row \<Rightarrow> bool" where
  "entry_refs_ok s r \<longleftrightarrow>
     te_user_id r \<in> set (map u_id (users s)) \<and> known_ref (te_project_id r) (map pj_id (projects s)) \<and>
     known_ref (te_issue_id r) (map is_id (issues s))"

section \<open>Entries\<close>

record NewEntry =
  ne_user_id :: uid
  ne_kind :: EntryKind
  ne_meeting_type :: "ustr option"
  ne_project_id :: "pid option"
  ne_issue_id :: "nat option"
  ne_entry_date :: int
  ne_minutes :: int
  ne_note :: ustr
  ne_booking_id :: "nat option"

definition new_row :: "nat \<Rightarrow> int \<Rightarrow> NewEntry \<Rightarrow> time_row" where
  "new_row i now e =
     \<lparr>te_id = i, te_user_id = ne_user_id e, te_kind = EntryKind_as_str (ne_kind e), te_meeting_type = ne_meeting_type e,
      te_project_id = ne_project_id e, te_issue_id = ne_issue_id e, te_entry_date = ne_entry_date e,
      te_minutes = ne_minutes e, te_note = ne_note e, te_booking_id = ne_booking_id e, te_created_at = now,
      te_modified_at = now, te_version = 1\<rparr>"

definition create_entry :: "NewEntry \<Rightarrow> ('t timesheets_scheme, TimeEntry) db" where
  "create_entry e = stmt (\<lambda>s.
     let r = new_row (next_id s) (db_now s) e
     in if \<not> entry_checks r then (Inl Unavailable, s)
        else if \<not> entry_refs_ok s r then (Inl ForeignKeyViolation, s)
        else (Inr (row_to_entry r), s\<lparr>time_entries := time_entries s @ [r], next_id := Suc (next_id s)\<rparr>))"

definition is_entry :: "nat \<Rightarrow> time_row \<Rightarrow> bool" where
  "is_entry i r \<longleftrightarrow> te_id r = i"

definition get_entry :: "nat \<Rightarrow> ('t timesheets_scheme, TimeEntry option) db" where
  "get_entry i = query (\<lambda>s. map_option row_to_entry (find_row (is_entry i) (time_entries s)))"

datatype EntryUpdate = Updated TimeEntry | Stale | MissingEntry

definition edit_entry :: "int \<Rightarrow> ustr \<Rightarrow> int option \<Rightarrow> int \<Rightarrow> time_row \<Rightarrow> time_row" where
  "edit_entry minutes note date now r = r\<lparr>te_minutes := minutes, te_note := note,
     te_entry_date := unwrap_or date (te_entry_date r), te_modified_at := now, te_version := te_version r + 1\<rparr>"

definition update_entry :: "nat \<Rightarrow> int \<Rightarrow> ustr \<Rightarrow> int option \<Rightarrow> int \<Rightarrow> ('t timesheets_scheme, EntryUpdate) db" where
  "update_entry i minutes note date expected =
     andThen (get_entry i) (\<lambda>current.
       case current of
         None \<Rightarrow> State_Monad.return (Inr MissingEntry)
       | Some e \<Rightarrow>
           if te_version (to_row e) \<noteq> expected then State_Monad.return (Inr Stale)
           else stmt (\<lambda>s.
             let hit = (\<lambda>r. is_entry i r \<and> te_version r = expected); f = edit_entry minutes note date (db_now s)
             in case find_row hit (time_entries s) of
                  None \<Rightarrow> (Inr Stale, s)
                | Some r \<Rightarrow>
                    if \<not> entry_checks (f r) then (Inl Unavailable, s)
                    else (Inr (Updated (row_to_entry (f r))), s\<lparr>time_entries := update_where hit f (time_entries s)\<rparr>)))"

definition delete_entry :: "nat \<Rightarrow> ('t timesheets_scheme, bool) db" where
  "delete_entry i = execute (\<lambda>s. affected (is_entry i) (time_entries s) > 0)
     (\<lambda>s. s\<lparr>time_entries := delete_where (is_entry i) (time_entries s)\<rparr>)"

datatype ReportScope = ProjectWide | IssueLevel

definition in_dates :: "int \<Rightarrow> int \<Rightarrow> time_row \<Rightarrow> bool" where
  "in_dates from to r \<longleftrightarrow> from \<le> te_entry_date r \<and> te_entry_date r \<le> to"

definition opt_eq :: "'a option \<Rightarrow> 'a option \<Rightarrow> bool" where
  "opt_eq sought x \<longleftrightarrow> sought = None \<or> x = sought"

definition by_day :: "time_row list \<Rightarrow> time_row list" where
  "by_day rs = sort_key te_entry_date (sort_key te_created_at rs)"

definition list_for_user ::
    "uid \<Rightarrow> int \<Rightarrow> int \<Rightarrow> pid option \<Rightarrow> nat option \<Rightarrow> ('t timesheets_scheme, TimeEntryDetail list) db" where
  "list_for_user u from to project issue = query (\<lambda>s. map (row_to_detail s) (by_day
     (filter (\<lambda>r. te_user_id r = u \<and> in_dates from to r \<and> opt_eq project (te_project_id r) \<and> opt_eq issue (te_issue_id r))
       (time_entries s))))"

definition name_rank :: "(ustr \<Rightarrow> rat) \<Rightarrow> 't timesheets_scheme \<Rightarrow> uid \<Rightarrow> rat" where
  "name_rank coll s u = (case find_row (has_id u) (users s) of None \<Rightarrow> 0 | Some q \<Rightarrow> coll (u_full_name q))"

definition by_person :: "(ustr \<Rightarrow> rat) \<Rightarrow> 't timesheets_scheme \<Rightarrow> time_row list \<Rightarrow> time_row list" where
  "by_person coll s rs = sort_key (\<lambda>r. name_rank coll s (te_user_id r)) (by_day rs)"

definition excluded :: "uid \<Rightarrow> 't timesheets_scheme \<Rightarrow> bool" where
  "excluded u s \<longleftrightarrow> (case find_row (has_id u) (users s) of None \<Rightarrow> False | Some q \<Rightarrow> u_exclude_from_time_reports q)"

definition worked :: "time_row \<Rightarrow> bool" where
  "worked r \<longleftrightarrow> te_kind r = lit ''work'' \<or> te_kind r = lit ''meeting''"

definition list_for_project ::
    "(ustr \<Rightarrow> rat) \<Rightarrow> pid \<Rightarrow> int \<Rightarrow> int \<Rightarrow> uid option \<Rightarrow> ReportScope \<Rightarrow> ('t timesheets_scheme, TimeEntryDetail list) db" where
  "list_for_project coll p from to user scope = query (\<lambda>s. map (row_to_detail s) (by_person coll s
     (filter (\<lambda>r. te_project_id r = Some p \<and> worked r \<and> in_dates from to r \<and> (user = None \<or> Some (te_user_id r) = user) \<and>
         (case scope of ProjectWide \<Rightarrow> \<not> excluded (te_user_id r) s | IssueLevel \<Rightarrow> True))
       (time_entries s))))"

section \<open>Absences\<close>

text \<open>
  The loop over the days of a booking. Stepping past the last date of the calendar panics, and the
  release build aborts on a panic: the transaction is gone and so is the server (\<open>None\<close>).
\<close>

function booking_days :: "calendar \<Rightarrow> bool \<Rightarrow> int \<Rightarrow> int \<Rightarrow> int list option" where
  "booking_days cal skip_weekends d fin =
     (if fin < d then Some []
      else if d = cal_max cal then None
      else map_option (\<lambda>ds. if \<not> skip_weekends \<or> is_working_day cal d then d # ds else ds)
             (booking_days cal skip_weekends (d + 1) fin))"
  by pat_completeness auto

termination by (relation "measure (\<lambda>(cal, skip, d, fin). nat (fin + 1 - d))") auto

declare booking_days.simps [simp del]

definition booking_rows :: "uid \<Rightarrow> EntryKind \<Rightarrow> int \<Rightarrow> ustr \<Rightarrow> nat \<Rightarrow> int \<Rightarrow> int list \<Rightarrow> time_row list" where
  "booking_rows u kind minutes note b now ds =
     map (\<lambda>(i, d). new_row i now \<lparr>ne_user_id = u, ne_kind = kind, ne_meeting_type = None, ne_project_id = None,
            ne_issue_id = None, ne_entry_date = d, ne_minutes = minutes, ne_note = note, ne_booking_id = Some b\<rparr>)
       (enumerate (Suc b) ds)"

definition create_booking ::
    "calendar \<Rightarrow> uid \<Rightarrow> EntryKind \<Rightarrow> int \<Rightarrow> int \<Rightarrow> int \<Rightarrow> ustr \<Rightarrow> bool
     \<Rightarrow> ('t timesheets_scheme, (nat \<times> TimeEntry list) option) db" where
  "create_booking cal u kind start fin minutes note skip_weekends = stmt (\<lambda>s.
     case booking_days cal skip_weekends start fin of
       None \<Rightarrow> (Inr None, s)
     | Some ds \<Rightarrow>
         let rows = booking_rows u kind minutes note (next_id s) (db_now s) ds
         in if \<not> list_all entry_checks rows then (Inl Unavailable, s)
            else if \<not> list_all (entry_refs_ok s) rows then (Inl ForeignKeyViolation, s)
            else (Inr (Some (next_id s, map row_to_entry rows)),
                  s\<lparr>time_entries := time_entries s @ rows, next_id := next_id s + Suc (length ds)\<rparr>))"

definition in_booking :: "uid \<Rightarrow> nat \<Rightarrow> time_row \<Rightarrow> bool" where
  "in_booking u b r \<longleftrightarrow> te_booking_id r = Some b \<and> te_user_id r = u"

definition delete_booking :: "uid \<Rightarrow> nat \<Rightarrow> ('t timesheets_scheme, nat) db" where
  "delete_booking u b = execute (\<lambda>s. affected (in_booking u b) (time_entries s))
     (\<lambda>s. s\<lparr>time_entries := delete_where (in_booking u b) (time_entries s)\<rparr>)"

section \<open>Locked months\<close>

definition is_lock :: "pid \<Rightarrow> int \<Rightarrow> int \<Rightarrow> PeriodLock \<Rightarrow> bool" where
  "is_lock p y m l \<longleftrightarrow> pl_project_id l = p \<and> pl_year l = y \<and> pl_month l = m"

definition is_locked :: "pid \<Rightarrow> int \<Rightarrow> int \<Rightarrow> ('t timesheets_scheme, bool) db" where
  "is_locked p y m = query (\<lambda>s. any_row (is_lock p y m) (period_locks s))"

definition db_lock_period :: "pid \<Rightarrow> int \<Rightarrow> int \<Rightarrow> uid \<Rightarrow> ('t timesheets_scheme, PeriodLock) db" where
  "db_lock_period p y m by_user = stmt (\<lambda>s.
     case find_row (is_lock p y m) (period_locks s) of
       Some l \<Rightarrow> (Inr l, s)
     | None \<Rightarrow>
         let l = \<lparr>pl_id = next_id s, pl_project_id = p, pl_year = y, pl_month = m, pl_locked_by = Some by_user,
                  pl_locked_at = db_now s\<rparr>
         in if m < 1 \<or> 12 < m then (Inl Unavailable, s)
            else if p \<notin> set (map pj_id (projects s)) \<or> by_user \<notin> set (map u_id (users s)) then (Inl ForeignKeyViolation, s)
            else (Inr l, s\<lparr>period_locks := period_locks s @ [l], next_id := Suc (next_id s)\<rparr>))"

definition db_unlock_period :: "pid \<Rightarrow> int \<Rightarrow> int \<Rightarrow> ('t timesheets_scheme, bool) db" where
  "db_unlock_period p y m = execute (\<lambda>s. affected (is_lock p y m) (period_locks s) > 0)
     (\<lambda>s. s\<lparr>period_locks := delete_where (is_lock p y m) (period_locks s)\<rparr>)"

definition db_list_locks :: "pid \<Rightarrow> ('t timesheets_scheme, PeriodLock list) db" where
  "db_list_locks p = query (\<lambda>s. rev (sort_key pl_year (sort_key pl_month (filter (\<lambda>l. pl_project_id l = p) (period_locks s)))))"

section \<open>Allowances\<close>

definition list_allowances :: "uid \<Rightarrow> ('t timesheets_scheme, VacationAllowance list) db" where
  "list_allowances u = query (\<lambda>s. rev (sort_key va_year (filter (\<lambda>a. va_user_id a = u) (allowances s))))"

definition is_allowance :: "uid \<Rightarrow> int \<Rightarrow> VacationAllowance \<Rightarrow> bool" where
  "is_allowance u y a \<longleftrightarrow> va_user_id a = u \<and> va_year a = y"

definition upsert_allowance :: "uid \<Rightarrow> int \<Rightarrow> f64 \<Rightarrow> f64 \<Rightarrow> ustr \<Rightarrow> uid \<Rightarrow> ('t timesheets_scheme, VacationAllowance) db" where
  "upsert_allowance u y days carried note admin = stmt (\<lambda>s.
     let set_it = (\<lambda>a. a\<lparr>va_allowance_days := days, va_carried_over_days := carried, va_note := note,
                          va_set_by := Some admin, va_modified_at := db_now s\<rparr>);
         fresh = \<lparr>va_id = next_id s, va_user_id = u, va_year = y, va_allowance_days = days, va_carried_over_days = carried,
                  va_note = note, va_set_by = Some admin, va_created_at = db_now s, va_modified_at = db_now s\<rparr>
     in if days < 0 \<or> carried < 0 then (Inl Unavailable, s)
        else if u \<notin> set (map u_id (users s)) \<or> admin \<notin> set (map u_id (users s)) then (Inl ForeignKeyViolation, s)
        else case find_row (is_allowance u y) (allowances s) of
               Some a \<Rightarrow> (Inr (set_it a), s\<lparr>allowances := update_where (is_allowance u y) set_it (allowances s)\<rparr>)
             | None \<Rightarrow> (Inr fresh, s\<lparr>allowances := allowances s @ [fresh], next_id := Suc (next_id s)\<rparr>))"

definition target_of :: "uid \<Rightarrow> 't timesheets_scheme \<Rightarrow> int" where
  "target_of u s = (case map_of (work_targets s) u of None \<Rightarrow> 480 | Some m \<Rightarrow> m)"

definition account_live :: "uid \<Rightarrow> user_row \<Rightarrow> bool" where
  "account_live u q \<longleftrightarrow> has_id u q \<and> u_deleted_at q = None"

definition work_minutes_per_day :: "uid \<Rightarrow> ('t timesheets_scheme, int option) db" where
  "work_minutes_per_day u = query (\<lambda>s. if any_row (account_live u) (users s) then Some (target_of u s) else None)"

definition set_work_minutes_per_day :: "uid \<Rightarrow> int \<Rightarrow> ('t timesheets_scheme, bool) db" where
  "set_work_minutes_per_day u m = execute (\<lambda>s. affected (account_live u) (users s) > 0)
     (\<lambda>s. if any_row (account_live u) (users s) then s\<lparr>work_targets := AList.update u m (work_targets s)\<rparr> else s)"

record VacationYear =
  vy_year :: int
  vy_allowance_days :: f64
  vy_carried_over_days :: f64
  vy_used_days :: f64
  vy_remaining_days :: f64

record VacationBalance =
  vb_user_id :: uid
  vb_work_minutes_per_day :: int
  vb_years :: "VacationYear list"

definition f64_div :: "f64 \<Rightarrow> f64 \<Rightarrow> f64" where "f64_div a b = f64_round (a / b)"

definition i32_or_max :: "int \<Rightarrow> int" where
  "i32_or_max n = (if - (2 ^ 31) \<le> n \<and> n < 2 ^ 31 then n else 2 ^ 31 - 1)"

definition vacation_of :: "uid \<Rightarrow> 't timesheets_scheme \<Rightarrow> time_row list" where
  "vacation_of u s = filter (\<lambda>r. te_user_id r = u \<and> te_kind r = lit ''vacation'') (time_entries s)"

definition used_minutes :: "calendar \<Rightarrow> time_row list \<Rightarrow> int \<Rightarrow> int" where
  "used_minutes cal rs y = sum_list (map te_minutes (filter (\<lambda>r. cal_year cal (te_entry_date r) = y) rs))"

definition vacation_year :: "calendar \<Rightarrow> int \<Rightarrow> VacationAllowance list \<Rightarrow> time_row list \<Rightarrow> int \<Rightarrow> VacationYear" where
  "vacation_year cal target quotas rs y =
     (let (allowance, carried) = (case map_of (rev (map (\<lambda>a. (va_year a, (va_allowance_days a, va_carried_over_days a))) quotas)) y of
            None \<Rightarrow> (0, 0) | Some p \<Rightarrow> p);
          used = f64_div (of_int (i32_or_max (used_minutes cal rs y))) (of_int (max target 1))
      in \<lparr>vy_year = y, vy_allowance_days = allowance, vy_carried_over_days = carried, vy_used_days = used,
          vy_remaining_days = f64_sub (f64_add allowance carried) used\<rparr>)"

definition vacation_balance :: "calendar \<Rightarrow> uid \<Rightarrow> ('t timesheets_scheme, VacationBalance) db" where
  "vacation_balance cal u =
     andThen (work_minutes_per_day u) (\<lambda>t.
     andThen (list_allowances u) (\<lambda>quotas.
     andThen (query (vacation_of u)) (\<lambda>rs.
       let target = unwrap_or t 480;
           years = rev (sort (remdups (map va_year quotas @ map (\<lambda>r. cal_year cal (te_entry_date r)) rs)))
       in State_Monad.return (Inr \<lparr>vb_user_id = u, vb_work_minutes_per_day = target,
            vb_years = map (vacation_year cal target quotas rs) years\<rparr>))))"

end
