(* ===== verification/Time_Reports.thy ===== *)
theory Time_Reports
  imports Time_Db
begin

text \<open>The report queries of the time tracking (\<open>crates/db/src/time_tracking.rs\<close>) and what they compute.\<close>

section \<open>Timesheet completeness\<close>

definition minutes_on :: "time_row list \<Rightarrow> int \<Rightarrow> int" where
  "minutes_on rs d = sum_list (map te_minutes (filter (\<lambda>r. te_entry_date r = d) rs))"

text \<open>The minutes of each date with an entry.\<close>

definition per_date :: "time_row list \<Rightarrow> (int \<times> int) list" where
  "per_date rs = map (\<lambda>d. (d, minutes_on rs d)) (sort (remdups (map te_entry_date rs)))"

definition minutes_by_date :: "uid \<Rightarrow> int \<Rightarrow> int \<Rightarrow> ('t timesheets_scheme, (int \<times> int) list) db" where
  "minutes_by_date u from to =
     query (\<lambda>s. per_date (filter (\<lambda>r. te_user_id r = u \<and> in_dates from to r) (time_entries s)))"

definition excluded_from_time_reports :: "uid \<Rightarrow> ('t timesheets_scheme, bool) db" where
  "excluded_from_time_reports u = query (excluded u)"

record TimesheetSummary =
  tm_year :: int
  tm_month :: nat
  tm_work_minutes_per_day :: int
  tm_logged_minutes :: int
  tm_required_minutes :: int
  tm_working_days :: nat
  tm_complete_days :: nat
  tm_missing_days :: "ustr list"

text \<open>The loop over the days: working days, complete days, and the missing ones in order.\<close>

function day_loop ::
    "calendar \<Rightarrow> int \<Rightarrow> bool \<Rightarrow> (int \<times> int) list \<Rightarrow> int \<Rightarrow> int \<Rightarrow> nat \<times> nat \<times> ustr list \<Rightarrow> nat \<times> nat \<times> ustr list" where
  "day_loop cal target exempt by_date d upto_day acc =
     (if upto_day < d then acc
      else day_loop cal target exempt by_date (d + 1) upto_day
        (case acc of (w, c, missing) \<Rightarrow>
           if is_working_day cal d
           then (if target \<le> unwrap_or (map_of by_date d) 0 then (Suc w, Suc c, missing)
                 else if \<not> exempt then (Suc w, c, missing @ [cal_format cal d])
                 else (Suc w, c, missing))
           else (w, c, missing)))"
  by pat_completeness auto

termination by (relation "measure (\<lambda>(cal, t, e, b, d, upto_day, acc). nat (upto_day + 1 - d))") auto

declare day_loop.simps [simp del]

definition summarize ::
    "calendar \<Rightarrow> int \<Rightarrow> bool \<Rightarrow> (int \<times> int) list \<Rightarrow> int \<Rightarrow> nat \<Rightarrow> int \<Rightarrow> int \<Rightarrow> int \<Rightarrow> TimesheetSummary" where
  "summarize cal target exempt by_date year month start fin today =
     (let upto_day = (if today < fin then today else fin);
          (w, c, missing) = (if start \<le> upto_day then day_loop cal target exempt by_date start upto_day (0, 0, []) else (0, 0, []))
      in \<lparr>tm_year = year, tm_month = month, tm_work_minutes_per_day = target,
          tm_logged_minutes = sum_list (map snd by_date), tm_required_minutes = int w * target, tm_working_days = w,
          tm_complete_days = c, tm_missing_days = missing\<rparr>)"

definition timesheet_summary :: "calendar \<Rightarrow> uid \<Rightarrow> int \<Rightarrow> nat \<Rightarrow> int \<Rightarrow> ('t timesheets_scheme, TimesheetSummary) db" where
  "timesheet_summary cal u year month today =
     andThen (work_minutes_per_day u) (\<lambda>t.
     andThen (excluded_from_time_reports u) (\<lambda>exempt.
     andThen (State_Monad.return (month_start cal year month)) (\<lambda>start.
     andThen (State_Monad.return (month_end cal year month)) (\<lambda>fin.
     andThen (minutes_by_date u start fin) (\<lambda>by_date.
       State_Monad.return (Inr (summarize cal (unwrap_or t 480) exempt by_date year month start fin today)))))))"

section \<open>The team grid\<close>

record DayMinutes =
  dm_date :: ustr
  dm_minutes :: int

record TeamMemberMonth =
  tw_user_id :: uid
  tw_username :: ustr
  tw_full_name :: ustr
  tw_total_minutes :: int
  tw_days :: "DayMinutes list"

record TeamMonth =
  tg_members :: "TeamMemberMonth list"
  tg_excluded_members :: nat

text \<open>A row of the query: an account, and a date with its minutes if it has any.\<close>

type_synonym grid_row = "user_row \<times> (int \<times> int) option"

text \<open>
  The rows of an account are its dates with their sums, or one row without a date. The query leaves the
  order of the dates of an account open; here they ascend.
\<close>

definition grid_rows :: "(ustr \<Rightarrow> rat) \<Rightarrow> (uid \<Rightarrow> time_row list) \<Rightarrow> user_row list \<Rightarrow> grid_row list" where
  "grid_rows coll entries_of us = concat (map (\<lambda>u.
     (case per_date (entries_of (u_id u)) of [] \<Rightarrow> [(u, None)] | ds \<Rightarrow> map (\<lambda>d. (u, Some d)) ds))
     (sort_key (\<lambda>u. coll (u_full_name u)) us))"

definition add_day :: "calendar \<Rightarrow> (int \<times> int) option \<Rightarrow> TeamMemberMonth \<Rightarrow> TeamMemberMonth" where
  "add_day cal day t = (case day of
     None \<Rightarrow> t
   | Some (d, mins) \<Rightarrow> t\<lparr>tw_total_minutes := tw_total_minutes t + mins,
       tw_days := tw_days t @ [\<lparr>dm_date = cal_format cal d, dm_minutes = mins\<rparr>]\<rparr>)"

definition fresh_member :: "user_row \<Rightarrow> TeamMemberMonth" where
  "fresh_member u = \<lparr>tw_user_id = u_id u, tw_username = u_username u, tw_full_name = u_full_name u,
     tw_total_minutes = 0, tw_days = []\<rparr>"

text \<open>Members in the order in which they are first seen.\<close>

definition add_row :: "calendar \<Rightarrow> TeamMemberMonth list \<Rightarrow> grid_row \<Rightarrow> TeamMemberMonth list" where
  "add_row cal acc row = (case row of (u, day) \<Rightarrow>
     if any_row (\<lambda>t. tw_user_id t = u_id u) acc
     then update_where (\<lambda>t. tw_user_id t = u_id u) (add_day cal day) acc
     else acc @ [add_day cal day (fresh_member u)])"

definition rows_to_team :: "calendar \<Rightarrow> grid_row list \<Rightarrow> TeamMemberMonth list" where
  "rows_to_team cal rows = foldl (add_row cal) [] rows"

text \<open>The members of a project with their accounts.\<close>

definition project_users :: "pid \<Rightarrow> 't timesheets_scheme \<Rightarrow> user_row list" where
  "project_users p s = List.map_filter (\<lambda>m. if mb_project_id m = p then find_row (has_id (mb_user_id m)) (users s) else None) (members s)"

definition project_work :: "pid \<Rightarrow> int \<Rightarrow> int \<Rightarrow> 't timesheets_scheme \<Rightarrow> uid \<Rightarrow> time_row list" where
  "project_work p from to s u =
     filter (\<lambda>r. te_user_id r = u \<and> te_project_id r = Some p \<and> worked r \<and> in_dates from to r) (time_entries s)"

definition db_team_month :: "calendar \<Rightarrow> (ustr \<Rightarrow> rat) \<Rightarrow> pid \<Rightarrow> int \<Rightarrow> nat \<Rightarrow> ('t timesheets_scheme, TeamMonth) db" where
  "db_team_month cal coll p year month =
     andThen (State_Monad.return (month_start cal year month)) (\<lambda>start.
     andThen (State_Monad.return (month_end cal year month)) (\<lambda>fin.
     andThen (query (\<lambda>s. grid_rows coll (project_work p start fin s)
       (filter (\<lambda>u. \<not> u_exclude_from_time_reports u) (project_users p s)))) (\<lambda>rows.
     andThen (query (\<lambda>s. count_where (\<lambda>u. u_exclude_from_time_reports u \<and> u_deleted_at u = None) (project_users p s))) (\<lambda>n.
       State_Monad.return (Inr \<lparr>tg_members = rows_to_team cal rows, tg_excluded_members = n\<rparr>)))))"

definition all_work :: "int \<Rightarrow> int \<Rightarrow> 't timesheets_scheme \<Rightarrow> uid \<Rightarrow> time_row list" where
  "all_work from to s u = filter (\<lambda>r. te_user_id r = u \<and> worked r \<and> in_dates from to r) (time_entries s)"

definition db_global_team_month :: "calendar \<Rightarrow> (ustr \<Rightarrow> rat) \<Rightarrow> int \<Rightarrow> nat \<Rightarrow> ('t timesheets_scheme, TeamMonth) db" where
  "db_global_team_month cal coll year month =
     andThen (State_Monad.return (month_start cal year month)) (\<lambda>start.
     andThen (State_Monad.return (month_end cal year month)) (\<lambda>fin.
     andThen (query (\<lambda>s. grid_rows coll (all_work start fin s)
       (filter (\<lambda>u. u_deleted_at u = None \<and> \<not> u_exclude_from_time_reports u) (users s)))) (\<lambda>rows.
     andThen (query (\<lambda>s. count_where (\<lambda>u. u_deleted_at u = None \<and> u_exclude_from_time_reports u) (users s))) (\<lambda>n.
       State_Monad.return (Inr \<lparr>tg_members = rows_to_team cal rows, tg_excluded_members = n\<rparr>)))))"

section \<open>Lists\<close>

definition list_all_entries ::
    "(ustr \<Rightarrow> rat) \<Rightarrow> int \<Rightarrow> int \<Rightarrow> uid option \<Rightarrow> pid option \<Rightarrow> ustr option \<Rightarrow> ('t timesheets_scheme, TimeEntryDetail list) db" where
  "list_all_entries coll from to user project kind = query (\<lambda>s. map (row_to_detail s) (by_person coll s
     (filter (\<lambda>r. in_dates from to r \<and> (user = None \<or> Some (te_user_id r) = user) \<and> opt_eq project (te_project_id r) \<and>
         (kind = None \<or> Some (te_kind r) = kind)) (time_entries s))))"

record Availability =
  av_user_id :: uid
  av_username :: ustr
  av_full_name :: ustr
  av_kind :: EntryKind
  av_minutes :: int

definition availability :: "(ustr \<Rightarrow> rat) \<Rightarrow> pid \<Rightarrow> int \<Rightarrow> ('t timesheets_scheme, Availability list) db" where
  "availability coll p d = query (\<lambda>s. sort_key (\<lambda>a. coll (av_full_name a)) (remdups (concat (map (\<lambda>u.
     map (\<lambda>r. \<lparr>av_user_id = u_id u, av_username = u_username u, av_full_name = u_full_name u, av_kind = kind_from_row r,
               av_minutes = te_minutes r\<rparr>)
       (filter (\<lambda>r. te_user_id r = u_id u \<and> te_entry_date r = d \<and> \<not> worked r) (time_entries s))) (project_users p s)))))"

definition issue_assignment :: "nat \<Rightarrow> ('t timesheets_scheme, (pid \<times> uid option \<times> bool) option) db" where
  "issue_assignment i = query (\<lambda>s. map_option (\<lambda>r. (is_project_id r, is_assigned_to r, is_deleted_at r \<noteq> None))
     (find_row (\<lambda>r. is_id r = i) (issues s)))"

record AssignedTask =
  tk_id :: nat
  tk_project_id :: pid
  tk_project_name :: ustr
  tk_project_slug :: ustr
  tk_reference :: int
  tk_subject :: ustr

definition task_of :: "project_row \<Rightarrow> issue_row \<Rightarrow> AssignedTask" where
  "task_of p r = \<lparr>tk_id = is_id r, tk_project_id = is_project_id r, tk_project_name = pj_name p, tk_project_slug = pj_slug p,
     tk_reference = is_ref r, tk_subject = is_subject r\<rparr>"

text \<open>The issues joined with their projects, by project name and reference.\<close>

definition tasks_where :: "(ustr \<Rightarrow> rat) \<Rightarrow> (issue_row \<Rightarrow> bool) \<Rightarrow> 't timesheets_scheme \<Rightarrow> AssignedTask list" where
  "tasks_where coll P s = sort_key (\<lambda>t. coll (tk_project_name t)) (sort_key tk_reference
     (List.map_filter (\<lambda>r. if P r then map_option (\<lambda>p. task_of p r) (find_row (\<lambda>q. pj_id q = is_project_id r) (projects s)) else None)
       (issues s)))"

definition assigned_issues_for_user :: "(ustr \<Rightarrow> rat) \<Rightarrow> uid \<Rightarrow> ('t timesheets_scheme, AssignedTask list) db" where
  "assigned_issues_for_user coll u =
     query (tasks_where coll (\<lambda>r. is_assigned_to r = Some u \<and> is_deleted_at r = None))"

text \<open>The typed text goes unescaped into the pattern of \<open>ILIKE\<close>.\<close>

definition like_pattern :: "ustr option \<Rightarrow> ustr option" where
  "like_pattern search = Option.bind (map_option trim search) (\<lambda>t. if t = [] then None else Some ([37] @ t @ [37]))"

definition ilike :: "env \<Rightarrow> ustr \<Rightarrow> ustr \<Rightarrow> bool" where
  "ilike env t pat \<longleftrightarrow> like (to_lowercase env pat) (to_lowercase env t)"

definition loggable_issues_for_user ::
    "env \<Rightarrow> (ustr \<Rightarrow> rat) \<Rightarrow> uid \<Rightarrow> ustr option \<Rightarrow> pid option \<Rightarrow> nat \<Rightarrow> ('t timesheets_scheme, AssignedTask list) db" where
  "loggable_issues_for_user env coll u search project limit = query (\<lambda>s. take limit (tasks_where coll (\<lambda>r.
     is_deleted_at r = None \<and> any_row (is_member (is_project_id r) u) (members s) \<and>
     (project = None \<or> Some (is_project_id r) = project) \<and>
     (case like_pattern search of None \<Rightarrow> True | Some pat \<Rightarrow> ilike env (is_subject r) pat \<or> ilike env (int_str (is_ref r)) pat)) s))"

section \<open>What the loops compute\<close>

text \<open>A booking has its days in order, each working day of the range once, and it stops.\<close>

definition days_between :: "int \<Rightarrow> int \<Rightarrow> int list" where
  "days_between d fin = map (\<lambda>k. d + int k) [0..<nat (fin + 1 - d)]"

lemma days_between_Nil [simp]: "fin < d \<Longrightarrow> days_between d fin = []"
  by (simp add: days_between_def)

lemma days_between_step: "d \<le> fin \<Longrightarrow> days_between d fin = d # days_between (d + 1) fin"
proof -
  assume "d \<le> fin"
  then have "nat (fin + 1 - d) = Suc (nat (fin - d))" by linarith
  moreover have "nat (fin + 1 - (d + 1)) = nat (fin - d)" by simp
  ultimately show ?thesis
    unfolding days_between_def by (simp add: upt_conv_Cons map_Suc_upt [symmetric] comp_def algebra_simps del: upt_Suc)
qed

lemma in_days_between [simp]: "x \<in> set (days_between d fin) \<longleftrightarrow> d \<le> x \<and> x \<le> fin"
  by (auto simp: days_between_def image_iff intro: bexI [of _ "nat (x - d)"])

lemma booking_days_exact:
  "booking_days cal skip d fin =
     (if d \<le> fin \<and> d \<le> cal_max cal \<and> cal_max cal \<le> fin then None
      else Some (filter (\<lambda>x. \<not> skip \<or> is_working_day cal x) (days_between d fin)))"
proof (induction cal skip d fin rule: booking_days.induct)
  case (1 cal skip d fin)
  show ?case
  proof (cases "fin < d \<or> d = cal_max cal")
    case False
    then show ?thesis
      using 1 by (subst booking_days.simps) (auto simp: days_between_step)
  next
    case True
    then show ?thesis by (subst booking_days.simps) auto
  qed
qed

lemma day_loop_exact:
  "day_loop cal target exempt by_date d fin (w, c, missing) =
     (let ds = filter (is_working_day cal) (days_between d fin);
          full = (\<lambda>x. target \<le> unwrap_or (map_of by_date x) 0)
      in (w + length ds, c + length (filter full ds),
          missing @ (if exempt then [] else map (cal_format cal) (filter (\<lambda>x. \<not> full x) ds))))"
proof (induction "nat (fin + 1 - d)" arbitrary: d exempt w c missing)
  case 0
  then show ?case by (simp add: day_loop.simps)
next
  case (Suc n)
  then have "d \<le> fin" "n = nat (fin + 1 - (d + 1))" by linarith+
  then show ?case
    by (subst day_loop.simps) (simp add: Suc.hyps(1) days_between_step Let_def)
qed

end
