(* ===== verification/Time_Api.thy ===== *)
theory Time_Api
  imports Time_Reports
begin

text \<open>
  The handlers of the time tracking (\<open>crates/api/src/time_tracking.rs\<close>): the caller's own entries, absences
  and reports, a project's entries and locked months, allowances and reports of the administration. The
  caller of \<open>/me\<close> and the administrator are the account the extractor let through; ids of the path have
  been parsed by the router.
\<close>

section \<open>Refusals and ranges\<close>

definition invalid :: "string \<Rightarrow> response" where
  "invalid detail = problem 422 (lit ''validation_failed'') (Some (lit detail))"

definition period_locked :: response where
  "period_locked = problem 409 (lit ''period_locked'') (Some (lit ''this timesheet period is locked''))"

definition entry_stale :: response where
  "entry_stale = problem 409 (lit ''version_conflict'') (Some (lit ''the entry was modified; reload and retry''))"

text \<open>The server aborted: the caller gets no answer at all, which the model writes as status 0.\<close>

definition aborted :: response where
  "aborted = problem 0 [] None"

definition parse_time_body :: "('r \<Rightarrow> bool) \<Rightarrow> 'r json_body \<Rightarrow> response + 'r" where
  "parse_time_body valid body =
     (case body of
        Json v \<Rightarrow> if valid v then Inr v else Inl (invalid ''invalid fields'')
      | _ \<Rightarrow> Inl (problem 400 (lit ''invalid_body'') None))"

definition parse_date :: "calendar \<Rightarrow> ustr \<Rightarrow> response + int" where
  "parse_date cal t =
     (case cal_parse cal t of None \<Rightarrow> Inl (invalid ''invalid date (expected YYYY-MM-DD)'') | Some d \<Rightarrow> Inr d)"

definition date_or :: "calendar \<Rightarrow> int \<Rightarrow> ustr option \<Rightarrow> response + int" where
  "date_or cal d t = (case t of None \<Rightarrow> Inr d | Some x \<Rightarrow> parse_date cal x)"

definition resolve_range :: "calendar \<Rightarrow> int \<Rightarrow> ustr option \<Rightarrow> ustr option \<Rightarrow> response + int \<times> int" where
  "resolve_range cal now from to =
     (case date_or cal (fst (default_range cal (cal_today cal now))) from of
        Inl e \<Rightarrow> Inl e
      | Inr a \<Rightarrow>
          (case date_or cal (snd (default_range cal (cal_today cal now))) to of
             Inl e \<Rightarrow> Inl e
           | Inr b \<Rightarrow> Inr (a, b)))"

definition in_range ::
    "calendar \<Rightarrow> ustr option \<Rightarrow> ustr option \<Rightarrow> (int \<Rightarrow> int \<Rightarrow> ('t timesheets_scheme, response + 'a) state)
     \<Rightarrow> ('t timesheets_scheme, response + 'a) state" where
  "in_range cal from to f = do { now \<leftarrow> get_now; passing (resolve_range cal now from to) (\<lambda>(a, b). f a b) }"

definition int_between :: "int \<Rightarrow> int \<Rightarrow> int \<Rightarrow> bool" where
  "int_between lo hi n \<longleftrightarrow> lo \<le> n \<and> n \<le> hi"

definition opt_int :: "env \<Rightarrow> nat option \<Rightarrow> ustr" where
  "opt_int env x = (case x of None \<Rightarrow> lit ''null'' | Some i \<Rightarrow> e_uuid_str env i)"

section \<open>Own entries\<close>

record RangeQuery =
  rq_from :: "ustr option"
  rq_to :: "ustr option"
  rq_project_id :: "pid option"
  rq_issue_id :: "nat option"
  rq_user_id :: "uid option"

definition list_my_entries :: "calendar \<Rightarrow> uid \<Rightarrow> RangeQuery \<Rightarrow> ('t timesheets_scheme, TimeEntryDetail list) handler" where
  "list_my_entries cal user q = in_range cal (rq_from q) (rq_to q) (\<lambda>from to. with_client (
     served (list_for_user user from to (rq_project_id q) (rq_issue_id q)) (answer 200)))"

definition list_my_assigned_issues :: "(ustr \<Rightarrow> rat) \<Rightarrow> uid \<Rightarrow> ('t timesheets_scheme, AssignedTask list) handler" where
  "list_my_assigned_issues coll user = with_client (served (assigned_issues_for_user coll user) (answer 200))"

definition list_my_loggable_issues ::
    "env \<Rightarrow> (ustr \<Rightarrow> rat) \<Rightarrow> uid \<Rightarrow> ustr option \<Rightarrow> pid option \<Rightarrow> ('t timesheets_scheme, AssignedTask list) handler" where
  "list_my_loggable_issues env coll user search project =
     with_client (served (loggable_issues_for_user env coll user search project 50) (answer 200))"

record LogTimeRequest =
  lt_kind :: "ustr option"
  lt_issue_id :: "nat option"
  lt_project_id :: "pid option"
  lt_meeting_type :: "ustr option"
  lt_date :: ustr
  lt_minutes :: int
  lt_note :: "ustr option"

definition valid_log :: "LogTimeRequest \<Rightarrow> bool" where
  "valid_log r \<longleftrightarrow> opt_all (len_between 0 16) (lt_kind r) \<and> opt_all (len_between 0 16) (lt_meeting_type r) \<and>
     len_between 10 10 (lt_date r) \<and> int_between 1 1440 (lt_minutes r) \<and> opt_all (len_between 0 2000) (lt_note r)"

definition log_kind :: "ustr option \<Rightarrow> response + EntryKind" where
  "log_kind k = (let t = unwrap_or k (lit ''work'')
     in if t = lit ''work'' then Inr EntryKind.Work else if t = lit ''meeting'' then Inr EntryKind.Meeting
        else Inl (problem 422 (lit ''validation_failed'') (Some (lit ''kind must be 'work' or 'meeting'' @ [39]))))"

definition log_meeting_type :: "EntryKind \<Rightarrow> ustr option \<Rightarrow> response + ustr option" where
  "log_meeting_type kind m =
     (case m of
        Some t \<Rightarrow>
          if kind = EntryKind.Meeting
          then (case MeetingType_parse t of None \<Rightarrow> Inl (invalid ''invalid meeting_type'') | Some x \<Rightarrow> Inr (Some (MeetingType_as_str x)))
          else Inr None
      | None \<Rightarrow> Inr None)"

text \<open>The project an entry counts for: that of its task, or the named one.\<close>

definition entry_project :: "nat option \<Rightarrow> pid option \<Rightarrow> ('t timesheets_scheme, response + pid option) state" where
  "entry_project issue project =
     (case issue of
        None \<Rightarrow> State_Monad.return (Inr project)
      | Some i \<Rightarrow>
          served (issue_assignment i) (\<lambda>r.
            case r of
              Some (p, _, False) \<Rightarrow> State_Monad.return (Inr (Some p))
            | Some (_, _, True) \<Rightarrow> refuse (invalid ''task no longer exists'')
            | None \<Rightarrow> refuse (invalid ''task not found'')))"

definition work_rules :: "EntryKind \<Rightarrow> pid option \<Rightarrow> nat option \<Rightarrow> ustr \<Rightarrow> response + unit" where
  "work_rules kind project issue note =
     (if kind = EntryKind.Work \<and> project = None then Inl (invalid ''work needs a task or a project'')
      else if kind = EntryKind.Work \<and> issue = None \<and> note = [] then Inl (invalid ''a note is required when no task is selected'')
      else Inr ())"

text \<open>\<open>access(..).await.ok().flatten()\<close> and what it grants.\<close>

definition grants :: "MemberAccess option \<Rightarrow> Permission \<Rightarrow> bool" where
  "grants a perm \<longleftrightarrow> (case a of None \<Rightarrow> False | Some x \<Rightarrow> access_has x perm)"

definition may_log :: "calendar \<Rightarrow> uid \<Rightarrow> pid option \<Rightarrow> int \<Rightarrow> ('t timesheets_scheme, response + unit) state" where
  "may_log cal user project date =
     (case project of
        None \<Rightarrow> State_Monad.return (Inr ())
      | Some p \<Rightarrow> do {
          r \<leftarrow> access p user;
          if \<not> grants (ok_or r None) TimeLog then refuse forbidden
          else served (case_prod (is_locked p) (year_month cal date)) (\<lambda>shut.
            if shut \<and> \<not> grants (ok_or r None) TimeManage then refuse period_locked else State_Monad.return (Inr ()))
        })"

definition log_entry ::
    "env \<Rightarrow> HeaderMap \<Rightarrow> uid \<Rightarrow> ustr \<Rightarrow> (ustr \<times> ustr) list \<Rightarrow> NewEntry \<Rightarrow> ('t timesheets_scheme, TimeEntry) handler" where
  "log_entry env headers actor what details new = served (create_entry new) (\<lambda>e. do {
     _ \<leftarrow> audit env headers (Some actor) what ((lit ''entry_id'', e_uuid_str env (te_id (to_row e))) # details);
     answer 201 e
   })"

definition log_my_time ::
    "env \<Rightarrow> calendar \<Rightarrow> HeaderMap \<Rightarrow> uid \<Rightarrow> LogTimeRequest json_body \<Rightarrow> ('t timesheets_scheme, TimeEntry) handler" where
  "log_my_time env cal headers user body =
     passing (parse_time_body valid_log body) (\<lambda>req.
     passing (parse_date cal (lt_date req)) (\<lambda>date. with_client (
     passing (log_kind (lt_kind req)) (\<lambda>kind.
     passing (log_meeting_type kind (lt_meeting_type req)) (\<lambda>mt.
       let note = trim (unwrap_or (lt_note req) []); issue = (if kind = EntryKind.Work then lt_issue_id req else None)
       in do {
         project \<leftarrow> entry_project issue (lt_project_id req);
         passing project (\<lambda>p.
         passing (work_rules kind p issue note) (\<lambda>_.
         verifying (may_log cal user p date) (
         log_entry env headers user (lit ''time_entry_logged'')
           [(lit ''project_id'', opt_int env p), (lit ''minutes'', int_str (lt_minutes req))]
           \<lparr>ne_user_id = user, ne_kind = kind, ne_meeting_type = mt, ne_project_id = p, ne_issue_id = issue,
            ne_entry_date = date, ne_minutes = lt_minutes req, ne_note = note, ne_booking_id = None\<rparr>)))
       })))))"

record UpdateTimeRequest =
  ut_minutes :: int
  ut_note :: "ustr option"
  ut_date :: "ustr option"
  ut_version :: int

definition valid_time_update :: "UpdateTimeRequest \<Rightarrow> bool" where
  "valid_time_update r \<longleftrightarrow> int_between 1 1440 (ut_minutes r) \<and> opt_all (len_between 0 2000) (ut_note r) \<and>
     opt_all (len_between 10 10) (ut_date r) \<and> int_between 1 1000000 (ut_version r)"

text \<open>A locked month is closed to whoever may not manage the time of the project.\<close>

definition guard_locked :: "calendar \<Rightarrow> pid option \<Rightarrow> int \<Rightarrow> uid \<Rightarrow> ('t timesheets_scheme, response + unit) state" where
  "guard_locked cal project date actor =
     (case project of
        None \<Rightarrow> State_Monad.return (Inr ())
      | Some p \<Rightarrow> served (case_prod (is_locked p) (year_month cal date)) (\<lambda>shut.
          if shut then do {
            r \<leftarrow> access p actor;
            if grants (ok_or r None) TimeManage then State_Monad.return (Inr ()) else refuse period_locked
          } else State_Monad.return (Inr ())))"

definition guard_move :: "calendar \<Rightarrow> time_row \<Rightarrow> int option \<Rightarrow> uid \<Rightarrow> ('t timesheets_scheme, response + unit) state" where
  "guard_move cal r date actor =
     (case date of
        None \<Rightarrow> State_Monad.return (Inr ())
      | Some d \<Rightarrow> if d \<noteq> te_entry_date r then guard_locked cal (te_project_id r) d actor else State_Monad.return (Inr ()))"

definition parse_new_date :: "calendar \<Rightarrow> ustr option \<Rightarrow> response + int option" where
  "parse_new_date cal t = (case t of None \<Rightarrow> Inr None | Some x \<Rightarrow> map_sum (\<lambda>e. e) Some (parse_date cal x))"

text \<open>An entry that someone else owns is answered like an absent one.\<close>

definition owned_by :: "uid \<Rightarrow> TimeEntry option \<Rightarrow> TimeEntry option" where
  "owned_by u x = Option.bind x (\<lambda>e. if te_user_id (to_row e) = u then Some e else None)"

definition change_entry ::
    "env \<Rightarrow> HeaderMap \<Rightarrow> uid \<Rightarrow> ustr \<Rightarrow> (ustr \<times> ustr) list \<Rightarrow> nat \<Rightarrow> int \<Rightarrow> ustr \<Rightarrow> int option \<Rightarrow> int
     \<Rightarrow> ('t timesheets_scheme, TimeEntry) handler" where
  "change_entry env headers actor what details i minutes note date version =
     served (update_entry i minutes note date version) (\<lambda>outcome.
       case outcome of
         Updated e \<Rightarrow> do {
           _ \<leftarrow> audit env headers (Some actor) what ((lit ''entry_id'', e_uuid_str env i) # details);
           answer 200 e
         }
       | Stale \<Rightarrow> refuse entry_stale
       | MissingEntry \<Rightarrow> refuse not_found)"

definition update_my_entry ::
    "env \<Rightarrow> calendar \<Rightarrow> HeaderMap \<Rightarrow> uid \<Rightarrow> nat \<Rightarrow> UpdateTimeRequest json_body \<Rightarrow> ('t timesheets_scheme, TimeEntry) handler" where
  "update_my_entry env cal headers user i body =
     passing (parse_time_body valid_time_update body) (\<lambda>req. with_client (
       served (get_entry i) (\<lambda>found. present (owned_by user found) (\<lambda>e.
       verifying (guard_locked cal (te_project_id (to_row e)) (te_entry_date (to_row e)) user) (
       passing (parse_new_date cal (ut_date req)) (\<lambda>date.
       verifying (guard_move cal (to_row e) date user) (
         change_entry env headers user (lit ''time_entry_updated'') [] i (ut_minutes req)
           (unwrap_or (ut_note req) (te_note (to_row e))) date (ut_version req))))))))"

definition remove_entry ::
    "env \<Rightarrow> HeaderMap \<Rightarrow> uid \<Rightarrow> ustr \<Rightarrow> (ustr \<times> ustr) list \<Rightarrow> nat \<Rightarrow> ('t timesheets_scheme, unit) handler" where
  "remove_entry env headers actor what details i = served (delete_entry i) (\<lambda>hit.
     if hit then do {
       _ \<leftarrow> audit env headers (Some actor) what ((lit ''entry_id'', e_uuid_str env i) # details);
       answer 204 ()
     } else refuse not_found)"

definition delete_my_entry :: "env \<Rightarrow> calendar \<Rightarrow> HeaderMap \<Rightarrow> uid \<Rightarrow> nat \<Rightarrow> ('t timesheets_scheme, unit) handler" where
  "delete_my_entry env cal headers user i = with_client (
     served (get_entry i) (\<lambda>found. present (owned_by user found) (\<lambda>e.
     verifying (guard_locked cal (te_project_id (to_row e)) (te_entry_date (to_row e)) user) (
       remove_entry env headers user (lit ''time_entry_deleted'') [] i))))"

section \<open>Absences\<close>

record BookAbsenceRequest =
  ba_kind :: ustr
  ba_start_date :: ustr
  ba_end_date :: ustr
  ba_minutes_per_day :: "int option"
  ba_note :: "ustr option"
  ba_skip_weekends :: "bool option"

definition valid_absence :: "BookAbsenceRequest \<Rightarrow> bool" where
  "valid_absence r \<longleftrightarrow> len_between 1 16 (ba_kind r) \<and> len_between 10 10 (ba_start_date r) \<and> len_between 10 10 (ba_end_date r) \<and>
     opt_all (int_between 1 1440) (ba_minutes_per_day r) \<and> opt_all (len_between 0 2000) (ba_note r)"

definition absence_kind :: "ustr \<Rightarrow> response + EntryKind" where
  "absence_kind t =
     (case EntryKind_parse t of
        None \<Rightarrow> Inl (invalid ''unknown absence kind'')
      | Some k \<Rightarrow> if EntryKind_is_absence k then Inr k else Inl (invalid ''kind must be an absence, not work''))"

definition absence_range :: "calendar \<Rightarrow> ustr \<Rightarrow> ustr \<Rightarrow> response + int \<times> int" where
  "absence_range cal a b =
     (case parse_date cal a of
        Inl e \<Rightarrow> Inl e
      | Inr start \<Rightarrow>
          (case parse_date cal b of
             Inl e \<Rightarrow> Inl e
           | Inr fin \<Rightarrow>
               if fin < start then Inl (invalid ''end_date is before start_date'')
               else if fin - start > 366 then Inl (invalid ''range too long (max 366 days)'')
               else Inr (start, fin)))"

definition absence_minutes :: "uid \<Rightarrow> int option \<Rightarrow> ('t timesheets_scheme, int) state" where
  "absence_minutes user m =
     (case m of
        Some x \<Rightarrow> State_Monad.return x
      | None \<Rightarrow> do { r \<leftarrow> work_minutes_per_day user; State_Monad.return (unwrap_or (ok_or r None) 480) })"

definition book_absence ::
    "env \<Rightarrow> calendar \<Rightarrow> HeaderMap \<Rightarrow> uid \<Rightarrow> BookAbsenceRequest json_body \<Rightarrow> ('t timesheets_scheme, nat \<times> TimeEntry list) handler" where
  "book_absence env cal headers user body =
     passing (parse_time_body valid_absence body) (\<lambda>req.
     passing (absence_kind (ba_kind req)) (\<lambda>kind.
     passing (absence_range cal (ba_start_date req) (ba_end_date req)) (\<lambda>(start, fin). with_client (do {
       minutes \<leftarrow> absence_minutes user (ba_minutes_per_day req);
       served (create_booking cal user kind start fin minutes (unwrap_or (ba_note req) []) (unwrap_or (ba_skip_weekends req) True)) (\<lambda>r.
         case r of
           None \<Rightarrow> refuse aborted
         | Some (b, es) \<Rightarrow> do {
             _ \<leftarrow> audit env headers (Some user) (lit ''absence_booked'')
                    [(lit ''booking_id'', e_uuid_str env b), (lit ''kind'', EntryKind_as_str kind), (lit ''days'', nat_str (length es))];
             answer 201 (b, es)
           })
     }))))"

definition delete_absence_booking :: "env \<Rightarrow> HeaderMap \<Rightarrow> uid \<Rightarrow> nat \<Rightarrow> ('t timesheets_scheme, unit) handler" where
  "delete_absence_booking env headers user b = with_client (served (delete_booking user b) (\<lambda>n.
     if n = 0 then refuse not_found
     else do {
       _ \<leftarrow> audit env headers (Some user) (lit ''absence_cancelled'') [(lit ''booking_id'', e_uuid_str env b)];
       answer 204 ()
     }))"

section \<open>Own reports\<close>

definition report_month ::
    "calendar \<Rightarrow> int option \<Rightarrow> nat option \<Rightarrow> (int \<Rightarrow> nat \<Rightarrow> int \<Rightarrow> ('t timesheets_scheme, response + 'a) state)
     \<Rightarrow> ('t timesheets_scheme, response + 'a) state" where
  "report_month cal year month f = do {
     now \<leftarrow> get_now;
     let today = cal_today cal now; y = unwrap_or year (cal_year cal today); m = unwrap_or month (cal_month cal today)
     in if m < 1 \<or> 12 < m then refuse (invalid ''month must be 1..12'') else f y m today
   }"

definition my_timesheet_summary ::
    "calendar \<Rightarrow> uid \<Rightarrow> int option \<Rightarrow> nat option \<Rightarrow> ('t timesheets_scheme, TimesheetSummary) handler" where
  "my_timesheet_summary cal user year month = report_month cal year month (\<lambda>y m today. with_client (
     served (timesheet_summary cal user y m today) (answer 200)))"

definition my_vacation_balance :: "calendar \<Rightarrow> uid \<Rightarrow> ('t timesheets_scheme, VacationBalance) handler" where
  "my_vacation_balance cal user = with_client (served (vacation_balance cal user) (answer 200))"

end
