(* ===== verification/Time_Team.thy ===== *)
theory Time_Team
  imports Time_Api
begin

text \<open>
  The time of a project and the administration of time (\<open>crates/api/src/time_tracking.rs\<close>): corrections by
  managers, locked months, the team grid, the time on an issue, allowances and daily targets; and the
  exports as CSV and as a spreadsheet, whose file format is a parameter.
\<close>

section \<open>Exports\<close>

definition hours :: "int \<Rightarrow> f64" where
  "hours minutes = f64_div (of_int minutes) 60"

text \<open>\<open>{:.2}\<close> of a double that is not negative.\<close>

definition fixed2 :: "f64 \<Rightarrow> ustr" where
  "fixed2 x = (let n = nat (round_even (100 * x)) in nat_str (n div 100) @ [46, 48 + n div 10 mod 10, 48 + n mod 10])"

definition csv_special :: "uchar \<Rightarrow> bool" where
  "csv_special c \<longleftrightarrow> c \<in> {44, 34, 10, 13}"

definition double_quotes :: "ustr \<Rightarrow> ustr" where
  "double_quotes t = concat (map (\<lambda>c. if c = 34 then [34, 34] else [c]) t)"

definition csv_field :: "ustr \<Rightarrow> ustr" where
  "csv_field t = (if list_ex csv_special t then [34] @ double_quotes t @ [34] else t)"

definition export_columns :: "bool \<Rightarrow> ustr list" where
  "export_columns with_user = [lit ''Date''] @ (if with_user then [lit ''User''] else []) @
     [lit ''Kind'', lit ''Project'', lit ''Task'', lit ''Subject'', lit ''Minutes'', lit ''Hours'', lit ''Note'']"

definition task_label :: "TimeEntryDetail \<Rightarrow> ustr" where
  "task_label e = (case td_issue_ref e of None \<Rightarrow> [] | Some r \<Rightarrow> [35] @ int_str r)"

definition csv_row :: "calendar \<Rightarrow> bool \<Rightarrow> TimeEntryDetail \<Rightarrow> ustr list" where
  "csv_row cal with_user e =
     [csv_field (cal_format cal (te_entry_date (to_row e)))] @
     (if with_user then [csv_field (unwrap_or (td_full_name e) [])] else []) @
     [csv_field (EntryKind_as_str (to_kind e)), csv_field (unwrap_or (td_project_name e) []), csv_field (task_label e),
      csv_field (unwrap_or (td_issue_subject e) []), int_str (te_minutes (to_row e)), fixed2 (hours (te_minutes (to_row e))),
      csv_field (te_note (to_row e))]"

definition csv_line :: "ustr list \<Rightarrow> ustr" where
  "csv_line cols = join_with [44] cols @ [10]"

definition build_csv :: "calendar \<Rightarrow> TimeEntryDetail list \<Rightarrow> bool \<Rightarrow> ustr" where
  "build_csv cal es with_user =
     csv_line (export_columns with_user) @ concat (map (\<lambda>e. csv_line (csv_row cal with_user e)) es)"

text \<open>The cells of the sheet, row by row; \<open>xlsx\<close> is the library that writes the file.\<close>

datatype cell = Text ustr | Number f64

definition sheet_row :: "calendar \<Rightarrow> bool \<Rightarrow> TimeEntryDetail \<Rightarrow> cell list" where
  "sheet_row cal with_user e =
     [Text (cal_format cal (te_entry_date (to_row e)))] @
     (if with_user then [Text (unwrap_or (td_full_name e) [])] else []) @
     [Text (EntryKind_as_str (to_kind e)), Text (unwrap_or (td_project_name e) []), Text (task_label e),
      Text (unwrap_or (td_issue_subject e) []), Number (of_int (te_minutes (to_row e))), Number (hours (te_minutes (to_row e))),
      Text (te_note (to_row e))]"

definition build_xlsx :: "(cell list list \<Rightarrow> byte list option) \<Rightarrow> calendar \<Rightarrow> TimeEntryDetail list \<Rightarrow> bool \<Rightarrow> byte list option" where
  "build_xlsx xlsx cal es with_user = xlsx (map Text (export_columns with_user) # map (sheet_row cal with_user) es)"

datatype export = CsvFile ustr | XlsxFile "byte list"

definition export_response ::
    "(cell list list \<Rightarrow> byte list option) \<Rightarrow> calendar \<Rightarrow> TimeEntryDetail list \<Rightarrow> ustr option \<Rightarrow> bool \<Rightarrow> ('s, export) handler" where
  "export_response xlsx cal es format with_user =
     (let f = map ascii_lower (unwrap_or format (lit ''csv''))
      in if f = lit ''xlsx''
         then (case build_xlsx xlsx cal es with_user of None \<Rightarrow> refuse internal | Some bytes \<Rightarrow> answer 200 (XlsxFile bytes))
         else if f = lit ''csv'' then answer 200 (CsvFile (build_csv cal es with_user))
         else refuse (invalid ''format must be csv or xlsx''))"

definition export_my_time ::
    "(cell list list \<Rightarrow> byte list option) \<Rightarrow> calendar \<Rightarrow> uid \<Rightarrow> ustr option \<Rightarrow> ustr option \<Rightarrow> ustr option
     \<Rightarrow> ('t timesheets_scheme, export) handler" where
  "export_my_time xlsx cal user from to format = in_range cal from to (\<lambda>a b. with_client (
     served (list_for_user user a b None None) (\<lambda>es. export_response xlsx cal es format False)))"

section \<open>The time of a project\<close>

definition list_project_time ::
    "calendar \<Rightarrow> (ustr \<Rightarrow> rat) \<Rightarrow> ProjectContext \<Rightarrow> RangeQuery \<Rightarrow> ('t timesheets_scheme, TimeEntryDetail list) handler" where
  "list_project_time cal coll ctx q = permitted ctx TimeViewAll (in_range cal (rq_from q) (rq_to q) (\<lambda>from to. with_client (
     served (list_for_project coll (pr_id (cx_project ctx)) from to (rq_user_id q) ProjectWide) (answer 200))))"

text \<open>The count of withheld members is for superadmins only.\<close>

definition project_team_month ::
    "calendar \<Rightarrow> (ustr \<Rightarrow> rat) \<Rightarrow> ProjectContext \<Rightarrow> int option \<Rightarrow> nat option
     \<Rightarrow> ('t timesheets_scheme, int \<times> nat \<times> TeamMemberMonth list \<times> nat option) handler" where
  "project_team_month cal coll ctx year month = permitted ctx TimeViewAll (report_month cal year month (\<lambda>y m _. with_client (
     served (db_team_month cal coll (pr_id (cx_project ctx)) y m) (\<lambda>grid.
       answer 200 (y, m, tg_members grid, if cx_is_superadmin ctx then Some (tg_excluded_members grid) else None)))))"

record AdminLogTimeRequest =
  al_user_id :: uid
  al_issue_id :: "nat option"
  al_date :: ustr
  al_minutes :: int
  al_note :: "ustr option"

definition valid_admin_log :: "AdminLogTimeRequest \<Rightarrow> bool" where
  "valid_admin_log r \<longleftrightarrow> len_between 10 10 (al_date r) \<and> int_between 1 1440 (al_minutes r) \<and> opt_all (len_between 0 2000) (al_note r)"

definition task_in_project :: "pid \<Rightarrow> nat option \<Rightarrow> ('t timesheets_scheme, response + unit) state" where
  "task_in_project p issue =
     (case issue of
        None \<Rightarrow> State_Monad.return (Inr ())
      | Some i \<Rightarrow> served (issue_assignment i) (\<lambda>r.
          case r of
            Some (q, _, gone) \<Rightarrow> if \<not> gone \<and> q = p then State_Monad.return (Inr ()) else refuse (invalid ''task not found in this project'')
          | None \<Rightarrow> refuse (invalid ''task not found in this project'')))"

definition admin_log_time ::
    "env \<Rightarrow> calendar \<Rightarrow> ProjectContext \<Rightarrow> HeaderMap \<Rightarrow> AdminLogTimeRequest json_body \<Rightarrow> ('t timesheets_scheme, TimeEntry) handler" where
  "admin_log_time env cal ctx headers body = permitted ctx TimeManage (
     passing (parse_time_body valid_admin_log body) (\<lambda>req.
     passing (parse_date cal (al_date req)) (\<lambda>date. with_client (do {
       a \<leftarrow> access (pr_id (cx_project ctx)) (al_user_id req);
       if ok_or a None = None then refuse (invalid ''target user is not a project member'')
       else verifying (task_in_project (pr_id (cx_project ctx)) (al_issue_id req)) (
         log_entry env headers (cx_actor_id ctx) (lit ''time_entry_admin_logged'')
           [(lit ''for_user'', e_uuid_str env (al_user_id req)), (lit ''project_id'', e_uuid_str env (pr_id (cx_project ctx)))]
           \<lparr>ne_user_id = al_user_id req, ne_kind = EntryKind.Work, ne_meeting_type = None,
            ne_project_id = Some (pr_id (cx_project ctx)), ne_issue_id = al_issue_id req, ne_entry_date = date,
            ne_minutes = al_minutes req, ne_note = unwrap_or (al_note req) [], ne_booking_id = None\<rparr>)
     }))))"

definition of_project :: "pid \<Rightarrow> TimeEntry option \<Rightarrow> TimeEntry option" where
  "of_project p x = Option.bind x (\<lambda>e. if te_project_id (to_row e) = Some p then Some e else None)"

definition admin_update_entry ::
    "env \<Rightarrow> calendar \<Rightarrow> ProjectContext \<Rightarrow> HeaderMap \<Rightarrow> nat \<Rightarrow> UpdateTimeRequest json_body \<Rightarrow> ('t timesheets_scheme, TimeEntry) handler" where
  "admin_update_entry env cal ctx headers i body = permitted ctx TimeManage (
     passing (parse_time_body valid_time_update body) (\<lambda>req. with_client (
       served (get_entry i) (\<lambda>found. present (of_project (pr_id (cx_project ctx)) found) (\<lambda>_.
       passing (parse_new_date cal (ut_date req)) (\<lambda>date.
         change_entry env headers (cx_actor_id ctx) (lit ''time_entry_corrected'')
           [(lit ''project_id'', e_uuid_str env (pr_id (cx_project ctx)))] i (ut_minutes req) (unwrap_or (ut_note req) []) date
           (ut_version req)))))))"

definition admin_delete_entry ::
    "env \<Rightarrow> ProjectContext \<Rightarrow> HeaderMap \<Rightarrow> nat \<Rightarrow> ('t timesheets_scheme, unit) handler" where
  "admin_delete_entry env ctx headers i = permitted ctx TimeManage (with_client (
     served (get_entry i) (\<lambda>found. present (of_project (pr_id (cx_project ctx)) found) (\<lambda>_.
       remove_entry env headers (cx_actor_id ctx) (lit ''time_entry_admin_deleted'')
         [(lit ''project_id'', e_uuid_str env (pr_id (cx_project ctx)))] i))))"

definition list_locks :: "ProjectContext \<Rightarrow> ('t timesheets_scheme, PeriodLock list) handler" where
  "list_locks ctx = permitted ctx TimeViewAll (with_client (served (db_list_locks (pr_id (cx_project ctx))) (answer 200)))"

definition valid_lock :: "int \<times> int \<Rightarrow> bool" where
  "valid_lock r \<longleftrightarrow> int_between 1970 3000 (fst r) \<and> int_between 1 12 (snd r)"

definition audit_period :: "env \<Rightarrow> ProjectContext \<Rightarrow> HeaderMap \<Rightarrow> string \<Rightarrow> int \<Rightarrow> int \<Rightarrow> ('t timesheets_scheme, unit) state" where
  "audit_period env ctx headers what y m = audit env headers (Some (cx_actor_id ctx)) (lit what)
     [(lit ''project_id'', e_uuid_str env (pr_id (cx_project ctx))), (lit ''year'', int_str y), (lit ''month'', int_str m)]"

definition lock_period ::
    "env \<Rightarrow> ProjectContext \<Rightarrow> HeaderMap \<Rightarrow> (int \<times> int) json_body \<Rightarrow> ('t timesheets_scheme, PeriodLock) handler" where
  "lock_period env ctx headers body = permitted ctx TimeManage (passing (parse_time_body valid_lock body) (\<lambda>(y, m). with_client (
     served (db_lock_period (pr_id (cx_project ctx)) y m (cx_actor_id ctx)) (\<lambda>l. do {
       _ \<leftarrow> audit_period env ctx headers ''time_period_locked'' y m;
       answer 201 l
     }))))"

definition unlock_period :: "env \<Rightarrow> ProjectContext \<Rightarrow> HeaderMap \<Rightarrow> int \<Rightarrow> int \<Rightarrow> ('t timesheets_scheme, unit) handler" where
  "unlock_period env ctx headers y m = permitted ctx TimeManage (with_client (
     served (db_unlock_period (pr_id (cx_project ctx)) y m) (\<lambda>hit.
       if hit then do {
         _ \<leftarrow> audit_period env ctx headers ''time_period_unlocked'' y m;
         answer 204 ()
       } else refuse not_found)))"

definition project_availability ::
    "calendar \<Rightarrow> (ustr \<Rightarrow> rat) \<Rightarrow> ProjectContext \<Rightarrow> ustr option \<Rightarrow> ('t timesheets_scheme, ustr option \<times> Availability list) handler" where
  "project_availability cal coll ctx date = permitted ctx MemberView (do {
     now \<leftarrow> get_now;
     passing (date_or cal (cal_today cal now) date) (\<lambda>d. with_client (
       served (availability coll (pr_id (cx_project ctx)) d) (\<lambda>people. answer 200 (date, people))))
   })"

record IssueTime =
  it_entries :: "TimeEntryDetail list"
  it_total_minutes :: int
  it_my_minutes :: int
  it_can_see_all :: bool

definition sees_all_time :: "ProjectContext \<Rightarrow> bool" where
  "sees_all_time ctx \<longleftrightarrow> grants (cx_access ctx) TimeViewAll \<or> cx_is_superadmin ctx"

definition time_on_issue :: "uid \<Rightarrow> bool \<Rightarrow> nat \<Rightarrow> TimeEntryDetail list \<Rightarrow> IssueTime" where
  "time_on_issue actor see_all issue all_entries =
     (let es = filter (\<lambda>e. te_issue_id (to_row e) = Some issue) all_entries
      in \<lparr>it_entries = es, it_total_minutes = sum_list (map (\<lambda>e. te_minutes (to_row e)) es),
          it_my_minutes = sum_list (map (\<lambda>e. te_minutes (to_row e)) (filter (\<lambda>e. te_user_id (to_row e) = actor) es)),
          it_can_see_all = see_all\<rparr>)"

text \<open>From 1970 to 3000; without the right to see all time, only the caller's own entries are read.\<close>

definition issue_time ::
    "calendar \<Rightarrow> (ustr \<Rightarrow> rat) \<Rightarrow> ProjectContext \<Rightarrow> nat \<Rightarrow> ('t timesheets_scheme, IssueTime) handler" where
  "issue_time cal coll ctx issue = permitted ctx IssueView (with_client (do {
     now \<leftarrow> get_now;
     let from = unwrap_or (cal_date cal 1970 1 1) (cal_today cal now); to = unwrap_or (cal_date cal 3000 12 31) (cal_today cal now);
         see_all = sees_all_time ctx
     in served (list_for_project coll (pr_id (cx_project ctx)) from to (if see_all then None else Some (cx_actor_id ctx)) IssueLevel)
          (\<lambda>es. answer 200 (time_on_issue (cx_actor_id ctx) see_all issue es))
   }))"

definition export_project_time ::
    "(cell list list \<Rightarrow> byte list option) \<Rightarrow> calendar \<Rightarrow> (ustr \<Rightarrow> rat) \<Rightarrow> ProjectContext \<Rightarrow> ustr option \<Rightarrow> ustr option
     \<Rightarrow> uid option \<Rightarrow> ustr option \<Rightarrow> ('t timesheets_scheme, export) handler" where
  "export_project_time xlsx cal coll ctx from to user format =
     permitted ctx TimeViewAll (in_range cal from to (\<lambda>a b. with_client (
       served (list_for_project coll (pr_id (cx_project ctx)) a b user ProjectWide)
         (\<lambda>es. export_response xlsx cal es format True))))"

section \<open>Administration\<close>

definition list_user_allowances ::
    "calendar \<Rightarrow> uid \<Rightarrow> ('t timesheets_scheme, VacationAllowance list \<times> VacationBalance) handler" where
  "list_user_allowances cal u = with_client (served (list_allowances u) (\<lambda>a.
     served (vacation_balance cal u) (\<lambda>b. answer 200 (a, b))))"

record SetAllowanceRequest =
  sa_allowance_days :: f64
  sa_carried_over_days :: "f64 option"
  sa_note :: "ustr option"

definition rat_between :: "rat \<Rightarrow> rat \<Rightarrow> rat \<Rightarrow> bool" where
  "rat_between lo hi x \<longleftrightarrow> lo \<le> x \<and> x \<le> hi"

definition valid_allowance :: "SetAllowanceRequest \<Rightarrow> bool" where
  "valid_allowance r \<longleftrightarrow> rat_between 0 366 (sa_allowance_days r) \<and> opt_all (rat_between 0 366) (sa_carried_over_days r) \<and>
     opt_all (len_between 0 500) (sa_note r)"

text \<open>\<open>show_f64\<close> renders the days for the audit log.\<close>

definition set_user_allowance ::
    "env \<Rightarrow> (f64 \<Rightarrow> ustr) \<Rightarrow> HeaderMap \<Rightarrow> uid \<Rightarrow> uid \<Rightarrow> int \<Rightarrow> SetAllowanceRequest json_body
     \<Rightarrow> ('t timesheets_scheme, VacationAllowance) handler" where
  "set_user_allowance env show_f64 headers admin u year body = passing (parse_time_body valid_allowance body) (\<lambda>req. with_client (
     served (upsert_allowance u year (sa_allowance_days req) (unwrap_or (sa_carried_over_days req) 0) (unwrap_or (sa_note req) []) admin)
       (\<lambda>a. do {
         _ \<leftarrow> audit env headers (Some admin) (lit ''vacation_allowance_set'')
                [(lit ''user_id'', e_uuid_str env u), (lit ''year'', int_str year), (lit ''days'', show_f64 (sa_allowance_days req))];
         answer 200 a
       })))"

definition set_user_work_settings ::
    "env \<Rightarrow> HeaderMap \<Rightarrow> uid \<Rightarrow> uid \<Rightarrow> int json_body \<Rightarrow> ('t timesheets_scheme, unit) handler" where
  "set_user_work_settings env headers admin u body =
     passing (parse_time_body (int_between 1 1440) body) (\<lambda>minutes. with_client (
       served (set_work_minutes_per_day u minutes) (\<lambda>hit.
         if hit then do {
           _ \<leftarrow> audit env headers (Some admin) (lit ''work_settings_set'')
                  [(lit ''user_id'', e_uuid_str env u), (lit ''minutes'', int_str minutes)];
           answer 204 ()
         } else refuse not_found)))"

definition global_team_month ::
    "calendar \<Rightarrow> (ustr \<Rightarrow> rat) \<Rightarrow> int option \<Rightarrow> nat option
     \<Rightarrow> ('t timesheets_scheme, int \<times> nat \<times> TeamMemberMonth list \<times> nat) handler" where
  "global_team_month cal coll year month = report_month cal year month (\<lambda>y m _. with_client (
     served (db_global_team_month cal coll y m) (\<lambda>grid. answer 200 (y, m, tg_members grid, tg_excluded_members grid))))"

definition list_all_time ::
    "calendar \<Rightarrow> (ustr \<Rightarrow> rat) \<Rightarrow> RangeQuery \<Rightarrow> ustr option \<Rightarrow> ('t timesheets_scheme, TimeEntryDetail list) handler" where
  "list_all_time cal coll q kind = in_range cal (rq_from q) (rq_to q) (\<lambda>from to.
     if kind \<noteq> None \<and> Option.bind kind EntryKind_parse = None then refuse (invalid ''invalid kind'')
     else with_client (served (list_all_entries coll from to (rq_user_id q) (rq_project_id q) kind) (answer 200)))"

end
