(* ===== verification/Time_Locks.thy ===== *)
theory Time_Locks
  imports Time_Team Backlog_Steps
begin

text \<open>
  A locked month of a project is read-only: no request of the time tracking by whoever may not manage the
  project's time changes an entry in it (\<open>Time_Safety\<close> adds the requests on the backlog). \<open>sealed\<close> is the state in which that holds; the locale
  \<open>calls_evolution\<close> carries it across the requests.
\<close>

section \<open>The sealed month\<close>

definition in_month :: "calendar \<Rightarrow> pid \<Rightarrow> int \<Rightarrow> int \<Rightarrow> time_row \<Rightarrow> bool" where
  "in_month cal p y m r \<longleftrightarrow> te_project_id r = Some p \<and> year_month cal (te_entry_date r) = (y, m)"

text \<open>Ids of entries are unique and below the next one; booked entries count for no project.\<close>

definition entries_ok :: "'t timesheets_scheme \<Rightarrow> bool" where
  "entries_ok s \<longleftrightarrow> keyed te_id (time_entries s) \<and>
     (\<forall>r\<in>set (time_entries s). te_id r < next_id s \<and> (te_booking_id r \<noteq> None \<longrightarrow> te_project_id r = None))"

definition sealed :: "pid \<Rightarrow> int \<Rightarrow> int \<Rightarrow> 't timesheets_scheme \<Rightarrow> bool" where
  "sealed p y m s \<longleftrightarrow> entries_ok s \<and> any_row (is_lock p y m) (period_locks s)"

definition seal_step :: "calendar \<Rightarrow> pid \<Rightarrow> int \<Rightarrow> int \<Rightarrow> 't timesheets_scheme \<Rightarrow> 't timesheets_scheme \<Rightarrow> bool" where
  "seal_step cal p y m s t \<longleftrightarrow> (sealed p y m s \<longrightarrow>
     sealed p y m t \<and> filter (in_month cal p y m) (time_entries t) = filter (in_month cal p y m) (time_entries s) \<and>
     members t = members s \<and> roles t = roles s)"

text \<open>What the seal does not see.\<close>

definition time_frame :: "'t timesheets_scheme \<Rightarrow> 't timesheets_scheme \<Rightarrow> bool" where
  "time_frame s t \<longleftrightarrow> time_entries t = time_entries s \<and> period_locks t = period_locks s \<and> members t = members s \<and>
     roles t = roles s \<and> next_id s \<le> next_id t"

lemma seal_frame: "time_frame s t \<Longrightarrow> seal_step cal p y m s t"
  by (auto simp: seal_step_def time_frame_def sealed_def entries_ok_def intro: less_le_trans)

interpretation seal: calls_evolution "seal_step cal p y m :: 't timesheets_scheme \<Rightarrow> _" for cal p y m
proof
  fix s t u :: "'t timesheets_scheme" and n
  show "seal_step cal p y m s s" by (simp add: seal_step_def)
  show "seal_step cal p y m s t \<Longrightarrow> seal_step cal p y m t u \<Longrightarrow> seal_step cal p y m s u" by (auto simp: seal_step_def)
  show "seal_step cal p y m s (s\<lparr>calls := n\<rparr>)" by (rule seal_frame) (simp add: time_frame_def)
qed

lemma seal_untouched: "untouched s t \<Longrightarrow> seal_step cal p y m s t"
  by (auto simp: untouched_def intro!: seal_frame simp: time_frame_def)

lemma keeps_seal_audit: "keeps (seal_step cal p y m) (audit env headers actor action details)"
  unfolding audit_def audit_record_def
  by (intro seal.keeps_rules seal.keeps_stmt seal_frame) (simp add: time_frame_def)

definition manages :: "pid \<Rightarrow> uid \<Rightarrow> 't store_scheme \<Rightarrow> bool" where
  "manages p u s \<longleftrightarrow> (\<exists>m r. member_join p u s = Some (m, r) \<and> role_grants r TimeManage)"

lemma wp_access_grants:
  "wp (access p u) (\<lambda>r t. untouched s t \<and> (grants (ok_or r None) TimeManage \<longrightarrow> manages p u s)) s"
  by (auto simp: access_def wp_query_parsed grants_def manages_def access_of_def access_has_def role_grants_def
      split: option.split)

section \<open>Small changes\<close>

lemma seal_append:
  assumes "\<forall>r\<in>set rows. \<not> in_month cal p y m r \<and> (te_booking_id r \<noteq> None \<longrightarrow> te_project_id r = None)"
    and "distinct (map te_id rows)" and "\<forall>r\<in>set rows. next_id s \<le> te_id r \<and> te_id r < n"
    and "next_id s \<le> n"
  shows "seal_step cal p y m s (s\<lparr>time_entries := time_entries s @ rows, next_id := n\<rparr>)"
proof -
  have "filter (in_month cal p y m) rows = []" using assms(1) by (auto simp: filter_empty_conv)
  moreover have "entries_ok (s\<lparr>time_entries := time_entries s @ rows, next_id := n\<rparr>)" if ok: "entries_ok s"
  proof -
    have "te_id a \<noteq> te_id b" if "a \<in> set (time_entries s)" "b \<in> set rows" for a b
      using ok assms(3) that by (fastforce simp: entries_ok_def)
    then have "set (map te_id (time_entries s)) \<inter> set (map te_id rows) = {}" by auto
    then show ?thesis using ok assms by (auto simp: entries_ok_def keyed_def)
  qed
  ultimately show ?thesis by (simp add: seal_step_def sealed_def)
qed

lemma seal_delete:
  assumes "entries_ok s \<Longrightarrow> \<forall>r\<in>set (time_entries s). P r \<longrightarrow> \<not> in_month cal p y m r"
  shows "seal_step cal p y m s (s\<lparr>time_entries := delete_where P (time_entries s)\<rparr>)"
proof -
  have "filter (in_month cal p y m) (delete_where P (time_entries s)) = filter (in_month cal p y m) (time_entries s)" if "entries_ok s"
    unfolding delete_where_def filter_filter using assms that by (intro filter_cong) auto
  moreover have "entries_ok (s\<lparr>time_entries := delete_where P (time_entries s)\<rparr>)" if "entries_ok s"
    using that by (auto simp: entries_ok_def keyed_def delete_where_def distinct_map inj_on_def)
  ultimately show ?thesis by (simp add: seal_step_def sealed_def)
qed

lemma seal_update:
  assumes "entries_ok s \<Longrightarrow> \<forall>r\<in>set (time_entries s). P r \<longrightarrow> \<not> in_month cal p y m r \<and> \<not> in_month cal p y m (f r)"
    and "\<And>r. te_id (f r) = te_id r \<and> te_booking_id (f r) = te_booking_id r \<and> te_project_id (f r) = te_project_id r"
  shows "seal_step cal p y m s (s\<lparr>time_entries := update_where P f (time_entries s)\<rparr>)"
proof -
  have kept: "filter (in_month cal p y m) (update_where P f rs) = filter (in_month cal p y m) rs"
    if "\<forall>r\<in>set rs. P r \<longrightarrow> \<not> in_month cal p y m r \<and> \<not> in_month cal p y m (f r)" for rs
    using that by (induction rs) (auto simp: update_where_def)
  have "map te_id (update_where P f rs) = map te_id rs" for rs
    using assms(2) by (induction rs) (auto simp: update_where_def)
  then have ids: "distinct (map te_id (update_where P f rs)) = distinct (map te_id rs)" for rs by simp
  have rows: "\<forall>q\<in>set (update_where P f rs). Q (te_id q) (te_booking_id q) (te_project_id q)"
    if "\<forall>r\<in>set rs. Q (te_id r) (te_booking_id r) (te_project_id r)" for rs Q
    using that assms(2) by (auto simp: set_update_where)
  have "entries_ok (s\<lparr>time_entries := update_where P f (time_entries s)\<rparr>)" if "entries_ok s"
    using that rows [of "time_entries s" "\<lambda>i b p. i < next_id s \<and> (b \<noteq> None \<longrightarrow> p = None)"]
    by (simp add: entries_ok_def keyed_def ids)
  then show ?thesis using kept assms(1) by (auto simp: seal_step_def sealed_def)
qed

section \<open>Guards\<close>

text \<open>The relation that a request of \<open>u\<close> keeps: the seal holds for whoever does not manage the project.\<close>

definition kept_from :: "calendar \<Rightarrow> pid \<Rightarrow> int \<Rightarrow> int \<Rightarrow> uid \<Rightarrow> 't timesheets_scheme \<Rightarrow> 't timesheets_scheme \<Rightarrow> bool" where
  "kept_from cal p y m u s t \<longleftrightarrow> (\<not> manages p u s \<longrightarrow> seal_step cal p y m s t)"

lemma manages_same: "members t = members s \<Longrightarrow> roles t = roles s \<Longrightarrow> manages p u t = manages p u s"
  by (simp add: manages_def member_join_def role_of_def)

lemma kept_seal: "seal_step cal p y m s t \<Longrightarrow> kept_from cal p y m u s t"
  by (simp add: kept_from_def)

interpretation kept: calls_evolution "kept_from cal p y m u :: 't timesheets_scheme \<Rightarrow> _" for cal p y m u
proof
  fix s t v :: "'t timesheets_scheme" and n
  show "kept_from cal p y m u s s" "kept_from cal p y m u s (s\<lparr>calls := n\<rparr>)"
    by (simp_all add: kept_seal seal.R_refl seal.calls_kept)
  show "kept_from cal p y m u s v" if "kept_from cal p y m u s t" "kept_from cal p y m u t v"
    using that manages_same [of t s p u] seal.R_trans [of cal p y m s t v] by (auto simp: kept_from_def seal_step_def)
qed

lemma kept_keeps: "keeps (seal_step cal p y m) h \<Longrightarrow> keeps (kept_from cal p y m u) h"
  by (simp add: keeps_def kept_seal)

lemmas kept_shapes = kept.reading_shapes kept_keeps [OF keeps_seal_audit]
lemmas seal_shapes = seal.reading_shapes keeps_seal_audit

definition open_for :: "calendar \<Rightarrow> pid \<Rightarrow> int \<Rightarrow> int \<Rightarrow> pid option \<Rightarrow> int \<Rightarrow> bool" where
  "open_for cal p y m project date \<longleftrightarrow> \<not> (project = Some p \<and> year_month cal date = (y, m))"

text \<open>What a guard that let a request through has seen: \<open>G\<close>, unless nothing is sealed or \<open>u\<close> manages the project.\<close>

definition cleared ::
    "pid \<Rightarrow> int \<Rightarrow> int \<Rightarrow> uid \<Rightarrow> 't timesheets_scheme \<Rightarrow> bool \<Rightarrow> response + unit \<Rightarrow> 't timesheets_scheme \<Rightarrow> bool" where
  "cleared p y m u s G r t \<longleftrightarrow> untouched s t \<and> (r = Inr () \<longrightarrow> sealed p y m s \<longrightarrow> \<not> manages p u s \<longrightarrow> G)"

lemma untouched_time:
  "untouched s t \<Longrightarrow> time_entries t = time_entries s \<and> period_locks t = period_locks s \<and> members t = members s \<and> roles t = roles s \<and>
     next_id t = next_id s"
  by (auto simp: untouched_def)

lemma sealed_untouched: "untouched s t \<Longrightarrow> sealed p y m t = sealed p y m s"
  by (simp add: sealed_def entries_ok_def untouched_time)

lemma manages_untouched: "untouched s t \<Longrightarrow> manages p u t = manages p u s"
  by (intro manages_same) (auto simp: untouched_def)

lemma wp_may_log: "wp (may_log cal u project date) (cleared p y m u s (open_for cal p y m project date)) s"
proof (cases project)
  case (Some j)
  show ?thesis
    unfolding may_log_def Some option.case wp_bind
  proof (rule wp_mono [OF wp_access_grants [of j u s]])
    fix r t
    assume *: "untouched s t \<and> (grants (ok_or r None) TimeManage \<longrightarrow> manages j u s)"
    then have "untouched s (t\<lparr>calls := n\<rparr>)" for n by (metis idle.R_trans untouched_calls)
    then show "wp (if \<not> grants (ok_or r None) TimeLog then refuse forbidden
        else served (case_prod (is_locked j) (year_month cal date)) (\<lambda>shut.
          if shut \<and> \<not> grants (ok_or r None) TimeManage then refuse period_locked else State_Monad.return (Inr ())))
        (cleared p y m u s (open_for cal p y m (Some j) date)) t"
      using * untouched_time [of s t]
      by (auto simp: wp_rules wp_served is_locked_def case_prod_beta cleared_def open_for_def sealed_def refuse_def period_locked_def)
  qed
qed (simp add: may_log_def wp_return cleared_def open_for_def)

lemma wp_guard_locked: "wp (guard_locked cal project date u) (cleared p y m u s (open_for cal p y m project date)) s"
proof (cases project)
  case (Some j)
  obtain a b where ab: "year_month cal date = (a, b)" by (cases "year_month cal date")
  have "wp (do { r \<leftarrow> access j u; if grants (ok_or r None) TimeManage then State_Monad.return (Inr ()) else refuse period_locked })
      (cleared p y m u s (open_for cal p y m (Some j) date)) (s\<lparr>calls := n\<rparr>)" for n
    unfolding wp_bind
    by (rule wp_mono [OF wp_access_grants])
      (use manages_untouched [of s "s\<lparr>calls := n\<rparr>" j u] idle.R_trans [OF untouched_calls] in
        \<open>auto simp: wp_return wp_refuse cleared_def open_for_def\<close>)
  then show ?thesis
    by (auto simp: guard_locked_def Some ab wp_served is_locked_def wp_query wp_return cleared_def open_for_def sealed_def)
qed (simp add: guard_locked_def wp_return cleared_def open_for_def)

lemma wp_guard_move:
  "wp (guard_move cal r date u) (cleared p y m u s
     (open_for cal p y m (te_project_id r) (te_entry_date r) \<longrightarrow> open_for cal p y m (te_project_id r) (unwrap_or date (te_entry_date r)))) s"
proof (cases date)
  case (Some d)
  show ?thesis
    by (cases "d = te_entry_date r") (auto simp: guard_move_def Some wp_return cleared_def unwrap_or_def intro!: wp_mono [OF wp_guard_locked])
qed (simp add: guard_move_def wp_return cleared_def unwrap_or_def)

lemma kept_verifying:
  assumes "\<And>s. wp c (cleared p y m u s G) s" and "G \<Longrightarrow> keeps (kept_from cal p y m u) h"
  shows "keeps (kept_from cal p y m u) (verifying c h)"
  unfolding keeps_wp
proof (intro allI)
  fix s
  have "wp h (\<lambda>_. kept_from cal p y m u s) t" if "cleared p y m u s G (Inr ()) t" for t
  proof (cases "sealed p y m s \<and> \<not> manages p u s")
    case True
    then have h: "keeps (kept_from cal p y m u) h" using that by (intro assms(2)) (simp add: cleared_def)
    have "kept_from cal p y m u s t" using that by (intro kept_seal seal_untouched) (simp add: cleared_def)
    then show ?thesis by (intro wp_mono [OF wp_keeps [OF h]]) (rule kept.R_trans)
  qed (auto simp: wp_def kept_from_def seal_step_def)
  then show "wp (verifying c h) (\<lambda>_. kept_from cal p y m u s) s"
    unfolding wp_verifying
    by (intro wp_mono [OF assms(1)]) (auto simp: cleared_def kept_seal seal_untouched split: sum.split)
qed

section \<open>Statements on entries\<close>

lemma seal_create_entry:
  assumes "open_for cal p y m (ne_project_id e) (ne_entry_date e)" and "ne_booking_id e = None"
  shows "keeps (seal_step cal p y m) (create_entry e)"
  unfolding create_entry_def
proof (rule seal.keeps_stmt)
  fix s :: "'a timesheets_scheme"
  have "seal_step cal p y m s (s\<lparr>time_entries := time_entries s @ [new_row (next_id s) (db_now s) e], next_id := Suc (next_id s)\<rparr>)"
    by (rule seal_append) (use assms in \<open>simp_all add: new_row_def in_month_def open_for_def\<close>)
  then show "seal_step cal p y m s (snd (let r = new_row (next_id s) (db_now s) e
      in if \<not> entry_checks r then (Inl Unavailable, s)
         else if \<not> entry_refs_ok s r then (Inl ForeignKeyViolation, s)
         else (Inr (row_to_entry r), s\<lparr>time_entries := time_entries s @ [r], next_id := Suc (next_id s)\<rparr>)))"
    by (simp add: Let_def seal.R_refl)
qed

lemma seal_log_entry:
  "open_for cal p y m (ne_project_id e) (ne_entry_date e) \<Longrightarrow> ne_booking_id e = None \<Longrightarrow>
     keeps (seal_step cal p y m) (log_entry env headers actor what details e)"
  unfolding log_entry_def by (intro seal_shapes seal_create_entry)

lemma booking_row_facts:
  "map te_id (booking_rows u kind minutes note b now ds) = [Suc b..<Suc b + length ds]"
  "r \<in> set (booking_rows u kind minutes note b now ds) \<Longrightarrow> te_project_id r = None"
proof -
  have "map te_id (map (\<lambda>(i, d). new_row i now (f d)) xs) = map fst xs" for f and xs :: "(nat \<times> int) list"
    by (induction xs) (auto simp: new_row_def)
  then have "map te_id (booking_rows u kind minutes note b now ds) = map fst (enumerate (Suc b) ds)"
    by (simp only: booking_rows_def)
  then show "map te_id (booking_rows u kind minutes note b now ds) = [Suc b..<Suc b + length ds]" by simp
  show "r \<in> set (booking_rows u kind minutes note b now ds) \<Longrightarrow> te_project_id r = None"
    unfolding booking_rows_def by (auto simp: new_row_def)
qed

lemma seal_create_booking: "keeps (seal_step cal p y m) (create_booking cal' u kind a b minutes note skip)"
  unfolding create_booking_def
proof (rule seal.keeps_stmt)
  fix s :: "'a timesheets_scheme"
  let ?rows = "\<lambda>ds. booking_rows u kind minutes note (next_id s) (db_now s) ds"
  have "seal_step cal p y m s (s\<lparr>time_entries := time_entries s @ ?rows ds, next_id := next_id s + Suc (length ds)\<rparr>)" for ds
  proof (rule seal_append)
    show "\<forall>r\<in>set (?rows ds). next_id s \<le> te_id r \<and> te_id r < next_id s + Suc (length ds)"
    proof
      fix r
      assume "r \<in> set (?rows ds)"
      then have "te_id r \<in> set (map te_id (?rows ds))" by simp
      then show "next_id s \<le> te_id r \<and> te_id r < next_id s + Suc (length ds)" unfolding booking_row_facts(1) by auto
    qed
  qed (auto simp: booking_row_facts in_month_def)
  then show "seal_step cal p y m s (snd (case booking_days cal' skip a b of None \<Rightarrow> (Inr None, s)
     | Some ds \<Rightarrow>
         let rows = ?rows ds
         in if \<not> list_all entry_checks rows then (Inl Unavailable, s)
            else if \<not> list_all (entry_refs_ok s) rows then (Inl ForeignKeyViolation, s)
            else (Inr (Some (next_id s, map row_to_entry rows)),
                  s\<lparr>time_entries := time_entries s @ rows, next_id := next_id s + Suc (length ds)\<rparr>)))"
    by (simp add: Let_def seal.R_refl split: option.split)
qed

lemma seal_delete_booking: "keeps (seal_step cal p y m) (delete_booking u b)"
  unfolding delete_booking_def
  by (rule seal.keeps_execute, rule seal_delete) (auto simp: entries_ok_def in_booking_def in_month_def)

text \<open>An entry is updated and deleted by its id, which no other entry has.\<close>

lemma the_entry:
  assumes "entries_ok t" and "r \<in> set (time_entries t)" and "q \<in> set (time_entries t)" and "te_id q = te_id r"
  shows "q = r"
  using assms keyed_unique [of te_id "time_entries t" q r] by (simp add: entries_ok_def)

lemma wp_after:
  fixes h :: "('t timesheets_scheme, 'x) db"
  assumes "wp h (\<lambda>_. seal_step cal p y m s) w" and "\<And>x. keeps (seal_step cal p y m) (f x)"
  shows "wp (served h f) (\<lambda>_. seal_step cal p y m s) w"
  unfolding wp_served
proof (rule wp_mono [OF assms(1)])
  fix r :: "DbError + 'x" and t :: "'t timesheets_scheme"
  assume st: "seal_step cal p y m s t"
  have "wp (f x) (\<lambda>_. seal_step cal p y m s) t" for x
    by (rule wp_mono [OF wp_keeps [OF assms(2)]]) (rule seal.R_trans [OF st])
  then show "(case r of Inl _ \<Rightarrow> seal_step cal p y m s | Inr x \<Rightarrow> wp (f x) (\<lambda>_. seal_step cal p y m s)) t"
    using st by (simp split: sum.split)
qed

lemma wp_change_entry:
  fixes s :: "'t timesheets_scheme"
  assumes "untouched s w" and "r \<in> set (time_entries s)" and "te_id r = i"
    and "sealed p y m s \<Longrightarrow> open_for cal p y m (te_project_id r) (te_entry_date r) \<and>
      open_for cal p y m (te_project_id r) (unwrap_or date (te_entry_date r))"
  shows "wp (change_entry env headers actor what details i minutes note date version) (\<lambda>_. seal_step cal p y m s) w"
proof -
  let ?hit = "\<lambda>q. is_entry i q \<and> te_version q = version"
  have "seal_step cal p y m t (t\<lparr>time_entries := update_where ?hit (edit_entry minutes note date (db_now t)) (time_entries t)\<rparr>)"
    if t: "untouched s t" for t :: "'t timesheets_scheme"
  proof (cases "sealed p y m t")
    case True
    then have open_row: "open_for cal p y m (te_project_id r) (te_entry_date r)"
        "open_for cal p y m (te_project_id r) (unwrap_or date (te_entry_date r))"
      using assms(4) sealed_untouched [OF t] by auto
    have "q = r" if "entries_ok t" "q \<in> set (time_entries t)" "is_entry i q" for q
      using the_entry [of t r q] that assms(2,3) untouched_time [OF t] by (simp add: is_entry_def)
    then have "\<forall>q\<in>set (time_entries t). ?hit q \<longrightarrow> \<not> in_month cal p y m q \<and>
        \<not> in_month cal p y m (edit_entry minutes note date (db_now t) q)" if "entries_ok t"
      using open_row that by (auto simp: in_month_def open_for_def edit_entry_def)
    then show ?thesis by (intro seal_update) (auto simp: edit_entry_def)
  qed (simp add: seal_step_def)
  then have stepped: "seal_step cal p y m s (t\<lparr>time_entries := update_where ?hit (edit_entry minutes note date (db_now t)) (time_entries t)\<rparr>)"
    if "untouched s t" for t
    using that seal.R_trans [OF seal_untouched [OF that]] by blast
  have calls: "untouched s (w\<lparr>calls := n\<rparr>)" "seal_step cal p y m s (w\<lparr>calls := n\<rparr>)" for n
    using assms(1) idle.R_trans untouched_calls by (metis, metis seal_untouched)
  have written: "seal_step cal p y m s (w\<lparr>calls := n, time_entries :=
      update_where ?hit (edit_entry minutes note date (db_now w)) (time_entries w)\<rparr>)" for n
    using stepped [OF calls(1) [of n]] by simp
  have "wp (update_entry i minutes note date version) (\<lambda>_. seal_step cal p y m s) w"
    by (simp add: written calls(2) update_entry_def get_entry_def wp_andThen wp_query wp_return wp_stmt Let_def split: option.split)
  then show ?thesis
    unfolding change_entry_def
    by (rule wp_after) (auto intro!: seal_shapes split: EntryUpdate.split)
qed

lemma wp_remove_entry:
  fixes s :: "'t timesheets_scheme"
  assumes "untouched s w" and "r \<in> set (time_entries s)" and "te_id r = i"
    and "sealed p y m s \<Longrightarrow> open_for cal p y m (te_project_id r) (te_entry_date r)"
  shows "wp (remove_entry env headers actor what details i) (\<lambda>_. seal_step cal p y m s) w"
proof -
  have "seal_step cal p y m t (t\<lparr>time_entries := delete_where (is_entry i) (time_entries t)\<rparr>)" if t: "untouched s t" for t :: "'t timesheets_scheme"
  proof (cases "sealed p y m t")
    case True
    then have "open_for cal p y m (te_project_id r) (te_entry_date r)" using assms(4) sealed_untouched [OF t] by auto
    moreover have "q = r" if "entries_ok t" "q \<in> set (time_entries t)" "is_entry i q" for q
      using the_entry [of t r q] that assms(2,3) untouched_time [OF t] by (simp add: is_entry_def)
    ultimately show ?thesis by (intro seal_delete) (auto simp: in_month_def open_for_def)
  qed (simp add: seal_step_def)
  then have stepped: "seal_step cal p y m s (t\<lparr>time_entries := delete_where (is_entry i) (time_entries t)\<rparr>)" if "untouched s t" for t
    using that seal.R_trans [OF seal_untouched [OF that]] by blast
  have calls: "untouched s (w\<lparr>calls := n\<rparr>)" for n using assms(1) idle.R_trans untouched_calls by metis
  have "seal_step cal p y m s (w\<lparr>calls := n, time_entries := delete_where (is_entry i) (time_entries w)\<rparr>)" for n
    using stepped [OF calls [of n]] by simp
  then have "wp (delete_entry i) (\<lambda>_. seal_step cal p y m s) w"
    by (simp add: delete_entry_def execute_def wp_stmt seal_untouched calls)
  then show ?thesis
    unfolding remove_entry_def by (rule wp_after) (auto intro!: seal_shapes)
qed

section \<open>Handlers\<close>

lemma seal_with_entry:
  fixes s :: "'t timesheets_scheme"
  assumes "\<And>e t. te_id (to_row e) = i \<Longrightarrow> to_row e \<in> set (time_entries s) \<Longrightarrow> pick (Some e) = Some e \<Longrightarrow> untouched s t \<Longrightarrow>
      wp (f e) (\<lambda>_. R s) t"
    and "\<And>x e. pick x = Some e \<Longrightarrow> x = Some e" and "\<And>t. untouched s t \<Longrightarrow> R s t"
  shows "wp (served (get_entry i) (\<lambda>found. present (pick found) f)) (\<lambda>_. R s) s"
proof -
  have row: "te_id (to_row e) = i" "to_row e \<in> set (time_entries s)"
    if "map_option row_to_entry (find_row (is_entry i) (time_entries s)) = Some e" for e
    using that find_row_Some [of "is_entry i" "time_entries s"] by (auto simp: row_to_entry_def is_entry_def)
  have kept_calls: "R s (s\<lparr>calls := n\<rparr>)" for n by (rule assms(3)) simp
  have "wp (present (pick x) f) (\<lambda>_. R s) (s\<lparr>calls := n\<rparr>)"
    if "x = map_option row_to_entry (find_row (is_entry i) (time_entries s))" for x n
  proof (cases "pick x")
    case (Some e)
    then have x: "x = Some e" by (rule assms(2))
    then have found: "map_option row_to_entry (find_row (is_entry i) (time_entries s)) = Some e" using that by simp
    have "wp (f e) (\<lambda>_. R s) (s\<lparr>calls := n\<rparr>)"
      using Some x by (intro assms(1) row [OF found] untouched_calls) simp
    then show ?thesis by (simp add: Some wp_present)
  qed (simp add: wp_present kept_calls)
  then show ?thesis by (simp add: get_entry_def wp_served wp_query kept_calls)
qed

lemma wp_cleared:
  assumes "untouched s w" and "wp c (cleared p y m u w G) w"
    and "\<And>t. untouched s t \<Longrightarrow> (sealed p y m s \<Longrightarrow> \<not> manages p u s \<Longrightarrow> G) \<Longrightarrow> wp h (\<lambda>_. kept_from cal p y m u s) t"
  shows "wp (verifying c h) (\<lambda>_. kept_from cal p y m u s) w"
  unfolding wp_verifying
proof (rule wp_mono [OF assms(2)])
  fix r t
  assume c: "cleared p y m u w G r t"
  then have t: "untouched s t" using assms(1) idle.R_trans by (auto simp: cleared_def)
  have "kept_from cal p y m u s t" using t by (simp add: kept_seal seal_untouched)
  moreover have "wp h (\<lambda>_. kept_from cal p y m u s) t" if "r = Inr ()"
    using assms(3) [OF t] c that sealed_untouched [OF assms(1)] manages_untouched [OF assms(1)] by (auto simp: cleared_def)
  ultimately show "(case r of Inl e \<Rightarrow> (\<lambda>_. kept_from cal p y m u s) (Inl e) | Inr x \<Rightarrow> wp h (\<lambda>_. kept_from cal p y m u s)) t"
    by (cases r) simp_all
qed

lemma kept_wp:
  "(\<not> manages p u s \<Longrightarrow> wp h (\<lambda>_. seal_step cal p y m s) w) \<Longrightarrow> wp h (\<lambda>_. kept_from cal p y m u s) w"
  by (cases "manages p u s") (simp_all add: wp_def kept_from_def case_prod_beta)

lemma wp_client_untouched:
  "(\<And>n. wp h Q (s\<lparr>calls := n\<rparr>)) \<Longrightarrow> (\<And>n r. Q (Inl r) (s\<lparr>calls := n\<rparr>)) \<Longrightarrow> wp (with_client h) Q s"
  by (simp add: wp_with_client)

lemma owned_by_same: "owned_by u x = Some e \<Longrightarrow> x = Some e" "of_project j x = Some e \<Longrightarrow> x = Some e"
  by (auto simp: owned_by_def of_project_def bind_eq_Some_conv split: if_splits)

lemma keeps_from_wp: "(\<And>s. wp h (\<lambda>_. R s) s) \<Longrightarrow> keeps R h"
  by (simp add: keeps_wp)

lemma kept_entry_project: "keeps (kept_from cal p y m u) (entry_project i q)"
  unfolding entry_project_def issue_assignment_def
  by (auto intro!: kept.keeps_rules kept.keeps_served kept.keeps_query kept.keeps_refuse split: option.split bool.split)

lemma kept_log_my_time: "keeps (kept_from cal p y m u) (log_my_time env cal h u body)"
proof -
  have entry: "keeps (kept_from cal p y m u) (verifying (may_log cal u q date) (log_entry env h u what ds
      \<lparr>ne_user_id = u, ne_kind = k, ne_meeting_type = mt, ne_project_id = q, ne_issue_id = i, ne_entry_date = date,
       ne_minutes = mins, ne_note = nt, ne_booking_id = None\<rparr>))" for q date what ds k mt i mins nt
    by (rule kept_verifying [OF wp_may_log]) (intro kept_keeps seal_log_entry; simp)
  show ?thesis
    unfolding log_my_time_def Let_def
    by (rule entry kept_shapes kept_entry_project)+
qed

lemma kept_update_core:
  "keeps (kept_from cal p y m u :: 'a timesheets_scheme \<Rightarrow> _) (served (get_entry i) (\<lambda>found. present (owned_by u found) (\<lambda>e.
     verifying (guard_locked cal (te_project_id (to_row e)) (te_entry_date (to_row e)) u) (
     passing (parse_new_date cal d) (\<lambda>date.
     verifying (guard_move cal (to_row e) date u) (change_entry env h u what ds i mins (nt e) date v))))))"
proof (rule keeps_from_wp, rule seal_with_entry)
  fix s t :: "'a timesheets_scheme" and e :: TimeEntry
  assume e: "te_id (to_row e) = i" "to_row e \<in> set (time_entries s)" and t: "untouched s t"
  let ?R = "\<lambda>_. kept_from cal p y m u s"
  have change: "wp (change_entry env h u what ds i mins (nt e) date v) ?R w"
    if "untouched s w" "sealed p y m s \<Longrightarrow> \<not> manages p u s \<Longrightarrow>
        open_for cal p y m (te_project_id (to_row e)) (te_entry_date (to_row e))"
      "sealed p y m s \<Longrightarrow> \<not> manages p u s \<Longrightarrow> open_for cal p y m (te_project_id (to_row e)) (te_entry_date (to_row e)) \<longrightarrow>
        open_for cal p y m (te_project_id (to_row e)) (unwrap_or date (te_entry_date (to_row e)))" for w date
    by (rule kept_wp, rule wp_change_entry [OF that(1) e(2,1)]) (use that(2,3) in blast)
  show "wp (verifying (guard_locked cal (te_project_id (to_row e)) (te_entry_date (to_row e)) u) (
     passing (parse_new_date cal d) (\<lambda>date.
     verifying (guard_move cal (to_row e) date u) (change_entry env h u what ds i mins (nt e) date v)))) ?R t"
  proof (rule wp_cleared [OF t wp_guard_locked])
    fix w :: "'a timesheets_scheme"
    assume w: "untouched s w" and G: "sealed p y m s \<Longrightarrow> \<not> manages p u s \<Longrightarrow>
      open_for cal p y m (te_project_id (to_row e)) (te_entry_date (to_row e))"
    have "wp (verifying (guard_move cal (to_row e) date u) (change_entry env h u what ds i mins (nt e) date v)) ?R w" for date
      by (rule wp_cleared [OF w wp_guard_move]) (rule change [OF _ G])
    then show "wp (passing (parse_new_date cal d) (\<lambda>date.
        verifying (guard_move cal (to_row e) date u) (change_entry env h u what ds i mins (nt e) date v))) ?R w"
      using w by (simp add: wp_passing kept_seal seal_untouched split: sum.split)
  qed
qed (fact owned_by_same, rule kept_seal, erule seal_untouched)

lemma kept_update_my_entry: "keeps (kept_from cal p y m u) (update_my_entry env cal h u i body)"
  unfolding update_my_entry_def by (intro kept.keeps_passing kept.keeps_client kept_update_core)

lemma kept_delete_my_entry: "keeps (kept_from cal p y m u) (delete_my_entry env cal h u i)"
  unfolding delete_my_entry_def
proof (rule kept.keeps_client, rule keeps_from_wp, rule seal_with_entry)
  fix s t :: "'a timesheets_scheme" and e :: TimeEntry
  assume e: "te_id (to_row e) = i" "to_row e \<in> set (time_entries s)" and t: "untouched s t"
  show "wp (verifying (guard_locked cal (te_project_id (to_row e)) (te_entry_date (to_row e)) u)
      (remove_entry env h u (lit ''time_entry_deleted'') [] i)) (\<lambda>_. kept_from cal p y m u s) t"
    by (rule wp_cleared [OF t wp_guard_locked], rule kept_wp, rule wp_remove_entry [OF _ e(2,1)]) blast+
qed (fact owned_by_same, rule kept_seal, erule seal_untouched)

lemma seal_absences:
  "keeps (seal_step cal p y m) (book_absence env cal' h u body)" "keeps (seal_step cal p y m) (delete_absence_booking env h u b)"
proof -
  have "keeps (seal_step cal p y m) (case r of None \<Rightarrow> refuse aborted | Some (b, es) \<Rightarrow> f b es)"
    if "\<And>b es. keeps (seal_step cal p y m) (f b es)" for r f
    using that by (auto intro: seal_shapes split: option.split)
  then show "keeps (seal_step cal p y m) (book_absence env cal' h u body)"
    unfolding book_absence_def absence_minutes_def work_minutes_per_day_def
    by (auto intro!: seal_shapes seal_create_booking split: option.split)
  show "keeps (seal_step cal p y m) (delete_absence_booking env h u b)"
    unfolding delete_absence_booking_def by (intro seal_shapes seal_delete_booking)
qed

end
