(* ===== verification/Time_Safety.thy ===== *)
theory Time_Safety
  imports Time_Locks Backlog_Demo
begin

text \<open>
  The requests of the time tracking in sequence, and their guarantees: what a locked month keeps, what every
  stored entry satisfies, what a booking stores, what a summary counts, who sees which time.
\<close>

section \<open>Requests\<close>

datatype own_act =
    LogTime "LogTimeRequest json_body"
  | ChangeTime nat "UpdateTimeRequest json_body"
  | DropTime nat
  | BookAbsence "BookAbsenceRequest json_body"
  | CancelAbsence nat

datatype manage_act =
    LogFor "AdminLogTimeRequest json_body"
  | CorrectTime nat "UpdateTimeRequest json_body"
  | RemoveTime nat
  | LockMonth "(int \<times> int) json_body"
  | UnlockMonth int int

datatype time_act =
    Own uid own_act
  | Manage pid Caller manage_act
  | SetAllowance uid uid int "SetAllowanceRequest json_body"
  | SetTarget uid uid "int json_body"

definition run_own :: "env \<Rightarrow> calendar \<Rightarrow> HeaderMap \<Rightarrow> uid \<Rightarrow> own_act \<Rightarrow> ('t timesheets_scheme, response + nat) state" where
  "run_own env cal h u act =
     (case act of
        LogTime body \<Rightarrow> status_of (log_my_time env cal h u body)
      | ChangeTime i body \<Rightarrow> status_of (update_my_entry env cal h u i body)
      | DropTime i \<Rightarrow> status_of (delete_my_entry env cal h u i)
      | BookAbsence body \<Rightarrow> status_of (book_absence env cal h u body)
      | CancelAbsence b \<Rightarrow> status_of (delete_absence_booking env h u b))"

definition run_manage ::
    "env \<Rightarrow> calendar \<Rightarrow> HeaderMap \<Rightarrow> manage_act \<Rightarrow> ProjectContext \<Rightarrow> ('t timesheets_scheme, response + nat) state" where
  "run_manage env cal h act ctx =
     (case act of
        LogFor body \<Rightarrow> status_of (admin_log_time env cal ctx h body)
      | CorrectTime i body \<Rightarrow> status_of (admin_update_entry env cal ctx h i body)
      | RemoveTime i \<Rightarrow> status_of (admin_delete_entry env ctx h i)
      | LockMonth body \<Rightarrow> status_of (lock_period env ctx h body)
      | UnlockMonth y m \<Rightarrow> status_of (unlock_period env ctx h y m))"

definition run_time ::
    "env \<Rightarrow> calendar \<Rightarrow> (f64 \<Rightarrow> ustr) \<Rightarrow> HeaderMap \<Rightarrow> time_act \<Rightarrow> ('t timesheets_scheme, response + nat) state" where
  "run_time env cal show_f64 h act =
     (case act of
        Own u own \<Rightarrow> run_own env cal h u own
      | Manage j c act \<Rightarrow> do { r \<leftarrow> context_of j c; passing r (run_manage env cal h act) }
      | SetAllowance admin u year body \<Rightarrow> status_of (set_user_allowance env show_f64 h admin u year body)
      | SetTarget admin u body \<Rightarrow> status_of (set_user_work_settings env h admin u body))"

type_synonym time_request = "env \<times> (f64 \<Rightarrow> ustr) \<times> HeaderMap \<times> time_act"

definition time_step :: "calendar \<Rightarrow> time_request \<Rightarrow> 't timesheets_scheme \<Rightarrow> 't timesheets_scheme" where
  "time_step cal q s = (case q of (env, show_f64, h, act) \<Rightarrow> snd (run_state (run_time env cal show_f64 h act) s))"

definition after_time :: "calendar \<Rightarrow> time_request list \<Rightarrow> 't timesheets_scheme \<Rightarrow> 't timesheets_scheme" where
  "after_time cal reqs s = fold (time_step cal) reqs s"

lemma after_time_simps [simp]:
  "after_time cal [] s = s" "after_time cal (q # reqs) s = after_time cal reqs (time_step cal q s)"
  by (simp_all add: after_time_def)

section \<open>Locked months\<close>

text \<open>Who may change a locked month of \<open>p\<close>: whoever may manage the time of \<open>p\<close>.\<close>

definition may_unseal :: "pid \<Rightarrow> time_act \<Rightarrow> 't timesheets_scheme \<Rightarrow> bool" where
  "may_unseal p act s \<longleftrightarrow>
     (case act of
        Own u _ \<Rightarrow> manages p u s
      | Manage j c _ \<Rightarrow> j = p \<and> granted p c TimeManage s
      | _ \<Rightarrow> False)"

lemma manages_granted: "granted p (User u) TimeManage s \<longleftrightarrow> manages p u s"
  by (simp add: granted_def manages_def is_superadmin_grant_def is_read_iff)

lemma seal_reads: "keeps untouched h \<Longrightarrow> keeps (seal_step cal p y m) h"
  by (simp add: keeps_def seal_untouched)

lemma seal_permitted:
  "(ctx_has ctx perm \<Longrightarrow> keeps (seal_step cal p y m) h) \<Longrightarrow> keeps (seal_step cal p y m) (permitted ctx perm h)"
  by (cases "ctx_has ctx perm") (simp_all add: permitted_def ctx_require_def passing_def seal.keeps_refuse)

text \<open>A request in another project, or without the permission.\<close>

lemma task_reads: "keeps untouched (task_in_project j i)"
  unfolding task_in_project_def issue_assignment_def
  by (auto intro!: reading.reading_shapes split: option.split)

lemma seal_in_project:
  assumes "j \<noteq> p"
    and "\<And>(s :: 't timesheets_scheme) t e. \<lbrakk>te_id (to_row e) = i; to_row e \<in> set (time_entries s); te_project_id (to_row e) = Some j; untouched s t\<rbrakk>
      \<Longrightarrow> wp (f e) (\<lambda>_. seal_step cal p y m s) t"
  shows "keeps (seal_step cal p y m) (served (get_entry i) (\<lambda>found. present (of_project j found) f))"
proof (rule keeps_from_wp, rule seal_with_entry)
  fix s t :: "'t timesheets_scheme" and e
  assume "te_id (to_row e) = i" "to_row e \<in> set (time_entries s)" "of_project j (Some e) = Some e" "untouched s t"
  then show "wp (f e) (\<lambda>_. seal_step cal p y m s) t"
    by (intro assms(2)) (auto simp: of_project_def split: if_splits)
qed (fact owned_by_same, erule seal_untouched)

text \<open>A request in another project, or without the permission.\<close>

lemma seal_locks:
  assumes "j \<noteq> p"
  shows "keeps (seal_step cal p y m :: 'a timesheets_scheme \<Rightarrow> _) (db_lock_period j a b u)"
    "keeps (seal_step cal p y m :: 'a timesheets_scheme \<Rightarrow> _) (db_unlock_period j a b)"
proof -
  have frame: "seal_step cal p y m s (s\<lparr>period_locks := x, next_id := n\<rparr>)"
    if "any_row (is_lock p y m) (period_locks s) \<Longrightarrow> any_row (is_lock p y m) x" "next_id s \<le> n"
    for s :: "'a timesheets_scheme" and x n
    using that by (auto simp: seal_step_def sealed_def entries_ok_def)
  have "seal_step cal p y m s (s\<lparr>period_locks := period_locks s @ x, next_id := Suc (next_id s)\<rparr>)"
    for s :: "'a timesheets_scheme" and x
    by (rule frame) (simp_all add: any_row_def)
  then show "keeps (seal_step cal p y m :: 'a timesheets_scheme \<Rightarrow> _) (db_lock_period j a b u)"
    unfolding db_lock_period_def
    by (intro seal.keeps_stmt) (simp add: Let_def seal.R_refl split: option.split)
  have "any_row (is_lock p y m) (delete_where (is_lock j a b) ls)" if "any_row (is_lock p y m) ls" for ls
    using that assms by (auto simp: any_row_def delete_where_def is_lock_def list_ex_iff)
  then show "keeps (seal_step cal p y m :: 'a timesheets_scheme \<Rightarrow> _) (db_unlock_period j a b)"
    unfolding db_unlock_period_def
    by (intro seal.keeps_execute) (use frame in \<open>auto simp: seal_step_def sealed_def entries_ok_def\<close>)
qed

lemma seal_correct_time:
  assumes "pr_id (cx_project ctx) \<noteq> p \<or> \<not> ctx_has ctx TimeManage"
  shows "keeps (seal_step cal p y m) (admin_update_entry env cal ctx h i body)"
proof -
  have elsewhere: "pr_id (cx_project ctx) \<noteq> p" if "ctx_has ctx TimeManage" using assms that by blast
  have project_open: "open_for cal' p y m (Some (pr_id (cx_project ctx))) d" if "ctx_has ctx TimeManage" for cal' d
    using elsewhere [OF that] by (simp add: open_for_def)
  show ?thesis
    unfolding admin_update_entry_def
  proof (intro seal_permitted seal.keeps_passing seal.keeps_client, rule seal_in_project [OF elsewhere], assumption)
    fix req :: UpdateTimeRequest and s t :: "'a timesheets_scheme" and e :: TimeEntry
    assume "ctx_has ctx TimeManage" and e: "te_id (to_row e) = i" "to_row e \<in> set (time_entries s)" "te_project_id (to_row e) = Some (pr_id (cx_project ctx))"
      and "untouched s t"
    then show "wp (passing (parse_new_date cal (ut_date req)) (\<lambda>date.
        change_entry env h (cx_actor_id ctx) (lit ''time_entry_corrected'') [(lit ''project_id'', e_uuid_str env (pr_id (cx_project ctx)))] i (ut_minutes req)
          (unwrap_or (ut_note req) []) date (ut_version req))) (\<lambda>_. seal_step cal p y m s) t"
      by (cases "parse_new_date cal (ut_date req)")
        (simp_all add: wp_passing seal_untouched project_open wp_change_entry [OF _ e(2,1)])
  qed
qed

lemma seal_remove_time:
  assumes "pr_id (cx_project ctx) \<noteq> p \<or> \<not> ctx_has ctx TimeManage"
  shows "keeps (seal_step cal p y m) (admin_delete_entry env ctx h i)"
proof -
  have elsewhere: "pr_id (cx_project ctx) \<noteq> p" if "ctx_has ctx TimeManage" using assms that by blast
  have project_open: "open_for cal' p y m (Some (pr_id (cx_project ctx))) d" if "ctx_has ctx TimeManage" for cal' d
    using elsewhere [OF that] by (simp add: open_for_def)
  show ?thesis
    unfolding admin_delete_entry_def
  proof (intro seal_permitted seal.keeps_passing seal.keeps_client, rule seal_in_project [OF elsewhere], assumption)
    fix s t :: "'a timesheets_scheme" and e :: TimeEntry
    assume "ctx_has ctx TimeManage" and e: "te_id (to_row e) = i" "to_row e \<in> set (time_entries s)" "te_project_id (to_row e) = Some (pr_id (cx_project ctx))"
      and "untouched s t"
    then show "wp (remove_entry env h (cx_actor_id ctx) (lit ''time_entry_admin_deleted'') [(lit ''project_id'', e_uuid_str env (pr_id (cx_project ctx)))] i)
        (\<lambda>_. seal_step cal p y m s) t"
      by (intro wp_remove_entry [OF _ e(2,1)]) (simp_all add: project_open)
  qed
qed

lemma seal_manage:
  assumes "pr_id (cx_project ctx) \<noteq> p \<or> \<not> ctx_has ctx TimeManage"
  shows "keeps (seal_step cal p y m) (run_manage env cal h act ctx)"
proof -
  let ?j = "pr_id (cx_project ctx)"
  have elsewhere: "?j \<noteq> p" if "ctx_has ctx TimeManage" using assms that by blast
  have member: "keeps (seal_step cal p y m) (access ?j u)" for u
    unfolding access_def by (rule seal_reads [OF keeps_untouched(2)])
  have project_open: "open_for cal p y m (Some ?j) d" if "ctx_has ctx TimeManage" for d
    using elsewhere [OF that] by (simp add: open_for_def)
  have log: "keeps (seal_step cal p y m) (admin_log_time env cal ctx h body)" for body
    unfolding admin_log_time_def
    by (intro seal_permitted seal_shapes member seal_reads [OF task_reads] seal_log_entry) (simp_all add: project_open)
  have locks: "keeps (seal_step cal p y m) (lock_period env ctx h body)" "keeps (seal_step cal p y m) (unlock_period env ctx h a b)"
    for body a b
    unfolding lock_period_def unlock_period_def audit_period_def
    by (intro seal_permitted seal_shapes seal_locks elsewhere; assumption)+
  show ?thesis
    unfolding run_manage_def by (cases act) (simp_all add: seal.keeps_status log locks seal_correct_time [OF assms] seal_remove_time [OF assms])
qed

lemma seal_settings:
  "keeps (seal_step cal p y m) (set_user_allowance env show_f64 h admin u year body)"
  "keeps (seal_step cal p y m) (set_user_work_settings env h admin u body2)"
proof -
  have "keeps (seal_step cal p y m) (upsert_allowance u yr days carried nt admin)" for yr days carried nt
    unfolding upsert_allowance_def
    by (rule seal.keeps_stmt) (auto simp: Let_def seal.R_refl time_frame_def intro!: seal_frame split: option.split)
  then show "keeps (seal_step cal p y m) (set_user_allowance env show_f64 h admin u year body)"
    unfolding set_user_allowance_def by (intro seal_shapes)
  have "keeps (seal_step cal p y m) (set_work_minutes_per_day u mins)" for mins
    unfolding set_work_minutes_per_day_def by (intro seal.keeps_execute seal_frame) (simp add: time_frame_def)
  then show "keeps (seal_step cal p y m) (set_user_work_settings env h admin u body2)"
    unfolding set_user_work_settings_def by (intro seal_shapes)
qed

lemma kept_own: "keeps (kept_from cal p y m u) (run_own env cal h u act)"
  unfolding run_own_def
  by (cases act) (simp_all add: kept.keeps_status kept_log_my_time kept_update_my_entry kept_delete_my_entry kept_keeps seal_absences)

lemma time_step_sealed:
  assumes "\<not> may_unseal p act s"
  shows "wp (run_time env cal show_f64 h act) (\<lambda>_. seal_step cal p y m s) s"
proof (cases act)
  case (Own u own)
  have "wp (run_own env cal h u own) (\<lambda>_. seal_step cal p y m s) s"
    by (rule wp_mono [OF wp_keeps [OF kept_own [of cal p y m]]]) (use assms Own in \<open>simp add: may_unseal_def kept_from_def\<close>)
  then show ?thesis by (simp add: run_time_def Own)
next
  case (Manage j c act')
  have "wp (passing r (run_manage env cal h act')) (\<lambda>_. seal_step cal p y m s) t"
    if "\<forall>ctx. r = Inr ctx \<longrightarrow> context_fits j c ctx s" "untouched s t" for r t
  proof (cases r)
    case (Inr ctx)
    then have fits: "context_fits j c ctx s" using that(1) by simp
    then have "pr_id (cx_project ctx) = j" by (auto simp: context_fits_def is_project_pr_id)
    then have "pr_id (cx_project ctx) \<noteq> p \<or> \<not> ctx_has ctx TimeManage"
      using assms Manage fits by (auto simp: may_unseal_def context_fits_def)
    then have "wp (run_manage env cal h act' ctx) (\<lambda>_. seal_step cal p y m t) t" by (intro wp_keeps seal_manage)
    then show ?thesis
      using that(2) by (auto simp: Inr wp_passing intro: wp_mono seal.R_trans [OF seal_untouched])
  qed (use that(2) in \<open>simp add: wp_passing seal_untouched\<close>)
  then show ?thesis
    unfolding run_time_def Manage time_act.case wp_bind
    by (intro wp_mono [OF wp_conj [OF context_of_wp wp_keeps [OF context_of_untouched]]]) blast
qed (simp_all add: run_time_def seal.keeps_status seal_settings wp_keeps)

section \<open>Locked months under requests on the backlog\<close>

text \<open>
  The link of an entry to its issue is not the time tracking's alone: a purge of deleted issues clears it. An
  entry stays as it is, or where \<open>purged\<close> its link is cleared with a new time of modification.
\<close>

definition kept_entry :: "bool \<Rightarrow> time_row \<Rightarrow> time_row \<Rightarrow> bool" where
  "kept_entry purged r q \<longleftrightarrow>
     q = r \<or> (purged \<and> te_issue_id r \<noteq> None \<and> q = r\<lparr>te_issue_id := None, te_modified_at := te_modified_at q\<rparr>)"

definition month_step :: "calendar \<Rightarrow> pid \<Rightarrow> int \<Rightarrow> int \<Rightarrow> bool \<Rightarrow> 't timesheets_scheme \<Rightarrow> 't timesheets_scheme \<Rightarrow> bool" where
  "month_step cal p y m purged s t \<longleftrightarrow> (sealed p y m s \<longrightarrow>
     sealed p y m t \<and> members t = members s \<and> roles t = roles s \<and>
     list_all2 (kept_entry purged) (filter (in_month cal p y m) (time_entries s)) (filter (in_month cal p y m) (time_entries t)))"

lemma kept_entry_refl [simp]: "kept_entry purged r r"
  by (simp add: kept_entry_def)

lemma kept_entry_trans:
  assumes "kept_entry purged r q" "kept_entry purged q v"
  shows "kept_entry purged r v"
proof (cases "q = r")
  case False
  then have "te_issue_id q = te_issue_id (r\<lparr>te_issue_id := None, te_modified_at := te_modified_at q\<rparr>)"
    using assms(1) unfolding kept_entry_def by (intro arg_cong [of q _ te_issue_id]) blast
  then have "v = q" using assms(2) by (simp add: kept_entry_def)
  then show ?thesis using assms(1) by simp
qed (use assms in simp)

lemma month_seal: "seal_step cal p y m s t \<Longrightarrow> month_step cal p y m purged s t"
  by (simp add: seal_step_def month_step_def list_all2_refl)

lemma month_trans:
  assumes "month_step cal p y m purged s t" "month_step cal p y m purged t u"
  shows "month_step cal p y m purged s u"
  unfolding month_step_def
proof (intro impI)
  assume "sealed p y m s"
  then have one: "sealed p y m t" "members t = members s" "roles t = roles s"
      "list_all2 (kept_entry purged) (filter (in_month cal p y m) (time_entries s)) (filter (in_month cal p y m) (time_entries t))"
    using assms(1) by (simp_all add: month_step_def)
  then have two: "sealed p y m u" "members u = members t" "roles u = roles t"
      "list_all2 (kept_entry purged) (filter (in_month cal p y m) (time_entries t)) (filter (in_month cal p y m) (time_entries u))"
    using assms(2) by (simp_all add: month_step_def)
  show "sealed p y m u \<and> members u = members s \<and> roles u = roles s \<and>
      list_all2 (kept_entry purged) (filter (in_month cal p y m) (time_entries s)) (filter (in_month cal p y m) (time_entries u))"
    using one two list_all2_trans [OF kept_entry_trans one(4) two(4)] by simp
qed

lemma period_locks_more: "tracker.more t = tracker.more s \<Longrightarrow> period_locks t = period_locks s"
  by (cases s; cases t) simp

lemma month_side: "side_kept s t \<Longrightarrow> month_step cal p y m purged s t"
  by (intro month_seal seal_frame) (auto simp: side_kept_def time_frame_def dest: period_locks_more)

lemma month_backlog: "backlog_frame s t \<Longrightarrow> month_step cal p y m purged s t"
  by (intro month_seal seal_frame) (auto simp: backlog_frame_def time_frame_def dest: period_locks_more)

interpretation month: backlog_editing "month_step cal p y m purged :: 't timesheets_scheme \<Rightarrow> _" for cal p y m purged
proof
  fix s t u :: "'t timesheets_scheme" and P f P' g and ids w q new
  show "month_step cal p y m purged s s" by (simp add: month_seal seal.R_refl)
  show "month_step cal p y m purged s t \<Longrightarrow> month_step cal p y m purged t u \<Longrightarrow> month_step cal p y m purged s u"
    by (rule month_trans)
  show "quiet_frame s t \<Longrightarrow> month_step cal p y m purged s t" "backlog_frame s t \<Longrightarrow> month_step cal p y m purged s t"
    by (simp_all add: quiet_frame_def month_backlog)
  show "month_step cal p y m purged s (update_issues P f s)" "month_step cal p y m purged s (update_epics P' g s)"
    "month_step cal p y m purged s (drop_epics ids s)"
    by (intro month_side side_updates)+
  show "keeps (month_step cal p y m purged :: 't timesheets_scheme \<Rightarrow> _) (db_create_issue q x w)"
    "keeps (month_step cal p y m purged :: 't timesheets_scheme \<Rightarrow> _) (db_create_epic q x new)" for x
    by (rule keeps_weaker, rule side_creations, erule month_side)+
qed

lemma month_purge: "month_step cal p y m True s (drop_issues ids s)"
proof -
  let ?es = "time_entries s"
  have fields: "time_entries (drop_issues ids s) = unlink_entries ids (db_now s) ?es" "members (drop_issues ids s) = members s"
    "roles (drop_issues ids s) = roles s" "next_id (drop_issues ids s) = next_id s" "period_locks (drop_issues ids s) = period_locks s"
    by (simp_all add: drop_issues_def update_issues_def)
  have same: "map te_id (unlink_entries ids now es) = map te_id es" for now es
    by (induction es) (auto simp: unlink_entries_def update_where_def)
  have rows: "\<forall>q\<in>set (unlink_entries ids now es). Q (te_id q) (te_booking_id q) (te_project_id q)"
    if "\<forall>r\<in>set es. Q (te_id r) (te_booking_id r) (te_project_id r)" for now es Q
    using that by (induction es) (auto simp: unlink_entries_def update_where_def)
  have "list_all2 (kept_entry True) (filter (in_month cal p y m) es) (filter (in_month cal p y m) (unlink_entries ids now es))" for now es
    by (induction es) (auto simp: unlink_entries_def update_where_def kept_entry_def in_month_def)
  moreover have "sealed p y m (drop_issues ids s)" if "sealed p y m s"
    using that rows [of ?es "\<lambda>i b p. i < next_id s \<and> (b \<noteq> None \<longrightarrow> p = None)"]
    by (simp add: sealed_def entries_ok_def keyed_def fields same)
  ultimately show ?thesis by (simp add: month_step_def fields)
qed

interpretation month_purged: backlog_evolution "month_step cal p y m True :: 't timesheets_scheme \<Rightarrow> _" for cal p y m
  by unfold_locales (rule month_purge)

text \<open>Requests of both kinds, in one sequence; those on the backlog come from whoever holds a project context.\<close>

type_synonym backlog_request = "env \<times> (ustr \<Rightarrow> ustr) \<times> HeaderMap \<times> backlog_act \<times> ProjectContext"

datatype work_request = OnTime time_request | OnBacklog backlog_request

definition work_step :: "calendar \<Rightarrow> work_request \<Rightarrow> 't timesheets_scheme \<Rightarrow> 't timesheets_scheme" where
  "work_step cal q s = (case q of OnTime r \<Rightarrow> time_step cal r s | OnBacklog r \<Rightarrow> after_requests [r] s)"

definition after_work :: "calendar \<Rightarrow> work_request list \<Rightarrow> 't timesheets_scheme \<Rightarrow> 't timesheets_scheme" where
  "after_work cal reqs s = fold (work_step cal) reqs s"

definition may_unlock :: "pid \<Rightarrow> work_request \<Rightarrow> 't timesheets_scheme \<Rightarrow> bool" where
  "may_unlock p q s = (case q of OnTime (env, show_f64, h, act) \<Rightarrow> may_unseal p act s | OnBacklog r \<Rightarrow> False)"

definition purges_issues :: "work_request \<Rightarrow> bool" where
  "purges_issues q = (case q of OnBacklog (env, render, h, act, ctx) \<Rightarrow> act = PurgeIssues | _ \<Rightarrow> False)"

lemma work_step_month:
  assumes "\<not> may_unlock p q s" "purges_issues q \<longrightarrow> purged"
  shows "month_step cal p y m purged s (work_step cal q s)"
proof (cases q)
  case (OnTime r)
  obtain env show_f64 h act where r: "r = (env, show_f64, h, act)" by (cases r)
  have "seal_step cal p y m s (time_step cal r s)"
    using time_step_sealed [of p act s env cal show_f64 h y m] assms(1)
    by (simp add: OnTime r may_unlock_def time_step_def wp_def case_prod_beta)
  then show ?thesis by (simp add: OnTime work_step_def month_seal)
next
  case (OnBacklog r)
  obtain env render h act ctx where r: "r = (env, render, h, act, ctx)" by (cases r)
  have "keeps (month_step cal p y m purged :: 'a timesheets_scheme \<Rightarrow> _) (run_backlog env render h act ctx)"
  proof (cases purged)
    case True
    then show ?thesis using month_purged.keeps_backlog by simp
  qed (rule month.keeps_editing_act, use assms(2) in \<open>simp add: OnBacklog r purges_issues_def\<close>)
  then show ?thesis by (simp add: OnBacklog r work_step_def after_requests_def keeps_def)
qed

text \<open>
  C18: A locked month of a project is read-only for whoever may not manage the time of the project. Let any
  requests of the time tracking by such callers and any requests on backlogs by anyone follow each other, and
  let any statements fail: the entries of the month are the same ones in the same order, none added and none
  removed, and each is exactly as it was, except that once a request purges deleted issues an entry may have
  lost its link to an issue (and its time of modification moved). The deletion of a project or of an account,
  which removes entries with it, is not among the requests.
\<close>

theorem locked_month_frozen:
  assumes "sealed p y m s" and "\<forall>q\<in>set reqs. \<not> may_unlock p q s"
  shows "list_all2 (kept_entry (list_ex purges_issues reqs))
    (filter (in_month cal p y m) (time_entries s)) (filter (in_month cal p y m) (time_entries (after_work cal reqs s)))"
proof -
  let ?purged = "list_ex purges_issues reqs"
  have "month_step cal p y m ?purged s (after_work cal qs s)" if "set qs \<subseteq> set reqs" "sealed p y m s" "\<forall>q\<in>set qs. \<not> may_unlock p q s" for qs s
    using that
  proof (induction qs arbitrary: s)
    case (Cons q qs)
    have step: "month_step cal p y m ?purged s (work_step cal q s)"
      by (rule work_step_month) (use Cons.prems in \<open>auto simp: list_ex_iff\<close>)
    then have next_state: "sealed p y m (work_step cal q s)" "members (work_step cal q s) = members s" "roles (work_step cal q s) = roles s"
      using Cons.prems(2) by (simp_all add: month_step_def)
    have same: "may_unlock p q' (work_step cal q s) = may_unlock p q' s" for q'
      using next_state(2,3) by (auto simp: may_unlock_def may_unseal_def manages_def granted_def member_join_def role_of_def
          is_superadmin_grant_def is_read_iff split: work_request.split time_act.split Caller.split)
    have "month_step cal p y m ?purged (work_step cal q s) (after_work cal qs (work_step cal q s))"
      using Cons.prems by (intro Cons.IH next_state(1)) (simp_all add: same)
    then show ?case using month_trans [OF step] by (simp add: after_work_def)
  qed (simp add: after_work_def month_seal seal.R_refl)
  from this [of reqs s] show ?thesis using assms by (simp add: month_step_def)
qed

text \<open>A purge does reach the entries of a locked month.\<close>

lemma purge_alters_locked_entries:
  assumes "r \<in> set (time_entries s)" "te_issue_id r = Some i" "i \<in> set ids"
  shows "r\<lparr>te_issue_id := None, te_modified_at := db_now s\<rparr> \<in> set (time_entries (drop_issues ids s))"
  using assms by (force simp: drop_issues_def update_issues_def unlink_entries_def set_update_where)

section \<open>A concrete timesheet\<close>

definition demo_entry :: "nat \<Rightarrow> uid \<Rightarrow> int \<Rightarrow> time_row" where
  "demo_entry i u d =
     \<lparr>te_id = i, te_user_id = u, te_kind = lit ''work'', te_meeting_type = None, te_project_id = Some 5, te_issue_id = Some 60,
      te_entry_date = d, te_minutes = 60, te_note = [], te_booking_id = None, te_created_at = 0, te_modified_at = 0, te_version = 1\<rparr>"

definition demo_lock :: PeriodLock where
  "demo_lock = \<lparr>pl_id = 92, pl_project_id = 5, pl_year = 0, pl_month = 1, pl_locked_by = Some 7, pl_locked_at = 0\<rparr>"

definition demo_times :: timesheets where
  "demo_times = tracker.extend (demo_tracker\<lparr>time_entries := [demo_entry 90 8 3, demo_entry 91 7 40]\<rparr>) (timesheets.fields [demo_lock] [] [])"

lemma demo_times_fields [simp]:
  "time_entries demo_times = [demo_entry 90 8 3, demo_entry 91 7 40]" "period_locks demo_times = [demo_lock]"
  "allowances demo_times = []" "work_targets demo_times = []"
  "faults demo_times = (\<lambda>_. False)" "calls demo_times = 0" "next_id demo_times = 100" "db_now demo_times = 1000"
  "app_now demo_times = 1000" "users demo_times = [demo_user 7, demo_user 8]" "members demo_times = members demo_store"
  "roles demo_times = roles demo_store" "projects demo_times = [project_row_of 5 Private]"
  "issues demo_times = [demo_issue 60 1 1 (Some 50), demo_issue 61 2 2 None, demo_issue 62 3 3 None]" "healthy demo_times"
  by (simp_all add: demo_times_def tracker.extend_def timesheets.fields_def demo_tracker_def store.extend_def tracker.fields_def
      demo_store_def node.extend_def demo_node_def world.extend_def demo_world_def empty_world_def healthy_def)

lemma demo_entry_fields [simp]:
  "te_id (demo_entry i u d) = i" "te_user_id (demo_entry i u d) = u" "te_project_id (demo_entry i u d) = Some 5"
  "te_entry_date (demo_entry i u d) = d" "te_booking_id (demo_entry i u d) = None" "te_version (demo_entry i u d) = 1"
  "te_minutes (demo_entry i u d) = 60" "te_issue_id (demo_entry i u d) = Some 60" "te_kind (demo_entry i u d) = lit ''work''"
  "te_note (demo_entry i u d) = []" "te_created_at (demo_entry i u d) = 0" "te_meeting_type (demo_entry i u d) = None"
  by (simp_all add: demo_entry_def)

lemma demo_dates: "year_month gregorian 3 = (0, 1)" "year_month gregorian 40 = (0, 2)"
proof -
  have "civil (day_number (0, 1, 4)) = (0, 1, 4)" "civil (day_number (0, 2, 10)) = (0, 2, 10)"
    by (intro civil_day_number; simp add: civil_ok_def month_len_def)+
  then have "civil 3 = (0, 1, 4)" "civil 40 = (0, 2, 10)"
    by (simp_all add: day_number_def year_days.simps months_days.simps numeral_2_eq_2 month_len_def)
  then show "year_month gregorian 3 = (0, 1)" "year_month gregorian 40 = (0, 2)"
    by (simp_all add: year_month_def cal_year_def cal_month_def gregorian_def)
qed

lemma demo_sealed: "sealed 5 0 1 demo_times"
  by (simp add: sealed_def entries_ok_def keyed_def any_row_def is_lock_def demo_lock_def)

definition demo_time_requests :: "time_request list" where
  "demo_time_requests = map (\<lambda>act. (demo_env, (\<lambda>_. []), [], act))
     [Own 8 (ChangeTime 90 (Json \<lparr>ut_minutes = 5, ut_note = None, ut_date = None, ut_version = 1\<rparr>)), Own 8 (DropTime 90),
      Manage 5 (User 8) (UnlockMonth 0 1), Manage 5 (User 8) (RemoveTime 90), SetTarget 7 8 (Json 60)]"

definition demo_work :: "work_request list" where
  "demo_work = map OnTime demo_time_requests @ map (\<lambda>act. OnBacklog (demo_env, (\<lambda>x. x), [], act, demo_ctx)) [PurgeEpics, PurgeIssues]"

lemma locked_month_frozen_witness:
  "list_all2 (kept_entry True) [demo_entry 90 8 3] (filter (in_month gregorian 5 0 1) (time_entries (after_work gregorian demo_work demo_times)))"
proof -
  have "\<not> manages 5 8 demo_times"
    by (simp add: manages_def demo_join_simps role_grants_def)
  then have "\<forall>q\<in>set demo_work. \<not> may_unlock 5 q demo_times"
    by (simp add: demo_work_def demo_time_requests_def may_unlock_def may_unseal_def manages_granted)
  from locked_month_frozen [OF demo_sealed this, of gregorian] show ?thesis
    by (simp add: in_month_def demo_dates demo_work_def purges_issues_def)
qed

end
