(* ===== verification/Time_Exact.thy ===== *)
theory Time_Exact
  imports Time_Safety
begin

text \<open>
  What the reports, the bookings and the exports of the time tracking contain, exactly: the CSV export against
  a reader of the format, a summary against its definition over the dates of the month, a booking against
  the days of its range, and the time on an issue against what the caller may see.
\<close>

section \<open>The CSV export\<close>

text \<open>
  A reader of comma-separated values: the grammar of RFC 4180, strict but for the end of a record, which is a line
  feed with or without the carriage return before it. A cell that is not quoted holds no quote, comma, carriage
  return or line feed; what does not fit is refused.
\<close>

datatype csv_mode = CellStart | Plain | Quoted | QuoteSeen | Returned

definition csv_done :: "ustr list \<Rightarrow> ustr list list option \<Rightarrow> ustr list list option" where
  "csv_done row rest = map_option (\<lambda>rows. row # rows) rest"

fun csv_read :: "csv_mode \<Rightarrow> ustr \<Rightarrow> ustr list \<Rightarrow> ustr \<Rightarrow> ustr list list option" where
  "csv_read md cell row [] =
     (if md = Quoted \<or> md = Returned then None else if md = CellStart \<and> row = [] then Some [] else Some [row @ [cell]])"
| "csv_read Quoted cell row (c # cs) =
     (if c = 34 then csv_read QuoteSeen cell row cs else csv_read Quoted (cell @ [c]) row cs)"
| "csv_read QuoteSeen cell row (c # cs) =
     (if c = 34 then csv_read Quoted (cell @ [34]) row cs
      else if c = 44 then csv_read CellStart [] (row @ [cell]) cs
      else if c = 10 then csv_done (row @ [cell]) (csv_read CellStart [] [] cs)
      else if c = 13 then csv_read Returned cell row cs
      else None)"
| "csv_read CellStart cell row (c # cs) =
     (if c = 34 then csv_read Quoted cell row cs
      else if c = 44 then csv_read CellStart [] (row @ [cell]) cs
      else if c = 10 then csv_done (row @ [cell]) (csv_read CellStart [] [] cs)
      else if c = 13 then csv_read Returned cell row cs
      else csv_read Plain (cell @ [c]) row cs)"
| "csv_read Plain cell row (c # cs) =
     (if c = 34 then None
      else if c = 44 then csv_read CellStart [] (row @ [cell]) cs
      else if c = 10 then csv_done (row @ [cell]) (csv_read CellStart [] [] cs)
      else if c = 13 then csv_read Returned cell row cs
      else csv_read Plain (cell @ [c]) row cs)"
| "csv_read Returned cell row (c # cs) =
     (if c = 10 then csv_done (row @ [cell]) (csv_read CellStart [] [] cs) else None)"

definition csv_cells :: "ustr \<Rightarrow> ustr list list option" where
  "csv_cells t = csv_read CellStart [] [] t"

text \<open>After a cell comes a separator: \<open>after_cell row cell\<close> is what the reader does with it.\<close>

definition after_cell :: "ustr list \<Rightarrow> ustr \<Rightarrow> uchar \<Rightarrow> ustr \<Rightarrow> ustr list list option" where
  "after_cell row cell c cs =
     (if c = 44 then csv_read CellStart [] (row @ [cell]) cs else csv_done (row @ [cell]) (csv_read CellStart [] [] cs))"

lemma double_quotes_simps [simp]:
  "double_quotes [] = []" "double_quotes (c # t) = (if c = 34 then [34, 34] else [c]) @ double_quotes t"
  by (simp_all add: double_quotes_def)

lemma read_quoted: "csv_read Quoted cell row (double_quotes t @ 34 # cs) = csv_read QuoteSeen (cell @ t) row cs"
  by (induction t arbitrary: cell) simp_all

lemma read_plain:
  "\<not> list_ex csv_special t \<Longrightarrow> c \<in> {44, 10} \<Longrightarrow> csv_read Plain cell row (t @ c # cs) = after_cell row (cell @ t) c cs"
  by (induction t arbitrary: cell) (auto simp: csv_special_def after_cell_def)

lemma read_field:
  assumes "c \<in> {44, 10}"
  shows "csv_read CellStart [] row (csv_field t @ c # cs) = after_cell row t c cs"
proof (cases "list_ex csv_special t")
  case True
  then show ?thesis using assms read_quoted [of "[]" row t "c # cs"] by (auto simp: csv_field_def after_cell_def)
next
  case False
  then show ?thesis
  proof (cases t)
    case (Cons d t')
    then show ?thesis
      using False assms read_plain [of t' c "[d]" row cs] by (simp add: csv_field_def csv_special_def)
  qed (use assms in \<open>auto simp: csv_field_def after_cell_def\<close>)
qed

lemma read_line:
  "xs \<noteq> [] \<Longrightarrow> csv_read CellStart [] row (join_with [44] (map csv_field xs) @ 10 # cs) =
     csv_done (row @ xs) (csv_read CellStart [] [] cs)"
proof (induction "[44] :: ustr" xs arbitrary: row rule: join_with.induct)
  case (2 x)
  then show ?case by (simp add: read_field after_cell_def)
next
  case (3 x y xs)
  then show ?case using read_field [of 44 row x] by (simp add: after_cell_def)
qed simp

text \<open>The cells of a row as they are meant.\<close>

definition plain_row :: "calendar \<Rightarrow> bool \<Rightarrow> TimeEntryDetail \<Rightarrow> ustr list" where
  "plain_row cal with_user e =
     [cal_format cal (te_entry_date (to_row e))] @ (if with_user then [unwrap_or (td_full_name e) []] else []) @
     [EntryKind_as_str (to_kind e), unwrap_or (td_project_name e) [], task_label e, unwrap_or (td_issue_subject e) [],
      int_str (te_minutes (to_row e)), fixed2 (hours (te_minutes (to_row e))), te_note (to_row e)]"

lemma nat_str_plain: "\<not> list_ex csv_special (nat_str n)"
proof -
  have "\<not> csv_special c" if "is_ascii_digit c" for c using that by (auto simp: csv_special_def is_ascii_digit_def)
  then show ?thesis using nat_str_digits [of _ n] by (auto simp: list_ex_iff)
qed

lemma numbers_plain: "csv_field (int_str v) = int_str v" "csv_field (fixed2 x) = fixed2 x"
proof -
  have "\<not> csv_special 45" "\<not> csv_special 46" "\<not> csv_special (48 + k mod 10)" for k
    by (auto simp: csv_special_def)
  then show "csv_field (int_str v) = int_str v" "csv_field (fixed2 x) = fixed2 x"
    using nat_str_plain by (simp_all add: csv_field_def int_str_def fixed2_def Let_def list_ex_append)
qed

lemma csv_row_plain: "csv_row cal with_user e = map csv_field (plain_row cal with_user e)"
  by (simp add: csv_row_def plain_row_def numbers_plain)

lemma columns_plain: "map csv_field (export_columns with_user) = export_columns with_user"
  by (simp add: export_columns_def csv_field_def csv_special_def lit_def)

text \<open>
  C23: The CSV export loses nothing: a strict reader of the format accepts it and gets back the header and, for every
  entry, the very texts of its cells, whatever commas, quotes, carriage returns and line feeds they hold.
\<close>

theorem csv_export_readable:
  "csv_cells (build_csv cal es with_user) = Some (export_columns with_user # map (plain_row cal with_user) es)"
proof -
  have rows: "csv_read CellStart [] [] (concat (map (\<lambda>e. csv_line (csv_row cal with_user e)) es)) = Some (map (plain_row cal with_user) es)" for es
  proof (induction es)
    case (Cons e es)
    have "plain_row cal with_user e \<noteq> []" by (simp add: plain_row_def)
    then show ?case using Cons read_line by (simp add: csv_line_def csv_row_plain csv_done_def)
  qed simp
  have "export_columns with_user \<noteq> []" by (simp add: export_columns_def)
  from read_line [OF this, of "[]"]
  have "csv_read CellStart [] [] (csv_line (export_columns with_user) @ cs) = csv_done (export_columns with_user) (csv_read CellStart [] [] cs)" for cs
    by (simp add: csv_line_def columns_plain)
  then show ?thesis by (simp add: csv_cells_def build_csv_def rows csv_done_def)
qed

definition demo_detail :: TimeEntryDetail where
  "demo_detail =
     \<lparr>to_row = (demo_entry 90 8 3)\<lparr>te_note := [97, 13, 98, 34, 44, 10]\<rparr>, to_kind = EntryKind.Work, to_meeting_type = None,
      td_issue_ref = None, td_issue_subject = None, td_project_name = Some [80], td_project_slug = None,
      td_username = None, td_full_name = None\<rparr>"

lemma csv_export_readable_witness:
  "\<exists>line. csv_cells (build_csv gregorian [demo_detail] False) = Some [export_columns False, line @ [[97, 13, 98, 34, 44, 10]]]"
  using csv_export_readable [of gregorian "[demo_detail]" False] by (simp add: plain_row_def demo_detail_def)

section \<open>The time on an issue\<close>

text \<open>
  C22: Without the right to see all time, the time shown on an issue depends on the caller's own entries only:
  whatever the others have logged, the answer is the same.
\<close>

theorem issue_time_shows_own:
  assumes "\<not> sees_all_time ctx"
    and "filter (\<lambda>r. te_user_id r = cx_actor_id ctx) es = filter (\<lambda>r. te_user_id r = cx_actor_id ctx) (time_entries s)"
  shows "fst (run_state (issue_time cal coll ctx i) (s\<lparr>time_entries := es\<rparr>)) = fst (run_state (issue_time cal coll ctx i) s)"
proof -
  let ?u = "cx_actor_id ctx"
  have "filter (\<lambda>r. te_project_id r = Some p \<and> worked r \<and> in_dates a b r \<and> te_user_id r = ?u) es =
      filter (\<lambda>r. te_project_id r = Some p \<and> worked r \<and> in_dates a b r \<and> te_user_id r = ?u) (time_entries s)" for p a b
    using arg_cong [OF assms(2), of "filter (\<lambda>r. te_project_id r = Some p \<and> worked r \<and> in_dates a b r)"] by (simp add: conj_ac)
  moreover have "row_to_detail (s\<lparr>time_entries := es, calls := n\<rparr>) = row_to_detail (s\<lparr>calls := n\<rparr>)"
    "by_person coll (s\<lparr>time_entries := es, calls := n\<rparr>) = by_person coll (s\<lparr>calls := n\<rparr>)" for n
    by (auto simp: row_to_detail_def by_person_def name_rank_def fun_eq_iff)
  ultimately show ?thesis
    using assms(1)
    by (simp add: issue_time_def permitted_def passing_def ctx_require_def refuse_def with_client_def pool_get_def stmt_def get_now_def
        served_def list_for_project_def query_def answer_def Let_def)
qed

definition demo_dev_ctx :: ProjectContext where
  "demo_dev_ctx =
     \<lparr>cx_project = row_to_project (project_row_of 5 Private), cx_actor_id = 8,
      cx_access = Some \<lparr>ma_membership_id = 21, ma_role_id = 11, ma_role_slug = lit ''dev'', ma_is_admin = False,
        ma_permissions = [IssueView]\<rparr>, cx_is_superadmin = False\<rparr>"

lemma issue_time_shows_own_witness:
  "fst (run_state (issue_time gregorian (\<lambda>_. 0) demo_dev_ctx 60) (demo_times\<lparr>time_entries := [demo_entry 90 8 3]\<rparr>)) =
     fst (run_state (issue_time gregorian (\<lambda>_. 0) demo_dev_ctx 60) demo_times)"
  by (rule issue_time_shows_own) (simp_all add: sees_all_time_def grants_def access_has_def demo_dev_ctx_def)

section \<open>The summary of a month\<close>

text \<open>Completeness over the dates themselves: the working days of the month up to today, and the minutes of each.\<close>

definition due_days :: "calendar \<Rightarrow> int \<Rightarrow> nat \<Rightarrow> int \<Rightarrow> int set" where
  "due_days cal year month today =
     {d. on_calendar cal d \<and> year_month cal d = (year, int month) \<and> d \<le> today \<and> is_working_day cal d}"

definition month_rows :: "calendar \<Rightarrow> int \<Rightarrow> nat \<Rightarrow> time_row list \<Rightarrow> time_row list" where
  "month_rows cal year month rs = filter (\<lambda>r. year_month cal (te_entry_date r) = (year, int month)) rs"

definition exact_summary :: "calendar \<Rightarrow> int \<Rightarrow> bool \<Rightarrow> time_row list \<Rightarrow> int \<Rightarrow> nat \<Rightarrow> int \<Rightarrow> TimesheetSummary" where
  "exact_summary cal target exempt rs year month today =
     (let due = due_days cal year month today; full = (\<lambda>d. target \<le> minutes_on rs d)
      in \<lparr>tm_year = year, tm_month = month, tm_work_minutes_per_day = target,
          tm_logged_minutes = sum_list (map te_minutes (month_rows cal year month rs)),
          tm_required_minutes = int (card due) * target, tm_working_days = card due,
          tm_complete_days = card {d\<in>due. full d},
          tm_missing_days = (if exempt then [] else map (cal_format cal) (sorted_list_of_set {d\<in>due. \<not> full d}))\<rparr>)"

lemma map_of_per_date: "unwrap_or (map_of (per_date rs) d) 0 = minutes_on rs d"
proof -
  have "map_of (map (\<lambda>d. (d, minutes_on rs d)) ds) d = (if d \<in> set ds then Some (minutes_on rs d) else None)" for ds
    by (induction ds) auto
  moreover have "minutes_on rs d = 0" if "d \<notin> te_entry_date ` set rs"
  proof -
    have "filter (\<lambda>r. te_entry_date r = d) rs = []" using that by (auto simp: filter_empty_conv)
    then show ?thesis by (simp add: minutes_on_def)
  qed
  ultimately show ?thesis by (simp add: per_date_def unwrap_or_def)
qed

lemma minutes_over_dates:
  "distinct ds \<Longrightarrow> te_entry_date ` set rs \<subseteq> set ds \<Longrightarrow> sum_list (map (minutes_on rs) ds) = sum_list (map te_minutes rs)"
proof (induction rs)
  case (Cons r rs)
  have one: "sum_list (map (\<lambda>d. if te_entry_date r = d then te_minutes r else 0) ds) = te_minutes r"
    if "te_entry_date r \<in> set ds" "distinct ds" for ds
    using that
  proof (induction ds)
    case (Cons d ds)
    have "sum_list (map (\<lambda>x. if te_entry_date r = x then te_minutes r else 0) ds) = 0" if "te_entry_date r \<notin> set ds"
      using that by (induction ds) auto
    then show ?case using Cons by (cases "te_entry_date r = d") auto
  qed simp
  have "minutes_on (r # rs) d = (if te_entry_date r = d then te_minutes r else 0) + minutes_on rs d" for d
    by (simp add: minutes_on_def)
  then show ?case using Cons one [of ds] by (simp add: sum_list_addf)
qed (simp add: minutes_on_def [abs_def])

lemma per_date_total: "sum_list (map snd (per_date rs)) = sum_list (map te_minutes rs)"
  by (simp add: per_date_def comp_def minutes_over_dates)

lemma days_between_sorted: "sorted (days_between a b)" "distinct (days_between a b)"
  by (auto simp: days_between_def distinct_map inj_on_def sorted_map intro!: sorted_wrt_mono_rel [OF _ sorted_upt])

lemma summarize_exact:
  assumes "calendar_laws cal" and "month_start cal y m = Inr a" and "month_end cal y m = Inr b"
    and "\<forall>r\<in>set rs. on_calendar cal (te_entry_date r)"
  shows "summarize cal target exempt (per_date (filter (\<lambda>r. in_dates a b r) rs)) y m a b today = exact_summary cal target exempt rs y m today"
proof -
  let ?rs = "filter (\<lambda>r. in_dates a b r) rs"
  define fin where "fin = (if today < b then today else b)"
  define ds where "ds = filter (is_working_day cal) (days_between a fin)"
  let ?full = "\<lambda>d. target \<le> minutes_on rs d"
  have month: "a \<le> x \<and> x \<le> b \<longleftrightarrow> year_month cal x = (y, int m)" if "on_calendar cal x" for x
    using calendar_laws.month_days [OF assms(1-3) that] .
  have "on_calendar cal a" "on_calendar cal (b + 1)"
    using assms(2,3) calendar_laws.date_ymd [OF assms(1)]
    by (auto simp: month_start_def month_end_def Let_def split: if_splits option.splits prod.splits)
  then have on: "on_calendar cal x" if "a \<le> x" "x \<le> b" for x using that by (simp add: on_calendar_def)
  have "x \<in> set ds \<longleftrightarrow> x \<in> due_days cal y m today" for x
  proof (cases "a \<le> x \<and> x \<le> b")
    case True
    then show ?thesis using on [of x] month [of x] by (auto simp: ds_def fin_def due_days_def)
  next
    case False
    then show ?thesis using month [of x] by (auto simp: ds_def fin_def due_days_def split: if_splits)
  qed
  then have due: "set ds = due_days cal y m today" by blast
  have ordered: "sorted ds" "distinct ds"
    by (simp_all add: ds_def days_between_sorted sorted_filter [where f = "\<lambda>x. x", simplified])
  have picked: "sorted_list_of_set {d \<in> due_days cal y m today. Q d} = filter Q ds" for Q
  proof -
    have "sorted (filter Q ds)" "distinct (filter Q ds)"
      using ordered by (simp_all add: sorted_filter [where f = "\<lambda>x. x", simplified])
    moreover have "set (filter Q ds) = {d \<in> due_days cal y m today. Q d}" by (auto simp: due)
    ultimately show ?thesis by (metis sorted_list_of_set.idem_if_sorted_distinct)
  qed
  have counted: "card {d \<in> due_days cal y m today. Q d} = length (filter Q ds)" for Q
    using distinct_card [of "filter Q ds"] ordered(2) by (simp add: due [symmetric])
  have same: "minutes_on ?rs x = minutes_on rs x" if "x \<in> set ds" for x
  proof -
    have "a \<le> x" "x \<le> b" using that by (auto simp: ds_def fin_def split: if_splits)
    then have "filter (\<lambda>r. te_entry_date r = x) ?rs = filter (\<lambda>r. te_entry_date r = x) rs"
      unfolding filter_filter by (intro filter_cong) (auto simp: in_dates_def)
    then show ?thesis by (simp add: minutes_on_def)
  qed
  have rows: "?rs = month_rows cal y m rs"
    unfolding month_rows_def using month assms(4) by (intro filter_cong) (auto simp: in_dates_def)
  have full: "filter (\<lambda>x. target \<le> unwrap_or (map_of (per_date ?rs) x) 0) ds = filter ?full ds"
    "filter (\<lambda>x. \<not> target \<le> unwrap_or (map_of (per_date ?rs) x) 0) ds = filter (\<lambda>x. \<not> ?full x) ds"
    by (intro filter_cong; simp add: map_of_per_date same)+
  have loop: "day_loop cal target exempt (per_date ?rs) a fin (0, 0, []) =
      (length ds, length (filter ?full ds), if exempt then [] else map (cal_format cal) (filter (\<lambda>x. \<not> ?full x) ds))"
    unfolding day_loop_exact Let_def ds_def [symmetric] full by simp
  have whole: "card (due_days cal y m today) = length ds" using counted [of "\<lambda>_. True"] by simp
  have "summarize cal target exempt (per_date ?rs) y m a b today =
      \<lparr>tm_year = y, tm_month = m, tm_work_minutes_per_day = target, tm_logged_minutes = sum_list (map te_minutes ?rs),
       tm_required_minutes = int (length ds) * target, tm_working_days = length ds, tm_complete_days = length (filter ?full ds),
       tm_missing_days = if exempt then [] else map (cal_format cal) (filter (\<lambda>x. \<not> ?full x) ds)\<rparr>"
  proof (cases "a \<le> fin")
    case True
    then show ?thesis unfolding summarize_def Let_def fin_def [symmetric] loop per_date_total prod.case by simp
  next
    case False
    then have "ds = []" by (simp add: ds_def)
    then show ?thesis using False by (simp add: summarize_def Let_def fin_def [symmetric] per_date_total)
  qed
  then show ?thesis by (simp add: exact_summary_def Let_def counted picked whole rows)
qed

text \<open>
  C21: The summary of a month says what the dates say: the logged minutes are those of the caller's entries in
  the month, the working days are the days of the month up to today that are no weekend, and a day is complete
  exactly when its entries reach the caller's daily target; the others are listed in order, and none for an
  account that is excluded from the reports.
\<close>

theorem summary_counts_days:
  assumes "calendar_laws cal" and "month_start cal y m = Inr a" and "month_end cal y m = Inr b"
    and "\<forall>r\<in>set (time_entries s). on_calendar cal (te_entry_date r)"
    and "healthy s" and "any_row (account_live u) (users s)"
  shows "fst (run_state (my_timesheet_summary cal u (Some y) (Some m)) s) =
    Inr (200, exact_summary cal (target_of u s) (excluded u s) (filter (\<lambda>r. te_user_id r = u) (time_entries s)) y m
      (cal_today cal (app_now s)))"
proof -
  have m: "1 \<le> m" "m \<le> 12" using assms(2) by (auto simp: month_start_def split: if_splits)
  have ok: "faults s k = False" for k using assms(5) by (simp add: healthy_def)
  have swap: "filter (\<lambda>r. te_user_id r = u \<and> in_dates a b r) (time_entries s) =
      filter (\<lambda>r. in_dates a b r) (filter (\<lambda>r. te_user_id r = u) (time_entries s))"
    by (simp add: conj_commute)
  have exact: "summarize cal target exempt (per_date (filter (\<lambda>r. te_user_id r = u \<and> in_dates a b r) (time_entries s))) y m a b today =
      exact_summary cal target exempt (filter (\<lambda>r. te_user_id r = u) (time_entries s)) y m today" for target exempt today
    unfolding swap by (rule summarize_exact [OF assms(1-3)]) (use assms(4) in simp)
  have "wp (my_timesheet_summary cal u (Some y) (Some m)) (\<lambda>r _. r =
      Inr (200, exact_summary cal (target_of u s) (excluded u s) (filter (\<lambda>r. te_user_id r = u) (time_entries s)) y m
        (cal_today cal (app_now s)))) s"
    using m assms(2,3,6)
    by (simp add: my_timesheet_summary_def report_month_def wp_rules wp_with_client wp_served timesheet_summary_def wp_andThen
        work_minutes_per_day_def excluded_from_time_reports_def minutes_by_date_def ok Let_def exact excluded_def target_of_def unwrap_or_def)
  then show ?thesis by (simp add: wp_def case_prod_beta)
qed

lemma demo_month: "month_start gregorian 0 1 = Inr 0" "month_end gregorian 0 1 = Inr 30"
proof -
  have "cal_date gregorian 0 1 1 = Some 0" "cal_date gregorian 0 2 1 = Some 31"
    by (simp_all add: gregorian_def gregorian_date_def civil_ok_def month_len_def day_number_def year_days.simps months_days.simps numeral_2_eq_2)
  then show "month_start gregorian 0 1 = Inr 0" "month_end gregorian 0 1 = Inr 30"
    by (simp_all add: month_start_def month_end_def numeral_2_eq_2)
qed

lemma summary_counts_days_witness:
  "fst (run_state (my_timesheet_summary gregorian 8 (Some 0) (Some 1)) demo_times) =
     Inr (200, exact_summary gregorian 480 False [demo_entry 90 8 3] 0 1 (cal_today gregorian 1000))"
proof -
  have live: "any_row (account_live 8) (users demo_times)"
    by (simp add: any_row_def account_live_def has_id_def demo_user_def default_user_def)
  have facts: "target_of 8 demo_times = 480" "\<not> excluded 8 demo_times"
    by (simp_all add: target_of_def excluded_def find_row_def has_id_def demo_user_def default_user_def)
  have dates: "\<forall>r\<in>set (time_entries demo_times). on_calendar gregorian (te_entry_date r)"
    by (simp add: on_calendar_def gregorian_def)
  from summary_counts_days [OF gregorian.calendar_laws_axioms demo_month dates _ live] show ?thesis
    by (simp add: facts)
qed

section \<open>Bookings\<close>

lemma absence_checks: "EntryKind_is_absence k \<Longrightarrow> EntryKind_as_str k \<in> set absence_kinds"
  by (cases k) (simp_all add: EntryKind_is_absence_def absence_kinds_def)

lemma booking_row_shape:
  assumes "r \<in> set (booking_rows u k mins nt b now ds)"
  shows "te_user_id r = u" "te_kind r = EntryKind_as_str k" "te_meeting_type r = None" "te_project_id r = None"
    "te_issue_id r = None" "te_minutes r = mins" "te_booking_id r = Some b"
  using assms by (auto simp: booking_rows_def new_row_def)

lemma booking_row_dates: "map te_entry_date (booking_rows u k mins nt b now ds) = ds"
proof -
  have "map te_entry_date (map (\<lambda>(i, d). new_row i now (f d)) xs) = map (\<lambda>d. ne_entry_date (f d)) (map snd xs)"
    for f and xs :: "(nat \<times> int) list"
    by (induction xs) (auto simp: new_row_def)
  then show ?thesis unfolding booking_rows_def by (simp only:) simp
qed

lemma entry_row [simp]: "to_row (row_to_entry r) = r"
  by (simp add: row_to_entry_def)

lemma entries_of_rows: "map to_row (map row_to_entry rs) = rs"
  by (induction rs) simp_all

lemma booking_rows_ok:
  assumes "EntryKind_is_absence k" and "1 \<le> mins" and "mins \<le> 1440" and "u \<in> set (map u_id (users s))"
  shows "list_all entry_checks (booking_rows u k mins nt b now ds)" "list_all (entry_refs_ok s) (booking_rows u k mins nt b now ds)"
  using assms absence_checks [OF assms(1)]
  by (auto simp: list_all_iff entry_checks_def entry_refs_ok_def booking_row_shape known_ref_def)

text \<open>What a booking that went through has stored, whatever failed before.\<close>

definition booked :: "uid \<Rightarrow> 't timesheets_scheme \<Rightarrow> response + nat \<times> nat \<times> TimeEntry list \<Rightarrow> 't timesheets_scheme \<Rightarrow> bool" where
  "booked u s r t \<longleftrightarrow> (\<forall>st b es. r = Inr (st, b, es) \<longrightarrow> b = next_id s \<and> time_entries t = time_entries s @ map to_row es \<and>
     list_all (\<lambda>e. in_booking u b (to_row e)) es)"

lemma wp_create_booking:
  "wp (create_booking cal u k a b mins nt skip) (\<lambda>r t. \<forall>bk es. r = Inr (Some (bk, es)) \<longrightarrow> booked u s (Inr (201, bk, es)) t) s"
proof -
  have stored: "booked u s (Inr (201, next_id s, map row_to_entry (booking_rows u k mins nt (next_id s) now ds))) t"
    if "time_entries t = time_entries s @ booking_rows u k mins nt (next_id s) now ds" for now ds t
  proof -
    have "in_booking u (next_id s) (to_row (row_to_entry r))" if "r \<in> set (booking_rows u k mins nt (next_id s) now ds)" for r
      using booking_row_shape [OF that] by (simp add: in_booking_def)
    then show ?thesis using that entries_of_rows by (simp add: booked_def list_all_iff del: map_map)
  qed
  show ?thesis
    unfolding create_booking_def wp_stmt by (simp add: Let_def stored split: option.split)
qed

lemma minutes_read: "keeps untouched (absence_minutes u x)"
  unfolding absence_minutes_def work_minutes_per_day_def by (auto intro!: reading.reading_shapes split: option.split)

lemma wp_booked:
  fixes s :: "'t timesheets_scheme"
  shows "wp (book_absence env cal h u body) (booked u s) s"
proof -
  have none: "booked u s (Inl e) t" for e t by (simp add: booked_def)
  have work: "wp (do { mins \<leftarrow> absence_minutes u x; served (create_booking cal u k a b mins nt skip) (\<lambda>r. case r of
        None \<Rightarrow> refuse aborted
      | Some (bk, es) \<Rightarrow> do { _ \<leftarrow> audit env h (Some u) what (ds bk es); answer 201 (bk, es) }) }) (booked u s) (s\<lparr>calls := n\<rparr>)"
    for x k a b nt skip what ds n
    unfolding wp_bind
  proof (rule wp_mono [OF wp_keeps [OF minutes_read]])
    fix mins and t :: "'t timesheets_scheme"
    assume "untouched (s\<lparr>calls := n\<rparr>) t"
    then have "next_id t = next_id s" "time_entries t = time_entries s" by (auto simp: untouched_def)
    then show "wp (served (create_booking cal u k a b mins nt skip) (\<lambda>r. case r of
        None \<Rightarrow> refuse aborted
      | Some (bk, es) \<Rightarrow> do { _ \<leftarrow> audit env h (Some u) what (ds bk es); answer 201 (bk, es) })) (booked u s) t"
      unfolding wp_served
      by (intro wp_mono [OF wp_create_booking])
        (auto simp: none wp_refuse wp_bind wp_audit wp_answer booked_def Let_def split: sum.split option.split)
  qed
  show ?thesis
    unfolding book_absence_def
    using work [of _ _ _ _ _ _ _ _ 0] by (auto simp: wp_passing wp_with_client none work split: sum.split)
qed

text \<open>
  C20: A booking can be cancelled without a trace: once an absence has been booked, its cancellation by the same
  account leaves the entries exactly as they were before the booking.
\<close>

theorem booking_cancelled:
  assumes "run_state (book_absence env cal h u body) s = (Inr (st, b, es), t)"
    and "run_state (delete_absence_booking env h' u b) t = (Inr x, v)"
    and "\<forall>r\<in>set (time_entries s). \<forall>c. te_booking_id r = Some c \<longrightarrow> c < next_id s"
  shows "time_entries v = time_entries s"
proof -
  have "booked u s (Inr (st, b, es)) t" using wpI [OF assms(1) wp_booked] .
  then have b: "b = next_id s" "time_entries t = time_entries s @ map to_row es" "list_all (\<lambda>e. in_booking u b (to_row e)) es"
    unfolding booked_def by blast+
  have "\<not> in_booking u b r" if "r \<in> set (time_entries s)" for r using assms(3) that b(1) by (auto simp: in_booking_def)
  then have "filter (\<lambda>r. \<not> in_booking u b r) (time_entries s) = time_entries s" by (simp add: filter_id_conv)
  moreover have "filter (\<lambda>r. \<not> in_booking u b r) (map to_row es) = []" using b(3) by (simp add: filter_empty_conv list_all_iff)
  ultimately have gone: "delete_where (in_booking u b) (time_entries t) = time_entries s" by (simp add: delete_where_def b(2))
  have "wp (delete_absence_booking env h' u b) (\<lambda>r w. \<forall>x. r = Inr x \<longrightarrow> time_entries w = time_entries s) t"
    by (auto simp: delete_absence_booking_def delete_booking_def execute_def wp_rules wp_with_client wp_served wp_stmt Let_def gone)
  from wpI [OF assms(2) this] show ?thesis by (cases x) simp
qed

text \<open>The days a request asks for, and the minutes of each.\<close>

definition booking_minutes :: "uid \<Rightarrow> BookAbsenceRequest \<Rightarrow> 't timesheets_scheme \<Rightarrow> int" where
  "booking_minutes u req s = (case ba_minutes_per_day req of Some x \<Rightarrow> x | None \<Rightarrow> target_of u s)"

definition booking_dates :: "calendar \<Rightarrow> BookAbsenceRequest \<Rightarrow> int \<Rightarrow> int \<Rightarrow> int list" where
  "booking_dates cal req a b = filter (\<lambda>d. \<not> unwrap_or (ba_skip_weekends req) True \<or> is_working_day cal d) (days_between a b)"

text \<open>What a valid booking request is answered.\<close>

lemma booking_exact:
  fixes s :: "'t timesheets_scheme"
  assumes "healthy s" and "any_row (account_live u) (users s)" and "1 \<le> target_of u s" and "target_of u s \<le> 1440"
    and "valid_absence req" and "absence_kind (ba_kind req) = Inr k"
    and "absence_range cal (ba_start_date req) (ba_end_date req) = Inr (a, b)" and "b \<le> cal_max cal"
  shows "let r = fst (run_state (book_absence env cal h u (Json req)) s)
    in if b = cal_max cal then r = Inl aborted
       else \<exists>bk es. r = Inr (201, bk, es) \<and> map (\<lambda>e. te_entry_date (to_row e)) es = booking_dates cal req a b \<and> length es \<le> 367"
proof -
  let ?ds = "booking_dates cal req a b" and ?mins = "booking_minutes u req s"
  have ok: "faults s n = False" for n using assms(1) by (simp add: healthy_def)
  have kind: "EntryKind_is_absence k" using assms(6) by (auto simp: absence_kind_def split: option.splits if_splits)
  have range: "a \<le> b" "b - a \<le> 366" using assms(7) by (auto simp: absence_range_def split: sum.splits if_splits)
  have mins: "1 \<le> ?mins" "?mins \<le> 1440"
    using assms(3-5) by (auto simp: booking_minutes_def valid_absence_def opt_all_def int_between_def split: option.splits)
  have user: "u \<in> set (map u_id (users s))" using assms(2) by (auto simp: any_row_def account_live_def has_id_def list_ex_iff)
  have short: "length ?ds \<le> 367"
  proof -
    have "length ?ds \<le> length (days_between a b)" by (simp add: booking_dates_def)
    also have "\<dots> \<le> 367" using range by (simp add: days_between_def)
    finally show ?thesis .
  qed
  have days: "booking_days cal (unwrap_or (ba_skip_weekends req) True) a b = (if b = cal_max cal then None else Some ?ds)"
    using range assms(8) by (auto simp: booking_days_exact booking_dates_def)
  let ?post = "\<lambda>r (_ :: 't timesheets_scheme). if b = cal_max cal then r = Inl aborted
    else \<exists>bk es. r = Inr (201, bk, es) \<and> map (\<lambda>e. te_entry_date (to_row e)) es = ?ds \<and> length es \<le> 367"
  have made: "map (\<lambda>e. te_entry_date (to_row e)) (map row_to_entry (booking_rows u k ?mins nt i now ?ds)) = ?ds"
    "length (map row_to_entry (booking_rows u k ?mins nt i now ?ds)) \<le> 367" for nt i now
    using booking_row_dates [of u k ?mins nt i now ?ds] short by (simp_all add: comp_def booking_rows_def)
  have stored: "wp (served (create_booking cal u k a b ?mins nt (unwrap_or (ba_skip_weekends req) True)) (\<lambda>r. case r of
        None \<Rightarrow> refuse aborted
      | Some (bk, es) \<Rightarrow> do { _ \<leftarrow> audit env h (Some u) what (ds bk es); answer 201 (bk, es) })) ?post t"
    if t: "untouched s t" for t nt what ds
  proof -
    have "users t = users s" "faults t = faults s" using t by (auto simp: untouched_def)
    then have rows: "list_all entry_checks (booking_rows u k ?mins nt i now ?ds)" "list_all (entry_refs_ok (t\<lparr>calls := n\<rparr>)) (booking_rows u k ?mins nt i now ?ds)"
      for i now n
      using booking_rows_ok [OF kind mins, where s = "t\<lparr>calls := n\<rparr>"] user by simp_all
    show ?thesis
      using made \<open>faults t = faults s\<close>
      by (simp add: wp_served create_booking_def wp_stmt days rows ok Let_def wp_refuse wp_bind wp_audit wp_answer del: map_map)
  qed
  have minutes: "wp (absence_minutes u (ba_minutes_per_day req)) (\<lambda>x t. x = ?mins \<and> untouched s t) (s\<lparr>calls := n\<rparr>)" for n
    using assms(2) by (simp add: absence_minutes_def work_minutes_per_day_def booking_minutes_def wp_bind wp_query wp_return ok
        unwrap_or_def target_of_def split: option.split)
  have "wp (book_absence env cal h u (Json req)) ?post s"
    unfolding book_absence_def
    by (auto simp: parse_time_body_def assms(5-7) wp_passing wp_with_client wp_bind ok intro!: wp_mono [OF minutes] stored)
  then show ?thesis by (simp add: wp_def case_prod_beta Let_def)
qed

text \<open>
  C19: A booking ends: a valid request of an existing account is answered, with one entry for each day of the
  range, weekends left out unless asked for, in order, and at most 367 of them. Only a range that ends on the
  last date of the calendar is not: stepping past it panics, and the release build aborts.
\<close>

theorem booking_ends:
  fixes s :: "'t timesheets_scheme"
  assumes "healthy s" and "any_row (account_live u) (users s)" and "1 \<le> target_of u s" and "target_of u s \<le> 1440"
    and "valid_absence req" and "absence_kind (ba_kind req) = Inr k"
    and "absence_range cal (ba_start_date req) (ba_end_date req) = Inr (a, b)" and "b \<le> cal_max cal"
  shows "let r = fst (run_state (book_absence env cal h u (Json req)) s)
    in if b = cal_max cal then r = Inl aborted
       else \<exists>bk es. r = Inr (201, bk, es) \<and> map (\<lambda>e. te_entry_date (to_row e)) es = booking_dates cal req a b \<and> length es \<le> 367"
  by (rule booking_exact [OF assms])

definition demo_absence :: BookAbsenceRequest where
  "demo_absence =
     \<lparr>ba_kind = lit ''vacation'', ba_start_date = [48, 48, 48, 48, 45, 48, 49, 45, 48, 51],
      ba_end_date = [48, 48, 48, 48, 45, 48, 49, 45, 48, 53], ba_minutes_per_day = None, ba_note = None, ba_skip_weekends = None\<rparr>"

lemma demo_absence_facts:
  "valid_absence demo_absence" "absence_kind (ba_kind demo_absence) = Inr Vacation"
  "absence_range gregorian (ba_start_date demo_absence) (ba_end_date demo_absence) = Inr (2, 4)"
  "booking_dates gregorian demo_absence 2 4 = [2, 3, 4]"
proof -
  show "valid_absence demo_absence"
    by (simp add: valid_absence_def demo_absence_def len_between_def byte_len_def utf8_len_def opt_all_def lit_def)
  show "absence_kind (ba_kind demo_absence) = Inr Vacation"
    by (simp add: absence_kind_def demo_absence_def EntryKind_parse_def EntryKind_is_absence_def lit_def)
  have "cal_parse gregorian (ba_start_date demo_absence) = Some 2" "cal_parse gregorian (ba_end_date demo_absence) = Some 4"
    by (simp_all add: demo_absence_def gregorian_def gregorian_parse_def gregorian_date_def is_ascii_digit_def civil_ok_def
        month_len_def day_number_def year_days.simps months_days.simps)
  then show "absence_range gregorian (ba_start_date demo_absence) (ba_end_date demo_absence) = Inr (2, 4)"
    by (simp add: absence_range_def parse_date_def)
  have "days_between 2 4 = [2, 3, 4]" by (simp add: days_between_def numeral_eq_Suc)
  then show "booking_dates gregorian demo_absence 2 4 = [2, 3, 4]"
    by (simp add: booking_dates_def is_working_day_def gregorian_def)
qed

lemma demo_live: "any_row (account_live 8) (users demo_times)" "target_of 8 demo_times = 480"
  by (simp_all add: any_row_def account_live_def has_id_def demo_user_def default_user_def target_of_def)

lemma booking_ends_witness:
  "\<exists>bk es. fst (run_state (book_absence demo_env gregorian [] 8 (Json demo_absence)) demo_times) = Inr (201, bk, es) \<and>
     map (\<lambda>e. te_entry_date (to_row e)) es = [2, 3, 4]"
proof -
  have "4 \<le> cal_max gregorian" "4 \<noteq> cal_max gregorian" by (simp_all add: gregorian_def)
  with booking_ends [OF _ demo_live(1) _ _ demo_absence_facts(1-3), of demo_env "[]"] show ?thesis
    by (auto simp: demo_live demo_absence_facts)
qed

text \<open>No request changes which statements fail.\<close>

interpretation fault_free: calls_evolution "\<lambda>s t :: 't timesheets_scheme. faults t = faults s"
  by unfold_locales simp_all

lemma booking_keeps_faults: "keeps (\<lambda>s t :: 't timesheets_scheme. faults t = faults s) (book_absence env cal h u body)"
proof -
  have log: "keeps (\<lambda>s t :: 't timesheets_scheme. faults t = faults s) (audit env h actor what ds)" for actor what ds
    unfolding audit_def audit_record_def by (intro fault_free.keeps_rules fault_free.keeps_stmt) simp
  have create: "keeps (\<lambda>s t :: 't timesheets_scheme. faults t = faults s) (create_booking cal u k a b mins nt skip)" for k a b mins nt skip
    unfolding create_booking_def by (rule fault_free.keeps_stmt) (simp add: Let_def split: option.split)
  show ?thesis
    unfolding book_absence_def absence_minutes_def work_minutes_per_day_def
    by (auto intro!: fault_free.reading_shapes log create split: option.split)
qed

lemma booking_cancelled_witness:
  "\<exists>bk es t x v. run_state (book_absence demo_env gregorian [] 8 (Json demo_absence)) demo_times = (Inr (201, bk, es), t) \<and>
     run_state (delete_absence_booking demo_env [] 8 bk) t = (Inr x, v) \<and> time_entries v = [demo_entry 90 8 3, demo_entry 91 7 40]"
proof -
  let ?book = "book_absence demo_env gregorian [] 8 (Json demo_absence)"
  have last_date: "4 \<le> cal_max gregorian" "4 \<noteq> cal_max gregorian" by (simp_all add: gregorian_def)
  obtain bk es t where run: "run_state ?book demo_times = (Inr (201, bk, es), t)" and days: "map (\<lambda>e. te_entry_date (to_row e)) es = [2, 3, 4]"
    using booking_exact [OF _ demo_live(1) _ _ demo_absence_facts(1-3), of demo_env "[]"] last_date
    by (cases "run_state ?book demo_times") (auto simp: demo_live demo_absence_facts)
  have "booked 8 demo_times (Inr (201, bk, es)) t" using wpI [OF run wp_booked] .
  then have stored: "time_entries t = time_entries demo_times @ map to_row es" "list_all (\<lambda>e. in_booking 8 bk (to_row e)) es"
    unfolding booked_def by blast+
  have "es \<noteq> []" using days by auto
  then have hit: "affected (in_booking 8 bk) (time_entries t) \<noteq> 0"
    using stored by (cases es) (auto simp: affected_def count_where_def)
  have "faults t = faults demo_times" using wpI [OF run wp_keeps [OF booking_keeps_faults]] .
  then have "wp (delete_absence_booking demo_env [] 8 bk) (\<lambda>r _. \<exists>x. r = Inr x) t"
    using hit by (simp add: delete_absence_booking_def delete_booking_def execute_def wp_rules wp_with_client wp_served wp_stmt Let_def)
  then obtain x v where cancel: "run_state (delete_absence_booking demo_env [] 8 bk) t = (Inr x, v)"
    by (auto simp: wp_def case_prod_beta prod_eq_iff)
  show ?thesis using booking_cancelled [OF run cancel] run cancel by (cases x) auto
qed

end
