(* ===== verification/Boards.thy ===== *)
theory Boards
  imports Time_Team
begin

text \<open>
  Boards: the table and the history of renamed keys (\<open>crates/db/src/boards.rs\<close>, \<open>crates/core/src/board.rs\<close>,
  \<open>V011__multiple_boards.sql\<close>, \<open>V016__short_link_keys.sql\<close>), the handlers (\<open>crates/api/src/boards.rs\<close>) and the
  maintenance of the short links (\<open>crates/api/src/admin/handlers.rs\<close>). The configuration of a board is the text
  of its JSON value. The contents of a board are not modelled.
\<close>

section \<open>Tables\<close>

record board_key_row =
  bk_id :: nat
  bk_project_id :: pid
  bk_board_id :: nat
  bk_key :: ustr
  bk_replaced_at :: int

record opened_row =
  op_project_id :: pid
  op_user_id :: uid
  op_board_id :: "nat option"
  op_modified_at :: int

record kanban = timesheets +
  old_keys :: "board_key_row list"
  opened :: "opened_row list"

record Board =
  bd_row :: board_row
  bd_visibility :: BoardVisibility

definition row_to_board :: "board_row \<Rightarrow> Board" where
  "row_to_board r =
     \<lparr>bd_row = r, bd_visibility = unwrap_or (BoardVisibility_parse (bo_visibility r)) BoardVisibility.Personal\<rparr>"

text \<open>The CHECK on keys: \<open>^[a-z0-9]([a-z0-9-]{0,10}[a-z0-9])?$\<close>\<close>

definition key_char :: "uchar \<Rightarrow> bool" where
  "key_char c \<longleftrightarrow> is_ascii_lower c \<or> is_ascii_digit c"

definition key_format :: "ustr \<Rightarrow> bool" where
  "key_format k \<longleftrightarrow> k \<noteq> [] \<and> length k \<le> 12 \<and> key_char (hd k) \<and> key_char (last k) \<and> list_all (\<lambda>c. key_char c \<or> c = 45) k"

definition board_checks :: "board_row \<Rightarrow> bool" where
  "board_checks r \<longleftrightarrow> key_format (bo_key r) \<and> length (bo_color r) \<le> 16 \<and>
     (bo_visibility r = lit ''personal'' \<or> bo_visibility r = lit ''shared'')"

definition is_board :: "pid \<Rightarrow> nat \<Rightarrow> board_row \<Rightarrow> bool" where
  "is_board p i r \<longleftrightarrow> bo_id r = i \<and> bo_project_id r = p"

definition project_is :: "pid \<Rightarrow> project_row \<Rightarrow> bool" where
  "project_is p r \<longleftrightarrow> pj_id r = p"

definition has_key :: "pid \<Rightarrow> ustr \<Rightarrow> board_row \<Rightarrow> bool" where
  "has_key p k r \<longleftrightarrow> bo_project_id r = p \<and> bo_key r = k"

definition was_key :: "pid \<Rightarrow> ustr \<Rightarrow> board_key_row \<Rightarrow> bool" where
  "was_key p k r \<longleftrightarrow> bk_project_id r = p \<and> bk_key r = k"

section \<open>Keys\<close>

definition key_base :: "env \<Rightarrow> ustr \<Rightarrow> ustr" where
  "key_base env name =
     (case filter (\<lambda>w. w \<noteq> []) (split_on (\<lambda>c. \<not> is_ascii_alnum c) (to_lowercase env name)) of
        [] \<Rightarrow> lit ''b''
      | [w] \<Rightarrow> take 6 w
      | many \<Rightarrow> List.map_filter (\<lambda>w. case w of [] \<Rightarrow> None | c # _ \<Rightarrow> Some c) (take 6 many))"

definition key_taken :: "pid \<Rightarrow> ustr \<Rightarrow> ('s store_scheme, bool) db" where
  "key_taken p cand = query (\<lambda>s. any_row (has_key p cand) (boards s))"

definition suffixed :: "ustr \<Rightarrow> nat \<Rightarrow> ustr" where
  "suffixed base n = take (12 - length ([45] @ nat_str n)) base @ [45] @ nat_str n"

text \<open>
  The candidates are tried until one is free. The number is a \<open>u32\<close> that saturates, so after \<open>2 ^ 32\<close> of them
  there is no new one: that the fuel runs out means that the loop of the code does not end.
\<close>

fun key_loop :: "nat \<Rightarrow> pid \<Rightarrow> ustr \<Rightarrow> nat \<Rightarrow> ustr \<Rightarrow> ('s store_scheme, ustr option) db" where
  "key_loop 0 p base n cand = State_Monad.return (Inr None)"
| "key_loop (Suc fuel) p base n cand = do {
     r \<leftarrow> key_taken p cand;
     case r of
       Inl e \<Rightarrow> State_Monad.return (Inl e)
     | Inr taken \<Rightarrow>
         if \<not> taken then State_Monad.return (Inr (Some cand))
         else let m = min (n + 1) (2 ^ 32 - 1) in key_loop fuel p base m (suffixed base m)
   }"

definition generate_key :: "env \<Rightarrow> pid \<Rightarrow> ustr \<Rightarrow> ('s store_scheme, ustr option) db" where
  "generate_key env p name = key_loop (2 ^ 32) p (key_base env name) 1 (key_base env name)"

section \<open>Statements\<close>

text \<open>Shared boards and the own personal ones, by order and name; \<open>coll\<close> ranks texts as the database sorts them.\<close>

definition db_list_boards :: "(ustr \<Rightarrow> rat) \<Rightarrow> pid \<Rightarrow> uid \<Rightarrow> ('t kanban_scheme, Board list) db" where
  "db_list_boards coll p u = query (\<lambda>s. map row_to_board (sort_key bo_order (sort_key (\<lambda>r. coll (bo_name r))
     (filter (\<lambda>r. bo_project_id r = p \<and> (bo_visibility r = lit ''shared'' \<or> bo_owner_id r = Some u)) (boards s)))))"

definition db_get_board :: "pid \<Rightarrow> nat \<Rightarrow> ('t kanban_scheme, Board option) db" where
  "db_get_board p i = query (\<lambda>s. map_option row_to_board (find_row (is_board p i) (boards s)))"

definition board_max_order :: "pid \<Rightarrow> ('t kanban_scheme, f64 option) db" where
  "board_max_order p = query (\<lambda>s. greatest (map bo_order (filter (\<lambda>r. bo_project_id r = p) (boards s))))"

definition board_insert :: "(nat \<Rightarrow> int \<Rightarrow> board_row) \<Rightarrow> ('t kanban_scheme, Board) db" where
  "board_insert new = stmt (\<lambda>s.
     let r = new (next_id s) (db_now s)
     in if \<not> board_checks r then (Inl Unavailable, s)
        else if any_row (has_key (bo_project_id r) (bo_key r)) (boards s) then (Inl UniqueViolation, s)
        else if \<not> any_row (project_is (bo_project_id r)) (projects s) \<or>
          \<not> opt_all (\<lambda>u. any_row (has_id u) (users s)) (bo_owner_id r)
        then (Inl ForeignKeyViolation, s)
        else (Inr (row_to_board r), s\<lparr>boards := boards s @ [r], next_id := Suc (next_id s)\<rparr>))"

definition db_create_board ::
    "pid \<Rightarrow> uid option \<Rightarrow> BoardVisibility \<Rightarrow> ustr \<Rightarrow> ustr \<Rightarrow> ustr \<Rightarrow> ustr \<Rightarrow> ('t kanban_scheme, Board) db" where
  "db_create_board p u visibility name key color config = do {
     m \<leftarrow> board_max_order p;
     case m of
       Inl e \<Rightarrow> State_Monad.return (Inl e)
     | Inr highest \<Rightarrow> board_insert (\<lambda>i now.
         \<lparr>bo_id = i, bo_project_id = p, bo_owner_id = u, bo_visibility = BoardVisibility_as_str visibility, bo_name = name,
          bo_key = key, bo_color = color, bo_config = config, bo_order = unwrap_or (rank_between highest None) 1,
          bo_created_at = now, bo_modified_at = now\<rparr>)
   }"

text \<open>The trigger of the table sets \<open>modified_at\<close>.\<close>

definition db_update_board :: "pid \<Rightarrow> nat \<Rightarrow> ustr \<Rightarrow> ustr \<Rightarrow> ustr \<Rightarrow> ustr \<Rightarrow> ('t kanban_scheme, Board option) db" where
  "db_update_board p i name key color config = stmt (\<lambda>s.
     let f = (\<lambda>r. r\<lparr>bo_name := name, bo_key := key, bo_color := color, bo_config := config, bo_modified_at := db_now s\<rparr>)
     in case find_row (is_board p i) (boards s) of
          None \<Rightarrow> (Inr None, s)
        | Some r \<Rightarrow>
            if \<not> board_checks (f r) then (Inl Unavailable, s)
            else if any_row (\<lambda>q. has_key p key q \<and> bo_id q \<noteq> i) (boards s) then (Inl UniqueViolation, s)
            else (Inr (Some (row_to_board (f r))), s\<lparr>boards := update_where (is_board p i) f (boards s)\<rparr>))"

definition get_by_key :: "pid \<Rightarrow> ustr \<Rightarrow> ('t kanban_scheme, Board option) db" where
  "get_by_key p key = query (\<lambda>s. map_option row_to_board (find_row (has_key p key) (boards s)))"

definition find_id_by_historic_key :: "pid \<Rightarrow> ustr \<Rightarrow> ('t kanban_scheme, nat option) db" where
  "find_id_by_historic_key p key = query (\<lambda>s. map_option bk_board_id (find_row (was_key p key) (old_keys s)))"

definition record_key_history :: "pid \<Rightarrow> nat \<Rightarrow> ustr \<Rightarrow> ('t kanban_scheme, unit) db" where
  "record_key_history p i old_key = stmt (\<lambda>s.
     if \<not> any_row (\<lambda>r. bo_id r = i) (boards s) then (Inl ForeignKeyViolation, s)
     else if any_row (was_key p old_key) (old_keys s)
     then (Inr (), s\<lparr>old_keys := update_where (was_key p old_key)
                       (\<lambda>r. r\<lparr>bk_board_id := i, bk_replaced_at := db_now s\<rparr>) (old_keys s)\<rparr>)
     else (Inr (), s\<lparr>old_keys := old_keys s @ [\<lparr>bk_id = next_id s, bk_project_id = p, bk_board_id = i,
                       bk_key = old_key, bk_replaced_at = db_now s\<rparr>], next_id := Suc (next_id s)\<rparr>))"

text \<open>Deleting a board deletes its old keys and clears the pointers to it.\<close>

definition drop_board :: "nat \<Rightarrow> 't kanban_scheme \<Rightarrow> 't kanban_scheme" where
  "drop_board i s = s\<lparr>boards := delete_where (\<lambda>r. bo_id r = i) (boards s),
     old_keys := delete_where (\<lambda>r. bk_board_id r = i) (old_keys s),
     opened := update_where (\<lambda>r. op_board_id r = Some i) (\<lambda>r. r\<lparr>op_board_id := None\<rparr>) (opened s)\<rparr>"

definition db_delete_board :: "pid \<Rightarrow> nat \<Rightarrow> ('t kanban_scheme, bool) db" where
  "db_delete_board p i = stmt (\<lambda>s.
     if any_row (is_board p i) (boards s) then (Inr True, drop_board i s) else (Inr False, s))"

definition opened_by :: "pid \<Rightarrow> uid \<Rightarrow> opened_row \<Rightarrow> bool" where
  "opened_by p u r \<longleftrightarrow> op_project_id r = p \<and> op_user_id r = u"

definition db_get_last_opened :: "pid \<Rightarrow> uid \<Rightarrow> ('t kanban_scheme, nat option) db" where
  "db_get_last_opened p u = query (\<lambda>s. Option.bind (find_row (opened_by p u) (opened s)) op_board_id)"

definition db_set_last_opened :: "pid \<Rightarrow> uid \<Rightarrow> nat \<Rightarrow> ('t kanban_scheme, unit) db" where
  "db_set_last_opened p u i = stmt (\<lambda>s.
     if \<not> any_row (\<lambda>r. bo_id r = i) (boards s) \<or> \<not> any_row (project_is p) (projects s) \<or> \<not> any_row (has_id u) (users s)
     then (Inl ForeignKeyViolation, s)
     else if any_row (opened_by p u) (opened s)
     then (Inr (), s\<lparr>opened := update_where (opened_by p u)
                       (\<lambda>r. r\<lparr>op_board_id := Some i, op_modified_at := db_now s\<rparr>) (opened s)\<rparr>)
     else (Inr (), s\<lparr>opened := opened s @ [\<lparr>op_project_id = p, op_user_id = u, op_board_id = Some i,
                       op_modified_at = db_now s\<rparr>]\<rparr>))"

record PrefixHistoryEntry =
  px_row :: history_row
  px_project_name :: ustr

record BoardKeyHistoryEntry =
  kx_row :: board_key_row
  kx_project_name :: ustr
  kx_board_name :: ustr

definition list_prefix_history :: "('t kanban_scheme, PrefixHistoryEntry list) db" where
  "list_prefix_history = query (\<lambda>s. List.map_filter (\<lambda>h.
     map_option (\<lambda>p. \<lparr>px_row = h, px_project_name = pj_name p\<rparr>) (find_row (project_is (hi_project_id h)) (projects s)))
     (rev (sort_key hi_replaced_at (prefix_history s))))"

definition list_key_history :: "('t kanban_scheme, BoardKeyHistoryEntry list) db" where
  "list_key_history = query (\<lambda>s. List.map_filter (\<lambda>h.
     case (find_row (project_is (bk_project_id h)) (projects s), find_row (\<lambda>r. bo_id r = bk_board_id h) (boards s)) of
       (Some p, Some b) \<Rightarrow> Some \<lparr>kx_row = h, kx_project_name = pj_name p, kx_board_name = bo_name b\<rparr>
     | _ \<Rightarrow> None) (rev (sort_key bk_replaced_at (old_keys s))))"

definition delete_prefix_history :: "nat list \<Rightarrow> ('t kanban_scheme, nat) db" where
  "delete_prefix_history ids = execute (\<lambda>s. affected (\<lambda>h. hi_id h \<in> set ids) (prefix_history s))
     (\<lambda>s. s\<lparr>prefix_history := delete_where (\<lambda>h. hi_id h \<in> set ids) (prefix_history s)\<rparr>)"

definition delete_key_history :: "nat list \<Rightarrow> ('t kanban_scheme, nat) db" where
  "delete_key_history ids = execute (\<lambda>s. affected (\<lambda>h. bk_id h \<in> set ids) (old_keys s))
     (\<lambda>s. s\<lparr>old_keys := delete_where (\<lambda>h. bk_id h \<in> set ids) (old_keys s)\<rparr>)"

section \<open>Handlers\<close>

record CreateBoardRequest =
  cb_name :: ustr
  cb_color :: ustr
  cb_shared :: bool
  cb_config :: ustr

record UpdateBoardRequest =
  ub_name :: ustr
  ub_key :: "ustr option"
  ub_color :: ustr
  ub_config :: ustr

definition valid_create_board :: "CreateBoardRequest \<Rightarrow> bool" where
  "valid_create_board r \<longleftrightarrow> len_between 1 120 (cb_name r) \<and> len_between 0 16 (cb_color r)"

definition valid_update_board :: "UpdateBoardRequest \<Rightarrow> bool" where
  "valid_update_board r \<longleftrightarrow> len_between 1 120 (ub_name r) \<and> opt_all (len_between 1 12) (ub_key r) \<and> len_between 0 16 (ub_color r)"

definition valid_key :: "ustr \<Rightarrow> bool" where
  "valid_key k \<longleftrightarrow> k \<noteq> [] \<and> byte_len k \<le> 12 \<and> is_ascii_alnum (hd k) \<and> is_ascii_alnum (last k) \<and>
     list_all (\<lambda>c. is_ascii_alnum c \<or> c = 45) k"

text \<open>The caller waits for ever: the model writes it as an answer with status 0.\<close>

definition no_answer :: response where
  "no_answer = problem 0 [] None"

definition list_boards :: "(ustr \<Rightarrow> rat) \<Rightarrow> ProjectContext \<Rightarrow> ('t kanban_scheme, Board list) handler" where
  "list_boards coll ctx = permitted ctx ProjectView (with_client (
     served (db_list_boards coll (pr_id (cx_project ctx)) (cx_actor_id ctx)) (answer 200)))"

definition board_kind :: "ProjectContext \<Rightarrow> bool \<Rightarrow> response + BoardVisibility" where
  "board_kind ctx shared =
     (if shared then map_sum (\<lambda>e. e) (\<lambda>_. BoardVisibility.Shared) (ctx_require ctx BoardSharedCreate)
      else Inr BoardVisibility.Personal)"

definition create_board ::
    "env \<Rightarrow> ProjectContext \<Rightarrow> CreateBoardRequest json_body \<Rightarrow> ('t kanban_scheme, Board) handler" where
  "create_board env ctx body = permitted ctx ProjectView (passing (parse_body valid_create_board body) (\<lambda>req.
     passing (board_kind ctx (cb_shared req)) (\<lambda>visibility. with_client (
     served (generate_key env (pr_id (cx_project ctx)) (cb_name req)) (\<lambda>found.
       case found of
         None \<Rightarrow> refuse no_answer
       | Some key \<Rightarrow> served (db_create_board (pr_id (cx_project ctx)) (Some (cx_actor_id ctx)) visibility (cb_name req) key
           (cb_color req) (cb_config req)) (answer 201))))))"

definition load_for_write ::
    "ProjectContext \<Rightarrow> nat \<Rightarrow> Permission \<Rightarrow> ('t kanban_scheme, response + Board) state" where
  "load_for_write ctx i shared_perm = served (db_get_board (pr_id (cx_project ctx)) i) (\<lambda>r. present r (\<lambda>b.
     if BoardVisibility_is_shared (bd_visibility b)
     then (if ctx_has ctx shared_perm then State_Monad.return (Inr b) else refuse forbidden)
     else if bo_owner_id (bd_row b) \<noteq> Some (cx_actor_id ctx) then refuse not_found
     else State_Monad.return (Inr b)))"

text \<open>A board by its id, by its key, or by a key it had.\<close>

definition find_board :: "env \<Rightarrow> pid \<Rightarrow> ustr option \<Rightarrow> ('t kanban_scheme, Board option) db" where
  "find_board env p param =
     (case item_id env param of
        Some i \<Rightarrow> db_get_board p i
      | None \<Rightarrow>
          let key = unwrap_or (map_option (\<lambda>t. map ascii_lower (trim t)) param) []
          in andThen (get_by_key p key) (\<lambda>r.
               case r of
                 Some b \<Rightarrow> State_Monad.return (Inr (Some b))
               | None \<Rightarrow> andThen (find_id_by_historic_key p key) (\<lambda>h.
                   case h of Some i \<Rightarrow> db_get_board p i | None \<Rightarrow> State_Monad.return (Inr None))))"

definition get_board :: "env \<Rightarrow> ProjectContext \<Rightarrow> ustr option \<Rightarrow> ('t kanban_scheme, Board) handler" where
  "get_board env ctx param = permitted ctx ProjectView (with_client (
     served (find_board env (pr_id (cx_project ctx)) param) (\<lambda>r. present r (\<lambda>b.
       if BoardVisibility_is_shared (bd_visibility b) \<or> bo_owner_id (bd_row b) = Some (cx_actor_id ctx)
       then answer 200 b else refuse not_found))))"

definition requested_key :: "Board \<Rightarrow> ustr option \<Rightarrow> response + ustr" where
  "requested_key b key =
     (case key of
        None \<Rightarrow> Inr (bo_key (bd_row b))
      | Some raw \<Rightarrow>
          let k = map ascii_lower (trim raw)
          in if valid_key k then Inr k else Inl (problem 422 (lit ''invalid_key'') None))"

definition key_available :: "pid \<Rightarrow> nat \<Rightarrow> bool \<Rightarrow> ustr \<Rightarrow> ('t kanban_scheme, response + unit) state" where
  "key_available p i key_changed key =
     (if key_changed
      then served (get_by_key p key) (\<lambda>r.
        case r of
          Some other \<Rightarrow> if bo_id (bd_row other) \<noteq> i then refuse (problem 409 (lit ''key_taken'') None) else State_Monad.return (Inr ())
        | None \<Rightarrow> State_Monad.return (Inr ()))
      else State_Monad.return (Inr ()))"

definition update_board ::
    "env \<Rightarrow> ProjectContext \<Rightarrow> ustr option \<Rightarrow> UpdateBoardRequest json_body \<Rightarrow> ('t kanban_scheme, Board) handler" where
  "update_board env ctx param body = permitted ctx ProjectView (present (item_id env param) (\<lambda>i.
     passing (parse_body valid_update_board body) (\<lambda>req. with_client (do {
       loaded \<leftarrow> load_for_write ctx i BoardSharedModify;
       passing loaded (\<lambda>b. passing (requested_key b (ub_key req)) (\<lambda>key.
         let p = pr_id (cx_project ctx); key_changed = (key \<noteq> bo_key (bd_row b))
         in verifying (key_available p i key_changed key)
           (served (db_update_board p i (ub_name req) key (ub_color req) (ub_config req)) (\<lambda>r. present r (\<lambda>new. do {
              _ \<leftarrow> (if key_changed then ignore (record_key_history p i (bo_key (bd_row b))) else State_Monad.return ());
              _ \<leftarrow> publish p (BoardChanged (cx_actor_id ctx) i);
              answer 200 new
            })))))
     }))))"

definition delete_board :: "env \<Rightarrow> ProjectContext \<Rightarrow> ustr option \<Rightarrow> ('t kanban_scheme, unit) handler" where
  "delete_board env ctx param = permitted ctx ProjectView (present (item_id env param) (\<lambda>i. with_client (do {
     loaded \<leftarrow> load_for_write ctx i BoardSharedDelete;
     passing loaded (\<lambda>_. served (db_delete_board (pr_id (cx_project ctx)) i) (\<lambda>hit.
       if hit then do {
         _ \<leftarrow> publish (pr_id (cx_project ctx)) (BoardChanged (cx_actor_id ctx) i);
         answer 204 ()
       } else refuse not_found))
   })))"

definition get_last_opened :: "ProjectContext \<Rightarrow> ('t kanban_scheme, nat option) handler" where
  "get_last_opened ctx = permitted ctx ProjectView (with_client (
     served (db_get_last_opened (pr_id (cx_project ctx)) (cx_actor_id ctx)) (answer 200)))"

definition set_last_opened :: "env \<Rightarrow> ProjectContext \<Rightarrow> ustr option \<Rightarrow> ('t kanban_scheme, unit) handler" where
  "set_last_opened env ctx param = permitted ctx ProjectView (present (item_id env param) (\<lambda>i. with_client (
     served (db_set_last_opened (pr_id (cx_project ctx)) (cx_actor_id ctx) i) (answer 204))))"

section \<open>Maintenance of the short links\<close>

definition list_short_link_history ::
    "uid \<Rightarrow> ('t kanban_scheme, PrefixHistoryEntry list \<times> BoardKeyHistoryEntry list) handler" where
  "list_short_link_history admin = with_client (
     served list_prefix_history (\<lambda>ps. served list_key_history (\<lambda>bs. answer 200 (ps, bs))))"

record DeleteShortLinkHistoryRequest =
  ds_project_ids :: "nat list"
  ds_board_ids :: "nat list"

definition prune :: "(nat list \<Rightarrow> ('t kanban_scheme, nat) db) \<Rightarrow> nat list \<Rightarrow> ('t kanban_scheme, nat) db" where
  "prune delete ids = (if ids = [] then State_Monad.return (Inr 0) else delete ids)"

definition delete_short_link_history ::
    "env \<Rightarrow> HeaderMap \<Rightarrow> uid \<Rightarrow> DeleteShortLinkHistoryRequest json_body \<Rightarrow> ('t kanban_scheme, nat \<times> nat) handler" where
  "delete_short_link_history env headers admin body = passing (parse_body (\<lambda>_. True) body) (\<lambda>req. with_client (
     served (prune delete_prefix_history (ds_project_ids req)) (\<lambda>ps.
     served (prune delete_key_history (ds_board_ids req)) (\<lambda>bs. do {
       _ \<leftarrow> audit env headers (Some admin) (lit ''short_link_history_pruned'')
             [(lit ''projects'', nat_str ps), (lit ''boards'', nat_str bs)];
       answer 200 (ps, bs)
     }))))"

end
