(* ===== verification/Issue_Lists.thy ===== *)
theory Issue_Lists
  imports Boards
begin

text \<open>
  What the backlog lists (\<open>crates/db/src/backlog.rs\<close>, \<open>crates/api/src/backlog.rs\<close>, \<open>my_role.rs\<close>): the filter of
  the issue lists, the pages, the contents of a board by columns and lanes, and the delta feed. The search index
  is the view its triggers maintain: the subject and description of a live issue, the body of a live comment.
\<close>

section \<open>The filter\<close>

definition opt_any :: "('a \<Rightarrow> bool) \<Rightarrow> 'a option \<Rightarrow> bool" where
  "opt_any P x = (case x of None \<Rightarrow> False | Some y \<Rightarrow> P y)"

record IssueQuery =
  iq_search :: "ustr option"
  iq_status_id :: "nat option"
  iq_type_id :: "nat option"
  iq_priority_id :: "nat option"
  iq_size_id :: "nat option"
  iq_category :: "ustr option"
  iq_assignee :: "ustr option \<times> uid option"
  iq_qa_assignee :: "ustr option \<times> uid option"
  iq_epic :: "ustr option \<times> nat option"
  iq_milestone :: "ustr option \<times> nat option"
  iq_label_id :: "nat option"
  iq_component_id :: "nat option"
  iq_overdue :: bool
  iq_involved :: "ustr option \<times> uid option"
  iq_release :: "ustr option \<times> nat option"
  iq_customer :: "ustr option \<times> nat list option"
  iq_my_role :: "ustr option"
  iq_actor_id :: "uid option"
  iq_mention_like :: "ustr option"

definition customer_filter :: "env \<Rightarrow> ustr option \<Rightarrow> ustr option \<times> nat list option" where
  "customer_filter env s =
     (case map_option trim s of
        None \<Rightarrow> (None, None)
      | Some t \<Rightarrow>
          if t = [] then (None, None)
          else if t = lit ''none'' then (Some (lit ''none''), None)
          else let ids = List.map_filter (\<lambda>p. e_uuid_parse env (trim p)) (split_on (\<lambda>c. c = 44) t)
               in if ids = [] then (None, None) else (Some (lit ''any''), Some ids))"

fun like_escape :: "ustr \<Rightarrow> ustr" where
  "like_escape [] = []"
| "like_escape (c # cs) = (if c = 92 \<or> c = 37 \<or> c = 95 then 92 # c # like_escape cs else c # like_escape cs)"

definition mention_pattern :: "ustr \<Rightarrow> ustr" where
  "mention_pattern username = [37, 64] @ like_escape username @ [37]"

text \<open>The texts of the search index that belong to an issue: its own, and those of its comments.\<close>

definition indexed_texts :: "'t tracker_scheme \<Rightarrow> issue_row \<Rightarrow> ustr list" where
  "indexed_texts s r =
     (if is_deleted_at r = None then [is_subject r @ [32] @ is_description r] else []) @
     map (\<lambda>c. [32] @ cm_body c)
       (filter (\<lambda>c. cm_target_type c = lit ''issue'' \<and> cm_target_id c = is_id r \<and> cm_deleted_at c = None) (comment_rows s))"

text \<open>An absent actor or pattern is SQL's NULL: the predicate does not hold.\<close>

definition MY_ROLE_PREDICATES ::
    "env \<Rightarrow> 't tracker_scheme \<Rightarrow> uid option \<Rightarrow> ustr option \<Rightarrow> (ustr \<times> (issue_row \<Rightarrow> bool)) list" where
  "MY_ROLE_PREDICATES env s actor mention =
     [(lit ''watching'', \<lambda>r. opt_any (\<lambda>u. (is_id r, u) \<in> set (issue_watchers s)) actor),
      (lit ''assignee'', \<lambda>r. opt_any (\<lambda>u. is_assigned_to r = Some u) actor),
      (lit ''qa'', \<lambda>r. opt_any (\<lambda>u. is_qa_assignee_id r = Some u) actor),
      (lit ''reviewer'', \<lambda>r. opt_any (\<lambda>u. is_reviewer_id r = Some u) actor),
      (lit ''reporter'', \<lambda>r. opt_any (\<lambda>u. is_owner_id r = Some u) actor),
      (lit ''mentioned'', \<lambda>r. opt_any (\<lambda>pat. list_ex (\<lambda>t. ilike env t pat) (indexed_texts s r)) mention)]"

definition my_role_any :: "(ustr \<times> (issue_row \<Rightarrow> bool)) list \<Rightarrow> issue_row \<Rightarrow> bool" where
  "my_role_any preds r \<longleftrightarrow> list_ex (\<lambda>(name, P). P r) preds"

definition my_role_filter :: "(ustr \<times> (issue_row \<Rightarrow> bool)) list \<Rightarrow> ustr option \<Rightarrow> issue_row \<Rightarrow> bool" where
  "my_role_filter preds role r \<longleftrightarrow>
     (case role of
        None \<Rightarrow> True
      | Some x \<Rightarrow> x = lit ''any'' \<and> my_role_any preds r \<or> list_ex (\<lambda>(name, P). x = name \<and> P r) preds)"

text \<open>\<open>$m IS NULL OR ($m = 'none' AND col IS NULL) OR ($m = 'is' AND col = $x)\<close>\<close>

definition ref_matches :: "ustr option \<times> nat option \<Rightarrow> nat option \<Rightarrow> bool" where
  "ref_matches q col \<longleftrightarrow>
     (case q of
        (None, _) \<Rightarrow> True
      | (Some m, x) \<Rightarrow> m = lit ''none'' \<and> col = None \<or> m = lit ''is'' \<and> x \<noteq> None \<and> col = x)"

definition id_matches :: "nat option \<Rightarrow> nat option \<Rightarrow> bool" where
  "id_matches q col \<longleftrightarrow> q = None \<or> col = q"

definition involved_matches :: "ustr option \<times> uid option \<Rightarrow> issue_row \<Rightarrow> bool" where
  "involved_matches q r \<longleftrightarrow>
     (let held = [is_assigned_to r, is_qa_assignee_id r, is_reviewer_id r]
      in case q of
           (None, _) \<Rightarrow> True
         | (Some m, x) \<Rightarrow> m = lit ''none'' \<and> list_all (\<lambda>h. h = None) held \<or> m = lit ''is'' \<and> x \<noteq> None \<and> x \<in> set held)"

definition release_matches :: "'t tracker_scheme \<Rightarrow> ustr option \<times> nat option \<Rightarrow> issue_row \<Rightarrow> bool" where
  "release_matches s q r \<longleftrightarrow>
     (case q of
        (None, _) \<Rightarrow> True
      | (Some m, x) \<Rightarrow> m = lit ''none'' \<and> is_release_version_id r = None \<or>
          m = lit ''is'' \<and> any_row (\<lambda>v. is_release_version_id r = Some (vr_id v) \<and> x = Some (vr_release_id v)) (version_rows s))"

definition customer_matches :: "'t tracker_scheme \<Rightarrow> ustr option \<times> nat list option \<Rightarrow> issue_row \<Rightarrow> bool" where
  "customer_matches s q r \<longleftrightarrow>
     (let linked = map snd (filter (\<lambda>p. fst p = is_id r) (issue_customers s))
      in case q of
           (None, _) \<Rightarrow> True
         | (Some m, ids) \<Rightarrow> m = lit ''none'' \<and> linked = [] \<or>
             m = lit ''any'' \<and> opt_any (\<lambda>xs. list_ex (\<lambda>c. c \<in> set xs) linked) ids)"

definition search_matches :: "env \<Rightarrow> ustr option \<Rightarrow> issue_row \<Rightarrow> bool" where
  "search_matches env q r \<longleftrightarrow>
     (case q of
        None \<Rightarrow> True
      | Some t \<Rightarrow> let pat = [37] @ t @ [37]
          in ilike env (is_subject r) pat \<or> ilike env (is_description r) pat \<or> ilike env (int_str (is_ref r)) pat)"

definition overdue_issue :: "'t tracker_scheme \<Rightarrow> int \<Rightarrow> issue_row \<Rightarrow> bool" where
  "overdue_issue s today r \<longleftrightarrow> opt_any (\<lambda>d. d < today) (is_due_date r) \<and> \<not> closing s (is_status_id r)"

definition role_preds :: "env \<Rightarrow> 't tracker_scheme \<Rightarrow> IssueQuery \<Rightarrow> (ustr \<times> (issue_row \<Rightarrow> bool)) list" where
  "role_preds env s q = MY_ROLE_PREDICATES env s (iq_actor_id q) (iq_mention_like q)"

definition issue_filter :: "env \<Rightarrow> calendar \<Rightarrow> 't tracker_scheme \<Rightarrow> pid \<Rightarrow> IssueQuery \<Rightarrow> issue_row \<Rightarrow> bool" where
  "issue_filter env cal s p q r \<longleftrightarrow>
     is_project_id r = p \<and> is_deleted_at r = None \<and>
     id_matches (iq_status_id q) (is_status_id r) \<and> id_matches (iq_type_id q) (is_type_id r) \<and>
     id_matches (iq_priority_id q) (is_priority_id r) \<and> id_matches (iq_size_id q) (is_size_id r) \<and>
     (iq_category q = None \<or> is_category r = iq_category q) \<and>
     ref_matches (iq_assignee q) (is_assigned_to r) \<and> ref_matches (iq_qa_assignee q) (is_qa_assignee_id r) \<and>
     ref_matches (iq_epic q) (is_epic_id r) \<and> ref_matches (iq_milestone q) (is_milestone_id r) \<and>
     opt_all (\<lambda>l. (is_id r, l) \<in> set (issue_labels s)) (iq_label_id q) \<and>
     opt_all (\<lambda>c. (is_id r, c) \<in> set (issue_components s)) (iq_component_id q) \<and>
     search_matches env (iq_search q) r \<and>
     (iq_overdue q \<longrightarrow> overdue_issue s (cal_today cal (db_now s)) r) \<and>
     involved_matches (iq_involved q) r \<and> release_matches s (iq_release q) r \<and> customer_matches s (iq_customer q) r \<and>
     my_role_filter (role_preds env s q) (iq_my_role q) r"

section \<open>Pages\<close>

definition by_order :: "issue_row list \<Rightarrow> issue_row list" where
  "by_order rs = sort_key is_order (sort_key is_id rs)"

definition list_issues_paged ::
    "env \<Rightarrow> calendar \<Rightarrow> pid \<Rightarrow> IssueQuery \<Rightarrow> nat option \<Rightarrow> nat \<Rightarrow> ('t tracker_scheme, Issue list \<times> nat) db" where
  "list_issues_paged env cal p q limit offset =
     andThen (query (\<lambda>s. count_where (issue_filter env cal s p q) (issues s))) (\<lambda>n.
     andThen (query (\<lambda>s. let rows = drop offset (by_order (filter (issue_filter env cal s p q) (issues s)))
                         in case limit of None \<Rightarrow> rows | Some l \<Rightarrow> take l rows)) (\<lambda>rows.
     andThen (hydrate_issue_relations (map row_to_issue rows)) (\<lambda>xs. State_Monad.return (Inr (xs, n)))))"

section \<open>The delta feed\<close>

record IssueTombstone =
  tb_id :: nat
  tb_modified_at :: int

record IssueDelta =
  dl_issues :: "Issue list"
  dl_tombstones :: "IssueTombstone list"
  dl_cursor :: int
  dl_has_more :: bool

definition read_db_now :: "('t tracker_scheme, int) db" where
  "read_db_now = query db_now"

definition changed_since :: "pid \<Rightarrow> int \<Rightarrow> issue_row \<Rightarrow> bool" where
  "changed_since p since r \<longleftrightarrow> is_project_id r = p \<and> since < is_modified_at r"

definition list_issues_delta :: "pid \<Rightarrow> int \<Rightarrow> nat \<Rightarrow> ('t tracker_scheme, IssueDelta) db" where
  "list_issues_delta p since limit =
     andThen read_db_now (\<lambda>now.
     andThen (query (\<lambda>s. take limit (sort_key is_modified_at (sort_key is_id
                (filter (\<lambda>r. changed_since p since r \<and> is_deleted_at r = None) (issues s)))))) (\<lambda>rows.
     andThen (hydrate_issue_relations (map row_to_issue rows)) (\<lambda>xs.
     andThen (query (\<lambda>s. take limit (sort_key is_modified_at
                (filter (\<lambda>r. changed_since p since r \<and> is_deleted_at r \<noteq> None) (issues s))))) (\<lambda>gone.
       let more = (limit \<le> length xs)
       in State_Monad.return (Inr
            \<lparr>dl_issues = xs, dl_tombstones = map (\<lambda>r. \<lparr>tb_id = is_id r, tb_modified_at = is_modified_at r\<rparr>) gone,
             dl_cursor = (if more \<and> xs \<noteq> [] then is_modified_at (io_row (last xs)) else now), dl_has_more = more\<rparr>)))))"

section \<open>The contents of a board\<close>

record BoardColumn =
  bc_status_id :: "nat option"
  bc_total :: nat
  bc_cards :: "Issue list"

record BoardLane =
  bl_key :: ustr
  bl_total :: nat
  bl_columns :: "BoardColumn list"

definition on_board :: "env \<Rightarrow> calendar \<Rightarrow> 't tracker_scheme \<Rightarrow> pid \<Rightarrow> IssueQuery \<Rightarrow> nat list option \<Rightarrow> issue_row \<Rightarrow> bool" where
  "on_board env cal s p q columns r \<longleftrightarrow>
     issue_filter env cal s p q r \<and> is_parent_id r = None \<and>
     opt_all (\<lambda>cs. opt_any (\<lambda>x. x \<in> set cs) (is_status_id r)) columns"

text \<open>Where an id sorts: by its number, NULL last.\<close>

definition null_last :: "nat option \<Rightarrow> rat" where
  "null_last x = (case x of None \<Rightarrow> 0 | Some i \<Rightarrow> - 1 / of_nat (Suc i))"

definition by_status :: "('a \<Rightarrow> nat option) \<Rightarrow> 'a list \<Rightarrow> 'a list" where
  "by_status status xs = sort_key (\<lambda>x. null_last (status x)) xs"

text \<open>
  \<open>row_number() OVER (PARTITION BY k ORDER BY ...)\<close> over rows in their order, and \<open>count(*) OVER (PARTITION BY k)\<close>.
\<close>

fun numbered :: "('a \<Rightarrow> 'k) \<Rightarrow> 'a list \<Rightarrow> 'a list \<Rightarrow> (nat \<times> 'a) list" where
  "numbered k seen [] = []"
| "numbered k seen (x # xs) = (Suc (count_where (\<lambda>y. k y = k x) seen), x) # numbered k (seen @ [x]) xs"

definition first_of_each :: "nat \<Rightarrow> ('a \<Rightarrow> 'k) \<Rightarrow> 'a list \<Rightarrow> 'a list" where
  "first_of_each limit k xs = map snd (filter (\<lambda>p. fst p \<le> limit) (numbered k [] xs))"

text \<open>The rows of the flat board, with the total of their column.\<close>

definition column_rows ::
    "env \<Rightarrow> calendar \<Rightarrow> 't tracker_scheme \<Rightarrow> pid \<Rightarrow> IssueQuery \<Rightarrow> nat list option \<Rightarrow> nat \<Rightarrow> (issue_row \<times> nat) list" where
  "column_rows env cal s p q columns limit =
     (let rows = filter (on_board env cal s p q columns) (issues s)
      in map (\<lambda>r. (r, count_where (\<lambda>x. is_status_id x = is_status_id r) rows))
           (by_status is_status_id (first_of_each limit is_status_id (by_order rows))))"

text \<open>The loop over the rows: the statuses in the order they first appear, and the total of each.\<close>

fun column_order :: "(issue_row \<times> nat) list \<Rightarrow> nat option list \<times> (nat option \<rightharpoonup> nat) \<Rightarrow> nat option list \<times> (nat option \<rightharpoonup> nat)" where
  "column_order [] acc = acc"
| "column_order ((r, n) # rows) (order, totals) =
     column_order rows (if totals (is_status_id r) = None then order @ [is_status_id r] else order, totals(is_status_id r \<mapsto> n))"

fun group_by_status :: "Issue list \<Rightarrow> (nat option \<rightharpoonup> Issue list) \<Rightarrow> (nat option \<rightharpoonup> Issue list)" where
  "group_by_status [] m = m"
| "group_by_status (x # xs) m =
     group_by_status xs (m(is_status_id (io_row x) \<mapsto> unwrap_or (m (is_status_id (io_row x))) [] @ [x]))"

definition to_columns :: "nat option list \<Rightarrow> (nat option \<rightharpoonup> nat) \<Rightarrow> (nat option \<rightharpoonup> Issue list) \<Rightarrow> BoardColumn list" where
  "to_columns order totals cards =
     map (\<lambda>sid. \<lparr>bc_status_id = sid, bc_total = unwrap_or (totals sid) 0, bc_cards = unwrap_or (cards sid) []\<rparr>) order"

definition board_columns ::
    "env \<Rightarrow> calendar \<Rightarrow> pid \<Rightarrow> IssueQuery \<Rightarrow> nat list option \<Rightarrow> nat \<Rightarrow> ('t tracker_scheme, BoardColumn list) db" where
  "board_columns env cal p q columns limit =
     andThen (query (\<lambda>s. column_rows env cal s p q columns limit)) (\<lambda>rows.
     andThen (hydrate_issue_relations (map (row_to_issue \<circ> fst) rows)) (\<lambda>xs.
       let (order, totals) = column_order rows ([], Map.empty)
       in State_Monad.return (Inr (to_columns order totals (group_by_status xs Map.empty)))))"

text \<open>The lanes an issue belongs to: one for each component, or role, and the one of its reference otherwise.\<close>

definition ref_lane :: "env \<Rightarrow> nat option \<Rightarrow> ustr" where
  "ref_lane env x = (case x of None \<Rightarrow> lit ''none'' | Some i \<Rightarrow> e_uuid_str env i)"

definition role_lanes :: "(ustr \<times> (issue_row \<Rightarrow> bool)) list \<Rightarrow> issue_row \<Rightarrow> ustr list" where
  "role_lanes preds r = map fst (filter (\<lambda>(name, P). P r) preds)"

definition lanes_of :: "env \<Rightarrow> 't tracker_scheme \<Rightarrow> IssueQuery \<Rightarrow> ustr \<Rightarrow> (issue_row \<Rightarrow> ustr list) option" where
  "lanes_of env s q lane_by =
     (if lane_by = lit ''assignee'' then Some (\<lambda>r. [ref_lane env (is_assigned_to r)])
      else if lane_by = lit ''epic'' then Some (\<lambda>r. [ref_lane env (is_epic_id r)])
      else if lane_by = lit ''priority'' then Some (\<lambda>r. [ref_lane env (is_priority_id r)])
      else if lane_by = lit ''component'' then Some (\<lambda>r.
        let cs = map snd (filter (\<lambda>p. fst p = is_id r) (issue_components s))
        in if cs = [] then [ref_lane env None] else map (\<lambda>c. ref_lane env (Some c)) cs)
      else if lane_by = lit ''my_role'' then Some (role_lanes (role_preds env s q))
      else None)"

record LaneMeta =
  lm_grp :: ustr
  lm_status :: "nat option"
  lm_cell_total :: nat
  lm_lane_total :: nat

text \<open>One row for each lane of an issue, numbered within its cell; \<open>coll\<close> ranks texts as the database sorts them.\<close>

definition lane_rows ::
    "(ustr \<Rightarrow> rat) \<Rightarrow> (issue_row \<Rightarrow> ustr list) \<Rightarrow> issue_row list \<Rightarrow> nat \<Rightarrow> (issue_row \<times> LaneMeta) list" where
  "lane_rows coll lanes rows limit =
     (let cells = concat (map (\<lambda>r. map (\<lambda>g. (g, r)) (lanes r)) (by_order rows));
          cell = (\<lambda>(g, r). (g, is_status_id r))
      in map (\<lambda>(g, r). (r, \<lparr>lm_grp = g, lm_status = is_status_id r,
             lm_cell_total = count_where (\<lambda>x. cell x = cell (g, r)) cells, lm_lane_total = count_where (\<lambda>x. fst x = g) cells\<rparr>))
           (sort_key (coll \<circ> fst) (by_status (is_status_id \<circ> snd) (first_of_each limit cell cells))))"

text \<open>
  The loop over the cards: \<open>lane_idx\<close> and \<open>col_idx\<close> say where the lane and the cell of a card are, and what is not
  there yet is appended.
\<close>

record lane_state =
  ls_lanes :: "BoardLane list"
  ls_lane_idx :: "ustr \<rightharpoonup> nat"
  ls_col_idx :: "ustr \<times> nat option \<rightharpoonup> nat"

definition find_lane :: "LaneMeta \<Rightarrow> lane_state \<Rightarrow> nat \<times> lane_state" where
  "find_lane m st =
     (case ls_lane_idx st (lm_grp m) of
        Some x \<Rightarrow> (x, st)
      | None \<Rightarrow>
          let x = length (ls_lanes st)
          in (x, st\<lparr>ls_lanes := ls_lanes st @ [\<lparr>bl_key = lm_grp m, bl_total = lm_lane_total m, bl_columns = []\<rparr>],
                    ls_lane_idx := (ls_lane_idx st)(lm_grp m \<mapsto> x)\<rparr>))"

definition edit_lane :: "nat \<Rightarrow> (BoardColumn list \<Rightarrow> BoardColumn list) \<Rightarrow> lane_state \<Rightarrow> lane_state" where
  "edit_lane li f st =
     st\<lparr>ls_lanes := (ls_lanes st)[li := (ls_lanes st ! li)\<lparr>bl_columns := f (bl_columns (ls_lanes st ! li))\<rparr>]\<rparr>"

definition find_column :: "LaneMeta \<Rightarrow> nat \<Rightarrow> lane_state \<Rightarrow> nat \<times> lane_state" where
  "find_column m li st =
     (case ls_col_idx st (lm_grp m, lm_status m) of
        Some x \<Rightarrow> (x, st)
      | None \<Rightarrow>
          let x = length (bl_columns (ls_lanes st ! li));
              st' = edit_lane li (\<lambda>cs. cs @ [\<lparr>bc_status_id = lm_status m, bc_total = lm_cell_total m, bc_cards = []\<rparr>]) st
          in (x, st'\<lparr>ls_col_idx := (ls_col_idx st')((lm_grp m, lm_status m) \<mapsto> x)\<rparr>))"

definition place_card :: "LaneMeta \<times> Issue \<Rightarrow> lane_state \<Rightarrow> lane_state" where
  "place_card mx st =
     (case mx of (m, x) \<Rightarrow>
        case find_lane m st of (li, st1) \<Rightarrow>
        case find_column m li st1 of (ci, st2) \<Rightarrow>
          edit_lane li (\<lambda>cs. cs[ci := (cs ! ci)\<lparr>bc_cards := bc_cards (cs ! ci) @ [x]\<rparr>]) st2)"

definition build_lanes :: "(LaneMeta \<times> Issue) list \<Rightarrow> BoardLane list" where
  "build_lanes cards = ls_lanes (fold place_card cards \<lparr>ls_lanes = [], ls_lane_idx = Map.empty, ls_col_idx = Map.empty\<rparr>)"

definition board_lanes ::
    "env \<Rightarrow> calendar \<Rightarrow> (ustr \<Rightarrow> rat) \<Rightarrow> pid \<Rightarrow> IssueQuery \<Rightarrow> ustr \<Rightarrow> nat list option \<Rightarrow> nat
     \<Rightarrow> ('t tracker_scheme, BoardLane list) db" where
  "board_lanes env cal coll p q lane_by columns limit =
     (if lane_by \<notin> {lit ''assignee'', lit ''epic'', lit ''priority'', lit ''component'', lit ''my_role''}
      then State_Monad.return (Inr [])
      else
        andThen (query (\<lambda>s. case lanes_of env s q lane_by of
            None \<Rightarrow> []
          | Some lanes \<Rightarrow> lane_rows coll lanes (filter (on_board env cal s p q columns) (issues s)) limit)) (\<lambda>rows.
        andThen (hydrate_issue_relations (map (row_to_issue \<circ> fst) rows)) (\<lambda>xs.
          State_Monad.return (Inr (build_lanes (zip (map snd rows) xs))))))"

section \<open>Handlers\<close>

record filter_params =
  fp_search :: "ustr option"
  fp_status_id :: "ustr option"
  fp_type_id :: "ustr option"
  fp_priority_id :: "ustr option"
  fp_size_id :: "ustr option"
  fp_assignee :: "ustr option"
  fp_qa_assignee :: "ustr option"
  fp_involved :: "ustr option"
  fp_release :: "ustr option"
  fp_epic :: "ustr option"
  fp_milestone :: "ustr option"
  fp_label :: "ustr option"
  fp_component :: "ustr option"
  fp_category :: "ustr option"
  fp_customer :: "ustr option"
  fp_overdue :: "bool option"
  fp_my_role :: "ustr option"

record IssueListQuery = filter_params +
  lq_limit :: "nat option"
  lq_offset :: "nat option"

record BoardDataQuery = filter_params +
  bq_group :: "ustr option"
  bq_columns :: "ustr option"
  bq_column_limit :: "nat option"

definition ref_filter :: "env \<Rightarrow> ustr option \<Rightarrow> ustr option \<times> nat option" where
  "ref_filter env s =
     (case s of
        None \<Rightarrow> (None, None)
      | Some v \<Rightarrow>
          if v = lit ''none'' then (Some (lit ''none''), None)
          else (case e_uuid_parse env v of None \<Rightarrow> (None, None) | Some u \<Rightarrow> (Some (lit ''is''), Some u)))"

definition opt_uuid :: "env \<Rightarrow> ustr option \<Rightarrow> nat option" where
  "opt_uuid env s = Option.bind s (e_uuid_parse env)"

definition opt_nonempty :: "ustr option \<Rightarrow> ustr option" where
  "opt_nonempty s = non_empty (map_option trim s)"

definition is_known :: "ustr \<Rightarrow> bool" where
  "is_known role \<longleftrightarrow> role = lit ''any'' \<or>
     role \<in> set [lit ''watching'', lit ''assignee'', lit ''qa'', lit ''reviewer'', lit ''reporter'', lit ''mentioned'']"

definition actor_of :: "uid \<Rightarrow> ('t tracker_scheme, uid option \<times> ustr option) state" where
  "actor_of u = do {
     r \<leftarrow> find_by_id u;
     State_Monad.return (Some u, map_option (\<lambda>x. mention_pattern (u_username x)) (ok_or r None))
   }"

definition resolve_role ::
    "uid \<Rightarrow> ustr option \<Rightarrow> bool \<Rightarrow> ('t tracker_scheme, (ustr option \<times> uid option \<times> ustr option) option) state" where
  "resolve_role u raw grouping_by_role =
     (let role = non_empty (map_option trim raw)
      in if \<not> opt_all is_known role then State_Monad.return None
         else if role = None \<and> \<not> grouping_by_role then State_Monad.return (Some (None, None, None))
         else do { a \<leftarrow> actor_of u; State_Monad.return (Some (role, a)) })"

definition issue_query :: "env \<Rightarrow> 'a filter_params_scheme \<Rightarrow> ustr option \<times> uid option \<times> ustr option \<Rightarrow> IssueQuery" where
  "issue_query env q who =
     \<lparr>iq_search = opt_nonempty (fp_search q), iq_status_id = opt_uuid env (fp_status_id q), iq_type_id = opt_uuid env (fp_type_id q),
      iq_priority_id = opt_uuid env (fp_priority_id q), iq_size_id = opt_uuid env (fp_size_id q),
      iq_category = opt_nonempty (fp_category q), iq_assignee = ref_filter env (fp_assignee q),
      iq_qa_assignee = ref_filter env (fp_qa_assignee q), iq_epic = ref_filter env (fp_epic q),
      iq_milestone = ref_filter env (fp_milestone q), iq_label_id = opt_uuid env (fp_label q),
      iq_component_id = opt_uuid env (fp_component q), iq_overdue = unwrap_or (fp_overdue q) False,
      iq_involved = ref_filter env (fp_involved q), iq_release = ref_filter env (fp_release q),
      iq_customer = customer_filter env (fp_customer q), iq_my_role = fst who, iq_actor_id = fst (snd who),
      iq_mention_like = snd (snd who)\<rparr>"

definition invalid_my_role :: response where
  "invalid_my_role = problem 422 (lit ''invalid_my_role'') None"

definition as_role ::
    "ProjectContext \<Rightarrow> ustr option \<Rightarrow> bool \<Rightarrow> (ustr option \<times> uid option \<times> ustr option \<Rightarrow> ('t tracker_scheme, 'a) handler)
     \<Rightarrow> ('t tracker_scheme, 'a) handler" where
  "as_role ctx raw grouping f = do {
     who \<leftarrow> resolve_role (cx_actor_id ctx) raw grouping;
     case who of None \<Rightarrow> refuse invalid_my_role | Some w \<Rightarrow> f w
   }"

definition list_issues ::
    "env \<Rightarrow> calendar \<Rightarrow> ProjectContext \<Rightarrow> IssueListQuery
     \<Rightarrow> ('t tracker_scheme, Issue list \<times> nat \<times> nat option \<times> nat) handler" where
  "list_issues env cal ctx q = permitted ctx IssueView (with_client (as_role ctx (fp_my_role q) False (\<lambda>who.
     let limit = map_option (clamp 1 200) (lq_limit q); offset = unwrap_or (lq_offset q) 0
     in served (list_issues_paged env cal (pr_id (cx_project ctx)) (issue_query env q who) limit offset)
          (\<lambda>(items, n). answer 200 (items, n, limit, offset)))))"

datatype board_contents = Columns "BoardColumn list" | Lanes ustr "BoardLane list"

definition board_column_limit :: "nat option \<Rightarrow> nat" where
  "board_column_limit n = clamp 1 200 (unwrap_or n 50)"

definition board_data ::
    "env \<Rightarrow> calendar \<Rightarrow> (ustr \<Rightarrow> rat) \<Rightarrow> ProjectContext \<Rightarrow> BoardDataQuery
     \<Rightarrow> ('t tracker_scheme, board_contents \<times> int) handler" where
  "board_data env cal coll ctx q = permitted ctx IssueView (with_client (
     as_role ctx (fp_my_role q) (unwrap_or (bq_group q) [] = lit ''my_role'') (\<lambda>who.
       let filtering = issue_query env q who; limit = board_column_limit (bq_column_limit q); p = pr_id (cx_project ctx);
           columns = map_option (\<lambda>t. List.map_filter (\<lambda>x. e_uuid_parse env (trim x)) (split_on (\<lambda>c. c = 44) t)) (bq_columns q)
       in served read_db_now (\<lambda>cursor.
            case bq_group q of
              Some g \<Rightarrow>
                if g = lit ''none'' \<or> g = []
                then served (board_columns env cal p filtering columns limit) (\<lambda>cs. answer 200 (Columns cs, cursor))
                else served (board_lanes env cal coll p filtering g columns limit) (\<lambda>ls. answer 200 (Lanes g ls, cursor))
            | None \<Rightarrow> served (board_columns env cal p filtering columns limit) (\<lambda>cs. answer 200 (Columns cs, cursor))))))"

definition DELTA_OVERLAP_SECS :: int where "DELTA_OVERLAP_SECS = 5"
definition DELTA_PAGE_LIMIT :: nat where "DELTA_PAGE_LIMIT = 500"

text \<open>\<open>parse\<close> reads RFC 3339.\<close>

definition issues_delta ::
    "(ustr \<Rightarrow> int option) \<Rightarrow> ProjectContext \<Rightarrow> ustr option \<Rightarrow> ('t tracker_scheme, IssueDelta) handler" where
  "issues_delta parse ctx since = permitted ctx IssueView (
     case Option.bind since parse of
       None \<Rightarrow> refuse (problem 400 (lit ''invalid_since'') (Some (lit ''`since` must be an RFC 3339 timestamp'')))
     | Some t \<Rightarrow> do {
         now \<leftarrow> get_now;
         if t < now - Tracker.ERASE_GRACE_DAYS * 86400
         then refuse (problem 410 (lit ''resync_required'')
           (Some (lit ''cursor is older than the deletion grace window; reload fully'')))
         else with_client (served (list_issues_delta (pr_id (cx_project ctx)) (t - DELTA_OVERLAP_SECS) DELTA_PAGE_LIMIT) (answer 200))
       })"

end
