(* ===== verification/Boards_Correct.thy ===== *)
theory Boards_Correct
  imports Boards Backlog_Demo
begin

text \<open>
  What the boards guarantee: a new board gets a key, after no more attempts than the project has boards; a
  personal board is its owner's alone; a renamed board is still found under its old key.
\<close>

section \<open>The candidates\<close>

definition candidate :: "ustr \<Rightarrow> nat \<Rightarrow> ustr" where
  "candidate base n = (if n = 1 then base else suffixed base n)"

lemma nat_str_length: "n < 10 ^ k \<Longrightarrow> 0 < k \<Longrightarrow> length (nat_str n) \<le> k"
proof (induction k arbitrary: n)
  case (Suc k)
  show ?case
  proof (cases "n < 10")
    case True
    then show ?thesis by (simp add: nat_str.simps)
  next
    case False
    then have "0 < k" "n div 10 < 10 ^ k" using Suc.prems by (cases k; simp)+
    then have "length (nat_str (n div 10)) \<le> k" by (rule Suc.IH [rotated])
    then show ?thesis using False by (subst nat_str.simps) simp
  qed
qed simp

lemma nat_str_key_chars: "45 \<notin> set (nat_str n)" "list_all key_char (nat_str n)"
proof -
  have "48 \<le> c \<and> c \<le> 57" if "c \<in> set (nat_str n)" for c
    using nat_str_digits [OF that] by (simp add: is_ascii_digit_def)
  then show "45 \<notin> set (nat_str n)" "list_all key_char (nat_str n)"
    by (fastforce simp: list_all_iff key_char_def is_ascii_digit_def)+
qed

lemma candidate_inj:
  assumes "45 \<notin> set base" and "candidate base m = candidate base n"
  shows "m = n"
proof -
  have tail: "takeWhile (\<lambda>c. c \<noteq> 45) (rev (suffixed base k)) = rev (nat_str k)" for k
    using nat_str_key_chars(1) [of k] by (simp add: suffixed_def takeWhile_append)
  have dash: "45 \<in> set (suffixed base k)" for k by (simp add: suffixed_def)
  show ?thesis
  proof (cases "m = 1 \<or> n = 1")
    case True
    then show ?thesis using assms dash [of m] dash [of n] by (auto simp: candidate_def split: if_splits)
  next
    case False
    then have "suffixed base m = suffixed base n" using assms(2) by (simp add: candidate_def)
    then have "nat_str m = nat_str n" using tail [of m] tail [of n] by simp
    then show ?thesis by (rule nat_str_inj)
  qed
qed

definition base_ok :: "ustr \<Rightarrow> bool" where
  "base_ok base \<longleftrightarrow> base \<noteq> [] \<and> length base \<le> 6 \<and> list_all key_char base"

lemma base_no_dash: "base_ok base \<Longrightarrow> 45 \<notin> set base"
  by (auto simp: base_ok_def list_all_iff key_char_def is_ascii_lower_def is_ascii_digit_def)

lemma key_base_ok:
  assumes "\<And>t. list_all (\<lambda>c. \<not> is_ascii_upper c) (e_lower env t)"
  shows "base_ok (key_base env name)"
proof -
  define low where "low = to_lowercase env name"
  define ws where "ws = filter (\<lambda>w. w \<noteq> []) (split_on (\<lambda>c. \<not> is_ascii_alnum c) low)"
  have lowered: "\<not> is_ascii_upper c" if "c \<in> set low" for c
    using assms [of name] that
    by (auto simp: low_def to_lowercase_def list_all_iff ascii_lower_def is_ascii_upper_def split: if_splits)
  have words: "w \<noteq> [] \<and> list_all key_char w" if "w \<in> set ws" for w
  proof -
    have w: "w \<noteq> []" "w \<in> set (split_on (\<lambda>c. \<not> is_ascii_alnum c) low)" using that by (simp_all add: ws_def)
    have "key_char c" if "c \<in> set w" for c
    proof -
      have "is_ascii_alnum c" using split_on_segments [OF w(2)] that by simp
      moreover have "c \<in> set low" using split_on_chars [OF w(2)] that by blast
      ultimately show ?thesis using lowered [of c] by (auto simp: key_char_def is_ascii_alnum_def is_ascii_alpha_def)
    qed
    with w(1) show ?thesis by (simp add: list_all_iff)
  qed
  have initials: "List.map_filter (\<lambda>w. case w of [] \<Rightarrow> None | c # _ \<Rightarrow> Some c) vs = map hd vs" if "\<forall>w\<in>set vs. w \<noteq> []" for vs :: "ustr list"
    using that by (induction vs) (auto simp: map_filter_simps split: list.splits)
  have key: "key_base env name = (case ws of [] \<Rightarrow> lit ''b'' | [w] \<Rightarrow> take 6 w | _ \<Rightarrow> map hd (take 6 ws))"
  proof -
    have all: "List.map_filter (\<lambda>w. case w of [] \<Rightarrow> None | c # _ \<Rightarrow> Some c) (take 6 ws) = map hd (take 6 ws)"
      using initials [of "take 6 ws"] words by (auto dest: in_set_takeD)
    have "key_base env name = (case ws of [] \<Rightarrow> lit ''b'' | [w] \<Rightarrow> take 6 w
        | _ \<Rightarrow> List.map_filter (\<lambda>w. case w of [] \<Rightarrow> None | c # _ \<Rightarrow> Some c) (take 6 ws))"
      unfolding key_base_def low_def [symmetric] ws_def [symmetric] by (simp split: list.split)
    then show ?thesis unfolding all .
  qed
  have short: "base_ok (take 6 w)" if "w \<in> set ws" for w
    using words [OF that] by (cases w) (auto simp: base_ok_def list_all_iff dest: in_set_takeD)
  have "key_char (hd w)" if "w \<in> set ws" for w using words [OF that] by (cases w) auto
  then have "base_ok (map hd (take 6 ws))" if "ws \<noteq> []"
    using that by (auto simp: base_ok_def list_all_iff dest: in_set_takeD)
  then show ?thesis
    unfolding key using short
    by (auto simp: base_ok_def lit_def key_char_def is_ascii_lower_def split: list.split)
qed

lemma candidate_format:
  assumes "base_ok base" and "1 \<le> n" and "n < 2 ^ 32"
  shows "key_format (candidate base n)"
proof (cases "n = 1")
  case True
  then show ?thesis using assms(1)
    by (cases base) (auto simp: candidate_def base_ok_def key_format_def list_all_iff)
next
  case False
  have digits: "length (nat_str n) \<le> 10" using nat_str_length [of n 10] assms(3) by simp
  have "last (nat_str n) \<in> set (nat_str n)" by simp
  then have "key_char (last (nat_str n))" using nat_str_key_chars(2) [of n] unfolding list_all_iff by blast
  moreover have "list_all (\<lambda>c. key_char c \<or> c = 45) (take k base)" for k
    using assms(1) by (auto simp: base_ok_def list_all_iff dest: in_set_takeD)
  moreover have "hd (suffixed base n) = hd base" and "key_char (hd base)"
    using assms(1) digits by (cases base; simp add: suffixed_def base_ok_def take_Cons split: nat.split)+
  ultimately show ?thesis
    using False digits nat_str_key_chars(2) [of n]
    by (auto simp: candidate_def key_format_def suffixed_def list_all_iff)
qed

section \<open>A key is found\<close>

lemma key_loop_finds:
  assumes "healthy s" and "1 \<le> n" and "n + k < 2 ^ 32" and "k < fuel"
    and "\<forall>j. n \<le> j \<and> j < n + k \<longrightarrow> any_row (has_key p (candidate base j)) (boards s)"
    and "\<not> any_row (has_key p (candidate base (n + k))) (boards s)"
  shows "run_state (key_loop fuel p base n (candidate base n)) s =
    (Inr (Some (candidate base (n + k))), s\<lparr>calls := calls s + Suc k\<rparr>)"
  using assms
proof (induction k arbitrary: n s fuel)
  case 0
  then obtain f where "fuel = Suc f" by (cases fuel) auto
  with 0 show ?case by (simp add: key_taken_def query_def stmt_def healthy_def)
next
  case (Suc k)
  then obtain f where fuel: "fuel = Suc f" "k < f" by (cases fuel) auto
  let ?t = "s\<lparr>calls := Suc (calls s)\<rparr>"
  have next_one: "min n 4294967294 = n" and name: "suffixed base (Suc n) = candidate base (Suc n)"
    using Suc.prems(2,3) by (simp_all add: candidate_def)
  have "any_row (has_key p (candidate base n)) (boards s)" using Suc.prems(5) by simp
  moreover have "run_state (key_loop f p base (Suc n) (candidate base (Suc n))) ?t =
      (Inr (Some (candidate base (Suc n + k))), ?t\<lparr>calls := calls ?t + Suc k\<rparr>)"
    using Suc.prems fuel(2) by (intro Suc.IH) (simp_all add: healthy_def)
  ultimately show ?case
    using Suc.prems(1) by (simp add: fuel(1) key_taken_def query_def stmt_def healthy_def next_one name Let_def)
qed

text \<open>Among the first candidates, one more than the project has boards, one is free.\<close>

lemma candidate_free:
  assumes "45 \<notin> set base"
  shows "\<exists>k\<le>count_where (\<lambda>r. bo_project_id r = p) rows. \<not> any_row (has_key p (candidate base (1 + k))) rows"
proof (rule ccontr)
  assume *: "\<not> ?thesis"
  let ?N = "count_where (\<lambda>r. bo_project_id r = p) rows" and ?keys = "bo_key ` set (filter (\<lambda>r. bo_project_id r = p) rows)"
  have "inj (\<lambda>k. candidate base (1 + k))"
    using candidate_inj [OF assms] by (intro injI) (metis add_left_cancel)
  then have "card ((\<lambda>k. candidate base (1 + k)) ` {..?N}) = Suc ?N" by (simp add: card_image inj_on_subset)
  moreover have inside: "(\<lambda>k. candidate base (1 + k)) ` {..?N} \<subseteq> ?keys"
  proof
    fix key assume "key \<in> (\<lambda>k. candidate base (1 + k)) ` {..?N}"
    then obtain k where k: "k \<le> ?N" "key = candidate base (1 + k)" by auto
    then obtain r where "r \<in> set rows" "bo_project_id r = p" "bo_key r = key" using * by (auto simp: any_row_iff has_key_def)
    then show "key \<in> ?keys" by (auto intro!: image_eqI [of key bo_key r])
  qed
  moreover have "card ?keys \<le> ?N"
    unfolding count_where_def by (rule order_trans [OF card_image_le card_length]) simp
  moreover have "card ((\<lambda>k. candidate base (1 + k)) ` {..?N}) \<le> card ?keys" by (rule card_mono [OF _ inside]) simp
  ultimately show False by linarith
qed

lemma generate_key_finds:
  assumes "healthy s" and "base_ok (key_base env name)"
    and "count_where (\<lambda>r. bo_project_id r = p) (boards s) < 2 ^ 32 - 1"
  shows "\<exists>k key. run_state (generate_key env p name) s = (Inr (Some key), s\<lparr>calls := calls s + Suc k\<rparr>) \<and>
    k \<le> count_where (\<lambda>r. bo_project_id r = p) (boards s) \<and> key_format key \<and> \<not> any_row (has_key p key) (boards s)"
proof -
  let ?N = "count_where (\<lambda>r. bo_project_id r = p) (boards s)" and ?base = "key_base env name"
  define k where "k = (LEAST k. \<not> any_row (has_key p (candidate ?base (1 + k))) (boards s))"
  obtain j where j: "j \<le> ?N" "\<not> any_row (has_key p (candidate ?base (1 + j))) (boards s)"
    using candidate_free [OF base_no_dash [OF assms(2)]] by blast
  have free: "\<not> any_row (has_key p (candidate ?base (1 + k))) (boards s)"
    unfolding k_def by (rule LeastI) (rule j(2))
  have "k \<le> j" unfolding k_def by (rule Least_le) (rule j(2))
  with j(1) have few: "k \<le> ?N" by simp
  have taken: "any_row (has_key p (candidate ?base i)) (boards s)" if "1 \<le> i" "i < 1 + k" for i
    using not_less_Least [of "i - 1" "\<lambda>k. \<not> any_row (has_key p (candidate ?base (1 + k))) (boards s)"] that
    unfolding k_def [symmetric] by (cases i) auto
  have "run_state (key_loop (2 ^ 32) p ?base 1 (candidate ?base 1)) s =
      (Inr (Some (candidate ?base (1 + k))), s\<lparr>calls := calls s + Suc k\<rparr>)"
    by (rule key_loop_finds [OF assms(1)]) (use few assms(3) taken free in auto)
  moreover have "candidate ?base 1 = ?base" by (simp add: candidate_def)
  ultimately show ?thesis
    using few free candidate_format [OF assms(2), of "1 + k"] assms(3) unfolding generate_key_def by auto
qed

text \<open>
  C24: A project always gets its new board. On a healthy database the search for a key ends, after at most one
  attempt more than the project has boards: the board is stored under a well-formed key that no board of the
  project had, and the table changes by nothing else.
\<close>

theorem board_created:
  assumes "healthy s" and "ctx_has ctx ProjectView" and "cb_shared req \<longrightarrow> ctx_has ctx BoardSharedCreate"
    and "valid_create_board req" and "\<And>t. list_all (\<lambda>c. \<not> is_ascii_upper c) (e_lower env t)"
    and "any_row (project_is (pr_id (cx_project ctx))) (projects s)" and "any_row (has_id (cx_actor_id ctx)) (users s)"
    and "count_where (\<lambda>r. bo_project_id r = pr_id (cx_project ctx)) (boards s) < 2 ^ 32 - 1"
  shows "\<exists>b t. run_state (create_board env ctx (Json req)) s = (Inr (201, b), t) \<and> boards t = boards s @ [bd_row b] \<and>
    key_format (bo_key (bd_row b)) \<and> \<not> any_row (has_key (pr_id (cx_project ctx)) (bo_key (bd_row b))) (boards s) \<and>
    calls t \<le> calls s + count_where (\<lambda>r. bo_project_id r = pr_id (cx_project ctx)) (boards s) + 4"
proof -
  let ?p = "pr_id (cx_project ctx)" and ?s = "s\<lparr>calls := Suc (calls s)\<rparr>"
  have ok: "faults s n = False" for n using assms(1) by (simp add: healthy_def)
  obtain k key where key: "run_state (generate_key env ?p (cb_name req)) ?s = (Inr (Some key), ?s\<lparr>calls := calls ?s + Suc k\<rparr>)"
      "k \<le> count_where (\<lambda>r. bo_project_id r = ?p) (boards s)" "key_format key" "\<not> any_row (has_key ?p key) (boards s)"
    using generate_key_finds [of ?s env "cb_name req" ?p] key_base_ok [OF assms(5)] assms(1,8) by (auto simp: healthy_def)
  have color: "length (cb_color req) \<le> 16"
    using assms(4) length_le_byte_len [of "cb_color req"] by (simp add: valid_create_board_def len_between_def)
  have kind: "\<exists>v. board_kind ctx (cb_shared req) = Inr v \<and> (BoardVisibility_as_str v = lit ''personal'' \<or> BoardVisibility_as_str v = lit ''shared'')"
    using assms(3) by (auto simp: board_kind_def ctx_require_def)
  then show ?thesis
    using key color assms(2,4,6,7)
    by (auto simp: create_board_def permitted_def ctx_require_def passing_def parse_body_def with_client_def pool_get_def
        served_def db_create_board_def board_max_order_def board_insert_def query_def stmt_def ok board_checks_def answer_def
        row_to_board_def has_key_def opt_all_def Let_def)
qed

section \<open>Personal boards\<close>

datatype board_act =
    CreateBoard "CreateBoardRequest json_body"
  | UpdateBoard "ustr option" "UpdateBoardRequest json_body"
  | DeleteBoard "ustr option"
  | OpenBoard "ustr option"

definition run_board :: "env \<Rightarrow> board_act \<Rightarrow> ProjectContext \<Rightarrow> ('t kanban_scheme, response + nat) state" where
  "run_board env act ctx =
     (case act of
        CreateBoard body \<Rightarrow> status_of (create_board env ctx body)
      | UpdateBoard param body \<Rightarrow> status_of (update_board env ctx param body)
      | DeleteBoard param \<Rightarrow> status_of (delete_board env ctx param)
      | OpenBoard param \<Rightarrow> status_of (set_last_opened env ctx param))"

definition after_boards :: "(env \<times> board_act \<times> ProjectContext) list \<Rightarrow> 't kanban_scheme \<Rightarrow> 't kanban_scheme" where
  "after_boards reqs s = fold (\<lambda>(env, act, ctx) t. snd (run_state (run_board env act ctx) t)) reqs s"

text \<open>The table holds the row, its ids are distinct and were drawn before.\<close>

definition holds_board :: "board_row \<Rightarrow> 't kanban_scheme \<Rightarrow> bool" where
  "holds_board r s \<longleftrightarrow> r \<in> set (boards s) \<and> keyed bo_id (boards s) \<and> (\<forall>q\<in>set (boards s). bo_id q < next_id s)"

lemma holds_board_same: "boards t = boards s \<Longrightarrow> next_id s \<le> next_id t \<Longrightarrow> holds_board r s \<longrightarrow> holds_board r t"
  by (fastforce simp: holds_board_def)

lemma holds_board_calls [simp]: "holds_board r (s\<lparr>calls := n\<rparr>) = holds_board r s"
  by (simp add: holds_board_def)

interpretation holding: calls_evolution "\<lambda>s t :: 't kanban_scheme. holds_board r s \<longrightarrow> holds_board r t" for r
  by unfold_locales (auto simp: holds_board_def)

lemma holds_insert: "keeps (\<lambda>s t :: 't kanban_scheme. holds_board r s \<longrightarrow> holds_board r t) (board_insert new)"
  if "\<And>i now. bo_id (new i now) = i"
  unfolding board_insert_def using that
  by (intro holding.keeps_stmt) (auto simp: Let_def holds_board_def keyed_snoc less_Suc_eq)

lemma holds_update:
  assumes "\<not> is_board p i r"
  shows "keeps (\<lambda>s t :: 't kanban_scheme. holds_board r s \<longrightarrow> holds_board r t) (db_update_board p i name key color config)"
  unfolding db_update_board_def
proof (rule holding.keeps_stmt)
  fix s :: "'t kanban_scheme"
  let ?f = "\<lambda>r. r\<lparr>bo_name := name, bo_key := key, bo_color := color, bo_config := config, bo_modified_at := db_now s\<rparr>"
  have "holds_board r (s\<lparr>boards := update_where (is_board p i) ?f (boards s)\<rparr>)" if "holds_board r s"
    using that assms by (auto simp: holds_board_def set_update_where keyed_update_where)
  then show "holds_board r s \<longrightarrow> holds_board r (snd (let f = ?f in case find_row (is_board p i) (boards s) of
          None \<Rightarrow> (Inr None, s)
        | Some r \<Rightarrow>
            if \<not> board_checks (f r) then (Inl Unavailable, s)
            else if any_row (\<lambda>q. has_key p key q \<and> bo_id q \<noteq> i) (boards s) then (Inl UniqueViolation, s)
            else (Inr (Some (row_to_board (f r))), s\<lparr>boards := update_where (is_board p i) f (boards s)\<rparr>)))"
    by (simp add: Let_def split: option.split)
qed

lemma holds_delete:
  assumes "bo_id r \<noteq> i"
  shows "keeps (\<lambda>s t :: 't kanban_scheme. holds_board r s \<longrightarrow> holds_board r t) (db_delete_board p i)"
  unfolding db_delete_board_def drop_board_def using assms
  by (intro holding.keeps_stmt) (auto simp: holds_board_def set_delete_where keyed_delete_where)

lemma holds_others:
  "keeps (\<lambda>s t :: 't kanban_scheme. holds_board r s \<longrightarrow> holds_board r t) (record_key_history p i key)"
  "keeps (\<lambda>s t :: 't kanban_scheme. holds_board r s \<longrightarrow> holds_board r t) (db_set_last_opened p u i)"
  "keeps (\<lambda>s t :: 't kanban_scheme. holds_board r s \<longrightarrow> holds_board r t) (publish p e)"
proof -
  show "keeps (\<lambda>s t :: 't kanban_scheme. holds_board r s \<longrightarrow> holds_board r t) (record_key_history p i key)"
    unfolding record_key_history_def by (rule holding.keeps_stmt) (auto simp: holds_board_def)
  show "keeps (\<lambda>s t :: 't kanban_scheme. holds_board r s \<longrightarrow> holds_board r t) (db_set_last_opened p u i)"
    unfolding db_set_last_opened_def by (rule holding.keeps_stmt) (auto simp: holds_board_def)
  show "keeps (\<lambda>s t :: 't kanban_scheme. holds_board r s \<longrightarrow> holds_board r t) (publish p e)"
    by (auto simp: keeps_wp wp_publish holds_board_def)
qed

lemma holds_key_loop: "keeps (\<lambda>s t :: 't kanban_scheme. holds_board r s \<longrightarrow> holds_board r t) (key_loop fuel p base n cand)"
  by (induction fuel arbitrary: n cand)
    (auto simp: key_taken_def Let_def intro!: holding.reading_shapes)

lemmas holds_shapes = holding.reading_shapes holds_insert holds_others holds_key_loop

lemma holds_read: "keeps (\<lambda>s t :: 't kanban_scheme. holds_board r s \<longrightarrow> holds_board r t) (key_available p i changed key)"
  unfolding key_available_def get_by_key_def by (auto intro!: holds_shapes split: option.split)

lemma load_refuses:
  assumes "holds_board r s" and "bo_visibility r = lit ''personal''" and "bo_owner_id r \<noteq> Some (cx_actor_id ctx)"
  shows "wp (load_for_write ctx i perm) (\<lambda>res t. holds_board r t \<and> (\<forall>b. res = Inr b \<longrightarrow> bo_id r \<noteq> i)) s"
proof -
  have refused: "\<not> BoardVisibility_is_shared (bd_visibility (row_to_board r))"
    using assms(2) by (simp add: row_to_board_def BoardVisibility_parse_def BoardVisibility_is_shared_def unwrap_or_def lit_def)
  let ?p = "pr_id (cx_project ctx)"
  have mine: "q = r" if "bo_id r = i" "find_row (is_board ?p i) (boards s) = Some q" for q
    using find_row_Some [OF that(2)] that(1) assms(1) keyed_unique [of bo_id "boards s" q r]
    by (simp add: is_board_def holds_board_def)
  show ?thesis
  proof (cases "bo_id r = i")
    case True
    have "find_row (is_board ?p i) (boards s) = None \<or> find_row (is_board ?p i) (boards s) = Some r"
      using mine [OF True] by (cases "find_row (is_board ?p i) (boards s)") auto
    then show ?thesis
      using assms refused
      by (auto simp: load_for_write_def db_get_board_def wp_served wp_query wp_present wp_return wp_refuse holds_board_def row_to_board_def)
  next
    case False
    then show ?thesis
      using assms by (auto simp: load_for_write_def db_get_board_def wp_served wp_query wp_present wp_return wp_refuse holds_board_def
          split: option.split)
  qed
qed

lemma stays_update:
  fixes s :: "'t kanban_scheme"
  assumes "holds_board r s" and "bo_visibility r = lit ''personal''" and "bo_owner_id r \<noteq> Some (cx_actor_id ctx)"
  shows "wp (update_board env ctx param body) (\<lambda>_. holds_board r) s"
proof -
  let ?p = "pr_id (cx_project ctx)"
  have edit: "wp (verifying (key_available ?p i key_changed key)
           (served (db_update_board ?p i name key color config) (\<lambda>r. present r k))) (\<lambda>_. holds_board r) t"
    if t: "holds_board r t" and other: "bo_id r \<noteq> i" and rest: "\<And>new. keeps (\<lambda>s t. holds_board r s \<longrightarrow> holds_board r t) (k new)"
    for i key_changed key name color config t and k :: "Board \<Rightarrow> ('t kanban_scheme, Board) handler"
  proof -
    have "\<not> is_board ?p i r" using other by (simp add: is_board_def)
    then have "keeps (\<lambda>s t. holds_board r s \<longrightarrow> holds_board r t) (verifying (key_available ?p i key_changed key)
           (served (db_update_board ?p i name key color config) (\<lambda>r. present r k)))"
      by (intro holds_shapes holds_read holds_update rest)
    from wp_keeps [OF this, of t] t show ?thesis by (auto intro: wp_mono)
  qed
  have load: "wp (load_for_write ctx i perm) (\<lambda>res t. holds_board r t \<and> (\<forall>b. res = Inr b \<longrightarrow> bo_id r \<noteq> i)) (s\<lparr>calls := n\<rparr>)"
    for i perm n
    using load_refuses [of r "s\<lparr>calls := n\<rparr>"] assms by (simp add: holds_board_def)
  show ?thesis
    unfolding update_board_def
    by (auto simp: wp_permitted wp_present wp_passing wp_with_client wp_bind Let_def assms(1) intro!: wp_mono [OF load] edit holds_shapes
        split: option.split sum.split)
qed

lemma stays_delete:
  assumes "holds_board r s" and "bo_visibility r = lit ''personal''" and "bo_owner_id r \<noteq> Some (cx_actor_id ctx)"
  shows "wp (delete_board env ctx param) (\<lambda>_. holds_board r) s"
proof -
  let ?p = "pr_id (cx_project ctx)"
  have drop: "wp (served (db_delete_board ?p i) (\<lambda>hit. if hit then do { _ \<leftarrow> publish ?p e; answer 204 () } else refuse not_found))
      (\<lambda>_. holds_board r) t" if t: "holds_board r t" and other: "bo_id r \<noteq> i" for i e and t :: "'a kanban_scheme"
  proof -
    have "keeps (\<lambda>s t :: 'a kanban_scheme. holds_board r s \<longrightarrow> holds_board r t)
       (served (db_delete_board ?p i) (\<lambda>hit. if hit then do { _ \<leftarrow> publish ?p e; answer 204 () } else refuse not_found))"
      using other by (intro holds_shapes holds_delete)
    from wp_keeps [OF this, of t] t show ?thesis by (auto intro: wp_mono)
  qed
  have load: "wp (load_for_write ctx i perm) (\<lambda>res t. holds_board r t \<and> (\<forall>b. res = Inr b \<longrightarrow> bo_id r \<noteq> i)) (s\<lparr>calls := n\<rparr>)"
    for i perm n
    using load_refuses [of r "s\<lparr>calls := n\<rparr>"] assms by simp
  show ?thesis
    unfolding delete_board_def
    by (auto simp: wp_permitted wp_present wp_passing wp_with_client wp_bind assms(1) intro!: wp_mono [OF load] drop
        split: option.split sum.split)
qed

lemma stays_others:
  "keeps (\<lambda>s t :: 't kanban_scheme. holds_board r s \<longrightarrow> holds_board r t) (create_board env ctx body)"
  "keeps (\<lambda>s t :: 't kanban_scheme. holds_board r s \<longrightarrow> holds_board r t) (set_last_opened env ctx param)"
proof -
  show "keeps (\<lambda>s t :: 't kanban_scheme. holds_board r s \<longrightarrow> holds_board r t) (create_board env ctx body)"
    unfolding create_board_def generate_key_def db_create_board_def board_max_order_def
    by (auto intro!: holds_shapes split: option.split)
  show "keeps (\<lambda>s t :: 't kanban_scheme. holds_board r s \<longrightarrow> holds_board r t) (set_last_opened env ctx param)"
    unfolding set_last_opened_def by (auto intro!: holds_shapes)
qed

lemma stays_request:
  fixes s :: "'t kanban_scheme"
  assumes "holds_board r s" and "bo_visibility r = lit ''personal''" and "bo_owner_id r \<noteq> Some (cx_actor_id ctx)"
  shows "holds_board r (snd (run_state (run_board env act ctx) s))"
proof -
  have status: "wp (status_of m) (\<lambda>_. holds_board r) s = wp m (\<lambda>_. holds_board r) s" for m :: "('t kanban_scheme, response + nat \<times> 'b) state"
    by (simp add: status_of_def wp_bind wp_return_fun)
  have others: "wp (create_board env ctx body) (\<lambda>_. holds_board r) s" "wp (set_last_opened env ctx param) (\<lambda>_. holds_board r) s"
    for body param
    using assms(1) by (auto intro: wp_mono [OF wp_keeps [OF stays_others(1)]] wp_mono [OF wp_keeps [OF stays_others(2)]])
  have "wp (run_board env act ctx) (\<lambda>_. holds_board r) s"
    using stays_update [OF assms] stays_delete [OF assms] others
    by (cases act) (simp_all add: run_board_def status)
  then show ?thesis by (simp add: wp_def case_prod_beta)
qed

text \<open>The rows a caller is shown: by the list, and by the page of one board.\<close>

definition boards_shown :: "env \<Rightarrow> (ustr \<Rightarrow> rat) \<Rightarrow> ProjectContext \<Rightarrow> ustr option \<Rightarrow> 't kanban_scheme \<Rightarrow> board_row list" where
  "boards_shown env coll ctx param s =
     (case fst (run_state (list_boards coll ctx) s) of Inl _ \<Rightarrow> [] | Inr (_, bs) \<Rightarrow> map bd_row bs) @
     (case fst (run_state (get_board env ctx param) s) of Inl _ \<Rightarrow> [] | Inr (_, b) \<Rightarrow> [bd_row b])"

lemma shown_allowed:
  fixes s :: "'t kanban_scheme"
  assumes "r \<in> set (boards_shown env coll ctx param s)"
  shows "bo_visibility r = lit ''shared'' \<or> bo_owner_id r = Some (cx_actor_id ctx)"
proof -
  have shared: "bo_visibility q = lit ''shared''" if "BoardVisibility_is_shared (bd_visibility (row_to_board q))" for q
    using that boardVisibility.enc_dec [of "bo_visibility q" BoardVisibility.Shared]
    by (cases "BoardVisibility_parse (bo_visibility q)") (auto simp: row_to_board_def BoardVisibility_is_shared_def unwrap_or_def)
  have found: "wp (find_board env p param) (\<lambda>res _. \<forall>b. res = Inr (Some b) \<longrightarrow> (\<exists>q. b = row_to_board q)) t"
    for p and t :: "'t kanban_scheme"
    by (auto simp: find_board_def db_get_board_def get_by_key_def find_id_by_historic_key_def wp_andThen wp_query wp_return Let_def
        split: option.split)
  have "wp (get_board env ctx param) (\<lambda>res _. \<forall>st b. res = Inr (st, b) \<longrightarrow>
      bo_visibility (bd_row b) = lit ''shared'' \<or> bo_owner_id (bd_row b) = Some (cx_actor_id ctx)) s"
    unfolding get_board_def
    by (auto simp: wp_permitted wp_with_client wp_served wp_present wp_answer wp_refuse intro!: wp_mono [OF found]
        split: option.split sum.split dest!: shared) (auto simp: row_to_board_def)
  then have one: "bo_visibility (bd_row b) = lit ''shared'' \<or> bo_owner_id (bd_row b) = Some (cx_actor_id ctx)"
    if "fst (run_state (get_board env ctx param) s) = Inr (st, b)" for st b
    using that by (auto simp: wp_def case_prod_beta)
  have "wp (list_boards coll ctx) (\<lambda>res _. \<forall>st bs. res = Inr (st, bs) \<longrightarrow>
      (\<forall>b\<in>set bs. bo_visibility (bd_row b) = lit ''shared'' \<or> bo_owner_id (bd_row b) = Some (cx_actor_id ctx))) s"
    unfolding list_boards_def db_list_boards_def
    by (auto simp: wp_permitted wp_with_client wp_served wp_query wp_answer wp_refuse row_to_board_def)
  then have many: "bo_visibility (bd_row b) = lit ''shared'' \<or> bo_owner_id (bd_row b) = Some (cx_actor_id ctx)"
    if "fst (run_state (list_boards coll ctx) s) = Inr (st, bs)" "b \<in> set bs" for st bs b
    using that by (auto simp: wp_def case_prod_beta)
  consider (listed) st bs where "fst (run_state (list_boards coll ctx) s) = Inr (st, bs)" "r \<in> bd_row ` set bs"
    | (opened) st b where "fst (run_state (get_board env ctx param) s) = Inr (st, b)" "r = bd_row b"
    using assms
    by (cases "fst (run_state (list_boards coll ctx) s)"; cases "fst (run_state (get_board env ctx param) s)")
      (auto simp: boards_shown_def)
  then show ?thesis using one many by cases auto
qed

text \<open>
  C25: A personal board is its owner's alone as far as the requests on boards go. Whatever boards others create,
  update, delete or open, in whatever project, and whatever statements fail, the board stays exactly as it is,
  and afterwards neither the list of boards nor the page of a board shows it to anyone but the owner, by id,
  by key or by an old key. The superadmin's listing of old keys names every board, and the deletion of the
  project or of the owner's account removes or changes the row; neither is among these requests.
\<close>

theorem personal_board_private:
  assumes "holds_board r s" and "bo_visibility r = lit ''personal''"
    and "\<forall>(env, act, ctx)\<in>set reqs. bo_owner_id r \<noteq> Some (cx_actor_id ctx)" and "bo_owner_id r \<noteq> Some (cx_actor_id ctx)"
  shows "r \<in> set (boards (after_boards reqs s)) \<and> r \<notin> set (boards_shown env coll ctx param (after_boards reqs s))"
proof -
  have "holds_board r (after_boards reqs s)"
    using assms(1,3) unfolding after_boards_def
    by (induction reqs arbitrary: s) (auto intro: stays_request [OF _ assms(2)])
  moreover have "r \<notin> set (boards_shown env coll ctx param (after_boards reqs s))"
    using shown_allowed [of r env coll ctx param "after_boards reqs s"] assms(2,4) by auto
  ultimately show ?thesis by (simp add: holds_board_def)
qed

section \<open>Old keys\<close>

lemma find_row_updated: "(\<And>r. P r \<Longrightarrow> P (f r)) \<Longrightarrow> find_row P (update_where P f rows) = map_option f (find_row P rows)"
  by (induction rows) (auto simp: find_row_def)

lemma bd_row_of: "bd_row (row_to_board q) = q"
  by (simp add: row_to_board_def)

text \<open>What a rename leaves: the old key is no board's, the history leads from it to the board.\<close>

definition renamed :: "pid \<Rightarrow> nat \<Rightarrow> ustr \<Rightarrow> Board \<Rightarrow> 't kanban_scheme \<Rightarrow> bool" where
  "renamed p i old b t \<longleftrightarrow> find_row (has_key p old) (boards t) = None \<and>
     map_option bk_board_id (find_row (was_key p old) (old_keys t)) = Some i \<and>
     map_option row_to_board (find_row (is_board p i) (boards t)) = Some b"

lemma record_history_leads:
  assumes "healthy s" and "any_row (\<lambda>r. bo_id r = i) (boards s)"
  shows "wp (record_key_history p i old) (\<lambda>_ t. healthy t \<and> boards t = boards s \<and>
    map_option bk_board_id (find_row (was_key p old) (old_keys t)) = Some i) s"
proof -
  have known: "find_row (was_key p old) (old_keys s) \<noteq> None \<longleftrightarrow> any_row (was_key p old) (old_keys s)"
    by (auto simp: find_row_None any_row_iff)
  have "map_option bk_board_id (find_row (was_key p old)
      (update_where (was_key p old) (\<lambda>r. r\<lparr>bk_board_id := i, bk_replaced_at := now\<rparr>) (old_keys s))) = Some i"
    if "any_row (was_key p old) (old_keys s)" for now
    using known that by (subst find_row_updated) (auto simp: was_key_def)
  moreover have "find_row (was_key p old) [\<lparr>bk_id = n, bk_project_id = p, bk_board_id = i, bk_key = old, bk_replaced_at = now\<rparr>] =
      Some \<lparr>bk_id = n, bk_project_id = p, bk_board_id = i, bk_key = old, bk_replaced_at = now\<rparr>" for n now
    by (simp add: find_row_def was_key_def)
  moreover have "find_row (was_key p old) (old_keys s) = None" if "\<not> any_row (was_key p old) (old_keys s)"
    using known that by blast
  ultimately show ?thesis
    using assms by (auto simp: record_key_history_def wp_stmt Let_def healthy_def find_row_append)
qed

lemma update_renames:
  fixes s :: "'t kanban_scheme"
  assumes "healthy s" and "item_id env (Some param) = Some i" and "find_row (is_board p i) (boards s) = Some q"
    and "p = pr_id (cx_project ctx)" and "\<forall>x\<in>set (boards s). has_key p (bo_key q) x \<longrightarrow> bo_id x = i"
  shows "wp (update_board env ctx (Some param) body)
    (\<lambda>res t. healthy t \<and> (\<forall>st b. res = Inr (st, b) \<longrightarrow> bo_key (bd_row b) \<noteq> bo_key q \<longrightarrow> renamed p i (bo_key q) b t)) s"
proof -
  have ok: "faults s k = False" for k using assms(1) by (simp add: healthy_def)
  have q: "bo_id q = i" "bo_project_id q = p" "q \<in> set (boards s)" using find_row_Some [OF assms(3)] by (auto simp: is_board_def)
  let ?f = "\<lambda>name key color config now r. r\<lparr>bo_name := name, bo_key := key, bo_color := color, bo_config := config, bo_modified_at := now\<rparr>"
  have edited: "find_row (is_board p i) (update_where (is_board p i) (?f name key color config now) (boards s)) = Some (?f name key color config now q)"
    for name key color config now
    using assms(3) by (subst find_row_updated) (auto simp: is_board_def)
  have free: "find_row (has_key p (bo_key q)) (update_where (is_board p i) (?f name key color config now) (boards s)) = None"
    if "key \<noteq> bo_key q" for name key color config now
  proof -
    have "\<not> has_key p (bo_key q) (if is_board p i x then ?f name key color config now x else x)" if "x \<in> set (boards s)" for x
      using assms(5) [rule_format, OF that] \<open>key \<noteq> bo_key q\<close> by (cases "is_board p i x") (auto simp: has_key_def is_board_def)
    then show ?thesis unfolding find_row_None update_where_def set_map by blast
  qed
  have there: "any_row (\<lambda>r. bo_id r = i) (update_where (is_board p i) (?f name key color config now) (boards s))" for name key color config now
    using find_row_Some [OF edited] unfolding any_row_iff is_board_def by blast
  let ?post = "\<lambda>res (t :: 't kanban_scheme). healthy t \<and>
    (\<forall>st b. res = Inr (st, b) \<longrightarrow> bo_key (bd_row b) \<noteq> bo_key q \<longrightarrow> renamed p i (bo_key q) b t)"
  have healthy_calls: "healthy (s\<lparr>calls := n\<rparr>)" and healthy_edit: "healthy (s\<lparr>calls := n, boards := rows\<rparr>)" for n rows
    using assms(1) by (simp_all add: healthy_def)
  let ?t = "\<lambda>name key color config n. s\<lparr>calls := n, boards := update_where (is_board p i) (?f name key color config (db_now s)) (boards s)\<rparr>"
  have changed: "wp (do {
              _ \<leftarrow> ignore (record_key_history p i (bo_key q));
              _ \<leftarrow> publish p e;
              answer 200 (row_to_board (?f name key color config (db_now s) q))
            }) ?post (?t name key color config n)" if "key \<noteq> bo_key q" for name key color config e n
  proof -
    have "wp (record_key_history p i (bo_key q)) (\<lambda>_ t. healthy t \<and> boards t = boards (?t name key color config n) \<and>
        map_option bk_board_id (find_row (was_key p (bo_key q)) (old_keys t)) = Some i) (?t name key color config n)"
      by (rule record_history_leads) (use healthy_calls there in \<open>simp_all add: healthy_def\<close>)
    then show ?thesis
      using free [OF that] edited
      by (auto simp: wp_bind wp_ignore wp_publish wp_answer renamed_def healthy_def elim!: wp_mono)
  qed
  have same: "wp (do { _ \<leftarrow> publish p e; answer 200 (row_to_board x) }) ?post t" if "bo_key x = bo_key q" "healthy t"
    for x e and t :: "'t kanban_scheme"
    using that by (simp add: wp_bind wp_publish wp_answer bd_row_of healthy_def)
  have edit: "wp (served (db_update_board p i name key color config) (\<lambda>r. present r k)) ?post (s\<lparr>calls := n\<rparr>)"
    if "wp (k (row_to_board (?f name key color config (db_now s) q))) ?post (?t name key color config (Suc n))"
    for name key color config n and k :: "Board \<Rightarrow> ('t kanban_scheme, Board) handler"
    using that healthy_calls
    by (simp add: db_update_board_def wp_served wp_stmt ok wp_present wp_refuse assms(3) Let_def)
  have available: "wp (verifying (key_available p i changed key) m) ?post (s\<lparr>calls := n\<rparr>)"
    if "\<And>n. wp m ?post (s\<lparr>calls := n\<rparr>)" for changed key n and m :: "('t kanban_scheme, Board) handler"
    using that healthy_calls
    by (simp add: wp_verifying key_available_def get_by_key_def wp_served wp_query ok wp_return wp_refuse split: option.split)
  have load: "wp (load_for_write ctx i perm) (\<lambda>res t. \<exists>n. t = s\<lparr>calls := n\<rparr> \<and> (\<forall>b. res = Inr b \<longrightarrow> b = row_to_board q)) (s\<lparr>calls := n\<rparr>)"
    for perm n
    using assms(3,4) by (auto simp: load_for_write_def db_get_board_def wp_served wp_query ok wp_present wp_return wp_refuse)
  show ?thesis
    unfolding update_board_def
    using healthy_calls healthy_edit assms(1)
    by (auto simp: wp_permitted wp_present wp_passing wp_with_client wp_bind [of "load_for_write c j r" for c j r] assms(2) assms(4) [symmetric] Let_def bd_row_of
        intro!: wp_mono [OF load] available edit changed same split: sum.split)
qed

text \<open>
  C26: Renaming a board breaks no link. After an update that gave the board another key, whoever may see the board
  still gets it under the old key, in any letter case and with blanks around it, on a healthy database whose
  keys are unique.
\<close>

theorem renamed_board_found:
  assumes "run_state (update_board env ctx (Some param) body) s = (Inr (st, b), t)" and "healthy s"
    and "e_uuid_parse env param = Some i" and "find_row (is_board (pr_id (cx_project ctx)) i) (boards s) = Some q"
    and "\<forall>x\<in>set (boards s). has_key (pr_id (cx_project ctx)) (bo_key q) x \<longrightarrow> bo_id x = i"
    and "bo_key (bd_row b) \<noteq> bo_key q"
    and "e_uuid_parse env old_link = None" and "map ascii_lower (trim old_link) = bo_key q"
    and "pr_id (cx_project viewer) = pr_id (cx_project ctx)" and "ctx_has viewer ProjectView"
    and "BoardVisibility_is_shared (bd_visibility b) \<or> bo_owner_id (bd_row b) = Some (cx_actor_id viewer)"
  shows "fst (run_state (get_board env viewer (Some old_link)) t) = Inr (200, b)"
proof -
  let ?p = "pr_id (cx_project ctx)"
  have item: "item_id env (Some param) = Some i" "item_id env (Some old_link) = None" using assms(3,7) by (simp_all add: item_id_def)
  have t: "healthy t" "renamed ?p i (bo_key q) b t"
    using wpI [OF assms(1) update_renames [OF assms(2) item(1) assms(4) refl assms(5)]] assms(6) by simp_all
  have ok: "faults t k = False" for k using t(1) by (simp add: healthy_def)
  obtain h where h: "find_row (was_key ?p (bo_key q)) (old_keys t) = Some h" "bk_board_id h = i"
    using t(2) by (auto simp: renamed_def)
  have "wp (get_board env viewer (Some old_link)) (\<lambda>res _. res = Inr (200, b)) t"
    using t(2) h assms(9-11)
    by (auto simp: get_board_def find_board_def item(2) db_get_board_def get_by_key_def find_id_by_historic_key_def wp_permitted wp_with_client
        wp_served wp_andThen wp_query wp_return wp_present wp_answer wp_refuse ok renamed_def assms(8) Let_def unwrap_or_def)
  then show ?thesis by (simp add: wp_def case_prod_beta)
qed

section \<open>A concrete project with boards\<close>

text \<open>Project 5 with a shared board and a personal board of the account 8; ids have the form of one character.\<close>

definition board_env :: env where
  "board_env = demo_env\<lparr>e_uuid_parse := (\<lambda>t. case t of [c] \<Rightarrow> if c < 100 then Some c else None | _ \<Rightarrow> None), e_lower := map ascii_lower\<rparr>"

definition demo_board :: "nat \<Rightarrow> uid \<Rightarrow> string \<Rightarrow> string \<Rightarrow> board_row" where
  "demo_board i u visibility key =
     \<lparr>bo_id = i, bo_project_id = 5, bo_owner_id = Some u, bo_visibility = lit visibility, bo_name = lit key, bo_key = lit key,
      bo_color = [], bo_config = lit ''{}'', bo_order = 1, bo_created_at = 0, bo_modified_at = 0\<rparr>"

definition demo_kanban :: kanban where
  "demo_kanban = timesheets.extend (tracker.extend (demo_tracker\<lparr>boards :=
     [demo_board 60 7 ''shared'' ''board'', demo_board 61 8 ''personal'' ''mine'']\<rparr>) (timesheets.fields [] [] [])) (kanban.fields [] [])"

lemma demo_kanban_fields [simp]:
  "boards demo_kanban = [demo_board 60 7 ''shared'' ''board'', demo_board 61 8 ''personal'' ''mine'']"
  "old_keys demo_kanban = []" "opened demo_kanban = []" "faults demo_kanban = (\<lambda>_. False)" "calls demo_kanban = 0"
  "next_id demo_kanban = 100" "db_now demo_kanban = 1000" "users demo_kanban = [demo_user 7, demo_user 8]"
  "projects demo_kanban = [project_row_of 5 Private]" "healthy demo_kanban" "published demo_kanban = []"
  by (simp_all add: demo_kanban_def timesheets.extend_def kanban.fields_def tracker.extend_def timesheets.fields_def demo_tracker_def
      store.extend_def tracker.fields_def demo_store_def node.extend_def demo_node_def world.extend_def demo_world_def
      empty_world_def healthy_def)

definition demo_new_board :: CreateBoardRequest where
  "demo_new_board = \<lparr>cb_name = lit ''Board'', cb_color = [], cb_shared = True, cb_config = lit ''null''\<rparr>"

lemma board_created_witness:
  "\<exists>b t. run_state (create_board board_env demo_ctx (Json demo_new_board)) demo_kanban = (Inr (201, b), t) \<and>
     boards t = boards demo_kanban @ [bd_row b] \<and> bo_key (bd_row b) \<noteq> lit ''board''"
proof -
  have valid: "valid_create_board demo_new_board" and shared: "cb_shared demo_new_board"
    by (simp_all add: demo_new_board_def valid_create_board_def len_between_def byte_len_def utf8_len_def lit_def)
  have lower: "list_all (\<lambda>c. \<not> is_ascii_upper c) (e_lower board_env t)" for t
    by (auto simp: board_env_def list_all_iff ascii_lower_def is_ascii_upper_def)
  have rows: "any_row (project_is 5) (projects demo_kanban)" "any_row (has_id 7) (users demo_kanban)"
    "count_where (\<lambda>r. bo_project_id r = 5) (boards demo_kanban) < 2 ^ 32 - 1"
    by (simp_all add: any_row_def project_is_def project_row_of_def has_id_def demo_user_def default_user_def count_where_def demo_board_def)
  show ?thesis
    using board_created [of demo_kanban demo_ctx demo_new_board board_env] valid lower rows
    by (auto simp: any_row_def has_key_def demo_board_def)
qed

lemma personal_board_private_witness:
  "demo_board 61 8 ''personal'' ''mine'' \<in> set (boards (after_boards
      [(board_env, DeleteBoard (Some [61]), demo_ctx), (board_env, CreateBoard (Json demo_new_board), demo_ctx)] demo_kanban)) \<and>
   demo_board 61 8 ''personal'' ''mine'' \<notin> set (boards_shown board_env (\<lambda>_. 0) demo_ctx (Some (lit ''mine'')) (after_boards
      [(board_env, DeleteBoard (Some [61]), demo_ctx), (board_env, CreateBoard (Json demo_new_board), demo_ctx)] demo_kanban))"
proof (rule personal_board_private)
  show "holds_board (demo_board 61 8 ''personal'' ''mine'') demo_kanban"
    by (simp add: holds_board_def keyed_def demo_board_def)
qed (simp_all add: demo_board_def)

definition demo_rename :: UpdateBoardRequest where
  "demo_rename = \<lparr>ub_name = lit ''B'', ub_key = Some (lit ''Plan''), ub_color = [], ub_config = lit ''{}''\<rparr>"

lemma demo_renamed:
  "\<exists>b t. run_state (update_board board_env demo_ctx (Some [60]) (Json demo_rename)) demo_kanban = (Inr (200, b), t) \<and>
     bd_row b = (demo_board 60 7 ''shared'' ''plan'')\<lparr>bo_name := lit ''B'', bo_modified_at := 1000\<rparr>"
proof -
  have key: "map ascii_lower (trim (lit ''Plan'')) = lit ''plan''" "valid_key (lit ''plan'')" "key_format (lit ''plan'')" "valid_update_board demo_rename"
    by (simp_all add: lit_def trim_def trim_by_def is_white_def ascii_lower_def is_ascii_upper_def valid_key_def key_format_def
        key_char_def is_ascii_alnum_def is_ascii_alpha_def is_ascii_lower_def byte_len_def utf8_len_def demo_rename_def
        valid_update_board_def len_between_def opt_all_def)
  have parse: "e_uuid_parse board_env [60] = Some 60" by (simp add: board_env_def)
  have "wp (update_board board_env demo_ctx (Some [60]) (Json demo_rename))
    (\<lambda>r t. \<exists>b. r = Inr (200, b) \<and> bd_row b = (demo_board 60 7 ''shared'' ''plan'')\<lparr>bo_name := lit ''B'', bo_modified_at := 1000\<rparr>) demo_kanban"
    using key
    by (simp add: update_board_def load_for_write_def key_available_def requested_key_def db_get_board_def get_by_key_def db_update_board_def
        record_key_history_def wp_permitted wp_present wp_passing wp_with_client wp_bind wp_served wp_query wp_stmt wp_return wp_refuse
        wp_verifying wp_publish wp_answer wp_ignore item_id_def parse parse_body_def Let_def find_row_def is_board_def has_key_def
        demo_board_def row_to_board_def board_checks_def any_row_def demo_rename_def)
  then show ?thesis by (auto simp: wp_def case_prod_beta prod_eq_iff)
qed

lemma renamed_board_found_witness:
  "\<exists>b t. run_state (update_board board_env demo_ctx (Some [60]) (Json demo_rename)) demo_kanban = (Inr (200, b), t) \<and>
     bo_key (bd_row b) = lit ''plan'' \<and> fst (run_state (get_board board_env demo_ctx (Some (lit '' BOARD''))) t) = Inr (200, b)"
proof -
  obtain b t where run: "run_state (update_board board_env demo_ctx (Some [60]) (Json demo_rename)) demo_kanban = (Inr (200, b), t)"
    and row: "bd_row b = (demo_board 60 7 ''shared'' ''plan'')\<lparr>bo_name := lit ''B'', bo_modified_at := 1000\<rparr>"
    using demo_renamed by blast
  have found: "find_row (is_board (pr_id (cx_project demo_ctx)) 60) (boards demo_kanban) = Some (demo_board 60 7 ''shared'' ''board'')"
    by (simp add: find_row_def is_board_def demo_board_def)
  have parse: "e_uuid_parse board_env [60] = Some 60" "e_uuid_parse board_env (lit '' BOARD'') = None"
    by (simp_all add: board_env_def lit_def)
  have link: "map ascii_lower (trim (lit '' BOARD'')) = lit ''board''"
    by (simp add: lit_def trim_def trim_by_def is_white_def ascii_lower_def is_ascii_upper_def)
  have "fst (run_state (get_board board_env demo_ctx (Some (lit '' BOARD''))) t) = Inr (200, b)"
    using link by (intro renamed_board_found [OF run _ parse(1) found _ _ parse(2)]) (simp_all add: row demo_board_def has_key_def)
  then show ?thesis using run row by (intro exI [of _ b] exI [of _ t]) (simp add: demo_board_def)
qed

end
