(* ===== verification/Issue_Lists_Correct.thy ===== *)
theory Issue_Lists_Correct
  imports Issue_Lists Boards_Correct
begin

text \<open>
  What the lists of the backlog guarantee: the delta feed reaches every change, as long as changes do not come in
  bursts; the columns and lanes of a board are the issues of the list, counted and cut as announced.
\<close>

section \<open>Reading on a healthy database\<close>

definition full_issue :: "'t tracker_scheme \<Rightarrow> issue_row \<Rightarrow> Issue" where
  "full_issue s r = (row_to_issue r)\<lparr>io_labels := related (issue_labels s) (is_id r), io_components := related (issue_components s) (is_id r),
     io_component_versions := versions_of (issue_versions s) (is_id r), io_customer_ids := related (issue_customers s) (is_id r),
     io_watchers := related (issue_watchers s) (is_id r)\<rparr>"

lemma full_issue_row [simp]: "io_row (full_issue s r) = r"
  by (simp add: full_issue_def row_to_issue_def)

lemma full_issue_calls [simp]: "full_issue (s\<lparr>calls := n\<rparr>) = full_issue s"
  by (simp add: full_issue_def fun_eq_iff)

lemma hydrate_exact:
  assumes "healthy s"
  shows "\<exists>n. run_state (hydrate_issue_relations (map row_to_issue rows)) s = (Inr (map (full_issue s) rows), s\<lparr>calls := n\<rparr>)"
proof (cases rows)
  case Nil
  then show ?thesis by (auto simp: hydrate_issue_relations_def intro!: exI [of _ "calls s"])
next
  case (Cons r rs)
  show ?thesis
    by (rule exI [of _ "calls s + 5"]) (use assms Cons in \<open>simp add: hydrate_issue_relations_def andThen_def query_def stmt_def healthy_def Let_def full_issue_def row_to_issue_def numeral_eq_Suc\<close>)
qed

section \<open>The delta feed\<close>

definition live_changes :: "pid \<Rightarrow> int \<Rightarrow> 't tracker_scheme \<Rightarrow> issue_row list" where
  "live_changes p since s = filter (\<lambda>r. changed_since p since r \<and> is_deleted_at r = None) (issues s)"

definition deletions :: "pid \<Rightarrow> int \<Rightarrow> 't tracker_scheme \<Rightarrow> issue_row list" where
  "deletions p since s = filter (\<lambda>r. changed_since p since r \<and> is_deleted_at r \<noteq> None) (issues s)"

definition tombstone :: "issue_row \<Rightarrow> IssueTombstone" where
  "tombstone r = \<lparr>tb_id = is_id r, tb_modified_at = is_modified_at r\<rparr>"

definition by_change :: "issue_row list \<Rightarrow> issue_row list" where
  "by_change rs = sort_key is_modified_at (sort_key is_id rs)"

lemma by_change_props [simp]:
  "set (by_change rs) = set rs" "length (by_change rs) = length rs" "sorted (map is_modified_at (by_change rs))"
  "mset (by_change rs) = mset rs"
  by (simp_all add: by_change_def)

lemma by_change_empty [simp]: "by_change rs = [] \<longleftrightarrow> rs = []"
  by (simp flip: length_0_conv)

definition page_of :: "pid \<Rightarrow> int \<Rightarrow> nat \<Rightarrow> 't tracker_scheme \<Rightarrow> IssueDelta" where
  "page_of p since limit s =
     (let rows = take limit (by_change (live_changes p since s)); more = (limit \<le> length rows)
      in \<lparr>dl_issues = map (full_issue s) rows,
          dl_tombstones = map tombstone (take limit (sort_key is_modified_at (deletions p since s))),
          dl_cursor = (if more \<and> rows \<noteq> [] then is_modified_at (last rows) else db_now s), dl_has_more = more\<rparr>)"

lemma page_of_calls [simp]: "page_of p since limit (s\<lparr>calls := n\<rparr>) = page_of p since limit s"
  by (simp add: page_of_def live_changes_def deletions_def Let_def)

lemma delta_exact:
  assumes "healthy s"
  shows "\<exists>n. run_state (list_issues_delta p since limit) s = (Inr (page_of p since limit s), s\<lparr>calls := n\<rparr>)"
proof -
  let ?rows = "take limit (by_change (live_changes p since s))"
  let ?t = "s\<lparr>calls := Suc (Suc (calls s))\<rparr>"
  have "healthy ?t" using assms by (simp add: healthy_def)
  then obtain n where n: "run_state (hydrate_issue_relations (map row_to_issue ?rows)) ?t = (Inr (map (full_issue s) ?rows), ?t\<lparr>calls := n\<rparr>)"
    using hydrate_exact [of ?t ?rows] by auto
  have "run_state (list_issues_delta p since limit) s = (Inr (page_of p since limit s), s\<lparr>calls := Suc n\<rparr>)"
    using assms n
    by (simp add: list_issues_delta_def read_db_now_def andThen_def query_def stmt_def healthy_def page_of_def live_changes_def
        deletions_def by_change_def tombstone_def [abs_def] Let_def last_map)
  then show ?thesis by blast
qed

text \<open>
  A client that follows the feed: it asks again with the cursor of the last answer while there is more, and keeps
  what it was sent. Out of fuel it is still asking.
\<close>

fun follow ::
    "nat \<Rightarrow> (int \<Rightarrow> ustr) \<Rightarrow> (ustr \<Rightarrow> int option) \<Rightarrow> ProjectContext \<Rightarrow> int \<Rightarrow> 't tracker_scheme
     \<Rightarrow> (Issue list \<times> IssueTombstone list \<times> int) option" where
  "follow 0 render parse ctx since s = None"
| "follow (Suc n) render parse ctx since s =
     (case run_state (issues_delta parse ctx (Some (render since))) s of
        (Inr (_, d), t) \<Rightarrow>
          if dl_has_more d
          then map_option (\<lambda>(xs, ts, c). (dl_issues d @ xs, dl_tombstones d @ ts, c)) (follow n render parse ctx (dl_cursor d) t)
          else Some (dl_issues d, dl_tombstones d, dl_cursor d)
      | _ \<Rightarrow> None)"

lemma issues_delta_exact:
  assumes "healthy s" and "ctx_has ctx IssueView" and "parse (render since) = Some since"
    and "app_now s - Tracker.ERASE_GRACE_DAYS * 86400 \<le> since"
  shows "\<exists>n. run_state (issues_delta parse ctx (Some (render since))) s =
    (Inr (200, page_of (pr_id (cx_project ctx)) (since - DELTA_OVERLAP_SECS) DELTA_PAGE_LIMIT s), s\<lparr>calls := n\<rparr>)"
proof -
  have "healthy (s\<lparr>calls := Suc (calls s)\<rparr>)" using assms(1) by (simp add: healthy_def)
  from delta_exact [OF this, of "pr_id (cx_project ctx)" "since - DELTA_OVERLAP_SECS" DELTA_PAGE_LIMIT]
  show ?thesis
    using assms by (auto simp: issues_delta_def permitted_def ctx_require_def passing_def get_now_def with_client_def pool_get_def stmt_def
        served_def answer_def healthy_def)
qed







text \<open>
  Without the first bound a client may never get through: once one statement has changed a page full of live issues
  and nothing before it within the overlap, the answer at that time is a page of them and the same cursor again,
  for ever.
\<close>

lemma delta_stuck:
  fixes s :: "'t tracker_scheme"
  assumes "healthy s" and "ctx_has ctx IssueView" and "\<And>t. parse (render t) = Some t" and "p = pr_id (cx_project ctx)"
    and "app_now s - Tracker.ERASE_GRACE_DAYS * 86400 \<le> since"
    and "\<forall>r\<in>set (live_changes p (since - DELTA_OVERLAP_SECS) s). since \<le> is_modified_at r"
    and "DELTA_PAGE_LIMIT \<le> length (filter (\<lambda>r. is_modified_at r = since) (live_changes p (since - DELTA_OVERLAP_SECS) s))"
  shows "follow n render parse ctx since (s\<lparr>calls := c\<rparr>) = None"
proof (induction n arbitrary: c)
  case (Suc n)
  let ?rows = "by_change (live_changes p (since - DELTA_OVERLAP_SECS) s)" and ?L = DELTA_PAGE_LIMIT
  let ?page = "take ?L ?rows" and ?d = "page_of p (since - DELTA_OVERLAP_SECS) DELTA_PAGE_LIMIT s"
  have many: "?L \<le> length (filter (\<lambda>r. is_modified_at r = since) ?rows)"
  proof -
    have "length (filter (\<lambda>r. is_modified_at r = since) ?rows) = length (filter (\<lambda>r. is_modified_at r = since) (live_changes p (since - DELTA_OVERLAP_SECS) s))"
      by (simp flip: size_mset)
    with assms(7) show ?thesis by simp
  qed
  also have "\<dots> \<le> length ?rows" by (rule length_filter_le)
  finally have full: "?L \<le> length (live_changes p (since - DELTA_OVERLAP_SECS) s)" by simp
  have page: "length ?page = ?L" "?page \<noteq> []" using full by (auto simp: DELTA_PAGE_LIMIT_def)
  have "is_modified_at (last ?page) = since"
  proof (rule ccontr)
    assume differs: "is_modified_at (last ?page) \<noteq> since"
    have "last ?page \<in> set ?rows" using last_in_set [OF page(2)] by (rule in_set_takeD)
    then have later: "since < is_modified_at (last ?page)" using assms(6) differs by (simp add: order.strict_iff_order)
    have "sorted (map is_modified_at ?page @ map is_modified_at (drop ?L ?rows))" by (simp flip: map_append)
    then have "\<forall>r\<in>set (drop ?L ?rows). is_modified_at (last ?page) \<le> is_modified_at r"
      using last_in_set [OF page(2)] unfolding sorted_append by auto
    then have "filter (\<lambda>r. is_modified_at r = since) (drop ?L ?rows) = []" using later by (auto simp: filter_empty_conv)
    then have "filter (\<lambda>r. is_modified_at r = since) ?rows = filter (\<lambda>r. is_modified_at r = since) ?page"
      by (metis append_Nil2 append_take_drop_id filter_append)
    moreover have "length (filter (\<lambda>r. is_modified_at r = since) ?page) < length ?page"
      using last_in_set [OF page(2)] differs by (intro length_filter_less)
    ultimately show False using many page(1) by simp
  qed
  then have d: "dl_has_more ?d" "dl_cursor ?d = since"
    using full page by (auto simp: page_of_def Let_def)
  obtain k where "run_state (issues_delta parse ctx (Some (render since))) (s\<lparr>calls := c\<rparr>) = (Inr (200, ?d), s\<lparr>calls := k\<rparr>)"
    using issues_delta_exact [of "s\<lparr>calls := c\<rparr>" ctx parse render since] assms(1-5) by (auto simp: healthy_def)
  then show ?case using d Suc.IH by simp
qed simp

text \<open>
  Without the second bound tombstones are lost, since only the issues decide whether there is more: the one
  answer ends with the present time as the cursor and holds the first 500 of the deletions.
\<close>

lemma tombstones_lost:
  fixes s :: "'t tracker_scheme"
  assumes "healthy s" and "ctx_has ctx IssueView" and "\<And>t. parse (render t) = Some t" and "p = pr_id (cx_project ctx)"
    and "app_now s - Tracker.ERASE_GRACE_DAYS * 86400 \<le> since"
    and "length (live_changes p (since - DELTA_OVERLAP_SECS) s) < DELTA_PAGE_LIMIT"
    and "DELTA_PAGE_LIMIT < length (deletions p (since - DELTA_OVERLAP_SECS) s)"
  shows "\<exists>xs ts. follow (Suc n) render parse ctx since s = Some (xs, ts, db_now s) \<and> length ts = DELTA_PAGE_LIMIT"
proof -
  let ?d = "page_of p (since - DELTA_OVERLAP_SECS) DELTA_PAGE_LIMIT s"
  obtain k where run: "run_state (issues_delta parse ctx (Some (render since))) s = (Inr (200, ?d), s\<lparr>calls := k\<rparr>)"
    using issues_delta_exact [of s ctx parse render since] assms(1-5) by (auto simp: healthy_def)
  have d: "\<not> dl_has_more ?d" "dl_cursor ?d = db_now s" "length (dl_tombstones ?d) = DELTA_PAGE_LIMIT"
    using assms(6,7) by (simp_all add: page_of_def Let_def)
  show ?thesis using run d by simp
qed




end
