(* ===== verification/Board_Contents.thy ===== *)
theory Board_Contents
  imports Issue_Lists_Correct
begin

text \<open>
  The contents of a board against a direct description: for each status and lane the number of its issues and the
  first of them, in order. The loops over rows and hash maps of the code are shown to compute it.
\<close>

section \<open>First occurrences\<close>

definition firsts :: "'a list \<Rightarrow> 'a list" where
  "firsts xs = fold (\<lambda>x acc. if x \<in> set acc then acc else acc @ [x]) xs []"

lemma firsts_Nil [simp]: "firsts [] = []"
  by (simp add: firsts_def)

lemma firsts_snoc [simp]: "firsts (xs @ [x]) = (if x \<in> set (firsts xs) then firsts xs else firsts xs @ [x])"
  by (simp add: firsts_def)

lemma set_firsts [simp]: "set (firsts xs) = set xs"
  by (induction xs rule: rev_induct) auto

lemma distinct_firsts [simp]: "distinct (firsts xs)"
  by (induction xs rule: rev_induct) auto

lemma subseq_firsts: "sorted_wrt R xs \<Longrightarrow> sorted_wrt R (firsts xs)"
  by (induction xs rule: rev_induct) (auto simp: sorted_wrt_append)

section \<open>Windows\<close>

lemma numbered_filter:
  "map snd (filter (\<lambda>p. fst p \<le> limit \<and> k (snd p) = c) (numbered k seen xs)) =
   take (limit - count_where (\<lambda>y. k y = c) seen) (filter (\<lambda>x. k x = c) xs)"
proof (induction xs arbitrary: seen)
  case (Cons x xs)
  have step: "count_where P (seen @ [x]) = count_where P seen + (if P x then 1 else 0)" for P by (simp add: count_where_def)
  show ?case
  proof (cases "k x = c")
    case True
    then show ?thesis
      using Cons [of "seen @ [x]"] diff_Suc [of limit "count_where (\<lambda>y. k y = c) seen"]
      by (cases "limit - count_where (\<lambda>y. k y = c) seen") (auto simp: step)
  qed (use Cons [of "seen @ [x]"] step in simp)
qed simp

lemma first_of_each_filter: "filter (\<lambda>x. k x = c) (first_of_each limit k xs) = take limit (filter (\<lambda>x. k x = c) xs)"
  using numbered_filter [of limit k c "[]" xs]
  by (simp add: first_of_each_def filter_map comp_def conj_commute count_where_def)

lemma first_of_each_keys: "1 \<le> limit \<Longrightarrow> k ` set (first_of_each limit k xs) = k ` set xs"
proof -
  assume limit: "1 \<le> limit"
  have "c \<in> k ` set (first_of_each limit k xs) \<longleftrightarrow> filter (\<lambda>x. k x = c) (first_of_each limit k xs) \<noteq> []" for c
    by (auto simp: filter_empty_conv)
  also have "filter (\<lambda>x. k x = c) (first_of_each limit k xs) \<noteq> [] \<longleftrightarrow> filter (\<lambda>x. k x = c) xs \<noteq> []" for c
    using limit by (simp add: first_of_each_filter)
  also have "filter (\<lambda>x. k x = c) xs \<noteq> [] \<longleftrightarrow> c \<in> k ` set xs" for c
    by (auto simp: filter_empty_conv)
  finally show ?thesis by blast
qed

lemma null_last_inj: "null_last x = null_last y \<longleftrightarrow> x = y"
proof -
  have "null_last (Some i) < 0" for i by (simp add: null_last_def)
  moreover have "null_last None = 0" by (simp add: null_last_def)
  moreover have "null_last (Some i) = null_last (Some j) \<longleftrightarrow> i = j" for i j
    by (simp add: null_last_def field_simps del: of_nat_Suc)
  ultimately show ?thesis by (cases x; cases y) (metis less_irrefl)+
qed

lemma by_status_filter: "filter (\<lambda>x. status x = c) (by_status status xs) = filter (\<lambda>x. status x = c) xs"
  using sort_key_stable [of "\<lambda>x. null_last (status x)" "null_last c" xs] by (simp add: by_status_def null_last_inj)

lemma set_by_status [simp]: "set (by_status status xs) = set xs"
  by (simp add: by_status_def)

text \<open>The statuses of a table in the order of the columns.\<close>

definition statuses :: "issue_row list \<Rightarrow> nat option list" where
  "statuses rows = sort_key null_last (remdups (map is_status_id rows))"

lemma sorted_by_unique:
  assumes "sorted (map f xs)" and "sorted (map f ys)" and "distinct xs" and "distinct ys" and "set xs = set ys" and "inj f"
  shows "xs = ys"
proof -
  have "map f xs = map f ys"
    using assms by (intro sorted_distinct_set_unique) (auto simp: distinct_map intro: inj_on_subset)
  then show ?thesis using assms(6) by (simp add: inj_map_eq_map)
qed

lemma firsts_statuses:
  assumes "set (map status xs) = set (map is_status_id rows)"
  shows "firsts (map status (by_status status xs)) = statuses rows"
proof (rule sorted_by_unique [where f = null_last])
  have "sorted (map null_last (map status (by_status status xs)))"
    by (simp add: by_status_def comp_def)
  then have "sorted_wrt (\<lambda>x y. null_last x \<le> null_last y) (map status (by_status status xs))"
    by (simp only: sorted_map)
  then show "sorted (map null_last (firsts (map status (by_status status xs))))"
    unfolding sorted_map by (rule subseq_firsts)
  show "inj null_last" by (simp add: inj_def null_last_inj)
  show "set (firsts (map status (by_status status xs))) = set (statuses rows)"
    using assms by (simp add: statuses_def)
qed (simp_all add: statuses_def distinct_sort)

section \<open>The flat board\<close>

lemma column_order_append: "column_order (xs @ ys) acc = column_order ys (column_order xs acc)"
  by (induction xs acc rule: column_order.induct) auto

text \<open>The order is that of the first occurrences; every row of a column carries its total.\<close>

lemma column_order_exact:
  assumes "\<forall>(r, n)\<in>set rows. n = f (is_status_id r)"
  shows "column_order rows ([], Map.empty) =
    (firsts (map (is_status_id \<circ> fst) rows), \<lambda>c. if c \<in> set (map (is_status_id \<circ> fst) rows) then Some (f c) else None)"
  using assms
proof (induction rows rule: rev_induct)
  case (snoc x rows)
  then show ?case by (cases x) (auto simp: column_order_append fun_eq_iff)
qed (simp add: fun_eq_iff)

lemma group_by_status_append: "group_by_status (xs @ ys) m = group_by_status ys (group_by_status xs m)"
  by (induction xs arbitrary: m) simp_all

lemma group_by_status_exact:
  "unwrap_or (group_by_status xs Map.empty c) [] = filter (\<lambda>x. is_status_id (io_row x) = c) xs"
  by (induction xs rule: rev_induct) (auto simp: group_by_status_append unwrap_or_def)

definition board_column :: "(issue_row \<Rightarrow> Issue) \<Rightarrow> nat \<Rightarrow> issue_row list \<Rightarrow> nat option \<Rightarrow> BoardColumn" where
  "board_column full limit rows c =
     \<lparr>bc_status_id = c, bc_total = count_where (\<lambda>r. is_status_id r = c) rows,
      bc_cards = map full (take limit (filter (\<lambda>r. is_status_id r = c) (by_order rows)))\<rparr>"

lemma set_by_order [simp]: "set (by_order rows) = set rows"
  by (simp add: by_order_def)

lemma unwrap_Some: "unwrap_or (Some x) d = x"
  by (simp add: unwrap_or_def)

lemma role_preds_calls [simp]: "role_preds env (s\<lparr>calls := n\<rparr>) q = role_preds env s q"
proof -
  have "indexed_texts (s\<lparr>calls := n\<rparr>) = indexed_texts s" by (simp add: fun_eq_iff indexed_texts_def)
  then show ?thesis by (simp add: role_preds_def MY_ROLE_PREDICATES_def)
qed

lemma filter_calls [simp]:
  "issue_filter env cal (s\<lparr>calls := n\<rparr>) = issue_filter env cal s" "on_board env cal (s\<lparr>calls := n\<rparr>) = on_board env cal s"
proof -
  have "overdue_issue (s\<lparr>calls := n\<rparr>) today r = overdue_issue s today r" "release_matches (s\<lparr>calls := n\<rparr>) x r = release_matches s x r"
    "customer_matches (s\<lparr>calls := n\<rparr>) y r = customer_matches s y r" for today r x y
    by (simp_all add: overdue_issue_def closing_def release_matches_def customer_matches_def Let_def split: prod.split option.split)
  then show same: "issue_filter env cal (s\<lparr>calls := n\<rparr>) = issue_filter env cal s"
    by (intro ext) (simp add: issue_filter_def)
  show "on_board env cal (s\<lparr>calls := n\<rparr>) = on_board env cal s"
    by (intro ext) (simp add: on_board_def same)
qed

lemma board_columns_exact:
  fixes s :: "'t tracker_scheme"
  assumes "healthy s" and "1 \<le> limit" and rows_def: "rows = filter (on_board env cal s p q columns) (issues s)"
  shows "\<exists>n. run_state (board_columns env cal p q columns limit) s =
    (Inr (map (board_column (full_issue s) limit rows) (statuses rows)), s\<lparr>calls := n\<rparr>)"
proof -
  let ?t = "s\<lparr>calls := Suc (calls s)\<rparr>" and ?shown = "by_status is_status_id (first_of_each limit is_status_id (by_order rows))"
  let ?total = "\<lambda>c. count_where (\<lambda>x. is_status_id x = c) rows"
  have same: "column_rows env cal ?t p q columns limit = map (\<lambda>r. (r, ?total (is_status_id r))) ?shown"
    by (simp add: column_rows_def rows_def Let_def)
  have "set (map is_status_id (first_of_each limit is_status_id (by_order rows))) = set (map is_status_id rows)"
    using first_of_each_keys [OF assms(2), of is_status_id "by_order rows"] by simp
  note order = firsts_statuses [OF this]
  have columns: "column_order (map (\<lambda>r. (r, ?total (is_status_id r))) ?shown) ([], Map.empty) =
      (statuses rows, \<lambda>c. if c \<in> set (statuses rows) then Some (?total c) else None)"
    using column_order_exact [of "map (\<lambda>r. (r, ?total (is_status_id r))) ?shown" ?total] order set_firsts [of "map is_status_id ?shown"]
    by (simp add: comp_def)
  have cards: "unwrap_or (group_by_status (map (full_issue s) ?shown) Map.empty c) [] =
      map (full_issue s) (take limit (filter (\<lambda>r. is_status_id r = c) (by_order rows)))" for c
    by (simp add: group_by_status_exact filter_map comp_def by_status_filter first_of_each_filter)
  have "healthy ?t" using assms(1) by (simp add: healthy_def)
  then obtain n where n: "run_state (hydrate_issue_relations (map row_to_issue ?shown)) ?t = (Inr (map (full_issue s) ?shown), ?t\<lparr>calls := n\<rparr>)"
    using hydrate_exact [of ?t ?shown] by auto
  have "run_state (board_columns env cal p q columns limit) s =
      (Inr (map (board_column (full_issue s) limit rows) (statuses rows)), s\<lparr>calls := n\<rparr>)"
    using assms(1) n
    by (simp add: board_columns_def andThen_def query_def stmt_def healthy_def same columns comp_def to_columns_def cards board_column_def
        unwrap_Some)
  then show ?thesis by blast
qed

section \<open>Lanes\<close>

text \<open>Where an element stands in a list of distinct ones.\<close>

definition place_in :: "'a list \<Rightarrow> 'a \<Rightarrow> nat option" where
  "place_in ys x = (if x \<in> set ys then Some (length (takeWhile (\<lambda>y. y \<noteq> x) ys)) else None)"

lemma place_in_Some: "place_in ys x = Some i \<Longrightarrow> i < length ys \<and> ys ! i = x"
proof -
  assume *: "place_in ys x = Some i"
  then have x: "x \<in> set ys" and i: "i = length (takeWhile (\<lambda>y. y \<noteq> x) ys)" by (auto simp: place_in_def split: if_splits)
  have len: "i < length ys" unfolding i using x by (induction ys) auto
  moreover have "\<not> ys ! i \<noteq> x" unfolding i by (rule nth_length_takeWhile) (use len i in simp)
  ultimately show ?thesis by simp
qed

lemma place_in_snoc:
  "place_in (ys @ [y]) x = (if x \<in> set ys then place_in ys x else if x = y then Some (length ys) else None)"
  by (induction ys) (auto simp: place_in_def)

lemma place_in_firsts: "place_in (firsts (xs @ [x])) = (if x \<in> set xs then place_in (firsts xs) else (place_in (firsts xs))(x \<mapsto> length (firsts xs)))"
  by (auto simp: fun_eq_iff place_in_snoc) (auto simp: place_in_def)

lemma map_update_at:
  assumes "distinct ys" and "place_in ys x = Some i"
  shows "(map f ys)[i := v] = map (f(x := v)) ys"
proof -
  have i: "i < length ys" "ys ! i = x" using place_in_Some [OF assms(2)] by auto
  show ?thesis
  proof (rule nth_equalityI)
    fix j assume "j < length ((map f ys)[i := v])"
    then show "(map f ys)[i := v] ! j = map (f(x := v)) ys ! j"
      using i nth_eq_iff_index_eq [OF assms(1), of j i] by (auto simp: nth_list_update)
  qed simp
qed

definition cards_in :: "(LaneMeta \<times> Issue) list \<Rightarrow> ustr \<Rightarrow> nat option \<Rightarrow> Issue list" where
  "cards_in cards g c = map snd (filter (\<lambda>(m, x). lm_grp m = g \<and> lm_status m = c) cards)"

definition lane_statuses :: "(LaneMeta \<times> Issue) list \<Rightarrow> ustr \<Rightarrow> nat option list" where
  "lane_statuses cards g = firsts (map (lm_status \<circ> fst) (filter (\<lambda>(m, x). lm_grp m = g) cards))"

definition lane_keys :: "(LaneMeta \<times> Issue) list \<Rightarrow> ustr list" where
  "lane_keys cards = firsts (map (lm_grp \<circ> fst) cards)"

text \<open>The cell and the lane that a list of cards amounts to, with the totals of the lanes and cells.\<close>

definition cell_of :: "(ustr \<Rightarrow> nat option \<Rightarrow> nat) \<Rightarrow> (LaneMeta \<times> Issue) list \<Rightarrow> ustr \<Rightarrow> nat option \<Rightarrow> BoardColumn" where
  "cell_of ctot cards g c = \<lparr>bc_status_id = c, bc_total = ctot g c, bc_cards = cards_in cards g c\<rparr>"

definition lane_of :: "(ustr \<Rightarrow> nat) \<Rightarrow> (ustr \<Rightarrow> nat option \<Rightarrow> nat) \<Rightarrow> (LaneMeta \<times> Issue) list \<Rightarrow> ustr \<Rightarrow> BoardLane" where
  "lane_of ltot ctot cards g =
     \<lparr>bl_key = g, bl_total = ltot g, bl_columns = map (cell_of ctot cards g) (lane_statuses cards g)\<rparr>"

definition lanes_built :: "(ustr \<Rightarrow> nat) \<Rightarrow> (ustr \<Rightarrow> nat option \<Rightarrow> nat) \<Rightarrow> (LaneMeta \<times> Issue) list \<Rightarrow> lane_state \<Rightarrow> bool" where
  "lanes_built ltot ctot cards st \<longleftrightarrow>
     ls_lanes st = map (lane_of ltot ctot cards) (lane_keys cards) \<and>
     ls_lane_idx st = place_in (lane_keys cards) \<and>
     ls_col_idx st = (\<lambda>(g, c). place_in (lane_statuses cards g) c)"

lemma edit_lane_at:
  assumes "ls_lanes st = map L ys" and "distinct ys" and "place_in ys g = Some li"
  shows "ls_lanes (edit_lane li f st) = map (L(g := (L g)\<lparr>bl_columns := f (bl_columns (L g))\<rparr>)) ys"
  using assms place_in_Some [OF assms(3)] map_update_at [OF assms(2,3)] by (simp add: edit_lane_def)

lemma lane_keys_snoc: "lane_keys (cards @ [(m, x)]) = firsts (map (lm_grp \<circ> fst) cards @ [lm_grp m])"
  by (simp add: lane_keys_def)

lemma lane_statuses_snoc:
  "lane_statuses (cards @ [(m, x)]) g =
     (if g = lm_grp m then firsts (map (lm_status \<circ> fst) (filter (\<lambda>(m, x). lm_grp m = g) cards) @ [lm_status m]) else lane_statuses cards g)"
  by (simp add: lane_statuses_def del: firsts_snoc)

lemma cards_in_snoc:
  "cards_in (cards @ [(m, x)]) g c = cards_in cards g c @ (if g = lm_grp m \<and> c = lm_status m then [x] else [])"
  by (simp add: cards_in_def)

lemma unseen_lane: "g \<notin> set (lane_keys cards) \<Longrightarrow> lane_statuses cards g = []"
proof -
  assume "g \<notin> set (lane_keys cards)"
  then have "filter (\<lambda>(m, x). lm_grp m = g) cards = []" by (force simp: lane_keys_def filter_empty_conv)
  then show ?thesis by (simp add: lane_statuses_def)
qed

lemma unseen_cell: "c \<notin> set (lane_statuses cards g) \<Longrightarrow> cards_in cards g c = []"
  by (force simp: lane_statuses_def cards_in_def filter_empty_conv)

lemma find_lane_built:
  assumes "lanes_built ltot ctot cards st" and "lm_lane_total m = ltot (lm_grp m)" and "find_lane m st = (li, st1)"
  shows "ls_lanes st1 = map (lane_of ltot ctot cards) (lane_keys (cards @ [(m, x)]))"
    and "place_in (lane_keys (cards @ [(m, x)])) (lm_grp m) = Some li"
    and "ls_lane_idx st1 = place_in (lane_keys (cards @ [(m, x)]))" and "ls_col_idx st1 = ls_col_idx st"
proof -
  let ?g = "lm_grp m"
  have old: "ls_lane_idx st ?g = place_in (lane_keys cards) ?g" using assms(1) by (simp add: lanes_built_def)
  have keys: "lane_keys (cards @ [(m, x)]) = (if ?g \<in> set (lane_keys cards) then lane_keys cards else lane_keys cards @ [?g])"
    by (simp add: lane_keys_def)
  have empty: "lane_of ltot ctot cards ?g = \<lparr>bl_key = ?g, bl_total = lm_lane_total m, bl_columns = []\<rparr>" if "?g \<notin> set (lane_keys cards)"
    using unseen_lane [OF that] assms(2) by (simp add: lane_of_def)
  have moved: "place_in (lane_keys cards @ [?g]) = (place_in (lane_keys cards))(?g \<mapsto> length (lane_keys cards))" if "?g \<notin> set (lane_keys cards)"
    using that by (auto simp: fun_eq_iff place_in_snoc) (auto simp: place_in_def)
  have hit: "?g \<in> set (lane_keys cards) \<longleftrightarrow> place_in (lane_keys cards) ?g \<noteq> None" by (simp add: place_in_def)
  show "ls_lanes st1 = map (lane_of ltot ctot cards) (lane_keys (cards @ [(m, x)]))"
    "place_in (lane_keys (cards @ [(m, x)])) ?g = Some li"
    "ls_lane_idx st1 = place_in (lane_keys (cards @ [(m, x)]))" "ls_col_idx st1 = ls_col_idx st"
    using assms(1,3) old hit empty moved by (auto simp: find_lane_def keys lanes_built_def Let_def split: option.splits)
qed

lemma find_column_built:
  fixes x :: Issue
  assumes "lanes_built ltot ctot cards st" and "lm_lane_total m = ltot (lm_grp m)" and "lm_cell_total m = ctot (lm_grp m) (lm_status m)"
    and "find_lane m st = (li, st1)" and "find_column m li st1 = (ci, st2)"
  defines "cards' \<equiv> cards @ [(m, x)]" and "g \<equiv> lm_grp m"
  shows "ls_lanes st2 = map ((lane_of ltot ctot cards)(g := \<lparr>bl_key = g, bl_total = ltot g,
      bl_columns = map (cell_of ctot cards g) (lane_statuses cards' g)\<rparr>)) (lane_keys cards')"
    and "place_in (lane_statuses cards' g) (lm_status m) = Some ci"
    and "ls_lane_idx st2 = place_in (lane_keys cards')" and "ls_col_idx st2 = (\<lambda>(g, c). place_in (lane_statuses cards' g) c)"
proof -
  let ?c = "lm_status m"
  note lane = find_lane_built(1-3) [OF assms(1,2,4), where x = x, folded cards'_def g_def]
  have idx: "ls_col_idx st1 = (\<lambda>(g, c). place_in (lane_statuses cards g) c)"
    using find_lane_built(4) [OF assms(1,2,4)] assms(1) by (simp add: lanes_built_def)
  have sts: "lane_statuses cards' k = (if k = g \<and> ?c \<notin> set (lane_statuses cards g) then lane_statuses cards g @ [?c] else lane_statuses cards k)" for k
    by (simp add: cards'_def g_def lane_statuses_def)
  have keys: "distinct (lane_keys cards')" by (simp add: lane_keys_def)
  have here: "(lane_of ltot ctot cards) g = ls_lanes st1 ! li" using place_in_Some [OF lane(2)] lane(1) by simp
  have hit: "?c \<in> set (lane_statuses cards g) \<longleftrightarrow> place_in (lane_statuses cards g) ?c \<noteq> None" by (simp add: place_in_def)
  have goal: "ls_lanes st2 = map ((lane_of ltot ctot cards)(g := \<lparr>bl_key = g, bl_total = ltot g,
      bl_columns = map (cell_of ctot cards g) (lane_statuses cards' g)\<rparr>)) (lane_keys cards') \<and>
    place_in (lane_statuses cards' g) ?c = Some ci \<and> ls_lane_idx st2 = ls_lane_idx st1 \<and>
    ls_col_idx st2 = (\<lambda>(g, c). place_in (lane_statuses cards' g) c)"
  proof (cases "?c \<in> set (lane_statuses cards g)")
    case True
    then have "place_in (lane_statuses cards g) ?c = Some ci \<and> st2 = st1"
      using assms(5) idx hit by (auto simp: find_column_def g_def)
    moreover have "(lane_of ltot ctot cards)(g := \<lparr>bl_key = g, bl_total = ltot g,
        bl_columns = map (cell_of ctot cards g) (lane_statuses cards g)\<rparr>) = lane_of ltot ctot cards"
      by (simp add: fun_eq_iff lane_of_def)
    ultimately show ?thesis using True lane(1) idx sts by simp
  next
    case False
    let ?f = "\<lambda>cs. cs @ [\<lparr>bc_status_id = ?c, bc_total = lm_cell_total m, bc_cards = []\<rparr>]"
    have new: "cell_of ctot cards g ?c = \<lparr>bc_status_id = ?c, bc_total = lm_cell_total m, bc_cards = []\<rparr>"
      using unseen_cell [OF False] assms(3) by (simp add: cell_of_def g_def)
    have st2: "ci = length (lane_statuses cards g)" "ls_lanes st2 = ls_lanes (edit_lane li ?f st1)"
        "ls_lane_idx st2 = ls_lane_idx st1" "ls_col_idx st2 = (ls_col_idx st1)((g, ?c) \<mapsto> ci)"
      using False assms(5) idx hit here [symmetric] by (auto simp: find_column_def g_def Let_def edit_lane_def lane_of_def)
    have "place_in (lane_statuses cards g @ [?c]) = (place_in (lane_statuses cards g))(?c \<mapsto> ci)"
      using False st2(1) by (auto simp: fun_eq_iff place_in_snoc) (auto simp: place_in_def)
    moreover have "ls_lanes st2 = map ((lane_of ltot ctot cards)(g := (lane_of ltot ctot cards g)\<lparr>bl_columns := ?f (bl_columns (lane_of ltot ctot cards g))\<rparr>)) (lane_keys cards')"
      unfolding st2(2) by (rule edit_lane_at [OF lane(1) keys lane(2)])
    ultimately show ?thesis
      using False idx st2(3,4) new by (auto simp: sts lane_of_def fun_eq_iff)
  qed
  then show "ls_lanes st2 = map ((lane_of ltot ctot cards)(g := \<lparr>bl_key = g, bl_total = ltot g,
      bl_columns = map (cell_of ctot cards g) (lane_statuses cards' g)\<rparr>)) (lane_keys cards')"
    "place_in (lane_statuses cards' g) ?c = Some ci" "ls_lane_idx st2 = place_in (lane_keys cards')"
    "ls_col_idx st2 = (\<lambda>(g, c). place_in (lane_statuses cards' g) c)"
    using lane(3) by simp_all
qed

lemma place_card_built:
  assumes "lanes_built ltot ctot cards st" and "lm_lane_total m = ltot (lm_grp m)" and "lm_cell_total m = ctot (lm_grp m) (lm_status m)"
  shows "lanes_built ltot ctot (cards @ [(m, x)]) (place_card (m, x) st)"
proof -
  let ?g = "lm_grp m" and ?c = "lm_status m" and ?cards = "cards @ [(m, x)]"
  obtain li st1 where lane: "find_lane m st = (li, st1)" by fastforce
  obtain ci st2 where col: "find_column m li st1 = (ci, st2)" by fastforce
  note built = find_column_built [OF assms lane col, where x = x]
  note keys = find_lane_built(1-3) [OF assms(1,2) lane, where x = x]
  have "distinct (lane_keys ?cards)" "distinct (lane_statuses ?cards ?g)" by (simp_all add: lane_keys_def lane_statuses_def)
  let ?f = "\<lambda>cs. cs[ci := (cs ! ci)\<lparr>bc_cards := bc_cards (cs ! ci) @ [x]\<rparr>]"
  have at: "lane_statuses ?cards ?g ! ci = ?c" "ci < length (lane_statuses ?cards ?g)" using place_in_Some [OF built(2)] by simp_all
  have "?f (map (cell_of ctot cards ?g) (lane_statuses ?cards ?g)) = map (cell_of ctot ?cards ?g) (lane_statuses ?cards ?g)"
    using map_update_at [OF \<open>distinct (lane_statuses ?cards ?g)\<close> built(2), of "cell_of ctot cards ?g"] at
    by (auto simp: cell_of_def cards_in_snoc)
  moreover have "lane_of ltot ctot ?cards k = lane_of ltot ctot cards k" if "k \<noteq> ?g" for k
    using that by (simp add: lane_of_def cell_of_def [abs_def] cards_in_snoc lane_statuses_snoc)
  ultimately have "ls_lanes (edit_lane li ?f st2) = map (lane_of ltot ctot ?cards) (lane_keys ?cards)"
    unfolding edit_lane_at [OF built(1) \<open>distinct (lane_keys ?cards)\<close> keys(2)]
    by (intro map_cong refl) (auto simp: lane_of_def)
  moreover have "place_card (m, x) st = edit_lane li ?f st2" by (simp add: place_card_def lane col)
  ultimately show ?thesis using built(3,4) by (simp add: lanes_built_def edit_lane_def)
qed

lemma build_lanes_exact:
  assumes "\<forall>(m, x)\<in>set cards. lm_lane_total m = ltot (lm_grp m) \<and> lm_cell_total m = ctot (lm_grp m) (lm_status m)"
  shows "build_lanes cards = map (lane_of ltot ctot cards) (lane_keys cards)"
proof -
  have "lanes_built ltot ctot cards (fold place_card cards \<lparr>ls_lanes = [], ls_lane_idx = Map.empty, ls_col_idx = Map.empty\<rparr>)"
    using assms
  proof (induction cards rule: rev_induct)
    case Nil
    then show ?case by (simp add: lanes_built_def lane_keys_def lane_statuses_def place_in_def fun_eq_iff)
  next
    case (snoc mx cards)
    then show ?case by (cases mx) (auto intro: place_card_built)
  qed
  then show ?thesis by (simp add: build_lanes_def lanes_built_def)
qed

section \<open>The rows of the lanes\<close>

definition cells_of :: "(issue_row \<Rightarrow> ustr list) \<Rightarrow> issue_row list \<Rightarrow> (ustr \<times> issue_row) list" where
  "cells_of lanes rows = concat (map (\<lambda>r. map (\<lambda>g. (g, r)) (lanes r)) rows)"

definition in_cell :: "ustr \<times> issue_row \<Rightarrow> ustr \<times> nat option" where
  "in_cell x = (fst x, is_status_id (snd x))"

definition shown_cells :: "(ustr \<Rightarrow> rat) \<Rightarrow> (issue_row \<Rightarrow> ustr list) \<Rightarrow> issue_row list \<Rightarrow> nat \<Rightarrow> (ustr \<times> issue_row) list" where
  "shown_cells coll lanes rows limit =
     sort_key (coll \<circ> fst) (by_status (is_status_id \<circ> snd) (first_of_each limit in_cell (cells_of lanes (by_order rows))))"

lemma sort_key_same: "\<forall>x\<in>set xs. f x = k \<Longrightarrow> sort_key f xs = xs"
  by (rule sort_key_id_if_sorted) (auto simp: sorted_iff_nth_mono)

lemma shown_cells_filter:
  "filter (\<lambda>x. in_cell x = (g, c)) (shown_cells coll lanes rows limit) =
   take limit (filter (\<lambda>x. in_cell x = (g, c)) (cells_of lanes (by_order rows)))"
proof -
  have "filter (\<lambda>x. in_cell x = (g, c)) (shown_cells coll lanes rows limit) =
      filter (\<lambda>x. in_cell x = (g, c)) (by_status (is_status_id \<circ> snd) (first_of_each limit in_cell (cells_of lanes (by_order rows))))"
    unfolding shown_cells_def filter_sort by (rule sort_key_same [where k = "coll g"]) (auto simp: in_cell_def)
  also have "\<dots> = filter (\<lambda>x. in_cell x = (g, c)) (first_of_each limit in_cell (cells_of lanes (by_order rows)))"
    unfolding by_status_def filter_sort by (rule sort_key_same [where k = "null_last c"]) (auto simp: in_cell_def)
  finally show ?thesis by (simp add: first_of_each_filter)
qed

lemma cells_filter:
  assumes "\<forall>r\<in>set rows. distinct (lanes r)"
  shows "filter (\<lambda>(k, r). k = g \<and> P r) (cells_of lanes rows) = map (Pair g) (filter (\<lambda>r. g \<in> set (lanes r) \<and> P r) rows)"
  using assms
proof (induction rows)
  case (Cons r rows)
  have "filter (\<lambda>k. k = g) ks = (if g \<in> set ks then [g] else [])" if "distinct ks" for ks
    using that by (induction ks) (auto simp: filter_empty_conv)
  then have "filter (\<lambda>k. k = g) (lanes r) = (if g \<in> set (lanes r) then [g] else [])" using Cons.prems by simp
  moreover have "filter (\<lambda>(k, r). k = g \<and> P r) (map (\<lambda>k. (k, r)) ks) = (if P r then map (\<lambda>k. (k, r)) (filter (\<lambda>k. k = g) ks) else [])" for ks
    by (induction ks) auto
  ultimately show ?case using Cons by (simp add: cells_of_def)
qed (simp add: cells_of_def)

lemma by_order_filter: "by_order (filter P rows) = filter P (by_order rows)"
  by (simp add: by_order_def filter_sort)

text \<open>A lane is the flat board of the rows that belong to it.\<close>

definition flat_board :: "(issue_row \<Rightarrow> Issue) \<Rightarrow> nat \<Rightarrow> issue_row list \<Rightarrow> BoardColumn list" where
  "flat_board full limit rows = map (board_column full limit rows) (statuses rows)"

lemma lane_is_board:
  fixes full :: "issue_row \<Rightarrow> Issue"
  assumes "1 \<le> limit" and "\<forall>r\<in>set rows. distinct (lanes r)"
    and cells_def: "cells = cells_of lanes (by_order rows)" and mine_def: "mine = filter (\<lambda>r. g \<in> set (lanes r)) rows"
    and metas: "map (\<lambda>(m, x). (lm_grp m, lm_status m, x)) cards =
      map (\<lambda>(g, r). (g, is_status_id r, full r)) (shown_cells coll lanes rows limit)"
  shows "map (cell_of (\<lambda>g c. count_where (\<lambda>x. in_cell x = (g, c)) cells) cards g) (lane_statuses cards g) = flat_board full limit mine"
    and "count_where (\<lambda>x. fst x = g) cells = length mine"
proof -
  let ?shown = "shown_cells coll lanes rows limit"
  have lanes: "\<forall>r\<in>set (by_order rows). distinct (lanes r)" using assms(2) by simp
  have cell: "filter (\<lambda>x. in_cell x = (g, c)) cells = map (Pair g) (filter (\<lambda>r. is_status_id r = c) (by_order mine))" for c
    using cells_filter [OF lanes, of g "\<lambda>r. is_status_id r = c"]
    by (simp add: cells_def mine_def in_cell_def case_prod_unfold by_order_filter conj_commute)
  have "filter (\<lambda>x. fst x = g) cells = map (Pair g) (by_order mine)"
    using cells_filter [OF lanes, of g "\<lambda>_. True"] by (simp add: cells_def mine_def case_prod_unfold by_order_filter)
  then have lane: "map snd (filter (\<lambda>x. fst x = g) cells) = by_order mine" by (simp add: comp_def)
  then have "length (filter (\<lambda>x. fst x = g) cells) = length (by_order mine)" by (metis length_map)
  then show "count_where (\<lambda>x. fst x = g) cells = length mine" by (simp add: count_where_def by_order_def)
  have part: "map (\<lambda>(m, x). (lm_grp m, lm_status m, x)) (filter (\<lambda>(m, x). P (lm_grp m) (lm_status m)) cards) =
      map (\<lambda>(g, r). (g, is_status_id r, full r)) (filter (\<lambda>(g, r). P g (is_status_id r)) ?shown)" for P
  proof -
    have "filter (\<lambda>(g, c, x). P g c) (map (\<lambda>(m, x). (lm_grp m, lm_status m, x)) cards) =
        map (\<lambda>(m, x). (lm_grp m, lm_status m, x)) (filter (\<lambda>(m, x). P (lm_grp m) (lm_status m)) cards)"
      by (induction cards) auto
    moreover have "filter (\<lambda>(g, c, x). P g c) (map (\<lambda>(g, r). (g, is_status_id r, full r)) xs) =
        map (\<lambda>(g, r). (g, is_status_id r, full r)) (filter (\<lambda>(g, r). P g (is_status_id r)) xs)" for xs
      by (induction xs) auto
    ultimately show ?thesis using metas by metis
  qed
  have cards: "cards_in cards g c = map full (take limit (filter (\<lambda>r. is_status_id r = c) (by_order mine)))" for c
  proof -
    have "cards_in cards g c = map (\<lambda>(g, r). full r) (filter (\<lambda>x. in_cell x = (g, c)) ?shown)"
      using arg_cong [OF part [of "\<lambda>k d. k = g \<and> d = c"], of "map (\<lambda>(g, c, x). x)"]
      by (simp add: cards_in_def comp_def case_prod_unfold in_cell_def)
    then show ?thesis
      by (simp add: shown_cells_filter cell [unfolded cells_def] take_map comp_def)
  qed
  have seen: "lane_statuses cards g = firsts (map (is_status_id \<circ> snd) (filter (\<lambda>x. fst x = g) ?shown))"
    using arg_cong [OF part [of "\<lambda>k d. k = g"], of "map (\<lambda>(g, c, x). c)"]
    by (simp add: lane_statuses_def comp_def case_prod_unfold)
  have sorted: "filter (\<lambda>x. fst x = g) ?shown = by_status (is_status_id \<circ> snd) (filter (\<lambda>x. fst x = g) (first_of_each limit in_cell cells))"
    unfolding shown_cells_def cells_def filter_sort by (subst sort_key_same [where k = "coll g"]) (auto simp: by_status_def filter_sort)
  have "set (map (is_status_id \<circ> snd) (filter (\<lambda>x. fst x = g) (first_of_each limit in_cell cells))) =
      set (map (is_status_id \<circ> snd) (filter (\<lambda>x. fst x = g) cells))"
  proof -
    have "set (map (is_status_id \<circ> snd) (filter (\<lambda>x. fst x = g) xs)) = {c. (g, c) \<in> in_cell ` set xs}" for xs
      by (auto simp: in_cell_def)
    then show ?thesis using first_of_each_keys [OF assms(1), of in_cell cells] by simp
  qed
  also have "\<dots> = set (map is_status_id mine)" using arg_cong [OF lane, of "\<lambda>rs. is_status_id ` set rs"] by (simp add: image_image)
  finally have "lane_statuses cards g = statuses mine" unfolding seen sorted by (rule firsts_statuses)
  moreover have "count_where (\<lambda>x. in_cell x = (g, c)) cells = count_where (\<lambda>r. is_status_id r = c) mine" for c
    unfolding count_where_def cell by (simp add: by_order_def filter_sort)
  ultimately show "map (cell_of (\<lambda>g c. count_where (\<lambda>x. in_cell x = (g, c)) cells) cards g) (lane_statuses cards g) = flat_board full limit mine"
    by (simp add: flat_board_def cell_of_def board_column_def cards)
qed

section \<open>The board as it is answered\<close>

text \<open>Who asks, once the role is known: what \<open>resolve_role\<close> answers on a healthy database.\<close>

definition resolved ::
    "'t tracker_scheme \<Rightarrow> uid \<Rightarrow> ustr option \<Rightarrow> bool \<Rightarrow> (ustr option \<times> uid option \<times> ustr option) option" where
  "resolved s u raw grouping =
     (let role = non_empty (map_option trim raw)
      in if \<not> opt_all is_known role then None
         else if role = None \<and> \<not> grouping then Some (None, None, None)
         else Some (role, Some u, map_option (\<lambda>x. mention_pattern (u_username x)) (find_row (\<lambda>x. has_id u x \<and> live x) (users s))))"

lemma resolve_exact:
  assumes "healthy s"
  shows "\<exists>n. run_state (resolve_role u raw grouping) s = (resolved s u raw grouping, s\<lparr>calls := n\<rparr>)"
proof -
  have "run_state (resolve_role u raw grouping) s = (resolved s u raw grouping, s) \<or>
      run_state (resolve_role u raw grouping) s = (resolved s u raw grouping, s\<lparr>calls := Suc (calls s)\<rparr>)"
    using assms by (simp add: resolve_role_def resolved_def actor_of_def find_by_id_def query_def stmt_def healthy_def Let_def)
  moreover have "s\<lparr>calls := calls s\<rparr> = s" by simp
  ultimately show ?thesis by metis
qed

lemma resolved_calls [simp]: "resolved (s\<lparr>calls := n\<rparr>) = resolved s"
  by (intro ext) (simp add: resolved_def Let_def)

definition named_columns :: "env \<Rightarrow> BoardDataQuery \<Rightarrow> nat list option" where
  "named_columns env q =
     map_option (\<lambda>t. List.map_filter (\<lambda>x. e_uuid_parse env (trim x)) (split_on (\<lambda>c. c = 44) t)) (bq_columns q)"

lemma board_column_limit_pos: "1 \<le> board_column_limit n"
  by (simp add: board_column_limit_def clamp_def)

text \<open>The flat board: the columns of the rows, in the order of their statuses.\<close>

lemma board_data_flat:
  fixes s :: "'t tracker_scheme"
  assumes "healthy s" and "ctx_has ctx IssueView" and "unwrap_or (bq_group q) [] \<in> {[], lit ''none''}"
    and who: "resolved s (cx_actor_id ctx) (fp_my_role q) False = Some w"
    and rows_def: "rows = filter (on_board env cal s (pr_id (cx_project ctx)) (issue_query env q w) (named_columns env q)) (issues s)"
  shows "\<exists>n. run_state (board_data env cal coll ctx q) s =
    (Inr (200, Columns (flat_board (full_issue s) (board_column_limit (bq_column_limit q)) rows), db_now s), s\<lparr>calls := n\<rparr>)"
proof -
  let ?t = "s\<lparr>calls := Suc (calls s)\<rparr>" and ?p = "pr_id (cx_project ctx)" and ?limit = "board_column_limit (bq_column_limit q)"
  have "healthy ?t" using assms(1) by (simp add: healthy_def)
  from resolve_exact [OF this, of "cx_actor_id ctx" "fp_my_role q" False] obtain k where
    role: "run_state (resolve_role (cx_actor_id ctx) (fp_my_role q) False) ?t = (Some w, s\<lparr>calls := k\<rparr>)"
    using who by auto
  let ?u = "s\<lparr>calls := Suc k\<rparr>"
  have "healthy ?u" using assms(1) by (simp add: healthy_def)
  from board_columns_exact [OF this board_column_limit_pos refl] obtain n where
    shown: "run_state (board_columns env cal ?p (issue_query env q w) (named_columns env q) ?limit) ?u =
      (Inr (flat_board (full_issue s) ?limit rows), s\<lparr>calls := n\<rparr>)"
    by (fastforce simp: rows_def flat_board_def)
  have flat: "unwrap_or (bq_group q) [] \<noteq> lit ''my_role''" using assms(3) by (auto simp: lit_def)
  have "run_state (board_data env cal coll ctx q) s =
      (Inr (200, Columns (flat_board (full_issue s) ?limit rows), db_now s), s\<lparr>calls := n\<rparr>)"
    using assms(1-3) role shown flat
    by (auto simp: board_data_def permitted_def ctx_require_def passing_def with_client_def pool_get_def stmt_def as_role_def healthy_def
        Let_def served_def read_db_now_def query_def named_columns_def answer_def unwrap_or_def split: option.splits)
  then show ?thesis by blast
qed

text \<open>The lanes: one for each key some row has, and its columns are the flat board of the rows with that key.\<close>

lemma lanes_of_calls [simp]: "lanes_of env (s\<lparr>calls := n\<rparr>) q lane_by = lanes_of env s q lane_by"
  by (simp add: lanes_of_def Let_def)

lemma lane_rows_exact:
  assumes cells_def: "cells = cells_of lanes (by_order rows)"
  shows "lane_rows coll lanes rows limit = map (\<lambda>(g, r). (r, \<lparr>lm_grp = g, lm_status = is_status_id r,
      lm_cell_total = count_where (\<lambda>x. in_cell x = (g, is_status_id r)) cells, lm_lane_total = count_where (\<lambda>x. fst x = g) cells\<rparr>))
    (shown_cells coll lanes rows limit)"
proof -
  have "(\<lambda>(g, r). (g, is_status_id r)) = in_cell" by (simp add: fun_eq_iff in_cell_def)
  then show ?thesis by (simp add: lane_rows_def shown_cells_def cells_def cells_of_def Let_def in_cell_def)
qed

lemma shown_keys:
  assumes "1 \<le> limit"
  shows "set (map fst (shown_cells coll lanes rows limit)) = (\<Union>r\<in>set rows. set (lanes r))"
proof -
  let ?cells = "cells_of lanes (by_order rows)"
  have "fst ` set xs = fst ` in_cell ` set xs" for xs by (auto simp: in_cell_def image_image)
  then have "fst ` set (first_of_each limit in_cell ?cells) = fst ` set ?cells"
    using first_of_each_keys [OF assms, of in_cell ?cells] by simp
  also have "\<dots> = (\<Union>r\<in>set rows. set (lanes r))" by (auto simp: cells_of_def image_iff)
  finally show ?thesis by (simp add: shown_cells_def)
qed

definition lane_exact :: "'t tracker_scheme \<Rightarrow> (issue_row \<Rightarrow> ustr list) \<Rightarrow> issue_row list \<Rightarrow> nat \<Rightarrow> BoardLane \<Rightarrow> bool" where
  "lane_exact s lanes rows limit l \<longleftrightarrow>
     (let mine = filter (\<lambda>r. bl_key l \<in> set (lanes r)) rows
      in bl_total l = length mine \<and> bl_columns l = flat_board (full_issue s) limit mine)"

lemma board_lanes_exact:
  fixes s :: "'t tracker_scheme"
  assumes "healthy s" and "1 \<le> limit" and rows_def: "rows = filter (on_board env cal s p q columns) (issues s)"
    and lanes: "lanes_of env s q lane_by = Some lanes" and "\<forall>r\<in>set rows. distinct (lanes r)"
  shows "\<exists>ls n. run_state (board_lanes env cal coll p q lane_by columns limit) s = (Inr ls, s\<lparr>calls := n\<rparr>) \<and>
    distinct (map bl_key ls) \<and> set (map bl_key ls) = (\<Union>r\<in>set rows. set (lanes r)) \<and> list_all (lane_exact s lanes rows limit) ls"
proof -
  let ?t = "s\<lparr>calls := Suc (calls s)\<rparr>" and ?shown = "shown_cells coll lanes rows limit" and ?full = "full_issue s"
  let ?cells = "cells_of lanes (by_order rows)"
  let ?ctot = "\<lambda>g c. count_where (\<lambda>x. in_cell x = (g, c)) ?cells" and ?ltot = "\<lambda>g. count_where (\<lambda>x. fst x = g) ?cells"
  let ?meta = "\<lambda>(g, r). \<lparr>lm_grp = g, lm_status = is_status_id r, lm_cell_total = ?ctot g (is_status_id r), lm_lane_total = ?ltot g\<rparr>"
  let ?cards = "map (\<lambda>x. (?meta x, ?full (snd x))) ?shown" and ?rows = "lane_rows coll lanes rows limit"
  have "healthy ?t" using assms(1) by (simp add: healthy_def)
  then obtain n where n: "run_state (hydrate_issue_relations (map row_to_issue (map fst ?rows))) ?t = (Inr (map ?full (map fst ?rows)), ?t\<lparr>calls := n\<rparr>)"
    using hydrate_exact [of ?t "map fst ?rows"] by auto
  have zipped: "zip (map snd ?rows) (map ?full (map fst ?rows)) = ?cards"
    by (simp add: lane_rows_exact [OF refl] zip_map_map zip_same_conv_map comp_def case_prod_unfold)
  have known: "lane_by \<in> {lit ''assignee'', lit ''epic'', lit ''priority'', lit ''component'', lit ''my_role''}"
    using lanes by (auto simp: lanes_of_def split: if_splits)
  have run: "run_state (board_lanes env cal coll p q lane_by columns limit) s = (Inr (build_lanes ?cards), s\<lparr>calls := n\<rparr>)"
    using assms(1) n known zipped
    by (simp add: board_lanes_def andThen_def query_def stmt_def healthy_def lanes rows_def comp_def)
  have "\<forall>(m, x)\<in>set ?cards. lm_lane_total m = ?ltot (lm_grp m) \<and> lm_cell_total m = ?ctot (lm_grp m) (lm_status m)"
    by (auto simp: case_prod_unfold)
  then have built: "build_lanes ?cards = map (lane_of ?ltot ?ctot ?cards) (lane_keys ?cards)" by (rule build_lanes_exact)
  have key: "bl_key \<circ> lane_of ?ltot ?ctot ?cards = id" by (simp add: fun_eq_iff lane_of_def)
  have keys: "lane_keys ?cards = firsts (map fst ?shown)"
    by (simp add: lane_keys_def comp_def case_prod_unfold)
  have "lane_exact s lanes rows limit (lane_of ?ltot ?ctot ?cards g)" for g
  proof -
    have "map (\<lambda>(m, x). (lm_grp m, lm_status m, x)) ?cards = map (\<lambda>(g, r). (g, is_status_id r, ?full r)) ?shown"
      by (simp add: comp_def case_prod_unfold)
    from lane_is_board [OF assms(2,5) refl refl this] show ?thesis
      by (simp add: lane_exact_def Let_def lane_of_def)
  qed
  then have "list_all (lane_exact s lanes rows limit) (build_lanes ?cards)" by (simp add: built list_all_iff)
  moreover have "map bl_key (build_lanes ?cards) = firsts (map fst ?shown)" by (simp add: built key keys)
  ultimately show ?thesis
    using shown_keys [OF assms(2), of coll lanes rows]
    by (intro exI [of _ "build_lanes ?cards"] exI [of _ n] conjI run) (simp_all only: distinct_firsts set_firsts)
qed

text \<open>The roles as lanes.\<close>

lemma role_lanes_distinct: "distinct (role_lanes (MY_ROLE_PREDICATES env s actor mention) r)"
proof -
  have "distinct (map fst (filter P xs))" if "distinct (map fst xs)" for P and xs :: "(ustr \<times> (issue_row \<Rightarrow> bool)) list"
    using that by (rule distinct_map_filter)
  moreover have "distinct (map fst (MY_ROLE_PREDICATES env s actor mention))" by (simp add: MY_ROLE_PREDICATES_def lit_def)
  ultimately show ?thesis by (simp add: role_lanes_def)
qed

lemma role_name_known:
  assumes "g \<in> set [lit ''watching'', lit ''assignee'', lit ''qa'', lit ''reviewer'', lit ''reporter'', lit ''mentioned'']"
  shows "g \<noteq> lit ''any''" and "is_known g" and "non_empty (Some (trim g)) = Some g"
proof -
  show "g \<noteq> lit ''any''" using assms by (auto simp: lit_def)
  show "is_known g" using assms by (auto simp: is_known_def)
  have "\<forall>x\<in>set [lit ''watching'', lit ''assignee'', lit ''qa'', lit ''reviewer'', lit ''reporter'', lit ''mentioned''].
      non_empty (Some (trim x)) = Some x"
    by (simp add: lit_def trim_def trim_by_def is_white_def non_empty_def)
  with assms show "non_empty (Some (trim g)) = Some g" by blast
qed

lemma my_role_is_lane: "g \<noteq> lit ''any'' \<Longrightarrow> my_role_filter preds (Some g) r \<longleftrightarrow> g \<in> set (role_lanes preds r)"
  by (force simp: my_role_filter_def role_lanes_def list_ex_iff)

lemma on_board_role:
  assumes "iq_my_role q = None" and "g \<noteq> lit ''any''"
  shows "on_board env cal s p (q\<lparr>iq_my_role := Some g\<rparr>) columns r \<longleftrightarrow>
    on_board env cal s p q columns r \<and> g \<in> set (role_lanes (role_preds env s q) r)"
proof -
  have "role_preds env s (q\<lparr>iq_my_role := Some g\<rparr>) = role_preds env s q" by (simp add: role_preds_def)
  moreover have "my_role_filter preds None x" for preds x by (simp add: my_role_filter_def)
  ultimately show ?thesis
    using assms by (auto simp: on_board_def issue_filter_def my_role_is_lane)
qed

lemma board_data_lanes:
  fixes s :: "'t tracker_scheme"
  assumes "healthy s" and "ctx_has ctx IssueView" and "bq_group q = Some g" and "g \<noteq> []" and "g \<noteq> lit ''none''"
    and who: "resolved s (cx_actor_id ctx) (fp_my_role q) (g = lit ''my_role'') = Some w"
    and rows_def: "rows = filter (on_board env cal s (pr_id (cx_project ctx)) (issue_query env q w) (named_columns env q)) (issues s)"
    and lanes: "lanes_of env s (issue_query env q w) g = Some lanes" and "\<forall>r\<in>set rows. distinct (lanes r)"
  shows "\<exists>ls n. run_state (board_data env cal coll ctx q) s = (Inr (200, Lanes g ls, db_now s), s\<lparr>calls := n\<rparr>) \<and>
    distinct (map bl_key ls) \<and> set (map bl_key ls) = (\<Union>r\<in>set rows. set (lanes r)) \<and>
    list_all (lane_exact s lanes rows (board_column_limit (bq_column_limit q))) ls"
proof -
  let ?t = "s\<lparr>calls := Suc (calls s)\<rparr>" and ?p = "pr_id (cx_project ctx)" and ?limit = "board_column_limit (bq_column_limit q)"
  have "healthy ?t" using assms(1) by (simp add: healthy_def)
  from resolve_exact [OF this, of "cx_actor_id ctx" "fp_my_role q" "g = lit ''my_role''"] obtain k where
    role: "run_state (resolve_role (cx_actor_id ctx) (fp_my_role q) (g = lit ''my_role'')) ?t = (Some w, s\<lparr>calls := k\<rparr>)"
    using who by auto
  let ?u = "s\<lparr>calls := Suc k\<rparr>"
  have u: "healthy ?u" using assms(1) by (simp add: healthy_def)
  have exact: "lane_exact ?u = lane_exact s" by (simp add: fun_eq_iff lane_exact_def)
  have "lanes_of env ?u (issue_query env q w) g = Some lanes"
    "rows = filter (on_board env cal ?u ?p (issue_query env q w) (named_columns env q)) (issues ?u)" using lanes rows_def by simp_all
  from board_lanes_exact [OF u board_column_limit_pos [of "bq_column_limit q"] this(2,1) assms(9), where coll = coll, unfolded exact] obtain ls n where
    shown: "run_state (board_lanes env cal coll ?p (issue_query env q w) g (named_columns env q) ?limit) ?u = (Inr ls, s\<lparr>calls := n\<rparr>)"
    and ls: "distinct (map bl_key ls)" "set (map bl_key ls) = (\<Union>r\<in>set rows. set (lanes r))" "list_all (lane_exact s lanes rows ?limit) ls"
    by auto
  have "run_state (board_data env cal coll ctx q) s = (Inr (200, Lanes g ls, db_now s), s\<lparr>calls := n\<rparr>)"
    using assms(1-5) role shown
    by (simp add: board_data_def permitted_def ctx_require_def passing_def with_client_def pool_get_def stmt_def as_role_def healthy_def
        Let_def served_def read_db_now_def query_def named_columns_def answer_def unwrap_or_def)
  then show ?thesis using ls by blast
qed

section \<open>The claims\<close>

text \<open>
  C29: A board without lanes is exact: on a healthy database the answer has, in the order of the statuses, one column
  for each status that some top-level issue matching the filter has, with the number of these issues and the first
  of them in the order of the backlog, at most as many as the column limit, with all their relations.
\<close>

theorem board_columns_counted:
  fixes s :: "'t tracker_scheme"
  assumes "healthy s" and "ctx_has ctx IssueView" and "unwrap_or (bq_group q) [] \<in> {[], lit ''none''}"
    and "resolved s (cx_actor_id ctx) (fp_my_role q) False = Some w"
    and "rows = filter (on_board env cal s (pr_id (cx_project ctx)) (issue_query env q w) (named_columns env q)) (issues s)"
  shows "\<exists>n. run_state (board_data env cal coll ctx q) s =
    (Inr (200, Columns (flat_board (full_issue s) (board_column_limit (bq_column_limit q)) rows), db_now s), s\<lparr>calls := n\<rparr>)"
  by (rule board_data_flat [OF assms])

definition role_names :: "ustr list" where
  "role_names = [lit ''watching'', lit ''assignee'', lit ''qa'', lit ''reviewer'', lit ''reporter'', lit ''mentioned'']"

definition lane_columns :: "ustr \<Rightarrow> BoardLane list \<Rightarrow> BoardColumn list" where
  "lane_columns g ls = (case find_row (\<lambda>l. bl_key l = g) ls of None \<Rightarrow> [] | Some l \<Rightarrow> bl_columns l)"

text \<open>
  C28: The board grouped by my role and the board filtered by it agree: on a healthy database, for each of the six
  roles, the lane of the grouped board has the columns, with their totals and cards, that the same request answers
  without lanes when it is filtered by that role, and a role without a lane is one whose filtered board is empty.
\<close>

theorem my_role_lanes_agree:
  fixes s :: "'t tracker_scheme"
  assumes "healthy s" and "ctx_has ctx IssueView" and "bq_group q = Some (lit ''my_role'')" and "fp_my_role q = None"
  shows "\<exists>ls n. run_state (board_data env cal coll ctx q) s = (Inr (200, Lanes (lit ''my_role'') ls, db_now s), s\<lparr>calls := n\<rparr>) \<and>
    distinct (map bl_key ls) \<and> set (map bl_key ls) \<subseteq> set role_names \<and>
    list_all (\<lambda>g. \<exists>m. run_state (board_data env cal coll ctx (q\<lparr>bq_group := None, fp_my_role := Some g\<rparr>)) s =
      (Inr (200, Columns (lane_columns g ls), db_now s), s\<lparr>calls := m\<rparr>)) role_names"
proof -
  let ?p = "pr_id (cx_project ctx)" and ?limit = "board_column_limit (bq_column_limit q)"
  let ?mention = "map_option (\<lambda>x. mention_pattern (u_username x)) (find_row (\<lambda>x. has_id (cx_actor_id ctx) x \<and> live x) (users s))"
  let ?w = "(None, Some (cx_actor_id ctx), ?mention)" and ?w' = "\<lambda>g. (Some g, Some (cx_actor_id ctx), ?mention)"
  let ?iq = "issue_query env q ?w" and ?q = "\<lambda>g. q\<lparr>bq_group := None, fp_my_role := Some g\<rparr>"
  let ?lanes = "role_lanes (role_preds env s ?iq)"
  let ?rows = "filter (on_board env cal s ?p ?iq (named_columns env q)) (issues s)"
  have who: "resolved s (cx_actor_id ctx) (fp_my_role q) (lit ''my_role'' = lit ''my_role'') = Some ?w"
    using assms(4) by (simp add: resolved_def non_empty_def opt_all_def Let_def)
  have lanes: "lanes_of env s ?iq (lit ''my_role'') = Some ?lanes" by (simp add: lanes_of_def lit_def)
  have apart: "\<forall>r\<in>set ?rows. distinct (?lanes r)" by (simp add: role_preds_def role_lanes_distinct)
  have named: "lit ''my_role'' \<noteq> []" "lit ''my_role'' \<noteq> lit ''none''" by (simp_all add: lit_def)
  from board_data_lanes [OF assms(1-3) named who refl lanes apart, where coll = coll] obtain ls n where
    run: "run_state (board_data env cal coll ctx q) s = (Inr (200, Lanes (lit ''my_role'') ls, db_now s), s\<lparr>calls := n\<rparr>)"
    and ls: "distinct (map bl_key ls)" "set (map bl_key ls) = (\<Union>r\<in>set ?rows. set (?lanes r))" "list_all (lane_exact s ?lanes ?rows ?limit) ls"
    by (elim exE conjE) (rule that)
  have roles: "set (?lanes r) \<subseteq> set role_names" for r
    by (auto simp: role_preds_def role_lanes_def MY_ROLE_PREDICATES_def role_names_def)
  have "\<exists>m. run_state (board_data env cal coll ctx (?q g)) s = (Inr (200, Columns (lane_columns g ls), db_now s), s\<lparr>calls := m\<rparr>)"
    if g: "g \<in> set role_names" for g
  proof -
    have same: "issue_query env (?q g) (?w' g) = ?iq\<lparr>iq_my_role := Some g\<rparr>" "named_columns env (?q g) = named_columns env q"
      by (simp_all add: issue_query_def named_columns_def)
    note name = role_name_known [OF g [unfolded role_names_def]]
    have "resolved s (cx_actor_id ctx) (fp_my_role (?q g)) False = Some (?w' g)"
      using name by (simp add: resolved_def opt_all_def Let_def)
    note asked = this
    have "iq_my_role ?iq = None" by (simp add: issue_query_def)
    note narrowed = on_board_role [OF this name(1), of env cal s ?p "named_columns env q"]
    have "filter (\<lambda>r. g \<in> set (?lanes r)) ?rows = filter (on_board env cal s ?p (issue_query env (?q g) (?w' g)) (named_columns env (?q g))) (issues s)"
      unfolding same filter_filter by (rule filter_cong [OF refl]) (use narrowed in blast)
    from board_data_flat [OF assms(1,2) _ asked this, where coll = coll] obtain m where
      flat: "run_state (board_data env cal coll ctx (?q g)) s =
        (Inr (200, Columns (flat_board (full_issue s) ?limit (filter (\<lambda>r. g \<in> set (?lanes r)) ?rows)), db_now s), s\<lparr>calls := m\<rparr>)"
      by (auto simp: unwrap_or_def)
    have "flat_board (full_issue s) ?limit (filter (\<lambda>r. g \<in> set (?lanes r)) ?rows) = lane_columns g ls"
    proof (cases "find_row (\<lambda>l. bl_key l = g) ls")
      case None
      then have "g \<notin> set (map bl_key ls)" by (auto simp: find_row_def find_None_iff)
      then have "filter (\<lambda>r. g \<in> set (?lanes r)) ?rows = []" using ls(2) by (auto simp: filter_empty_conv)
      then show ?thesis using None by (simp add: lane_columns_def flat_board_def statuses_def)
    next
      case (Some l)
      then have "l \<in> set ls" "bl_key l = g" by (auto simp: find_row_def find_Some_iff)
      then show ?thesis using ls(3) Some by (auto simp: list_all_iff lane_exact_def Let_def lane_columns_def)
    qed
    then show ?thesis using flat by auto
  qed
  then show ?thesis using run ls(1,2) roles by (intro exI [of _ ls] exI [of _ n]) (auto simp: list_all_iff)
qed

section \<open>A concrete board\<close>

definition demo_board_query :: "ustr option \<Rightarrow> BoardDataQuery" where
  "demo_board_query grouping =
     \<lparr>fp_search = None, fp_status_id = None, fp_type_id = None, fp_priority_id = None, fp_size_id = None, fp_assignee = None,
      fp_qa_assignee = None, fp_involved = None, fp_release = None, fp_epic = None, fp_milestone = None, fp_label = None,
      fp_component = None, fp_category = None, fp_customer = None, fp_overdue = None, fp_my_role = None,
      bq_group = grouping, bq_columns = None, bq_column_limit = Some 2\<rparr>"

lemma board_columns_counted_witness:
  "\<exists>n. run_state (board_data demo_env gregorian (\<lambda>_. 0) demo_ctx (demo_board_query None)) demo_tracker =
     (Inr (200, Columns [\<lparr>bc_status_id = None, bc_total = 3,
        bc_cards = map (full_issue demo_tracker) [demo_issue 60 1 1 (Some 50), demo_issue 61 2 2 None]\<rparr>], 1000), demo_tracker\<lparr>calls := n\<rparr>)"
proof -
  let ?w = "(None, None, None) :: ustr option \<times> uid option \<times> ustr option"
  have asked: "resolved demo_tracker 7 (fp_my_role (demo_board_query None)) False = Some ?w"
    by (simp add: resolved_def demo_board_query_def non_empty_def opt_all_def)
  have shown: "on_board demo_env gregorian demo_tracker 5 (issue_query demo_env (demo_board_query None) ?w) (named_columns demo_env (demo_board_query None)) r"
    if "r \<in> set (issues demo_tracker)" for r
    using that
    by (auto simp: on_board_def issue_filter_def issue_query_def demo_board_query_def named_columns_def opt_all_def opt_uuid_def opt_nonempty_def
        non_empty_def ref_filter_def customer_filter_def id_matches_def ref_matches_def involved_matches_def release_matches_def
        customer_matches_def search_matches_def my_role_filter_def unwrap_or_def Let_def)
  have rows: "issues demo_tracker = filter (on_board demo_env gregorian demo_tracker (pr_id (cx_project demo_ctx))
      (issue_query demo_env (demo_board_query None) ?w) (named_columns demo_env (demo_board_query None))) (issues demo_tracker)"
    using shown by (simp add: filter_id_conv [THEN iffD2])
  have board: "flat_board f 2 (issues demo_tracker) = [\<lparr>bc_status_id = None, bc_total = 3,
      bc_cards = map f [demo_issue 60 1 1 (Some 50), demo_issue 61 2 2 None]\<rparr>]" for f
    by (simp add: flat_board_def statuses_def board_column_def count_where_def by_order_def numeral_eq_Suc)
  have limit: "board_column_limit (bq_column_limit (demo_board_query None)) = 2"
    by (simp add: board_column_limit_def clamp_def demo_board_query_def unwrap_or_def)
  have start: "healthy demo_tracker" "ctx_has demo_ctx IssueView" "unwrap_or (bq_group (demo_board_query None)) [] \<in> {[], lit ''none''}"
    "resolved demo_tracker (cx_actor_id demo_ctx) (fp_my_role (demo_board_query None)) False = Some ?w" "db_now demo_tracker = 1000"
    using asked by (simp_all add: demo_board_query_def unwrap_or_def)
  show ?thesis
    by (rule board_columns_counted [OF start(1-4) rows, unfolded limit board start(5)])
qed

lemma my_role_lanes_agree_witness:
  "\<exists>ls n. run_state (board_data demo_env gregorian (\<lambda>_. 0) demo_ctx (demo_board_query (Some (lit ''my_role'')))) demo_tracker =
       (Inr (200, Lanes (lit ''my_role'') ls, 1000), demo_tracker\<lparr>calls := n\<rparr>) \<and>
     distinct (map bl_key ls) \<and> set (map bl_key ls) \<subseteq> set role_names \<and>
     list_all (\<lambda>g. \<exists>m. run_state (board_data demo_env gregorian (\<lambda>_. 0) demo_ctx
         ((demo_board_query (Some (lit ''my_role'')))\<lparr>bq_group := None, fp_my_role := Some g\<rparr>)) demo_tracker =
       (Inr (200, Columns (lane_columns g ls), 1000), demo_tracker\<lparr>calls := m\<rparr>)) role_names"
  using my_role_lanes_agree [of demo_tracker demo_ctx "demo_board_query (Some (lit ''my_role''))" demo_env gregorian "\<lambda>_. 0"]
  by (simp only: demo_tracker_fields) (simp add: demo_board_query_def)

end
