(* ===== verification/Spec2Isabelle.thy ===== *)
theory Spec2Isabelle
  imports Wire_Enums Perms Doc_Path Storage Admin_Correct Backlog_Safety Time_Exact Board_Contents
begin

text \<open>
  IntelliPilot is a project-management server: accounts sign in (password, directory, second factor),
  hold sessions made of rotating refresh tokens, and work in projects whose members have roles and whose
  backlog holds epics, issues and milestones, and on which they book their time; the
  HTTP handlers (\<open>crates/api\<close>) call the database layer (\<open>crates/db\<close>) over PostgreSQL, the domain types
  and rules (\<open>crates/core\<close>), the credential routines (\<open>crates/auth\<close>) and the object store
  (\<open>crates/storage\<close>). This development models those layers from the credential routines up to the
  handlers, and states what keeps the server safe: who gets a session, whom a request may act as, what a
  caller may do in a project, that no operation locks everyone out, and that stored bytes and names stay
  where they belong.

  \<^bold>\<open>Parts and theories.\<close>

  \<^item> \<^theory_text>\<open>Prelude\<close>: Rust text as lists of scalar values, tables as lists of rows, the hint collections.
  \<^item> \<^theory_text>\<open>Wire_Enums\<close> (\<open>core/src/*.rs\<close>): the string enumerations; the locales \<open>wire_codec\<close> and
    \<open>lossy_codec\<close>, interpreted for each of them, say that the parser accepts exactly the rendered strings.
  \<^item> \<^theory_text>\<open>Perms\<close> (\<open>core/src/perms.rs\<close>): the 66 permissions, the superadmin grant and the seeded roles.
  \<^item> \<^theory_text>\<open>Path_Jail\<close>, \<^theory_text>\<open>Doc_Path\<close> (\<open>core/src/docs/path.rs\<close>): path normalization for documentation
    sources against the depth of a segment list; the locale \<open>plain_path\<close>.
  \<^item> \<^theory_text>\<open>Encoding\<close> (\<open>auth/src\<close>): byte encoders, refresh and app tokens, recovery codes, password policy,
    secrets at rest, typed tokens.
  \<^item> \<^theory_text>\<open>Storage\<close> (\<open>storage/src\<close>): names, keys, and the store on a file system whose calls may fail; the
    locale \<open>object_store\<close> is the contract of the trait, refined by the disk store.
  \<^item> \<^theory_text>\<open>Db_Monad\<close>: statements against the database as a state monad with failing statements, weakest
    preconditions, and the locale \<open>evolution\<close> for what no handler ever undoes.
  \<^item> \<^theory_text>\<open>Sticky\<close>: the contracts \<open>single_use\<close> (a compare-and-set marks a key at most once) and
    \<open>roster_guard\<close> (an operation takes power from its target only and never from the last holder).
  \<^item> \<^theory_text>\<open>Accounts\<close> (\<open>db/src/users.rs\<close>), \<^theory_text>\<open>Sessions\<close> (\<open>sessions.rs\<close>, \<open>recovery.rs\<close>,
    \<open>password_reset.rs\<close>, \<open>login_attempts.rs\<close>, \<open>platform_invitations.rs\<close>, \<open>personal_tokens.rs\<close>,
    \<open>audit.rs\<close>): the identity tables and their statements.
  \<^item> \<^theory_text>\<open>Login\<close>, \<^theory_text>\<open>Refresh\<close> (\<open>api/src/auth/handlers.rs\<close>), \<^theory_text>\<open>Second_Factor\<close>
    (\<open>api/src/mfa.rs\<close>, the resets of \<open>handlers.rs\<close>, the password change of \<open>me.rs\<close>): the handlers.
    \<^theory_text>\<open>Login_Correct\<close> holds what signing in guarantees.
  \<^item> \<^theory_text>\<open>Gate\<close> (\<open>api/src/auth/extractor.rs\<close>, \<open>presence.rs\<close>, \<open>db/src/app_tokens.rs\<close>): whom a request acts
    as, with the cache of account statuses. \<^theory_text>\<open>Rate_Limit\<close> (\<open>middleware/rate_limit.rs\<close>): the budget.
  \<^item> \<^theory_text>\<open>Projects_Db\<close> (\<open>db/src/projects.rs\<close>, \<open>roles.rs\<close>, \<open>memberships.rs\<close>, \<open>invitations.rs\<close>),
    \<^theory_text>\<open>Projects\<close> (\<open>api/src/projects.rs\<close>): project tables, the project context, the handlers.
    \<^theory_text>\<open>Project_Access\<close> and \<^theory_text>\<open>Project_Admins\<close>: what a project request may do, and that, while the
    database answers and no invitation is accepted, no sequence of them takes a project's last administrator.
  \<^item> \<^theory_text>\<open>Admin\<close> (\<open>api/src/admin/handlers.rs\<close>), \<^theory_text>\<open>Admin_Correct\<close>: the administration pages.

  \<^item> \<^theory_text>\<open>Ranks\<close> (\<open>core/src/ordering.rs\<close>): the order of reorderable lists by \<open>f64\<close> ranks, rounded as
    IEEE doubles; the locale \<open>rank_table\<close> is what a move relies on.
  \<^item> \<^theory_text>\<open>Tracker_Db\<close> (\<open>db/src/backlog.rs\<close>, \<open>taxonomy.rs\<close>, \<open>labels.rs\<close>, \<open>components.rs\<close>,
    \<open>issue_links.rs\<close>, \<open>issue_watchers.rs\<close>, \<open>comments.rs\<close>, \<open>history.rs\<close>, \<open>idempotency.rs\<close> and the triggers of
    \<open>db/migrations\<close>), \<^theory_text>\<open>Catalog_Api\<close> (\<open>api/src/taxonomy.rs\<close>, \<open>catalog.rs\<close>, \<open>issue_relations.rs\<close>),
    \<^theory_text>\<open>Milestones\<close> (\<open>api/src/milestones.rs\<close>, \<open>db/src/milestones.rs\<close>), \<^theory_text>\<open>Tracker\<close> and
    \<^theory_text>\<open>Issues\<close> (\<open>api/src/backlog.rs\<close>): the backlog of a project.
  \<^item> \<^theory_text>\<open>Backlog_Steps\<close>: every backlog request is made of small changes; the locales \<open>calls_evolution\<close>,
    \<open>backlog_core\<close>, \<open>backlog_editing\<close> and \<open>backlog_evolution\<close>, each for more of the requests. \<^theory_text>\<open>Backlog_Correct\<close> interprets them for versions, references and
    milestones, and \<^theory_text>\<open>Backlog_Safety\<close> states the guarantees (with \<^theory_text>\<open>Backlog_Demo\<close>, a concrete backlog).

  \<^item> \<^theory_text>\<open>Calendar\<close>: what the time tracking uses of dates, as a record of functions with its laws, and the
    Gregorian calendar that satisfies them. \<^theory_text>\<open>Time_Db\<close>, \<^theory_text>\<open>Time_Reports\<close>
    (\<open>db/src/time_tracking.rs\<close>, \<open>core/src/time_tracking.rs\<close>): entries, bookings, locked months, allowances; the
    summaries and team views. \<^theory_text>\<open>Time_Api\<close> (own time) and \<^theory_text>\<open>Time_Team\<close> (project,
    administration, exports): the handlers of \<open>api/src/time_tracking.rs\<close>. \<^theory_text>\<open>Time_Locks\<close> and
    \<^theory_text>\<open>Time_Safety\<close>: what a locked month keeps, under requests on the backlog too; \<^theory_text>\<open>Time_Exact\<close>: what is booked,
    counted, shown and exported.

  \<^item> \<^theory_text>\<open>Boards\<close> (\<open>api/src/boards.rs\<close>, \<open>db/src/boards.rs\<close>): the boards of a project, their keys
    and short links; \<^theory_text>\<open>Boards_Correct\<close>: the search for a free key ends, a personal board stays private under the
    requests on boards,
    and a renamed board is found under its old key.
  \<^item> \<^theory_text>\<open>Issue_Lists\<close> (\<open>api/src/backlog.rs\<close>, \<open>my_role.rs\<close>, \<open>boards.rs\<close>, \<open>db/src/backlog.rs\<close>): the
    filter of the issue lists, the pages, the delta feed, and the contents of a board by columns and lanes, with the
    window functions of the queries and the loops over their rows. \<^theory_text>\<open>Issue_Lists_Correct\<close>: a client
    that follows the feed catches up, and when it does not. \<^theory_text>\<open>Board_Contents\<close>: the columns and lanes
    against a direct description.

  \<^bold>\<open>State.\<close> One record grows with the layers: \<open>base\<close> (failing statements, the two clocks, the random
  draws, fresh ids), \<open>world\<close> (the identity tables), \<open>node\<close> (the memory of one server process: the
  status cache, the monotonic clock, the app tokens), \<open>store\<close> (the project tables), \<open>tracker\<close> (the backlog
  tables, the published events and the time entries, whose links to issues a purge clears), \<open>timesheets\<close> (the other
  tables of the time tracking), \<open>kanban\<close> (the old keys of boards and the last opened
  ones). A row is a record
  with the columns the code reads; a transaction is one statement. Fresh ids come from one counter. A
  handler is a function of the request and the state to a response and a state: a refusal, an early
  return and a failing statement are branches. \<open>faults k\<close> says whether the k-th statement of a run
  fails, so a property without a hypothesis on it holds under every pattern of failures, and \<open>healthy\<close>
  states have none.

  \<^bold>\<open>Parameters.\<close> Code of other crates is an argument, collected in the record \<open>env\<close>: SHA-256, Argon2id,
  zxcvbn, Paseto, ChaCha20-Poly1305, TOTP, the directory client, the country lookup, Unicode case maps,
  the textual forms of ids and addresses. What the code relies on of them is a hypothesis of the property
  that needs it, and its witness gives a concrete function.

  \<^bold>\<open>Bounds and fuel.\<close> The search for a free user name follows the code's own bound of attempts; the
  loop over the days of a booking runs at most 367 times (\<open>booking_ends\<close>), the loop over the days of a month
  ends at the end of the month. The search for a free board key, a loop without a bound in the code, has the fuel of all
  32-bit numbers, and \<open>board_created\<close> shows that it ends long before; the client \<open>follow\<close> of the delta feed has the
  fuel its theorem names. The other loops recurse on their data. A panic, which aborts the
  release build, is the refusal \<open>aborted\<close> with status 0. The counters of the rate limiter are 32-bit words and saturate;
  bytes are 8-bit words; ids, times and counts of rows are unbounded numbers. A rank is the rational a double stands for.

  \<^bold>\<open>Interleaving.\<close> The statements of \<open>single_use\<close> stores are proved safe under any interleaving of
  statements; whole requests are sequences. Where the code reads and writes in two statements, the
  development shows what an interleaving can do (\<open>late_store_survives_invalidate\<close>, \<open>demotions_race\<close>).

  \<^bold>\<open>Not modelled.\<close> The cascade of a project's or an account's deletion to the backlog, the boards and the time entries; documentation, wiki, meetings, releases, OpenID Connect and passkeys, search and dashboards, uploads, notifications and mail,
  settings other than the sign-in switches, and the wiring of the server. Git, WebAuthn, rendering and
  archive formats are external crates, whose callers contain little else.
\<close>

end
